(* ===== verification/Prelude.thy ===== *)
theory Prelude
  imports Main "HOL-Library.AList" "HOL-Library.List_Lexorder" "HOL-Library.Char_ord"
    "HOL-Library.Product_Lexorder"
begin

text \<open>
  Shared vocabulary of the development: the exceptions the services raise, results as sums,
  Python dictionaries as insertion-ordered association lists, and the string predicates the
  services use.  The collections \<open>dict_simps\<close> and \<open>guard_splits\<close> carry most component proofs.
\<close>

named_theorems dict_simps "rewrite rules for dictionary lookups after updates"
named_theorems guard_splits "case splits for guard chains"

section \<open>Exceptions and results\<close>

text \<open>One constructor per exception class raised by the modelled code; the payload is the message; an
  \<open>OAuthError\<close> of the MCP library also has its error code, a \<open>GithubException\<close> the status of the answer.\<close>

datatype py_err =
    KeyError string
  | ValueError string
  | TypeError string
  | RuntimeError string
  | TimeoutError string
  | HTTPException nat string
  | DatabaseUnavailable string
  | CircuitRecoveryRequired string
  | ProbeRequestConflict string
  | QueryRejected string
  | OAuthError string string
  | AttributeError string
  | ReleaseCloudBuildError string
  | ReleaseOrchestratorError string
  | ReleaseAuthorizationError string
  | GitHubReleaseConflict string
  | ReleaseWorkflowIdentityError string
  | GithubException int string
  | QualityEvidenceConflict string
  | CommandFailure string
  | AutomaticRollback string
  | FileExistsError string
  | OSError string
  | IndexError string

type_synonym 'a result = "py_err + 'a"

lemmas result_splits [guard_splits] = if_splits option.splits sum.splits prod.splits

definition is_ok :: "'a result \<Rightarrow> bool" where
  "is_ok r = (case r of Inl _ \<Rightarrow> False | Inr _ \<Rightarrow> True)"

lemma is_ok_simps [simp]: "\<not> is_ok (Inl e)" "is_ok (Inr x)"
  by (simp_all add: is_ok_def)

definition map_result :: "('a \<Rightarrow> 'b) \<Rightarrow> 'a result \<Rightarrow> 'b result" where
  "map_result f r = (case r of Inl e \<Rightarrow> Inl e | Inr x \<Rightarrow> Inr (f x))"

lemma map_result_simps [simp]:
  "map_result f (Inl e) = Inl e" "map_result f (Inr x) = Inr (f x)"
  by (simp_all add: map_result_def)

lemma map_result_Inr: "map_result f r = Inr y \<longleftrightarrow> (\<exists>x. r = Inr x \<and> y = f x)"
  by (cases r) auto

text \<open>One computation after another.\<close>

definition then_result :: "'a result \<Rightarrow> ('a \<Rightarrow> 'b result) \<Rightarrow> 'b result" where
  "then_result r f = (case r of Inl e \<Rightarrow> Inl e | Inr x \<Rightarrow> f x)"

lemma then_result_simps [simp]: "then_result (Inl e) f = Inl e" "then_result (Inr x) f = f x"
  by (simp_all add: then_result_def)

lemma then_result_Inr: "then_result r f = Inr y \<longleftrightarrow> (\<exists>x. r = Inr x \<and> f x = Inr y)"
  by (cases r) auto

text \<open>
  A chain of checks: \<open>raise_if c e\<close> is \<open>if c: raise e\<close>, and the first check that raises decides.
\<close>

definition raise_if :: "bool \<Rightarrow> py_err \<Rightarrow> unit result" where
  "raise_if c e = (if c then Inl e else Inr ())"

fun first_error :: "unit result list \<Rightarrow> unit result" where
  "first_error [] = Inr ()"
| "first_error (r # rs) = (case r of Inl e \<Rightarrow> Inl e | Inr _ \<Rightarrow> first_error rs)"

definition guarded :: "unit result list \<Rightarrow> 'a result \<Rightarrow> 'a result" where
  "guarded checks r = (case first_error checks of Inl e \<Rightarrow> Inl e | Inr _ \<Rightarrow> r)"

lemma raise_if_Inr [simp]: "raise_if c e = Inr u \<longleftrightarrow> \<not> c"
  by (simp add: raise_if_def)

lemma raise_if_Inl [simp]: "raise_if c e = Inl e' \<longleftrightarrow> c \<and> e' = e"
  by (auto simp: raise_if_def)

lemma first_error_Inr: "first_error rs = Inr u \<longleftrightarrow> (\<forall>r \<in> set rs. r = Inr ())"
  by (induction rs) (auto split: sum.splits)

lemma first_error_Cons_Inr [simp]:
  "first_error (r # rs) = Inr u \<longleftrightarrow> r = Inr () \<and> first_error rs = Inr ()"
  by (auto split: sum.splits)

lemma first_error_Nil_Inr [simp]: "first_error [] = Inr u"
  by simp

lemma first_error_Inl_mem: "first_error rs = Inl e \<Longrightarrow> Inl e \<in> set rs"
  by (induction rs) (auto split: sum.splits)

lemma first_error_append:
  "first_error (rs @ ss) = (case first_error rs of Inl e \<Rightarrow> Inl e | Inr _ \<Rightarrow> first_error ss)"
  by (induction rs) (auto split: sum.splits)

lemma guarded_Inr: "guarded checks r = Inr x \<longleftrightarrow> (\<forall>c \<in> set checks. c = Inr ()) \<and> r = Inr x"
proof (cases "first_error checks")
  case (Inl e)
  then show ?thesis by (auto simp: guarded_def dest: first_error_Inl_mem)
next
  case (Inr u)
  moreover from Inr have "\<forall>c \<in> set checks. c = Inr ()" by (simp add: first_error_Inr)
  ultimately show ?thesis by (simp add: guarded_def)
qed

lemma guarded_Inl_cases:
  assumes "guarded checks r = Inl e"
  shows "Inl e \<in> set checks \<or> (first_error checks = Inr () \<and> r = Inl e)"
  using assms by (auto simp: guarded_def dest: first_error_Inl_mem split: sum.splits)

declare first_error.simps [simp del]

section \<open>Dictionaries\<close>

text \<open>
  A Python dictionary keeps insertion order: assigning an existing key keeps its place, a new key
  goes last.  \<open>AList.update\<close> does exactly this.
\<close>

type_synonym 'v dict = "(string \<times> 'v) list"

abbreviation dict_set :: "string \<Rightarrow> 'v \<Rightarrow> 'v dict \<Rightarrow> 'v dict" where
  "dict_set k v d \<equiv> AList.update k v d"

definition has_key :: "'v dict \<Rightarrow> string \<Rightarrow> bool" where
  "has_key d k = (map_of d k \<noteq> None)"

fun dict_update :: "'v dict \<Rightarrow> 'v dict \<Rightarrow> 'v dict" where
  "dict_update d [] = d"
| "dict_update d ((k, v) # cs) = dict_update (dict_set k v d) cs"

definition dict_pop :: "string \<Rightarrow> 'v dict \<Rightarrow> 'v dict" where
  "dict_pop k d = filter (\<lambda>kv. fst kv \<noteq> k) d"

lemma map_of_dict_set [dict_simps]: "map_of (dict_set k v d) = (map_of d)(k \<mapsto> v)"
  by (rule update_conv')

lemma map_of_dict_update_rev: "map_of (dict_update d cs) = map_of d ++ map_of (rev cs)"
proof (induction d cs rule: dict_update.induct)
  case (2 d k v cs)
  then show ?case
    by (auto simp: dict_simps map_add_def fun_eq_iff split: option.splits)
qed simp

lemma map_of_rev_distinct: "distinct (map fst cs) \<Longrightarrow> map_of (rev cs) = map_of cs"
  by (metis distinct_rev map_of_inject_set rev_map set_rev)

lemma map_of_dict_update:
  "distinct (map fst cs) \<Longrightarrow>
   map_of (dict_update d cs) k = (case map_of cs k of None \<Rightarrow> map_of d k | Some v \<Rightarrow> Some v)"
  by (simp add: map_of_dict_update_rev map_of_rev_distinct map_add_def)

lemma map_of_dict_update_notin:
  "k \<notin> fst ` set cs \<Longrightarrow> map_of (dict_update d cs) k = map_of d k"
  by (induction d cs rule: dict_update.induct) (auto simp: dict_simps)

lemma map_of_dict_pop [dict_simps]: "map_of (dict_pop k d) = (map_of d)(k := None)"
  by (induction d) (auto simp: dict_pop_def fun_eq_iff)

lemma has_key_dict_set [dict_simps]: "has_key (dict_set k v d) j = (j = k \<or> has_key d j)"
  by (auto simp: has_key_def dict_simps)

lemma has_key_iff: "has_key d k \<longleftrightarrow> k \<in> fst ` set d"
  by (simp add: has_key_def map_of_eq_None_iff)

lemma has_key_dict_update [dict_simps]: "has_key (dict_update d cs) k = (has_key d k \<or> has_key cs k)"
proof (induction d cs rule: dict_update.induct)
  case (1 d)
  then show ?case by (simp add: has_key_def)
next
  case (2 d k' v cs)
  then show ?case by (auto simp: has_key_dict_set) (auto simp: has_key_iff)
qed

lemma dict_set_nonempty [simp]: "dict_set k v d \<noteq> []"
  by (cases d) auto

lemma dict_update_Nil: "dict_update d cs = [] \<longleftrightarrow> d = [] \<and> cs = []"
  by (induction d cs rule: dict_update.induct) auto

lemma distinct_dict_set: "distinct (map fst d) \<Longrightarrow> distinct (map fst (dict_set k v d))"
  by (rule distinct_update)

lemma distinct_dict_update: "distinct (map fst d) \<Longrightarrow> distinct (map fst (dict_update d cs))"
  by (induction d cs rule: dict_update.induct) (auto simp: distinct_dict_set)

lemma set_dict_set_subset: "set (dict_set k v d) \<subseteq> insert (k, v) (set d)"
  by (induction d) auto

section \<open>Time\<close>

text \<open>Clock readings are whole microseconds.\<close>

definition second :: int where "second = 1000000"

section \<open>Strings\<close>

text \<open>
  Strings are lists of 8-bit characters; the services' identifiers, statuses and digests are ASCII.
\<close>

definition char_lower :: "char \<Rightarrow> char" where
  "char_lower c =
     (let n = (of_char c :: nat) in if 65 \<le> n \<and> n \<le> 90 then char_of (n + 32) else c)"

definition str_lower :: "string \<Rightarrow> string" where
  "str_lower s = map char_lower s"

lemma char_lower_idem [simp]: "char_lower (char_lower c) = char_lower c"
  by (auto simp: char_lower_def Let_def)

lemma str_lower_idem [simp]: "str_lower (str_lower s) = str_lower s"
  by (simp add: str_lower_def)

fun starts_with :: "string \<Rightarrow> string \<Rightarrow> bool" where
  "starts_with [] s = True"
| "starts_with (p # ps) [] = False"
| "starts_with (p # ps) (c # cs) = (p = c \<and> starts_with ps cs)"

lemma starts_with_iff: "starts_with p s \<longleftrightarrow> (\<exists>r. s = p @ r)"
  by (induction p s rule: starts_with.induct) auto

definition is_digit :: "char \<Rightarrow> bool" where
  "is_digit c = (let n = (of_char c :: nat) in 48 \<le> n \<and> n \<le> 57)"

text \<open>\<open>str.isdigit()\<close>: true for a non-empty string of digits only.\<close>

definition all_digits :: "string \<Rightarrow> bool" where
  "all_digits s = (s \<noteq> [] \<and> list_all is_digit s)"

definition hex_digits :: string where
  "hex_digits = ''0123456789abcdef''"

text \<open>The check \<open>len(x) == n and all(c in "0123456789abcdef" for c in x)\<close>.\<close>

definition hex_string :: "nat \<Rightarrow> string \<Rightarrow> bool" where
  "hex_string n s = (length s = n \<and> list_all (\<lambda>c. c \<in> set hex_digits) s)"

text \<open>\<open>sub in s\<close> on strings.\<close>

fun contains :: "string \<Rightarrow> string \<Rightarrow> bool" where
  "contains sub [] = starts_with sub []"
| "contains sub (c # cs) = (starts_with sub (c # cs) \<or> contains sub cs)"

text \<open>\<open>s.rsplit(sep, 1)[-1]\<close> for a separator that occurs in \<open>s\<close>: the text after its last occurrence.\<close>

fun after_last :: "string \<Rightarrow> string \<Rightarrow> string" where
  "after_last sep [] = []"
| "after_last sep (c # cs) =
     (if contains sep cs then after_last sep cs
      else if starts_with sep (c # cs) then drop (length sep) (c # cs)
      else c # cs)"

text \<open>Decimal text of numbers.\<close>

definition digit_char :: "nat \<Rightarrow> char" where
  "digit_char n = char_of (48 + n)"

fun nat_text :: "nat \<Rightarrow> string" where
  "nat_text n = (if n < 10 then [digit_char n] else nat_text (n div 10) @ [digit_char (n mod 10)])"

declare nat_text.simps [simp del]

definition int_text :: "int \<Rightarrow> string" where
  "int_text i = (if i < 0 then CHR ''-'' # nat_text (nat (- i)) else nat_text (nat i))"

lemma nat_text_nonempty [simp]: "nat_text n \<noteq> []"
  by (subst nat_text.simps) simp

lemma is_digit_digit_char: "n < 10 \<Longrightarrow> is_digit (digit_char n)"
  by (simp add: is_digit_def digit_char_def)

lemma nat_text_digits: "list_all is_digit (nat_text n)"
proof (induction n rule: nat_text.induct)
  case (1 n)
  then show ?case
    by (subst nat_text.simps) (simp add: is_digit_digit_char)
qed

end
