(* ===== verification/PyValue.thy ===== *)
theory PyValue
  imports Prelude
begin

text \<open>
  The dynamically typed values a stored document holds, with the Python operations the services
  apply to them: \<open>d.get\<close>, truth value, \<open>==\<close>, \<open>str\<close>, \<open>int\<close>, membership in a set of strings.
  Documents range over \<open>None\<close>, booleans, integers, strings, lists and dictionaries.  Floats do not
  occur: the only float fields of these documents (\<open>build_minutes_estimate\<close>,
  \<open>mode_propagation.retry_after\<close>) are read by operations that are not modelled.
\<close>

datatype pyval =
    PNone
  | PBool bool
  | PInt int
  | PStr string
  | PList "pyval list"
  | PDict "(string \<times> pyval) list"

type_synonym doc = "pyval dict"

section \<open>Lookup\<close>

text \<open>\<open>d.get(k)\<close> and \<open>d.get(k, default)\<close>.\<close>

definition dget :: "doc \<Rightarrow> string \<Rightarrow> pyval" where
  "dget d k = (case map_of d k of None \<Rightarrow> PNone | Some v \<Rightarrow> v)"

definition dget_or :: "doc \<Rightarrow> string \<Rightarrow> pyval \<Rightarrow> pyval" where
  "dget_or d k v0 = (case map_of d k of None \<Rightarrow> v0 | Some v \<Rightarrow> v)"

text \<open>\<open>d[k]\<close>\<close>

definition need :: "doc \<Rightarrow> string \<Rightarrow> pyval result" where
  "need d k = (case map_of d k of None \<Rightarrow> Inl (KeyError k) | Some v \<Rightarrow> Inr v)"

lemma need_Inr: "need d k = Inr v \<longleftrightarrow> map_of d k = Some v"
  by (simp add: need_def split: option.split)

text \<open>\<open>d.get(k, {})\<close> read as a dictionary, and \<open>(d.get(k) or {})\<close>; a value that is no dictionary reads as the empty one.\<close>

fun as_dict :: "pyval \<Rightarrow> doc" where
  "as_dict (PDict d) = d"
| "as_dict _ = []"

fun as_list :: "pyval \<Rightarrow> pyval list" where
  "as_list (PList xs) = xs"
| "as_list _ = []"

fun is_dict :: "pyval \<Rightarrow> bool" where
  "is_dict (PDict d) = True"
| "is_dict _ = False"

text \<open>The dictionary that \<open>v.get(..)\<close> reads; other values have no such method.\<close>

definition attr_dict :: "pyval \<Rightarrow> doc result" where
  "attr_dict v = (case v of PDict d \<Rightarrow> Inr d | _ \<Rightarrow> Inl (AttributeError ''get''))"

section \<open>Truth value\<close>

fun truthy :: "pyval \<Rightarrow> bool" where
  "truthy PNone = False"
| "truthy (PBool b) = b"
| "truthy (PInt i) = (i \<noteq> 0)"
| "truthy (PStr s) = (s \<noteq> [])"
| "truthy (PList xs) = (xs \<noteq> [])"
| "truthy (PDict d) = (d \<noteq> [])"

definition py_or :: "pyval \<Rightarrow> pyval \<Rightarrow> pyval" where
  "py_or a b = (if truthy a then a else b)"

definition flag :: "doc \<Rightarrow> string \<Rightarrow> bool" where
  "flag d k = truthy (dget d k)"

section \<open>Equality\<close>

text \<open>
  \<open>==\<close>: a boolean equals the integer it stands for, lists compare element by element, dictionaries
  by their keys whatever the order.
\<close>

function py_eq :: "pyval \<Rightarrow> pyval \<Rightarrow> bool" where
  "py_eq PNone w = (w = PNone)"
| "py_eq (PBool b) w =
     (case w of PBool c \<Rightarrow> b = c | PInt j \<Rightarrow> (if b then 1 else 0) = j | _ \<Rightarrow> False)"
| "py_eq (PInt i) w =
     (case w of PBool c \<Rightarrow> i = (if c then 1 else 0) | PInt j \<Rightarrow> i = j | _ \<Rightarrow> False)"
| "py_eq (PStr s) w = (w = PStr s)"
| "py_eq (PList xs) w =
     (case w of
        PList ys \<Rightarrow> length xs = length ys \<and> (\<forall>p \<in> set (zip xs ys). py_eq (fst p) (snd p))
      | _ \<Rightarrow> False)"
| "py_eq (PDict d) w =
     (case w of
        PDict e \<Rightarrow>
          length d = length e \<and>
          (\<forall>kv \<in> set d. case map_of e (fst kv) of None \<Rightarrow> False | Some v \<Rightarrow> py_eq (snd kv) v)
      | _ \<Rightarrow> False)"
  by pat_completeness auto
termination
proof (relation "measure (\<lambda>(v, w). size v)", goal_cases)
  case (2 xs w ys p)
  then have "fst p \<in> set xs" by (cases p) (auto dest: set_zip_leftD)
  then have "size (fst p) < Suc (size_list size xs)"
    by (simp add: less_Suc_eq_le size_list_estimation')
  then show ?case by (simp add: case_prod_beta)
next
  case (3 d w e kv v)
  then have "size (snd kv) < Suc (size_list (size_prod (\<lambda>_. 0) size) d)"
    using size_list_estimation' [of kv d "size (snd kv)" "size_prod (\<lambda>_. 0) size"]
    by (cases kv) (simp add: less_Suc_eq_le)
  then show ?case by (simp add: case_prod_beta)
qed simp

definition py_ne :: "pyval \<Rightarrow> pyval \<Rightarrow> bool" where
  "py_ne v w = (\<not> py_eq v w)"

lemma py_eq_str [simp]: "py_eq v (PStr s) = (v = PStr s)"
  by (cases v) auto

lemma py_eq_none [simp]: "py_eq v PNone = (v = PNone)"
  by (cases v) auto

text \<open>The value of \<open>d.get(k) == "text"\<close>.\<close>

definition is_str :: "doc \<Rightarrow> string \<Rightarrow> string \<Rightarrow> bool" where
  "is_str d k s = (dget d k = PStr s)"

text \<open>\<open>d.get(k) in {"a", "b"}\<close>.\<close>

definition in_strs :: "pyval \<Rightarrow> string list \<Rightarrow> bool" where
  "in_strs v ss = (case v of PStr s \<Rightarrow> s \<in> set ss | _ \<Rightarrow> False)"

lemma in_strs_PStr [simp]: "in_strs (PStr s) ss = (s \<in> set ss)"
  by (simp add: in_strs_def)

lemma in_strsE: "in_strs v ss \<Longrightarrow> (\<And>s. v = PStr s \<Longrightarrow> s \<in> set ss \<Longrightarrow> P) \<Longrightarrow> P"
  by (cases v) (auto simp: in_strs_def)

section \<open>Text of a value\<close>

text \<open>
  \<open>repr\<close> of a string: single quotes unless the text holds a single and no double quote; backslash,
  the quote and the non-printable characters are escaped.
\<close>

definition hex_char :: "nat \<Rightarrow> char" where
  "hex_char n = hex_digits ! n"

definition repr_char :: "char \<Rightarrow> char \<Rightarrow> string" where
  "repr_char q c =
     (let n = (of_char c :: nat) in
      if c = q \<or> n = 92 then [CHR 0x5C, c]
      else if n = 9 then [CHR 0x5C, CHR ''t'']
      else if n = 10 then [CHR 0x5C, CHR ''n'']
      else if n = 13 then [CHR 0x5C, CHR ''r'']
      else if n < 32 \<or> (127 \<le> n \<and> n \<le> 160) \<or> n = 173
      then [CHR 0x5C, CHR ''x'', hex_char (n div 16), hex_char (n mod 16)]
      else [c])"

definition repr_str :: "string \<Rightarrow> string" where
  "repr_str s =
     (let q = (if CHR 0x27 \<in> set s \<and> CHR 0x22 \<notin> set s then CHR 0x22 else CHR 0x27)
      in [q] @ concat (map (repr_char q) s) @ [q])"

fun join :: "string \<Rightarrow> string list \<Rightarrow> string" where
  "join sep [] = []"
| "join sep [s] = s"
| "join sep (s # ss) = s @ sep @ join sep ss"

fun py_repr :: "pyval \<Rightarrow> string" where
  "py_repr PNone = ''None''"
| "py_repr (PBool b) = (if b then ''True'' else ''False'')"
| "py_repr (PInt i) = int_text i"
| "py_repr (PStr s) = repr_str s"
| "py_repr (PList xs) = ''['' @ join '', '' (map py_repr xs) @ '']''"
| "py_repr (PDict d) =
     ''{'' @ join '', '' (map (\<lambda>kv. repr_str (fst kv) @ '': '' @ py_repr (snd kv)) d) @ ''}''"

text \<open>\<open>str(v)\<close>: a string is its own text, every other value prints as its \<open>repr\<close>.\<close>

fun py_str :: "pyval \<Rightarrow> string" where
  "py_str (PStr s) = s"
| "py_str v = py_repr v"

text \<open>\<open>str(exc)\<close>\<close>

fun err_text :: "py_err \<Rightarrow> string" where
  "err_text (KeyError k) = repr_str k"
| "err_text (HTTPException n t) = int_text (int n) @ '': '' @ t"
| "err_text (OAuthError c t) = t"
| "err_text (ValueError t) = t"
| "err_text (TypeError t) = t"
| "err_text (RuntimeError t) = t"
| "err_text (TimeoutError t) = t"
| "err_text (DatabaseUnavailable t) = t"
| "err_text (CircuitRecoveryRequired t) = t"
| "err_text (ProbeRequestConflict t) = t"
| "err_text (QueryRejected t) = t"
| "err_text (AttributeError t) = t"
| "err_text (ReleaseCloudBuildError t) = t"
| "err_text (ReleaseOrchestratorError t) = t"
| "err_text (ReleaseAuthorizationError t) = t"
| "err_text (GitHubReleaseConflict t) = t"
| "err_text (ReleaseWorkflowIdentityError t) = t"
| "err_text (GithubException n t) = t"
| "err_text (QualityEvidenceConflict t) = t"
| "err_text (CommandFailure t) = t"
| "err_text (AutomaticRollback t) = t"
| "err_text (FileExistsError t) = t"
| "err_text (OSError t) = t"
| "err_text (IndexError t) = t"

section \<open>Integer of a value\<close>

text \<open>
  \<open>int(v)\<close>: integers and booleans convert; a string converts when it is an optionally signed decimal
  literal, whose digits may be separated by single underscores, between white space; any other
  string is a \<open>ValueError\<close>, any other value a \<open>TypeError\<close>.
\<close>

definition is_space :: "char \<Rightarrow> bool" where
  "is_space c =
     (let n = (of_char c :: nat) in
      (9 \<le> n \<and> n \<le> 13) \<or> (28 \<le> n \<and> n \<le> 32) \<or> n = 133 \<or> n = 160)"

definition strip :: "string \<Rightarrow> string" where
  "strip s = rev (dropWhile is_space (rev (dropWhile is_space s)))"

text \<open>\<open>rstrip("/")\<close>\<close>

definition rstrip_slash :: "string \<Rightarrow> string" where
  "rstrip_slash s = rev (dropWhile (\<lambda>c. c = CHR ''/'') (rev s))"

fun digits_value :: "bool \<Rightarrow> int \<Rightarrow> string \<Rightarrow> int option" where
  "digits_value after_digit acc [] = (if after_digit then Some acc else None)"
| "digits_value after_digit acc (c # cs) =
     (if is_digit c then digits_value True (10 * acc + (int (of_char c) - 48)) cs
      else if c = CHR ''_'' \<and> after_digit then digits_value False acc cs
      else None)"

definition parse_int :: "string \<Rightarrow> int option" where
  "parse_int s =
     (case strip s of
        [] \<Rightarrow> None
      | c # cs \<Rightarrow>
          if c = CHR ''-'' then map_option uminus (digits_value False 0 cs)
          else if c = CHR ''+'' then digits_value False 0 cs
          else digits_value False 0 (c # cs))"

fun py_int :: "pyval \<Rightarrow> int result" where
  "py_int (PInt i) = Inr i"
| "py_int (PBool b) = Inr (if b then 1 else 0)"
| "py_int (PStr s) =
     (case parse_int s of
        None \<Rightarrow> Inl (ValueError ''invalid literal for int() with base 10'')
      | Some i \<Rightarrow> Inr i)"
| "py_int v = Inl (TypeError ''int() argument must be a string, a bytes-like object or a real number'')"

text \<open>\<open>v < w\<close> on numbers and on strings; other pairs are a \<open>TypeError\<close>.\<close>

fun py_lt :: "pyval \<Rightarrow> pyval \<Rightarrow> bool result" where
  "py_lt (PStr s) (PStr t) = Inr (s < t)"
| "py_lt (PInt i) (PInt j) = Inr (i < j)"
| "py_lt (PBool b) (PInt j) = Inr ((if b then 1 else 0) < j)"
| "py_lt (PInt i) (PBool c) = Inr (i < (if c then 1 else 0))"
| "py_lt (PBool b) (PBool c) = Inr (b < c)"
| "py_lt v w = Inl (TypeError ''unorderable types'')"

text \<open>\<open>any(key in changes and changes[key] != current.get(key) for key in keys)\<close>\<close>

definition rewrites_any :: "string list \<Rightarrow> doc \<Rightarrow> doc \<Rightarrow> bool" where
  "rewrites_any keys current changes =
     list_ex (\<lambda>k. has_key changes k \<and> py_ne (dget changes k) (dget current k)) keys"

section \<open>Strings and iteration\<close>

definition ends_with :: "string \<Rightarrow> string \<Rightarrow> bool" where
  "ends_with p s = starts_with (rev p) (rev s)"

text \<open>\<open>s.split(c)\<close>\<close>

fun split_char :: "char \<Rightarrow> string \<Rightarrow> string list" where
  "split_char sep [] = [[]]"
| "split_char sep (c # cs) =
     (if c = sep then [] # split_char sep cs
      else (case split_char sep cs of w # ws \<Rightarrow> (c # w) # ws | [] \<Rightarrow> [[c]]))"

text \<open>\<open>for x in v\<close>\<close>

definition items_of :: "pyval \<Rightarrow> pyval list result" where
  "items_of v =
     (case v of
        PList vs \<Rightarrow> Inr vs
      | PDict d \<Rightarrow> Inr (map (\<lambda>kv. PStr (fst kv)) d)
      | PStr s \<Rightarrow> Inr (map (\<lambda>c. PStr [c]) s)
      | _ \<Rightarrow> Inl (TypeError ''object is not iterable''))"

text \<open>\<open>v in names\<close>, where an unhashable value raises\<close>

definition in_set :: "pyval \<Rightarrow> string list \<Rightarrow> bool result" where
  "in_set v names =
     (case v of PList _ \<Rightarrow> Inl (TypeError ''unhashable type'') | PDict _ \<Rightarrow> Inl (TypeError ''unhashable type'')
      | _ \<Rightarrow> Inr (in_strs v names))"

section \<open>Lookups after updates\<close>

lemma dget_set [dict_simps]: "dget (dict_set k v d) j = (if j = k then v else dget d j)"
  by (simp add: dget_def dict_simps)

lemma dget_or_set [dict_simps]: "dget_or (dict_set k v d) j w = (if j = k then v else dget_or d j w)"
  by (simp add: dget_or_def dict_simps)

lemma flag_set [dict_simps]: "flag (dict_set k v d) j = (if j = k then truthy v else flag d j)"
  by (simp add: flag_def dict_simps)

lemma is_str_set [dict_simps]:
  "is_str (dict_set k v d) j s = (if j = k then v = PStr s else is_str d j s)"
  by (simp add: is_str_def dict_simps)

lemma dget_update_notin:
  "k \<notin> fst ` set cs \<Longrightarrow> dget (dict_update d cs) k = dget d k"
  by (simp add: dget_def map_of_dict_update_notin)

lemma dget_update_distinct:
  "distinct (map fst cs) \<Longrightarrow>
   dget (dict_update d cs) k = (if has_key cs k then dget cs k else dget d k)"
  by (auto simp: dget_def has_key_def map_of_dict_update split: option.splits)

lemma dget_or_update_distinct:
  "distinct (map fst cs) \<Longrightarrow>
   dget_or (dict_update d cs) k w = (if has_key cs k then dget cs k else dget_or d k w)"
  by (auto simp: dget_def dget_or_def has_key_def map_of_dict_update split: option.splits)

lemma dget_not_has_key: "\<not> has_key d k \<Longrightarrow> dget d k = PNone"
  by (simp add: has_key_def dget_def)

lemma truthy_flag_of_str: "is_str d k s \<Longrightarrow> flag d k = (s \<noteq> [])"
  by (simp add: is_str_def flag_def)

end
