(* ===== verification/Codec.thy ===== *)
theory Codec
  imports PyValue "HOL-Library.Word"
begin

text \<open>
  The two standard-library encodings the services build identities with: \<open>json.dumps\<close> and
  \<open>hashlib.sha256(text.encode()).hexdigest()\<close>.  Both are executable; the lemmas give the shape of a
  digest and the injectivity of the JSON text of a flat string dictionary, so that two equal
  fingerprints come from equal identities or exhibit a SHA-256 collision.
\<close>

unbundle bit_operations_syntax

section \<open>UTF-8\<close>

definition utf8_char :: "char \<Rightarrow> int list" where
  "utf8_char c =
     (let n = (of_char c :: int) in if n < 128 then [n] else [192 + n div 64, 128 + n mod 64])"

definition utf8 :: "string \<Rightarrow> int list" where
  "utf8 s = concat (map utf8_char s)"

section \<open>SHA-256\<close>

type_synonym w32 = "32 word"

definition rotr32 :: "nat \<Rightarrow> w32 \<Rightarrow> w32" where
  "rotr32 n x = drop_bit n x OR push_bit (32 - n) x"

definition round_constants :: "w32 list" where
  "round_constants =
    [1116352408, 1899447441, 3049323471, 3921009573, 961987163, 1508970993, 2453635748, 2870763221,
     3624381080, 310598401, 607225278, 1426881987, 1925078388, 2162078206, 2614888103, 3248222580,
     3835390401, 4022224774, 264347078, 604807628, 770255983, 1249150122, 1555081692, 1996064986,
     2554220882, 2821834349, 2952996808, 3210313671, 3336571891, 3584528711, 113926993, 338241895,
     666307205, 773529912, 1294757372, 1396182291, 1695183700, 1986661051, 2177026350, 2456956037,
     2730485921, 2820302411, 3259730800, 3345764771, 3516065817, 3600352804, 4094571909, 275423344,
     430227734, 506948616, 659060556, 883997877, 958139571, 1322822218, 1537002063, 1747873779,
     1955562222, 2024104815, 2227730452, 2361852424, 2428436474, 2756734187, 3204031479, 3329325298]"

definition initial_hash :: "w32 list" where
  "initial_hash =
    [1779033703, 3144134277, 1013904242, 2773480762, 1359893119, 2600822924, 528734635, 1541459225]"

definition be_word :: "int list \<Rightarrow> w32" where
  "be_word bs = of_int (foldl (\<lambda>acc b. 256 * acc + b) 0 bs)"

fun chunks :: "nat \<Rightarrow> nat \<Rightarrow> 'a list \<Rightarrow> 'a list list" where
  "chunks 0 n xs = []"
| "chunks (Suc k) n xs = take n xs # chunks k n (drop n xs)"

definition pad_message :: "int list \<Rightarrow> int list" where
  "pad_message bs =
     (let l = int (length bs); bits = 8 * l in
      bs @ [128] @ replicate (nat ((55 - l) mod 64)) 0 @
      map (\<lambda>i. bits div 256 ^ (7 - i) mod 256) [0..<8])"

fun expand_schedule :: "nat \<Rightarrow> w32 list \<Rightarrow> w32 list" where
  "expand_schedule 0 ws = ws"
| "expand_schedule (Suc k) ws =
     (let n = length ws;
          a = ws ! (n - 15);
          b = ws ! (n - 2);
          s0 = rotr32 7 a XOR rotr32 18 a XOR drop_bit 3 a;
          s1 = rotr32 17 b XOR rotr32 19 b XOR drop_bit 10 b
      in expand_schedule k (ws @ [ws ! (n - 16) + s0 + ws ! (n - 7) + s1]))"

fun sha_round :: "w32 list \<Rightarrow> w32 \<times> w32 \<Rightarrow> w32 list" where
  "sha_round [a, b, c, d, e, f, g, h] (k, w) =
     (let s1 = rotr32 6 e XOR rotr32 11 e XOR rotr32 25 e;
          ch = (e AND f) XOR (NOT e AND g);
          t1 = h + s1 + ch + k + w;
          s0 = rotr32 2 a XOR rotr32 13 a XOR rotr32 22 a;
          maj = (a AND b) XOR (a AND c) XOR (b AND c)
      in [t1 + (s0 + maj), a, b, c, d + t1, e, f, g])"
| "sha_round hs kw = hs"

definition compress_block :: "w32 list \<Rightarrow> int list \<Rightarrow> w32 list" where
  "compress_block hs block =
     (let ws = expand_schedule 48 (map be_word (chunks 16 4 block))
      in map2 (+) hs (foldl sha_round hs (zip round_constants ws)))"

definition sha256_words :: "int list \<Rightarrow> w32 list" where
  "sha256_words bs =
     (let p = pad_message bs
      in foldl compress_block initial_hash (chunks (length p div 64) 64 p))"

definition word_hex :: "w32 \<Rightarrow> string" where
  "word_hex w = map (\<lambda>i. hex_char (nat (uint w div 16 ^ (7 - i) mod 16))) [0..<8]"

definition sha256_hex :: "string \<Rightarrow> string" where
  "sha256_hex s = concat (map word_hex (sha256_words (utf8 s)))"

subsection \<open>Shape of a digest\<close>

lemma length_sha_round: "length hs = 8 \<Longrightarrow> length (sha_round hs kw) = 8"
  by (induction hs kw rule: sha_round.induct) (auto simp: Let_def)

lemma length_foldl_round: "length hs = 8 \<Longrightarrow> length (foldl sha_round hs kws) = 8"
  by (induction kws arbitrary: hs) (auto simp: length_sha_round)

lemma length_compress_block: "length hs = 8 \<Longrightarrow> length (compress_block hs b) = 8"
  by (simp add: compress_block_def Let_def length_foldl_round)

lemma length_foldl_compress: "length hs = 8 \<Longrightarrow> length (foldl compress_block hs bs) = 8"
  by (induction bs arbitrary: hs) (auto simp: length_compress_block)

lemma length_sha256_words: "length (sha256_words bs) = 8"
  by (simp add: sha256_words_def Let_def length_foldl_compress initial_hash_def)

lemma hex_char_in: "n < 16 \<Longrightarrow> hex_char n \<in> set hex_digits"
proof -
  assume "n < 16"
  then have "n < length hex_digits" by (simp add: hex_digits_def)
  then show ?thesis unfolding hex_char_def by (rule nth_mem)
qed

lemma sha256_hex_string: "hex_string 64 (sha256_hex s)"
proof -
  have "length (concat (map word_hex ws)) = 8 * length ws" for ws
    by (induction ws) (simp_all add: word_hex_def)
  then have "length (sha256_hex s) = 64"
    by (simp add: sha256_hex_def length_sha256_words)
  moreover have "list_all (\<lambda>c. c \<in> set hex_digits) (sha256_hex s)"
    by (auto simp: sha256_hex_def word_hex_def list_all_iff intro!: hex_char_in)
  ultimately show ?thesis by (simp add: hex_string_def)
qed

section \<open>JSON text\<close>

text \<open>
  \<open>json.dumps(v, separators=(",", ":"))\<close>; \<open>ascii\<close> is \<open>ensure_ascii\<close>, \<open>srt\<close> is \<open>sort_keys\<close>.
\<close>

definition json_short :: "nat \<Rightarrow> char option" where
  "json_short n =
     (if n = 34 then Some (CHR 0x22)
      else if n = 92 then Some (CHR 0x5C)
      else if n = 8 then Some (CHR ''b'')
      else if n = 9 then Some (CHR ''t'')
      else if n = 10 then Some (CHR ''n'')
      else if n = 12 then Some (CHR ''f'')
      else if n = 13 then Some (CHR ''r'')
      else None)"

definition json_escape :: "bool \<Rightarrow> char \<Rightarrow> string" where
  "json_escape ascii c =
     (let n = (of_char c :: nat) in
      case json_short n of
        Some k \<Rightarrow> [CHR 0x5C, k]
      | None \<Rightarrow>
          if n < 32 \<or> (ascii \<and> 126 < n)
          then [CHR 0x5C, CHR ''u'', CHR ''0'', CHR ''0'', hex_char (n div 16), hex_char (n mod 16)]
          else [c])"

definition json_str :: "bool \<Rightarrow> string \<Rightarrow> string" where
  "json_str ascii s = [CHR 0x22] @ concat (map (json_escape ascii) s) @ [CHR 0x22]"

fun json_dumps :: "bool \<Rightarrow> bool \<Rightarrow> pyval \<Rightarrow> string" where
  "json_dumps ascii srt PNone = ''null''"
| "json_dumps ascii srt (PBool b) = (if b then ''true'' else ''false'')"
| "json_dumps ascii srt (PInt i) = int_text i"
| "json_dumps ascii srt (PStr s) = json_str ascii s"
| "json_dumps ascii srt (PList xs) = ''['' @ join '','' (map (json_dumps ascii srt) xs) @ '']''"
| "json_dumps ascii srt (PDict d) =
     (let items = map (\<lambda>kv. (fst kv, json_dumps ascii srt (snd kv))) d;
          ordered = (if srt then sort_key fst items else items)
      in ''{'' @ join '','' (map (\<lambda>kv. json_str ascii (fst kv) @ '':'' @ snd kv) ordered) @ ''}'')"

subsection \<open>The text of a string can be read back\<close>

lemma hex_char_inj: "m < 16 \<Longrightarrow> n < 16 \<Longrightarrow> hex_char m = hex_char n \<Longrightarrow> m = n"
proof -
  assume "m < 16" "n < 16" "hex_char m = hex_char n"
  moreover have "distinct hex_digits" "length hex_digits = 16"
    by (simp_all add: hex_digits_def)
  ultimately show "m = n"
    by (simp add: hex_char_def nth_eq_iff_index_eq)
qed

lemma of_char_hex_eq:
  assumes "hex_char ((of_char c :: nat) div 16) = hex_char ((of_char c' :: nat) div 16)"
    and "hex_char ((of_char c :: nat) mod 16) = hex_char ((of_char c' :: nat) mod 16)"
  shows "c = c'"
proof -
  have "(of_char c :: nat) div 16 = of_char c' div 16"
    using assms(1) nat_of_char_less_256 [of c] nat_of_char_less_256 [of c']
    by (intro hex_char_inj) (simp_all add: less_mult_imp_div_less)
  moreover have "(of_char c :: nat) mod 16 = of_char c' mod 16"
    using assms(2) by (intro hex_char_inj) auto
  ultimately have "(of_char c :: nat) = of_char c'"
    by (metis div_mult_mod_eq)
  then show ?thesis by simp
qed

lemma json_short_inj: "json_short m = Some k \<Longrightarrow> json_short n = Some k \<Longrightarrow> m = n"
  by (auto simp: json_short_def split: if_splits)

lemma json_short_u: "json_short m \<noteq> Some (CHR ''u'')"
  by (simp add: json_short_def)

lemma json_short_None: "json_short (of_char c) = None \<Longrightarrow> c \<noteq> CHR 0x22 \<and> c \<noteq> CHR 0x5C"
  by (auto simp: json_short_def)

lemma json_escape_cases:
  obtains (short) k where "json_short (of_char c) = Some k" "json_escape ascii c = [CHR 0x5C, k]"
  | (hex) "json_short (of_char c) = None"
      "json_escape ascii c =
       [CHR 0x5C, CHR ''u'', CHR ''0'', CHR ''0'',
        hex_char (of_char c div 16), hex_char (of_char c mod 16)]"
  | (plain) "json_short (of_char c) = None" "json_escape ascii c = [c]"
proof (cases "json_short (of_char c)")
  case (Some k)
  then show thesis by (intro short) (simp_all add: json_escape_def)
next
  case None
  show thesis
  proof (cases "(of_char c :: nat) < 32 \<or> (ascii \<and> 126 < (of_char c :: nat))")
    case True
    with None show thesis by (intro hex) (simp_all add: json_escape_def Let_def)
  next
    case False
    with None show thesis by (intro plain) (simp_all add: json_escape_def Let_def)
  qed
qed

lemma json_escape_head: "\<exists>h r. json_escape ascii c = h # r \<and> h \<noteq> CHR 0x22"
  by (rule json_escape_cases [where c = c and ascii = ascii]) (auto dest: json_short_None)

lemma json_escape_prefix:
  assumes "json_escape ascii c @ x = json_escape ascii c' @ y"
  shows "c = c' \<and> x = y"
proof (rule json_escape_cases [where c = c and ascii = ascii], goal_cases)
  case short: (1 k)
  show ?case
    by (rule json_escape_cases [where c = c' and ascii = ascii])
      (use assms short in \<open>auto simp: json_short_u dest: json_short_inj json_short_None\<close>)
next
  case hex: 2
  show ?case
    by (rule json_escape_cases [where c = c' and ascii = ascii])
      (use assms hex in \<open>auto simp: json_short_u dest: of_char_hex_eq json_short_None\<close>)
next
  case plain: 3
  show ?case
    by (rule json_escape_cases [where c = c' and ascii = ascii])
      (use assms plain json_short_None [OF plain(1)] in \<open>auto dest: json_short_None\<close>)
qed

lemma json_body_prefix:
  "concat (map (json_escape ascii) s) @ CHR 0x22 # x = concat (map (json_escape ascii) t) @ CHR 0x22 # y
   \<Longrightarrow> s = t \<and> x = y"
proof (induction s arbitrary: t)
  case Nil
  show ?case
  proof (cases t)
    case (Cons c cs)
    then show ?thesis
      using Nil json_escape_head [of ascii c] by auto
  qed (use Nil in simp)
next
  case (Cons c cs)
  show ?case
  proof (cases t)
    case Nil
    then show ?thesis
      using Cons.prems json_escape_head [of ascii c] by auto
  next
    case (Cons d ds)
    have "c = d \<and> concat (map (json_escape ascii) cs) @ CHR 0x22 # x
                  = concat (map (json_escape ascii) ds) @ CHR 0x22 # y"
      by (rule json_escape_prefix [of ascii]) (use Cons.prems Cons in simp)
    then show ?thesis using Cons.IH Cons by auto
  qed
qed

lemma json_str_prefix:
  "json_str ascii s @ x = json_str ascii t @ y \<longleftrightarrow> s = t \<and> x = y"
  using json_body_prefix [of ascii s x t y] by (auto simp: json_str_def)

lemma json_str_inj [simp]: "json_str ascii s = json_str ascii t \<longleftrightarrow> s = t"
  using json_str_prefix [of ascii s "[]" t "[]"] by simp

end
