(* ===== verification/DocStore.thy ===== *)
theory DocStore
  imports PyValue
begin

text \<open>
  Document stores.  Every durable service keeps its records behind the same two branches: a
  process-local dictionary guarded by a lock, used when \<open>_collection()\<close> returns \<open>None\<close>, and a
  Firestore collection used through a serializable transaction.  A \<open>backend\<close> is what both offer: read
  a document, set it, merge fields into it.  The process-local one is defined here; Firestore is an
  argument of the operations, and the locale states the laws the operations rely on.
\<close>

section \<open>The interface\<close>

record 's backend =
  volatile :: bool
  load :: "'s \<Rightarrow> string \<Rightarrow> doc option"
  put :: "string \<Rightarrow> doc \<Rightarrow> 's \<Rightarrow> 's"
  patch :: "string \<Rightarrow> doc \<Rightarrow> 's \<Rightarrow> 's"

text \<open>
  An operation reads the store and returns a result with the store it leaves behind; a failed
  check leaves the store as it was.
\<close>

type_synonym ('s, 'a) op = "'s \<Rightarrow> 'a result \<times> 's"

text \<open>
  The transaction shape shared by the operations: read one document, decide, and merge the decided
  fields into it.  A decision is an exception, or a value with the changes to write (none when the
  operation only reports).
\<close>

definition transact ::
  "'s backend \<Rightarrow> string \<Rightarrow> (doc option \<Rightarrow> ('a \<times> doc option) result) \<Rightarrow> ('s, 'a) op" where
  "transact B i decide s =
     (case decide (load B s i) of
        Inl e \<Rightarrow> (Inl e, s)
      | Inr (x, None) \<Rightarrow> (Inr x, s)
      | Inr (x, Some changes) \<Rightarrow> (Inr x, patch B i changes s))"

definition map_op :: "('a \<Rightarrow> 'b) \<Rightarrow> ('s, 'a) op \<Rightarrow> ('s, 'b) op" where
  "map_op f m s = (map_result f (fst (m s)), snd (m s))"

lemma snd_map_op [simp]: "snd (map_op f m s) = snd (m s)"
  by (simp add: map_op_def)

locale document_backend =
  fixes B :: "'s backend"
  assumes load_put: "load B (put B i d s) j = (if j = i then Some d else load B s j)"
    and load_patch:
      "load B s i = Some d \<Longrightarrow>
       load B (patch B i cs s) j = (if j = i then Some (dict_update d cs) else load B s j)"
begin

lemma load_patch_same: "load B s i = Some d \<Longrightarrow> load B (patch B i cs s) i = Some (dict_update d cs)"
  by (simp add: load_patch)

lemma load_patch_other:
  "load B s i = Some d \<Longrightarrow> j \<noteq> i \<Longrightarrow> load B (patch B i cs s) j = load B s j"
  by (simp add: load_patch)

text \<open>A transaction changes at most the document it names.\<close>

lemma transact_frame:
  assumes "transact B i decide s = (r, s')"
    and "\<And>x cs. decide (load B s i) = Inr (x, Some cs) \<Longrightarrow> load B s i \<noteq> None"
    and "j \<noteq> i"
  shows "load B s' j = load B s j"
  using assms by (auto simp: transact_def load_patch split: sum.splits option.splits prod.splits)

text \<open>A failed transaction changes nothing.\<close>

lemma transact_error: "transact B i decide s = (Inl e, s') \<Longrightarrow> s' = s"
  by (auto simp: transact_def split: sum.splits option.splits prod.splits)

text \<open>What a successful transaction read and wrote.\<close>

lemma transact_ok:
  assumes "transact B i decide s = (Inr x, s')"
  obtains (read) "decide (load B s i) = Inr (x, None)" "s' = s"
  | (wrote) cs where "decide (load B s i) = Inr (x, Some cs)" "s' = patch B i cs s"
  using assms by (auto simp: transact_def split: sum.splits option.splits prod.splits)

text \<open>A transaction leaves every document as it was or changes it as its decision may.\<close>

lemma transact_change:
  assumes "\<And>d x cs. load B s i = Some d \<Longrightarrow> decide (Some d) = Inr (x, Some cs) \<Longrightarrow> change i d (dict_update d cs)"
    and "\<And>x cs. decide None \<noteq> Inr (x, Some cs)" and d: "load B s j = Some d"
  shows "\<exists>d'. load B (snd (transact B i decide s)) j = Some d' \<and> (d' = d \<or> change j d d')"
proof (cases "\<exists>x cs. decide (load B s i) = Inr (x, Some cs)")
  case False
  then have "snd (transact B i decide s) = s"
    by (auto simp: transact_def split: sum.splits option.splits prod.splits)
  then show ?thesis using d by simp
next
  case True
  then obtain x cs where w: "decide (load B s i) = Inr (x, Some cs)" by blast
  then obtain c where c: "load B s i = Some c" using assms(2) by (cases "load B s i") auto
  have s': "snd (transact B i decide s) = patch B i cs s" using w by (simp add: transact_def)
  show ?thesis
  proof (cases "j = i")
    case True
    then show ?thesis using assms(1) [of c x cs] c d w by (simp add: s' load_patch_same)
  next
    case False
    then show ?thesis using c d by (simp add: s' load_patch_other)
  qed
qed

text \<open>
  A relation between the versions of a document that every decision keeps is kept by the store: the
  principle behind the immutability and monotonicity results of the clients.
\<close>

lemma transact_preserves:
  assumes step: "transact B i decide s = (r, s')"
    and keep: "\<And>d x cs. load B s i = Some d \<Longrightarrow> decide (Some d) = Inr (x, Some cs) \<Longrightarrow> R d (dict_update d cs)"
    and absent: "\<And>x cs. decide None \<noteq> Inr (x, Some cs)"
    and refl: "\<And>d. R d d"
    and old: "load B s j = Some d"
  shows "\<exists>d'. load B s' j = Some d' \<and> R d d'"
proof (cases "decide (load B s i)")
  case (Inl e)
  then have "s' = s" using step by (simp add: transact_def)
  then show ?thesis using old refl by auto
next
  case (Inr p)
  obtain x u where p: "p = (x, u)" by (cases p)
  show ?thesis
  proof (cases u)
    case None
    then have "s' = s" using step Inr p by (simp add: transact_def)
    then show ?thesis using old refl by auto
  next
    case (Some cs)
    then have s': "s' = patch B i cs s" using step Inr p by (simp add: transact_def)
    obtain d0 where d0: "load B s i = Some d0"
      using Inr p Some absent by (cases "load B s i") auto
    show ?thesis
    proof (cases "j = i")
      case True
      then have "d0 = d" using d0 old by simp
      then have "R d (dict_update d cs)" using keep [of d x cs] Inr p Some d0 by simp
      then show ?thesis using s' True d0 \<open>d0 = d\<close> by (simp add: load_patch_same)
    next
      case False
      then show ?thesis using s' d0 old refl by (auto simp: load_patch_other)
    qed
  qed
qed

end

section \<open>Claims\<close>

text \<open>
  Several callers, one after the other: each operation is atomic, so a race is some order of them.
\<close>

fun run_ops :: "('s, 'a) op list \<Rightarrow> 's \<Rightarrow> 'a result list \<times> 's" where
  "run_ops [] s = ([], s)"
| "run_ops (m # ms) s =
     (let (r, s1) = m s; (rs, s2) = run_ops ms s1 in (r # rs, s2))"

text \<open>
  Claims of several kinds on one record: a success leaves the record spent, and on a spent record no
  claim succeeds.  Whatever the mix and the order of the callers, at most one succeeds.
\<close>

locale single_winner =
  fixes claim :: "'c \<Rightarrow> ('s, bool) op" and spent :: "'s \<Rightarrow> bool"
  assumes win_spends: "fst (claim c s) = Inr True \<Longrightarrow> spent (snd (claim c s))"
    and spent_refuses: "spent s \<Longrightarrow> fst (claim c s) \<noteq> Inr True \<and> spent (snd (claim c s))"
begin

lemma spent_no_winner:
  "spent s \<Longrightarrow> Inr True \<notin> set (fst (run_ops (map claim cs) s))"
  by (induction cs arbitrary: s) (auto simp: split_beta dest: spent_refuses)

lemma at_most_one_winner:
  "length (filter (\<lambda>r. r = Inr True) (fst (run_ops (map claim cs) s))) \<le> 1"
proof (induction cs arbitrary: s)
  case (Cons c cs)
  let ?s1 = "snd (claim c s)"
  show ?case
  proof (cases "fst (claim c s) = Inr True")
    case True
    then have "filter (\<lambda>r. r = Inr True) (fst (run_ops (map claim cs) ?s1)) = []"
      using spent_no_winner [OF win_spends [OF True]] by (auto simp: filter_empty_conv)
    then show ?thesis using True by (simp add: split_beta)
  next
    case False
    then show ?thesis using Cons.IH [of ?s1] by (simp add: split_beta)
  qed
qed simp

end

text \<open>
  The contract of a claim: on an unclaimed record it wins and leaves the record claimed, on a claimed
  one it reports \<open>False\<close> and changes nothing.  Whatever the order of the callers, the first one wins.
\<close>

locale one_shot =
  fixes claim :: "'c \<Rightarrow> ('s, bool) op" and present :: "'s \<Rightarrow> bool" and claimable :: "'s \<Rightarrow> bool"
  assumes wins: "present s \<Longrightarrow> claimable s \<Longrightarrow>
      fst (claim c s) = Inr True \<and> present (snd (claim c s)) \<and> \<not> claimable (snd (claim c s))"
    and loses: "present s \<Longrightarrow> \<not> claimable s \<Longrightarrow> claim c s = (Inr False, s)"
begin

lemma all_lose:
  "present s \<Longrightarrow> \<not> claimable s \<Longrightarrow> run_ops (map claim cs) s = (replicate (length cs) (Inr False), s)"
  by (induction cs) (simp_all add: loses)

lemma first_wins:
  assumes "present s"
  shows "fst (run_ops (map claim (c # cs)) s) =
    (if claimable s then Inr True # replicate (length cs) (Inr False)
     else replicate (Suc (length cs)) (Inr False))"
proof (cases "claimable s")
  case True
  obtain r s1 where m: "claim c s = (r, s1)" by (cases "claim c s")
  then have "r = Inr True" "present s1" "\<not> claimable s1"
    using wins [OF assms True, of c] by simp_all
  then show ?thesis using True m all_lose by simp
next
  case False
  then show ?thesis using all_lose [OF assms False, of "c # cs"] by simp
qed

end

text \<open>A claim that always finds its record present is a single-winner claim.\<close>

lemma one_shot_single_winner:
  assumes "one_shot claim present claimable" and "\<And>s. present s"
  shows "single_winner claim (\<lambda>s. \<not> claimable s)"
proof
  fix c s
  assume "fst (claim c s) = Inr True"
  then have "claimable s" using one_shot.loses [OF assms] by (metis Inr_inject fst_conv)
  then show "\<not> claimable (snd (claim c s))" using one_shot.wins [OF assms] by blast
next
  fix c s
  assume "\<not> claimable s"
  then show "fst (claim c s) \<noteq> Inr True \<and> \<not> claimable (snd (claim c s))"
    using one_shot.loses [OF assms] by simp
qed

lemma one_shotI:
  assumes "\<And>c s. present s \<Longrightarrow> claimable s \<Longrightarrow>
      fst (claim c s) = Inr True \<and> present (snd (claim c s)) \<and> \<not> claimable (snd (claim c s))"
    and "\<And>c s. present s \<Longrightarrow> \<not> claimable s \<Longrightarrow> claim c s = (Inr False, s)"
  shows "one_shot claim present claimable"
  using assms by (simp add: one_shot_def)

section \<open>Sequenced deliveries\<close>

text \<open>
  The contract of an event inbox: a delivery is applied only when its number is larger than the stored one,
  which it then becomes, and is otherwise without effect.
\<close>

fun accepted :: "('r \<times> bool) result \<Rightarrow> bool" where
  "accepted (Inr (d, True)) = True"
| "accepted _ = False"

text \<open>The sequence numbers of the deliveries that were applied.\<close>

definition applied :: "('v \<Rightarrow> int) \<Rightarrow> ('r \<times> bool) result list \<Rightarrow> 'v list \<Rightarrow> int list" where
  "applied seq rs vs = map (seq \<circ> snd) (filter (accepted \<circ> fst) (zip rs vs))"

locale sequenced =
  fixes deliver :: "'v \<Rightarrow> ('s, 'r \<times> bool) op" and seq :: "'v \<Rightarrow> int" and seen :: "'s \<Rightarrow> int result"
    and ok :: "'v \<Rightarrow> bool"
  assumes delivery: "seen s = Inr n \<Longrightarrow> ok v \<Longrightarrow>
      \<not> accepted (fst (deliver v s)) \<and> snd (deliver v s) = s \<or>
      accepted (fst (deliver v s)) \<and> n < seq v \<and> seen (snd (deliver v s)) = Inr (seq v)"
begin

lemma deliveries_monotone:
  assumes "seen s = Inr n" and "\<forall>v \<in> set vs. ok v"
  shows "sorted_wrt (<) (n # applied seq (fst (run_ops (map deliver vs) s)) vs) \<and>
    seen (snd (run_ops (map deliver vs) s)) = Inr (last (n # applied seq (fst (run_ops (map deliver vs) s)) vs))"
  using assms
proof (induction vs arbitrary: s n)
  case Nil
  then show ?case by (simp add: applied_def)
next
  case (Cons v vs)
  define s1 where "s1 = snd (deliver v s)"
  have ok: "ok v" "\<forall>v \<in> set vs. ok v" using Cons.prems(2) by simp_all
  have run: "run_ops (map deliver (v # vs)) s =
      (fst (deliver v s) # fst (run_ops (map deliver vs) s1), snd (run_ops (map deliver vs) s1))"
    by (simp add: s1_def split_beta)
  from delivery [OF Cons.prems(1) ok(1)] show ?case
  proof
    assume "\<not> accepted (fst (deliver v s)) \<and> snd (deliver v s) = s"
    then show ?thesis
      unfolding run using Cons.IH [OF Cons.prems(1) ok(2)] by (simp add: applied_def s1_def)
  next
    assume a: "accepted (fst (deliver v s)) \<and> n < seq v \<and> seen (snd (deliver v s)) = Inr (seq v)"
    then have "seen s1 = Inr (seq v)" by (simp add: s1_def)
    from Cons.IH [OF this ok(2)] show ?thesis
      unfolding run using a by (auto simp: applied_def intro: less_trans)
  qed
qed

end

section \<open>Histories of a store\<close>

text \<open>
  A store driven by events: any sequence of allowed events, each an atomic step.  When a step leaves each
  document as it was or changes it by \<open>change\<close>, every relation that contains the changes holds between
  a document and all its later versions.
\<close>

inductive history :: "('e \<Rightarrow> 's \<Rightarrow> 's) \<Rightarrow> ('e \<Rightarrow> bool) \<Rightarrow> 's \<Rightarrow> 's \<Rightarrow> bool"
  for step :: "'e \<Rightarrow> 's \<Rightarrow> 's" and ok :: "'e \<Rightarrow> bool" where
  start: "history step ok s s"
| event: "history step ok s t \<Longrightarrow> ok e \<Longrightarrow> history step ok s (step e t)"

lemma history_fold: "history step ok s t \<Longrightarrow> list_all ok es \<Longrightarrow> history step ok s (fold step es t)"
  by (induction es arbitrary: t) (auto intro: history.event)

locale versioned =
  fixes get_doc :: "'s \<Rightarrow> 'k \<Rightarrow> 'd option" and step :: "'e \<Rightarrow> 's \<Rightarrow> 's" and ok :: "'e \<Rightarrow> bool"
    and change :: "'k \<Rightarrow> 'd \<Rightarrow> 'd \<Rightarrow> bool"
  assumes step_version: "ok e \<Longrightarrow> get_doc s i = Some d \<Longrightarrow>
      \<exists>d'. get_doc (step e s) i = Some d' \<and> (d' = d \<or> change i d d')"
begin

lemma history_keeps:
  assumes "history step ok s t" and "get_doc s i = Some d"
    and "\<And>d. R d d" and "\<And>d e f. R d e \<Longrightarrow> R e f \<Longrightarrow> R d f" and "\<And>d e. change i d e \<Longrightarrow> R d e"
  shows "\<exists>d'. get_doc t i = Some d' \<and> R d d'"
  using assms(1,2)
proof (induction rule: history.induct)
  case (event s t e)
  then obtain d1 where d1: "get_doc t i = Some d1" "R d d1" by blast
  from step_version [OF event.hyps(2) d1(1)]
  obtain d2 where "get_doc (step e t) i = Some d2" "d2 = d1 \<or> change i d1 d2" by blast
  then show ?case using d1(2) assms(4,5) by blast
qed (use assms(3) in blast)

end

section \<open>The process-local store\<close>

type_synonym mem = "doc dict"

definition mem_load :: "mem \<Rightarrow> string \<Rightarrow> doc option" where
  "mem_load s i = map_of s i"

definition mem_put :: "string \<Rightarrow> doc \<Rightarrow> mem \<Rightarrow> mem" where
  "mem_put i d s = dict_set i d s"

text \<open>\<open>current.update(changes)\<close> on the dictionary stored under \<open>i\<close>.\<close>

definition mem_patch :: "string \<Rightarrow> doc \<Rightarrow> mem \<Rightarrow> mem" where
  "mem_patch i cs s =
     (case map_of s i of None \<Rightarrow> s | Some d \<Rightarrow> dict_set i (dict_update d cs) s)"

definition mem_backend :: "mem backend" where
  "mem_backend = \<lparr>volatile = True, load = mem_load, put = mem_put, patch = mem_patch\<rparr>"

lemma mem_backend_simps [simp]:
  "volatile mem_backend = True"
  "load mem_backend = mem_load"
  "put mem_backend = mem_put"
  "patch mem_backend = mem_patch"
  by (simp_all add: mem_backend_def)

interpretation memory: document_backend mem_backend
  by unfold_locales (auto simp: mem_load_def mem_put_def mem_patch_def dict_simps)

text \<open>Keys stay distinct, so a store is a dictionary.\<close>

lemma distinct_mem_put: "distinct (map fst s) \<Longrightarrow> distinct (map fst (mem_put i d s))"
  by (simp add: mem_put_def distinct_dict_set)

lemma distinct_mem_patch: "distinct (map fst s) \<Longrightarrow> distinct (map fst (mem_patch i cs s))"
  by (auto simp: mem_patch_def distinct_dict_set split: option.splits)

end
