(* ===== verification/Policies.thy ===== *)
theory Policies
  imports PyValue
begin

text \<open>
  The stateless policies the stores consult: whether new Cloud Builds may be created
  (\<open>cloud_build_policy.py\<close>), which provider an operation uses (\<open>provider_selection.py\<close>), when two
  repository names are the same repository (\<open>repository_identity.py\<close>), and which services run on
  GitHub Actions only (\<open>quality_profiles.py\<close>).
\<close>

section \<open>Cloud Build policy\<close>

record settings =
  mock_mode :: bool
  cloud_build_enabled :: bool
  new_builds_enabled :: bool

definition require_new_builds :: "settings \<Rightarrow> unit result" where
  "require_new_builds cfg =
     (if \<not> cloud_build_enabled cfg \<or> \<not> new_builds_enabled cfg
      then Inl (HTTPException 409 ''New Cloud Builds are paused by policy; no build was created. Choose GitHub Actions for a new operation.'')
      else Inr ())"

text \<open>The value of a digit string; only read where \<open>isdigit\<close> has succeeded.\<close>

definition digits_int :: "string \<Rightarrow> int" where
  "digits_int s = (case digits_value False 0 s of None \<Rightarrow> 0 | Some i \<Rightarrow> i)"

definition validate_submission :: "doc \<Rightarrow> unit result" where
  "validate_submission request =
     (let options = as_dict (dget_or request ''options'' (PDict []));
          timeout = py_str (dget_or request ''timeout'' (PStr ''''))
      in if list_ex (has_key options) [''machineType'', ''pool'', ''workerPool'', ''diskSizeGb'']
         then Inl (ValueError ''Economy builds require the standard default machine and disk'')
         else if \<not> is_str options ''logging'' ''CLOUD_LOGGING_ONLY''
         then Inl (ValueError ''Economy builds require CLOUD_LOGGING_ONLY'')
         else if timeout = [] \<or> last timeout \<noteq> CHR ''s'' \<or> \<not> all_digits (butlast timeout)
         then Inl (ValueError ''Economy builds require an explicit timeout'')
         else if \<not> (0 < digits_int (butlast timeout) \<and> digits_int (butlast timeout) \<le> 3600)
         then Inl (ValueError ''Economy build timeout must be between 1 and 3600 seconds'')
         else Inr ())"

definition economy_options :: "doc \<Rightarrow> doc result" where
  "economy_options extra =
     (let options = dict_update [(''logging'', PStr ''CLOUD_LOGGING_ONLY'')] extra
      in case validate_submission [(''options'', PDict options), (''timeout'', PStr ''1800s'')] of
           Inl e \<Rightarrow> Inl e
         | Inr _ \<Rightarrow> Inr options)"

section \<open>Provider selection\<close>

record provider_selection =
  ps_requested :: "string option"
  ps_service_default :: "string option"
  ps_effective :: string
  ps_source :: string
  ps_locked :: bool

record catalog_executors =
  release_executor :: "string option"
  deployment_executor :: "string option"

definition providers :: "string list" where
  "providers = [''github_actions'', ''cloud_build'']"

text \<open>A falsy name (\<open>None\<close> or the empty string) does not count as a choice.\<close>

definition chosen :: "string option \<Rightarrow> bool" where
  "chosen p = (case p of None \<Rightarrow> False | Some s \<Rightarrow> s \<noteq> [])"

definition select ::
  "catalog_executors \<Rightarrow> string option \<Rightarrow> string \<Rightarrow> string \<Rightarrow> provider_selection result" where
  "select service requested operation legacy_provider =
     (if (case requested of None \<Rightarrow> False | Some r \<Rightarrow> r \<notin> set providers)
      then Inl (HTTPException 422 ''Unknown execution provider'')
      else
        let default_name = (if operation = ''release'' then release_executor service
                            else deployment_executor service);
            configured = (case default_name of
                            None \<Rightarrow> None
                          | Some d \<Rightarrow> if d \<in> set providers then Some d else None)
        in Inr \<lparr>ps_requested = requested,
               ps_service_default = configured,
               ps_effective = (case requested of
                   Some r \<Rightarrow> r
                 | None \<Rightarrow> (case configured of Some c \<Rightarrow> c | None \<Rightarrow> legacy_provider)),
               ps_source = (case requested of
                   Some _ \<Rightarrow> ''request''
                 | None \<Rightarrow> (case configured of Some _ \<Rightarrow> ''service_default'' | None \<Rightarrow> ''legacy_policy'')),
               ps_locked = True\<rparr>)"

text \<open>
  \<open>require_same\<close> takes the recorded selection either as the model object or as a stored dictionary
  (possibly absent).
\<close>

datatype recorded_selection = SelectionObject provider_selection | SelectionDict pyval

definition require_same :: "recorded_selection \<Rightarrow> string option \<Rightarrow> pyval \<Rightarrow> unit result" where
  "require_same selection requested legacy_provider =
     (let effective = (case selection of
            SelectionObject p \<Rightarrow> PStr (ps_effective p)
          | SelectionDict d \<Rightarrow>
              dget_or (as_dict (py_or d (PDict []))) ''effective'' legacy_provider)
      in if chosen requested \<and> effective \<noteq> PStr (case requested of None \<Rightarrow> [] | Some r \<Rightarrow> r)
         then Inl (HTTPException 409 ''Existing operation keeps its original provider; a new selection cannot change an idempotent request'')
         else Inr ())"

text \<open>\<open>bool((record.get("provider_selection") or {}).get("locked"))\<close>\<close>

definition locked :: "doc \<Rightarrow> bool" where
  "locked record =
     flag (as_dict (py_or (dget record ''provider_selection'') (PDict []))) ''locked''"

section \<open>Repository identity\<close>

definition renames :: "(int \<times> string list) list" where
  "renames =
    [(1306114845, [''diegomad14/cgm-sanplat-api'', ''diegomad14/cgm-artemis-api'']),
     (1306114872, [''diegomad14/cgm-sanplat-web'', ''diegomad14/cgm-artemis-web''])]"

definition by_name :: "(string \<times> int) list" where
  "by_name = concat (map (\<lambda>(i, names). map (\<lambda>n. (str_lower n, i)) names) renames)"

definition repository_id :: "string \<Rightarrow> int option" where
  "repository_id repository = map_of by_name (str_lower repository)"

definition aliases :: "string \<Rightarrow> string list" where
  "aliases repository =
     (case repository_id repository of
        None \<Rightarrow> [repository]
      | Some i \<Rightarrow> (case map_of renames i of None \<Rightarrow> [] | Some names \<Rightarrow> names))"

definition same_repository :: "string \<Rightarrow> string \<Rightarrow> bool" where
  "same_repository left right =
     (if str_lower left = str_lower right then True
      else repository_id left \<noteq> None \<and> repository_id left = repository_id right)"

definition verify_webhook_identity :: "string \<Rightarrow> pyval \<Rightarrow> bool" where
  "verify_webhook_identity repository payload_id =
     (case repository_id repository of
        None \<Rightarrow> True
      | Some i \<Rightarrow> payload_id = PInt i)"

section \<open>Services bound to GitHub Actions\<close>

definition github_actions_only_services :: "string list" where
  "github_actions_only_services = [''cgm-reconnections-api'']"

definition github_actions_only :: "string \<Rightarrow> bool" where
  "github_actions_only service_name = (service_name \<in> set github_actions_only_services)"

section \<open>Lemmas\<close>

lemma require_new_builds_ok [simp]:
  "require_new_builds cfg = Inr u \<longleftrightarrow> cloud_build_enabled cfg \<and> new_builds_enabled cfg"
  by (simp add: require_new_builds_def)

lemma require_new_builds_cases:
  obtains (paused) m where "require_new_builds cfg = Inl (HTTPException 409 m)"
      "\<not> (cloud_build_enabled cfg \<and> new_builds_enabled cfg)"
  | (allowed) "require_new_builds cfg = Inr ()" "cloud_build_enabled cfg" "new_builds_enabled cfg"
  by (auto simp: require_new_builds_def split: if_splits)

lemma locked_frame: "k \<noteq> ''provider_selection'' \<Longrightarrow> locked (dict_set k v d) = locked d"
  by (simp add: locked_def dict_simps)

lemma locked_cong: "dget d ''provider_selection'' = dget e ''provider_selection'' \<Longrightarrow> locked d = locked e"
  by (simp add: locked_def)

lemma same_repository_iff:
  "same_repository l r \<longleftrightarrow>
   str_lower l = str_lower r \<or> (repository_id l \<noteq> None \<and> repository_id l = repository_id r)"
  by (simp add: same_repository_def)

lemma repository_id_cong: "str_lower l = str_lower r \<Longrightarrow> repository_id l = repository_id r"
  by (simp add: repository_id_def)

lemma renames_by_id:
  "repository_id r = Some i \<Longrightarrow> \<exists>names. map_of renames i = Some names \<and> (\<exists>n \<in> set names. str_lower n = str_lower r)"
  by (auto simp: repository_id_def by_name_def renames_def split: if_splits)

lemma repository_id_alias:
  "map_of renames i = Some names \<Longrightarrow> n \<in> set names \<Longrightarrow> repository_id n = Some i"
  by (auto simp: repository_id_def by_name_def renames_def str_lower_def char_lower_def split: if_splits)

end
