(* ===== verification/ReleaseChecks.thy ===== *)
theory ReleaseChecks
  imports Codec DocStore Policies
begin

text \<open>
  The decision layer of \<open>services/release_executions.py\<close>: the status machine, the identity fields,
  the checks every write passes, the fingerprint an execution is keyed by, and the eligibility tests
  for recovery and token claims.  Nothing here touches the store.
\<close>

section \<open>Status machine and reserved fields\<close>

definition transitions :: "(string \<times> string list) list" where
  "transitions =
    [(''received'', [''waiting_github'', ''submission_pending'', ''failed'', ''unknown'']),
     (''waiting_github'',
       [''running_quality'', ''quality_passed'', ''quality_failed'', ''submission_pending'',
        ''failed'', ''unknown'']),
     (''submission_pending'',
       [''submitting'', ''running_quality'', ''quality_passed'', ''quality_failed'', ''failed'',
        ''unknown'']),
     (''submitting'',
       [''submission_pending'', ''running_quality'', ''quality_passed'', ''quality_failed'',
        ''failed'', ''unknown'']),
     (''running_quality'', [''quality_passed'', ''quality_failed'', ''failed'', ''unknown'']),
     (''quality_passed'',
       [''release_planned'', ''no_release'', ''released'', ''superseded'', ''failed'', ''unknown'']),
     (''quality_failed'', []),
     (''release_planned'', [''publish_pending'', ''superseded'', ''failed'', ''unknown'']),
     (''publish_pending'',
       [''released'', ''release_planned'', ''superseded'', ''failed'', ''unknown'']),
     (''no_release'', []),
     (''released'', []),
     (''superseded'', []),
     (''failed'', []),
     (''unknown'',
       [''submission_pending'', ''running_quality'', ''release_planned'', ''released'',
        ''superseded'', ''failed''])]"

definition successors :: "string \<Rightarrow> string list" where
  "successors old = (case map_of transitions old of None \<Rightarrow> [] | Some new \<Rightarrow> new)"

definition quality_bootstrap_ticket_id :: string where
  "quality_bootstrap_ticket_id = ''artemis-pr172-quality-bootstrap-v1''"

definition bootstrap_document_id :: string where
  "bootstrap_document_id = ''__bootstrap_ticket_'' @ quality_bootstrap_ticket_id"

definition identity_fields :: "string list" where
  "identity_fields =
    [''execution_id'', ''fingerprint'', ''repository'', ''service_name'', ''operation'',
     ''head_sha'', ''base_sha'', ''profile_hash'', ''executor_digest'', ''policy_hash'',
     ''planner_hash'']"

section \<open>Storage fence\<close>

definition persistent_bootstrap_collection :: "settings \<Rightarrow> 's backend \<Rightarrow> unit result" where
  "persistent_bootstrap_collection cfg B =
     raise_if (volatile B \<and> \<not> mock_mode cfg)
       (RuntimeError ''Persistent quality bootstrap storage is unavailable'')"

section \<open>Checks on a write\<close>

definition validate_status_change :: "doc \<Rightarrow> doc \<Rightarrow> unit result" where
  "validate_status_change current changes =
     (let new_status = dget changes ''status''
      in if \<not> truthy new_status \<or> py_eq new_status (dget current ''status'') then Inr ()
         else
           let old_status = py_str (dget_or current ''status'' (PStr ''received''))
           in first_error
             [raise_if (flag current ''bootstrap_ticket_id'' \<and> old_status = ''quality_passed'')
                (ValueError ''Completed quality bootstrap cannot be reopened''),
              raise_if (\<not> in_strs new_status (successors old_status))
                (ValueError (''Invalid release execution transition '' @ old_status @ ''->'' @ py_str new_status))])"

definition rebind_fields :: "string list" where
  "rebind_fields =
    [''provider'', ''build_id'', ''provider_run_id'', ''github_run_id'', ''build_name'',
     ''logs_url'', ''pull_request_number'', ''repository_id'', ''source_token_issued_at'',
     ''source_token_build_id'', ''event_token_hash'', ''event_token_issued_at'',
     ''event_token_build_id'', ''event_token_provider_run_id'', ''previous_build_ids'']"

definition retry_statuses :: "string list" where
  "retry_statuses = [''received'', ''waiting_github'', ''submission_pending'', ''submission_failed'']"

text \<open>One iteration of the evidence loop over a field of a bootstrap execution.\<close>

definition evidence_check :: "doc \<Rightarrow> doc \<Rightarrow> string \<Rightarrow> unit result" where
  "evidence_check current changes field =
     (if flag current field \<and> has_key changes field then
        if field = ''event_sequence'' then
          (case py_lt (dget changes field) (dget current field) of
             Inl e \<Rightarrow> Inl e
           | Inr b \<Rightarrow> raise_if b (ValueError ''Quality bootstrap evidence cannot be reset''))
        else raise_if (py_ne (dget current field) (dget changes field))
               (ValueError ''Quality bootstrap evidence is immutable'')
      else Inr ())"

definition validate_bootstrap_changes :: "settings \<Rightarrow> 's backend \<Rightarrow> doc \<Rightarrow> doc \<Rightarrow> unit result" where
  "validate_bootstrap_changes cfg B current changes =
     first_error
       ([persistent_bootstrap_collection cfg B,
         raise_if (rewrites_any rebind_fields current changes)
           (ValueError ''Quality bootstrap attempt cannot be reset or rebound''),
         raise_if (in_strs (dget changes ''status'') retry_statuses)
           (ValueError ''Quality bootstrap attempt cannot be retried''),
         raise_if (list_ex (\<lambda>kv. starts_with ''planner_retry'' (fst kv) \<or>
                                starts_with ''reconciliation_attempt'' (fst kv)) changes)
           (ValueError ''Quality bootstrap attempt cannot be retried'')]
        @ map (evidence_check current changes)
            [''event_sequence'', ''pending_report_hash'', ''report_hash'', ''evidence_committed''])"

definition validate_changes :: "settings \<Rightarrow> 's backend \<Rightarrow> doc \<Rightarrow> doc \<Rightarrow> unit result" where
  "validate_changes cfg B current changes =
     first_error
       [raise_if (is_str current ''ticket_id'' quality_bootstrap_ticket_id)
          (ValueError ''Quality bootstrap global ticket is immutable''),
        raise_if (locked current \<and>
                  rewrites_any [''provider'', ''provider_selection'', ''trigger_event''] current changes)
          (ValueError ''Reserved release provider selection is immutable''),
        raise_if (list_ex (has_key changes) identity_fields)
          (ValueError ''Release execution identity fields are immutable''),
        raise_if (list_ex (\<lambda>kv. starts_with ''bootstrap_'' (fst kv)) changes)
          (ValueError ''Quality bootstrap fields are immutable''),
        (if flag current ''bootstrap_ticket_id'' then validate_bootstrap_changes cfg B current changes
         else Inr ()),
        validate_status_change current changes]"

definition require_event_identity :: "doc \<Rightarrow> string \<Rightarrow> string \<Rightarrow> string \<Rightarrow> unit result" where
  "require_event_identity current expected_provider expected_run_id expected_token_hash =
     first_error
       [raise_if (\<not> is_str current ''provider'' expected_provider)
          (ValueError ''Release execution provider changed''),
        raise_if (expected_run_id = [] \<or>
                  py_str (dget_or current ''provider_run_id'' (PStr '''')) \<noteq> expected_run_id)
          (ValueError ''Release execution run changed''),
        raise_if (expected_token_hash \<noteq> [] \<and> \<not> is_str current ''event_token_hash'' expected_token_hash)
          (ValueError ''Release execution event token changed''),
        raise_if (flag current ''bootstrap_ticket_id'' \<and> \<not> flag current ''bootstrap_build_verified'')
          (ValueError ''Quality bootstrap build has not been verified'')]"

section \<open>Planner recovery\<close>

definition retry_count :: "doc \<Rightarrow> int result" where
  "retry_count value =
     py_int (py_or (dget_or value ''planner_retry_count'' (PInt 0)) (PInt 0))"

definition planner_retry_candidate :: "doc \<Rightarrow> bool \<Rightarrow> bool \<Rightarrow> bool result" where
  "planner_retry_candidate value allow_remediation allow_contract_retry =
     (if flag value ''bootstrap_ticket_id'' then Inr False
      else case retry_count value of
        Inl e \<Rightarrow> Inl e
      | Inr n \<Rightarrow>
        let remediation_image = py_str (dget_or value ''planner_remediation_retry_image'' (PStr ''''));
            remediation_hash = py_str (dget_or value ''planner_remediation_retry_hash'' (PStr ''''));
            image_digest = (if contains ''@sha256:'' remediation_image
                            then after_last ''@sha256:'' remediation_image else '''');
            remediation_is_pinned = hex_string 64 image_digest;
            remediation_hash_is_valid = hex_string 64 remediation_hash;
            attempt_available =
              (n = 0 \<and> \<not> flag value ''planner_retry_checked'')
              \<or> (allow_remediation \<and> n = 1 \<and> flag value ''planner_retry_checked''
                  \<and> \<not> flag value ''planner_remediation_retry_checked'')
              \<or> (allow_contract_retry \<and> n = 2 \<and> flag value ''planner_remediation_retry_checked''
                  \<and> \<not> flag value ''planner_contract_retry_checked''
                  \<and> remediation_is_pinned \<and> remediation_hash_is_valid)
        in Inr (is_str value ''status'' ''failed''
             \<and> is_str value ''provider'' ''cloud_build''
             \<and> is_str value ''operation'' ''main_release''
             \<and> flag value ''release_engine_failed''
             \<and> is_str value ''engine_event_status'' ''quality_passed''
             \<and> flag value ''evidence_committed''
             \<and> flag value ''report_hash''
             \<and> attempt_available
             \<and> flag value ''build_id''))"

section \<open>Fingerprint\<close>

record identity =
  repository :: string
  service_name :: string
  operation :: string
  head_sha :: string
  base_sha :: string
  profile_hash :: string
  executor_digest :: string
  policy_hash :: string
  planner_hash :: string

definition fingerprint_payload :: "identity \<Rightarrow> doc" where
  "fingerprint_payload r =
    [(''repository'', PStr (str_lower (repository r))),
     (''service_name'', PStr (service_name r)),
     (''operation'', PStr (operation r)),
     (''head_sha'', PStr (str_lower (head_sha r))),
     (''base_sha'', PStr (str_lower (base_sha r))),
     (''profile_hash'', PStr (profile_hash r)),
     (''executor_digest'', PStr (executor_digest r)),
     (''policy_hash'', PStr (policy_hash r)),
     (''planner_hash'', PStr (if operation r = ''main_release'' then planner_hash r else ''''))]"

definition fingerprint :: "identity \<Rightarrow> string" where
  "fingerprint r = sha256_hex (json_dumps True True (PDict (fingerprint_payload r)))"

section \<open>One-time tokens\<close>

text \<open>
  Whether the provider run may hold a token, with the build identifiers it may replace: the branches
  of the provider test.
\<close>

definition token_admission :: "doc \<Rightarrow> string \<Rightarrow> string \<Rightarrow> pyval list option" where
  "token_admission current provider_run_id token_field =
     (if is_str current ''provider'' ''cloud_build'' then
        if \<not> is_str current ''build_id'' provider_run_id then None
        else Some (as_list (py_or (dget current ''previous_build_ids'') (PList [])))
      else if is_str current ''provider'' ''github_actions'' \<and>
              token_field \<in> {''event_token_provider_run_id'', ''source_token_provider_run_id''}
      then
        if py_str (dget_or current ''provider_run_id'' (PStr '''')) \<noteq> provider_run_id then None
        else if token_field = ''source_token_provider_run_id'' \<and>
                \<not> in_strs (dget current ''status'') [''waiting_github'', ''running_quality'']
        then None
        else Some []
      else None)"

definition claim_build_scoped_token ::
  "settings \<Rightarrow> 's backend \<Rightarrow> doc \<Rightarrow> string \<Rightarrow> string \<Rightarrow> string \<Rightarrow> bool result" where
  "claim_build_scoped_token cfg B current provider_run_id token_field issued_field =
     (if flag current ''bootstrap_ticket_id'' \<and> persistent_bootstrap_collection cfg B \<noteq> Inr ()
      then Inl (RuntimeError ''Persistent quality bootstrap storage is unavailable'')
      else if flag current ''bootstrap_ticket_id'' \<and>
              (\<not> flag current ''bootstrap_build_verified'' \<or>
               in_strs (dget current ''status'')
                 [''failed'', ''quality_failed'', ''no_release'', ''released'', ''superseded'', ''quality_passed''])
      then Inr False
      else if provider_run_id = [] then Inr False
      else case token_admission current provider_run_id token_field of
             None \<Rightarrow> Inr False
           | Some previous \<Rightarrow>
               let issued_for = py_str (dget_or current token_field (PStr ''''))
               in Inr (\<not> (issued_for = provider_run_id)
                     \<and> \<not> (issued_for \<noteq> [] \<and> PStr issued_for \<notin> set previous)
                     \<and> \<not> (issued_for = [] \<and> flag current issued_field
                          \<and> (previous = [] \<or> PStr provider_run_id \<in> set previous))))"

end
