(* ===== verification/ReleaseStore.thy ===== *)
theory ReleaseStore
  imports ReleaseChecks
begin

text \<open>
  The operations of \<open>services/release_executions.py\<close> on the store.  Where the source writes the
  process-local branch and the Firestore transaction with the same text, one definition serves both
  and the backend is its argument; where the branches differ (an absent process-local record, the
  persistence fence) the definition asks \<open>volatile\<close>.  The clock readings of an operation are its
  string arguments \<open>now\<close>.
\<close>

section \<open>Reading\<close>

definition get_quality_bootstrap_ticket ::
  "settings \<Rightarrow> 's backend \<Rightarrow> 's \<Rightarrow> doc option result" where
  "get_quality_bootstrap_ticket cfg B s =
     (case persistent_bootstrap_collection cfg B of
        Inl e \<Rightarrow> Inl e
      | Inr _ \<Rightarrow> Inr (load B s bootstrap_document_id))"

definition rx_get :: "settings \<Rightarrow> 's backend \<Rightarrow> string \<Rightarrow> 's \<Rightarrow> doc option result" where
  "rx_get cfg B execution_id s =
     (case load B s execution_id of
        None \<Rightarrow> Inr None
      | Some value \<Rightarrow>
          if volatile B then
            if value = [] then Inr None
            else if flag value ''bootstrap_ticket_id'' \<and> \<not> mock_mode cfg
            then Inl (RuntimeError ''Persistent quality bootstrap storage is unavailable'')
            else Inr (Some value)
          else Inr (Some value))"

section \<open>The read-check-update transaction\<close>

text \<open>
  \<open>callback\<close> returns the changes to write and an optional result; the caller gets that result or,
  without one, the updated document.
\<close>

definition mutate ::
  "settings \<Rightarrow> 's backend \<Rightarrow> string \<Rightarrow> (doc \<Rightarrow> (doc \<times> 'a option) result) \<Rightarrow> ('s, doc \<times> 'a option) op" where
  "mutate cfg B execution_id callback s =
     (if execution_id = bootstrap_document_id
      then (Inl (ValueError ''Quality bootstrap global ticket is immutable''), s)
      else transact B execution_id
        (\<lambda>snapshot. case snapshot of
           None \<Rightarrow> Inl (KeyError execution_id)
         | Some current \<Rightarrow>
             if volatile B \<and> flag current ''bootstrap_ticket_id'' \<and> \<not> mock_mode cfg
             then Inl (RuntimeError ''Persistent quality bootstrap storage is unavailable'')
             else case callback current of
                Inl e \<Rightarrow> Inl e
              | Inr (changes, result) \<Rightarrow>
                  Inr ((dict_update current changes, result),
                       if changes = [] then None else Some changes)) s)"

text \<open>A callback that checks and then writes fixed changes.\<close>

definition checked :: "(doc \<Rightarrow> unit result list) \<Rightarrow> doc \<Rightarrow> doc \<Rightarrow> (doc \<times> unit option) result" where
  "checked checks changes current = guarded (checks current) (Inr (changes, None))"

definition rx_save :: "settings \<Rightarrow> 's backend \<Rightarrow> string \<Rightarrow> string \<Rightarrow> doc \<Rightarrow> ('s, doc) op" where
  "rx_save cfg B now execution_id given s =
     (let changes = dict_set ''updated_at'' (PStr now) given
      in if list_ex (has_key changes) identity_fields
         then (Inl (ValueError ''Release execution identity fields are immutable''), s)
         else map_op fst
           (mutate cfg B execution_id
              (checked (\<lambda>current. [validate_changes cfg B current changes]) changes)) s)"

definition save_for_provider ::
  "settings \<Rightarrow> 's backend \<Rightarrow> string \<Rightarrow> string \<Rightarrow> string \<Rightarrow> string option \<Rightarrow> doc \<Rightarrow> ('s, doc) op" where
  "save_for_provider cfg B now execution_id expected_provider expected_run_id given s =
     (let changes = dict_set ''updated_at'' (PStr now) given
      in map_op fst
           (mutate cfg B execution_id
              (checked
                (\<lambda>current.
                  [raise_if (\<not> is_str current ''provider'' expected_provider)
                     (ValueError ''Release execution provider changed''),
                   raise_if (case expected_run_id of
                               None \<Rightarrow> False
                             | Some r \<Rightarrow> py_str (dget_or current ''provider_run_id'' (PStr '''')) \<noteq> r)
                     (ValueError ''Release execution run changed''),
                   validate_changes cfg B current changes])
                changes)) s)"

definition admit_github_run ::
  "settings \<Rightarrow> 's backend \<Rightarrow> string \<Rightarrow> string \<Rightarrow> string \<Rightarrow> doc \<Rightarrow> ('s, doc) op" where
  "admit_github_run cfg B now execution_id provider_run_id metadata s =
     (if \<not> all_digits provider_run_id
      then (Inl (ValueError ''GitHub workflow run is invalid''), s)
      else
        let changes = dict_update metadata
              [(''provider_run_id'', PStr provider_run_id),
               (''github_run_id'', PInt (digits_int provider_run_id)),
               (''updated_at'', PStr now)]
        in map_op fst
             (mutate cfg B execution_id
                (checked
                  (\<lambda>current.
                    [raise_if (\<not> is_str current ''provider'' ''github_actions'' \<or>
                               flag current ''bootstrap_ticket_id'')
                       (ValueError ''Release execution provider changed''),
                     raise_if (\<not> in_strs (dget current ''status'') [''waiting_github'', ''running_quality''])
                       (ValueError ''Release execution is not available for GitHub admission''),
                     raise_if (flag current ''provider_run_id'' \<and>
                               py_str (dget current ''provider_run_id'') \<noteq> provider_run_id)
                       (ValueError ''Release execution already has a run''),
                     validate_changes cfg B current changes])
                  changes)) s)"

definition admit_event_provider ::
  "settings \<Rightarrow> 's backend \<Rightarrow> string \<Rightarrow> string \<Rightarrow> string \<Rightarrow> string \<Rightarrow> string \<Rightarrow> ('s, doc) op" where
  "admit_event_provider cfg B now execution_id expected_provider expected_run_id expected_token_hash s =
     map_op fst
       (mutate cfg B execution_id
          (checked
            (\<lambda>current.
              [require_event_identity current expected_provider expected_run_id expected_token_hash,
               raise_if (in_strs (dget current ''status'')
                           [''failed'', ''quality_failed'', ''no_release'', ''released'', ''superseded'']
                         \<or> (flag current ''bootstrap_ticket_id'' \<and> is_str current ''status'' ''quality_passed''))
                 (ValueError ''Release execution is terminal'')])
            [(''event_admitted_at'', PStr now)])) s"

section \<open>The quality bootstrap\<close>

definition binding_required :: "string list" where
  "binding_required =
    [''requested_by'', ''idempotency_key'', ''repository'', ''repository_id'', ''service_name'',
     ''pull_request_number'', ''head_sha'', ''base_sha'', ''fingerprint'', ''profile_hash'',
     ''executor_digest'', ''policy_hash'', ''build_request'', ''build_request_hash'', ''nonce'',
     ''authorization_policy'', ''max_compute_usd'', ''timeout_seconds'', ''dispatch_token_hash'']"

definition bootstrap_request_hash :: "doc \<Rightarrow> string" where
  "bootstrap_request_hash binding =
     sha256_hex (json_dumps False True (dget binding ''build_request''))"

text \<open>The checks on the binding alone.\<close>

definition bootstrap_binding_checks :: "doc \<Rightarrow> unit result" where
  "bootstrap_binding_checks binding =
     first_error
       [raise_if (\<not> list_all (has_key binding) binding_required)
          (ValueError ''Quality bootstrap binding is incomplete''),
        raise_if (\<not> is_str binding ''repository'' ''diegomad14/cgm-artemis-api''
             \<or> py_str (dget binding ''repository_id'') \<noteq> ''1306114845''
             \<or> \<not> is_str binding ''service_name'' ''cgm-artemis-api''
             \<or> py_ne (dget binding ''pull_request_number'') (PInt 172)
             \<or> \<not> is_str binding ''base_sha'' ''3c807a789ba78eea95068a3cc0a7a6e537b0bae9''
             \<or> \<not> is_str binding ''authorization_policy'' quality_bootstrap_ticket_id
             \<or> py_str (dget binding ''max_compute_usd'') \<noteq> ''0.36''
             \<or> py_ne (dget binding ''timeout_seconds'') (PInt 3600)
             \<or> \<not> flag binding ''requested_by''
             \<or> length (py_str (dget binding ''idempotency_key'')) \<noteq> 64
             \<or> \<not> flag binding ''nonce''
             \<or> length (py_str (dget binding ''dispatch_token_hash'')) \<noteq> 64
             \<or> \<not> is_dict (dget binding ''build_request''))
          (ValueError ''Quality bootstrap does not match the fixed authorization''),
        raise_if (\<not> is_str binding ''build_request_hash'' (bootstrap_request_hash binding))
          (ValueError ''Quality bootstrap build request hash mismatch'')]"

definition ticket_match_fields :: "string list" where
  "ticket_match_fields =
    [''repository'', ''repository_id'', ''service_name'', ''pull_request_number'', ''head_sha'',
     ''base_sha'', ''fingerprint'', ''profile_hash'', ''executor_digest'', ''policy_hash'',
     ''authorization_policy'']"

definition fresh_fields :: "string list" where
  "fresh_fields =
    [''bootstrap_ticket_id'', ''provider_run_id'', ''github_run_id'', ''build_id'', ''build_name'',
     ''source_token_issued_at'', ''source_token_build_id'', ''event_token_hash'',
     ''event_token_issued_at'', ''event_token_build_id'', ''event_token_provider_run_id'',
     ''event_admitted_at'', ''event_sequence'', ''engine_event_status'', ''pending_report_hash'',
     ''report_hash'', ''evidence_committed'', ''release_plan'', ''provider_terminal_success'',
     ''previous_build_ids'', ''planner_retry_count'']"

definition bootstrap_changes :: "doc \<Rightarrow> string \<Rightarrow> doc" where
  "bootstrap_changes binding now =
    [(''provider'', PStr ''cloud_build''),
     (''status'', PStr ''submitting''),
     (''updated_at'', PStr now),
     (''bootstrap_ticket_id'', PStr quality_bootstrap_ticket_id),
     (''bootstrap_attempts'', PInt 1),
     (''bootstrap_binding'', PDict binding),
     (''bootstrap_nonce'', dget binding ''nonce''),
     (''bootstrap_build_request'', dget binding ''build_request''),
     (''bootstrap_build_request_hash'', PStr (bootstrap_request_hash binding)),
     (''bootstrap_requested_by'', dget binding ''requested_by''),
     (''bootstrap_idempotency_key'', dget binding ''idempotency_key''),
     (''bootstrap_reserved_at'', PStr now)]"

text \<open>
  The decision on the execution and the global ticket: \<open>None\<close> for a replay of the reservation that
  consumed the ticket, otherwise the changes that start the single attempt.
\<close>

definition bootstrap_validate ::
  "doc \<Rightarrow> string \<Rightarrow> string \<Rightarrow> doc option \<Rightarrow> doc option \<Rightarrow> doc option result" where
  "bootstrap_validate binding execution_id now current ticket =
     (case ticket of
        Some t \<Rightarrow>
          if py_ne (dget t ''idempotency_key'') (dget binding ''idempotency_key'')
             \<or> py_ne (dget t ''requested_by'') (dget binding ''requested_by'')
             \<or> \<not> is_str t ''execution_id'' execution_id
             \<or> list_ex (\<lambda>f. py_ne (dget t f) (dget binding f)) ticket_match_fields
          then Inl (ValueError ''Quality bootstrap global ticket is already consumed'')
          else Inr None
      | None \<Rightarrow>
          (case current of
             None \<Rightarrow> Inl (KeyError execution_id)
           | Some c \<Rightarrow>
               if locked c
               then Inl (ValueError ''Reserved release provider is immutable; bootstrap cannot change it'')
               else if \<not> is_str c ''status'' ''waiting_github''
                  \<or> \<not> is_str c ''provider'' ''github_actions''
                  \<or> \<not> is_str c ''operation'' ''pr_quality''
                  \<or> py_ne (dget c ''pull_request_number'') (PInt 172)
                  \<or> list_ex (flag c) fresh_fields
                  \<or> list_ex (\<lambda>f. py_ne (dget c f) (dget binding f))
                      [''repository'', ''service_name'', ''head_sha'', ''base_sha'', ''fingerprint'',
                       ''profile_hash'', ''executor_digest'', ''policy_hash'']
                  \<or> \<not> is_str c ''execution_id'' execution_id
               then Inl (ValueError ''Quality bootstrap requires a fresh matching GitHub execution'')
               else Inr (Some (bootstrap_changes binding now))))"

definition bootstrap_ticket :: "doc \<Rightarrow> string \<Rightarrow> string \<Rightarrow> doc" where
  "bootstrap_ticket binding execution_id now =
     dict_update binding
       [(''ticket_id'', PStr quality_bootstrap_ticket_id),
        (''execution_id'', PStr execution_id),
        (''consumed_at'', PStr now)]"

definition reserve_quality_bootstrap ::
  "settings \<Rightarrow> 's backend \<Rightarrow> string \<Rightarrow> string \<Rightarrow> doc \<Rightarrow> ('s, doc \<times> bool) op" where
  "reserve_quality_bootstrap cfg B now execution_id binding s =
     (case first_error
             [bootstrap_binding_checks binding, require_new_builds cfg,
              persistent_bootstrap_collection cfg B] of
        Inl e \<Rightarrow> (Inl e, s)
      | Inr _ \<Rightarrow>
        (case bootstrap_validate binding execution_id now (load B s execution_id)
                (load B s bootstrap_document_id) of
           Inl e \<Rightarrow> (Inl e, s)
         | Inr None \<Rightarrow>
             (case load B s execution_id of
                None \<Rightarrow>
                  (Inl (if volatile B then KeyError execution_id
                        else RuntimeError ''Quality bootstrap execution is unavailable''), s)
              | Some saved \<Rightarrow> (Inr (saved, False), s))
         | Inr (Some changes) \<Rightarrow>
             let s1 = put B bootstrap_document_id (bootstrap_ticket binding execution_id now) s;
                 current = (case load B s execution_id of None \<Rightarrow> [] | Some c \<Rightarrow> c)
             in (Inr (dict_update current changes, True), patch B execution_id changes s1)))"

end
