(* ===== verification/ReleaseClaims.thy ===== *)
theory ReleaseClaims
  imports ReleaseStore
begin

text \<open>
  \<open>services/release_executions.py\<close>, continued: the bootstrap attempt, reservation, the provider handoff,
  the exclusive claims (submission, publication, tokens), event delivery and planner recovery.
\<close>

section \<open>The bootstrap attempt\<close>

definition bootstrap_update_allowed :: "string list" where
  "bootstrap_update_allowed =
    [''status'', ''error'', ''build_id'', ''provider_run_id'', ''provider_status'', ''logs_url'',
     ''build_name'', ''submission_reconciled_at'', ''bootstrap_build_verified'',
     ''bootstrap_verified_request_hash'']"

definition bootstrap_update_checks :: "string \<Rightarrow> doc \<Rightarrow> doc \<Rightarrow> unit result list" where
  "bootstrap_update_checks attempt_nonce changes current =
     [raise_if (\<not> is_str current ''bootstrap_ticket_id'' quality_bootstrap_ticket_id
                \<or> \<not> is_str current ''bootstrap_nonce'' attempt_nonce)
        (ValueError ''Quality bootstrap attempt identity mismatch''),
      (if has_key changes ''build_id'' then
         let build_id = py_str (dget changes ''build_id'')
         in raise_if
              (\<not> flag current ''bootstrap_dispatch_started''
               \<or> build_id = []
               \<or> 128 < length build_id
               \<or> \<not> is_str changes ''provider_run_id'' build_id
               \<or> dget changes ''bootstrap_build_verified'' \<noteq> PBool True
               \<or> py_ne (dget changes ''bootstrap_verified_request_hash'')
                       (dget current ''bootstrap_build_request_hash'')
               \<or> dget current ''build_id'' \<notin> {PNone, PStr [], PStr build_id}
               \<or> dget current ''provider_run_id'' \<notin> {PNone, PStr [], PStr build_id})
              (ValueError ''Quality bootstrap build binding is not verified'')
       else
         raise_if (list_ex (has_key changes)
                     [''provider_run_id'', ''bootstrap_build_verified'', ''bootstrap_verified_request_hash''])
           (ValueError ''Quality bootstrap verification requires a build binding'')),
      raise_if (in_strs (dget changes ''status'') retry_statuses)
        (ValueError ''Quality bootstrap attempt cannot be retried''),
      validate_status_change current changes]"

definition update_quality_bootstrap ::
  "settings \<Rightarrow> 's backend \<Rightarrow> string \<Rightarrow> string \<Rightarrow> string \<Rightarrow> doc \<Rightarrow> ('s, doc) op" where
  "update_quality_bootstrap cfg B now execution_id attempt_nonce given s =
     (case first_error
             [persistent_bootstrap_collection cfg B,
              raise_if (\<not> list_all (\<lambda>kv. fst kv \<in> set bootstrap_update_allowed) given)
                (ValueError ''Quality bootstrap update contains reserved fields'')] of
        Inl e \<Rightarrow> (Inl e, s)
      | Inr _ \<Rightarrow>
          let changes = dict_set ''updated_at'' (PStr now) given
          in map_op fst
               (mutate cfg B execution_id
                  (checked (bootstrap_update_checks attempt_nonce changes) changes)) s)"

definition claim_quality_bootstrap_dispatch ::
  "settings \<Rightarrow> 's backend \<Rightarrow> string \<Rightarrow> string \<Rightarrow> string \<Rightarrow> string \<Rightarrow> ('s, bool) op" where
  "claim_quality_bootstrap_dispatch cfg B now execution_id attempt_nonce dispatch_token s =
     (case persistent_bootstrap_collection cfg B of
        Inl e \<Rightarrow> (Inl e, s)
      | Inr _ \<Rightarrow>
          map_op (\<lambda>p. snd p = Some True)
            (mutate cfg B execution_id
               (\<lambda>current.
                  if \<not> is_str current ''bootstrap_ticket_id'' quality_bootstrap_ticket_id
                     \<or> \<not> is_str current ''bootstrap_nonce'' attempt_nonce
                     \<or> dispatch_token = []
                     \<or> \<not> is_str (as_dict (dget_or current ''bootstrap_binding'' (PDict [])))
                           ''dispatch_token_hash'' (sha256_hex dispatch_token)
                     \<or> flag current ''bootstrap_dispatch_started''
                     \<or> \<not> is_str current ''provider'' ''cloud_build''
                     \<or> \<not> is_str current ''status'' ''submitting''
                     \<or> flag current ''build_id''
                  then Inr ([], Some False)
                  else Inr ([(''bootstrap_dispatch_started'', PBool True),
                             (''bootstrap_dispatch_started_at'', PStr now),
                             (''updated_at'', PStr now)], Some True))) s)"

section \<open>Reservation\<close>

record reservation = identity +
  branch :: string
  provider :: string
  delivery_id :: string
  selection :: pyval
  trigger_event :: string

definition reserved_value :: "string \<Rightarrow> string \<Rightarrow> reservation \<Rightarrow> doc" where
  "reserved_value now fingerprint_value r =
    [(''execution_id'', PStr fingerprint_value),
     (''fingerprint'', PStr fingerprint_value),
     (''repository'', PStr (repository r)),
     (''service_name'', PStr (service_name r)),
     (''operation'', PStr (operation r)),
     (''head_sha'', PStr (str_lower (head_sha r))),
     (''base_sha'', PStr (str_lower (base_sha r))),
     (''branch'', PStr (branch r)),
     (''profile_hash'', PStr (profile_hash r)),
     (''executor_digest'', PStr (executor_digest r)),
     (''policy_hash'', PStr (policy_hash r)),
     (''planner_hash'', PStr (planner_hash r)),
     (''provider'', PStr (provider r)),
     (''status'', PStr (if provider r = ''github_actions'' then ''waiting_github''
                        else ''submission_pending'')),
     (''delivery_id'', PStr (delivery_id r)),
     (''provider_selection'', selection r),
     (''trigger_event'', PStr (trigger_event r)),
     (''event_sequence'', PInt 0),
     (''created_at'', PStr now),
     (''updated_at'', PStr now)]"

definition reserved_identity_fields :: "string list" where
  "reserved_identity_fields =
    [''fingerprint'', ''repository'', ''service_name'', ''operation'', ''head_sha'', ''base_sha'',
     ''profile_hash'', ''executor_digest'', ''policy_hash'', ''planner_hash'']"

definition rx_reserve ::
  "'s backend \<Rightarrow> string \<Rightarrow> string \<Rightarrow> reservation \<Rightarrow> ('s, doc \<times> bool) op" where
  "rx_reserve B now fingerprint_value r s =
     (if fingerprint_value \<noteq> fingerprint (identity.truncate r)
      then (Inl (ValueError ''Release execution fingerprint does not match identity''), s)
      else
        let execution_id = fingerprint_value;
            value = reserved_value now fingerprint_value r
        in case load B s execution_id of
             Some current \<Rightarrow>
               if volatile B \<and> current = [] then
                 (Inr (value, True), put B execution_id value s)
               else if list_ex (\<lambda>f. py_ne (dget current f) (dget value f)) reserved_identity_fields
               then (Inl (ValueError ''Release execution identity cannot change''), s)
               else (Inr (current, False), s)
           | None \<Rightarrow> (Inr (value, True), put B execution_id value s))"

section \<open>Provider handoff\<close>

definition transition_to_cloud_build ::
  "settings \<Rightarrow> 's backend \<Rightarrow> string \<Rightarrow> string \<Rightarrow> string \<Rightarrow> ('s, doc \<times> bool) op" where
  "transition_to_cloud_build cfg B now execution_id reason s =
     transact B execution_id
       (\<lambda>snapshot. case snapshot of
          None \<Rightarrow> Inl (KeyError execution_id)
        | Some current \<Rightarrow>
            let changes = [(''provider'', PStr ''cloud_build''),
                           (''status'', PStr ''submission_pending''),
                           (''fallback_reason'', PStr reason),
                           (''updated_at'', PStr now)]
            in guarded
                 [raise_if (locked current) (ValueError ''Reserved release provider is immutable''),
                  raise_if (flag current ''bootstrap_ticket_id'')
                    (ValueError ''Quality bootstrap provider cannot be reset''),
                  raise_if (github_actions_only
                              (py_str (py_or (dget current ''service_name'') (PStr ''''))))
                    (ValueError ''Service releases run on GitHub Actions only'')]
                 (if is_str current ''provider'' ''cloud_build'' then Inr ((current, False), None)
                  else guarded
                    [raise_if (\<not> is_str current ''provider'' ''github_actions'')
                       (ValueError ''Release execution provider transition is invalid''),
                     raise_if (\<not> in_strs (dget current ''status'') [''received'', ''waiting_github''])
                       (ValueError ''Release execution is no longer fallback eligible''),
                     require_new_builds cfg]
                    (Inr ((dict_update current changes, True), Some changes)))) s"

section \<open>Exclusive claims\<close>

definition claim_submission :: "'s backend \<Rightarrow> string \<Rightarrow> string \<Rightarrow> ('s, bool) op" where
  "claim_submission B now execution_id s =
     transact B execution_id
       (\<lambda>snapshot. case snapshot of
          None \<Rightarrow> Inl (KeyError execution_id)
        | Some current \<Rightarrow>
            if flag current ''bootstrap_ticket_id''
               \<or> \<not> is_str current ''provider'' ''cloud_build''
               \<or> flag current ''build_id''
               \<or> \<not> in_strs (dget current ''status'') [''submission_pending'', ''submission_failed'']
            then Inr (False, None)
            else Inr (True, Some [(''status'', PStr ''submitting''), (''updated_at'', PStr now)])) s"

definition bind_forbidden :: "string list" where
  "bind_forbidden =
    [''execution_id'', ''fingerprint'', ''repository'', ''service_name'', ''operation'', ''head_sha'',
     ''base_sha'', ''profile_hash'', ''executor_digest'', ''policy_hash'', ''planner_hash'',
     ''provider'', ''build_id'', ''provider_run_id'']"

definition bind_build ::
  "'s backend \<Rightarrow> string \<Rightarrow> string \<Rightarrow> string \<Rightarrow> doc \<Rightarrow> ('s, doc) op" where
  "bind_build B now execution_id build_id metadata s =
     (if build_id = [] \<or> 128 < length build_id
      then (Inl (ValueError ''Cloud Build ID is invalid''), s)
      else if list_ex (has_key metadata) bind_forbidden
      then (Inl (ValueError ''Cloud Build binding metadata contains reserved fields''), s)
      else
        let changes = dict_update metadata
              [(''build_id'', PStr build_id), (''provider_run_id'', PStr build_id),
               (''status'', PStr ''submission_pending''), (''updated_at'', PStr now)]
        in transact B execution_id
             (\<lambda>snapshot. case snapshot of
                None \<Rightarrow> Inl (KeyError execution_id)
              | Some current \<Rightarrow>
                  let current_build = py_str (dget_or current ''build_id'' (PStr ''''))
                  in guarded
                       [raise_if (flag current ''bootstrap_ticket_id'')
                          (ValueError ''Quality bootstrap requires verified build binding''),
                        raise_if (\<not> is_str current ''provider'' ''cloud_build'')
                          (ValueError ''Release execution is not Cloud Build managed''),
                        raise_if (current_build \<noteq> [] \<and> current_build \<noteq> build_id)
                          (ValueError ''Release execution is already bound to another build'')]
                       (if current_build = build_id then Inr (current, None)
                        else guarded [validate_status_change current changes]
                               (Inr (dict_update current changes, Some changes)))) s)"

definition claim_publish :: "'s backend \<Rightarrow> string \<Rightarrow> string \<Rightarrow> string \<Rightarrow> ('s, bool) op" where
  "claim_publish B now claimed_now execution_id s =
     transact B execution_id
       (\<lambda>snapshot. case snapshot of
          None \<Rightarrow> Inl (KeyError execution_id)
        | Some current \<Rightarrow>
            if \<not> is_str current ''operation'' ''main_release''
               \<or> \<not> is_str current ''status'' ''release_planned''
               \<or> flag current ''publish_claimed_at''
            then Inr (False, None)
            else Inr (True, Some [(''status'', PStr ''publish_pending''), (''updated_at'', PStr now),
                                  (''publish_claimed_at'', PStr claimed_now)])) s"

text \<open>
  Both token claims name the field by the provider, ask \<open>claim_build_scoped_token\<close>, and record the run
  the token was issued for.
\<close>

definition claim_token ::
  "settings \<Rightarrow> 's backend \<Rightarrow> string \<Rightarrow> string \<Rightarrow> string \<Rightarrow> string \<Rightarrow> string \<Rightarrow> doc \<Rightarrow> ('s, bool) op" where
  "claim_token cfg B execution_id provider_run_id build_field run_field issued_field changes s =
     transact B execution_id
       (\<lambda>snapshot. case snapshot of
          None \<Rightarrow> Inr (False, None)
        | Some current \<Rightarrow>
            let token_field = (if is_str current ''provider'' ''cloud_build'' then build_field else run_field)
            in case claim_build_scoped_token cfg B current provider_run_id token_field issued_field of
                 Inl e \<Rightarrow> Inl e
               | Inr False \<Rightarrow> Inr (False, None)
               | Inr True \<Rightarrow> Inr (True, Some (dict_set token_field (PStr provider_run_id) changes))) s"

definition claim_source_token ::
  "settings \<Rightarrow> 's backend \<Rightarrow> string \<Rightarrow> string \<Rightarrow> string \<Rightarrow> ('s, bool) op" where
  "claim_source_token cfg B now execution_id provider_run_id s =
     claim_token cfg B execution_id provider_run_id
       ''source_token_build_id'' ''source_token_provider_run_id'' ''source_token_issued_at''
       [(''source_token_issued_at'', PStr now), (''updated_at'', PStr now)] s"

definition claim_event_token ::
  "settings \<Rightarrow> 's backend \<Rightarrow> string \<Rightarrow> string \<Rightarrow> string \<Rightarrow> string \<Rightarrow> ('s, bool) op" where
  "claim_event_token cfg B now execution_id provider_run_id token_hash s =
     (if \<not> hex_string 64 token_hash
      then (Inl (ValueError ''Event token hash must be a SHA-256 hex digest''), s)
      else claim_token cfg B execution_id provider_run_id
             ''event_token_build_id'' ''event_token_provider_run_id'' ''event_token_issued_at''
             [(''event_token_hash'', PStr token_hash), (''event_token_issued_at'', PStr now),
              (''updated_at'', PStr now)] s)"

section \<open>Engine events\<close>

record event_identity =
  expected_provider :: string
  expected_run_id :: string
  expected_token_hash :: string

definition rx_accept_event ::
  "settings \<Rightarrow> 's backend \<Rightarrow> string \<Rightarrow> string \<Rightarrow> int \<Rightarrow> event_identity \<Rightarrow> doc \<Rightarrow> ('s, doc \<times> bool) op" where
  "rx_accept_event cfg B now execution_id sequence who given s =
     (let changes = dict_set ''updated_at'' (PStr now)
                      (dict_set ''event_sequence'' (PInt sequence) given)
      in transact B execution_id
           (\<lambda>snapshot. case snapshot of
              None \<Rightarrow> Inl (KeyError execution_id)
            | Some current \<Rightarrow>
                guarded
                  [(if expected_provider who \<noteq> []
                    then require_event_identity current (expected_provider who)
                           (expected_run_id who) (expected_token_hash who)
                    else raise_if (flag current ''bootstrap_ticket_id'')
                           (ValueError ''Quality bootstrap event requires verified provider identity''))]
                  (case py_int (dget_or current ''event_sequence'' (PInt 0)) of
                     Inl e \<Rightarrow> Inl e
                   | Inr seen \<Rightarrow>
                       if sequence \<le> seen then Inr ((current, False), None)
                       else guarded [validate_changes cfg B current changes]
                              (Inr ((dict_update current changes, True), Some changes)))) s)"

section \<open>Recovery\<close>

definition reconcile_checks :: "doc \<Rightarrow> unit result" where
  "reconcile_checks current =
     first_error
       [raise_if (flag current ''bootstrap_ticket_id'')
          (ValueError ''Quality bootstrap attempt cannot be retried''),
        raise_if (flag current ''build_id'' \<or>
                  \<not> in_strs (dget current ''status'') [''submitting'', ''unknown''])
          (ValueError ''Release submission is not uncertain'')]"

definition reconcile_submission_absent ::
  "settings \<Rightarrow> 's backend \<Rightarrow> string \<Rightarrow> string \<Rightarrow> ('s, doc) op" where
  "reconcile_submission_absent cfg B now execution_id s =
     (case rx_get cfg B execution_id s of
        Inl e \<Rightarrow> (Inl e, s)
      | Inr None \<Rightarrow> (Inl (KeyError execution_id), s)
      | Inr (Some current) \<Rightarrow>
          (case reconcile_checks current of
             Inl e \<Rightarrow> (Inl e, s)
           | Inr _ \<Rightarrow>
               (case py_int (dget_or current ''reconciliation_attempts'' (PInt 0)) of
                  Inl e \<Rightarrow> (Inl e, s)
                | Inr n \<Rightarrow>
                    rx_save cfg B now execution_id
                      [(''status'', PStr ''submission_pending''),
                       (''reconciliation_attempts'', PInt (n + 1))] s)))"

end
