(* ===== verification/ReleaseRecovery.thy ===== *)
theory ReleaseRecovery
  imports ReleaseClaims
begin

text \<open>
  \<open>services/release_executions.py\<close>, concluded: the staged planner recovery, whose checks run once on a
  plain read and again inside the transaction, and the process-local branches of the queries.
\<close>

section \<open>Planner recovery\<close>

record retry_request =
  failed_build_id :: string
  planner_image :: string
  planner_hash_value :: string
  remediation :: bool
  contract_retry :: bool
  previous_planner_image :: string

definition pinned :: "string \<Rightarrow> bool" where
  "pinned img = (img \<noteq> [] \<and> contains ''@sha256:'' img)"

text \<open>The first read: eligibility and the checks on the requested image.\<close>

definition retry_eligible :: "retry_request \<Rightarrow> doc \<Rightarrow> unit result" where
  "retry_eligible q current =
     (case planner_retry_candidate current (remediation q) (contract_retry q) of
        Inl e \<Rightarrow> Inl e
      | Inr b \<Rightarrow>
          raise_if (\<not> b \<or> \<not> is_str current ''build_id'' (failed_build_id q))
            (ValueError ''Release execution is not eligible for planner recovery''))"

definition retry_previous_image :: "retry_request \<Rightarrow> doc \<Rightarrow> string" where
  "retry_previous_image q current =
     (let stored = py_str (dget_or current ''planner_retry_image'' (PStr ''''))
      in if stored = [] then previous_planner_image q else stored)"

definition retry_first_checks :: "retry_request \<Rightarrow> doc \<Rightarrow> int \<Rightarrow> unit result list" where
  "retry_first_checks q current n =
     [raise_if (\<not> pinned (planner_image q))
        (ValueError ''A digest-pinned planner image is required''),
      raise_if (remediation q \<and>
          (n \<noteq> 1 \<or> retry_previous_image q current = [] \<or>
           retry_previous_image q current = planner_image q))
        (ValueError ''Planner remediation requires a different pinned image''),
      raise_if (contract_retry q \<and>
          (n \<noteq> 2
           \<or> \<not> flag current ''planner_remediation_retry_checked''
           \<or> flag current ''planner_contract_retry_checked''
           \<or> planner_hash_value q = []
           \<or> \<not> flag current ''planner_remediation_retry_image''
           \<or> \<not> is_str current ''planner_remediation_retry_image'' (planner_image q)
           \<or> \<not> is_str current ''planner_remediation_retry_hash'' (planner_hash_value q)))
        (ValueError ''Planner contract retry is not authorized''),
      raise_if (\<not> remediation q \<and> n \<noteq> 0 \<and> \<not> contract_retry q)
        (ValueError ''Planner retry budget is already consumed'')]"

text \<open>The changes, computed from the first read.\<close>

definition retry_changes :: "retry_request \<Rightarrow> string \<Rightarrow> doc \<Rightarrow> int \<Rightarrow> doc" where
  "retry_changes q now current n =
     (let previous = as_list (py_or (dget current ''previous_build_ids'') (PList []));
          failed = PStr (failed_build_id q);
          previous_build_ids = (if failed \<in> set previous then previous else previous @ [failed]);
          base =
            [(''status'', PStr ''submission_pending''),
             (''build_id'', PStr ''''),
             (''provider_run_id'', PStr ''''),
             (''provider_status'', PStr ''RETRY_PENDING''),
             (''logs_url'', PStr ''''),
             (''build_name'', PStr ''''),
             (''previous_build_ids'', PList previous_build_ids),
             (''planner_retry_pending'', PBool True),
             (''planner_retry_count'', PInt (n + 1)),
             (''planner_retry_checked'', PBool True),
             (''planner_retry_previous_build_id'', failed),
             (''planner_retry_requested_at'', PStr now),
             (''release_engine_failed'', PBool False),
             (''release_error'', PStr ''''),
             (''error'', PStr ''''),
             (''updated_at'', PStr now)]
      in if remediation q then
           base @
             [(''planner_remediation_retry_checked'', PBool True),
              (''planner_remediation_retry_pending'', PBool True),
              (''planner_remediation_retry_previous_build_id'', failed),
              (''planner_remediation_retry_image'', PStr (planner_image q)),
              (''planner_remediation_retry_hash'', PStr (planner_hash_value q)),
              (''planner_retry_image'', PStr (retry_previous_image q current))]
         else if contract_retry q then
           base @
             [(''planner_contract_retry_checked'', PBool True),
              (''planner_contract_retry_pending'', PBool True),
              (''planner_contract_retry_previous_build_id'', failed),
              (''planner_contract_retry_image'', PStr (planner_image q)),
              (''planner_contract_retry_hash'', PStr (planner_hash_value q))]
         else base @ [(''planner_retry_image'', PStr (planner_image q))])"

text \<open>
  The transaction: the same eligibility on the version being written.  \<open>previous\<close> is the image the
  first read settled on.
\<close>

definition retry_write_checks :: "retry_request \<Rightarrow> string \<Rightarrow> doc \<Rightarrow> int \<Rightarrow> unit result" where
  "retry_write_checks q previous current n =
     (let stored = py_str (dget_or current ''planner_retry_image'' (PStr ''''));
          previous_for_write = (if stored = [] then previous else stored)
      in raise_if
          (\<not> pinned (planner_image q)
           \<or> (remediation q \<and>
              (n \<noteq> 1 \<or> previous_for_write = planner_image q \<or> planner_hash_value q = []))
           \<or> (contract_retry q \<and>
              (n \<noteq> 2
               \<or> planner_hash_value q = []
               \<or> flag current ''planner_contract_retry_checked''
               \<or> \<not> is_str current ''planner_remediation_retry_image'' (planner_image q)
               \<or> \<not> is_str current ''planner_remediation_retry_hash'' (planner_hash_value q)))
           \<or> ((\<not> remediation q \<and> n \<noteq> 0) \<and> \<not> contract_retry q))
          (ValueError ''Planner remediation image is not authorized''))"

definition retry_write ::
  "'s backend \<Rightarrow> string \<Rightarrow> retry_request \<Rightarrow> string \<Rightarrow> doc \<Rightarrow> ('s, doc) op" where
  "retry_write B execution_id q previous changes s =
     transact B execution_id
       (\<lambda>snapshot. case snapshot of
          None \<Rightarrow> Inl (KeyError execution_id)
        | Some current \<Rightarrow>
            (case retry_eligible q current of
               Inl e \<Rightarrow> Inl e
             | Inr _ \<Rightarrow>
                (case retry_count current of
                   Inl e \<Rightarrow> Inl e
                 | Inr n \<Rightarrow>
                    guarded [retry_write_checks q previous current n]
                      (Inr (dict_update current changes, Some changes))))) s"

definition stage_planner_retry ::
  "settings \<Rightarrow> 's backend \<Rightarrow> string \<Rightarrow> string \<Rightarrow> retry_request \<Rightarrow> ('s, doc) op" where
  "stage_planner_retry cfg B now execution_id q s =
     (case first_error
             [require_new_builds cfg,
              raise_if (failed_build_id q = []) (ValueError ''Failed Cloud Build identity is required'')] of
        Inl e \<Rightarrow> (Inl e, s)
      | Inr _ \<Rightarrow>
        (case rx_get cfg B execution_id s of
           Inl e \<Rightarrow> (Inl e, s)
         | Inr None \<Rightarrow> (Inl (KeyError execution_id), s)
         | Inr (Some current) \<Rightarrow>
           (case retry_eligible q current of
              Inl e \<Rightarrow> (Inl e, s)
            | Inr _ \<Rightarrow>
              (case retry_count current of
                 Inl e \<Rightarrow> (Inl e, s)
               | Inr n \<Rightarrow>
                 (case first_error (retry_first_checks q current n) of
                    Inl e \<Rightarrow> (Inl e, s)
                  | Inr _ \<Rightarrow>
                      retry_write B execution_id q (retry_previous_image q current)
                        (retry_changes q now current n) s)))))"

section \<open>Queries over the process-local store\<close>

text \<open>A sort key: two text fields, absent ones read as the empty text.\<close>

definition text_field :: "doc \<Rightarrow> string \<Rightarrow> string" where
  "text_field d k = py_str (dget_or d k (PStr ''''))"

definition order_key :: "string \<Rightarrow> doc \<Rightarrow> string \<times> string" where
  "order_key field d = (text_field d field, text_field d ''execution_id'')"

definition is_fence :: "doc \<Rightarrow> bool" where
  "is_fence d = is_str d ''ticket_id'' quality_bootstrap_ticket_id"

text \<open>\<open>sort(key=..., reverse=True)\<close> keeps the order of equal elements.\<close>

definition sort_descending :: "('a \<Rightarrow> 'k::linorder) \<Rightarrow> 'a list \<Rightarrow> 'a list" where
  "sort_descending f xs = rev (sort_key f (rev xs))"

definition list_for_repository :: "string \<Rightarrow> int \<Rightarrow> mem \<Rightarrow> doc list" where
  "list_for_repository repo limit s =
     (if limit \<le> 0 then []
      else take (nat limit)
        (sort_descending (order_key ''created_at'')
          (filter (\<lambda>v. in_strs (dget v ''repository'') (aliases repo) \<and> \<not> is_fence v)
             (map snd s))))"

text \<open>\<open>max(values, key=..., default=None)\<close>: the first of the largest elements.\<close>

fun max_by :: "('a \<Rightarrow> 'k::linorder) \<Rightarrow> 'a list \<Rightarrow> 'a option" where
  "max_by f [] = None"
| "max_by f (x # xs) =
     (case max_by f xs of
        None \<Rightarrow> Some x
      | Some y \<Rightarrow> if f x < f y then Some y else Some x)"

definition find_execution :: "string \<Rightarrow> string \<Rightarrow> string \<Rightarrow> mem \<Rightarrow> doc option" where
  "find_execution repo sha kind s =
     max_by (order_key ''created_at'')
       (filter (\<lambda>v. in_strs (dget v ''repository'') (aliases repo)
                  \<and> is_str v ''head_sha'' (str_lower sha)
                  \<and> is_str v ''operation'' kind
                  \<and> \<not> is_fence v)
          (map snd s))"

definition terminal_statuses :: "string list" where
  "terminal_statuses = [''quality_failed'', ''no_release'', ''released'', ''superseded'', ''failed'']"

definition due :: "doc \<Rightarrow> bool result" where
  "due value =
     map_result
       (\<lambda>b. b \<and> \<not> is_fence value
            \<and> \<not> (is_str value ''operation'' ''pr_quality'' \<and> is_str value ''status'' ''quality_passed''))
       (if \<not> in_strs (dget value ''status'') terminal_statuses then Inr True
        else planner_retry_candidate value True True)"

fun filter_result :: "('a \<Rightarrow> bool result) \<Rightarrow> 'a list \<Rightarrow> 'a list result" where
  "filter_result p [] = Inr []"
| "filter_result p (x # xs) =
     (case p x of
        Inl e \<Rightarrow> Inl e
      | Inr b \<Rightarrow> map_result (\<lambda>ys. if b then x # ys else ys) (filter_result p xs))"

definition iter_due :: "mem \<Rightarrow> doc list result" where
  "iter_due s = map_result (sort_key (order_key ''updated_at'')) (filter_result due (map snd s))"

definition list_due :: "int \<Rightarrow> mem \<Rightarrow> doc list result" where
  "list_due limit s =
     map_result (\<lambda>vs. if 0 \<le> limit then take (nat limit) vs else take (length vs - nat (- limit)) vs)
       (iter_due s)"

section \<open>Queries: lemmas\<close>

lemma set_sort_descending [simp]: "set (sort_descending f xs) = set xs"
  by (simp add: sort_descending_def)

lemma sorted_sort_descending: "sorted (rev (map f (sort_descending f xs)))"
  by (simp add: sort_descending_def rev_map)

lemma max_by_None [simp]: "max_by f xs = None \<longleftrightarrow> xs = []"
  by (cases xs) (auto split: option.splits)

lemma max_by_mem: "max_by f xs = Some y \<Longrightarrow> y \<in> set xs"
  by (induction xs arbitrary: y) (auto split: option.splits if_splits)

lemma max_by_ge: "max_by f xs = Some y \<Longrightarrow> x \<in> set xs \<Longrightarrow> f x \<le> f y"
proof (induction xs arbitrary: y x)
  case (Cons a xs)
  show ?case
  proof (cases "max_by f xs")
    case None
    then show ?thesis using Cons.prems by auto
  next
    case (Some z)
    then have "\<forall>w \<in> set xs. f w \<le> f z" using Cons.IH by blast
    then show ?thesis
      using Cons.prems Some by (auto split: if_splits)
  qed
qed simp

lemma filter_result_set:
  "filter_result p xs = Inr ys \<Longrightarrow> set ys = {x \<in> set xs. p x = Inr True}"
  by (induction xs arbitrary: ys) (auto split: sum.splits if_splits simp: map_result_Inr)

lemma filter_result_total:
  "\<forall>x \<in> set xs. is_ok (p x) \<Longrightarrow> \<exists>ys. filter_result p xs = Inr ys"
  by (induction xs) (auto simp: is_ok_def split: sum.splits)

end
