(* ===== verification/ReleaseHistory.thy ===== *)
theory ReleaseHistory
  imports ReleaseRecovery
begin

text \<open>
  Histories of the release store: any interleaving of the operations, each atomic as the lock or the
  transaction makes it.  A recovery that reads first and writes later appears as its write, with the
  earlier read as data.  \<open>rx_write\<close> is the relation between a stored document and the changes an
  operation may merge into it; every step of a history writes through it, so an invariant of the store
  is one case per kind of write.
\<close>

section \<open>Events and histories\<close>

datatype rx_event =
    Reserve string string reservation
  | ReserveBootstrap string string doc
  | UpdateBootstrap string string string doc
  | DispatchBootstrap string string string string
  | Save string string doc
  | SaveForProvider string string string "string option" doc
  | AdmitRun string string string doc
  | AdmitEvent string string string string string
  | Handoff string string string
  | ClaimSubmission string string
  | BindBuild string string string doc
  | ClaimPublish string string string
  | SourceToken string string string
  | EventToken string string string string
  | AcceptEvent string string int event_identity doc
  | ReconcileAbsent string string
  | RetryWrite string string retry_request doc int

fun rx_step :: "settings \<Rightarrow> 's backend \<Rightarrow> rx_event \<Rightarrow> 's \<Rightarrow> 's" where
  "rx_step cfg B (Reserve now fp r) s = snd (rx_reserve B now fp r s)"
| "rx_step cfg B (ReserveBootstrap now i b) s = snd (reserve_quality_bootstrap cfg B now i b s)"
| "rx_step cfg B (UpdateBootstrap now i nonce cs) s = snd (update_quality_bootstrap cfg B now i nonce cs s)"
| "rx_step cfg B (DispatchBootstrap now i nonce tok) s =
     snd (claim_quality_bootstrap_dispatch cfg B now i nonce tok s)"
| "rx_step cfg B (Save now i cs) s = snd (rx_save cfg B now i cs s)"
| "rx_step cfg B (SaveForProvider now i p run cs) s = snd (save_for_provider cfg B now i p run cs s)"
| "rx_step cfg B (AdmitRun now i run cs) s = snd (admit_github_run cfg B now i run cs s)"
| "rx_step cfg B (AdmitEvent now i p run h) s = snd (admit_event_provider cfg B now i p run h s)"
| "rx_step cfg B (Handoff now i reason) s = snd (transition_to_cloud_build cfg B now i reason s)"
| "rx_step cfg B (ClaimSubmission now i) s = snd (claim_submission B now i s)"
| "rx_step cfg B (BindBuild now i b cs) s = snd (bind_build B now i b cs s)"
| "rx_step cfg B (ClaimPublish now now' i) s = snd (claim_publish B now now' i s)"
| "rx_step cfg B (SourceToken now i run) s = snd (claim_source_token cfg B now i run s)"
| "rx_step cfg B (EventToken now i run h) s = snd (claim_event_token cfg B now i run h s)"
| "rx_step cfg B (AcceptEvent now i n who cs) s = snd (rx_accept_event cfg B now i n who cs s)"
| "rx_step cfg B (ReconcileAbsent now i) s = snd (reconcile_submission_absent cfg B now i s)"
| "rx_step cfg B (RetryWrite now i q seen n) s =
     snd (retry_write B i q (retry_previous_image q seen) (retry_changes q now seen n) s)"

text \<open>
  The keyword arguments a caller passes on to be stored.  \<open>event_ok W\<close> says that they all satisfy \<open>W\<close>;
  a history is made of events that satisfy a given predicate.
\<close>

fun event_ok :: "(doc \<Rightarrow> bool) \<Rightarrow> rx_event \<Rightarrow> bool" where
  "event_ok W (UpdateBootstrap now i nonce given) = W given"
| "event_ok W (Save now i given) = W given"
| "event_ok W (SaveForProvider now i p run given) = W given"
| "event_ok W (AdmitRun now i run given) = W given"
| "event_ok W (BindBuild now i b given) = W given"
| "event_ok W (AcceptEvent now i n who given) = W given"
| "event_ok W e = True"

inductive rx_history :: "settings \<Rightarrow> 's backend \<Rightarrow> (rx_event \<Rightarrow> bool) \<Rightarrow> 's \<Rightarrow> 's \<Rightarrow> bool"
  for cfg :: settings and B :: "'s backend" and ok :: "rx_event \<Rightarrow> bool" where
  start: "rx_history cfg B ok s s"
| step: "rx_history cfg B ok s t \<Longrightarrow> ok e \<Longrightarrow> rx_history cfg B ok s (rx_step cfg B e t)"

fun rx_run :: "settings \<Rightarrow> 's backend \<Rightarrow> rx_event list \<Rightarrow> 's \<Rightarrow> 's" where
  "rx_run cfg B [] s = s"
| "rx_run cfg B (e # es) s = rx_run cfg B es (rx_step cfg B e s)"

lemma rx_history_run:
  "rx_history cfg B ok s t \<Longrightarrow> list_all ok es \<Longrightarrow> rx_history cfg B ok s (rx_run cfg B es t)"
  by (induction es arbitrary: t) (auto intro: rx_history.step)

section \<open>The writes a step may make\<close>

definition stamp_fields :: "string list" where
  "stamp_fields = [''updated_at'', ''provider_run_id'', ''github_run_id'', ''event_sequence'']"

inductive rx_write :: "settings \<Rightarrow> 's backend \<Rightarrow> (doc \<Rightarrow> bool) \<Rightarrow> doc \<Rightarrow> doc \<Rightarrow> bool"
  for cfg :: settings and B :: "'s backend" and W :: "doc \<Rightarrow> bool" where
  validated:
    "W given \<Longrightarrow> list_all (\<lambda>kv. fst kv \<in> set stamp_fields) extra \<Longrightarrow> cs = dict_update given extra \<Longrightarrow>
     validate_changes cfg B d cs = Inr () \<Longrightarrow> rx_write cfg B W d cs"
| reconciled:
    "cs = [(''status'', PStr ''submission_pending''), (''reconciliation_attempts'', PInt n),
           (''updated_at'', PStr now)] \<Longrightarrow>
     validate_changes cfg B d cs = Inr () \<Longrightarrow> rx_write cfg B W d cs"
| event_admitted:
    "is_str d ''provider'' p \<Longrightarrow> rx_write cfg B W d [(''event_admitted_at'', PStr now)]"
| bootstrap_started:
    "\<not> locked d \<Longrightarrow> is_str d ''status'' ''waiting_github'' \<Longrightarrow> is_str d ''provider'' ''github_actions'' \<Longrightarrow>
     \<not> flag d ''bootstrap_ticket_id'' \<Longrightarrow> rx_write cfg B W d (bootstrap_changes b now)"
| bootstrap_updated:
    "W given \<Longrightarrow> list_all (\<lambda>kv. fst kv \<in> set bootstrap_update_allowed) given \<Longrightarrow>
     cs = dict_set ''updated_at'' (PStr now) given \<Longrightarrow>
     \<forall>c \<in> set (bootstrap_update_checks nonce cs d). c = Inr () \<Longrightarrow> rx_write cfg B W d cs"
| dispatch_started:
    "\<not> flag d ''bootstrap_dispatch_started'' \<Longrightarrow> is_str d ''status'' ''submitting'' \<Longrightarrow>
     rx_write cfg B W d [(''bootstrap_dispatch_started'', PBool True),
       (''bootstrap_dispatch_started_at'', PStr now), (''updated_at'', PStr now)]"
| handed_off:
    "\<not> locked d \<Longrightarrow> \<not> flag d ''bootstrap_ticket_id'' \<Longrightarrow> is_str d ''provider'' ''github_actions'' \<Longrightarrow>
     in_strs (dget d ''status'') [''received'', ''waiting_github''] \<Longrightarrow>
     cloud_build_enabled cfg \<Longrightarrow> new_builds_enabled cfg \<Longrightarrow>
     \<not> github_actions_only (py_str (py_or (dget d ''service_name'') (PStr ''''))) \<Longrightarrow>
     rx_write cfg B W d [(''provider'', PStr ''cloud_build''), (''status'', PStr ''submission_pending''),
       (''fallback_reason'', PStr reason), (''updated_at'', PStr now)]"
| submission_claimed:
    "\<not> flag d ''bootstrap_ticket_id'' \<Longrightarrow> is_str d ''provider'' ''cloud_build'' \<Longrightarrow> \<not> flag d ''build_id'' \<Longrightarrow>
     in_strs (dget d ''status'') [''submission_pending'', ''submission_failed''] \<Longrightarrow>
     rx_write cfg B W d [(''status'', PStr ''submitting''), (''updated_at'', PStr now)]"
| build_bound:
    "W metadata \<Longrightarrow> \<not> list_ex (has_key metadata) bind_forbidden \<Longrightarrow>
     cs = dict_update metadata [(''build_id'', PStr build), (''provider_run_id'', PStr build),
       (''status'', PStr ''submission_pending''), (''updated_at'', PStr now)] \<Longrightarrow>
     \<not> flag d ''bootstrap_ticket_id'' \<Longrightarrow> is_str d ''provider'' ''cloud_build'' \<Longrightarrow>
     validate_status_change d cs = Inr () \<Longrightarrow> rx_write cfg B W d cs"
| publish_claimed:
    "is_str d ''operation'' ''main_release'' \<Longrightarrow> is_str d ''status'' ''release_planned'' \<Longrightarrow>
     \<not> flag d ''publish_claimed_at'' \<Longrightarrow>
     rx_write cfg B W d [(''status'', PStr ''publish_pending''), (''updated_at'', PStr now),
       (''publish_claimed_at'', PStr now')]"
| source_token_claimed:
    "field \<in> {''source_token_build_id'', ''source_token_provider_run_id''} \<Longrightarrow>
     claim_build_scoped_token cfg B d run field ''source_token_issued_at'' = Inr True \<Longrightarrow>
     rx_write cfg B W d [(''source_token_issued_at'', PStr now), (''updated_at'', PStr now), (field, PStr run)]"
| event_token_claimed:
    "field \<in> {''event_token_build_id'', ''event_token_provider_run_id''} \<Longrightarrow> hex_string 64 h \<Longrightarrow>
     claim_build_scoped_token cfg B d run field ''event_token_issued_at'' = Inr True \<Longrightarrow>
     rx_write cfg B W d [(''event_token_hash'', PStr h), (''event_token_issued_at'', PStr now),
       (''updated_at'', PStr now), (field, PStr run)]"
| planner_retried:
    "planner_retry_candidate d (remediation q) (contract_retry q) = Inr True \<Longrightarrow>
     is_str d ''build_id'' (failed_build_id q) \<Longrightarrow> rx_write cfg B W d (retry_changes q now seen n)"

text \<open>What one step does to one document.\<close>

inductive rx_version :: "settings \<Rightarrow> 's backend \<Rightarrow> (doc \<Rightarrow> bool) \<Rightarrow> string \<Rightarrow> doc option \<Rightarrow> doc option \<Rightarrow> bool"
  for cfg :: settings and B :: "'s backend" and W :: "doc \<Rightarrow> bool" and i :: string where
  kept: "rx_version cfg B W i v v"
| reserved:
    "v = None \<or> v = Some [] \<Longrightarrow> i = fingerprint (identity.truncate r) \<Longrightarrow>
     rx_version cfg B W i v (Some (reserved_value now i r))"
| ticket: "i = bootstrap_document_id \<Longrightarrow> rx_version cfg B W i None (Some (bootstrap_ticket b e now))"
| written: "rx_write cfg B W d cs \<Longrightarrow> rx_version cfg B W i (Some d) (Some (dict_update d cs))"

section \<open>Every step writes through the relation\<close>

lemma bootstrap_validate_Some:
  assumes "bootstrap_validate b i now cur t = Inr (Some cs)"
  shows "t = None \<and> cs = bootstrap_changes b now \<and>
    (\<exists>d. cur = Some d \<and> \<not> locked d \<and> is_str d ''status'' ''waiting_github'' \<and>
         is_str d ''provider'' ''github_actions'' \<and> \<not> list_ex (flag d) fresh_fields)"
proof (cases t)
  case None
  show ?thesis
  proof (cases cur)
    case None
    then show ?thesis using assms \<open>t = None\<close> by (simp add: bootstrap_validate_def)
  next
    case (Some d)
    then show ?thesis
      using assms \<open>t = None\<close> by (simp add: bootstrap_validate_def split: if_split_asm)
  qed
next
  case (Some u)
  then show ?thesis using assms by (simp add: bootstrap_validate_def split: if_split_asm)
qed

lemma fresh_not_bootstrap: "\<not> list_ex (flag d) fresh_fields \<Longrightarrow> \<not> flag d ''bootstrap_ticket_id''"
  by (simp add: fresh_fields_def)

context document_backend
begin

lemma transact_version:
  assumes "\<And>d x cs. load B s i = Some d \<Longrightarrow> decide (Some d) = Inr (x, Some cs) \<Longrightarrow> rx_write cfg B W d cs"
    and "\<And>x cs. decide None \<noteq> Inr (x, Some cs)"
  shows "rx_version cfg B W j (load B s j) (load B (snd (transact B i decide s)) j)"
proof (cases "transact B i decide s")
  case (Pair r s')
  show ?thesis
  proof (cases r)
    case (Inl e)
    then have "s' = s" using Pair transact_error by blast
    then show ?thesis using Pair by (simp add: rx_version.kept)
  next
    case (Inr x)
    with Pair have "transact B i decide s = (Inr x, s')" by simp
    then show ?thesis
    proof (cases rule: transact_ok)
      case read
      then show ?thesis using Pair by (simp add: rx_version.kept)
    next
      case (wrote cs)
      then obtain d where d: "load B s i = Some d"
        using assms(2) by (cases "load B s i") auto
      then have "rx_write cfg B W d cs" using assms(1) wrote by simp
      then show ?thesis
        using Pair wrote d by (cases "j = i") (auto simp: load_patch intro: rx_version.intros)
    qed
  qed
qed

lemma mutate_version:
  assumes "\<And>d x cs. load B s i = Some d \<Longrightarrow> callback d = Inr (cs, x) \<Longrightarrow> cs \<noteq> [] \<Longrightarrow> rx_write cfg B W d cs"
  shows "rx_version cfg B W j (load B s j) (load B (snd (mutate cfg B i callback s)) j)"
proof (cases "i = bootstrap_document_id")
  case True
  then show ?thesis by (simp add: mutate_def rx_version.kept)
next
  case False
  show ?thesis
    unfolding mutate_def if_not_P [OF False]
    by (rule transact_version) (auto split: if_splits sum.splits prod.splits intro: assms)
qed

lemma mutate_checked_version:
  assumes "\<And>d. load B s i = Some d \<Longrightarrow> \<forall>c \<in> set (checks d). c = Inr () \<Longrightarrow> rx_write cfg B W d changes"
  shows "rx_version cfg B W j (load B s j) (load B (snd (mutate cfg B i (checked checks changes) s)) j)"
  by (rule mutate_version) (auto simp: checked_def guarded_Inr intro: assms)

lemma claim_token_version:
  assumes "\<And>d field. field \<in> {bf, rf} \<Longrightarrow>
      claim_build_scoped_token cfg B d run field isf = Inr True \<Longrightarrow>
      rx_write cfg B W d (dict_set field (PStr run) changes)"
  shows "rx_version cfg B W j (load B s j) (load B (snd (claim_token cfg B i run bf rf isf changes s)) j)"
  unfolding claim_token_def
  by (rule transact_version) (auto split: if_splits sum.splits bool.splits intro: assms)

lemma dispatch_version:
  "rx_version cfg B W j (load B s j)
     (load B (snd (claim_quality_bootstrap_dispatch cfg B now i nonce tok s)) j)"
proof (cases "persistent_bootstrap_collection cfg B")
  case (Inl e)
  then show ?thesis by (simp add: claim_quality_bootstrap_dispatch_def rx_version.kept)
next
  case (Inr u)
  show ?thesis
    unfolding claim_quality_bootstrap_dispatch_def Inr sum.case snd_map_op
    by (rule mutate_version) (simp split: if_split_asm, blast intro: rx_write.dispatch_started)
qed

lemma reserve_version:
  "rx_version cfg B W j (load B s j) (load B (snd (rx_reserve B now fp r s)) j)"
  by (auto simp: rx_reserve_def Let_def load_put split: option.splits intro: rx_version.intros)

text \<open>What a bootstrap reservation leaves behind.\<close>

lemma reserve_bootstrap_cases:
  obtains (same) "snd (reserve_quality_bootstrap cfg B now i b s) = s"
  | (started) cs where
      "snd (reserve_quality_bootstrap cfg B now i b s)
        = patch B i cs (put B bootstrap_document_id (bootstrap_ticket b i now) s)"
      "bootstrap_validate b i now (load B s i) (load B s bootstrap_document_id) = Inr (Some cs)"
proof -
  let ?checks = "first_error [bootstrap_binding_checks b, require_new_builds cfg,
                   persistent_bootstrap_collection cfg B]"
  let ?v = "bootstrap_validate b i now (load B s i) (load B s bootstrap_document_id)"
  show thesis
  proof (cases ?checks)
    case (Inl e)
    then show thesis
      by (intro same) (simp only: reserve_quality_bootstrap_def sum.case snd_conv)
  next
    case (Inr u)
    then have unf: "reserve_quality_bootstrap cfg B now i b s =
        (case ?v of
           Inl e \<Rightarrow> (Inl e, s)
         | Inr None \<Rightarrow>
             (case load B s i of
                None \<Rightarrow>
                  (Inl (if volatile B then KeyError i
                        else RuntimeError ''Quality bootstrap execution is unavailable''), s)
              | Some saved \<Rightarrow> (Inr (saved, False), s))
         | Inr (Some changes) \<Rightarrow>
             let s1 = put B bootstrap_document_id (bootstrap_ticket b i now) s;
                 current = (case load B s i of None \<Rightarrow> [] | Some c \<Rightarrow> c)
             in (Inr (dict_update current changes, True), patch B i changes s1))"
      by (simp only: reserve_quality_bootstrap_def sum.case)
    show thesis
    proof (cases ?v)
      case (Inl e)
      then show thesis by (intro same) (simp add: unf)
    next
      case (Inr w)
      show thesis
      proof (cases w)
        case None
        then show thesis
          using Inr by (intro same) (simp add: unf split: option.split)
      next
        case (Some cs)
        then show thesis
          using Inr by (intro started [of cs]) (simp_all add: unf Let_def)
      qed
    qed
  qed
qed

lemma reserve_bootstrap_version:
  "rx_version cfg B W j (load B s j) (load B (snd (reserve_quality_bootstrap cfg B now i b s)) j)"
proof (rule reserve_bootstrap_cases [of cfg now i b s])
  assume "snd (reserve_quality_bootstrap cfg B now i b s) = s"
  then show ?thesis by (simp add: rx_version.kept)
next
  fix cs
  assume s': "snd (reserve_quality_bootstrap cfg B now i b s)
      = patch B i cs (put B bootstrap_document_id (bootstrap_ticket b i now) s)"
    and v: "bootstrap_validate b i now (load B s i) (load B s bootstrap_document_id) = Inr (Some cs)"
  from v obtain d where d: "load B s i = Some d" and none: "load B s bootstrap_document_id = None"
    and w: "rx_write cfg B W d cs"
    by (auto dest!: bootstrap_validate_Some intro!: rx_write.bootstrap_started fresh_not_bootstrap)
  have ne: "i \<noteq> bootstrap_document_id" using d none by auto
  let ?s1 = "put B bootstrap_document_id (bootstrap_ticket b i now) s"
  have s1: "load B ?s1 i = Some d" using d ne by (simp add: load_put)
  show ?thesis
  proof (cases "j = i")
    case True
    have "load B (patch B i cs ?s1) j = Some (dict_update d cs)"
      using load_patch_same [OF s1] True by simp
    then show ?thesis using s' d True rx_version.written [OF w] by simp
  next
    case False
    have "load B (patch B i cs ?s1) j = load B ?s1 j"
      by (rule load_patch_other [OF s1 False])
    then show ?thesis
      using s' none
      by (cases "j = bootstrap_document_id")
        (simp_all add: load_put rx_version.kept rx_version.ticket)
  qed
qed

lemma handoff_version:
  "rx_version cfg B W j (load B s j) (load B (snd (transition_to_cloud_build cfg B now i reason s)) j)"
  unfolding transition_to_cloud_build_def Let_def
  by (rule transact_version)
    (auto simp: guarded_Inr split: if_splits intro!: rx_write.handed_off)

lemma bind_build_version:
  assumes "W cs"
  shows "rx_version cfg B W j (load B s j) (load B (snd (bind_build B now i b cs s)) j)"
proof (cases "b = [] \<or> 128 < length b \<or> list_ex (has_key cs) bind_forbidden")
  case True
  then show ?thesis by (auto simp: bind_build_def rx_version.kept)
next
  case False
  then show ?thesis
    unfolding bind_build_def Let_def
    by simp (rule transact_version,
        auto simp: guarded_Inr assms split: if_splits intro!: rx_write.build_bound)
qed

lemma source_token_version:
  "rx_version cfg B W j (load B s j) (load B (snd (claim_source_token cfg B now i run s)) j)"
  unfolding claim_source_token_def
proof (rule claim_token_version)
  fix d field
  assume field: "field \<in> {''source_token_build_id'', ''source_token_provider_run_id''}"
    and ok: "claim_build_scoped_token cfg B d run field ''source_token_issued_at'' = Inr True"
  have "dict_set field (PStr run) [(''source_token_issued_at'', PStr now), (''updated_at'', PStr now)]
      = [(''source_token_issued_at'', PStr now), (''updated_at'', PStr now), (field, PStr run)]"
    using field by auto
  then show "rx_write cfg B W d
      (dict_set field (PStr run) [(''source_token_issued_at'', PStr now), (''updated_at'', PStr now)])"
    using rx_write.source_token_claimed [OF field ok] by simp
qed

lemma event_token_version:
  "rx_version cfg B W j (load B s j) (load B (snd (claim_event_token cfg B now i run h s)) j)"
proof (cases "hex_string 64 h")
  case True
  show ?thesis
    unfolding claim_event_token_def if_not_P [OF True [THEN not_not [THEN iffD2]]]
  proof (rule claim_token_version)
    fix d field
    assume field: "field \<in> {''event_token_build_id'', ''event_token_provider_run_id''}"
      and ok: "claim_build_scoped_token cfg B d run field ''event_token_issued_at'' = Inr True"
    let ?cs = "[(''event_token_hash'', PStr h), (''event_token_issued_at'', PStr now),
                (''updated_at'', PStr now)]"
    have "dict_set field (PStr run) ?cs = ?cs @ [(field, PStr run)]"
      using field by auto
    then show "rx_write cfg B W d (dict_set field (PStr run) ?cs)"
      using rx_write.event_token_claimed [OF field True ok] by simp
  qed
qed (simp add: claim_event_token_def rx_version.kept)

lemma retry_write_version:
  "rx_version cfg B W j (load B s j)
     (load B (snd (retry_write B i q prev (retry_changes q now seen n) s)) j)"
  unfolding retry_write_def
  by (rule transact_version)
    (auto simp: guarded_Inr retry_eligible_def split: if_splits sum.splits intro!: rx_write.planner_retried)

lemma validated_set:
  "W given \<Longrightarrow> k \<in> set stamp_fields \<Longrightarrow> validate_changes cfg B d (dict_set k v given) = Inr () \<Longrightarrow>
   rx_write cfg B W d (dict_set k v given)"
  by (rule rx_write.validated [where extra = "[(k, v)]"]) auto

lemma save_version:
  "W given \<Longrightarrow> rx_version cfg B W j (load B s j) (load B (snd (rx_save cfg B now i given s)) j)"
  by (auto simp: rx_save_def Let_def stamp_fields_def
      intro!: rx_version.kept mutate_checked_version validated_set)

lemma reconcile_save_version:
  "rx_version cfg B W j (load B s j)
     (load B (snd (rx_save cfg B now i
        [(''status'', PStr ''submission_pending''), (''reconciliation_attempts'', PInt n)] s)) j)"
  by (auto simp: rx_save_def Let_def intro!: rx_version.kept mutate_checked_version rx_write.reconciled)

lemma admit_run_version:
  assumes "W given"
  shows "rx_version cfg B W j (load B s j) (load B (snd (admit_github_run cfg B now i run given s)) j)"
proof (cases "all_digits run")
  case True
  then show ?thesis
    unfolding admit_github_run_def if_not_P [OF True [THEN not_not [THEN iffD2]]] Let_def snd_map_op
    by (intro mutate_checked_version rx_write.validated [where W = W and given = given, OF assms _ refl]) (simp_all add: stamp_fields_def)
qed (simp add: admit_github_run_def rx_version.kept)

lemma accept_event_version:
  assumes "W given"
  shows "rx_version cfg B W j (load B s j) (load B (snd (rx_accept_event cfg B now i n who given s)) j)"
  unfolding rx_accept_event_def Let_def
proof (rule transact_version)
  let ?cs = "dict_set ''updated_at'' (PStr now) (dict_set ''event_sequence'' (PInt n) given)"
  have "?cs = dict_update given [(''event_sequence'', PInt n), (''updated_at'', PStr now)]" by simp
  note w = rx_write.validated [where W = W and given = given, OF assms _ this, of cfg B]
  show "rx_write cfg B W d cs"
    if "(case Some d of None \<Rightarrow> Inl (KeyError i)
         | Some current \<Rightarrow>
            guarded
              [(if expected_provider who \<noteq> []
                then require_event_identity current (expected_provider who)
                       (expected_run_id who) (expected_token_hash who)
                else raise_if (flag current ''bootstrap_ticket_id'')
                       (ValueError ''Quality bootstrap event requires verified provider identity''))]
              (case py_int (dget_or current ''event_sequence'' (PInt 0)) of
                 Inl e \<Rightarrow> Inl e
               | Inr seen \<Rightarrow>
                   if n \<le> seen then Inr ((current, False), None)
                   else guarded [validate_changes cfg B current ?cs]
                          (Inr ((dict_update current ?cs, True), Some ?cs)))) = Inr (x, Some cs)" for d x cs
    using that w [of d]
    by (auto simp: guarded_Inr stamp_fields_def split: if_splits sum.splits)
qed simp

theorem rx_step_version:
  assumes "event_ok W e"
  shows "rx_version cfg B W j (load B s j) (load B (rx_step cfg B e s) j)"
proof (cases e)
  case (UpdateBootstrap now i nonce given)
  then show ?thesis
    using assms
    by (auto simp: update_quality_bootstrap_def Let_def first_error_Inr split: sum.splits
        intro!: rx_version.kept mutate_checked_version rx_write.bootstrap_updated)
next
  case (SaveForProvider now i p run given)
  then show ?thesis
    using assms
    by (auto simp: save_for_provider_def Let_def stamp_fields_def
        intro!: mutate_checked_version validated_set)
next
  case (AdmitEvent now i p run h)
  then show ?thesis
    by (auto simp: admit_event_provider_def require_event_identity_def
        intro!: mutate_checked_version intro: rx_write.event_admitted)
next
  case (ClaimSubmission now i)
  then show ?thesis
    by (simp add: claim_submission_def)
      (rule transact_version, auto split: if_splits intro!: rx_write.submission_claimed)
next
  case (ClaimPublish now now' i)
  then show ?thesis
    by (simp add: claim_publish_def)
      (rule transact_version, auto split: if_splits intro!: rx_write.publish_claimed)
next
  case (ReconcileAbsent now i)
  then show ?thesis
    by (auto simp: reconcile_submission_absent_def split: sum.splits option.splits
        intro: rx_version.kept reconcile_save_version)
qed (use assms in \<open>simp_all add: reserve_version reserve_bootstrap_version dispatch_version save_version
      admit_run_version handoff_version bind_build_version source_token_version event_token_version
      accept_event_version retry_write_version\<close>)

end

end
