(* ===== verification/ReleaseInvariants.thy ===== *)
theory ReleaseInvariants
  imports ReleaseHistory
begin

text \<open>
  What every history of the release store keeps.  A relation between versions of a document that each
  kind of write respects is respected by histories (locale \<open>version_order\<close>); identity, terminal
  statuses and locked provider selections are its instances on the process-local store.
\<close>

section \<open>Relations every write respects\<close>

locale version_order = document_backend B for B :: "'s backend" +
  fixes cfg :: settings and W :: "doc \<Rightarrow> bool" and R :: "doc \<Rightarrow> doc \<Rightarrow> bool"
  assumes R_refl: "R d d"
    and R_trans: "R d e \<Longrightarrow> R e f \<Longrightarrow> R d f"
    and R_write: "d \<noteq> [] \<Longrightarrow> rx_write cfg B W d cs \<Longrightarrow> R d (dict_update d cs)"
begin

lemma version_kept:
  assumes "rx_version cfg B W i (Some d) v" and "d \<noteq> []"
  shows "\<exists>d'. v = Some d' \<and> d' \<noteq> [] \<and> R d d'"
  using assms(1)
proof cases
  case kept
  then show ?thesis using assms(2) R_refl by auto
next
  case (written cs)
  have "dict_update d cs \<noteq> []"
    using assms(2) by (simp add: dict_update_Nil)
  then show ?thesis using written assms(2) R_write by auto
qed (use assms(2) in auto)

lemma history_kept:
  assumes "rx_history cfg B (event_ok W) s t"
    and "load B s i = Some d" and "d \<noteq> []"
  shows "\<exists>d'. load B t i = Some d' \<and> d' \<noteq> [] \<and> R d d'"
  using assms
proof (induction rule: rx_history.induct)
  case (start s)
  then show ?case using R_refl by auto
next
  case (step s t e)
  then obtain d1 where d1: "load B t i = Some d1" "d1 \<noteq> []" "R d d1" by auto
  have "rx_version cfg B W i (Some d1) (load B (rx_step cfg B e t) i)"
    using rx_step_version [OF step.hyps(2), of cfg i t] d1 by simp
  from version_kept [OF this d1(2)] show ?case using d1(3) R_trans by blast
qed

end

section \<open>Keys and values of a write\<close>

definition py_kwargs :: "doc \<Rightarrow> bool" where
  "py_kwargs given = distinct (map fst given)"

definition status_given :: "doc \<Rightarrow> bool" where
  "status_given given = (py_kwargs given \<and> (has_key given ''status'' \<longrightarrow> flag given ''status''))"

lemma validate_changes_ok:
  assumes "validate_changes cfg B d cs = Inr ()"
  shows "\<not> is_fence d" "\<not> list_ex (has_key cs) identity_fields"
    "\<not> list_ex (\<lambda>kv. starts_with ''bootstrap_'' (fst kv)) cs"
    "locked d \<Longrightarrow> \<not> rewrites_any [''provider'', ''provider_selection'', ''trigger_event''] d cs"
    "flag d ''bootstrap_ticket_id'' \<Longrightarrow> validate_bootstrap_changes cfg B d cs = Inr ()"
    "validate_status_change d cs = Inr ()"
  using assms
  by (simp_all add: validate_changes_def is_fence_def split: if_split_asm)

lemma retry_changes_keys:
  "fst ` set (retry_changes q now seen n) \<subseteq>
   {''status'', ''build_id'', ''provider_run_id'', ''provider_status'', ''logs_url'', ''build_name'',
    ''previous_build_ids'', ''planner_retry_pending'', ''planner_retry_count'', ''planner_retry_checked'',
    ''planner_retry_previous_build_id'', ''planner_retry_requested_at'', ''release_engine_failed'',
    ''release_error'', ''error'', ''updated_at'', ''planner_remediation_retry_checked'',
    ''planner_remediation_retry_pending'', ''planner_remediation_retry_previous_build_id'',
    ''planner_remediation_retry_image'', ''planner_remediation_retry_hash'', ''planner_retry_image'',
    ''planner_contract_retry_checked'', ''planner_contract_retry_pending'',
    ''planner_contract_retry_previous_build_id'', ''planner_contract_retry_image'',
    ''planner_contract_retry_hash''}"
  by (simp add: retry_changes_def Let_def)

lemma retry_changes_status: "map_of (rev (retry_changes q now seen n)) ''status'' = Some (PStr ''submission_pending'')"
  by (simp add: retry_changes_def Let_def)

lemma bootstrap_changes_keys:
  "fst ` set (bootstrap_changes b now) =
   {''provider'', ''status'', ''updated_at'', ''bootstrap_ticket_id'', ''bootstrap_attempts'',
    ''bootstrap_binding'', ''bootstrap_nonce'', ''bootstrap_build_request'',
    ''bootstrap_build_request_hash'', ''bootstrap_requested_by'', ''bootstrap_idempotency_key'',
    ''bootstrap_reserved_at''}"
  by (simp add: bootstrap_changes_def)

lemma has_key_stamped:
  "list_all (\<lambda>kv. fst kv \<in> set stamp_fields) extra \<Longrightarrow> k \<notin> set stamp_fields \<Longrightarrow>
   has_key (dict_update given extra) k = has_key given k"
proof -
  assume "list_all (\<lambda>kv. fst kv \<in> set stamp_fields) extra" "k \<notin> set stamp_fields"
  then have "\<not> has_key extra k" by (auto simp: has_key_iff list_all_iff)
  then show ?thesis by (simp add: dict_simps)
qed

lemma allowed_keys:
  "list_all (\<lambda>kv. fst kv \<in> set bootstrap_update_allowed) given \<Longrightarrow> k \<notin> set bootstrap_update_allowed \<Longrightarrow>
   \<not> has_key given k"
  by (auto simp: has_key_iff list_all_iff)

text \<open>No write touches an identity field.\<close>

lemma rx_write_identity:
  assumes "rx_write cfg B W d cs" and "k \<in> set identity_fields"
  shows "\<not> has_key cs k"
  using assms(1)
proof cases
  case (validated given extra)
  from validate_changes_ok(2) [OF this(4)] show ?thesis
    using assms(2) by (auto simp: list_ex_iff)
next
  case (bootstrap_updated given now nonce)
  have "k \<notin> set bootstrap_update_allowed" "k \<noteq> ''updated_at''"
    using assms(2) by (auto simp: identity_fields_def bootstrap_update_allowed_def)
  then show ?thesis
    using allowed_keys [of given k] bootstrap_updated by (simp add: dict_simps)
next
  case (build_bound metadata build now)
  then have "\<not> has_key metadata k"
    using assms(2) by (auto simp: list_ex_iff bind_forbidden_def identity_fields_def)
  then show ?thesis
    using build_bound(3) assms(2) by (auto simp: has_key_dict_set identity_fields_def)
next
  case (planner_retried q now seen n)
  then show ?thesis
    using retry_changes_keys assms(2) unfolding has_key_iff identity_fields_def by fastforce
next
  case (bootstrap_started b now)
  then show ?thesis
    using assms(2) by (auto simp: has_key_iff bootstrap_changes_keys identity_fields_def)
qed (use assms(2) in \<open>auto simp: has_key_iff identity_fields_def\<close>)

definition identity_kept :: "doc \<Rightarrow> doc \<Rightarrow> bool" where
  "identity_kept d e = (\<forall>k \<in> set identity_fields. dget e k = dget d k)"

lemma rx_write_identity_kept: "rx_write cfg B W d cs \<Longrightarrow> identity_kept d (dict_update d cs)"
  using rx_write_identity by (fastforce simp: identity_kept_def has_key_iff dget_update_notin)

text \<open>
  Each invariant is stated for every store with the \<open>document_backend\<close> laws, then interpreted on the
  process-local one.
\<close>

lemma version_orderI:
  assumes "document_backend B" and "\<And>d. R d d" and "\<And>d e f. R d e \<Longrightarrow> R e f \<Longrightarrow> R d f"
    and "\<And>d cs. d \<noteq> [] \<Longrightarrow> rx_write cfg B W d cs \<Longrightarrow> R d (dict_update d cs)"
  shows "version_order B cfg W R"
  using assms by (auto simp: version_order_def version_order_axioms_def)

lemma identity_order: "document_backend B \<Longrightarrow> version_order B cfg W identity_kept"
  by (rule version_orderI) (auto simp: identity_kept_def rx_write_identity_kept [unfolded identity_kept_def])

interpretation identity: version_order mem_backend cfg W identity_kept
  for cfg :: settings and W :: "doc \<Rightarrow> bool"
  by (rule identity_order [OF memory.document_backend_axioms])

end
