(* ===== verification/ReleaseStatus.thy ===== *)
theory ReleaseStatus
  imports ReleaseInvariants
begin

text \<open>
  The status machine over histories: a document's status moves along \<open>_TRANSITIONS\<close> or by one of the
  three reopenings the code makes on purpose, and the finished statuses are never left.
\<close>

section \<open>The steps a status may take\<close>

inductive status_step :: "string \<Rightarrow> string \<Rightarrow> bool" where
  listed: "new \<in> set (successors old) \<Longrightarrow> status_step old new"
| bootstrap: "status_step ''waiting_github'' ''submitting''"
| resubmit: "status_step ''submission_failed'' ''submitting''"
| planner_retry: "status_step ''failed'' ''submission_pending''"

lemma successors_simps [simp]:
  "successors ''quality_failed'' = []" "successors ''no_release'' = []" "successors ''released'' = []"
  "successors ''superseded'' = []" "successors ''failed'' = []"
  "successors ''submission_pending'' =
     [''submitting'', ''running_quality'', ''quality_passed'', ''quality_failed'', ''failed'', ''unknown'']"
  "successors ''release_planned'' = [''publish_pending'', ''superseded'', ''failed'', ''unknown'']"
  "successors ''waiting_github'' =
     [''running_quality'', ''quality_passed'', ''quality_failed'', ''submission_pending'', ''failed'', ''unknown'']"
  "successors ''received'' = [''waiting_github'', ''submission_pending'', ''failed'', ''unknown'']"
  by (simp_all add: successors_def transitions_def)

inductive_cases from_quality_failed: "status_step ''quality_failed'' st"
inductive_cases from_no_release: "status_step ''no_release'' st"
inductive_cases from_released: "status_step ''released'' st"
inductive_cases from_superseded: "status_step ''superseded'' st"
inductive_cases from_failed: "status_step ''failed'' st"

definition final_statuses :: "string list" where
  "final_statuses = [''quality_failed'', ''no_release'', ''released'', ''superseded'']"

lemma final_no_step: "old \<in> set final_statuses \<Longrightarrow> \<not> status_step old new"
  by (auto simp: final_statuses_def elim: from_quality_failed from_no_release from_released from_superseded)

definition statuses :: "string list" where
  "statuses = map fst transitions"

lemma successors_known: "new \<in> set (successors old) \<Longrightarrow> new \<in> set statuses"
proof -
  assume new: "new \<in> set (successors old)"
  then obtain ss where "map_of transitions old = Some ss" "new \<in> set ss"
    by (cases "map_of transitions old") (auto simp: successors_def)
  then have "\<exists>p \<in> set transitions. new \<in> set (snd p)"
    by (metis map_of_SomeD snd_conv)
  then have "list_ex (\<lambda>p. new \<in> set (snd p)) transitions" by (simp add: list_ex_iff)
  then show ?thesis by (auto simp: transitions_def statuses_def)
qed

lemma status_step_known: "status_step old new \<Longrightarrow> new \<in> set statuses"
proof (induction rule: status_step.induct)
  case (listed new old)
  then show ?case by (simp add: successors_known)
qed (simp_all add: statuses_def transitions_def)

section \<open>What a write does to the status\<close>

lemma dget_or_is_str: "is_str d k s \<Longrightarrow> dget_or d k v = PStr s"
  by (auto simp: is_str_def dget_def dget_or_def split: option.splits)

lemma validate_status_ok:
  assumes "validate_status_change d cs = Inr ()" and "is_str d ''status'' old"
    and "flag cs ''status''"
  shows "\<exists>new. dget cs ''status'' = PStr new \<and> (new = old \<or> new \<in> set (successors old))"
proof (cases "py_eq (dget cs ''status'') (dget d ''status'')")
  case True
  then show ?thesis using assms(2) by (auto simp: is_str_def)
next
  case False
  then have "in_strs (dget cs ''status'') (successors old)"
    using assms by (simp add: validate_status_change_def Let_def flag_def dget_or_is_str first_error_Inr)
  then show ?thesis by (auto elim: in_strsE)
qed

lemma status_of_update:
  "distinct (map fst cs) \<Longrightarrow>
   is_str (dict_update d cs) k s = (if has_key cs k then is_str cs k s else is_str d k s)"
  by (simp add: is_str_def dget_update_distinct)

lemma dget_last: "map_of (rev cs) k = Some v \<Longrightarrow> dget (dict_update d cs) k = v"
  by (simp add: dget_def map_of_dict_update_rev map_add_def)

lemma checked_status:
  assumes "distinct (map fst cs)" and "validate_status_change d cs = Inr ()"
    and "is_str d ''status'' old" and "has_key cs ''status'' \<Longrightarrow> flag cs ''status''"
  shows "\<exists>new. is_str (dict_update d cs) ''status'' new \<and> (new = old \<or> status_step old new)"
proof (cases "has_key cs ''status''")
  case True
  from validate_status_ok [OF assms(2,3) assms(4) [OF True]]
  obtain new where "is_str cs ''status'' new" "new = old \<or> new \<in> set (successors old)"
    by (auto simp: is_str_def)
  then show ?thesis using True assms(1) by (auto simp: status_of_update intro: listed)
next
  case False
  then show ?thesis using assms(1,3) by (auto simp: status_of_update)
qed

lemma status_untouched:
  assumes "''status'' \<notin> fst ` set cs" and "is_str d ''status'' old"
  shows "\<exists>new. is_str (dict_update d cs) ''status'' new \<and> (new = old \<or> status_step old new)"
  using assms by (auto simp: is_str_def dget_update_notin)

lemma rx_write_status:
  assumes "rx_write cfg B status_given d cs" and old: "is_str d ''status'' old"
  shows "\<exists>new. is_str (dict_update d cs) ''status'' new \<and> (new = old \<or> status_step old new)"
  using assms(1)
proof cases
  case (validated given extra)
  have dist: "distinct (map fst cs)"
    using validated by (simp add: status_given_def py_kwargs_def distinct_dict_update)
  have key: "has_key cs ''status'' = has_key given ''status''"
    using validated by (simp add: has_key_stamped stamp_fields_def)
  have "''status'' \<notin> fst ` set extra"
    using validated(2) by (auto simp: list_all_iff stamp_fields_def)
  then have val: "dget cs ''status'' = dget given ''status''"
    using validated by (simp add: dget_update_notin)
  show ?thesis
  proof (rule checked_status [OF dist validate_changes_ok(6) [OF validated(4)] old])
    assume "has_key cs ''status''"
    then show "flag cs ''status''" using validated(1) key val by (simp add: status_given_def flag_def)
  qed
next
  case (reconciled n now)
  have "distinct (map fst cs)" "flag cs ''status''"
    using reconciled(1) by (simp_all add: flag_def dget_def)
  then show ?thesis
    by (intro checked_status [OF _ validate_changes_ok(6) [OF reconciled(2)] old])
next
  case (bootstrap_started b now)
  then have "old = ''waiting_github''" using old by (simp add: is_str_def)
  moreover have "is_str (dict_update d cs) ''status'' ''submitting''"
    using bootstrap_started(1) by (simp add: bootstrap_changes_def dict_simps)
  ultimately show ?thesis by (blast intro: bootstrap)
next
  case (bootstrap_updated given now nonce)
  have dist: "distinct (map fst cs)"
    using bootstrap_updated by (simp add: status_given_def py_kwargs_def distinct_dict_set)
  have key: "has_key cs ''status'' = has_key given ''status''"
    and val: "dget cs ''status'' = dget given ''status''"
    using bootstrap_updated(3) by (simp_all add: dict_simps)
  have ok: "validate_status_change d cs = Inr ()"
    using bootstrap_updated(4) by (simp add: bootstrap_update_checks_def)
  show ?thesis
  proof (rule checked_status [OF dist ok old])
    assume "has_key cs ''status''"
    then show "flag cs ''status''"
      using bootstrap_updated(1) key val by (simp add: status_given_def flag_def)
  qed
next
  case (handed_off reason now)
  then have "old = ''received'' \<or> old = ''waiting_github''" using old by (auto simp: is_str_def)
  then have "status_step old ''submission_pending''" by (auto intro: listed)
  moreover have "is_str (dict_update d cs) ''status'' ''submission_pending''"
    using handed_off(1) by (simp add: dict_simps)
  ultimately show ?thesis by blast
next
  case (submission_claimed now)
  then have "old = ''submission_pending'' \<or> old = ''submission_failed''" using old by (auto simp: is_str_def)
  then have "status_step old ''submitting''" by (auto intro: listed resubmit)
  moreover have "is_str (dict_update d cs) ''status'' ''submitting''"
    using submission_claimed(1) by (simp add: dict_simps)
  ultimately show ?thesis by blast
next
  case (build_bound metadata build now)
  have dist: "distinct (map fst cs)"
    using build_bound by (simp add: status_given_def py_kwargs_def distinct_dict_set)
  have "flag cs ''status''"
    using build_bound(3) by (simp add: dict_simps)
  then show ?thesis by (intro checked_status [OF dist build_bound(6) old])
next
  case (publish_claimed now now')
  then have "old = ''release_planned''" using old by (simp add: is_str_def)
  then have "status_step old ''publish_pending''" by (auto intro: listed)
  moreover have "is_str (dict_update d cs) ''status'' ''publish_pending''"
    using publish_claimed(1) by (simp add: dict_simps)
  ultimately show ?thesis by blast
next
  case (planner_retried q now seen n)
  have "is_str d ''status'' ''failed''"
    using planner_retried(2)
    by (simp add: planner_retry_candidate_def Let_def split: if_split_asm sum.split_asm)
  then have "old = ''failed''" using old by (simp add: is_str_def)
  moreover have "is_str (dict_update d cs) ''status'' ''submission_pending''"
    using planner_retried(1) by (simp add: is_str_def dget_last [OF retry_changes_status])
  ultimately show ?thesis by (blast intro: planner_retry)
next
  case (event_admitted p now)
  then show ?thesis by (intro status_untouched [OF _ old]) simp
next
  case (dispatch_started now)
  then show ?thesis by (intro status_untouched [OF _ old]) simp
next
  case (source_token_claimed field run now)
  then show ?thesis by (intro status_untouched [OF _ old]) auto
next
  case (event_token_claimed field h run now)
  then show ?thesis by (intro status_untouched [OF _ old]) auto
qed

end
