(* ===== verification/ReleaseIdentity.thy ===== *)
theory ReleaseIdentity
  imports ReleaseStatus
begin

text \<open>
  Identity of executions.  The JSON text a fingerprint hashes determines every field it names, so two
  reservations share an identifier exactly when they name the same work (or exhibit a SHA-256
  collision); and every stored execution is keyed by the fingerprint of its own fields.
\<close>

section \<open>The fingerprint text\<close>

definition effective_planner :: "'a identity_scheme \<Rightarrow> string" where
  "effective_planner r = (if operation r = ''main_release'' then planner_hash r else '''')"

definition same_work :: "identity \<Rightarrow> identity \<Rightarrow> bool" where
  "same_work r q \<longleftrightarrow>
     str_lower (repository r) = str_lower (repository q) \<and> service_name r = service_name q \<and>
     operation r = operation q \<and> str_lower (head_sha r) = str_lower (head_sha q) \<and>
     str_lower (base_sha r) = str_lower (base_sha q) \<and> profile_hash r = profile_hash q \<and>
     executor_digest r = executor_digest q \<and> policy_hash r = policy_hash q \<and>
     effective_planner r = effective_planner q"

definition fingerprint_text :: "identity \<Rightarrow> string" where
  "fingerprint_text r = json_dumps True True (PDict (fingerprint_payload r))"

lemma fingerprint_text_eq: "fingerprint r = sha256_hex (fingerprint_text r)"
  by (simp add: fingerprint_def fingerprint_text_def)

definition json_member :: "string \<Rightarrow> string \<Rightarrow> string" where
  "json_member k v = json_str True k @ '':'' @ json_str True v"

lemma json_member_prefix [simp]:
  "json_member k v @ x = json_member k w @ y \<longleftrightarrow> v = w \<and> x = y"
  by (simp add: json_member_def json_str_prefix)

lemma json_member_inj [simp]: "json_member k v = json_member k w \<longleftrightarrow> v = w"
  by (simp add: json_member_def)

lemma fingerprint_text_ordered:
  "fingerprint_text r =
     ''{'' @ json_member ''base_sha'' (str_lower (base_sha r)) @ '','' @
     json_member ''executor_digest'' (executor_digest r) @ '','' @
     json_member ''head_sha'' (str_lower (head_sha r)) @ '','' @
     json_member ''operation'' (operation r) @ '','' @
     json_member ''planner_hash'' (effective_planner r) @ '','' @
     json_member ''policy_hash'' (policy_hash r) @ '','' @
     json_member ''profile_hash'' (profile_hash r) @ '','' @
     json_member ''repository'' (str_lower (repository r)) @ '','' @
     json_member ''service_name'' (service_name r) @ ''}''"
proof -
  have "sort_key fst (map (\<lambda>kv. (fst kv, json_dumps True True (snd kv))) (fingerprint_payload r)) =
    [(''base_sha'', json_str True (str_lower (base_sha r))),
     (''executor_digest'', json_str True (executor_digest r)),
     (''head_sha'', json_str True (str_lower (head_sha r))),
     (''operation'', json_str True (operation r)),
     (''planner_hash'', json_str True (effective_planner r)),
     (''policy_hash'', json_str True (policy_hash r)),
     (''profile_hash'', json_str True (profile_hash r)),
     (''repository'', json_str True (str_lower (repository r))),
     (''service_name'', json_str True (service_name r))]"
    by (simp add: fingerprint_payload_def effective_planner_def sort_key_def)
  then show ?thesis
    by (simp add: fingerprint_text_def Let_def json_member_def)
qed

lemma fingerprint_text_inj: "fingerprint_text r = fingerprint_text q \<longleftrightarrow> same_work r q"
  unfolding fingerprint_text_ordered same_work_def by auto

section \<open>Invariants of stored documents\<close>

text \<open>
  A property of a document and its key that fresh documents have and every write keeps holds in every
  store reached from one where it holds.
\<close>

locale doc_invariant = document_backend B for B :: "'s backend" +
  fixes cfg :: settings and W :: "doc \<Rightarrow> bool" and P :: "string \<Rightarrow> doc \<Rightarrow> bool"
  assumes P_reserved:
      "i = fingerprint (identity.truncate r) \<Longrightarrow> P i (reserved_value now i r)"
    and P_ticket: "P bootstrap_document_id (bootstrap_ticket b e now)"
    and P_write: "P i d \<Longrightarrow> d \<noteq> [] \<Longrightarrow> rx_write cfg B W d cs \<Longrightarrow> P i (dict_update d cs)"
begin

definition holds :: "'s \<Rightarrow> bool" where
  "holds s = (\<forall>i d. load B s i = Some d \<longrightarrow> d \<noteq> [] \<and> P i d)"

lemma version_holds:
  assumes "rx_version cfg B W i v (Some d)" and "\<And>e. v = Some e \<Longrightarrow> e \<noteq> [] \<and> P i e"
  shows "d \<noteq> [] \<and> P i d"
  using assms(1)
proof cases
  case kept
  then show ?thesis using assms(2) by simp
next
  case (reserved r now)
  then show ?thesis using P_reserved by (auto simp: reserved_value_def)
next
  case (ticket b e now)
  then show ?thesis using P_ticket by (auto simp: bootstrap_ticket_def)
next
  case (written d0 cs)
  then show ?thesis using assms(2) P_write by (auto simp: dict_update_Nil)
qed

lemma step_holds: "event_ok W e \<Longrightarrow> holds s \<Longrightarrow> holds (rx_step cfg B e s)"
proof -
  assume ok: "event_ok W e" and s: "holds s"
  show "holds (rx_step cfg B e s)"
    unfolding holds_def
  proof (intro allI impI)
    fix i d
    assume d: "load B (rx_step cfg B e s) i = Some d"
    show "d \<noteq> [] \<and> P i d"
      using version_holds [of i "load B s i" d] rx_step_version [OF ok, of cfg i s] d s
      by (auto simp: holds_def)
  qed
qed

lemma history_holds:
  assumes "rx_history cfg B (event_ok W) s t" and "holds s"
  shows "holds t"
  using assms by (induction rule: rx_history.induct) (auto intro: step_holds)

lemma history_doc:
  assumes "rx_history cfg B (event_ok W) s t" and "\<And>i. load B s i = None"
    and "load B t i = Some d"
  shows "d \<noteq> [] \<and> P i d"
  using history_holds [OF assms(1)] assms(2,3) by (auto simp: holds_def)

end

section \<open>Every execution is keyed by its own fingerprint\<close>

definition doc_identity :: "doc \<Rightarrow> identity" where
  "doc_identity d =
     \<lparr>repository = py_str (dget d ''repository''), service_name = py_str (dget d ''service_name''),
      operation = py_str (dget d ''operation''), head_sha = py_str (dget d ''head_sha''),
      base_sha = py_str (dget d ''base_sha''), profile_hash = py_str (dget d ''profile_hash''),
      executor_digest = py_str (dget d ''executor_digest''), policy_hash = py_str (dget d ''policy_hash''),
      planner_hash = py_str (dget d ''planner_hash'')\<rparr>"

definition keyed :: "string \<Rightarrow> doc \<Rightarrow> bool" where
  "keyed i d =
     (i = bootstrap_document_id \<or>
      (is_str d ''execution_id'' i \<and> is_str d ''fingerprint'' i \<and> fingerprint (doc_identity d) = i))"

lemma doc_identity_reserved:
  "doc_identity (reserved_value now i r) =
   (identity.truncate r)\<lparr>head_sha := str_lower (head_sha r), base_sha := str_lower (base_sha r)\<rparr>"
  by (simp add: doc_identity_def reserved_value_def identity.truncate_def dget_def)

lemma fingerprint_lower:
  "fingerprint (r\<lparr>head_sha := str_lower (head_sha r), base_sha := str_lower (base_sha r)\<rparr>) = fingerprint r"
  by (simp add: fingerprint_def fingerprint_payload_def)

lemma keyed_reserved:
  "i = fingerprint (identity.truncate r) \<Longrightarrow> keyed i (reserved_value now i r)"
  using fingerprint_lower [of "identity.truncate r"]
  by (simp add: keyed_def doc_identity_reserved)
    (simp add: reserved_value_def is_str_def dget_def identity.truncate_def)

lemma doc_identity_cong: "identity_kept d e \<Longrightarrow> doc_identity e = doc_identity d"
  by (simp add: doc_identity_def identity_kept_def identity_fields_def)

lemma keyed_kept: "identity_kept d e \<Longrightarrow> keyed i d \<Longrightarrow> keyed i e"
  by (auto simp: keyed_def doc_identity_cong is_str_def)
    (simp_all add: identity_kept_def identity_fields_def)

lemma doc_invariantI:
  assumes "document_backend B"
    and "\<And>i r now. i = fingerprint (identity.truncate r) \<Longrightarrow> P i (reserved_value now i r)"
    and "\<And>b e now. P bootstrap_document_id (bootstrap_ticket b e now)"
    and "\<And>i d cs. P i d \<Longrightarrow> d \<noteq> [] \<Longrightarrow> rx_write cfg B W d cs \<Longrightarrow> P i (dict_update d cs)"
  shows "doc_invariant B cfg W P"
  using assms by (auto simp: doc_invariant_def doc_invariant_axioms_def)

lemma keyed_invariant: "document_backend B \<Longrightarrow> doc_invariant B cfg W keyed"
  by (rule doc_invariantI)
    (auto intro: keyed_reserved keyed_kept rx_write_identity_kept, simp add: keyed_def)

interpretation keyed: doc_invariant mem_backend cfg W keyed
  for cfg :: settings and W :: "doc \<Rightarrow> bool"
  by (rule keyed_invariant [OF memory.document_backend_axioms])

section \<open>Statuses of stored executions\<close>

definition status_known :: "string \<Rightarrow> doc \<Rightarrow> bool" where
  "status_known i d = (i = bootstrap_document_id \<or> (\<exists>st \<in> set statuses. is_str d ''status'' st))"

lemma status_known_reserved: "status_known i (reserved_value now i r)"
  by (simp add: status_known_def reserved_value_def is_str_def dget_def statuses_def transitions_def)

lemma status_invariant: "document_backend B \<Longrightarrow> doc_invariant B cfg status_given status_known"
proof (rule doc_invariantI)
  fix i d cs
  assume "status_known i d" "rx_write cfg B status_given d cs"
  then show "status_known i (dict_update d cs)"
    using rx_write_status status_step_known unfolding status_known_def by metis
qed (auto simp: status_known_reserved, simp add: status_known_def)

interpretation status: doc_invariant mem_backend cfg status_given status_known
  for cfg :: settings
  by (rule status_invariant [OF memory.document_backend_axioms])

section \<open>Finished executions stay finished\<close>

definition final_kept :: "doc \<Rightarrow> doc \<Rightarrow> bool" where
  "final_kept d e = (\<forall>st \<in> set final_statuses. is_str d ''status'' st \<longrightarrow> is_str e ''status'' st)"

lemma final_order: "document_backend B \<Longrightarrow> version_order B cfg status_given final_kept"
proof (rule version_orderI)
  fix d cs
  assume w: "rx_write cfg B status_given d cs"
  show "final_kept d (dict_update d cs)"
    unfolding final_kept_def
  proof (intro ballI impI)
    fix st
    assume st: "st \<in> set final_statuses" "is_str d ''status'' st"
    then show "is_str (dict_update d cs) ''status'' st"
      using rx_write_status [OF w st(2)] final_no_step by blast
  qed
qed (auto simp: final_kept_def)

interpretation final: version_order mem_backend cfg status_given final_kept
  for cfg :: settings
  by (rule final_order [OF memory.document_backend_axioms])

end
