(* ===== verification/ReleaseLocks.thy ===== *)
theory ReleaseLocks
  imports ReleaseIdentity
begin

text \<open>
  What cannot be undone: the single quality-bootstrap attempt and its dispatch, the locked provider
  selection of an execution, and the global ticket.  The first two are relations every write respects;
  the ticket is a document no operation writes once it exists.
\<close>

section \<open>The bootstrap attempt\<close>

definition attempt_fields :: "string list" where
  "attempt_fields =
    [''bootstrap_ticket_id'', ''bootstrap_attempts'', ''bootstrap_binding'', ''bootstrap_nonce'',
     ''bootstrap_build_request'', ''bootstrap_build_request_hash'', ''bootstrap_requested_by'',
     ''bootstrap_idempotency_key'', ''bootstrap_reserved_at'']"

definition attempt_kept :: "doc \<Rightarrow> doc \<Rightarrow> bool" where
  "attempt_kept d e =
     (flag d ''bootstrap_ticket_id'' \<longrightarrow>
      (\<forall>k \<in> set attempt_fields. dget e k = dget d k) \<and>
      (flag d ''bootstrap_dispatch_started'' \<longrightarrow> flag e ''bootstrap_dispatch_started''))"

lemma validated_bootstrap_key:
  "validate_changes cfg B d cs = Inr () \<Longrightarrow> starts_with ''bootstrap_'' k \<Longrightarrow> k \<notin> fst ` set cs"
  using validate_changes_ok(3) by (fastforce simp: list_ex_iff)

lemma rx_write_attempt_key:
  assumes "rx_write cfg B W d cs" and "flag d ''bootstrap_ticket_id''"
    and "k \<in> set (''bootstrap_dispatch_started'' # attempt_fields)"
  shows "k \<notin> fst ` set cs \<or> (k = ''bootstrap_dispatch_started'' \<and> flag cs k \<and> distinct (map fst cs))"
  using assms(1)
proof cases
  case (validated given extra)
  have "starts_with ''bootstrap_'' k" using assms(3) by (auto simp: attempt_fields_def)
  then show ?thesis using validated_bootstrap_key [OF validated(4)] by blast
next
  case (reconciled n now)
  then show ?thesis
    using assms(3) by (auto simp: attempt_fields_def)
next
  case (bootstrap_updated given now nonce)
  have "k \<notin> set bootstrap_update_allowed" "k \<noteq> ''updated_at''"
    using assms(3) by (auto simp: attempt_fields_def bootstrap_update_allowed_def)
  then have "\<not> has_key cs k"
    using allowed_keys [of given k] bootstrap_updated by (simp add: dict_simps)
  then show ?thesis by (simp add: has_key_iff)
next
  case (planner_retried q now seen n)
  then show ?thesis
    using assms(2) by (simp add: planner_retry_candidate_def)
next
  case (dispatch_started now)
  then show ?thesis
    using assms(3) by (auto simp: attempt_fields_def flag_def dget_def)
qed (use assms(2,3) in \<open>auto simp: attempt_fields_def\<close>)

lemma attempt_order: "document_backend B \<Longrightarrow> version_order B cfg W attempt_kept"
proof (rule version_orderI)
  fix d cs
  assume w: "rx_write cfg B W d cs"
  have keep: "dget (dict_update d cs) k = dget d k"
    if "flag d ''bootstrap_ticket_id''" "k \<in> set attempt_fields" for k
  proof -
    have "k \<noteq> ''bootstrap_dispatch_started''" using that by (auto simp: attempt_fields_def)
    then show ?thesis using rx_write_attempt_key [OF w that(1), of k] that(2) by (auto simp: dget_update_notin)
  qed
  moreover have "flag (dict_update d cs) ''bootstrap_dispatch_started''"
    if "flag d ''bootstrap_ticket_id''" "flag d ''bootstrap_dispatch_started''"
    using rx_write_attempt_key [OF w that(1), of "''bootstrap_dispatch_started''"] that(2)
    by (auto simp: flag_def dget_update_notin dget_update_distinct)
  ultimately show "attempt_kept d (dict_update d cs)"
    by (simp add: attempt_kept_def)
next
  fix d e f
  assume "attempt_kept d e" "attempt_kept e f"
  moreover have "''bootstrap_ticket_id'' \<in> set attempt_fields" by (simp add: attempt_fields_def)
  ultimately show "attempt_kept d f"
    unfolding attempt_kept_def by (metis flag_def)
qed (simp_all add: attempt_kept_def)

interpretation attempt: version_order mem_backend cfg W attempt_kept
  for cfg :: settings and W :: "doc \<Rightarrow> bool"
  by (rule attempt_order [OF memory.document_backend_axioms])

section \<open>Locked provider selections\<close>

text \<open>Callers never pass \<open>provider_selection\<close> among the values to store.\<close>

definition selection_free :: "doc \<Rightarrow> bool" where
  "selection_free given = (py_kwargs given \<and> \<not> has_key given ''provider_selection'')"

definition selection_kept :: "doc \<Rightarrow> doc \<Rightarrow> bool" where
  "selection_kept d e =
     (locked d \<longrightarrow>
      dget e ''provider_selection'' = dget d ''provider_selection'' \<and>
      (\<forall>p. is_str d ''provider'' p \<longrightarrow> is_str e ''provider'' p))"

lemma rx_write_selection_key:
  assumes "rx_write cfg B selection_free d cs"
  shows "''provider_selection'' \<notin> fst ` set cs"
  using assms
proof cases
  case (validated given extra)
  then have "\<not> has_key cs ''provider_selection''"
    by (simp add: selection_free_def has_key_stamped stamp_fields_def)
  then show ?thesis by (simp add: has_key_iff)
next
  case (bootstrap_updated given now nonce)
  then have "\<not> has_key cs ''provider_selection''"
    by (simp add: selection_free_def dict_simps)
  then show ?thesis by (simp add: has_key_iff)
next
  case (build_bound metadata build now)
  then have "\<not> has_key cs ''provider_selection''"
    by (simp add: selection_free_def dict_simps)
  then show ?thesis by (simp add: has_key_iff)
next
  case (planner_retried q now seen n)
  then show ?thesis using retry_changes_keys [of q now seen n] by auto
next
  case (bootstrap_started b now)
  then show ?thesis using bootstrap_changes_keys [of b now] by auto
qed auto

lemma rx_write_selection_provider:
  assumes "rx_write cfg B selection_free d cs" and "locked d" and p: "is_str d ''provider'' p"
  shows "is_str (dict_update d cs) ''provider'' p"
  using assms(1)
proof cases
  case (validated given extra)
  have dist: "distinct (map fst cs)"
    using validated by (simp add: selection_free_def py_kwargs_def distinct_dict_update)
  have "\<not> rewrites_any [''provider'', ''provider_selection'', ''trigger_event''] d cs"
    by (rule validate_changes_ok(4) [OF validated(4) assms(2)])
  then have "has_key cs ''provider'' \<Longrightarrow> is_str cs ''provider'' p"
    using p by (auto simp: rewrites_any_def py_ne_def is_str_def)
  then show ?thesis
    using dist p by (simp add: status_of_update)
next
  case (bootstrap_updated given now nonce)
  then have "\<not> has_key cs ''provider''"
    using allowed_keys [of given "''provider''"] by (simp add: bootstrap_update_allowed_def dict_simps)
  then show ?thesis using p by (simp add: is_str_def has_key_iff dget_update_notin)
next
  case (build_bound metadata build now)
  then have "\<not> has_key cs ''provider''"
    by (auto simp: bind_forbidden_def dict_simps)
  then show ?thesis using p by (simp add: is_str_def has_key_iff dget_update_notin)
next
  case (planner_retried q now seen n)
  then have "''provider'' \<notin> fst ` set cs" using retry_changes_keys [of q now seen n] by auto
  then show ?thesis using p by (simp add: is_str_def dget_update_notin)
qed (use assms(2) p in \<open>auto simp: is_str_def dict_simps\<close>)

lemma selection_order: "document_backend B \<Longrightarrow> version_order B cfg selection_free selection_kept"
proof (rule version_orderI)
  fix d cs
  assume w: "rx_write cfg B selection_free d cs"
  then show "selection_kept d (dict_update d cs)"
    using rx_write_selection_key [OF w] rx_write_selection_provider [OF w]
    by (simp add: selection_kept_def dget_update_notin)
next
  fix d e f
  assume "selection_kept d e" "selection_kept e f"
  then show "selection_kept d f"
    unfolding selection_kept_def using locked_cong by metis
qed (simp_all add: selection_kept_def)

interpretation selection: version_order mem_backend cfg selection_free selection_kept
  for cfg :: settings
  by (rule selection_order [OF memory.document_backend_axioms])

section \<open>The global ticket\<close>

text \<open>
  A ticket is a document with the ticket identity and none of the fields an execution is driven by.
\<close>

definition ticket_doc :: "doc \<Rightarrow> bool" where
  "ticket_doc d =
     (is_fence d \<and>
      list_all (\<lambda>k. \<not> has_key d k) [''provider'', ''status'', ''operation'', ''bootstrap_ticket_id''])"

lemma ticket_doc_get:
  "ticket_doc d \<Longrightarrow> dget d ''provider'' = PNone" "ticket_doc d \<Longrightarrow> dget d ''status'' = PNone"
  "ticket_doc d \<Longrightarrow> dget d ''operation'' = PNone" "ticket_doc d \<Longrightarrow> dget d ''bootstrap_ticket_id'' = PNone"
  by (simp_all add: ticket_doc_def dget_not_has_key)

lemma ticket_docI:
  assumes "list_all (\<lambda>k. \<not> has_key b k) [''provider'', ''status'', ''operation'', ''bootstrap_ticket_id'']"
  shows "ticket_doc (bootstrap_ticket b i now)"
  using assms
  by (simp add: ticket_doc_def bootstrap_ticket_def is_fence_def dict_simps)

text \<open>No write applies to a ticket.\<close>

lemma ticket_no_token: "ticket_doc d \<Longrightarrow> claim_build_scoped_token cfg B d run field isf \<noteq> Inr True"
  by (simp add: claim_build_scoped_token_def token_admission_def flag_def is_str_def ticket_doc_get)

lemma ticket_no_write:
  assumes "ticket_doc d"
  shows "\<not> rx_write cfg B W d cs"
proof
  assume "rx_write cfg B W d cs"
  then show False
  proof cases
    case (validated given extra)
    then show False using validate_changes_ok(1) [OF validated(4)] assms by (simp add: ticket_doc_def)
  next
    case (reconciled n now)
    then show False using validate_changes_ok(1) [OF reconciled(2)] assms by (simp add: ticket_doc_def)
  next
    case (planner_retried q now seen n)
    then show False
      using assms
      by (simp add: planner_retry_candidate_def is_str_def flag_def ticket_doc_get split: sum.splits)
  qed (use assms in
      \<open>auto simp: is_str_def flag_def ticket_doc_get bootstrap_update_checks_def ticket_no_token\<close>)
qed

lemma fingerprint_not_ticket: "bootstrap_document_id \<noteq> fingerprint r"
proof
  assume "bootstrap_document_id = fingerprint r"
  moreover have "length (fingerprint r) = 64"
    unfolding fingerprint_def by (metis sha256_hex_string hex_string_def)
  ultimately have "length bootstrap_document_id = 64" by simp
  then show False by (simp add: bootstrap_document_id_def quality_bootstrap_ticket_id_def)
qed

context document_backend
begin

lemma ticket_version:
  assumes "rx_version cfg B W bootstrap_document_id (Some tk) v" and "ticket_doc tk"
  shows "v = Some tk"
  using assms(1)
proof cases
  case kept
  then show ?thesis by simp
next
  case (reserved r now)
  then show ?thesis using fingerprint_not_ticket by metis
next
  case (written cs)
  then show ?thesis using ticket_no_write [OF assms(2)] by blast
qed

lemma ticket_history:
  assumes "rx_history cfg B (event_ok W) s t" and "load B s bootstrap_document_id = Some tk"
    and "ticket_doc tk"
  shows "load B t bootstrap_document_id = Some tk"
  using assms
proof (induction rule: rx_history.induct)
  case (step s t e)
  then show ?case
    using ticket_version rx_step_version [OF step.hyps(2), of cfg bootstrap_document_id t] by metis
qed simp

lemma reserve_with_ticket:
  assumes "load B s bootstrap_document_id = Some tk"
  shows "fst (reserve_quality_bootstrap cfg B now i b s) \<noteq> Inr (d, True)"
proof -
  have no: "bootstrap_validate b i now cur (Some tk) \<noteq> Inr (Some cs)" for cs cur
    using bootstrap_validate_Some by blast
  show ?thesis
    using assms
    by (auto simp: no reserve_quality_bootstrap_def simp del: first_error_Cons_Inr split: sum.splits option.splits)
qed

end

end
