(* ===== verification/ReleaseExclusive.thy ===== *)
theory ReleaseExclusive
  imports ReleaseLocks
begin

text \<open>
  Exclusive claims of the release store.  Each claim meets the \<open>one_shot\<close> contract on every store with
  the \<open>document_backend\<close> laws, so among any number of racing callers exactly the first one wins.
\<close>

section \<open>Claimable documents\<close>

definition submittable :: "doc \<Rightarrow> bool" where
  "submittable d =
     (\<not> flag d ''bootstrap_ticket_id'' \<and> is_str d ''provider'' ''cloud_build'' \<and> \<not> flag d ''build_id'' \<and>
      in_strs (dget d ''status'') [''submission_pending'', ''submission_failed''])"

definition publishable :: "doc \<Rightarrow> bool" where
  "publishable d =
     (is_str d ''operation'' ''main_release'' \<and> is_str d ''status'' ''release_planned'' \<and>
      \<not> flag d ''publish_claimed_at'')"

definition dispatchable :: "string \<Rightarrow> string \<Rightarrow> doc \<Rightarrow> bool" where
  "dispatchable attempt_nonce dispatch_token d =
     (is_str d ''bootstrap_ticket_id'' quality_bootstrap_ticket_id \<and>
      is_str d ''bootstrap_nonce'' attempt_nonce \<and> dispatch_token \<noteq> [] \<and>
      is_str (as_dict (dget_or d ''bootstrap_binding'' (PDict []))) ''dispatch_token_hash'' (sha256_hex dispatch_token) \<and>
      \<not> flag d ''bootstrap_dispatch_started'' \<and> is_str d ''provider'' ''cloud_build'' \<and>
      is_str d ''status'' ''submitting'' \<and> \<not> flag d ''build_id'')"

definition doc_where :: "'s backend \<Rightarrow> string \<Rightarrow> (doc \<Rightarrow> bool) \<Rightarrow> 's \<Rightarrow> bool" where
  "doc_where B i P s = (\<exists>d. load B s i = Some d \<and> P d)"

section \<open>The contract, claim by claim\<close>

lemma submission_one_shot:
  assumes "document_backend B"
  shows "one_shot (\<lambda>now. claim_submission B now i) (doc_where B i (\<lambda>_. True)) (doc_where B i submittable)"
proof (rule one_shotI)
  fix now s
  assume "doc_where B i submittable s"
  then obtain d where d: "load B s i = Some d" "submittable d" by (auto simp: doc_where_def)
  let ?cs = "[(''status'', PStr ''submitting''), (''updated_at'', PStr now)]"
  have c: "claim_submission B now i s = (Inr True, patch B i ?cs s)"
    using d by (simp add: claim_submission_def transact_def submittable_def)
  have "load B (patch B i ?cs s) i = Some (dict_update d ?cs)"
    by (rule document_backend.load_patch_same [OF assms d(1)])
  then show "fst (claim_submission B now i s) = Inr True \<and>
      doc_where B i (\<lambda>_. True) (snd (claim_submission B now i s)) \<and>
      \<not> doc_where B i submittable (snd (claim_submission B now i s))"
    unfolding c by (simp add: doc_where_def submittable_def dict_simps)
next
  fix now s
  assume "doc_where B i (\<lambda>_. True) s" "\<not> doc_where B i submittable s"
  then show "claim_submission B now i s = (Inr False, s)"
    by (auto simp: doc_where_def claim_submission_def transact_def submittable_def)
qed

interpretation submission: one_shot "\<lambda>now. claim_submission mem_backend now i"
    "doc_where mem_backend i (\<lambda>_. True)" "doc_where mem_backend i submittable"
  for i :: string
  by (rule submission_one_shot [OF memory.document_backend_axioms])

lemma publish_one_shot:
  assumes "document_backend B"
  shows "one_shot (\<lambda>(now, claimed). claim_publish B now claimed i)
    (doc_where B i (\<lambda>_. True)) (doc_where B i publishable)"
proof (rule one_shotI)
  fix c :: "string \<times> string" and s
  obtain now claimed where c: "c = (now, claimed)" by (cases c)
  assume "doc_where B i publishable s"
  then obtain d where d: "load B s i = Some d" "publishable d" by (auto simp: doc_where_def)
  let ?cs = "[(''status'', PStr ''publish_pending''), (''updated_at'', PStr now),
              (''publish_claimed_at'', PStr claimed)]"
  have m: "(case c of (now, claimed) \<Rightarrow> claim_publish B now claimed i) s = (Inr True, patch B i ?cs s)"
    using d by (simp add: c claim_publish_def transact_def publishable_def)
  have "load B (patch B i ?cs s) i = Some (dict_update d ?cs)"
    by (rule document_backend.load_patch_same [OF assms d(1)])
  then show "fst ((case c of (now, claimed) \<Rightarrow> claim_publish B now claimed i) s) = Inr True \<and>
      doc_where B i (\<lambda>_. True) (snd ((case c of (now, claimed) \<Rightarrow> claim_publish B now claimed i) s)) \<and>
      \<not> doc_where B i publishable (snd ((case c of (now, claimed) \<Rightarrow> claim_publish B now claimed i) s))"
    unfolding m by (simp add: doc_where_def publishable_def dict_simps)
next
  fix c :: "string \<times> string" and s
  assume "doc_where B i (\<lambda>_. True) s" "\<not> doc_where B i publishable s"
  then show "(case c of (now, claimed) \<Rightarrow> claim_publish B now claimed i) s = (Inr False, s)"
    by (cases c) (auto simp: doc_where_def claim_publish_def transact_def publishable_def)
qed

interpretation publish: one_shot "\<lambda>(now, claimed). claim_publish mem_backend now claimed i"
    "doc_where mem_backend i (\<lambda>_. True)" "doc_where mem_backend i publishable"
  for i :: string
  by (rule publish_one_shot [OF memory.document_backend_axioms])

text \<open>The dispatch of the quality-bootstrap build, where its storage is available.\<close>

definition dispatch_ready :: "settings \<Rightarrow> 's backend \<Rightarrow> string \<Rightarrow> 's \<Rightarrow> bool" where
  "dispatch_ready cfg B i s =
     (i \<noteq> bootstrap_document_id \<and> persistent_bootstrap_collection cfg B = Inr () \<and>
      doc_where B i (\<lambda>_. True) s)"

lemma mutate_ready:
  assumes "dispatch_ready cfg B i s" and "load B s i = Some d"
  shows "mutate cfg B i callback s =
    (case callback d of Inl e \<Rightarrow> (Inl e, s)
     | Inr (cs, x) \<Rightarrow> (Inr (dict_update d cs, x), if cs = [] then s else patch B i cs s))"
  using assms
  by (auto simp: mutate_def transact_def dispatch_ready_def persistent_bootstrap_collection_def
      split: sum.splits prod.splits)

lemma dispatch_one_shot:
  assumes "document_backend B"
  shows "one_shot (\<lambda>now. claim_quality_bootstrap_dispatch cfg B now i nonce token)
    (dispatch_ready cfg B i) (doc_where B i (dispatchable nonce token))"
proof (rule one_shotI)
  fix now s
  assume ready: "dispatch_ready cfg B i s" and "doc_where B i (dispatchable nonce token) s"
  then obtain d where d: "load B s i = Some d" "dispatchable nonce token d" by (auto simp: doc_where_def)
  have p: "persistent_bootstrap_collection cfg B = Inr ()" using ready by (simp add: dispatch_ready_def)
  let ?cs = "[(''bootstrap_dispatch_started'', PBool True),
              (''bootstrap_dispatch_started_at'', PStr now), (''updated_at'', PStr now)]"
  have c: "claim_quality_bootstrap_dispatch cfg B now i nonce token s = (Inr True, patch B i ?cs s)"
    using d(2)
    by (simp add: claim_quality_bootstrap_dispatch_def p map_op_def mutate_ready [OF ready d(1)]
        dispatchable_def)
  have "load B (patch B i ?cs s) i = Some (dict_update d ?cs)"
    by (rule document_backend.load_patch_same [OF assms d(1)])
  then show "fst (claim_quality_bootstrap_dispatch cfg B now i nonce token s) = Inr True \<and>
      dispatch_ready cfg B i (snd (claim_quality_bootstrap_dispatch cfg B now i nonce token s)) \<and>
      \<not> doc_where B i (dispatchable nonce token)
          (snd (claim_quality_bootstrap_dispatch cfg B now i nonce token s))"
    using ready unfolding c by (simp add: doc_where_def dispatch_ready_def dispatchable_def dict_simps)
next
  fix now s
  assume ready: "dispatch_ready cfg B i s" and no: "\<not> doc_where B i (dispatchable nonce token) s"
  then obtain d where d: "load B s i = Some d" "\<not> dispatchable nonce token d"
    by (auto simp: doc_where_def dispatch_ready_def)
  have p: "persistent_bootstrap_collection cfg B = Inr ()" using ready by (simp add: dispatch_ready_def)
  show "claim_quality_bootstrap_dispatch cfg B now i nonce token s = (Inr False, s)"
    using d(2)
    by (auto simp: claim_quality_bootstrap_dispatch_def p map_op_def mutate_ready [OF ready d(1)]
        dispatchable_def)
qed

interpretation dispatch: one_shot "\<lambda>now. claim_quality_bootstrap_dispatch cfg mem_backend now i nonce token"
    "dispatch_ready cfg mem_backend i" "doc_where mem_backend i (dispatchable nonce token)"
  for cfg :: settings and i nonce token :: string
  by (rule dispatch_one_shot [OF memory.document_backend_axioms])

section \<open>Source tokens\<close>

definition source_token_field :: "doc \<Rightarrow> string" where
  "source_token_field d =
     (if is_str d ''provider'' ''cloud_build'' then ''source_token_build_id''
      else ''source_token_provider_run_id'')"

definition token_ready :: "settings \<Rightarrow> 's backend \<Rightarrow> doc \<Rightarrow> bool" where
  "token_ready cfg B d = (flag d ''bootstrap_ticket_id'' \<longrightarrow> persistent_bootstrap_collection cfg B = Inr ())"

definition source_claimable :: "settings \<Rightarrow> 's backend \<Rightarrow> string \<Rightarrow> doc \<Rightarrow> bool" where
  "source_claimable cfg B run d =
     (claim_build_scoped_token cfg B d run (source_token_field d) ''source_token_issued_at'' = Inr True)"

lemma scoped_token_decides:
  "token_ready cfg B d \<Longrightarrow> \<exists>b. claim_build_scoped_token cfg B d run field issued = Inr b"
  by (auto simp: claim_build_scoped_token_def token_ready_def Let_def split: option.split)

lemma issued_token_refused:
  assumes "is_str d field run" and "token_ready cfg B d"
  shows "claim_build_scoped_token cfg B d run field issued \<noteq> Inr True"
proof -
  have "py_str (dget_or d field (PStr '''')) = run"
    using assms(1) by (simp add: dget_or_is_str)
  then show ?thesis
    using assms(2) by (auto simp: claim_build_scoped_token_def token_ready_def split: option.split)
qed

lemma source_token_one_shot:
  assumes "document_backend B"
  shows "one_shot (\<lambda>now. claim_source_token cfg B now i run)
    (doc_where B i (token_ready cfg B)) (doc_where B i (source_claimable cfg B run))"
proof (rule one_shotI)
  fix now s
  assume "doc_where B i (token_ready cfg B) s" "doc_where B i (source_claimable cfg B run) s"
  then obtain d where d: "load B s i = Some d" "token_ready cfg B d" "source_claimable cfg B run d"
    by (auto simp: doc_where_def)
  define f where "f = source_token_field d"
  have f: "f \<in> {''source_token_build_id'', ''source_token_provider_run_id''}"
    by (simp add: f_def source_token_field_def)
  define cs where "cs = dict_set f (PStr run) [(''source_token_issued_at'', PStr now), (''updated_at'', PStr now)]"
  have c: "claim_source_token cfg B now i run s = (Inr True, patch B i cs s)"
    using d unfolding source_claimable_def source_token_field_def
    by (auto simp: claim_source_token_def claim_token_def transact_def cs_def f_def source_token_field_def
        split: if_splits)
  have l: "load B (patch B i cs s) i = Some (dict_update d cs)"
    by (rule document_backend.load_patch_same [OF assms d(1)])
  have cs: "cs = [(''source_token_issued_at'', PStr now), (''updated_at'', PStr now), (f, PStr run)]"
    using f by (auto simp: cs_def)
  have ready: "token_ready cfg B (dict_update d cs)"
    using d(2) f by (auto simp: token_ready_def cs dict_simps)
  have "source_token_field (dict_update d cs) = f"
    using f by (auto simp: source_token_field_def f_def cs dict_simps)
  moreover have "is_str (dict_update d cs) f run"
    by (simp add: cs dict_simps)
  ultimately have "\<not> source_claimable cfg B run (dict_update d cs)"
    using issued_token_refused [OF _ ready] by (simp add: source_claimable_def)
  then show "fst (claim_source_token cfg B now i run s) = Inr True \<and>
      doc_where B i (token_ready cfg B) (snd (claim_source_token cfg B now i run s)) \<and>
      \<not> doc_where B i (source_claimable cfg B run) (snd (claim_source_token cfg B now i run s))"
    using l ready by (simp add: c doc_where_def)
next
  fix now s
  assume "doc_where B i (token_ready cfg B) s" "\<not> doc_where B i (source_claimable cfg B run) s"
  then obtain d where d: "load B s i = Some d" "token_ready cfg B d" "\<not> source_claimable cfg B run d"
    by (auto simp: doc_where_def)
  obtain b where "claim_build_scoped_token cfg B d run (source_token_field d) ''source_token_issued_at'' = Inr b"
    using scoped_token_decides [OF d(2)] by blast
  then have "claim_build_scoped_token cfg B d run (source_token_field d) ''source_token_issued_at'' = Inr False"
    using d(3) by (simp add: source_claimable_def)
  then show "claim_source_token cfg B now i run s = (Inr False, s)"
    using d(1) by (simp add: claim_source_token_def claim_token_def transact_def source_token_field_def
        split: if_splits)
qed

interpretation source_token: one_shot "\<lambda>now. claim_source_token cfg mem_backend now i run"
    "doc_where mem_backend i (token_ready cfg mem_backend)"
    "doc_where mem_backend i (source_claimable cfg mem_backend run)"
  for cfg :: settings and i run :: string
  by (rule source_token_one_shot [OF memory.document_backend_axioms])

section \<open>Event deliveries\<close>

record delivery =
  sequence_no :: int
  sender :: event_identity
  payload :: doc
  received_at :: string

definition deliver :: "settings \<Rightarrow> 's backend \<Rightarrow> string \<Rightarrow> delivery \<Rightarrow> ('s, doc \<times> bool) op" where
  "deliver cfg B i v = rx_accept_event cfg B (received_at v) i (sequence_no v) (sender v) (payload v)"

definition seen_sequence :: "'s backend \<Rightarrow> string \<Rightarrow> 's \<Rightarrow> int result" where
  "seen_sequence B i s =
     (case load B s i of
        None \<Rightarrow> Inl (KeyError i)
      | Some d \<Rightarrow> py_int (dget_or d ''event_sequence'' (PInt 0)))"

context document_backend
begin

lemma deliver_cases:
  assumes "seen_sequence B i s = Inr seen" and "py_kwargs (payload v)"
  obtains (ignored) "\<not> accepted (fst (deliver cfg B i v s))" "snd (deliver cfg B i v s) = s"
  | (applied) "accepted (fst (deliver cfg B i v s))" "seen < sequence_no v"
      "seen_sequence B i (snd (deliver cfg B i v s)) = Inr (sequence_no v)"
proof (cases "fst (deliver cfg B i v s)")
  case (Inl e)
  then have "deliver cfg B i v s = (Inl e, snd (deliver cfg B i v s))"
    by (simp add: prod_eq_iff)
  from transact_error [OF this [unfolded deliver_def rx_accept_event_def Let_def]]
  have "snd (deliver cfg B i v s) = s"
    by (simp only: deliver_def rx_accept_event_def Let_def)
  then show thesis using Inl ignored by simp
next
  case (Inr p)
  define cs where "cs = dict_set ''updated_at'' (PStr (received_at v))
      (dict_set ''event_sequence'' (PInt (sequence_no v)) (payload v))"
  obtain x b where p: "p = (x, b)" by (cases p)
  obtain d where d: "load B s i = Some d" and seen: "py_int (dget_or d ''event_sequence'' (PInt 0)) = Inr seen"
    using assms(1) by (auto simp: seen_sequence_def split: option.splits)
  obtain s' where run: "deliver cfg B i v s = (Inr (x, b), s')"
    using Inr p by (cases "deliver cfg B i v s") simp
  from run [unfolded deliver_def rx_accept_event_def Let_def, folded cs_def]
  show thesis
  proof (cases rule: transact_ok)
    case read
    then have "\<not> b" using d seen by (auto simp: guarded_Inr split: if_split_asm)
    then show thesis
      using run read(2) by (intro ignored) simp_all
  next
    case (wrote ws)
    then have w: "ws = cs" "b" "seen < sequence_no v"
      using d seen by (auto simp: guarded_Inr split: if_split_asm)
    have "distinct (map fst cs)"
      using assms(2) by (simp add: cs_def py_kwargs_def distinct_dict_set)
    then have "dget_or (dict_update d cs) ''event_sequence'' (PInt 0) = PInt (sequence_no v)"
      by (simp add: dget_or_update_distinct cs_def dict_simps)
    then have "seen_sequence B i s' = Inr (sequence_no v)"
      using wrote(2) w(1) by (simp add: seen_sequence_def load_patch_same [OF d])
    then show thesis using run w by (intro applied) simp_all
  qed
qed

end

lemma release_sequenced:
  assumes "document_backend B"
  shows "sequenced (deliver cfg B i) sequence_no (seen_sequence B i) (\<lambda>v. py_kwargs (payload v))"
proof
  fix s n and v :: delivery
  assume "seen_sequence B i s = Inr n" "py_kwargs (payload v)"
  then show "\<not> accepted (fst (deliver cfg B i v s)) \<and> snd (deliver cfg B i v s) = s \<or>
      accepted (fst (deliver cfg B i v s)) \<and> n < sequence_no v \<and>
      seen_sequence B i (snd (deliver cfg B i v s)) = Inr (sequence_no v)"
    using document_backend.deliver_cases [OF assms, where cfg = cfg] by metis
qed

interpretation release_events: sequenced "deliver cfg mem_backend i" sequence_no "seen_sequence mem_backend i"
    "\<lambda>v. py_kwargs (payload v)"
  for cfg :: settings and i :: string
  by (rule release_sequenced [OF memory.document_backend_axioms])

end
