(* ===== verification/ReleaseProperties.thy ===== *)
theory ReleaseProperties
  imports ReleaseExclusive
begin

text \<open>
  The properties of the release store.  Histories are those of \<open>rx_history\<close>; each property holds on
  every store with the \<open>document_backend\<close> laws, and its witness runs it on the process-local store.
\<close>

section \<open>A concrete store for the witnesses\<close>

definition demo_settings :: settings where
  "demo_settings = \<lparr>mock_mode = True, cloud_build_enabled = True, new_builds_enabled = True\<rparr>"

definition demo_release :: doc where
  "demo_release =
    [(''execution_id'', PStr ''e1''), (''repository'', PStr ''o/r''), (''operation'', PStr ''main_release''),
     (''provider'', PStr ''cloud_build''), (''status'', PStr ''submission_pending''),
     (''provider_selection'', PDict [(''effective'', PStr ''cloud_build''), (''locked'', PBool True)]),
     (''event_sequence'', PInt 0)]"

definition demo_store :: mem where
  "demo_store = [(''e1'', demo_release)]"

definition demo_events :: "rx_event list" where
  "demo_events =
    [ClaimSubmission ''t1'' ''e1'',
     Save ''t2'' ''e1'' [(''status'', PStr ''running_quality''), (''operation'', PStr ''x'')],
     Save ''t3'' ''e1'' [(''status'', PStr ''running_quality'')],
     Save ''t4'' ''e1'' [(''status'', PStr ''quality_failed'')],
     Save ''t5'' ''e1'' [(''status'', PStr ''released'')]]"

lemma demo_load: "load mem_backend demo_store ''e1'' = Some demo_release"
  by (simp add: demo_store_def mem_load_def)

lemma demo_history:
  "rx_history demo_settings mem_backend (event_ok (\<lambda>_. True)) demo_store
     (rx_run demo_settings mem_backend demo_events demo_store)"
  by (rule rx_history_run [OF rx_history.start]) (simp add: demo_events_def)

section \<open>Identity\<close>

text \<open>
  C1: over any history of the release store, whatever the operations and their arguments, an execution
  is never deleted and none of its identity fields (execution id, fingerprint, repository, service,
  operation, commits, and the four policy digests) ever changes.
\<close>

theorem release_identity_immutable:
  assumes "document_backend B"
    and "rx_history cfg B (event_ok (\<lambda>_. True)) s t"
    and "load B s i = Some d" and "d \<noteq> []"
  shows "\<exists>d'. load B t i = Some d' \<and> (\<forall>k \<in> set identity_fields. dget d' k = dget d k)"
  using version_order.history_kept [OF identity_order [OF assms(1)] assms(2-4)]
  unfolding identity_kept_def by blast

lemma release_identity_immutable_witness:
  "\<exists>d'. load mem_backend (rx_run demo_settings mem_backend demo_events demo_store) ''e1'' = Some d' \<and>
        dget d' ''operation'' = PStr ''main_release''"
  using release_identity_immutable [OF memory.document_backend_axioms demo_history demo_load]
  by (force simp: demo_release_def identity_fields_def dget_def)

text \<open>
  In every store reached from the empty one, an execution is stored under the fingerprint of the
  work its own fields describe (the one other document is the bootstrap ticket).
\<close>

theorem release_keyed_by_fingerprint:
  assumes "document_backend B"
    and "rx_history cfg B (event_ok (\<lambda>_. True)) s t" and "\<And>i. load B s i = None"
    and "load B t i = Some d" and "i \<noteq> bootstrap_document_id"
  shows "is_str d ''execution_id'' i \<and> is_str d ''fingerprint'' i \<and> fingerprint (doc_identity d) = i"
  using doc_invariant.history_doc [OF keyed_invariant [OF assms(1)] assms(2-4)] assms(5)
  by (simp add: keyed_def)

definition demo_reservation :: reservation where
  "demo_reservation =
    \<lparr>repository = ''O/R'', service_name = ''svc'', operation = ''pr_quality'', head_sha = ''AB'',
     base_sha = ''cd'', profile_hash = ''p'', executor_digest = ''x'', policy_hash = ''q'',
     planner_hash = '''', branch = ''main'', provider = ''github_actions'', delivery_id = ''d1'',
     selection = PNone, trigger_event = ''push''\<rparr>"

definition demo_key :: string where
  "demo_key = fingerprint (identity.truncate demo_reservation)"

lemma demo_reserve:
  "rx_reserve mem_backend ''t0'' demo_key demo_reservation [] =
     (Inr (reserved_value ''t0'' demo_key demo_reservation, True),
      [(demo_key, reserved_value ''t0'' demo_key demo_reservation)])"
  by (simp add: rx_reserve_def demo_key_def mem_load_def mem_put_def Let_def)

lemma release_keyed_by_fingerprint_witness:
  "fingerprint (doc_identity (reserved_value ''t0'' demo_key demo_reservation)) = demo_key"
proof -
  let ?v = "reserved_value ''t0'' demo_key demo_reservation"
  have "rx_history demo_settings mem_backend (event_ok (\<lambda>_. True)) []
      (rx_step demo_settings mem_backend (Reserve ''t0'' demo_key demo_reservation) [])"
    by (rule rx_history.step [OF rx_history.start]) simp
  then have h: "rx_history demo_settings mem_backend (event_ok (\<lambda>_. True)) [] [(demo_key, ?v)]"
    by (simp add: demo_reserve)
  have "demo_key \<noteq> bootstrap_document_id"
    using fingerprint_not_ticket by (metis demo_key_def)
  then show ?thesis
    using release_keyed_by_fingerprint [OF memory.document_backend_axioms h, of demo_key ?v]
    by (simp add: mem_load_def)
qed

text \<open>
  A fingerprint is the SHA-256 of a text that determines the work completely: two identities have
  the same text exactly when repository and commits agree up to case, service, operation and policy
  digests agree, and, for a main release, the planner digest agrees.
\<close>

theorem fingerprint_names_the_work:
  "fingerprint r = sha256_hex (fingerprint_text r) \<and>
   (fingerprint_text r = fingerprint_text q \<longleftrightarrow> same_work r q)"
  by (simp add: fingerprint_text_eq fingerprint_text_inj)

section \<open>Status\<close>



text \<open>
  An execution that is released, superseded, failed its quality checks or needed no release keeps
  that status through every later history (under the same condition on the arguments).
\<close>

theorem release_final_status_kept:
  assumes "document_backend B"
    and "rx_history cfg B (event_ok status_given) s t"
    and "load B s i = Some d" and "st \<in> set final_statuses" and "is_str d ''status'' st"
  shows "\<exists>d'. load B t i = Some d' \<and> is_str d' ''status'' st"
proof -
  have "d \<noteq> []" using assms(5) by (auto simp: is_str_def dget_def)
  from version_order.history_kept [OF final_order [OF assms(1)] assms(2,3) this]
  show ?thesis using assms(4,5) by (auto simp: final_kept_def)
qed

definition demo_released :: mem where
  "demo_released = [(''e1'', dict_set ''status'' (PStr ''released'') demo_release)]"

lemma release_final_status_kept_witness:
  "\<exists>d'. load mem_backend (rx_run demo_settings mem_backend
          [Save ''t2'' ''e1'' [(''status'', PStr ''failed'')], ClaimSubmission ''t3'' ''e1'']
          demo_released) ''e1'' = Some d' \<and> is_str d' ''status'' ''released''"
proof (rule release_final_status_kept [OF memory.document_backend_axioms])
  show "rx_history demo_settings mem_backend (event_ok status_given) demo_released
     (rx_run demo_settings mem_backend
        [Save ''t2'' ''e1'' [(''status'', PStr ''failed'')], ClaimSubmission ''t3'' ''e1''] demo_released)"
    by (rule rx_history_run [OF rx_history.start])
      (simp add: status_given_def py_kwargs_def has_key_def flag_def dget_def)
  show "load mem_backend demo_released ''e1'' = Some (dict_set ''status'' (PStr ''released'') demo_release)"
    by (simp add: demo_released_def mem_load_def)
qed (simp_all add: final_statuses_def dict_simps)

section \<open>Reservation\<close>

text \<open>
  A reservation for work that is already reserved creates nothing.  It returns the stored execution
  when the request also spells the repository and the planner digest as the first one did, and is
  refused otherwise: the fingerprint ignores the case of the repository and, outside main releases, the
  planner digest, but the comparison with the stored record does not.
\<close>

theorem reservation_idempotent:
  assumes "document_backend B" and "load B s k = None"
    and "rx_reserve B now k r s = (Inr (d, b), s1)"
    and "same_work (identity.truncate r) (identity.truncate q)"
  shows "b \<and> d = reserved_value now k r \<and>
    rx_reserve B now' k q s1 =
      (if repository q = repository r \<and> planner_hash q = planner_hash r then (Inr (d, False), s1)
       else (Inl (ValueError ''Release execution identity cannot change''), s1))"
proof -
  have k: "k = fingerprint (identity.truncate r)" and bd: "b" "d = reserved_value now k r"
    and s1: "s1 = put B k (reserved_value now k r) s"
    using assms(2,3) by (auto simp: rx_reserve_def Let_def split: if_splits)
  have kq: "k = fingerprint (identity.truncate q)"
    using fingerprint_text_eq fingerprint_text_inj assms(4) k by metis
  have l: "load B s1 k = Some (reserved_value now k r)"
    using document_backend.load_put [OF assms(1)] by (simp add: s1)
  have eqs: "service_name q = service_name r" "operation q = operation r"
    "str_lower (head_sha q) = str_lower (head_sha r)" "str_lower (base_sha q) = str_lower (base_sha r)"
    "profile_hash q = profile_hash r" "executor_digest q = executor_digest r"
    "policy_hash q = policy_hash r"
    using assms(4) by (simp_all add: same_work_def identity.truncate_def)
  have differ: "list_ex (\<lambda>f. py_ne (dget (reserved_value now k r) f) (dget (reserved_value now' k q) f))
        reserved_identity_fields
      = (repository q \<noteq> repository r \<or> planner_hash q \<noteq> planner_hash r)"
    by (auto simp: reserved_identity_fields_def reserved_value_def dget_def py_ne_def eqs)
  have "reserved_value now k r \<noteq> []" by (simp add: reserved_value_def)
  then show ?thesis
    using bd differ by (auto simp: rx_reserve_def kq [symmetric] l Let_def)
qed

lemma reservation_idempotent_witness:
  "rx_reserve mem_backend ''t9'' demo_key (demo_reservation\<lparr>repository := ''o/r''\<rparr>)
     [(demo_key, reserved_value ''t0'' demo_key demo_reservation)]
   = (Inl (ValueError ''Release execution identity cannot change''),
      [(demo_key, reserved_value ''t0'' demo_key demo_reservation)])"
proof -
  have "str_lower (''O/R'') = str_lower (''o/r'')" by code_simp
  then have "same_work (identity.truncate demo_reservation)
      (identity.truncate (demo_reservation\<lparr>repository := ''o/r''\<rparr>))"
    by (simp add: same_work_def identity.truncate_def demo_reservation_def effective_planner_def)
  from reservation_idempotent [OF memory.document_backend_axioms _ demo_reserve this, of "''t9''"]
  show ?thesis by (simp add: mem_load_def demo_reservation_def)
qed

section \<open>Exclusive claims\<close>

text \<open>
  C5: of any number of workers claiming the submission of one execution, in any order, the first wins
  and every other gets \<open>False\<close> when the execution awaits submission (a Cloud Build execution, pending
  or failed to submit, with no build and no bootstrap ticket); otherwise all get \<open>False\<close>.
\<close>

theorem submission_claim_exclusive:
  assumes "document_backend B" and "load B s i = Some d"
  shows "fst (run_ops (map (\<lambda>now. claim_submission B now i) (now # nows)) s) =
    (if \<not> flag d ''bootstrap_ticket_id'' \<and> is_str d ''provider'' ''cloud_build'' \<and>
        \<not> flag d ''build_id'' \<and> in_strs (dget d ''status'') [''submission_pending'', ''submission_failed'']
     then Inr True # replicate (length nows) (Inr False)
     else replicate (Suc (length nows)) (Inr False))"
  using one_shot.first_wins [OF submission_one_shot [OF assms(1)], of i s now nows] assms(2)
  by (simp add: doc_where_def submittable_def)

lemma submission_claim_exclusive_witness:
  "fst (run_ops (map (\<lambda>now. claim_submission mem_backend now ''e1'') [''t1'', ''t2'', ''t3'']) demo_store) =
   [Inr True, Inr False, Inr False]"
  using submission_claim_exclusive [OF memory.document_backend_axioms demo_load, of "''t1''" "[''t2'', ''t3'']"]
  by (simp add: demo_release_def flag_def is_str_def dget_def)

text \<open>
  Of any number of workers claiming publication of one planned main release, exactly the first wins.
\<close>

theorem publication_claim_exclusive:
  assumes "document_backend B" and "load B s i = Some d"
  shows "fst (run_ops (map (\<lambda>(now, claimed). claim_publish B now claimed i) (c # cs)) s) =
    (if is_str d ''operation'' ''main_release'' \<and> is_str d ''status'' ''release_planned'' \<and>
        \<not> flag d ''publish_claimed_at''
     then Inr True # replicate (length cs) (Inr False)
     else replicate (Suc (length cs)) (Inr False))"
  using one_shot.first_wins [OF publish_one_shot [OF assms(1)], of i s c cs] assms(2)
  by (simp add: doc_where_def publishable_def)

lemma publication_claim_exclusive_witness:
  "fst (run_ops (map (\<lambda>(now, claimed). claim_publish mem_backend now claimed ''e1'')
          [(''t1'', ''t1''), (''t2'', ''t2'')])
        [(''e1'', dict_set ''status'' (PStr ''release_planned'') demo_release)]) = [Inr True, Inr False]"
  using publication_claim_exclusive [OF memory.document_backend_axioms,
      of "[(''e1'', dict_set ''status'' (PStr ''release_planned'') demo_release)]" "''e1''" _
         "(''t1'', ''t1'')" "[(''t2'', ''t2'')]"]
  by (simp add: mem_load_def dict_simps) (simp add: demo_release_def flag_def is_str_def dget_def)

text \<open>
  A source token is issued at most once for a provider run: of any number of claims for the same run
  the first wins when the run may hold one, and every later claim is refused.
\<close>

theorem source_token_issued_once:
  assumes "document_backend B" and "load B s i = Some d"
    and "flag d ''bootstrap_ticket_id'' \<Longrightarrow> persistent_bootstrap_collection cfg B = Inr ()"
  shows "fst (run_ops (map (\<lambda>now. claim_source_token cfg B now i run) (now # nows)) s) =
    (if claim_build_scoped_token cfg B d run
          (if is_str d ''provider'' ''cloud_build'' then ''source_token_build_id''
           else ''source_token_provider_run_id'') ''source_token_issued_at'' = Inr True
     then Inr True # replicate (length nows) (Inr False)
     else replicate (Suc (length nows)) (Inr False))"
  using one_shot.first_wins [OF source_token_one_shot [OF assms(1)], of i cfg s run now nows] assms(2,3)
  by (simp add: doc_where_def source_claimable_def source_token_field_def token_ready_def)

definition demo_running :: doc where
  "demo_running = [(''provider'', PStr ''cloud_build''), (''build_id'', PStr ''b1''), (''status'', PStr ''submitting'')]"

lemma source_token_issued_once_witness:
  "fst (run_ops (map (\<lambda>now. claim_source_token demo_settings mem_backend now ''e1'' ''b1'') [''t1'', ''t2'', ''t3''])
      [(''e1'', demo_running)]) = [Inr True, Inr False, Inr False]"
  using source_token_issued_once [OF memory.document_backend_axioms,
      of "[(''e1'', demo_running)]" "''e1''" demo_running demo_settings "''b1''" "''t1''" "[''t2'', ''t3'']"]
  by (simp add: mem_load_def)
    (simp add: demo_running_def flag_def is_str_def dget_def dget_or_def claim_build_scoped_token_def
      token_admission_def py_or_def)

section \<open>Engine events\<close>

text \<open>
  C10: whatever deliveries arrive for an execution, duplicated and out of order included, the sequence
  numbers of those that are applied increase strictly from the one already stored, and the stored number
  is always the last applied one: no event is applied twice and none after a later one.
\<close>

theorem event_sequence_monotone:
  assumes "document_backend B" and "seen_sequence B i s = Inr seen"
    and "\<forall>v \<in> set vs. py_kwargs (payload v)"
    and "run_ops (map (deliver cfg B i) vs) s = (rs, s')"
  shows "sorted_wrt (<) (seen # applied sequence_no rs vs) \<and> seen_sequence B i s' = Inr (last (seen # applied sequence_no rs vs))"
  using sequenced.deliveries_monotone [OF release_sequenced [OF assms(1)] assms(2,3), of cfg]
  by (simp add: assms(4))

definition demo_delivery :: "int \<Rightarrow> delivery" where
  "demo_delivery n = \<lparr>sequence_no = n,
     sender = \<lparr>expected_provider = '''', expected_run_id = '''', expected_token_hash = ''''\<rparr>,
     payload = [(''note'', PInt n)], received_at = ''t''\<rparr>"

lemma event_sequence_monotone_witness:
  "sorted_wrt (<) (0 # applied sequence_no
      (fst (run_ops (map (deliver demo_settings mem_backend ''e1'') (map demo_delivery [2, 1, 2, 3])) demo_store))
      (map demo_delivery [2, 1, 2, 3]))"
proof -
  have "seen_sequence mem_backend ''e1'' demo_store = Inr 0"
    by (simp add: seen_sequence_def demo_store_def mem_load_def demo_release_def dget_or_def)
  moreover have "\<forall>v \<in> set (map demo_delivery [2, 1, 2, 3]). py_kwargs (payload v)"
    by (simp add: demo_delivery_def py_kwargs_def)
  ultimately show ?thesis
    using event_sequence_monotone [OF memory.document_backend_axioms]
    by (metis surjective_pairing)
qed

section \<open>The quality bootstrap\<close>

text \<open>
  C15: the global bootstrap ticket is spent once and for all.  Once a ticket whose binding carries none of
  the fields that drive an execution is stored, it stays as it is through every history and no
  reservation ever starts a second attempt.
\<close>

theorem bootstrap_ticket_spent_once:
  assumes "document_backend B" and "load B s bootstrap_document_id = Some (bootstrap_ticket b i now)"
    and "list_all (\<lambda>k. \<not> has_key b k) [''provider'', ''status'', ''operation'', ''bootstrap_ticket_id'']"
    and "rx_history cfg B (event_ok (\<lambda>_. True)) s t"
  shows "load B t bootstrap_document_id = Some (bootstrap_ticket b i now) \<and>
    fst (reserve_quality_bootstrap cfg' B now' i' b' t) \<noteq> Inr (d, True)"
  using document_backend.ticket_history [OF assms(1,4,2) ticket_docI [OF assms(3)]]
    document_backend.reserve_with_ticket [OF assms(1)] by blast

lemma bootstrap_ticket_spent_once_witness:
  "fst (reserve_quality_bootstrap demo_settings mem_backend ''t9'' ''e1'' []
     (rx_run demo_settings mem_backend
        [ClaimSubmission ''t'' bootstrap_document_id, Save ''t'' bootstrap_document_id [(''status'', PStr ''failed'')]]
        [(bootstrap_document_id, bootstrap_ticket [] ''e1'' ''t0''), (''e1'', demo_release)]))
   \<noteq> Inr (demo_release, True)"
proof -
  let ?s = "[(bootstrap_document_id, bootstrap_ticket [] ''e1'' ''t0''), (''e1'', demo_release)]"
  have h: "rx_history demo_settings mem_backend (event_ok (\<lambda>_. True)) ?s
     (rx_run demo_settings mem_backend
        [ClaimSubmission ''t'' bootstrap_document_id, Save ''t'' bootstrap_document_id [(''status'', PStr ''failed'')]] ?s)"
    by (rule rx_history_run [OF rx_history.start]) simp
  show ?thesis
    using bootstrap_ticket_spent_once [OF memory.document_backend_axioms _ _ h, of "[]" "''e1''" "''t0''"]
    by (simp add: mem_load_def has_key_def)
qed

text \<open>
  Once an execution is the bootstrap attempt, its ticket, binding, nonce, request, requester and
  idempotency key are frozen, and a started dispatch stays started, through every history.
\<close>

theorem bootstrap_attempt_frozen:
  assumes "document_backend B"
    and "rx_history cfg B (event_ok (\<lambda>_. True)) s t"
    and "load B s i = Some d" and "flag d ''bootstrap_ticket_id''"
  shows "\<exists>d'. load B t i = Some d' \<and> (\<forall>k \<in> set attempt_fields. dget d' k = dget d k) \<and>
    (flag d ''bootstrap_dispatch_started'' \<longrightarrow> flag d' ''bootstrap_dispatch_started'')"
proof -
  have "d \<noteq> []" using assms(4) by (auto simp: flag_def dget_def)
  from version_order.history_kept [OF attempt_order [OF assms(1)] assms(2,3) this]
  show ?thesis using assms(4) by (auto simp: attempt_kept_def)
qed

definition demo_attempt :: doc where
  "demo_attempt =
    [(''bootstrap_ticket_id'', PStr quality_bootstrap_ticket_id), (''bootstrap_nonce'', PStr ''n''),
     (''bootstrap_dispatch_started'', PBool True), (''status'', PStr ''submitting''),
     (''provider'', PStr ''cloud_build'')]"

lemma bootstrap_attempt_frozen_witness:
  "\<exists>d'. load mem_backend (rx_run demo_settings mem_backend
       [Save ''t1'' ''e1'' [(''bootstrap_nonce'', PStr ''m''), (''bootstrap_nonce'', PStr ''m'')],
        AcceptEvent ''t2'' ''e1'' 4 \<lparr>expected_provider = '''', expected_run_id = '''', expected_token_hash = ''''\<rparr>
          [(''bootstrap_dispatch_started'', PBool False)]]
       [(''e1'', demo_attempt)]) ''e1'' = Some d' \<and>
     dget d' ''bootstrap_nonce'' = PStr ''n'' \<and> flag d' ''bootstrap_dispatch_started''"
proof -
  let ?es = "[Save ''t1'' ''e1'' [(''bootstrap_nonce'', PStr ''m''), (''bootstrap_nonce'', PStr ''m'')],
        AcceptEvent ''t2'' ''e1'' 4 \<lparr>expected_provider = '''', expected_run_id = '''', expected_token_hash = ''''\<rparr>
          [(''bootstrap_dispatch_started'', PBool False)]]"
  have h: "rx_history demo_settings mem_backend (event_ok (\<lambda>_. True)) [(''e1'', demo_attempt)]
     (rx_run demo_settings mem_backend ?es [(''e1'', demo_attempt)])"
    by (rule rx_history_run [OF rx_history.start]) simp
  have "''bootstrap_nonce'' \<in> set attempt_fields" by (simp add: attempt_fields_def)
  then show ?thesis
    using bootstrap_attempt_frozen [OF memory.document_backend_axioms h, of "''e1''" demo_attempt]
    by (force simp: mem_load_def demo_attempt_def flag_def dget_def quality_bootstrap_ticket_id_def)
qed

text \<open>
  Where the bootstrap storage is available, of any number of workers presenting the dispatch token of
  the attempt exactly the first starts its build, and without the nonce and the token no one does.
\<close>

theorem bootstrap_dispatch_exclusive:
  assumes "document_backend B" and "load B s i = Some d" and "i \<noteq> bootstrap_document_id"
    and "persistent_bootstrap_collection cfg B = Inr ()"
  shows "fst (run_ops (map (\<lambda>now. claim_quality_bootstrap_dispatch cfg B now i nonce token) (now # nows)) s) =
    (if dispatchable nonce token d then Inr True # replicate (length nows) (Inr False)
     else replicate (Suc (length nows)) (Inr False))"
  using one_shot.first_wins [OF dispatch_one_shot [OF assms(1)], of cfg i s nonce token now nows] assms(2-4)
  by (simp add: doc_where_def dispatch_ready_def)

lemma bootstrap_dispatch_exclusive_witness:
  "fst (run_ops (map (\<lambda>now. claim_quality_bootstrap_dispatch demo_settings mem_backend now ''e1'' ''n'' ''tok'')
       [''t1'', ''t2'']) [(''e1'', demo_attempt)]) = [Inr False, Inr False]"
  using bootstrap_dispatch_exclusive [OF memory.document_backend_axioms,
      of "[(''e1'', demo_attempt)]" "''e1''" demo_attempt demo_settings "''n''" "''tok''" "''t1''" "[''t2'']"]
  by (simp add: mem_load_def bootstrap_document_id_def persistent_bootstrap_collection_def demo_settings_def)
    (simp add: dispatchable_def demo_attempt_def flag_def dget_def)

section \<open>Provider selection\<close>

text \<open>
  The provider of an execution whose selection is locked never changes, and neither does the recorded
  selection, in any history whose callers pass no selection among the values to store.
\<close>

theorem locked_selection_kept:
  assumes "document_backend B"
    and "rx_history cfg B (event_ok selection_free) s t"
    and "load B s i = Some d" and "locked d" and "is_str d ''provider'' p"
  shows "\<exists>d'. load B t i = Some d' \<and> locked d' \<and> is_str d' ''provider'' p \<and>
    dget d' ''provider_selection'' = dget d ''provider_selection''"
proof -
  have "d \<noteq> []" using assms(5) by (auto simp: is_str_def dget_def)
  then obtain d' where d': "load B t i = Some d'" "selection_kept d d'"
    using version_order.history_kept [OF selection_order [OF assms(1)] assms(2,3)] by blast
  then have "dget d' ''provider_selection'' = dget d ''provider_selection''" "is_str d' ''provider'' p"
    using assms(4,5) by (simp_all add: selection_kept_def)
  then show ?thesis using d'(1) assms(4) locked_cong by blast
qed

lemma locked_selection_kept_witness:
  "\<exists>d'. load mem_backend (rx_run demo_settings mem_backend
       [Save ''t1'' ''e1'' [(''provider'', PStr ''github_actions'')], Handoff ''t2'' ''e1'' ''quota'']
       demo_store) ''e1'' = Some d' \<and> locked d' \<and> is_str d' ''provider'' ''cloud_build''"
proof -
  let ?es = "[Save ''t1'' ''e1'' [(''provider'', PStr ''github_actions'')], Handoff ''t2'' ''e1'' ''quota'']"
  have h: "rx_history demo_settings mem_backend (event_ok selection_free) demo_store
     (rx_run demo_settings mem_backend ?es demo_store)"
    by (rule rx_history_run [OF rx_history.start]) (simp add: selection_free_def py_kwargs_def has_key_def)
  have "locked demo_release" "is_str demo_release ''provider'' ''cloud_build''"
    by (simp_all add: locked_def demo_release_def dget_def py_or_def flag_def is_str_def)
  then show ?thesis
    using locked_selection_kept [OF memory.document_backend_axioms h demo_load] by blast
qed

text \<open>
  The handoff to Cloud Build happens exactly for an unlocked GitHub Actions execution that has not
  started, is no bootstrap attempt and belongs to a service that may leave GitHub Actions, while new builds
  are enabled; it then awaits submission on Cloud Build.
\<close>

theorem handoff_to_cloud_build:
  assumes "document_backend B" and "load B s i = Some d"
  shows "((\<exists>d'. fst (transition_to_cloud_build cfg B now i reason s) = Inr (d', True)) \<longleftrightarrow>
      \<not> locked d \<and> \<not> flag d ''bootstrap_ticket_id'' \<and>
      \<not> github_actions_only (py_str (py_or (dget d ''service_name'') (PStr ''''))) \<and>
      is_str d ''provider'' ''github_actions'' \<and>
      in_strs (dget d ''status'') [''received'', ''waiting_github''] \<and>
      cloud_build_enabled cfg \<and> new_builds_enabled cfg) \<and>
    (\<forall>d'. fst (transition_to_cloud_build cfg B now i reason s) = Inr (d', True) \<longrightarrow>
      load B (snd (transition_to_cloud_build cfg B now i reason s)) i = Some d' \<and>
      is_str d' ''provider'' ''cloud_build'' \<and> is_str d' ''status'' ''submission_pending'')"
proof -
  let ?cs = "[(''provider'', PStr ''cloud_build''), (''status'', PStr ''submission_pending''),
      (''fallback_reason'', PStr reason), (''updated_at'', PStr now)]"
  let ?t = "transition_to_cloud_build cfg B now i reason s"
  let ?ok = "\<not> locked d \<and> \<not> flag d ''bootstrap_ticket_id'' \<and>
      \<not> github_actions_only (py_str (py_or (dget d ''service_name'') (PStr ''''))) \<and>
      is_str d ''provider'' ''github_actions'' \<and>
      in_strs (dget d ''status'') [''received'', ''waiting_github''] \<and>
      cloud_build_enabled cfg \<and> new_builds_enabled cfg"
  have run: "?t = (Inr (dict_update d ?cs, True), patch B i ?cs s)" if ?ok
    using that assms(2)
    by (auto simp: transition_to_cloud_build_def transact_def guarded_def first_error.simps raise_if_def
        is_str_def require_new_builds_def)
  have only: ?ok if "fst ?t = Inr (d', True)" for d'
  proof -
    from that obtain s' where "?t = (Inr (d', True), s')" by (cases ?t) simp
    from this [unfolded transition_to_cloud_build_def Let_def] show ?ok
      by (cases rule: document_backend.transact_ok [OF assms(1)])
        (use assms(2) in \<open>auto simp: guarded_Inr split: if_split_asm\<close>)
  qed
  have after: "load B (snd ?t) i = Some d' \<and> is_str d' ''provider'' ''cloud_build'' \<and>
      is_str d' ''status'' ''submission_pending''" if won: "fst ?t = Inr (d', True)" for d'
  proof -
    note r = run [OF only [OF won]]
    have "d' = dict_update d ?cs" using won unfolding r by simp
    moreover have "load B (snd ?t) i = Some (dict_update d ?cs)"
      unfolding r snd_conv by (rule document_backend.load_patch_same [OF assms(1,2)])
    ultimately show ?thesis by (simp add: dict_simps)
  qed
  have "fst ?t = Inr (dict_update d ?cs, True)" if ?ok
    unfolding run [OF that] by simp
  then have "(\<exists>d'. fst ?t = Inr (d', True)) \<longleftrightarrow> ?ok"
    using only by (metis (no_types, lifting))
  with after show ?thesis by blast
qed

lemma handoff_to_cloud_build_witness:
  "\<exists>d'. fst (transition_to_cloud_build demo_settings mem_backend ''t1'' ''e1'' ''quota''
     [(''e1'', [(''provider'', PStr ''github_actions''), (''status'', PStr ''waiting_github'')])]) = Inr (d', True)"
proof -
  let ?d = "[(''provider'', PStr ''github_actions''), (''status'', PStr ''waiting_github'')]"
  have "\<not> locked ?d \<and> \<not> flag ?d ''bootstrap_ticket_id'' \<and>
      \<not> github_actions_only (py_str (py_or (dget ?d ''service_name'') (PStr ''''))) \<and>
      is_str ?d ''provider'' ''github_actions'' \<and>
      in_strs (dget ?d ''status'') [''received'', ''waiting_github''] \<and>
      cloud_build_enabled demo_settings \<and> new_builds_enabled demo_settings"
    by (simp add: locked_def flag_def dget_def py_or_def github_actions_only_def
        github_actions_only_services_def is_str_def demo_settings_def)
  then show ?thesis
    using handoff_to_cloud_build [OF memory.document_backend_axioms, of "[(''e1'', ?d)]" "''e1''" ?d]
    by (simp add: mem_load_def)
qed

section \<open>Builds and recovery\<close>

text \<open>
  C18: once an execution is bound to a Cloud Build, binding the same build again changes nothing and
  returns the record, and binding any other build is refused and changes nothing.
\<close>

theorem build_binding_exclusive:
  assumes "document_backend B" and "py_kwargs metadata" and "\<not> has_key metadata ''bootstrap_ticket_id''"
    and "bind_build B now i build metadata s = (Inr d, s1)"
    and "\<not> list_ex (has_key metadata') bind_forbidden"
    and "other \<noteq> build" and "other \<noteq> []" and "length other \<le> 128"
  shows "text_field d ''build_id'' = build \<and> load B s1 i = Some d \<and>
    bind_build B now' i build metadata' s1 = (Inr d, s1) \<and>
    bind_build B now' i other metadata' s1 =
      (Inl (ValueError ''Release execution is already bound to another build''), s1)"
proof -
  define cs where "cs = dict_update metadata
      [(''build_id'', PStr build), (''provider_run_id'', PStr build),
       (''status'', PStr ''submission_pending''), (''updated_at'', PStr now)]"
  have build: "build \<noteq> []" "\<not> 128 < length build"
    and forb: "\<not> list_ex (has_key metadata) bind_forbidden"
    using assms(4) by (auto simp: bind_build_def split: if_splits)
  have dist: "distinct (map fst cs)"
    using assms(2) by (simp only: cs_def py_kwargs_def distinct_dict_update)
  have no: "\<not> has_key metadata ''provider''"
    using forb by (simp add: bind_forbidden_def)
  have cs: "has_key cs ''build_id''" "dget cs ''build_id'' = PStr build" "\<not> has_key cs ''provider''"
      "\<not> has_key cs ''bootstrap_ticket_id''"
    using no assms(3) by (simp_all add: cs_def dict_simps)
  have t: "transact B i
      (\<lambda>snapshot. case snapshot of
          None \<Rightarrow> Inl (KeyError i)
        | Some current \<Rightarrow>
            let current_build = py_str (dget_or current ''build_id'' (PStr ''''))
            in guarded
                 [raise_if (flag current ''bootstrap_ticket_id'')
                    (ValueError ''Quality bootstrap requires verified build binding''),
                  raise_if (\<not> is_str current ''provider'' ''cloud_build'')
                    (ValueError ''Release execution is not Cloud Build managed''),
                  raise_if (current_build \<noteq> [] \<and> current_build \<noteq> build)
                    (ValueError ''Release execution is already bound to another build'')]
                 (if current_build = build then Inr (current, None)
                  else guarded [validate_status_change current cs]
                         (Inr (dict_update current cs, Some cs)))) s = (Inr d, s1)"
    using assms(4) build forb unfolding bind_build_def cs_def Let_def by simp
  have upd: "py_str (dget_or (dict_update c cs) ''build_id'' (PStr '''')) = build \<and>
      flag (dict_update c cs) ''bootstrap_ticket_id'' = flag c ''bootstrap_ticket_id'' \<and>
      is_str (dict_update c cs) ''provider'' p = is_str c ''provider'' p" for c p
    using dist cs by (simp add: dget_or_update_distinct dget_update_distinct flag_def is_str_def)
  have bound: "load B s1 i = Some d \<and> py_str (dget_or d ''build_id'' (PStr '''')) = build \<and>
      \<not> flag d ''bootstrap_ticket_id'' \<and> is_str d ''provider'' ''cloud_build''"
  proof (cases rule: document_backend.transact_ok [OF assms(1) t])
    case 1
    then show ?thesis by (auto simp: guarded_Inr Let_def split: option.splits if_split_asm)
  next
    case (2 ws)
    then obtain c where c: "load B s i = Some c" "ws = cs" "d = dict_update c cs"
      "\<not> flag c ''bootstrap_ticket_id''" "is_str c ''provider'' ''cloud_build''"
      by (auto simp: guarded_Inr Let_def split: option.splits if_split_asm)
    then show ?thesis
      using 2(2) upd document_backend.load_patch_same [OF assms(1) c(1)] by simp
  qed
  have len: "\<not> 128 < length other" using assms(8) by simp
  show ?thesis
    using bound build assms(5,6,7) len
    by (simp add: bind_build_def Let_def transact_def guarded_def first_error.simps raise_if_def text_field_def)
qed

lemma build_binding_exclusive_witness:
  "snd (bind_build mem_backend ''t2'' ''e1'' ''b2'' [] (snd (bind_build mem_backend ''t1'' ''e1'' ''b1'' [] demo_store)))
   = snd (bind_build mem_backend ''t1'' ''e1'' ''b1'' [] demo_store)"
proof -
  have "\<exists>d s1. bind_build mem_backend ''t1'' ''e1'' ''b1'' [] demo_store = (Inr d, s1)"
    by (simp add: bind_build_def transact_def demo_store_def mem_load_def demo_release_def flag_def
        is_str_def dget_def dget_or_def guarded_def first_error.simps raise_if_def
        validate_status_change_def Let_def has_key_def bind_forbidden_def)
  then obtain d s1 where b: "bind_build mem_backend ''t1'' ''e1'' ''b1'' [] demo_store = (Inr d, s1)"
    by blast
  show ?thesis
    using build_binding_exclusive [OF memory.document_backend_axioms _ _ b, of "[]" "''b2''"]
    by (simp add: b py_kwargs_def has_key_def bind_forbidden_def)
qed

lemma retry_eligible_ok:
  assumes "retry_eligible q d = Inr ()" and "retry_count d = Inr n"
  shows "n \<in> {0, 1, 2}" "is_str d ''status'' ''failed''" "is_str d ''operation'' ''main_release''"
proof -
  have "planner_retry_candidate d (remediation q) (contract_retry q) = Inr True"
    using assms(1) by (auto simp: retry_eligible_def split: sum.splits)
  then show "n \<in> {0, 1, 2}" "is_str d ''status'' ''failed''" "is_str d ''operation'' ''main_release''"
    using assms(2) by (auto simp: planner_retry_candidate_def Let_def split: if_split_asm)
qed

lemma stage_planner_retry_ok:
  assumes "stage_planner_retry cfg B now i q s = (Inr d', s')"
  obtains d n where "load B s i = Some d" "retry_eligible q d = Inr ()" "retry_count d = Inr n"
    "retry_write B i q (retry_previous_image q d) (retry_changes q now d n) s = (Inr d', s')"
  using assms
  by (auto simp: stage_planner_retry_def rx_get_def split: sum.splits option.splits if_split_asm)

lemma retry_write_ok:
  assumes "document_backend B" and "retry_write B i q previous cs s = (Inr d', s')"
    and "load B s i = Some d"
  shows "d' = dict_update d cs \<and> load B s' i = Some d'"
  using assms(2) [unfolded retry_write_def]
  by (cases rule: document_backend.transact_ok [OF assms(1) assms(2) [unfolded retry_write_def]])
    (use assms(3) document_backend.load_patch_same [OF assms(1,3)] in
      \<open>auto simp: guarded_Inr split: sum.splits\<close>)

lemma retry_changes_last:
  "map_of (rev (retry_changes q now d n)) ''planner_retry_count'' = Some (PInt (n + 1))"
  "map_of (rev (retry_changes q now d n)) ''previous_build_ids'' =
     Some (PList (if PStr (failed_build_id q) \<in> set (as_list (py_or (dget d ''previous_build_ids'') (PList [])))
       then as_list (py_or (dget d ''previous_build_ids'') (PList []))
       else as_list (py_or (dget d ''previous_build_ids'') (PList [])) @ [PStr (failed_build_id q)]))"
  by (simp_all add: retry_changes_def Let_def)

lemma not_failed_not_staged:
  assumes "load B s i = Some d" and "retry_count d = Inr n" and "\<not> is_str d ''status'' ''failed''"
  shows "\<exists>e. stage_planner_retry cfg B now i q s = (Inl e, s)"
proof -
  have "d \<noteq> [] \<Longrightarrow> rx_get cfg B i s = Inr (Some d) \<or> (\<exists>e. rx_get cfg B i s = Inl e)"
    using assms(1) by (simp add: rx_get_def)
  moreover have "d = [] \<Longrightarrow> rx_get cfg B i s = Inr (Some d) \<or> rx_get cfg B i s = Inr None"
    using assms(1) by (simp add: rx_get_def)
  moreover have "\<exists>e. retry_eligible q d = Inl e"
    using assms(2,3)
    by (auto simp: retry_eligible_def planner_retry_candidate_def Let_def raise_if_def split: sum.splits)
  ultimately show ?thesis
    by (cases "d = []") (auto simp: stage_planner_retry_def split: sum.splits)
qed

text \<open>
  C26: a staged planner recovery takes a failed Cloud Build main release back to submission, counts one
  more attempt of at most three, remembers the failed build, and a second request for the same execution
  is refused until it fails again.
\<close>

theorem planner_retry_bounded:
  assumes "document_backend B" and "stage_planner_retry cfg B now i q s = (Inr d', s')"
  shows "\<exists>d n. load B s i = Some d \<and> retry_count d = Inr n \<and> 0 \<le> n \<and> n \<le> 2 \<and>
    is_str d ''status'' ''failed'' \<and> is_str d ''operation'' ''main_release'' \<and>
    load B s' i = Some d' \<and> retry_count d' = Inr (n + 1) \<and> is_str d' ''status'' ''submission_pending'' \<and>
    PStr (failed_build_id q) \<in> set (as_list (dget d' ''previous_build_ids'')) \<and>
    (\<exists>e. stage_planner_retry cfg B now' i q' s' = (Inl e, s'))"
proof -
  obtain d n where d: "load B s i = Some d" "retry_eligible q d = Inr ()" "retry_count d = Inr n"
    and w: "retry_write B i q (retry_previous_image q d) (retry_changes q now d n) s = (Inr d', s')"
    using stage_planner_retry_ok [OF assms(2)] by metis
  have d': "d' = dict_update d (retry_changes q now d n)" "load B s' i = Some d'"
    using retry_write_ok [OF assms(1) w d(1)] by simp_all
  have n: "0 \<le> n" "n \<le> 2" using retry_eligible_ok(1) [OF d(2,3)] by auto
  have "dget d' ''planner_retry_count'' = PInt (n + 1)"
    unfolding d' by (rule dget_last [OF retry_changes_last(1)])
  then have count: "retry_count d' = Inr (n + 1)"
    using n by (auto simp: retry_count_def dget_def dget_or_def py_or_def split: option.splits)
  have status: "is_str d' ''status'' ''submission_pending''"
    unfolding d' is_str_def by (rule dget_last [OF retry_changes_status])
  have prev: "PStr (failed_build_id q) \<in> set (as_list (dget d' ''previous_build_ids''))"
    unfolding d' dget_last [OF retry_changes_last(2)] by simp
  have "\<not> is_str d' ''status'' ''failed''" using status by (simp add: is_str_def)
  then have "\<exists>e. stage_planner_retry cfg B now' i q' s' = (Inl e, s')"
    by (rule not_failed_not_staged [OF d'(2) count])
  then show ?thesis
    using d n d'(2) count status prev retry_eligible_ok(2,3) [OF d(2,3)] by blast
qed

definition demo_failed :: doc where
  "demo_failed =
    [(''provider'', PStr ''cloud_build''), (''operation'', PStr ''main_release''), (''status'', PStr ''failed''),
     (''release_engine_failed'', PBool True), (''engine_event_status'', PStr ''quality_passed''),
     (''evidence_committed'', PBool True), (''report_hash'', PStr ''h''), (''build_id'', PStr ''b1'')]"

definition demo_retry :: retry_request where
  "demo_retry = \<lparr>failed_build_id = ''b1'', planner_image = ''img@sha256:0'', planner_hash_value = '''',
     remediation = False, contract_retry = False, previous_planner_image = ''''\<rparr>"

lemma planner_retry_bounded_witness:
  "\<exists>e. stage_planner_retry demo_settings mem_backend ''t2'' ''e1'' demo_retry
     (snd (stage_planner_retry demo_settings mem_backend ''t1'' ''e1'' demo_retry [(''e1'', demo_failed)]))
   = (Inl e, snd (stage_planner_retry demo_settings mem_backend ''t1'' ''e1'' demo_retry [(''e1'', demo_failed)]))"
proof -
  have c: "retry_count demo_failed = Inr 0" "dget_or demo_failed ''planner_retry_image'' (PStr '''') = PStr ''''"
    by (simp_all add: retry_count_def demo_failed_def dget_or_def py_or_def)
  have pin: "pinned ''img@sha256:0''" by (simp add: pinned_def)
  have el: "retry_eligible demo_retry demo_failed = Inr ()"
    using c by (simp add: retry_eligible_def planner_retry_candidate_def Let_def demo_retry_def)
      (simp add: demo_failed_def flag_def is_str_def dget_def)
  have "\<exists>d' s'. stage_planner_retry demo_settings mem_backend ''t1'' ''e1'' demo_retry [(''e1'', demo_failed)] = (Inr d', s')"
    using c pin el
    by (simp add: stage_planner_retry_def rx_get_def mem_load_def retry_write_def transact_def first_error.simps
        demo_settings_def require_new_builds_def raise_if_def retry_first_checks_def retry_write_checks_def
        guarded_def Let_def)
      (simp add: demo_retry_def demo_failed_def flag_def dget_def)
  then obtain d' s' where r: "stage_planner_retry demo_settings mem_backend ''t1'' ''e1'' demo_retry [(''e1'', demo_failed)] = (Inr d', s')"
    by blast
  show ?thesis
    using planner_retry_bounded [OF memory.document_backend_axioms r, of "''t2''" demo_retry] by (auto simp: r)
qed

section \<open>Queries\<close>

lemma take_descending:
  assumes "sorted (rev (map f xs))" and "w \<in> set xs" and "w \<notin> set (take n xs)"
  shows "length (take n xs) = n \<and> (\<forall>v \<in> set (take n xs). f w \<le> f v)"
proof -
  have w: "w \<in> set (drop n xs)"
    using assms(2,3) by (metis append_take_drop_id Un_iff set_append)
  have "sorted (rev (map f (drop n xs)) @ rev (map f (take n xs)))"
    using assms(1) by (metis append_take_drop_id map_append rev_append)
  then have "\<forall>v \<in> set (take n xs). f w \<le> f v"
    using w by (auto simp: sorted_append)
  moreover have "n \<le> length xs"
    using w by (metis drop_all empty_iff empty_set linorder_le_cases)
  ultimately show ?thesis by simp
qed

lemma sorted_take_descending:
  "sorted (rev (map f xs)) \<Longrightarrow> sorted (rev (map f (take n xs)))"
  by (metis append_take_drop_id map_append rev_append sorted_append)

text \<open>
  The listing of a repository holds executions of that repository (under any of its names) and never
  the bootstrap ticket, newest first, at most as many as asked for; an execution it leaves out is no newer
  than any it lists, and is left out only when the listing is full.
\<close>

theorem listing_newest_first:
  assumes "list_for_repository repo limit s = vs"
  shows "int (length vs) \<le> max 0 limit \<and> sorted (rev (map (order_key ''created_at'') vs)) \<and>
    set vs \<subseteq> {v \<in> snd ` set s. in_strs (dget v ''repository'') (aliases repo) \<and> \<not> is_fence v} \<and>
    (\<forall>w \<in> snd ` set s. in_strs (dget w ''repository'') (aliases repo) \<and> \<not> is_fence w \<and> w \<notin> set vs \<longrightarrow>
      int (length vs) = max 0 limit \<and> (\<forall>v \<in> set vs. order_key ''created_at'' w \<le> order_key ''created_at'' v))"
proof (cases "limit \<le> 0")
  case True
  then show ?thesis using assms by (auto simp: list_for_repository_def)
next
  case False
  define all where "all = sort_descending (order_key ''created_at'')
      (filter (\<lambda>v. in_strs (dget v ''repository'') (aliases repo) \<and> \<not> is_fence v) (map snd s))"
  have vs: "vs = take (nat limit) all"
    using assms False by (simp add: list_for_repository_def all_def)
  have srt: "sorted (rev (map (order_key ''created_at'') all))"
    by (simp add: all_def sorted_sort_descending)
  have mem: "set all = {v \<in> snd ` set s. in_strs (dget v ''repository'') (aliases repo) \<and> \<not> is_fence v}"
    by (auto simp: all_def)
  have "int (length vs) \<le> max 0 limit" using False by (simp add: vs)
  moreover have "sorted (rev (map (order_key ''created_at'') vs))"
    unfolding vs by (rule sorted_take_descending [OF srt])
  moreover have "set vs \<subseteq> set all" unfolding vs by (rule set_take_subset)
  moreover have "int (length vs) = max 0 limit \<and> (\<forall>v \<in> set vs. order_key ''created_at'' w \<le> order_key ''created_at'' v)"
    if "w \<in> set all" "w \<notin> set vs" for w
    using take_descending [OF srt that(1) that(2) [unfolded vs]] False by (auto simp: vs)
  ultimately show ?thesis unfolding mem by blast
qed

definition demo_dated :: "string \<Rightarrow> doc" where
  "demo_dated t = [(''execution_id'', PStr t), (''repository'', PStr ''o/r''), (''created_at'', PStr t)]"

lemma listing_newest_first_witness:
  "int (length (list_for_repository ''o/r'' 1 [(''a'', demo_dated ''1''), (''b'', demo_dated ''2'')])) \<le> 1"
proof -
  have "int (length (list_for_repository ''o/r'' 1 [(''a'', demo_dated ''1''), (''b'', demo_dated ''2'')])) \<le> max 0 1"
    by (rule conjunct1 [OF listing_newest_first [OF refl]])
  then show ?thesis by simp
qed

text \<open>
  Looking up the execution of a commit returns nothing exactly when none is stored, and otherwise one
  that is at least as new as every other for that repository, commit and operation.
\<close>

theorem find_returns_newest:
  "case find_execution repo sha kind s of
     None \<Rightarrow> \<not> (\<exists>v \<in> snd ` set s. in_strs (dget v ''repository'') (aliases repo) \<and>
        is_str v ''head_sha'' (str_lower sha) \<and> is_str v ''operation'' kind \<and> \<not> is_fence v)
   | Some v \<Rightarrow> v \<in> snd ` set s \<and> in_strs (dget v ''repository'') (aliases repo) \<and>
        is_str v ''head_sha'' (str_lower sha) \<and> is_str v ''operation'' kind \<and> \<not> is_fence v \<and>
        list_all (\<lambda>w. order_key ''created_at'' w \<le> order_key ''created_at'' v)
          (filter (\<lambda>w. in_strs (dget w ''repository'') (aliases repo) \<and>
              is_str w ''head_sha'' (str_lower sha) \<and> is_str w ''operation'' kind \<and> \<not> is_fence w) (map snd s))"
proof (cases "find_execution repo sha kind s")
  case None
  then show ?thesis by (auto simp: find_execution_def filter_empty_conv)
next
  case (Some v)
  note max_by_mem [OF Some [unfolded find_execution_def]] max_by_ge [OF Some [unfolded find_execution_def]]
  then show ?thesis using Some by (auto simp: list_all_iff)
qed

text \<open>
  The reconciliation sweep, when it answers, visits in order of last update every execution that is
  not in a terminal status (a passed pull-request check and the bootstrap ticket aside) and exactly those
  failed executions a planner recovery may still serve.
\<close>

theorem due_sweep_complete:
  assumes "iter_due s = Inr vs"
  shows "sorted (map (order_key ''updated_at'') vs) \<and>
    (\<forall>v. v \<in> set vs \<longleftrightarrow>
      v \<in> snd ` set s \<and> \<not> is_fence v \<and>
      \<not> (is_str v ''operation'' ''pr_quality'' \<and> is_str v ''status'' ''quality_passed'') \<and>
      (\<not> in_strs (dget v ''status'') terminal_statuses \<or> planner_retry_candidate v True True = Inr True))"
proof -
  obtain us where us: "filter_result due (map snd s) = Inr us" and vs: "vs = sort_key (order_key ''updated_at'') us"
    using assms by (auto simp: iter_due_def map_result_Inr)
  have due: "due v = Inr True \<longleftrightarrow> \<not> is_fence v \<and>
      \<not> (is_str v ''operation'' ''pr_quality'' \<and> is_str v ''status'' ''quality_passed'') \<and>
      (\<not> in_strs (dget v ''status'') terminal_statuses \<or> planner_retry_candidate v True True = Inr True)" for v
    by (auto simp: due_def map_result_Inr)
  show ?thesis
    using filter_result_set [OF us] due by (auto simp: vs)
qed

lemma due_sweep_complete_witness:
  "\<exists>vs. iter_due [(''e1'', demo_release)] = Inr vs \<and> demo_release \<in> set vs"
proof -
  have "due demo_release = Inr True"
    by (simp add: due_def demo_release_def terminal_statuses_def is_fence_def is_str_def dget_def)
  then have "iter_due [(''e1'', demo_release)] = Inr [demo_release]"
    by (simp add: iter_due_def)
  then show ?thesis
    using due_sweep_complete [of "[(''e1'', demo_release)]" "[demo_release]"] by auto
qed

end
