(* ===== verification/PolicyProperties.thy ===== *)
theory PolicyProperties
  imports Policies
begin

text \<open>The properties of the stateless policies.\<close>

text \<open>
  Being the same repository is an equivalence, it holds between every pair of names of a renamed
  repository whatever their case, and a webhook for a known repository is accepted exactly when it carries
  that repository's numeric identity.
\<close>

theorem repository_identity_equivalence:
  "same_repository a a \<and> same_repository a b = same_repository b a \<and>
   (same_repository a b \<and> same_repository b c \<longrightarrow> same_repository a c) \<and>
   (repository_id a = Some i \<longrightarrow>
      (same_repository a b \<longleftrightarrow> repository_id b = Some i) \<and>
      (verify_webhook_identity a payload \<longleftrightarrow> payload = PInt i) \<and>
      list_all (\<lambda>n. same_repository a n) (aliases a))"
proof -
  have "same_repository a b \<longleftrightarrow> repository_id b = Some i" if "repository_id a = Some i"
    using that by (auto simp: same_repository_iff dest: repository_id_cong)
  moreover have "list_all (\<lambda>n. same_repository a n) (aliases a)" if i: "repository_id a = Some i"
  proof -
    obtain names where "map_of renames i = Some names" using renames_by_id [OF i] by blast
    then show ?thesis
      using i repository_id_alias by (auto simp: aliases_def list_all_iff same_repository_iff)
  qed
  moreover have "verify_webhook_identity a payload \<longleftrightarrow> payload = PInt i" if "repository_id a = Some i"
    using that by (simp add: verify_webhook_identity_def)
  moreover have "same_repository a b \<and> same_repository b c \<longrightarrow> same_repository a c"
    unfolding same_repository_iff using repository_id_cong [of a b] repository_id_cong [of b c] by metis
  moreover have "same_repository a a" "same_repository a b = same_repository b a"
    unfolding same_repository_iff by metis+
  ultimately show ?thesis by blast
qed

lemma repository_identity_equivalence_witness:
  "same_repository ''DiegoMad14/cgm-sanplat-api'' ''diegomad14/cgm-artemis-api''"
proof -
  have "repository_id ''DiegoMad14/cgm-sanplat-api'' = Some 1306114845"
    "repository_id ''diegomad14/cgm-artemis-api'' = Some 1306114845" by code_simp+
  moreover from this(1) have "same_repository ''DiegoMad14/cgm-sanplat-api'' b
      \<longleftrightarrow> repository_id b = Some 1306114845" for b
    using repository_identity_equivalence by blast
  ultimately show ?thesis by blast
qed

text \<open>
  A build request is accepted exactly when it asks for the default machine and disk, logs to Cloud
  Logging only, and gives a timeout in whole seconds between one and an hour; options built by
  \<open>economy_options\<close> are always accepted and keep what the caller added.
\<close>

theorem economy_builds_only:
  "(validate_submission request = Inr () \<longleftrightarrow>
     \<not> list_ex (has_key (as_dict (dget_or request ''options'' (PDict []))))
        [''machineType'', ''pool'', ''workerPool'', ''diskSizeGb''] \<and>
     is_str (as_dict (dget_or request ''options'' (PDict []))) ''logging'' ''CLOUD_LOGGING_ONLY'' \<and>
     (\<exists>digits. py_str (dget_or request ''timeout'' (PStr '''')) = digits @ ''s'' \<and> all_digits digits \<and>
        1 \<le> digits_int digits \<and> digits_int digits \<le> 3600)) \<and>
   (economy_options extra = Inr opts \<longrightarrow>
     validate_submission [(''options'', PDict opts), (''timeout'', PStr ''1800s'')] = Inr () \<and>
     opts = dict_update [(''logging'', PStr ''CLOUD_LOGGING_ONLY'')] extra)"
proof -
  let ?o = "as_dict (dget_or request ''options'' (PDict []))"
  let ?t = "py_str (dget_or request ''timeout'' (PStr ''''))"
  have shape: "(\<exists>digits. ?t = digits @ ''s'' \<and> all_digits digits \<and> 1 \<le> digits_int digits \<and> digits_int digits \<le> 3600)
    \<longleftrightarrow> ?t \<noteq> [] \<and> last ?t = CHR ''s'' \<and> all_digits (butlast ?t) \<and>
        0 < digits_int (butlast ?t) \<and> digits_int (butlast ?t) \<le> 3600"
    (is "?L \<longleftrightarrow> ?R")
  proof
    assume ?L
    then show ?R by (auto simp: less_le)
  next
    assume R: ?R
    then have "?t = butlast ?t @ ''s''" by (metis append_butlast_last_id)
    with R show ?L by (intro exI [of _ "butlast ?t"]) auto
  qed
  have "validate_submission request = Inr () \<longleftrightarrow>
     \<not> list_ex (has_key ?o) [''machineType'', ''pool'', ''workerPool'', ''diskSizeGb''] \<and>
     is_str ?o ''logging'' ''CLOUD_LOGGING_ONLY'' \<and> ?t \<noteq> [] \<and> last ?t = CHR ''s'' \<and> all_digits (butlast ?t) \<and>
        0 < digits_int (butlast ?t) \<and> digits_int (butlast ?t) \<le> 3600"
    by (simp add: validate_submission_def Let_def) blast
  moreover have "economy_options extra = Inr opts \<longrightarrow>
     validate_submission [(''options'', PDict opts), (''timeout'', PStr ''1800s'')] = Inr () \<and>
     opts = dict_update [(''logging'', PStr ''CLOUD_LOGGING_ONLY'')] extra"
    by (auto simp: economy_options_def Let_def split: sum.splits)
  ultimately show ?thesis using shape by blast
qed

lemma economy_builds_only_witness:
  "validate_submission [(''options'', PDict [(''logging'', PStr ''CLOUD_LOGGING_ONLY''), (''env'', PList [])]),
      (''timeout'', PStr ''1800s'')] = Inr ()"
proof -
  have "economy_options [(''env'', PList [])] = Inr [(''logging'', PStr ''CLOUD_LOGGING_ONLY''), (''env'', PList [])]"
    by code_simp
  then show ?thesis using economy_builds_only by blast
qed

text \<open>
  Provider selection rejects only unknown providers, honours a request first, then the catalogue entry
  of the service when it names a provider, and then the legacy policy; it is always locked, and a locked
  selection refuses every later request for a different provider.
\<close>

theorem provider_selection_precedence:
  "(select service requested kind legacy = Inl e \<longleftrightarrow>
     (\<exists>r. requested = Some r \<and> r \<notin> set providers) \<and> e = HTTPException 422 ''Unknown execution provider'') \<and>
   (select service requested kind legacy = Inr p \<longrightarrow>
     ps_locked p \<and>
     (case requested of Some r \<Rightarrow> ps_effective p = r \<and> r \<in> set providers
      | None \<Rightarrow>
         (case (if kind = ''release'' then release_executor service else deployment_executor service) of
            Some d \<Rightarrow> ps_effective p = (if d \<in> set providers then d else legacy)
          | None \<Rightarrow> ps_effective p = legacy)) \<and>
     (\<forall>r'. require_same (SelectionObject p) (Some r') any = Inr () \<longleftrightarrow> r' = [] \<or> r' = ps_effective p))"
  by (auto simp: select_def Let_def require_same_def chosen_def split: option.splits if_split_asm)

lemma provider_selection_precedence_witness:
  "\<exists>p. select \<lparr>release_executor = Some ''cloud_build'', deployment_executor = None\<rparr> None ''release'' ''github_actions'' = Inr p
     \<and> ps_effective p = ''cloud_build''"
proof -
  obtain p where p: "select \<lparr>release_executor = Some ''cloud_build'', deployment_executor = None\<rparr> None ''release'' ''github_actions'' = Inr p"
    by (auto simp: select_def Let_def)
  with provider_selection_precedence
    [of "\<lparr>release_executor = Some ''cloud_build'', deployment_executor = None\<rparr>" None "''release''" "''github_actions''"]
  show ?thesis by (auto simp: providers_def)
qed

end
