(* ===== verification/Deployments.thy ===== *)
theory Deployments
  imports Policies DocStore
begin

text \<open>
  \<open>services/deployment_executions.py\<close>: the private execution record of a deployment.  As in the release
  store, one definition serves the process-local branch and the Firestore transaction.
\<close>

section \<open>Reading and reserving\<close>

definition dx_get :: "'s backend \<Rightarrow> string \<Rightarrow> 's \<Rightarrow> doc option" where
  "dx_get B deployment_id s =
     (case load B s deployment_id of
        None \<Rightarrow> None
      | Some value \<Rightarrow> if volatile B \<and> value = [] then None else Some value)"

record deployment_intent =
  dx_provider :: string
  dx_fingerprint :: string
  dx_service_name :: string
  dx_repository :: string
  dx_sha :: string
  dx_tag :: string
  dx_kind :: string
  dx_reason :: string
  dx_authorization_jti :: string
  dx_selection :: pyval
  dx_config :: string

definition dx_record :: "string \<Rightarrow> string \<Rightarrow> deployment_intent \<Rightarrow> doc" where
  "dx_record now deployment_id r =
    [(''deployment_id'', PStr deployment_id),
     (''provider'', PStr (dx_provider r)),
     (''provider_selection'', dx_selection r),
     (''fingerprint'', PStr (dx_fingerprint r)),
     (''service_name'', PStr (dx_service_name r)),
     (''repository'', PStr (dx_repository r)),
     (''sha'', PStr (dx_sha r)),
     (''tag'', PStr (dx_tag r)),
     (''kind'', PStr (dx_kind r)),
     (''reason'', PStr (dx_reason r)),
     (''authorization_jti'', PStr (dx_authorization_jti r)),
     (''status'', PStr ''SUBMISSION_PENDING''),
     (''event_sequence'', PInt 0),
     (''updated_at'', PStr now)]
    @ (if dx_config r = [] then [] else [(''github_execution_config'', PStr (dx_config r))])"

text \<open>\<open>bind_context\<close>: the record with the engine configuration, when it must be written.\<close>

definition bind_context :: "string \<Rightarrow> doc \<Rightarrow> doc option result" where
  "bind_context config existing =
     (if config = [] then Inr None
      else guarded
        [raise_if (\<not> is_str existing ''provider'' ''github_actions'')
           (ValueError ''GitHub engine context cannot bind another provider''),
         raise_if (flag existing ''github_execution_config'' \<and>
                   \<not> is_str existing ''github_execution_config'' config)
           (ValueError ''Deployment engine configuration cannot change'')]
        (Inr (if flag existing ''github_execution_config'' then None
              else Some (dict_set ''github_execution_config'' (PStr config) existing))))"

text \<open>
  The process-local branch reads \<open>existing["fingerprint"]\<close>, a \<open>KeyError\<close> on a record without one; the
  Firestore branch reads it with \<open>get\<close>.
\<close>

definition dx_reserve :: "'s backend \<Rightarrow> string \<Rightarrow> string \<Rightarrow> deployment_intent \<Rightarrow> ('s, doc) op" where
  "dx_reserve B now deployment_id r s =
     (case dx_get B deployment_id s of
        None \<Rightarrow> let record = dx_record now deployment_id r
                in (Inr record, put B deployment_id record s)
      | Some existing \<Rightarrow>
          if volatile B \<and> \<not> has_key existing ''fingerprint'' then (Inl (KeyError ''fingerprint''), s)
          else if \<not> is_str existing ''fingerprint'' (dx_fingerprint r)
          then (Inl (ValueError ''Deployment execution identity cannot change''), s)
          else case bind_context (dx_config r) existing of
             Inl e \<Rightarrow> (Inl e, s)
           | Inr None \<Rightarrow> (Inr existing, s)
           | Inr (Some value) \<Rightarrow> (Inr value, put B deployment_id value s))"

section \<open>Transitions and claims\<close>

definition transition_provider ::
  "settings \<Rightarrow> 's backend \<Rightarrow> string \<Rightarrow> string \<Rightarrow> string \<Rightarrow> string \<Rightarrow> string \<Rightarrow> ('s, doc) op" where
  "transition_provider cfg B now deployment_id from_provider to_provider reason s =
     (let changes = [(''provider'', PStr to_provider), (''reason'', PStr reason),
                     (''status'', PStr ''SUBMISSION_PENDING''), (''updated_at'', PStr now)]
      in transact B deployment_id
           (\<lambda>snapshot. case snapshot of
              None \<Rightarrow> Inl (KeyError deployment_id)
            | Some current \<Rightarrow>
                guarded [raise_if (locked current) (ValueError ''Reserved deployment provider is immutable'')]
                  (if is_str current ''provider'' to_provider then Inr (current, None)
                   else guarded
                     [raise_if (\<not> is_str current ''provider'' from_provider)
                        (ValueError ''Deployment execution provider transition is invalid''),
                      (if to_provider = ''cloud_build'' then require_new_builds cfg else Inr ())]
                     (Inr (dict_update current changes, Some changes)))) s)"

definition dx_claimable :: "string list" where
  "dx_claimable = [''SUBMISSION_PENDING'', ''SUBMISSION_FAILED'']"

definition dx_claim_submission :: "'s backend \<Rightarrow> string \<Rightarrow> string \<Rightarrow> ('s, bool) op" where
  "dx_claim_submission B now deployment_id s =
     transact B deployment_id
       (\<lambda>snapshot. case snapshot of
          None \<Rightarrow> Inl (KeyError deployment_id)
        | Some current \<Rightarrow>
            if flag current ''build_id'' \<or> \<not> in_strs (dget current ''status'') dx_claimable
            then Inr (False, None)
            else Inr (True, Some [(''status'', PStr ''SUBMITTING''), (''updated_at'', PStr now)])) s"

definition validate_selection :: "doc \<Rightarrow> doc \<Rightarrow> unit result" where
  "validate_selection current changes =
     raise_if (locked current \<and> rewrites_any [''provider'', ''provider_selection''] current changes)
       (ValueError ''Reserved deployment provider is immutable'')"

definition dx_save :: "'s backend \<Rightarrow> string \<Rightarrow> string \<Rightarrow> doc \<Rightarrow> ('s, doc) op" where
  "dx_save B now deployment_id given s =
     (let changes = dict_set ''updated_at'' (PStr now) given
      in transact B deployment_id
           (\<lambda>snapshot. case snapshot of
              None \<Rightarrow> Inl (KeyError deployment_id)
            | Some current \<Rightarrow>
                guarded [validate_selection current changes]
                  (Inr (dict_update current changes, Some changes))) s)"

definition dx_accept_event :: "'s backend \<Rightarrow> string \<Rightarrow> string \<Rightarrow> int \<Rightarrow> doc \<Rightarrow> ('s, doc \<times> bool) op" where
  "dx_accept_event B now deployment_id sequence given s =
     (let changes = dict_set ''updated_at'' (PStr now)
                      (dict_set ''event_sequence'' (PInt sequence) given)
      in transact B deployment_id
           (\<lambda>snapshot. case snapshot of
              None \<Rightarrow> Inl (KeyError deployment_id)
            | Some current \<Rightarrow>
                (case py_int (dget_or current ''event_sequence'' (PInt 0)) of
                   Inl e \<Rightarrow> Inl e
                 | Inr seen \<Rightarrow>
                     if sequence \<le> seen then Inr ((current, False), None)
                     else Inr ((dict_update current changes, True), Some changes))) s)"

definition dispatch_eligible :: "doc \<Rightarrow> bool" where
  "dispatch_eligible record =
     (is_str record ''provider'' ''github_actions'' \<and>
      in_strs (dget record ''status'') [''SUBMISSION_PENDING'', ''GITHUB_REJECTED''])"

definition claim_github_dispatch :: "'s backend \<Rightarrow> string \<Rightarrow> ('s, bool) op" where
  "claim_github_dispatch B deployment_id s =
     transact B deployment_id
       (\<lambda>snapshot. case snapshot of
          None \<Rightarrow> Inr (False, None)
        | Some current \<Rightarrow>
            if \<not> dispatch_eligible current then Inr (False, None)
            else Inr (True, Some [(''status'', PStr ''GITHUB_DISPATCHING'')])) s"

section \<open>Histories\<close>

datatype dx_event =
    DxReserve string string deployment_intent
  | DxTransition string string string string string
  | DxClaim string string
  | DxSave string string doc
  | DxAccept string string int doc
  | DxDispatch string

fun dx_step :: "settings \<Rightarrow> 's backend \<Rightarrow> dx_event \<Rightarrow> 's \<Rightarrow> 's" where
  "dx_step cfg B (DxReserve now i r) s = snd (dx_reserve B now i r s)"
| "dx_step cfg B (DxTransition now i p q reason) s = snd (transition_provider cfg B now i p q reason s)"
| "dx_step cfg B (DxClaim now i) s = snd (dx_claim_submission B now i s)"
| "dx_step cfg B (DxSave now i given) s = snd (dx_save B now i given s)"
| "dx_step cfg B (DxAccept now i n given) s = snd (dx_accept_event B now i n given s)"
| "dx_step cfg B (DxDispatch i) s = snd (claim_github_dispatch B i s)"

text \<open>
  Callers pass keyword arguments without a provider selection, and engine events never carry a provider.
\<close>

fun dx_ok :: "dx_event \<Rightarrow> bool" where
  "dx_ok (DxSave now i given) = (distinct (map fst given) \<and> \<not> has_key given ''provider_selection'')"
| "dx_ok (DxAccept now i n given) =
     (distinct (map fst given) \<and> \<not> has_key given ''provider_selection'' \<and> \<not> has_key given ''provider'')"
| "dx_ok e = True"

text \<open>What a step may do to a stored record.\<close>

inductive dx_change :: "settings \<Rightarrow> 's backend \<Rightarrow> string \<Rightarrow> doc \<Rightarrow> doc \<Rightarrow> bool"
  for cfg :: settings and B :: "'s backend" and i :: string where
  restarted: "volatile B \<Longrightarrow> dx_change cfg B i [] (dx_record now i r)"
| bound:
    "is_str d ''provider'' ''github_actions'' \<Longrightarrow> \<not> flag d ''github_execution_config'' \<Longrightarrow> config \<noteq> [] \<Longrightarrow>
     dx_change cfg B i d (dict_set ''github_execution_config'' (PStr config) d)"
| moved:
    "\<not> locked d \<Longrightarrow> is_str d ''provider'' p \<Longrightarrow> (q = ''cloud_build'' \<Longrightarrow> require_new_builds cfg = Inr ()) \<Longrightarrow>
     dx_change cfg B i d (dict_update d [(''provider'', PStr q), (''reason'', PStr reason),
       (''status'', PStr ''SUBMISSION_PENDING''), (''updated_at'', PStr now)])"
| submitted:
    "\<not> flag d ''build_id'' \<Longrightarrow> in_strs (dget d ''status'') dx_claimable \<Longrightarrow>
     dx_change cfg B i d (dict_update d [(''status'', PStr ''SUBMITTING''), (''updated_at'', PStr now)])"
| saved:
    "distinct (map fst cs) \<Longrightarrow> \<not> has_key cs ''provider_selection'' \<Longrightarrow> validate_selection d cs = Inr () \<Longrightarrow>
     dx_change cfg B i d (dict_update d cs)"
| applied:
    "distinct (map fst cs) \<Longrightarrow> \<not> has_key cs ''provider_selection'' \<Longrightarrow> \<not> has_key cs ''provider'' \<Longrightarrow>
     py_int (dget_or d ''event_sequence'' (PInt 0)) = Inr seen \<Longrightarrow> dget cs ''event_sequence'' = PInt n \<Longrightarrow>
     has_key cs ''event_sequence'' \<Longrightarrow> seen < n \<Longrightarrow> dx_change cfg B i d (dict_update d cs)"
| dispatched:
    "dispatch_eligible d \<Longrightarrow> dx_change cfg B i d (dict_update d [(''status'', PStr ''GITHUB_DISPATCHING'')])"

context document_backend
begin

lemma dx_reserve_version:
  assumes d: "load B s j = Some d"
  shows "\<exists>d'. load B (snd (dx_reserve B now i r s)) j = Some d' \<and> (d' = d \<or> dx_change cfg B j d d')"
proof (cases "j = i")
  case False
  then show ?thesis
    using d by (auto simp: dx_reserve_def Let_def load_put split: option.splits sum.splits)
next
  case True
  show ?thesis
  proof (cases "volatile B \<and> d = []")
    case fresh: True
    then have "dx_get B i s = None" using d True by (simp add: dx_get_def)
    then show ?thesis
      using fresh True by (auto simp: dx_reserve_def Let_def load_put intro: dx_change.restarted)
  next
    case False
    then have g: "dx_get B i s = Some d" using d True by (auto simp: dx_get_def)
    show ?thesis
    proof (cases "\<exists>v. bind_context (dx_config r) d = Inr (Some v)")
      case True
      then obtain v where v: "bind_context (dx_config r) d = Inr (Some v)" by blast
      then have "dx_change cfg B i d v"
        by (auto simp: bind_context_def guarded_Inr split: if_split_asm intro: dx_change.bound)
      then show ?thesis using d \<open>j = i\<close> by (simp add: dx_reserve_def g v load_put)
    next
      case False
      then show ?thesis using d by (auto simp: dx_reserve_def g split: sum.splits option.splits)
    qed
  qed
qed

lemma dx_step_version:
  assumes "dx_ok e" and d: "load B s j = Some d"
  shows "\<exists>d'. load B (dx_step cfg B e s) j = Some d' \<and> (d' = d \<or> dx_change cfg B j d d')"
proof (cases e)
  case (DxReserve now i r)
  then show ?thesis using dx_reserve_version [OF d] by simp
next
  case (DxTransition now i p q reason)
  then show ?thesis
    unfolding DxTransition dx_step.simps transition_provider_def Let_def
    by (intro transact_change [OF _ _ d])
      (auto simp: guarded_Inr simp del: dict_update.simps split: if_split_asm intro!: dx_change.moved)
next
  case (DxClaim now i)
  show ?thesis
    unfolding DxClaim dx_step.simps dx_claim_submission_def
    by (intro transact_change [OF _ _ d]) (auto simp del: dict_update.simps split: if_split_asm intro!: dx_change.submitted)
next
  case (DxSave now i given)
  then show ?thesis
    using assms(1) unfolding DxSave dx_step.simps dx_save_def Let_def
    by (intro transact_change [OF _ _ d])
      (auto simp: guarded_Inr distinct_dict_set dict_simps intro!: dx_change.saved)
next
  case (DxAccept now i n given)
  then show ?thesis
    using assms(1) unfolding DxAccept dx_step.simps dx_accept_event_def Let_def
    by (intro transact_change [OF _ _ d])
      (auto simp: distinct_dict_set dict_simps split: sum.splits if_split_asm intro!: dx_change.applied)
next
  case (DxDispatch i)
  show ?thesis
    unfolding DxDispatch dx_step.simps claim_github_dispatch_def
    by (intro transact_change [OF _ _ d]) (auto simp del: dict_update.simps split: if_split_asm intro: dx_change.dispatched)
qed

end

end
