(* ===== verification/DeploymentProperties.thy ===== *)
theory DeploymentProperties
  imports Deployments
begin

text \<open>
  Contracts and properties of the deployment record store: its histories, its exclusive claims and its event
  inbox, on every store with the \<open>document_backend\<close> laws.
\<close>

section \<open>Histories\<close>

lemma deployments_versioned:
  "document_backend B \<Longrightarrow> versioned (load B) (dx_step cfg B) dx_ok (dx_change cfg B)"
  by unfold_locales (rule document_backend.dx_step_version)

interpretation deployments: versioned "load mem_backend" "dx_step cfg mem_backend" dx_ok "dx_change cfg mem_backend"
  for cfg :: settings
  by (rule deployments_versioned [OF memory.document_backend_axioms])

definition deployment_locked_kept :: "doc \<Rightarrow> doc \<Rightarrow> bool" where
  "deployment_locked_kept d e =
     (locked d \<longrightarrow>
      dget e ''provider_selection'' = dget d ''provider_selection'' \<and>
      (\<forall>p. is_str d ''provider'' p \<longrightarrow> is_str e ''provider'' p))"

lemma locked_empty: "\<not> locked []"
  by (simp add: locked_def dget_def py_or_def flag_def)

lemma provider_after: "distinct (map fst cs) \<Longrightarrow> (has_key cs ''provider'' \<Longrightarrow> is_str cs ''provider'' p) \<Longrightarrow>
    is_str d ''provider'' p \<Longrightarrow> is_str (dict_update d cs) ''provider'' p"
  by (simp add: is_str_def dget_update_distinct)

lemma dx_change_locked: "dx_change cfg B i d e \<Longrightarrow> deployment_locked_kept d e"
proof (induction rule: dx_change.induct)
  case (saved cs d)
  have "is_str cs ''provider'' p" if "locked d" "is_str d ''provider'' p" "has_key cs ''provider''" for p
    using saved(3) that by (auto simp: validate_selection_def rewrites_any_def py_ne_def is_str_def)
  then show ?case
    using saved(1,2) provider_after [OF saved(1)]
    by (auto simp: deployment_locked_kept_def has_key_iff dget_update_notin)
next
  case (applied cs d seen n)
  then show ?case
    by (auto simp: deployment_locked_kept_def has_key_iff dget_update_notin is_str_def)
qed (auto simp: deployment_locked_kept_def locked_empty dict_simps)

lemma deployment_locked_refl: "deployment_locked_kept d d"
  by (simp add: deployment_locked_kept_def)

lemma deployment_locked_trans:
  "deployment_locked_kept d e \<Longrightarrow> deployment_locked_kept e f \<Longrightarrow> deployment_locked_kept d f"
  unfolding deployment_locked_kept_def using locked_cong by metis

text \<open>
  A deployment whose provider selection is locked keeps that selection and its provider through every
  history in which callers store no selection and engine events carry no provider.
\<close>

theorem deployment_provider_locked:
  assumes "document_backend B" and "history (dx_step cfg B) dx_ok s t"
    and "load B s i = Some d" and "locked d" and "is_str d ''provider'' p"
  shows "\<exists>d'. load B t i = Some d' \<and> locked d' \<and> is_str d' ''provider'' p \<and>
    dget d' ''provider_selection'' = dget d ''provider_selection''"
proof -
  obtain d' where d': "load B t i = Some d'" "deployment_locked_kept d d'"
    using versioned.history_keeps [OF deployments_versioned [OF assms(1)] assms(2,3),
        of deployment_locked_kept]
    by (blast intro: deployment_locked_refl deployment_locked_trans dx_change_locked)
  then have "dget d' ''provider_selection'' = dget d ''provider_selection''" "is_str d' ''provider'' p"
    using assms(4,5) by (simp_all add: deployment_locked_kept_def)
  then show ?thesis using d'(1) assms(4) locked_cong by blast
qed

definition demo_deployment :: doc where
  "demo_deployment =
    [(''fingerprint'', PStr ''f''), (''provider'', PStr ''github_actions''),
     (''provider_selection'', PDict [(''locked'', PBool True)]), (''status'', PStr ''SUBMISSION_PENDING''),
     (''event_sequence'', PInt 0)]"

lemma deployment_provider_locked_witness:
  "\<exists>d'. load mem_backend (fold (dx_step \<lparr>mock_mode = True, cloud_build_enabled = True, new_builds_enabled = True\<rparr> mem_backend)
       [DxTransition ''t1'' ''d1'' ''github_actions'' ''cloud_build'' ''quota'',
        DxSave ''t2'' ''d1'' [(''provider'', PStr ''cloud_build'')], DxDispatch ''d1'']
       [(''d1'', demo_deployment)]) ''d1'' = Some d' \<and> locked d' \<and> is_str d' ''provider'' ''github_actions''"
proof -
  let ?step = "dx_step \<lparr>mock_mode = True, cloud_build_enabled = True, new_builds_enabled = True\<rparr> mem_backend"
  let ?es = "[DxTransition ''t1'' ''d1'' ''github_actions'' ''cloud_build'' ''quota'',
        DxSave ''t2'' ''d1'' [(''provider'', PStr ''cloud_build'')], DxDispatch ''d1'']"
  have h: "history ?step dx_ok [(''d1'', demo_deployment)] (fold ?step ?es [(''d1'', demo_deployment)])"
    by (rule history_fold [OF history.start]) (simp add: has_key_def)
  have "locked demo_deployment" "is_str demo_deployment ''provider'' ''github_actions''"
    by (simp_all add: locked_def demo_deployment_def dget_def py_or_def flag_def is_str_def)
  then show ?thesis
    using deployment_provider_locked [OF memory.document_backend_axioms h, of "''d1''" demo_deployment]
    by (auto simp: mem_load_def)
qed

section \<open>Exclusive execution\<close>

text \<open>The two kinds of workers that may start a reserved deployment.\<close>

datatype worker = BuildSubmitter string | WorkflowDispatcher

fun start_claim :: "'s backend \<Rightarrow> string \<Rightarrow> worker \<Rightarrow> ('s, bool) op" where
  "start_claim B i (BuildSubmitter now) = dx_claim_submission B now i"
| "start_claim B i WorkflowDispatcher = claim_github_dispatch B i"

definition started :: "'s backend \<Rightarrow> string \<Rightarrow> 's \<Rightarrow> bool" where
  "started B i s =
     (\<exists>d. load B s i = Some d \<and> in_strs (dget d ''status'') [''SUBMITTING'', ''GITHUB_DISPATCHING''])"

lemma deployment_single_winner:
  assumes "document_backend B"
  shows "single_winner (start_claim B i) (started B i)"
proof
  fix c s
  assume w: "fst (start_claim B i c s) = Inr True"
  then obtain d where d: "load B s i = Some d"
    by (cases c; cases "load B s i") (auto simp: dx_claim_submission_def claim_github_dispatch_def transact_def)
  show "started B i (snd (start_claim B i c s))"
    using w d
    by (cases c) (auto simp: dx_claim_submission_def claim_github_dispatch_def transact_def started_def
        document_backend.load_patch_same [OF assms d] dict_simps split: if_split_asm)
next
  fix c s
  assume "started B i s"
  then obtain d where d: "load B s i = Some d" "in_strs (dget d ''status'') [''SUBMITTING'', ''GITHUB_DISPATCHING'']"
    by (auto simp: started_def)
  then have "start_claim B i c s = (Inr False, s)"
    by (cases c) (auto simp: dx_claim_submission_def claim_github_dispatch_def transact_def dx_claimable_def
        dispatch_eligible_def elim!: in_strsE)
  then show "fst (start_claim B i c s) \<noteq> Inr True \<and> started B i (snd (start_claim B i c s))"
    using \<open>started B i s\<close> by simp
qed

interpretation deployment_start: single_winner "start_claim mem_backend i" "started mem_backend i"
  for i :: string
  by (rule deployment_single_winner [OF memory.document_backend_axioms])



section \<open>Engine events\<close>

record dx_delivery =
  dx_sequence :: int
  dx_payload :: doc
  dx_at :: string

definition dx_deliver :: "'s backend \<Rightarrow> string \<Rightarrow> dx_delivery \<Rightarrow> ('s, doc \<times> bool) op" where
  "dx_deliver B i v = dx_accept_event B (dx_at v) i (dx_sequence v) (dx_payload v)"

definition dx_seen :: "'s backend \<Rightarrow> string \<Rightarrow> 's \<Rightarrow> int result" where
  "dx_seen B i s =
     (case load B s i of
        None \<Rightarrow> Inl (KeyError i)
      | Some d \<Rightarrow> py_int (dget_or d ''event_sequence'' (PInt 0)))"

lemma deployment_sequenced:
  assumes "document_backend B"
  shows "sequenced (dx_deliver B i) dx_sequence (dx_seen B i) (\<lambda>v. distinct (map fst (dx_payload v)))"
proof
  fix s n and v :: dx_delivery
  assume seen: "dx_seen B i s = Inr n" and kw: "distinct (map fst (dx_payload v))"
  define cs where "cs = dict_set ''updated_at'' (PStr (dx_at v))
      (dict_set ''event_sequence'' (PInt (dx_sequence v)) (dx_payload v))"
  obtain d where d: "load B s i = Some d" "py_int (dget_or d ''event_sequence'' (PInt 0)) = Inr n"
    using seen by (auto simp: dx_seen_def split: option.splits)
  have run: "dx_deliver B i v s =
      (if dx_sequence v \<le> n then (Inr (d, False), s) else (Inr (dict_update d cs, True), patch B i cs s))"
    using d by (simp add: dx_deliver_def dx_accept_event_def transact_def cs_def Let_def)
  have "distinct (map fst cs)" using kw by (simp add: cs_def distinct_dict_set)
  then have "dx_seen B i (patch B i cs s) = Inr (dx_sequence v)"
    by (simp add: dx_seen_def document_backend.load_patch_same [OF assms d(1)] dget_or_update_distinct
        cs_def dict_simps)
  then show "\<not> accepted (fst (dx_deliver B i v s)) \<and> snd (dx_deliver B i v s) = s \<or>
      accepted (fst (dx_deliver B i v s)) \<and> n < dx_sequence v \<and>
      dx_seen B i (snd (dx_deliver B i v s)) = Inr (dx_sequence v)"
    by (simp add: run)
qed

interpretation deployment_events: sequenced "dx_deliver mem_backend i" dx_sequence "dx_seen mem_backend i"
    "\<lambda>v. distinct (map fst (dx_payload v))"
  for i :: string
  by (rule deployment_sequenced [OF memory.document_backend_axioms])

text \<open>
  Deployment events are applied in strictly increasing order whatever arrives, and the stored number is
  the last one applied.
\<close>

theorem deployment_events_monotone:
  assumes "document_backend B" and "dx_seen B i s = Inr n"
    and "\<forall>v \<in> set vs. distinct (map fst (dx_payload v))"
    and "run_ops (map (dx_deliver B i) vs) s = (rs, s')"
  shows "sorted_wrt (<) (n # applied dx_sequence rs vs) \<and> dx_seen B i s' = Inr (last (n # applied dx_sequence rs vs))"
  using sequenced.deliveries_monotone [OF deployment_sequenced [OF assms(1)] assms(2,3)]
  by (simp add: assms(4))

lemma deployment_events_monotone_witness:
  "sorted_wrt (<) (0 # applied dx_sequence
     (fst (run_ops (map (dx_deliver mem_backend ''d1'')
        (map (\<lambda>n. \<lparr>dx_sequence = n, dx_payload = [], dx_at = ''t''\<rparr>) [2, 1, 2, 3])) [(''d1'', demo_deployment)]))
     (map (\<lambda>n. \<lparr>dx_sequence = n, dx_payload = [], dx_at = ''t''\<rparr>) [2, 1, 2, 3]))"
proof -
  have "dx_seen mem_backend ''d1'' [(''d1'', demo_deployment)] = Inr 0"
    by (simp add: dx_seen_def mem_load_def demo_deployment_def dget_or_def)
  moreover have "\<forall>v \<in> set (map (\<lambda>n. \<lparr>dx_sequence = n, dx_payload = [], dx_at = ''t''\<rparr>) [2, 1, 2, 3]).
      distinct (map fst (dx_payload v))" by simp
  ultimately show ?thesis
    using deployment_events_monotone [OF memory.document_backend_axioms] by (metis surjective_pairing)
qed

section \<open>Reservation\<close>

text \<open>
  Reserving a deployment that exists never changes its identity: another fingerprint is refused, the same
  one returns the record, and the engine configuration is written at most once, only for GitHub Actions.
\<close>

theorem deployment_reservation:
  assumes "document_backend B" and "dx_get B i s = Some d" and "is_str d ''fingerprint'' f"
  shows "dx_reserve B now i r s =
    (if dx_fingerprint r \<noteq> f then (Inl (ValueError ''Deployment execution identity cannot change''), s)
     else if dx_config r = [] then (Inr d, s)
     else if \<not> is_str d ''provider'' ''github_actions''
     then (Inl (ValueError ''GitHub engine context cannot bind another provider''), s)
     else if is_str d ''github_execution_config'' (dx_config r) then (Inr d, s)
     else if flag d ''github_execution_config''
     then (Inl (ValueError ''Deployment engine configuration cannot change''), s)
     else (Inr (dict_set ''github_execution_config'' (PStr (dx_config r)) d),
           put B i (dict_set ''github_execution_config'' (PStr (dx_config r)) d) s)) \<and>
    (\<forall>d' now'. fst (dx_reserve B now i r s) = Inr d' \<longrightarrow>
       dx_reserve B now' i r (snd (dx_reserve B now i r s)) = (Inr d', snd (dx_reserve B now i r s)))"
proof -
  have key: "has_key d ''fingerprint''"
    using assms(3) by (cases "map_of d ''fingerprint''") (auto simp: is_str_def dget_def has_key_def)
  have fp: "is_str d ''fingerprint'' g \<longleftrightarrow> g = f" for g using assms(3) by (auto simp: is_str_def)
  have one: "dx_reserve B now i r s' =
    (if dx_fingerprint r \<noteq> f then (Inl (ValueError ''Deployment execution identity cannot change''), s')
     else if dx_config r = [] then (Inr e, s')
     else if \<not> is_str e ''provider'' ''github_actions''
     then (Inl (ValueError ''GitHub engine context cannot bind another provider''), s')
     else if is_str e ''github_execution_config'' (dx_config r) then (Inr e, s')
     else if flag e ''github_execution_config''
     then (Inl (ValueError ''Deployment engine configuration cannot change''), s')
     else (Inr (dict_set ''github_execution_config'' (PStr (dx_config r)) e),
           put B i (dict_set ''github_execution_config'' (PStr (dx_config r)) e) s'))"
    if "dx_get B i s' = Some e" "has_key e ''fingerprint''" "\<And>g. is_str e ''fingerprint'' g \<longleftrightarrow> g = f"
    for s' e now
    using that
    by (auto simp: dx_reserve_def bind_context_def guarded_def first_error.simps raise_if_def is_str_def flag_def)
  let ?e = "dict_set ''github_execution_config'' (PStr (dx_config r)) d"
  have get: "dx_get B i (put B i ?e s) = Some ?e"
    using document_backend.load_put [OF assms(1)] by (simp add: dx_get_def)
  have two: "dx_reserve B now' i r (put B i ?e s) = (Inr ?e, put B i ?e s)"
    if "dx_fingerprint r = f" "dx_config r \<noteq> []" "is_str d ''provider'' ''github_actions''" for now'
    using one [OF get, of now'] key fp that by (simp add: dict_simps)
  show ?thesis
    using one [OF assms(2) key fp] two by auto
qed

lemma deployment_reservation_witness:
  "fst (dx_reserve mem_backend ''t'' ''d1''
      \<lparr>dx_provider = ''github_actions'', dx_fingerprint = ''g'', dx_service_name = '''', dx_repository = '''',
       dx_sha = '''', dx_tag = '''', dx_kind = '''', dx_reason = '''', dx_authorization_jti = '''',
       dx_selection = PNone, dx_config = ''''\<rparr> [(''d1'', demo_deployment)])
   = Inl (ValueError ''Deployment execution identity cannot change'')"
proof -
  have "dx_get mem_backend ''d1'' [(''d1'', demo_deployment)] = Some demo_deployment"
    by (simp add: dx_get_def mem_load_def demo_deployment_def)
  moreover have "is_str demo_deployment ''fingerprint'' ''f''" by (simp add: demo_deployment_def is_str_def dget_def)
  ultimately show ?thesis
    using deployment_reservation [OF memory.document_backend_axioms] by simp
qed

end
