(* ===== verification/Circuits.thy ===== *)
theory Circuits
  imports Codec Policies DocStore
begin

text \<open>
  \<open>services/executor_circuits.py\<close>: the persistent circuit breaker of GitHub Actions billing, one document
  per billing account.  Clock readings and random tokens are arguments.  The propagation lease
  (\<open>mode_propagation_due\<close> and its two callers) keeps float deadlines and is left out.
\<close>

section \<open>Reading\<close>

definition circuit_id :: "string \<Rightarrow> string" where
  "circuit_id owner = sha256_hex (str_lower (strip owner))"

definition circuit_get :: "'s backend \<Rightarrow> string \<Rightarrow> 's \<Rightarrow> doc" where
  "circuit_get B owner s =
     (case load B s (circuit_id owner) of
        Some d \<Rightarrow> d
      | None \<Rightarrow> [(''owner'', PStr owner), (''state'', PStr ''closed''), (''updated_at'', PStr '''')])"

definition is_open :: "'s backend \<Rightarrow> string \<Rightarrow> 's \<Rightarrow> bool" where
  "is_open B owner s = is_str (circuit_get B owner s) ''state'' ''open''"

definition require_billing_rejection :: "doc \<Rightarrow> unit result" where
  "require_billing_rejection circuit =
     raise_if (is_str circuit ''state'' ''open'' \<and> \<not> is_str circuit ''reason'' ''github_actions_billing_rejection'')
       (CircuitRecoveryRequired ''GitHub Actions circuit lacks a verified billing rejection; explicit verified health recovery is required before automatic execution can resume'')"

section \<open>Opening\<close>

definition opened_value :: "string \<Rightarrow> string \<Rightarrow> string \<Rightarrow> string \<Rightarrow> string \<Rightarrow> string \<Rightarrow> doc" where
  "opened_value now owner reason repo run_id evidence =
    [(''owner'', PStr owner),
     (''state'', PStr ''open''),
     (''reason'', PStr (take 256 reason)),
     (''repository'', PStr repo),
     (''run_id'', PStr run_id),
     (''evidence'', PStr (take 1000 evidence)),
     (''opened_at'', PStr now),
     (''updated_at'', PStr now)]"

definition open_circuit ::
  "'s backend \<Rightarrow> string \<Rightarrow> string \<Rightarrow> string \<Rightarrow> string \<Rightarrow> string \<Rightarrow> string \<Rightarrow> ('s, doc \<times> bool) op" where
  "open_circuit B now owner reason repo run_id evidence s =
     (let i = circuit_id owner;
          value = opened_value now owner reason repo run_id evidence
      in case load B s i of
           Some current \<Rightarrow>
             if is_str current ''state'' ''open'' then (Inr (current, False), s)
             else
               let opened = value @ [(''probe_requests'', dget_or current ''probe_requests'' (PDict []))]
               in (Inr (opened, True), put B i opened s)
         | None \<Rightarrow>
             let opened = (if volatile B then value @ [(''probe_requests'', PDict [])] else value)
             in (Inr (opened, True), put B i opened s))"

section \<open>What clients see\<close>

definition public_probe_keys :: "string list" where
  "public_probe_keys =
    [''repository'', ''workflow'', ''status'', ''dispatch_status'', ''requested_at'', ''completed_at'',
     ''run_id'', ''conclusion'', ''jobs_started'']"

definition probe_of :: "doc \<Rightarrow> doc" where
  "probe_of circuit = as_dict (dget_or circuit ''probe'' (PDict []))"

definition public_probe :: "doc \<Rightarrow> doc" where
  "public_probe probe =
     concat (map (\<lambda>k. case map_of probe k of None \<Rightarrow> [] | Some v \<Rightarrow> [(k, v)]) public_probe_keys)"

definition public_probe_status :: "doc \<Rightarrow> doc" where
  "public_probe_status circuit =
     [(''accepted'', PBool True), (''state'', dget circuit ''state'')] @ public_probe (probe_of circuit)"

text \<open>
  The durable request history, with the public outcome of the current probe recorded under its request.
\<close>

definition requests_of :: "doc \<Rightarrow> doc" where
  "requests_of circuit = as_dict (dget_or circuit ''probe_requests'' (PDict []))"

definition probe_history :: "doc \<Rightarrow> doc" where
  "probe_history current =
     (let history = requests_of current;
          request = dget (probe_of current) ''request_key''
      in case request of
           PStr key \<Rightarrow>
             if key \<noteq> [] \<and> has_key history key then
               let result = public_probe_status current;
                   outcome = PDict
                     [(''state'', dget result ''state''),
                      (''probe'', PDict (filter (\<lambda>kv. fst kv \<noteq> ''accepted'') (dict_pop ''state'' result)))]
               in dict_set key (PDict (dict_set ''circuit'' outcome (as_dict (dget history key)))) history
             else history
         | _ \<Rightarrow> history)"

section \<open>Reserving a probe\<close>

definition probe_request_limit :: nat where
  "probe_request_limit = 128"

record probe_request =
  pr_repository :: string
  pr_workflow :: string
  pr_requested_by :: string
  pr_reason :: string
  pr_idempotency_key :: string

definition request_key :: "probe_request \<Rightarrow> string" where
  "request_key r = sha256_hex (pr_idempotency_key r)"

definition request_fingerprint :: "probe_request \<Rightarrow> string" where
  "request_fingerprint r =
     sha256_hex (json_dumps True False
       (PList [PStr (pr_repository r), PStr (pr_workflow r), PStr (str_lower (pr_requested_by r)), PStr (pr_reason r)]))"

definition new_probe :: "string \<Rightarrow> string \<Rightarrow> probe_request \<Rightarrow> doc" where
  "new_probe requested_at nonce r =
    [(''status'', PStr ''requested''),
     (''dispatch_status'', PStr ''reserved''),
     (''nonce'', PStr nonce),
     (''repository'', PStr (pr_repository r)),
     (''workflow'', PStr (pr_workflow r)),
     (''requested_by'', PStr (pr_requested_by r)),
     (''requested_at'', PStr requested_at),
     (''request_key'', PStr (request_key r))]"

text \<open>
  The decision on the circuit: a known request is answered from the history, otherwise the changes that
  reserve the probe are written.
\<close>

definition probe_changes :: "string \<Rightarrow> doc \<Rightarrow> probe_request \<Rightarrow> doc \<Rightarrow> doc" where
  "probe_changes now probe r current =
     (let history = dict_set (request_key r) (PDict [(''fingerprint'', PStr (request_fingerprint r))])
                      (requests_of current);
          pending = dict_set ''probe_requests'' (PDict history)
                      (dict_set ''updated_at'' (PStr now) (dict_set ''probe'' (PDict probe) current))
      in [(''probe'', PDict probe), (''updated_at'', PStr now),
          (''probe_requests'', PDict (probe_history pending))])"

definition probe_decision ::
  "string \<Rightarrow> doc \<Rightarrow> probe_request \<Rightarrow> doc option \<Rightarrow> ((doc \<times> bool) \<times> doc option) result" where
  "probe_decision now probe r snapshot =
     (let current = (case snapshot of None \<Rightarrow> [] | Some d \<Rightarrow> d);
          history = requests_of current
      in case map_of history (request_key r) of
           Some previous \<Rightarrow>
             guarded
               [raise_if (\<not> is_str (as_dict previous) ''fingerprint'' (request_fingerprint r))
                  (ProbeRequestConflict ''idempotency_key is already bound to another request''),
                raise_if (\<not> has_key (as_dict previous) ''circuit'') (KeyError ''circuit'')]
               (Inr ((as_dict (dget (as_dict previous) ''circuit''), False), None))
         | None \<Rightarrow>
             guarded
               [raise_if (\<not> is_str current ''state'' ''open'')
                  (ProbeRequestConflict ''GitHub Actions circuit is not open''),
                raise_if (is_str (probe_of current) ''status'' ''requested'')
                  (ProbeRequestConflict ''A health probe is already pending; verify its outcome first''),
                raise_if (probe_request_limit \<le> length history)
                  (ProbeRequestConflict ''Health probe request history is full; operator review is required'')]
               (Inr ((dict_update current (probe_changes now probe r current), True),
                     Some (probe_changes now probe r current))))"

definition probe_request_checks :: "settings \<Rightarrow> 's backend \<Rightarrow> probe_request \<Rightarrow> unit result" where
  "probe_request_checks cfg B r =
     first_error
       [raise_if (strip (pr_reason r) = [] \<or> 500 < length (pr_reason r))
          (ProbeRequestConflict ''reason must contain 1 to 500 characters''),
        raise_if (strip (pr_idempotency_key r) = [] \<or> 128 < length (pr_idempotency_key r))
          (ProbeRequestConflict ''idempotency_key must contain 1 to 128 characters''),
        raise_if (volatile B \<and> \<not> mock_mode cfg)
          (RuntimeError ''Persistent circuit storage is required for health probes'')]"

definition reserve_probe ::
  "settings \<Rightarrow> 's backend \<Rightarrow> string \<Rightarrow> string \<Rightarrow> string \<Rightarrow> string \<Rightarrow> probe_request \<Rightarrow> ('s, doc \<times> bool) op" where
  "reserve_probe cfg B requested_at now nonce owner r s =
     (case probe_request_checks cfg B r of
        Inl e \<Rightarrow> (Inl e, s)
      | Inr _ \<Rightarrow>
          transact B (circuit_id owner) (probe_decision now (new_probe requested_at nonce r) r) s)"

definition request_probe ::
  "settings \<Rightarrow> 's backend \<Rightarrow> string \<Rightarrow> string \<Rightarrow> string \<Rightarrow> string \<Rightarrow> string \<Rightarrow> string \<Rightarrow> string \<Rightarrow> string \<Rightarrow> ('s, doc) op" where
  "request_probe cfg B requested_at now nonce random_key owner repo workflow requested_by s =
     map_op fst
       (reserve_probe cfg B requested_at now nonce owner
          \<lparr>pr_repository = repo, pr_workflow = workflow, pr_requested_by = requested_by,
           pr_reason = ''Explicit health probe'', pr_idempotency_key = random_key\<rparr>) s"

section \<open>Outcome of a probe\<close>

definition dispatch_statuses :: "string list" where
  "dispatch_statuses = [''dispatched'', ''uncertain'', ''not_dispatched'']"

definition dispatched_probe :: "string \<Rightarrow> doc \<Rightarrow> doc" where
  "dispatched_probe dispatch_status probe =
     (let marked = dict_set ''dispatch_status'' (PStr dispatch_status) probe
      in if dispatch_status = ''not_dispatched'' \<and> is_str probe ''status'' ''requested''
         then dict_set ''status'' (PStr ''cancelled'') marked else marked)"

definition finish_probe_dispatch ::
  "'s backend \<Rightarrow> string \<Rightarrow> string \<Rightarrow> string \<Rightarrow> string \<Rightarrow> ('s, doc) op" where
  "finish_probe_dispatch B now owner nonce dispatch_status s =
     (if dispatch_status \<notin> set dispatch_statuses
      then (Inl (ValueError ''Invalid health probe dispatch status''), s)
      else transact B (circuit_id owner)
        (\<lambda>snapshot.
           let current = (case snapshot of None \<Rightarrow> [] | Some d \<Rightarrow> d);
               probe = probe_of current;
               base = [(''probe'', PDict (dispatched_probe dispatch_status probe)), (''updated_at'', PStr now)];
               changes = base @ [(''probe_requests'', PDict (probe_history (dict_update current base)))]
           in guarded [raise_if (\<not> is_str probe ''nonce'' nonce) (ValueError ''Health probe reservation changed'')]
                (Inr (dict_update current changes, Some changes))) s)"

definition requested_probe :: "string \<Rightarrow> string \<Rightarrow> doc \<Rightarrow> bool" where
  "requested_probe repo workflow circuit =
     (is_str circuit ''state'' ''open'' \<and>
      is_str (probe_of circuit) ''status'' ''requested'' \<and>
      is_str (probe_of circuit) ''repository'' repo \<and>
      is_str (probe_of circuit) ''workflow'' workflow)"

definition verified_probe :: "doc \<Rightarrow> string \<Rightarrow> string \<Rightarrow> string \<Rightarrow> string \<Rightarrow> int \<Rightarrow> string \<Rightarrow> doc" where
  "verified_probe requested repo workflow run_id conclusion jobs_started now =
     dict_update requested
       [(''status'', PStr ''verified''), (''repository'', PStr repo), (''workflow'', PStr workflow),
        (''run_id'', PStr run_id), (''conclusion'', PStr conclusion),
        (''jobs_started'', PInt jobs_started), (''completed_at'', PStr now)]"

text \<open>
  The transaction of \<open>record_probe\<close>, for a probe \<open>requested\<close> that an earlier read found pending.
\<close>

definition record_write ::
  "'s backend \<Rightarrow> string \<Rightarrow> string \<Rightarrow> doc \<Rightarrow> string \<Rightarrow> string \<Rightarrow> string \<Rightarrow> string \<Rightarrow> int \<Rightarrow> ('s, doc) op" where
  "record_write B now owner requested repo workflow run_id conclusion jobs_started s =
     transact B (circuit_id owner)
       (\<lambda>snapshot. case snapshot of
          None \<Rightarrow> Inl (ValueError (if volatile B then ''GitHub Actions circuit is not open''
                                   else ''GitHub Actions circuit does not exist''))
        | Some current \<Rightarrow>
            let expected = probe_of current;
                probe = dict_set ''dispatch_status'' (dget_or expected ''dispatch_status'' (PStr ''reserved''))
                          (verified_probe requested repo workflow run_id conclusion jobs_started now);
                base = [(''probe'', PDict probe), (''updated_at'', PStr now)];
                changes = base @ [(''probe_requests'', PDict (probe_history (dict_update current base)))]
            in guarded
                 [raise_if (volatile B \<and> \<not> is_str current ''state'' ''open'')
                    (ValueError ''GitHub Actions circuit is not open''),
                  raise_if (\<not> requested_probe repo workflow current \<or>
                            py_ne (dget expected ''nonce'') (dget requested ''nonce''))
                    (ValueError ''Health probe does not match a requested open-circuit probe'')]
                 (Inr (dict_update current changes, Some changes))) s"

definition record_probe ::
  "'s backend \<Rightarrow> string \<Rightarrow> string \<Rightarrow> string \<Rightarrow> string \<Rightarrow> string \<Rightarrow> string \<Rightarrow> int \<Rightarrow> string option \<Rightarrow> ('s, doc) op" where
  "record_probe B now owner repo workflow run_id conclusion jobs_started nonce s =
     (let circuit = circuit_get B owner s;
          requested = probe_of circuit
      in if \<not> requested_probe repo workflow circuit
            \<or> (case nonce of None \<Rightarrow> False | Some n \<Rightarrow> \<not> is_str requested ''nonce'' n)
         then (Inl (ValueError ''Health probe does not match a requested open-circuit probe''), s)
         else record_write B now owner requested repo workflow run_id conclusion jobs_started s)"

section \<open>Closing\<close>

definition closed_fields :: "string \<Rightarrow> doc" where
  "closed_fields now =
    [(''state'', PStr ''closed''), (''closed_at'', PStr now), (''updated_at'', PStr now),
     (''close_reason'', PStr ''successful_health_probe'')]"

definition close_checks :: "string \<Rightarrow> doc \<Rightarrow> unit result" where
  "close_checks run_id current =
     (let probe = probe_of current;
          refused = ValueError ''A successful started health probe is required''
      in if \<not> is_str current ''state'' ''open''
            \<or> \<not> is_str probe ''status'' ''verified''
            \<or> py_str (dget probe ''run_id'') \<noteq> run_id
            \<or> \<not> is_str probe ''conclusion'' ''success''
         then Inl refused
         else case py_int (dget_or probe ''jobs_started'' (PInt 0)) of
                Inl e \<Rightarrow> Inl e
              | Inr n \<Rightarrow> raise_if (n < 1) refused)"

definition close_after_successful_probe :: "'s backend \<Rightarrow> string \<Rightarrow> string \<Rightarrow> string \<Rightarrow> ('s, doc) op" where
  "close_after_successful_probe B now owner run_id s =
     transact B (circuit_id owner)
       (\<lambda>snapshot. case snapshot of
          None \<Rightarrow> Inl (ValueError ''GitHub Actions circuit does not exist'')
        | Some current \<Rightarrow>
            let closed = dict_update current (closed_fields now);
                changes = closed_fields now @ [(''probe_requests'', PDict (probe_history closed))]
            in guarded [close_checks run_id current]
                 (Inr (dict_update current changes, Some changes))) s"

section \<open>Usage alerts\<close>

definition alert_marker :: "string \<Rightarrow> int \<Rightarrow> string" where
  "alert_marker month threshold = month @ '':'' @ int_text threshold"

definition alerts_of :: "doc \<Rightarrow> doc" where
  "alerts_of circuit = as_dict (py_or (dget circuit ''cloud_build_usage_alerts'') (PDict []))"

definition alert_entry :: "string \<Rightarrow> int \<Rightarrow> pyval \<Rightarrow> pyval" where
  "alert_entry now threshold observed =
     PDict [(''threshold'', PInt threshold), (''observed_minutes'', observed), (''emitted_at'', PStr now)]"

text \<open>
  The process-local branch creates a missing document before it looks for the marker; the Firestore branch
  writes the owner and the state along with the alerts.
\<close>

definition claim_usage_alert ::
  "'s backend \<Rightarrow> string \<Rightarrow> string \<Rightarrow> string \<Rightarrow> int \<Rightarrow> pyval \<Rightarrow> ('s, bool) op" where
  "claim_usage_alert B now owner month threshold observed s =
     (let i = circuit_id owner;
          marker = alert_marker month threshold;
          entry = alert_entry now threshold observed
      in if volatile B then
           let fresh = [(''owner'', PStr owner), (''state'', PStr ''closed''), (''updated_at'', PStr now)];
               current = (case load B s i of None \<Rightarrow> fresh | Some d \<Rightarrow> d);
               s1 = (case load B s i of None \<Rightarrow> put B i fresh s | Some d \<Rightarrow> s)
           in if has_key (alerts_of current) marker then (Inr False, s1)
              else (Inr True,
                    patch B i [(''cloud_build_usage_alerts'', PDict (dict_set marker entry (alerts_of current))),
                               (''updated_at'', PStr now)] s1)
         else
           let current = (case load B s i of
                            None \<Rightarrow> [(''owner'', PStr owner), (''state'', PStr ''closed'')] | Some d \<Rightarrow> d);
               changes = [(''owner'', PStr owner), (''state'', dget_or current ''state'' (PStr ''closed'')),
                          (''cloud_build_usage_alerts'', PDict (dict_set marker entry (alerts_of current))),
                          (''updated_at'', PStr now)]
           in if has_key (alerts_of current) marker then (Inr False, s)
              else case load B s i of
                     None \<Rightarrow> (Inr True, put B i changes s)
                   | Some d \<Rightarrow> (Inr True, patch B i changes s))"

end
