(* ===== verification/CircuitProperties.thy ===== *)
theory CircuitProperties
  imports Circuits
begin

text \<open>
  Histories of the circuit breaker and what they keep: requests stay bound, the request history stays
  bounded, and only a verified successful probe closes a circuit.
\<close>

section \<open>Steps\<close>

datatype cb_event =
    CbOpen string string string string string string
  | CbReserve string string string string probe_request
  | CbFinish string string string string
  | CbRecord string string doc string string string string int
  | CbClose string string string
  | CbAlert string string string int pyval

fun cb_step :: "settings \<Rightarrow> 's backend \<Rightarrow> cb_event \<Rightarrow> 's \<Rightarrow> 's" where
  "cb_step cfg B (CbOpen now owner reason repo run evidence) s =
     snd (open_circuit B now owner reason repo run evidence s)"
| "cb_step cfg B (CbReserve at now nonce owner r) s = snd (reserve_probe cfg B at now nonce owner r s)"
| "cb_step cfg B (CbFinish now owner nonce st) s = snd (finish_probe_dispatch B now owner nonce st s)"
| "cb_step cfg B (CbRecord now owner requested repo workflow run conclusion jobs) s =
     snd (record_write B now owner requested repo workflow run conclusion jobs s)"
| "cb_step cfg B (CbClose now owner run) s = snd (close_after_successful_probe B now owner run s)"
| "cb_step cfg B (CbAlert now owner month threshold observed) s =
     snd (claim_usage_alert B now owner month threshold observed s)"

text \<open>What a step may do to the document of an account.\<close>

inductive cb_change :: "string \<Rightarrow> cb_event \<Rightarrow> doc \<Rightarrow> doc \<Rightarrow> bool" for i :: string where
  opened:
    "\<not> is_str d ''state'' ''open'' \<Longrightarrow>
     cb_change i e d (opened_value now owner reason repo run evidence @
       [(''probe_requests'', dget_or d ''probe_requests'' (PDict []))])"
| reserved:
    "is_str d ''state'' ''open'' \<Longrightarrow> \<not> is_str (probe_of d) ''status'' ''requested'' \<Longrightarrow>
     \<not> has_key (requests_of d) (request_key r) \<Longrightarrow> length (requests_of d) < probe_request_limit \<Longrightarrow>
     cb_change i e d (dict_update d (probe_changes now probe r d))"
| reported:
    "(\<And>n. is_str (probe_of d) ''nonce'' n \<Longrightarrow> is_str probe ''nonce'' n) \<Longrightarrow>
     cb_change i e d (dict_update d [(''probe'', PDict probe), (''updated_at'', PStr now),
       (''probe_requests'', PDict (probe_history
           (dict_update d [(''probe'', PDict probe), (''updated_at'', PStr now)])))])"
| closed:
    "i = circuit_id owner \<Longrightarrow> close_checks run d = Inr () \<Longrightarrow>
     cb_change i (CbClose now owner run) d (dict_update d (closed_fields now @
       [(''probe_requests'', PDict (probe_history (dict_update d (closed_fields now))))]))"
| alerted:
    "list_all (\<lambda>kv. fst kv \<in> {''owner'', ''cloud_build_usage_alerts'', ''updated_at''} \<or>
        kv = (''state'', dget_or d ''state'' (PStr ''closed''))) cs \<Longrightarrow>
     cb_change i e d (dict_update d cs)"

lemma probe_decision_writes:
  assumes "probe_decision now probe r snapshot = Inr ((x, b), Some cs)"
  shows "\<exists>d. snapshot = Some d \<and> is_str d ''state'' ''open'' \<and> \<not> is_str (probe_of d) ''status'' ''requested'' \<and>
    \<not> has_key (requests_of d) (request_key r) \<and> length (requests_of d) < probe_request_limit \<and>
    cs = probe_changes now probe r d \<and> x = dict_update d cs \<and> b"
proof (cases snapshot)
  case None
  then show ?thesis
    using assms by (simp add: probe_decision_def Let_def guarded_Inr requests_of_def is_str_def dget_def dget_or_def)
next
  case (Some d)
  then show ?thesis
    using assms
    by (auto simp: probe_decision_def Let_def guarded_Inr has_key_def simp del: dict_update.simps split: option.splits)
qed

context document_backend
begin

lemma cb_open_version:
  assumes "load B s j = Some d"
  shows "\<exists>d'. load B (snd (open_circuit B now owner reason repo run evidence s)) j = Some d' \<and>
    (d' = d \<or> cb_change j e d d')"
  using assms
  by (auto simp: open_circuit_def Let_def load_put split: option.splits intro: cb_change.opened)

lemma cb_alert_version:
  assumes "load B s j = Some d"
  shows "\<exists>d'. load B (snd (claim_usage_alert B now owner month threshold observed s)) j = Some d' \<and>
    (d' = d \<or> cb_change j e d d')"
proof (cases "load B s (circuit_id owner)")
  case None
  then show ?thesis
    using assms by (auto simp: claim_usage_alert_def Let_def load_put load_patch)
next
  case (Some e)
  then show ?thesis
    using assms
    by (auto simp: claim_usage_alert_def Let_def load_patch simp del: dict_update.simps intro!: cb_change.alerted)
qed

lemma cb_step_version:
  assumes d: "load B s j = Some d"
  shows "\<exists>d'. load B (cb_step cfg B e s) j = Some d' \<and> (d' = d \<or> cb_change j e d d')"
proof (cases e)
  case (CbOpen now owner reason repo run evidence)
  then show ?thesis using cb_open_version [OF d] by simp
next
  case (CbReserve at now nonce owner r)
  show ?thesis
    unfolding CbReserve cb_step.simps reserve_probe_def
    by (cases "probe_request_checks cfg B r")
      (use d in \<open>auto intro!: transact_change [OF _ _ d] dest!: probe_decision_writes
        intro: cb_change.reserved simp del: dict_update.simps\<close>)
next
  case (CbFinish now owner nonce st)
  have k: "is_str (dispatched_probe st (probe_of c)) ''nonce'' n" if "is_str (probe_of c) ''nonce'' n" for c n
    using that by (simp add: dispatched_probe_def Let_def dict_simps)
  show ?thesis
    unfolding CbFinish cb_step.simps finish_probe_dispatch_def Let_def
    using d k
    by (auto intro!: transact_change [OF _ _ d] cb_change.reported
        simp: guarded_Inr probe_of_def is_str_def dget_def dget_or_def simp del: dict_update.simps)
next
  case (CbRecord now owner requested repo workflow run conclusion jobs)
  have k: "is_str (dict_set ''dispatch_status'' v (verified_probe requested repo workflow run conclusion jobs now)) ''nonce'' n"
    if "py_eq (dget (probe_of c) ''nonce'') (dget requested ''nonce'')" "is_str (probe_of c) ''nonce'' n" for c n v
    using that by (simp add: verified_probe_def dict_simps) (simp add: is_str_def)
  show ?thesis
    unfolding CbRecord cb_step.simps record_write_def Let_def
    by (intro transact_change [OF _ _ d])
      (auto simp: guarded_Inr py_ne_def k simp del: dict_update.simps intro!: cb_change.reported)
next
  case (CbClose now owner run)
  show ?thesis
    unfolding CbClose cb_step.simps close_after_successful_probe_def Let_def
    by (intro transact_change [OF _ _ d])
      (auto simp: guarded_Inr simp del: dict_update.simps intro: cb_change.closed)
next
  case (CbAlert now owner month threshold observed)
  then show ?thesis using cb_alert_version [OF d] by simp
qed

end

lemma circuits_versioned:
  "document_backend B \<Longrightarrow> versioned (load B) (cb_step cfg B) (\<lambda>_. True) (\<lambda>i d d'. \<exists>e. cb_change i e d d')"
  unfolding versioned_def
proof (intro allI impI)
  fix e s i d
  assume "document_backend B" "load B s i = Some d"
  from document_backend.cb_step_version [OF this, of cfg e]
  show "\<exists>d'. load B (cb_step cfg B e s) i = Some d' \<and> (d' = d \<or> (\<exists>e. cb_change i e d d'))"
    by blast
qed

interpretation circuits: versioned "load mem_backend" "cb_step cfg mem_backend" "\<lambda>_. True" "\<lambda>i d d'. \<exists>e. cb_change i e d d'"
  for cfg :: settings
  by (rule circuits_versioned [OF memory.document_backend_axioms])

section \<open>The request history\<close>

text \<open>The request under a key is bound to a fingerprint.\<close>

definition request_bound :: "doc \<Rightarrow> string \<Rightarrow> string \<Rightarrow> bool" where
  "request_bound d k f = (\<exists>v. map_of (requests_of d) k = Some v \<and> is_str (as_dict v) ''fingerprint'' f)"

lemma probe_history_bound:
  assumes "map_of (requests_of d) k = Some v" and "is_str (as_dict v) ''fingerprint'' f"
  shows "\<exists>w. map_of (probe_history d) k = Some w \<and> is_str (as_dict w) ''fingerprint'' f"
  using assms
  by (cases "dget (probe_of d) ''request_key''")
    (auto simp: probe_history_def Let_def dict_simps dget_def)

lemma length_dict_set_old: "has_key d k \<Longrightarrow> length (dict_set k v d) = length d"
  by (induction d) (auto simp: has_key_def split: if_splits)

lemma length_dict_set: "length (dict_set k v d) \<le> Suc (length d)"
  by (induction d) auto

lemma length_probe_history: "length (probe_history d) = length (requests_of d)"
  by (cases "dget (probe_of d) ''request_key''")
    (auto simp: probe_history_def Let_def length_dict_set_old)

lemma requests_of_set [dict_simps]:
  "requests_of (dict_set k v d) = (if k = ''probe_requests'' then as_dict v else requests_of d)"
  by (simp add: requests_of_def dict_simps)

lemma requests_of_update_notin:
  "\<not> has_key cs ''probe_requests'' \<Longrightarrow> requests_of (dict_update d cs) = requests_of d"
  by (simp add: requests_of_def dget_or_def map_of_dict_update_notin has_key_iff)

lemma requests_of_opened:
  "requests_of (opened_value now owner reason repo run evidence @ [(''probe_requests'', v)]) = as_dict v"
  by (simp add: requests_of_def opened_value_def dget_or_def)

lemma requests_after_reservation:
  "requests_of (dict_update d (probe_changes now probe r d)) =
     probe_history (dict_set ''probe_requests''
       (PDict (dict_set (request_key r) (PDict [(''fingerprint'', PStr (request_fingerprint r))]) (requests_of d)))
       (dict_set ''updated_at'' (PStr now) (dict_set ''probe'' (PDict probe) d)))"
  by (simp add: probe_changes_def Let_def dict_simps)

lemma bound_through:
  assumes "requests_of p = requests_of d" and "requests_of e = probe_history p"
  shows "(request_bound d k f \<longrightarrow> request_bound e k f) \<and>
    (length (requests_of d) \<le> probe_request_limit \<longrightarrow> length (requests_of e) \<le> probe_request_limit)"
  using probe_history_bound [of p k _ f] by (auto simp: request_bound_def assms length_probe_history)

text \<open>Every change keeps the bound requests, and no history grows beyond the limit.\<close>

lemma cb_change_requests:
  assumes "cb_change i ev d e"
  shows "(request_bound d k f \<longrightarrow> request_bound e k f) \<and>
    (length (requests_of d) \<le> probe_request_limit \<longrightarrow> length (requests_of e) \<le> probe_request_limit)"
  using assms
proof (induction rule: cb_change.induct)
  case (opened d e now owner reason repo run evidence)
  then show ?case
    unfolding request_bound_def requests_of_opened by (simp add: requests_of_def)
next
  case (reserved d r e now probe)
  define h where "h = dict_set (request_key r) (PDict [(''fingerprint'', PStr (request_fingerprint r))]) (requests_of d)"
  let ?p = "dict_set ''probe_requests'' (PDict h) (dict_set ''updated_at'' (PStr now) (dict_set ''probe'' (PDict probe) d))"
  have e: "requests_of (dict_update d (probe_changes now probe r d)) = probe_history ?p"
    by (simp add: requests_after_reservation h_def)
  have p: "requests_of ?p = h" by (simp add: dict_simps)
  have "k \<noteq> request_key r" if "request_bound d k f"
    using reserved(3) that by (auto simp: request_bound_def has_key_def)
  then have "request_bound d k f \<longrightarrow> request_bound ?p k f"
    by (auto simp: request_bound_def p h_def dict_simps)
  then have "request_bound d k f \<longrightarrow> request_bound (dict_update d (probe_changes now probe r d)) k f"
    using probe_history_bound unfolding request_bound_def e by blast
  moreover have "length (probe_history ?p) \<le> probe_request_limit"
    using length_dict_set [of "request_key r" "PDict [(''fingerprint'', PStr (request_fingerprint r))]" "requests_of d"]
      reserved(4) by (simp add: length_probe_history p) (simp add: h_def)
  ultimately show ?case by (simp add: e)
next
  case (reported d probe e now)
  let ?p = "dict_update d [(''probe'', PDict probe), (''updated_at'', PStr now)]"
  have "requests_of ?p = requests_of d" by (simp add: dict_simps)
  moreover have "requests_of (dict_update d [(''probe'', PDict probe), (''updated_at'', PStr now),
       (''probe_requests'', PDict (probe_history ?p))]) = probe_history ?p"
    by (simp add: dict_simps)
  ultimately show ?case by (rule bound_through)
next
  case (closed owner run d now)
  let ?p = "dict_update d (closed_fields now)"
  have "requests_of ?p = requests_of d" by (simp add: closed_fields_def dict_simps)
  moreover have "requests_of (dict_update d (closed_fields now @ [(''probe_requests'', PDict (probe_history ?p))]))
      = probe_history ?p"
    by (simp add: closed_fields_def dict_simps)
  ultimately show ?case by (rule bound_through)
next
  case (alerted d cs)
  then have "\<not> has_key cs ''probe_requests''" by (auto simp: has_key_iff list_all_iff)
  then show ?case by (simp add: request_bound_def requests_of_update_notin)
qed

text \<open>
  A health probe is never dispatched twice for one idempotency key.  Once a reservation for a key has
  succeeded, every later reservation with that key, after any history of the circuit (callbacks, closing and
  reopening included), creates nothing and changes nothing.
\<close>

theorem probe_request_never_replayed:
  assumes "document_backend B"
    and "reserve_probe cfg B at now nonce owner r s = (Inr (d, True), s1)"
    and "history (cb_step cfg B) (\<lambda>_. True) s1 t"
    and "pr_idempotency_key r' = pr_idempotency_key r"
  shows "fst (reserve_probe cfg B at' now' nonce' owner r' t) \<noteq> Inr (d', True) \<and>
    snd (reserve_probe cfg B at' now' nonce' owner r' t) = t"
proof -
  let ?i = "circuit_id owner"
  have "transact B ?i (probe_decision now (new_probe at nonce r) r) s = (Inr (d, True), s1)"
    using assms(2) by (auto simp: reserve_probe_def split: sum.splits)
  then obtain cs c where c: "load B s ?i = Some c" "s1 = patch B ?i cs s"
      "cs = probe_changes now (new_probe at nonce r) r c"
    by (cases rule: document_backend.transact_ok [OF assms(1)])
      (auto dest: probe_decision_writes simp: probe_decision_def Let_def guarded_Inr split: option.splits)
  have l: "load B s1 ?i = Some (dict_update c cs)"
    unfolding c(2) by (rule document_backend.load_patch_same [OF assms(1) c(1)])
  have "request_bound (dict_update c cs) (request_key r) (request_fingerprint r)"
    unfolding request_bound_def c(3) requests_after_reservation
    by (rule probe_history_bound [where v = "PDict [(''fingerprint'', PStr (request_fingerprint r))]"])
      (simp_all add: dict_simps is_str_def dget_def)
  then obtain e where e: "load B t ?i = Some e" "request_bound e (request_key r) (request_fingerprint r)"
    using versioned.history_keeps [OF circuits_versioned [OF assms(1)] assms(3) l,
        of "\<lambda>d e. \<forall>k f. request_bound d k f \<longrightarrow> request_bound e k f"] cb_change_requests
    by blast
  then obtain v where v: "map_of (requests_of e) (request_key r') = Some v"
    using assms(4) by (auto simp: request_bound_def request_key_def)
  have "\<exists>x. probe_decision now' (new_probe at' nonce' r') r' (Some e) = x \<and>
      (\<forall>y cs. x \<noteq> Inr (y, Some cs)) \<and> (\<forall>y u. x \<noteq> Inr ((y, True), u))"
    using v by (auto simp: probe_decision_def guarded_Inr)
  then show ?thesis
    using e(1)
    by (auto simp: reserve_probe_def transact_def split: sum.splits prod.splits option.splits)
qed

definition demo_circuit_settings :: settings where
  "demo_circuit_settings = \<lparr>mock_mode = True, cloud_build_enabled = True, new_builds_enabled = True\<rparr>"

definition demo_open :: doc where
  "demo_open = [(''state'', PStr ''open''), (''reason'', PStr ''github_actions_billing_rejection'')]"

definition demo_request :: probe_request where
  "demo_request = \<lparr>pr_repository = ''o/r'', pr_workflow = ''w'', pr_requested_by = ''u'',
     pr_reason = ''check'', pr_idempotency_key = ''k''\<rparr>"

lemma demo_reserved:
  "\<exists>d s1. reserve_probe demo_circuit_settings mem_backend ''t'' ''t'' ''n'' ''acme'' demo_request
      [(circuit_id ''acme'', demo_open)] = (Inr (d, True), s1)"
proof -
  have "strip ''check'' \<noteq> []" "strip ''k'' \<noteq> []" by code_simp+
  then have "probe_request_checks demo_circuit_settings mem_backend demo_request = Inr ()"
    by (simp add: probe_request_checks_def demo_request_def demo_circuit_settings_def)
  moreover have "requests_of demo_open = []" "probe_of demo_open = []" "is_str demo_open ''state'' ''open''"
    by (simp_all add: requests_of_def probe_of_def demo_open_def dget_or_def is_str_def dget_def)
  ultimately show ?thesis
    by (simp add: reserve_probe_def transact_def mem_load_def probe_decision_def Let_def guarded_def
        first_error.simps raise_if_def probe_request_limit_def is_str_def dget_def)
qed

lemma probe_request_never_replayed_witness:
  "\<exists>s1. fst (reserve_probe demo_circuit_settings mem_backend ''t2'' ''t2'' ''m'' ''acme'' demo_request
      (cb_step demo_circuit_settings mem_backend (CbClose ''t1'' ''acme'' ''7'') s1)) \<noteq> Inr (demo_open, True)"
proof -
  obtain d s1 where r: "reserve_probe demo_circuit_settings mem_backend ''t'' ''t'' ''n'' ''acme'' demo_request
      [(circuit_id ''acme'', demo_open)] = (Inr (d, True), s1)" using demo_reserved by blast
  have "history (cb_step demo_circuit_settings mem_backend) (\<lambda>_. True) s1
      (cb_step demo_circuit_settings mem_backend (CbClose ''t1'' ''acme'' ''7'') s1)"
    by (rule history.event [OF history.start]) simp
  then show ?thesis
    using probe_request_never_replayed [OF memory.document_backend_axioms r _ refl] by blast
qed

text \<open>
  The request history of a circuit never exceeds its limit of 128 entries, in any history.
\<close>

theorem probe_history_bounded:
  assumes "document_backend B" and "history (cb_step cfg B) (\<lambda>_. True) s t"
    and "load B s i = Some d" and "length (requests_of d) \<le> 128"
  shows "\<exists>e. load B t i = Some e \<and> length (requests_of e) \<le> 128"
  using versioned.history_keeps [OF circuits_versioned [OF assms(1)] assms(2,3),
      of "\<lambda>d e. length (requests_of d) \<le> 128 \<longrightarrow> length (requests_of e) \<le> 128"]
    cb_change_requests assms(4) unfolding probe_request_limit_def by blast

lemma probe_history_bounded_witness:
  "\<exists>e. load mem_backend (fold (cb_step demo_circuit_settings mem_backend)
      [CbReserve ''t'' ''t'' ''n'' ''acme'' demo_request] [(circuit_id ''acme'', demo_open)]) (circuit_id ''acme'') = Some e
    \<and> length (requests_of e) \<le> 128"
proof (rule probe_history_bounded [OF memory.document_backend_axioms])
  show "history (cb_step demo_circuit_settings mem_backend) (\<lambda>_. True) [(circuit_id ''acme'', demo_open)]
      (fold (cb_step demo_circuit_settings mem_backend)
        [CbReserve ''t'' ''t'' ''n'' ''acme'' demo_request] [(circuit_id ''acme'', demo_open)])"
    by (rule history_fold [OF history.start]) simp
  show "load mem_backend [(circuit_id ''acme'', demo_open)] (circuit_id ''acme'') = Some demo_open"
    by (simp add: mem_load_def)
  show "length (requests_of demo_open) \<le> 128" by (simp add: requests_of_def demo_open_def dget_or_def)
qed

section \<open>Closing\<close>

lemma kept_state:
  "\<forall>kv \<in> set cs. fst kv = k \<longrightarrow> snd kv = PStr v \<Longrightarrow> is_str d k v \<Longrightarrow> is_str (dict_update d cs) k v"
  by (induction d cs rule: dict_update.induct) (auto simp: dict_simps)

text \<open>
  Time never closes a circuit, and neither does anything else but a verified probe: when a step leaves an
  open circuit not open, it is the closing operation for that account, and the probe recorded on the circuit
  was verified, belongs to the given run, concluded in success and started at least one job.
\<close>

theorem only_verified_probe_closes:
  assumes "document_backend B" and "load B s i = Some d" and "is_str d ''state'' ''open''"
    and "load B (cb_step cfg B e s) i = Some d'" and "\<not> is_str d' ''state'' ''open''"
  shows "\<exists>now owner run n. e = CbClose now owner run \<and> i = circuit_id owner \<and>
    is_str (probe_of d) ''status'' ''verified'' \<and> is_str (probe_of d) ''conclusion'' ''success'' \<and>
    py_str (dget (probe_of d) ''run_id'') = run \<and>
    py_int (dget_or (probe_of d) ''jobs_started'' (PInt 0)) = Inr n \<and> 1 \<le> n"
proof -
  have changed: "d' \<noteq> d" using assms(3,5) by blast
  have "cb_change i e d d'"
    using document_backend.cb_step_version [OF assms(1,2), of cfg e] assms(4) changed by auto
  then show ?thesis
  proof cases
    case (alerted cs)
    have "dget_or d ''state'' (PStr ''closed'') = PStr ''open''"
      using assms(3) by (auto simp: is_str_def dget_def dget_or_def split: option.splits)
    then have "\<forall>kv \<in> set cs. fst kv = ''state'' \<longrightarrow> snd kv = PStr ''open''"
      using alerted(2) by (auto simp: list_all_iff)
    then show ?thesis
      using kept_state [OF _ assms(3)] alerted(1) assms(5) by blast
  next
    case (closed owner run now)
    then show ?thesis
      by (auto simp: close_checks_def Let_def split: if_split_asm sum.split_asm)
  qed (use assms(3,5) in \<open>auto simp: probe_changes_def Let_def dict_simps opened_value_def is_str_def dget_def\<close>)
qed

definition demo_verified :: doc where
  "demo_verified =
    [(''state'', PStr ''open''),
     (''probe'', PDict [(''status'', PStr ''verified''), (''conclusion'', PStr ''success''),
        (''run_id'', PStr ''7''), (''jobs_started'', PInt 1), (''nonce'', PStr ''n'')])]"

lemma demo_close:
  "close_after_successful_probe mem_backend ''t'' ''acme'' ''7'' [(circuit_id ''acme'', demo_verified)] =
     (Inr (dict_update demo_verified (closed_fields ''t'' @ [(''probe_requests'', PDict [])])),
      [(circuit_id ''acme'', dict_update demo_verified (closed_fields ''t'' @ [(''probe_requests'', PDict [])]))])"
proof -
  have "close_checks ''7'' demo_verified = Inr ()"
    by (simp add: close_checks_def probe_of_def demo_verified_def is_str_def dget_def dget_or_def)
  moreover have "probe_history (dict_update demo_verified (closed_fields ''t'')) = []"
    by (simp add: probe_history_def Let_def probe_of_def requests_of_def closed_fields_def dict_simps)
      (simp add: demo_verified_def dget_def dget_or_def)
  ultimately show ?thesis
    by (simp add: close_after_successful_probe_def transact_def mem_load_def mem_patch_def Let_def guarded_def
        first_error.simps del: dict_update.simps)
qed

lemma only_verified_probe_closes_witness:
  "\<exists>n. py_int (dget_or (probe_of demo_verified) ''jobs_started'' (PInt 0)) = Inr n \<and> 1 \<le> n"
proof -
  let ?e = "dict_update demo_verified (closed_fields ''t'' @ [(''probe_requests'', PDict [])])"
  have "load mem_backend (cb_step demo_circuit_settings mem_backend (CbClose ''t'' ''acme'' ''7'')
      [(circuit_id ''acme'', demo_verified)]) (circuit_id ''acme'') = Some ?e"
    by (simp add: demo_close mem_load_def del: dict_update.simps)
  moreover have "\<not> is_str ?e ''state'' ''open''" by (simp add: closed_fields_def dict_simps)
  moreover have "load mem_backend [(circuit_id ''acme'', demo_verified)] (circuit_id ''acme'') = Some demo_verified"
    by (simp add: mem_load_def)
  moreover have "is_str demo_verified ''state'' ''open''" by (simp add: demo_verified_def is_str_def dget_def)
  ultimately show ?thesis
    using only_verified_probe_closes [OF memory.document_backend_axioms] by blast
qed

section \<open>Pending probes\<close>

lemma probe_of_set [dict_simps]: "probe_of (dict_set k v d) = (if k = ''probe'' then as_dict v else probe_of d)"
  by (simp add: probe_of_def dict_simps)

lemma probe_of_update_notin: "\<not> has_key cs ''probe'' \<Longrightarrow> probe_of (dict_update d cs) = probe_of d"
  by (simp add: probe_of_def dget_or_def map_of_dict_update_notin has_key_iff)

text \<open>
  A pending probe is never overwritten: while a circuit is open and its probe awaits an outcome, every
  step leaves the circuit with the same probe (the one with the same nonce).
\<close>

theorem pending_probe_kept:
  assumes "document_backend B" and "load B s i = Some d" and "is_str d ''state'' ''open''"
    and "is_str (probe_of d) ''status'' ''requested''" and "is_str (probe_of d) ''nonce'' n"
  shows "\<exists>d'. load B (cb_step cfg B e s) i = Some d' \<and> is_str (probe_of d') ''nonce'' n"
proof -
  obtain d' where d': "load B (cb_step cfg B e s) i = Some d'" "d' = d \<or> cb_change i e d d'"
    using document_backend.cb_step_version [OF assms(1,2)] by blast
  from d'(2) have "is_str (probe_of d') ''nonce'' n"
  proof
    assume "cb_change i e d d'"
    then show ?thesis
    proof cases
      case (closed owner run now)
      then show ?thesis using assms(5) by (simp add: closed_fields_def dict_simps)
    next
      case (alerted cs)
      then have "\<not> has_key cs ''probe''" by (auto simp: has_key_iff list_all_iff)
      then show ?thesis using alerted(1) assms(5) by (simp add: probe_of_update_notin)
    qed (use assms(3-5) in \<open>auto simp: dict_simps\<close>)
  qed (use assms(5) in simp)
  then show ?thesis using d'(1) by blast
qed

definition demo_pending :: doc where
  "demo_pending =
    [(''state'', PStr ''open''),
     (''probe'', PDict [(''status'', PStr ''requested''), (''nonce'', PStr ''n'')])]"

lemma pending_probe_kept_witness:
  "\<exists>d'. load mem_backend (cb_step demo_circuit_settings mem_backend
      (CbReserve ''t'' ''t'' ''m'' ''acme'' demo_request) [(circuit_id ''acme'', demo_pending)]) (circuit_id ''acme'') = Some d'
    \<and> is_str (probe_of d') ''nonce'' ''n''"
  by (rule pending_probe_kept [OF memory.document_backend_axioms, where d = demo_pending])
    (simp_all add: mem_load_def demo_pending_def probe_of_def is_str_def dget_def dget_or_def)

section \<open>Privacy\<close>

text \<open>
  The public status of a circuit shows the state and the nine listed fields of its probe and nothing else:
  no nonce, no request hash, no requester and none of the billing evidence.
\<close>

theorem public_status_is_private:
  "set (map fst (public_probe_status circuit)) \<subseteq> {''accepted'', ''state''} \<union> set public_probe_keys \<and>
   list_all (\<lambda>k. \<not> has_key (public_probe_status circuit) k)
     [''nonce'', ''request_key'', ''requested_by'', ''evidence'', ''probe_requests'', ''reason''] \<and>
   dget (public_probe_status circuit) ''state'' = dget circuit ''state''"
proof -
  have keys: "fst ` set (public_probe p) \<subseteq> set public_probe_keys" for p
    by (auto simp: public_probe_def split: option.splits)
  then have sub: "fst ` set (public_probe_status circuit) \<subseteq> {''accepted'', ''state''} \<union> set public_probe_keys"
    by (auto simp: public_probe_status_def)
  moreover have "list_all (\<lambda>k. k \<notin> {''accepted'', ''state''} \<union> set public_probe_keys)
      [''nonce'', ''request_key'', ''requested_by'', ''evidence'', ''probe_requests'', ''reason'']"
    by (simp add: public_probe_keys_def)
  ultimately have "list_all (\<lambda>k. \<not> has_key (public_probe_status circuit) k)
      [''nonce'', ''request_key'', ''requested_by'', ''evidence'', ''probe_requests'', ''reason'']"
    unfolding list_all_iff has_key_iff by blast
  moreover have "dget (public_probe_status circuit) ''state'' = dget circuit ''state''"
    by (simp add: public_probe_status_def dget_def)
  ultimately show ?thesis using sub by simp
qed

section \<open>Usage alerts\<close>

lemma alerts_of_set [dict_simps]:
  "alerts_of (dict_set k v d) =
     (if k = ''cloud_build_usage_alerts'' then as_dict (py_or v (PDict [])) else alerts_of d)"
  by (simp add: alerts_of_def dict_simps)

lemma alerts_of_opened:
  "alerts_of (opened_value now owner reason repo run evidence @ x) = alerts_of x"
  by (simp add: alerts_of_def opened_value_def dget_def)

definition alerted_doc :: "'s backend \<Rightarrow> string \<Rightarrow> string \<Rightarrow> 's \<Rightarrow> bool" where
  "alerted_doc B owner marker s =
     (\<exists>d. load B s (circuit_id owner) = Some d \<and> has_key (alerts_of d) marker)"

lemma alert_claimed:
  assumes "document_backend B" and "claim_usage_alert B now owner month threshold observed s = (Inr b, s1)"
  shows "alerted_doc B owner (alert_marker month threshold) s1"
proof (cases "load B s (circuit_id owner)")
  case None
  have "\<not> has_key (alerts_of [(''owner'', PStr owner), (''state'', PStr ''closed''), (''updated_at'', PStr now)]) m"
    "\<not> has_key (alerts_of [(''owner'', PStr owner), (''state'', PStr ''closed'')]) m" for m
    by (simp_all add: alerts_of_def dget_def py_or_def has_key_def)
  then show ?thesis
    using assms(2) None document_backend.load_put [OF assms(1)]
      document_backend.load_patch [OF assms(1)]
    by (auto simp: claim_usage_alert_def Let_def alerted_doc_def dict_simps py_or_def split: if_split_asm)
      (simp_all add: alerts_of_def dget_def py_or_def has_key_def)
next
  case (Some d)
  then show ?thesis
    using assms(2) document_backend.load_patch_same [OF assms(1) Some]
    by (auto simp: claim_usage_alert_def Let_def alerted_doc_def dict_simps py_or_def split: if_split_asm)
qed

lemma alert_refused:
  "alerted_doc B owner (alert_marker month threshold) s \<Longrightarrow>
   claim_usage_alert B now owner month threshold observed s = (Inr False, s)"
  by (auto simp: alerted_doc_def claim_usage_alert_def Let_def)

text \<open>
  A usage alert that has been claimed is not claimed again, until the circuit is opened: opening replaces
  the document and forgets the alerts that were sent, so the same threshold of the same month is then claimed
  once more.
\<close>

theorem usage_alert_until_opened:
  assumes "document_backend B" and "claim_usage_alert B now owner month threshold observed s = (Inr b, s1)"
  shows "claim_usage_alert B now' owner month threshold observed' s1 = (Inr False, s1) \<and>
    (open_circuit B at owner reason repo run evidence s1 = (Inr (d, True), s2) \<longrightarrow>
     fst (claim_usage_alert B now' owner month threshold observed' s2) = Inr True)"
proof -
  note a = alert_claimed [OF assms]
  then obtain c where c: "load B s1 (circuit_id owner) = Some c" by (auto simp: alerted_doc_def)
  have "fst (claim_usage_alert B now' owner month threshold observed' s2) = Inr True"
    if "open_circuit B at owner reason repo run evidence s1 = (Inr (d, True), s2)"
  proof -
    let ?o = "opened_value at owner reason repo run evidence @
        [(''probe_requests'', dget_or c ''probe_requests'' (PDict []))]"
    have "s2 = put B (circuit_id owner) ?o s1"
      using that c by (auto simp: open_circuit_def Let_def split: if_split_asm)
    then have "load B s2 (circuit_id owner) = Some ?o"
      using document_backend.load_put [OF assms(1)] by simp
    moreover have "alerts_of ?o = []"
      unfolding alerts_of_opened by (simp add: alerts_of_def dget_def py_or_def)
    ultimately show ?thesis by (simp add: claim_usage_alert_def Let_def has_key_def)
  qed
  then show ?thesis using alert_refused [OF a] by blast
qed

lemma usage_alert_until_opened_witness:
  "let s1 = snd (claim_usage_alert mem_backend ''t1'' ''acme'' ''2026-01'' 50 (PInt 51) []) in
   claim_usage_alert mem_backend ''t2'' ''acme'' ''2026-01'' 50 (PInt 52) s1 = (Inr False, s1)"
proof -
  have "\<exists>b s1. claim_usage_alert mem_backend ''t1'' ''acme'' ''2026-01'' 50 (PInt 51) [] = (Inr b, s1)"
    by (auto simp: claim_usage_alert_def Let_def mem_load_def)
  then obtain b s1 where r: "claim_usage_alert mem_backend ''t1'' ''acme'' ''2026-01'' 50 (PInt 51) [] = (Inr b, s1)"
    by blast
  show ?thesis
    using usage_alert_until_opened [OF memory.document_backend_axioms r] by (simp add: r Let_def)
qed

end
