(* ===== verification/LogBudget.thy ===== *)
theory LogBudget
  imports Codec
begin

text \<open>
  \<open>services/log_budget.py\<close>: the permits and the waiting queue that pace Cloud Logging reads for one quota
  project, kept in one document that every replica updates by compare-and-swap.  Times are microseconds.
  Stored values are untyped (\<open>lb_val\<close>); \<open>parse_record\<close> is the validation every read passes.
\<close>

section \<open>Constants and identities\<close>

definition cadence_seconds :: int where "cadence_seconds = 5"

definition max_attempts :: nat where "max_attempts = 12"

definition max_cas_attempts :: nat where "max_cas_attempts = 3"

definition max_waiters :: nat where "max_waiters = 4096"

definition max_queue_poll_seconds :: int where "max_queue_poll_seconds = 10"

definition waiter_ttl_seconds :: int where "waiter_ttl_seconds = max_queue_poll_seconds + 25"

definition schema_version :: int where "schema_version = 3"

definition is_lower_alnum :: "char \<Rightarrow> bool" where
  "is_lower_alnum c = (is_digit c \<or> (97 \<le> (of_char c :: nat) \<and> (of_char c :: nat) \<le> 122))"

text \<open>\<open>[a-z][a-z0-9-]{4,28}[a-z0-9]\<close>\<close>

definition project_name :: "string \<Rightarrow> bool" where
  "project_name s =
     (6 \<le> length s \<and> length s \<le> 30 \<and> is_lower_alnum (hd s) \<and> \<not> is_digit (hd s) \<and>
      is_lower_alnum (last s) \<and> list_all (\<lambda>c. is_lower_alnum c \<or> c = CHR ''-'') s)"

definition collection_name :: "string \<Rightarrow> bool" where
  "collection_name s =
     (let prefix = ''eng_platform_log_budget''; rest = drop (length prefix) s
      in starts_with prefix s \<and>
         (rest = [] \<or>
          (hd rest = CHR ''_'' \<and> 1 \<le> length (tl rest) \<and> length (tl rest) \<le> 32 \<and>
           list_all (\<lambda>c. is_lower_alnum c \<or> c = CHR ''_'') (tl rest))))"

definition quota_project :: "string \<Rightarrow> string result" where
  "quota_project project =
     (if project_name project then Inr project
      else Inl (RuntimeError ''Log quota project is not configured''))"

definition budget_document_id :: "string \<Rightarrow> string result" where
  "budget_document_id project =
     (if project_name project then Inr (''quota-'' @ sha256_hex project)
      else Inl (ValueError ''Invalid log quota project''))"

record coordination_scope =
  scope_quota_project :: string
  scope_budget_project :: string
  scope_collection :: string

definition validate_scope :: "coordination_scope \<Rightarrow> unit result" where
  "validate_scope sc =
     raise_if (\<not> project_name (scope_quota_project sc) \<or> \<not> project_name (scope_budget_project sc) \<or>
               \<not> collection_name (scope_collection sc))
       (RuntimeError ''Log coordination is not configured'')"

definition capture_scope :: "string \<Rightarrow> string \<Rightarrow> string \<Rightarrow> coordination_scope result" where
  "capture_scope project budget collection =
     (case quota_project project of
        Inl e \<Rightarrow> Inl e
      | Inr q \<Rightarrow>
          let sc = \<lparr>scope_quota_project = q, scope_budget_project = budget, scope_collection = collection\<rparr>
          in guarded [validate_scope sc] (Inr sc))"

definition participant_check :: "string \<Rightarrow> unit result" where
  "participant_check value = raise_if (\<not> hex_string 64 value) (ValueError ''Invalid log budget participant'')"

section \<open>Stored records\<close>

datatype lb_val =
    LNone
  | LInt int
  | LStr string
  | LTime int
  | LOther
  | LList "lb_val list"
  | LDict "(string \<times> lb_val) list"

record permit =
  p_token :: string
  p_participant :: string
  p_reserved :: int
  p_completed :: "int option"

record waiter =
  w_participant :: string
  w_enqueued :: int
  w_seen :: int

record budget =
  b_project :: string
  b_attempts :: "permit list"
  b_waiters :: "waiter list"
  b_next_due :: int
  b_updated :: int

text \<open>\<open>_timestamp\<close>: an aware datetime, no later than \<open>now\<close> when that is given.\<close>

definition timestamp :: "int option \<Rightarrow> lb_val \<Rightarrow> int result" where
  "timestamp now value =
     (case value of
        LTime t \<Rightarrow>
          if (case now of None \<Rightarrow> False | Some n \<Rightarrow> n < t)
          then Inl (RuntimeError ''Invalid log budget timestamp'') else Inr t
      | _ \<Rightarrow> Inl (RuntimeError ''Invalid log budget timestamp''))"

definition lb_get :: "(string \<times> lb_val) list \<Rightarrow> string \<Rightarrow> lb_val" where
  "lb_get d k = (case map_of d k of None \<Rightarrow> LNone | Some v \<Rightarrow> v)"

definition same_keys :: "(string \<times> lb_val) list \<Rightarrow> string list \<Rightarrow> bool" where
  "same_keys d ks = (list_all (\<lambda>k. has_key d k) ks \<and> list_all (\<lambda>kv. fst kv \<in> set ks) d)"

definition permit_keys :: "string list" where
  "permit_keys = [''token'', ''participant'', ''reserved_at'', ''completed_at'']"

definition waiter_keys :: "string list" where
  "waiter_keys = [''participant'', ''enqueued_at'', ''last_seen_at'']"

definition budget_keys :: "string list" where
  "budget_keys =
    [''schema_version'', ''quota_project_id'', ''attempts'', ''waiters'', ''next_due'', ''updated_at'']"

text \<open>The permit loop; it returns the permits and the participants with a pending one.\<close>

fun parse_permits ::
  "int \<Rightarrow> string list \<Rightarrow> string list \<Rightarrow> lb_val list \<Rightarrow> (permit list \<times> string list) result" where
  "parse_permits now seen pending [] = Inr ([], pending)"
| "parse_permits now seen pending (v # vs) =
     (case v of
        LDict d \<Rightarrow>
          if \<not> same_keys d permit_keys then Inl (RuntimeError ''Invalid log budget permit'')
          else
            (case (lb_get d ''token'', lb_get d ''participant'') of
               (LStr token, LStr participant) \<Rightarrow>
                 if \<not> hex_string 32 token \<or> token \<in> set seen \<or> \<not> hex_string 64 participant
                 then Inl (RuntimeError ''Invalid log budget identity'')
                 else
                   (case timestamp (Some now) (lb_get d ''reserved_at'') of
                      Inl e \<Rightarrow> Inl e
                    | Inr reserved \<Rightarrow>
                        (case lb_get d ''completed_at'' of
                           LNone \<Rightarrow>
                             if participant \<in> set pending
                             then Inl (RuntimeError ''Duplicate pending log budget participant'')
                             else map_result
                               (\<lambda>(ps, pend). (\<lparr>p_token = token, p_participant = participant,
                                  p_reserved = reserved, p_completed = None\<rparr> # ps, pend))
                               (parse_permits now (token # seen) (participant # pending) vs)
                         | c \<Rightarrow>
                             (case timestamp (Some now) c of
                                Inl e \<Rightarrow> Inl e
                              | Inr completed \<Rightarrow>
                                  if completed < reserved
                                  then Inl (RuntimeError ''Invalid log budget completion'')
                                  else map_result
                                    (\<lambda>(ps, pend). (\<lparr>p_token = token, p_participant = participant,
                                       p_reserved = reserved, p_completed = Some completed\<rparr> # ps, pend))
                                    (parse_permits now (token # seen) pending vs))))
             | _ \<Rightarrow> Inl (RuntimeError ''Invalid log budget identity''))
      | _ \<Rightarrow> Inl (RuntimeError ''Invalid log budget permit''))"

fun parse_waiters ::
  "int \<Rightarrow> string list \<Rightarrow> string list \<Rightarrow> int option \<Rightarrow> lb_val list \<Rightarrow> waiter list result" where
  "parse_waiters now seen pending previous [] = Inr []"
| "parse_waiters now seen pending previous (v # vs) =
     (case v of
        LDict d \<Rightarrow>
          if \<not> same_keys d waiter_keys then Inl (RuntimeError ''Invalid log budget waiter'')
          else
            (case lb_get d ''participant'' of
               LStr participant \<Rightarrow>
                 if \<not> hex_string 64 participant \<or> participant \<in> set seen \<or> participant \<in> set pending
                 then Inl (RuntimeError ''Invalid log budget waiter identity'')
                 else
                   (case timestamp (Some now) (lb_get d ''enqueued_at'') of
                      Inl e \<Rightarrow> Inl e
                    | Inr enqueued \<Rightarrow>
                        (case timestamp (Some now) (lb_get d ''last_seen_at'') of
                           Inl e \<Rightarrow> Inl e
                         | Inr last_seen \<Rightarrow>
                             if last_seen < enqueued \<or>
                                (case previous of None \<Rightarrow> False | Some p \<Rightarrow> enqueued < p)
                             then Inl (RuntimeError ''Invalid log budget waiter order'')
                             else map_result
                               (\<lambda>ws. \<lparr>w_participant = participant, w_enqueued = enqueued, w_seen = last_seen\<rparr> # ws)
                               (parse_waiters now (participant # seen) pending (Some enqueued) vs)))
             | _ \<Rightarrow> Inl (RuntimeError ''Invalid log budget waiter identity''))
      | _ \<Rightarrow> Inl (RuntimeError ''Invalid log budget waiter''))"

definition live_permit :: "int \<Rightarrow> permit \<Rightarrow> bool" where
  "live_permit now p = (case p_completed p of None \<Rightarrow> True | Some c \<Rightarrow> now - 60 * second < c)"

definition live_waiter :: "int \<Rightarrow> waiter \<Rightarrow> bool" where
  "live_waiter now w = (now - waiter_ttl_seconds * second \<le> w_seen w)"

definition fresh_budget :: "string \<Rightarrow> int \<Rightarrow> budget" where
  "fresh_budget project now =
     \<lparr>b_project = project, b_attempts = [], b_waiters = [], b_next_due = now, b_updated = now\<rparr>"

text \<open>
  \<open>_record\<close>: the record as stored with its live permits and live waiters.  Only a missing document is
  initialised.
\<close>

definition parse_record ::
  "int \<Rightarrow> string \<Rightarrow> lb_val option \<Rightarrow> (budget \<times> permit list \<times> waiter list) result" where
  "parse_record now project snapshot =
     (case snapshot of
        None \<Rightarrow> Inr (fresh_budget project now, [], [])
      | Some (LDict d) \<Rightarrow>
          if lb_get d ''schema_version'' \<noteq> LInt schema_version
             \<or> lb_get d ''quota_project_id'' \<noteq> LStr project
             \<or> \<not> same_keys d budget_keys
          then Inl (RuntimeError ''Incompatible log budget record'')
          else
            (case timestamp None (lb_get d ''next_due'') of
               Inl e \<Rightarrow> Inl e
             | Inr next_due \<Rightarrow>
                 (case timestamp (Some now) (lb_get d ''updated_at'') of
                    Inl e \<Rightarrow> Inl e
                  | Inr updated \<Rightarrow>
                      (case (lb_get d ''attempts'', lb_get d ''waiters'') of
                         (LList previous, LList queued) \<Rightarrow>
                           if max_attempts < length previous \<or> max_waiters < length queued
                           then Inl (RuntimeError ''Invalid log budget record'')
                           else
                             (case parse_permits now [] [] previous of
                                Inl e \<Rightarrow> Inl e
                              | Inr (permits, pending) \<Rightarrow>
                                  (case parse_waiters now [] pending None queued of
                                     Inl e \<Rightarrow> Inl e
                                   | Inr ws \<Rightarrow>
                                       Inr (\<lparr>b_project = project, b_attempts = permits, b_waiters = ws,
                                             b_next_due = next_due, b_updated = updated\<rparr>,
                                            filter (live_permit now) permits,
                                            filter (live_waiter now) ws)))
                       | _ \<Rightarrow> Inl (RuntimeError ''Invalid log budget record''))))
      | Some _ \<Rightarrow> Inl (RuntimeError ''Incompatible log budget record''))"

text \<open>The value a replacement is stored as.\<close>

definition store_permit :: "permit \<Rightarrow> lb_val" where
  "store_permit p =
     LDict [(''participant'', LStr (p_participant p)), (''token'', LStr (p_token p)),
            (''reserved_at'', LTime (p_reserved p)),
            (''completed_at'', (case p_completed p of None \<Rightarrow> LNone | Some c \<Rightarrow> LTime c))]"

definition store_waiter :: "waiter \<Rightarrow> lb_val" where
  "store_waiter w =
     LDict [(''participant'', LStr (w_participant w)), (''enqueued_at'', LTime (w_enqueued w)),
            (''last_seen_at'', LTime (w_seen w))]"

definition store_budget :: "budget \<Rightarrow> lb_val" where
  "store_budget b =
     LDict [(''schema_version'', LInt schema_version), (''quota_project_id'', LStr (b_project b)),
            (''attempts'', LList (map store_permit (b_attempts b))),
            (''waiters'', LList (map store_waiter (b_waiters b))),
            (''next_due'', LTime (b_next_due b)), (''updated_at'', LTime (b_updated b))]"

section \<open>Decisions\<close>

record log_reservation =
  lr_allowed :: bool
  lr_server_time :: int
  lr_next_poll :: int
  lr_token :: string
  lr_position :: "nat option"
  lr_wait :: "int option"
  lr_overloaded :: bool
  lr_reason :: "string option"

text \<open>\<open>math.ceil(x.total_seconds())\<close>\<close>

definition ceil_seconds :: "int \<Rightarrow> int" where
  "ceil_seconds t = - ((- t) div second)"

definition wait_seconds :: "int \<Rightarrow> int \<Rightarrow> permit list \<Rightarrow> nat \<Rightarrow> int" where
  "wait_seconds now next_due attempts position =
     (let available = Min (set (map (\<lambda>p. (case p_completed p of None \<Rightarrow> now | Some c \<Rightarrow> c) + 60 * second) attempts));
          due = (if max_attempts \<le> length attempts then max next_due available else next_due)
      in max 0 (ceil_seconds (due - now)) + (int position - 1) * cadence_seconds)"

text \<open>The index of a participant in the queue.\<close>

fun queue_index :: "string \<Rightarrow> waiter list \<Rightarrow> nat option" where
  "queue_index p [] = None"
| "queue_index p (w # ws) =
     (if w_participant w = p then Some 0 else map_option Suc (queue_index p ws))"

definition pending_reservation :: "int \<Rightarrow> log_reservation" where
  "pending_reservation now =
     \<lparr>lr_allowed = False, lr_server_time = now, lr_next_poll = 60, lr_token = '''', lr_position = None,
      lr_wait = None, lr_overloaded = False, lr_reason = Some ''pending''\<rparr>"

definition acquire ::
  "string \<Rightarrow> string \<Rightarrow> int \<Rightarrow> budget \<Rightarrow> permit list \<Rightarrow> waiter list \<Rightarrow> log_reservation \<times> budget option" where
  "acquire participant token now rec attempts waiters =
     (if list_ex (\<lambda>p. p_participant p = participant \<and> p_completed p = None) attempts
      then (pending_reservation now, None)
      else
        let known = queue_index participant waiters
        in if known = None \<and> max_waiters \<le> length waiters
           then ((pending_reservation now)\<lparr>lr_overloaded := True, lr_reason := Some ''overload''\<rparr>, None)
           else
             let index = (case known of None \<Rightarrow> length waiters | Some i \<Rightarrow> i);
                 queue = (case known of
                     None \<Rightarrow> waiters @ [\<lparr>w_participant = participant, w_enqueued = now, w_seen = now\<rparr>]
                   | Some i \<Rightarrow> waiters[i := (waiters ! i)\<lparr>w_seen := now\<rparr>]);
                 replacement = rec\<lparr>b_attempts := attempts, b_waiters := queue, b_updated := now\<rparr>
             in if index = 0 \<and> b_next_due rec \<le> now \<and> length attempts < max_attempts
                then
                  (\<lparr>lr_allowed = True, lr_server_time = now, lr_next_poll = cadence_seconds, lr_token = token,
                    lr_position = None, lr_wait = None, lr_overloaded = False, lr_reason = None\<rparr>,
                   Some (replacement\<lparr>b_waiters := tl queue,
                     b_attempts := attempts @ [\<lparr>p_token = token, p_participant = participant,
                                               p_reserved = now, p_completed = None\<rparr>],
                     b_next_due := now + cadence_seconds * second\<rparr>))
                else
                  let wait = wait_seconds now (b_next_due rec) attempts (index + 1)
                  in (\<lparr>lr_allowed = False, lr_server_time = now,
                       lr_next_poll = max cadence_seconds (min max_queue_poll_seconds wait),
                       lr_token = '''', lr_position = Some (index + 1), lr_wait = Some wait,
                       lr_overloaded = False,
                       lr_reason = Some (if max_attempts \<le> length attempts then ''budget''
                                         else if 0 < index then ''queue'' else ''cadence'')\<rparr>,
                      if replacement = rec then None else Some replacement))"

fun complete_permit :: "string \<Rightarrow> int \<Rightarrow> permit list \<Rightarrow> permit list" where
  "complete_permit token now [] = []"
| "complete_permit token now (p # ps) =
     (if p_token p = token then p\<lparr>p_completed := Some now\<rparr> # ps else p # complete_permit token now ps)"

definition complete ::
  "string \<Rightarrow> string \<Rightarrow> int \<Rightarrow> budget \<Rightarrow> permit list \<Rightarrow> waiter list \<Rightarrow> (unit \<times> budget option) result" where
  "complete participant token now rec attempts waiters =
     (case find (\<lambda>p. p_token p = token) attempts of
        None \<Rightarrow> Inl (RuntimeError ''Log reservation is missing'')
      | Some p \<Rightarrow>
          if p_participant p \<noteq> participant then Inl (RuntimeError ''Log reservation is missing'')
          else if p_completed p \<noteq> None then Inr ((), None)
          else Inr ((), Some (rec\<lparr>b_attempts := complete_permit token now attempts, b_waiters := waiters,
                                  b_updated := now\<rparr>)))"

section \<open>Compare and swap\<close>

text \<open>
  The document with the version Firestore compares.  One attempt is described by the server time of its
  read, by what other replicas do between its read and its write, and by whether the deadline still holds at
  each of the five points where it is checked.
\<close>

record cas_store =
  c_doc :: "lb_val option"
  c_version :: nat

record cas_attempt =
  a_now :: int
  a_others :: "cas_store \<Rightarrow> cas_store"
  a_before_read :: bool
  a_after_read :: bool
  a_after_transform :: bool
  a_before_write :: bool
  a_after_write :: bool

definition deadline_expired :: py_err where
  "deadline_expired = TimeoutError ''Runtime log deadline expired''"

type_synonym 'a transform = "int \<Rightarrow> budget \<Rightarrow> permit list \<Rightarrow> waiter list \<Rightarrow> ('a \<times> budget option) result"

definition write_doc :: "budget \<Rightarrow> cas_store \<Rightarrow> cas_store" where
  "write_doc b s = \<lparr>c_doc = Some (store_budget b), c_version = Suc (c_version s)\<rparr>"

fun cas_loop ::
  "string \<Rightarrow> 'a transform \<Rightarrow> cas_attempt list \<Rightarrow> cas_store \<Rightarrow> 'a result \<times> cas_store" where
  "cas_loop project f [] s = (Inl (RuntimeError ''Log budget is contended''), s)"
| "cas_loop project f (a # as) s =
     (if \<not> a_before_read a \<or> \<not> a_after_read a then (Inl deadline_expired, s)
      else
        (case parse_record (a_now a) project (c_doc s) of
           Inl e \<Rightarrow> (Inl e, s)
         | Inr (rec, attempts, waiters) \<Rightarrow>
             (case f (a_now a) rec attempts waiters of
                Inl e \<Rightarrow> (Inl e, s)
              | Inr (result, replacement) \<Rightarrow>
                  if \<not> a_after_transform a then (Inl deadline_expired, s)
                  else
                    (case replacement of
                       None \<Rightarrow> (Inr result, s)
                     | Some b \<Rightarrow>
                         if \<not> a_before_write a then (Inl deadline_expired, s)
                         else
                           let s1 = a_others a s
                           in if c_version s1 \<noteq> c_version s then cas_loop project f as s1
                              else if \<not> a_after_write a then (Inl deadline_expired, write_doc b s1)
                              else (Inr result, write_doc b s1)))))"

definition compare_and_swap ::
  "string \<Rightarrow> 'a transform \<Rightarrow> bool \<Rightarrow> cas_attempt list \<Rightarrow> cas_store \<Rightarrow> 'a result \<times> cas_store" where
  "compare_and_swap project f alive attempts s =
     (if \<not> alive then (Inl deadline_expired, s)
      else cas_loop project f (take max_cas_attempts attempts) s)"

definition log_reserve ::
  "string \<Rightarrow> string \<Rightarrow> string \<Rightarrow> bool \<Rightarrow> cas_attempt list \<Rightarrow> cas_store \<Rightarrow> log_reservation result \<times> cas_store" where
  "log_reserve project token participant alive attempts s =
     (case participant_check participant of
        Inl e \<Rightarrow> (Inl e, s)
      | Inr _ \<Rightarrow>
          compare_and_swap project
            (\<lambda>now rec permits waiters. Inr (acquire participant token now rec permits waiters))
            alive attempts s)"

definition log_finish ::
  "string \<Rightarrow> string \<Rightarrow> string \<Rightarrow> bool \<Rightarrow> cas_attempt list \<Rightarrow> cas_store \<Rightarrow> unit result \<times> cas_store" where
  "log_finish project participant token alive attempts s =
     (case first_error
             [participant_check participant,
              raise_if (\<not> hex_string 32 token) (ValueError ''Invalid log budget token'')] of
        Inl e \<Rightarrow> (Inl e, s)
      | Inr _ \<Rightarrow> compare_and_swap project (complete participant token) alive attempts s)"

end
