(* ===== verification/LogBudgetRecords.thy ===== *)
theory LogBudgetRecords
  imports LogBudget DocStore
begin

text \<open>
  Which log budget records are valid, that a read accepts exactly what it checks, and that every decision
  turns a valid record into a valid one.
\<close>

section \<open>Valid records\<close>

definition pending_participants :: "permit list \<Rightarrow> string list" where
  "pending_participants ps = map p_participant (filter (\<lambda>p. p_completed p = None) ps)"

definition valid_permit :: "int \<Rightarrow> permit \<Rightarrow> bool" where
  "valid_permit now p =
     (hex_string 32 (p_token p) \<and> hex_string 64 (p_participant p) \<and> p_reserved p \<le> now \<and>
      (case p_completed p of None \<Rightarrow> True | Some c \<Rightarrow> p_reserved p \<le> c \<and> c \<le> now))"

definition valid_waiter :: "int \<Rightarrow> waiter \<Rightarrow> bool" where
  "valid_waiter now w =
     (hex_string 64 (w_participant w) \<and> w_enqueued w \<le> w_seen w \<and> w_seen w \<le> now)"

definition valid_budget :: "int \<Rightarrow> budget \<Rightarrow> bool" where
  "valid_budget now b =
     (length (b_attempts b) \<le> max_attempts \<and> length (b_waiters b) \<le> max_waiters \<and> b_updated b \<le> now \<and>
      (\<forall>p \<in> set (b_attempts b). valid_permit now p) \<and> distinct (map p_token (b_attempts b)) \<and>
      distinct (pending_participants (b_attempts b)) \<and>
      (\<forall>w \<in> set (b_waiters b). valid_waiter now w) \<and> distinct (map w_participant (b_waiters b)) \<and>
      set (map w_participant (b_waiters b)) \<inter> set (pending_participants (b_attempts b)) = {} \<and>
      sorted (map w_enqueued (b_waiters b)))"

lemma timestamp_simps [simp]:
  "timestamp None (LTime t) = Inr t"
  "timestamp (Some now) (LTime t) = (if now < t then Inl (RuntimeError ''Invalid log budget timestamp'') else Inr t)"
  by (simp_all add: timestamp_def)

lemma timestamp_Inr: "timestamp (Some now) v = Inr t \<longleftrightarrow> v = LTime t \<and> t \<le> now"
  by (cases v) (auto simp: timestamp_def)

lemma same_keys_stored:
  "same_keys [(''participant'', a), (''token'', b), (''reserved_at'', c), (''completed_at'', d)] permit_keys"
  "same_keys [(''participant'', a), (''enqueued_at'', b), (''last_seen_at'', c)] waiter_keys"
  "same_keys [(''schema_version'', a), (''quota_project_id'', b), (''attempts'', c), (''waiters'', d),
     (''next_due'', e), (''updated_at'', f)] budget_keys"
  by (simp_all add: same_keys_def permit_keys_def waiter_keys_def budget_keys_def has_key_def)

lemma permit_eq:
  "p_completed p = c \<Longrightarrow>
   \<lparr>p_token = p_token p, p_participant = p_participant p, p_reserved = p_reserved p, p_completed = c\<rparr> = p"
  by (cases p) simp

lemma stored_permit:
  "store_permit p = LDict [(''participant'', LStr (p_participant p)), (''token'', LStr (p_token p)),
     (''reserved_at'', LTime (p_reserved p)), (''completed_at'', (case p_completed p of None \<Rightarrow> LNone | Some c \<Rightarrow> LTime c))]"
  by (simp add: store_permit_def)

lemma stored_waiter:
  "store_waiter w = LDict [(''participant'', LStr (w_participant w)), (''enqueued_at'', LTime (w_enqueued w)),
     (''last_seen_at'', LTime (w_seen w))]"
  by (simp add: store_waiter_def)

lemma parse_stored_permits:
  "(\<forall>p \<in> set ps. valid_permit now p) \<Longrightarrow> distinct (map p_token ps) \<Longrightarrow> distinct (pending_participants ps) \<Longrightarrow>
   set (map p_token ps) \<inter> set seen = {} \<Longrightarrow> set (pending_participants ps) \<inter> set pending = {} \<Longrightarrow>
   parse_permits now seen pending (map store_permit ps) = Inr (ps, rev (pending_participants ps) @ pending)"
proof (induction ps arbitrary: seen pending)
  case Nil
  then show ?case by (simp add: pending_participants_def)
next
  case (Cons p ps)
  show ?case
  proof (cases "p_completed p")
    case None
    have "parse_permits now (p_token p # seen) (p_participant p # pending) (map store_permit ps)
        = Inr (ps, rev (pending_participants ps) @ p_participant p # pending)"
      using Cons.prems None by (intro Cons.IH) (auto simp: pending_participants_def)
    then show ?thesis
      using Cons.prems None
      by (auto simp: stored_permit [of p] lb_get_def same_keys_stored valid_permit_def pending_participants_def
          permit_eq)
  next
    case (Some c)
    have "parse_permits now (p_token p # seen) pending (map store_permit ps)
        = Inr (ps, rev (pending_participants ps) @ pending)"
      using Cons.prems Some by (intro Cons.IH) (auto simp: pending_participants_def)
    then show ?thesis
      using Cons.prems Some
      by (auto simp: stored_permit [of p] lb_get_def same_keys_stored valid_permit_def pending_participants_def
          permit_eq)
  qed
qed

lemma parse_stored_waiters:
  "(\<forall>w \<in> set ws. valid_waiter now w) \<Longrightarrow> distinct (map w_participant ws) \<Longrightarrow> sorted (map w_enqueued ws) \<Longrightarrow>
   set (map w_participant ws) \<inter> (set seen \<union> set pending) = {} \<Longrightarrow>
   (\<And>x. previous = Some x \<Longrightarrow> \<forall>w \<in> set ws. x \<le> w_enqueued w) \<Longrightarrow>
   parse_waiters now seen pending previous (map store_waiter ws) = Inr ws"
proof (induction ws arbitrary: seen previous)
  case (Cons w ws)
  have "parse_waiters now (w_participant w # seen) pending (Some (w_enqueued w)) (map store_waiter ws) = Inr ws"
    using Cons.prems by (intro Cons.IH) auto
  then show ?case
    using Cons.prems
    by (auto simp: stored_waiter [of w] lb_get_def same_keys_stored valid_waiter_def split: option.splits)
qed simp

lemma parse_stored_budget:
  assumes "valid_budget now b"
  shows "parse_record now (b_project b) (Some (store_budget b)) =
    Inr (b, filter (live_permit now) (b_attempts b), filter (live_waiter now) (b_waiters b))"
proof -
  have "parse_permits now [] [] (map store_permit (b_attempts b))
      = Inr (b_attempts b, rev (pending_participants (b_attempts b)))"
    using parse_stored_permits [of "b_attempts b" now "[]" "[]"] assms by (simp add: valid_budget_def)
  moreover have "parse_waiters now [] (rev (pending_participants (b_attempts b))) None (map store_waiter (b_waiters b))
      = Inr (b_waiters b)"
    using assms by (intro parse_stored_waiters) (auto simp: valid_budget_def)
  ultimately show ?thesis
    using assms by (simp add: parse_record_def store_budget_def lb_get_def same_keys_stored valid_budget_def not_less)
qed

text \<open>What a successful read has checked.\<close>

lemma parse_permits_valid:
  "parse_permits now seen pending vs = Inr (ps, pend) \<Longrightarrow>
   length ps = length vs \<and> (\<forall>p \<in> set ps. valid_permit now p) \<and>
   distinct (map p_token ps) \<and> set (map p_token ps) \<inter> set seen = {} \<and>
   distinct (pending_participants ps) \<and> set (pending_participants ps) \<inter> set pending = {} \<and>
   set pend = set (pending_participants ps) \<union> set pending"
proof (induction vs arbitrary: seen pending ps pend)
  case Nil
  then show ?case by (simp add: pending_participants_def)
next
  case (Cons v vs)
  from Cons.prems obtain d token participant reserved where
    v: "v = LDict d" "same_keys d permit_keys" "lb_get d ''token'' = LStr token"
      "lb_get d ''participant'' = LStr participant"
    and ids: "hex_string 32 token" "token \<notin> set seen" "hex_string 64 participant"
    and res: "timestamp (Some now) (lb_get d ''reserved_at'') = Inr reserved"
    by (auto split: lb_val.splits if_splits sum.splits)
  have r: "reserved \<le> now" using res by (simp add: timestamp_Inr)
  show ?case
  proof (cases "lb_get d ''completed_at'' = LNone")
    case True
    with Cons.prems v ids res have np: "participant \<notin> set pending" by (auto split: if_splits)
    with Cons.prems v ids res True obtain qs where
      q: "parse_permits now (token # seen) (participant # pending) vs = Inr (qs, pend)"
        "ps = \<lparr>p_token = token, p_participant = participant, p_reserved = reserved, p_completed = None\<rparr> # qs"
      by (auto simp: map_result_Inr)
    have "length qs = length vs \<and> (\<forall>p \<in> set qs. valid_permit now p) \<and>
        distinct (map p_token qs) \<and> set (map p_token qs) \<inter> set (token # seen) = {} \<and>
        distinct (pending_participants qs) \<and> set (pending_participants qs) \<inter> set (participant # pending) = {} \<and>
        set pend = set (pending_participants qs) \<union> set (participant # pending)"
      by (rule Cons.IH [OF q(1)])
    then show ?thesis
      using q(2) ids r np by (auto simp: valid_permit_def pending_participants_def)
  next
    case False
    with Cons.prems v ids res obtain c qs where
      c: "timestamp (Some now) (lb_get d ''completed_at'') = Inr c" "reserved \<le> c"
      and q: "parse_permits now (token # seen) pending vs = Inr (qs, pend)"
        "ps = \<lparr>p_token = token, p_participant = participant, p_reserved = reserved, p_completed = Some c\<rparr> # qs"
      by (cases "lb_get d ''completed_at''")
        (auto simp: map_result_Inr timestamp_def not_less split: if_splits)
    have ct: "lb_get d ''completed_at'' = LTime c" "c \<le> now" using c(1) by (simp_all add: timestamp_Inr)
    have "length qs = length vs \<and> (\<forall>p \<in> set qs. valid_permit now p) \<and>
        distinct (map p_token qs) \<and> set (map p_token qs) \<inter> set (token # seen) = {} \<and>
        distinct (pending_participants qs) \<and> set (pending_participants qs) \<inter> set pending = {} \<and>
        set pend = set (pending_participants qs) \<union> set pending"
      by (rule Cons.IH [OF q(1)])
    then show ?thesis
      using q(2) ids r ct c(2) by (auto simp: valid_permit_def pending_participants_def)
  qed
qed

lemma parse_waiters_valid:
  "parse_waiters now seen pending previous vs = Inr ws \<Longrightarrow>
   length ws = length vs \<and> (\<forall>w \<in> set ws. valid_waiter now w) \<and> distinct (map w_participant ws) \<and>
   set (map w_participant ws) \<inter> (set seen \<union> set pending) = {} \<and> sorted (map w_enqueued ws) \<and>
   (\<forall>x. previous = Some x \<longrightarrow> (\<forall>w \<in> set ws. x \<le> w_enqueued w))"
proof (induction vs arbitrary: seen previous ws)
  case (Cons v vs)
  from Cons.prems obtain d participant enqueued last_seen qs where
    v: "v = LDict d"
    and ids: "hex_string 64 participant" "participant \<notin> set seen" "participant \<notin> set pending"
    and enq: "timestamp (Some now) (lb_get d ''enqueued_at'') = Inr enqueued"
      "timestamp (Some now) (lb_get d ''last_seen_at'') = Inr last_seen"
      "enqueued \<le> last_seen" "\<forall>x. previous = Some x \<longrightarrow> x \<le> enqueued"
    and q: "parse_waiters now (participant # seen) pending (Some enqueued) vs = Inr qs"
      "ws = \<lparr>w_participant = participant, w_enqueued = enqueued, w_seen = last_seen\<rparr> # qs"
    by (auto simp: map_result_Inr not_less split: lb_val.splits if_splits sum.splits option.splits)
  have "last_seen \<le> now" using enq(2) by (simp add: timestamp_Inr)
  then show ?case
    using Cons.IH [OF q(1)] ids enq(3,4) by (fastforce simp: q(2) valid_waiter_def)
qed simp

lemma parse_record_valid:
  assumes "parse_record now project snap = Inr (rec, atts, ws)"
  shows "valid_budget now rec \<and> b_project rec = project \<and>
    atts = filter (live_permit now) (b_attempts rec) \<and> ws = filter (live_waiter now) (b_waiters rec)"
proof (cases snap)
  case None
  then show ?thesis
    using assms by (auto simp: parse_record_def fresh_budget_def valid_budget_def pending_participants_def)
next
  case (Some v)
  with assms obtain d previous queued permits pending qs next_due updated where
    v: "v = LDict d" and len: "length previous \<le> max_attempts" "length queued \<le> max_waiters"
    and up: "timestamp (Some now) (lb_get d ''updated_at'') = Inr updated"
    and pp: "parse_permits now [] [] previous = Inr (permits, pending)"
    and pw: "parse_waiters now [] pending None queued = Inr qs"
    and rec: "rec = \<lparr>b_project = project, b_attempts = permits, b_waiters = qs, b_next_due = next_due, b_updated = updated\<rparr>"
      "atts = filter (live_permit now) permits" "ws = filter (live_waiter now) qs"
    by (auto simp: parse_record_def not_less split: lb_val.splits if_splits sum.splits prod.splits)
  show ?thesis
    using parse_permits_valid [OF pp] parse_waiters_valid [OF pw] len up
    by (auto simp: rec valid_budget_def timestamp_Inr)
qed

lemma valid_budget_later:
  assumes "valid_budget now b" and "now \<le> now'"
  shows "valid_budget now' b"
proof -
  have "valid_permit now' p" if "valid_permit now p" for p
    using that assms(2) by (auto simp: valid_permit_def split: option.splits)
  moreover have "valid_waiter now' w" if "valid_waiter now w" for w
    using that assms(2) by (simp add: valid_waiter_def)
  ultimately show ?thesis using assms by (auto simp: valid_budget_def)
qed

section \<open>Decisions keep records valid\<close>

lemma distinct_map_filter_sub: "distinct (map f xs) \<Longrightarrow> distinct (map f (filter P xs))"
  by (rule distinct_map_filter)

lemma pending_live: "filter (\<lambda>p. p_completed p = None) (filter (live_permit now) ps) = filter (\<lambda>p. p_completed p = None) ps"
  by (auto simp: filter_filter live_permit_def intro: filter_cong)

lemma valid_live:
  assumes "valid_budget now rec"
  shows "valid_budget now (rec\<lparr>b_attempts := filter (live_permit now) (b_attempts rec),
    b_waiters := filter (live_waiter now) (b_waiters rec)\<rparr>)"
proof -
  have p: "pending_participants (filter (live_permit now) (b_attempts rec)) = pending_participants (b_attempts rec)"
    unfolding pending_participants_def pending_live by simp
  have l: "length (filter (live_permit now) (b_attempts rec)) \<le> max_attempts"
    "length (filter (live_waiter now) (b_waiters rec)) \<le> max_waiters"
    using assms by (simp_all add: valid_budget_def le_trans [OF length_filter_le])
  have "sorted (map w_enqueued (filter (live_waiter now) (b_waiters rec)))"
    using assms by (simp add: valid_budget_def sorted_filter)
  then show ?thesis
    using assms l by (auto simp: valid_budget_def p distinct_map_filter_sub)
qed

lemma queue_index_Some:
  "queue_index p ws = Some i \<Longrightarrow> i < length ws \<and> w_participant (ws ! i) = p"
  by (induction ws arbitrary: i) (auto split: if_splits)

lemma queue_index_None: "queue_index p ws = None \<longleftrightarrow> p \<notin> set (map w_participant ws)"
  by (induction ws) auto

text \<open>The queue with the caller in it: at its place, seen now, or at the end.\<close>

definition joined :: "string \<Rightarrow> int \<Rightarrow> waiter list \<Rightarrow> waiter list" where
  "joined participant now ws =
     (case queue_index participant ws of
        None \<Rightarrow> ws @ [\<lparr>w_participant = participant, w_enqueued = now, w_seen = now\<rparr>]
      | Some i \<Rightarrow> ws[i := (ws ! i)\<lparr>w_seen := now\<rparr>])"

definition place :: "string \<Rightarrow> waiter list \<Rightarrow> nat" where
  "place participant ws = (case queue_index participant ws of None \<Rightarrow> length ws | Some i \<Rightarrow> i)"

lemma joined_participants:
  "map w_participant (joined participant now ws) =
     map w_participant ws @ (if participant \<in> set (map w_participant ws) then [] else [participant])"
proof (cases "queue_index participant ws")
  case None
  then show ?thesis using queue_index_None [of participant ws] by (simp add: joined_def)
next
  case (Some i)
  have "map w_participant (ws[i := (ws ! i)\<lparr>w_seen := now\<rparr>]) = map w_participant ws"
    by (simp add: map_update list_update_id map_nth) (metis list_update_id map_update)
  moreover have "participant \<in> set (map w_participant ws)"
    using Some by (metis option.distinct(1) queue_index_None)
  ultimately show ?thesis using Some by (simp add: joined_def)
qed

lemma joined_enqueued:
  "map w_enqueued (joined participant now ws) =
     map w_enqueued ws @ (if participant \<in> set (map w_participant ws) then [] else [now])"
proof (cases "queue_index participant ws")
  case None
  then show ?thesis using queue_index_None [of participant ws] by (simp add: joined_def)
next
  case (Some i)
  have "map w_enqueued (ws[i := (ws ! i)\<lparr>w_seen := now\<rparr>]) = map w_enqueued ws"
    by (simp add: map_update) (metis list_update_id map_update)
  moreover have "participant \<in> set (map w_participant ws)"
    using Some by (metis option.distinct(1) queue_index_None)
  ultimately show ?thesis using Some by (simp add: joined_def)
qed

lemma joined_valid:
  assumes "\<forall>w \<in> set ws. valid_waiter now w" and "hex_string 64 participant"
  shows "\<forall>w \<in> set (joined participant now ws). valid_waiter now w"
proof (cases "queue_index participant ws")
  case None
  then show ?thesis using assms by (auto simp: joined_def valid_waiter_def)
next
  case (Some i)
  then have i: "i < length ws" by (simp add: queue_index_Some)
  then have "valid_waiter now (ws ! i)" using assms(1) by simp
  then have "valid_waiter now ((ws ! i)\<lparr>w_seen := now\<rparr>)" by (auto simp: valid_waiter_def)
  then show ?thesis using assms(1) Some set_update_subset_insert by (fastforce simp: joined_def)
qed

lemma joined_length:
  "length (joined participant now ws) = (if participant \<in> set (map w_participant ws) then length ws else Suc (length ws))"
proof -
  have "length (map w_participant (joined participant now ws)) =
      length (map w_participant ws @ (if participant \<in> set (map w_participant ws) then [] else [participant]))"
    by (simp only: joined_participants)
  then show ?thesis by (simp split: if_splits)
qed

text \<open>\<open>acquire\<close> over the caller's place in the queue.\<close>

lemma acquire_cases:
  obtains (pending) "\<exists>p \<in> set atts. p_participant p = participant \<and> p_completed p = None"
      "acquire participant token now rec atts ws = (pending_reservation now, None)"
  | (overload) "participant \<notin> set (map w_participant ws)" "max_waiters \<le> length ws"
      "acquire participant token now rec atts ws =
         ((pending_reservation now)\<lparr>lr_overloaded := True, lr_reason := Some ''overload''\<rparr>, None)"
  | (granted) "\<forall>p \<in> set atts. p_participant p = participant \<longrightarrow> p_completed p \<noteq> None"
      "place participant ws = 0" "b_next_due rec \<le> now" "length atts < max_attempts"
      "participant \<in> set (map w_participant ws) \<or> length ws < max_waiters"
      "lr_allowed (fst (acquire participant token now rec atts ws))"
      "lr_token (fst (acquire participant token now rec atts ws)) = token"
      "snd (acquire participant token now rec atts ws) =
         Some (rec\<lparr>b_attempts := atts @ [\<lparr>p_token = token, p_participant = participant, p_reserved = now, p_completed = None\<rparr>],
                   b_waiters := tl (joined participant now ws), b_next_due := now + cadence_seconds * second,
                   b_updated := now\<rparr>)"
  | (queued) r where "\<forall>p \<in> set atts. p_participant p = participant \<longrightarrow> p_completed p \<noteq> None"
      "place participant ws \<noteq> 0 \<or> now < b_next_due rec \<or> max_attempts \<le> length atts"
      "participant \<in> set (map w_participant ws) \<or> length ws < max_waiters"
      "r = rec\<lparr>b_attempts := atts, b_waiters := joined participant now ws, b_updated := now\<rparr>"
      "\<not> lr_allowed (fst (acquire participant token now rec atts ws))"
      "lr_wait (fst (acquire participant token now rec atts ws)) =
         Some (wait_seconds now (b_next_due rec) atts (place participant ws + 1))"
      "lr_position (fst (acquire participant token now rec atts ws)) = Some (place participant ws + 1)"
      "lr_next_poll (fst (acquire participant token now rec atts ws)) =
         max cadence_seconds (min max_queue_poll_seconds (wait_seconds now (b_next_due rec) atts (place participant ws + 1)))"
      "snd (acquire participant token now rec atts ws) = (if r = rec then None else Some r)"
proof (cases "list_ex (\<lambda>p. p_participant p = participant \<and> p_completed p = None) atts")
  case True
  then show thesis by (intro pending) (auto simp: acquire_def list_ex_iff)
next
  case False
  then have np: "\<forall>p \<in> set atts. p_participant p = participant \<longrightarrow> p_completed p \<noteq> None"
    by (auto simp: list_ex_iff)
  show thesis
  proof (cases "queue_index participant ws = None \<and> max_waiters \<le> length ws")
    case True
    then show thesis
      using False by (intro overload) (auto simp: acquire_def queue_index_None [symmetric] simp del: set_map)
  next
    case room: False
    have len: "participant \<in> set (map w_participant ws) \<or> length ws < max_waiters"
      using room by (metis queue_index_None not_le)
    have unf: "acquire participant token now rec atts ws =
       (if place participant ws = 0 \<and> b_next_due rec \<le> now \<and> length atts < max_attempts
                then
                  (\<lparr>lr_allowed = True, lr_server_time = now, lr_next_poll = cadence_seconds, lr_token = token,
                    lr_position = None, lr_wait = None, lr_overloaded = False, lr_reason = None\<rparr>,
                   Some (rec\<lparr>b_attempts := atts @ [\<lparr>p_token = token, p_participant = participant,
                                               p_reserved = now, p_completed = None\<rparr>],
                     b_waiters := tl (joined participant now ws),
                     b_next_due := now + cadence_seconds * second, b_updated := now\<rparr>))
                else
                  let wait = wait_seconds now (b_next_due rec) atts (place participant ws + 1);
                     replacement = rec\<lparr>b_attempts := atts, b_waiters := joined participant now ws, b_updated := now\<rparr>
                  in (\<lparr>lr_allowed = False, lr_server_time = now,
                       lr_next_poll = max cadence_seconds (min max_queue_poll_seconds wait),
                       lr_token = '''', lr_position = Some (place participant ws + 1), lr_wait = Some wait,
                       lr_overloaded = False,
                       lr_reason = Some (if max_attempts \<le> length atts then ''budget''
                                         else if 0 < place participant ws then ''queue'' else ''cadence'')\<rparr>,
                      if replacement = rec then None else Some replacement))"
      using False room
      unfolding acquire_def joined_def place_def Let_def by (simp only: if_False if_not_P) simp
    show thesis
    proof (cases "place participant ws = 0 \<and> b_next_due rec \<le> now \<and> length atts < max_attempts")
      case True
      then show thesis using np len by (intro granted) (simp_all add: unf)
    next
      case False
      then show thesis using np len by (intro queued) (auto simp: unf Let_def)
    qed
  qed
qed

lemma joined_room:
  "participant \<in> set (map w_participant ws) \<or> length ws < max_waiters \<Longrightarrow> length ws \<le> max_waiters \<Longrightarrow>
   length (joined participant now ws) \<le> max_waiters"
  by (auto simp: joined_length)

text \<open>The record with the caller queued is valid again, and so is the one with its permit.\<close>

lemma queued_valid:
  assumes "valid_budget now rec" and "hex_string 64 participant"
    and atts: "atts = filter (live_permit now) (b_attempts rec)" and ws: "ws = filter (live_waiter now) (b_waiters rec)"
    and np: "\<forall>p \<in> set atts. p_participant p = participant \<longrightarrow> p_completed p \<noteq> None"
    and room: "participant \<in> set (map w_participant ws) \<or> length ws < max_waiters"
  shows "valid_budget now (rec\<lparr>b_attempts := atts, b_waiters := joined participant now ws, b_updated := now\<rparr>)"
proof -
  have v: "valid_budget now (rec\<lparr>b_attempts := atts, b_waiters := ws\<rparr>)"
    unfolding atts ws by (rule valid_live [OF assms(1)])
  then have vw: "\<forall>w \<in> set ws. valid_waiter now w" "distinct (map w_participant ws)"
    "set (map w_participant ws) \<inter> set (pending_participants atts) = {}" "sorted (map w_enqueued ws)"
    "length ws \<le> max_waiters"
    by (simp_all add: valid_budget_def)
  have "participant \<notin> set (pending_participants atts)"
    using np by (auto simp: pending_participants_def)
  then have "set (map w_participant (joined participant now ws)) \<inter> set (pending_participants atts) = {}"
    using vw(3) unfolding joined_participants by auto
  moreover have "distinct (map w_participant (joined participant now ws))"
    using vw(2) unfolding joined_participants by auto
  moreover have "sorted (map w_enqueued (joined participant now ws))"
    using vw(1,4) unfolding joined_enqueued by (fastforce simp: sorted_append valid_waiter_def)
  moreover have "length (joined participant now ws) \<le> max_waiters"
    by (rule joined_room [OF room vw(5)])
  ultimately show ?thesis
    using v joined_valid [OF vw(1) assms(2)] by (simp add: valid_budget_def)
qed

lemma distinct_tl_map: "distinct (map f xs) \<Longrightarrow> distinct (map f (tl xs))"
  by (simp add: map_tl distinct_tl)

lemma joined_head:
  assumes "place participant ws = 0"
  shows "joined participant now ws \<noteq> [] \<and> w_participant (hd (joined participant now ws)) = participant"
proof (cases "queue_index participant ws")
  case None
  then show ?thesis using assms by (simp add: joined_def place_def)
next
  case (Some i)
  then have "i = 0" "0 < length ws" "w_participant (ws ! 0) = participant"
    using assms queue_index_Some [OF Some] by (auto simp: place_def)
  then show ?thesis using Some by (cases ws) (auto simp: joined_def)
qed

lemma acquire_valid:
  assumes "valid_budget now rec" and "hex_string 64 participant" and "hex_string 32 token"
    and atts: "atts = filter (live_permit now) (b_attempts rec)" and ws: "ws = filter (live_waiter now) (b_waiters rec)"
    and fresh: "token \<notin> p_token ` set atts"
    and b: "snd (acquire participant token now rec atts ws) = Some b"
  shows "valid_budget now b \<and> b_project b = b_project rec"
proof (cases rule: acquire_cases [where atts = atts and participant = participant and token = token and now = now and rec = rec and ws = ws])
  case pending
  then show ?thesis using b by simp
next
  case overload
  then show ?thesis using b by simp
next
  case granted
  let ?q = "joined participant now ws"
  let ?n = "\<lparr>p_token = token, p_participant = participant, p_reserved = now, p_completed = None\<rparr>"
  have v: "valid_budget now (rec\<lparr>b_attempts := atts, b_waiters := ?q, b_updated := now\<rparr>)"
    by (rule queued_valid [OF assms(1,2) atts ws granted(1,5)])
  then have q: "\<forall>w \<in> set ?q. valid_waiter now w" "distinct (map w_participant ?q)"
    "set (map w_participant ?q) \<inter> set (pending_participants atts) = {}" "sorted (map w_enqueued ?q)"
    "length ?q \<le> max_waiters" "\<forall>p \<in> set atts. valid_permit now p" "distinct (map p_token atts)"
    "distinct (pending_participants atts)"
    by (simp_all add: valid_budget_def)
  obtain w rest where h: "?q = w # rest" "w_participant w = participant"
    using joined_head [OF granted(2), of now] by (cases ?q) auto
  have "participant \<notin> set (pending_participants atts)"
    using granted(1) by (auto simp: pending_participants_def)
  then have "distinct (pending_participants (atts @ [?n]))"
    using q(8) by (simp add: pending_participants_def)
  moreover have "set (map w_participant rest) \<inter> set (pending_participants (atts @ [?n])) = {}"
    using q(2,3) h by (auto simp: pending_participants_def)
  ultimately show ?thesis
    using b granted(4,8) q h assms(2,3) fresh
    by (auto simp: valid_budget_def valid_permit_def) blast
next
  case (queued r)
  then show ?thesis
    using queued_valid [OF assms(1,2) atts ws queued(1,3)] b by (auto split: if_splits)
qed

lemma complete_permit_tokens: "map p_token (complete_permit token now ps) = map p_token ps"
  by (induction ps) auto

lemma complete_permit_length: "length (complete_permit token now ps) = length ps"
  by (induction ps) auto

lemma complete_permit_pending:
  "set (pending_participants (complete_permit token now ps)) \<subseteq> set (pending_participants ps)"
  by (induction ps) (auto simp: pending_participants_def)

lemma complete_permit_distinct:
  "distinct (pending_participants ps) \<Longrightarrow> distinct (pending_participants (complete_permit token now ps))"
proof (induction ps)
  case (Cons p ps)
  then show ?case
    using complete_permit_pending [of token now ps] by (auto simp: pending_participants_def)
qed (simp add: pending_participants_def)

lemmas complete_permit_props =
  complete_permit_tokens complete_permit_length complete_permit_pending complete_permit_distinct

lemma complete_permit_set:
  "q \<in> set (complete_permit token now ps) \<Longrightarrow>
   q \<in> set ps \<or> (\<exists>p \<in> set ps. q = p\<lparr>p_completed := Some now\<rparr> \<and> p_token p = token)"
  by (induction ps) (auto split: if_splits)

lemma valid_completed: "valid_permit now p \<Longrightarrow> valid_permit now (p\<lparr>p_completed := Some now\<rparr>)"
  by (simp add: valid_permit_def)

lemma complete_permit_valid:
  "\<forall>p \<in> set ps. valid_permit now p \<Longrightarrow> \<forall>p \<in> set (complete_permit token now ps). valid_permit now p"
  using complete_permit_set valid_completed by blast

lemma complete_valid:
  assumes "valid_budget now rec"
    and atts: "atts = filter (live_permit now) (b_attempts rec)" and ws: "ws = filter (live_waiter now) (b_waiters rec)"
    and c: "complete participant token now rec atts ws = Inr ((), Some b)"
  shows "valid_budget now b \<and> b_project b = b_project rec"
proof -
  have b: "b = rec\<lparr>b_attempts := complete_permit token now atts, b_waiters := ws, b_updated := now\<rparr>"
    using c by (auto simp: complete_def split: option.splits if_splits)
  have "valid_budget now (rec\<lparr>b_attempts := atts, b_waiters := ws\<rparr>)"
    unfolding atts ws by (rule valid_live [OF assms(1)])
  then show ?thesis
    using complete_permit_props [where token = token and now = now and ps = atts]
      complete_permit_valid [where token = token and now = now and ps = atts]
    unfolding b valid_budget_def by (simp add: subset_iff) blast
qed

end
