(* ===== verification/LogBudgetHistory.thy ===== *)
theory LogBudgetHistory
  imports LogBudgetRecords
begin

text \<open>
  The log budget as a sequence of committed versions: the step relation, what a step may do to the permits
  and to the next due time, and the relation between a version and all later ones.
\<close>

section \<open>Atomic versions\<close>

text \<open>
  One committed version: a replica read the current version at \<open>now\<close>, decided on it and replaced it.
\<close>

inductive lb_step :: "string \<Rightarrow> cas_store \<Rightarrow> cas_store \<Rightarrow> bool" for project where
  reserved: "hex_string 64 participant \<Longrightarrow> parse_record now project (c_doc s) = Inr (rec, atts, ws) \<Longrightarrow>
    snd (acquire participant token now rec atts ws) = Some b \<Longrightarrow> lb_step project s (write_doc b s)"
| finished: "parse_record now project (c_doc s) = Inr (rec, atts, ws) \<Longrightarrow>
    complete participant token now rec atts ws = Inr ((), Some b) \<Longrightarrow> lb_step project s (write_doc b s)"

inductive_cases lb_stepE [elim?]: "lb_step project s t"

abbreviation lb_history :: "string \<Rightarrow> cas_store \<Rightarrow> cas_store \<Rightarrow> bool" where
  "lb_history project \<equiv> (lb_step project)\<^sup>*\<^sup>*"

text \<open>A stored version that still parses parses to what was stored.\<close>

lemma parse_permits_stored:
  "parse_permits now seen pending (map store_permit ps) = Inr (qs, pend) \<Longrightarrow> qs = ps"
proof (induction ps arbitrary: seen pending qs pend)
  case (Cons p ps)
  then show ?case
    by (cases "p_completed p")
      (auto simp: stored_permit [of p] lb_get_def same_keys_stored map_result_Inr permit_eq split: if_splits)
qed simp

lemma parse_waiters_stored:
  "parse_waiters now seen pending previous (map store_waiter ws) = Inr vs \<Longrightarrow> vs = ws"
proof (induction ws arbitrary: seen previous vs)
  case (Cons w ws)
  then show ?case
    by (auto simp: stored_waiter [of w] lb_get_def same_keys_stored map_result_Inr split: if_splits option.splits)
qed simp

lemma parse_stored:
  assumes "parse_record now project (Some (store_budget b)) = Inr (rec, atts, ws)"
  shows "rec = b"
proof -
  have "b_project b = project"
    using assms by (auto simp: parse_record_def store_budget_def lb_get_def split: if_splits)
  then show ?thesis
    using assms
    by (auto simp: parse_record_def store_budget_def lb_get_def same_keys_stored not_less
        split: if_splits sum.splits prod.splits dest!: parse_permits_stored parse_waiters_stored)
qed

text \<open>What one version does to the record it replaces.\<close>

definition lb_change :: "string \<Rightarrow> int \<Rightarrow> budget \<Rightarrow> budget \<Rightarrow> bool" where
  "lb_change project now rec b =
     (b_updated rec \<le> now \<and> b_updated b = now \<and> b_project b = project \<and>
      (b_next_due b = b_next_due rec \<or> b_next_due rec \<le> now \<and> b_next_due b = now + cadence_seconds * second) \<and>
      (\<forall>p \<in> set (b_attempts rec). live_permit now p \<longrightarrow>
         p \<in> set (b_attempts b) \<or> p_completed p = None \<and> p\<lparr>p_completed := Some now\<rparr> \<in> set (b_attempts b)))"

lemma complete_permit_keeps:
  "p \<in> set ps \<Longrightarrow> p \<in> set (complete_permit token now ps) \<or>
   p\<lparr>p_completed := Some now\<rparr> \<in> set (complete_permit token now ps) \<and> find (\<lambda>p. p_token p = token) ps = Some p"
  by (induction ps) auto

lemma lb_change_acquire:
  assumes "parse_record now project snap = Inr (rec, atts, ws)"
    and "snd (acquire participant token now rec atts ws) = Some b"
  shows "lb_change project now rec b"
proof -
  have r: "b_updated rec \<le> now" "b_project rec = project" "atts = filter (live_permit now) (b_attempts rec)"
    using parse_record_valid [OF assms(1)] by (simp_all add: valid_budget_def)
  show ?thesis
  proof (cases rule: acquire_cases [where atts = atts and participant = participant and token = token
        and now = now and rec = rec and ws = ws])
    case granted
    show ?thesis using granted(3,8) assms(2) r by (auto simp: lb_change_def)
  next
    case (queued r')
    show ?thesis using queued(4,9) assms(2) r by (auto simp: lb_change_def split: if_splits)
  qed (use assms(2) in simp_all)
qed

lemma lb_change_complete:
  assumes "parse_record now project snap = Inr (rec, atts, ws)"
    and "complete participant token now rec atts ws = Inr ((), Some b)"
  shows "lb_change project now rec b"
proof -
  have r: "b_updated rec \<le> now" "b_project rec = project" "atts = filter (live_permit now) (b_attempts rec)"
    using parse_record_valid [OF assms(1)] by (simp_all add: valid_budget_def)
  obtain p where p: "find (\<lambda>p. p_token p = token) atts = Some p" "p_completed p = None"
    and b: "b = rec\<lparr>b_attempts := complete_permit token now atts, b_waiters := ws, b_updated := now\<rparr>"
    using assms(2) by (auto simp: complete_def split: option.splits if_splits)
  have "q \<in> set (b_attempts b) \<or> p_completed q = None \<and> q\<lparr>p_completed := Some now\<rparr> \<in> set (b_attempts b)"
    if "q \<in> set (b_attempts rec)" "live_permit now q" for q
    using complete_permit_keeps [of q atts token now] that p by (auto simp: r(3) b)
  then show ?thesis using r by (simp add: lb_change_def b)
qed

lemma lb_step_change:
  assumes "lb_step project s t"
  shows "\<exists>now rec atts ws b. parse_record now project (c_doc s) = Inr (rec, atts, ws) \<and>
    lb_change project now rec b \<and> t = write_doc b s"
  using assms
proof cases
  case reserved
  then show ?thesis using lb_change_acquire by blast
next
  case finished
  then show ?thesis using lb_change_complete by blast
qed

section \<open>Histories of versions\<close>

definition same_permit :: "permit \<Rightarrow> permit \<Rightarrow> bool" where
  "same_permit p q = (p_token q = p_token p \<and> p_participant q = p_participant p \<and> p_reserved q = p_reserved p)"

text \<open>A permit of \<open>d\<close> in the later version \<open>e\<close>: still charged, or gone a minute after it was completed.\<close>

definition charged :: "budget \<Rightarrow> budget \<Rightarrow> permit \<Rightarrow> bool" where
  "charged d e p =
     ((\<exists>q \<in> set (b_attempts e). same_permit p q \<and>
         (p_completed q = p_completed p \<or>
          p_completed p = None \<and> (\<exists>c. p_completed q = Some c \<and> b_updated d \<le> c))) \<or>
      (\<exists>c. (p_completed p = Some c \<or> p_completed p = None \<and> b_updated d \<le> c) \<and> c + 60 * second \<le> b_updated e))"

definition lb_later :: "budget \<Rightarrow> budget \<Rightarrow> bool" where
  "lb_later d e =
     (b_updated d \<le> b_updated e \<and> b_next_due d \<le> b_next_due e \<and> (\<forall>p \<in> set (b_attempts d). charged d e p))"

lemma lb_later_refl: "lb_later d d"
  by (auto simp: lb_later_def charged_def same_permit_def)

lemma same_permit_trans: "same_permit p q \<Longrightarrow> same_permit q r \<Longrightarrow> same_permit p r"
  by (simp add: same_permit_def)

lemma charged_trans:
  assumes "charged d e p" and "lb_later e f" and "b_updated d \<le> b_updated e"
  shows "charged d f p"
proof -
  have u: "b_updated e \<le> b_updated f" and l: "\<forall>q \<in> set (b_attempts e). charged e f q"
    using assms(2) by (simp_all add: lb_later_def)
  show ?thesis
  proof (cases "\<exists>c. (p_completed p = Some c \<or> p_completed p = None \<and> b_updated d \<le> c) \<and> c + 60 * second \<le> b_updated e")
    case True
    then show ?thesis using u unfolding charged_def by (meson le_less_trans order_trans)
  next
    case False
    then obtain q where q: "q \<in> set (b_attempts e)" "same_permit p q"
      and c: "p_completed q = p_completed p \<or> p_completed p = None \<and> (\<exists>c. p_completed q = Some c \<and> b_updated d \<le> c)"
      using assms(1) unfolding charged_def by blast
    from l q(1) have "charged e f q" by blast
    then consider (kept) r where "r \<in> set (b_attempts f)" "same_permit q r"
        "p_completed r = p_completed q \<or> p_completed q = None \<and> (\<exists>c. p_completed r = Some c \<and> b_updated e \<le> c)"
      | (gone) c where "p_completed q = Some c \<or> p_completed q = None \<and> b_updated e \<le> c" "c + 60 * second \<le> b_updated f"
      unfolding charged_def by blast
    then show ?thesis
    proof cases
      case kept
      have "p_completed r = p_completed p \<or> p_completed p = None \<and> (\<exists>c. p_completed r = Some c \<and> b_updated d \<le> c)"
        using kept(3) c assms(3) by (cases "p_completed p"; cases "p_completed q") auto
      then show ?thesis
        using kept(1) same_permit_trans [OF q(2) kept(2)] unfolding charged_def by blast
    next
      case gone
      have "p_completed p = Some c \<or> p_completed p = None \<and> b_updated d \<le> c"
        using gone(1) \<open>p_completed q = p_completed p \<or> _\<close> assms(3) by auto
      then show ?thesis using gone(2) unfolding charged_def by blast
    qed
  qed
qed

lemma lb_later_trans: "lb_later d e \<Longrightarrow> lb_later e f \<Longrightarrow> lb_later d f"
  unfolding lb_later_def [of d] using charged_trans [of d e _ f] by (auto simp: lb_later_def)

lemma lb_change_later: "lb_change project now d e \<Longrightarrow> lb_later d e"
proof -
  assume c: "lb_change project now d e"
  have "charged d e p" if p: "p \<in> set (b_attempts d)" for p
  proof (cases "live_permit now p")
    case True
    then have "p \<in> set (b_attempts e) \<or> p_completed p = None \<and> p\<lparr>p_completed := Some now\<rparr> \<in> set (b_attempts e)"
      using c p by (simp add: lb_change_def)
    moreover have "b_updated d \<le> now" using c by (simp add: lb_change_def)
    moreover have "same_permit p p" "same_permit p (p\<lparr>p_completed := Some now\<rparr>)"
      "p_completed (p\<lparr>p_completed := Some now\<rparr>) = Some now"
      by (simp_all add: same_permit_def)
    ultimately show ?thesis unfolding charged_def by blast
  next
    case False
    then obtain t where "p_completed p = Some t" "t + 60 * second \<le> now"
      by (auto simp: live_permit_def split: option.splits)
    then show ?thesis using c by (auto simp: charged_def lb_change_def)
  qed
  then show ?thesis using c by (auto simp: lb_later_def lb_change_def cadence_seconds_def second_def)
qed

lemma lb_history_later:
  assumes "lb_history project s t" and "c_doc s = Some (store_budget d)"
  shows "\<exists>e. c_doc t = Some (store_budget e) \<and> lb_later d e"
  using assms(1)
proof (induction rule: rtranclp_induct)
  case base
  then show ?case using assms(2) lb_later_refl by blast
next
  case (step t u)
  then obtain e where e: "c_doc t = Some (store_budget e)" "lb_later d e" by blast
  obtain now rec atts ws b where p: "parse_record now project (c_doc t) = Inr (rec, atts, ws)"
    "lb_change project now rec b" "u = write_doc b t"
    using lb_step_change [OF step.hyps(2)] by blast
  have "rec = e" using p(1) parse_stored unfolding e(1) by blast
  then have "lb_later e b" using lb_change_later [OF p(2)] by simp
  then show ?case using lb_later_trans [OF e(2)] p(3) by (auto simp: write_doc_def)
qed

section \<open>The compare-and-swap loop\<close>

text \<open>
  The outcome of one call: how many rounds of other replicas' commits it lived through, and whether its
  decision was written on the version those left.
\<close>

definition cas_outcome ::
  "string \<Rightarrow> 'a transform \<Rightarrow> cas_store \<Rightarrow> 'a result \<Rightarrow> cas_store \<Rightarrow> bool" where
  "cas_outcome project f u res t =
     (if t = u
      then \<forall>r. res = Inr r \<longrightarrow>
        (\<exists>now rec atts ws. parse_record now project (c_doc u) = Inr (rec, atts, ws) \<and> f now rec atts ws = Inr (r, None))
      else \<exists>now rec atts ws r b. parse_record now project (c_doc u) = Inr (rec, atts, ws) \<and>
        f now rec atts ws = Inr (r, Some b) \<and> t = write_doc b u \<and> (res = Inr r \<or> res = Inl deadline_expired))"

lemma write_doc_changes [simp]: "write_doc b s \<noteq> s"
  by (cases s) (simp add: write_doc_def)

lemma cas_outcome_commit:
  "parse_record now project (c_doc u) = Inr (rec, atts, ws) \<Longrightarrow> f now rec atts ws = Inr (r, Some b) \<Longrightarrow>
   res = Inr r \<or> res = Inl deadline_expired \<Longrightarrow> cas_outcome project f u res (write_doc b u)"
  unfolding cas_outcome_def if_not_P [OF write_doc_changes] by blast

lemma cas_loop_outcome:
  assumes "\<forall>a \<in> set as. \<forall>s. a_others a s = s \<or> c_version s < c_version (a_others a s)"
  shows "\<exists>n \<le> length as. cas_outcome project f (fold a_others (take n as) s)
    (fst (cas_loop project f as s)) (snd (cas_loop project f as s))"
  using assms
proof (induction as arbitrary: s)
  case Nil
  then show ?case by (simp add: cas_outcome_def)
next
  case (Cons a as)
  have stop: ?case if "\<exists>e. cas_loop project f (a # as) s = (Inl e, s)"
    using that by (intro exI [of _ 0]) (auto simp: cas_outcome_def)
  show ?case
  proof (cases "parse_record (a_now a) project (c_doc s)")
    case (Inl e)
    then show ?thesis by (intro stop) auto
  next
    case (Inr v)
    then obtain rec atts ws where p: "parse_record (a_now a) project (c_doc s) = Inr (rec, atts, ws)"
      by (cases v) auto
    show ?thesis
    proof (cases "f (a_now a) rec atts ws")
      case (Inl e)
      then show ?thesis using p by (intro stop) auto
    next
      case (Inr w)
      then obtain r repl where f: "f (a_now a) rec atts ws = Inr (r, repl)" by (cases w) auto
      let ?live = "a_before_read a \<and> a_after_read a \<and> a_after_transform a"
      consider (dead) "\<not> ?live" | (keep) "?live" "repl = None"
        | (late) b where "?live" "repl = Some b" "\<not> a_before_write a"
        | (commit) b where "?live" "repl = Some b" "a_before_write a"
        by (cases repl) auto
      then show ?thesis
      proof cases
        case dead
        then show ?thesis using p f by (intro stop) auto
      next
        case keep
        then have "cas_loop project f (a # as) s = (Inr r, s)" using p f by simp
        then show ?thesis
          using p f keep by (intro exI [of _ 0]) (auto simp: cas_outcome_def)
      next
        case late
        then show ?thesis using p f by (intro stop) auto
      next
        case commit
        show ?thesis
        proof (cases "c_version (a_others a s) = c_version s")
          case False
          then have "cas_loop project f (a # as) s = cas_loop project f as (a_others a s)"
            using commit p f by (simp add: Let_def)
          moreover obtain n where "n \<le> length as" "cas_outcome project f (fold a_others (take n as) (a_others a s))
              (fst (cas_loop project f as (a_others a s))) (snd (cas_loop project f as (a_others a s)))"
            using Cons.IH [of "a_others a s"] Cons.prems by (metis list.set_intros(2))
          ultimately show ?thesis by (intro exI [of _ "Suc n"]) simp
        next
          case True
          then have s: "a_others a s = s" using Cons.prems by force
          then have "cas_loop project f (a # as) s =
              (if a_after_write a then Inr r else Inl deadline_expired, write_doc b s)"
            using commit p f by (simp add: Let_def)
          moreover have "cas_outcome project f s (if a_after_write a then Inr r else Inl deadline_expired) (write_doc b s)"
            by (rule cas_outcome_commit [where r = r and b = b, OF p]) (use f commit(2) in auto)
          ultimately show ?thesis by (intro exI [of _ 0]) (simp del: cas_loop.simps)
        qed
      qed
    qed
  qed
qed

lemma compare_and_swap_outcome:
  assumes "\<forall>a \<in> set as. \<forall>s. a_others a s = s \<or> c_version s < c_version (a_others a s)"
  shows "\<exists>n \<le> max_cas_attempts. cas_outcome project f (fold a_others (take n as) s)
    (fst (compare_and_swap project f alive as s)) (snd (compare_and_swap project f alive as s))"
proof (cases alive)
  case True
  have "\<forall>a \<in> set (take max_cas_attempts as). \<forall>s. a_others a s = s \<or> c_version s < c_version (a_others a s)"
    using assms by (meson in_set_takeD)
  from cas_loop_outcome [OF this, of project f s] obtain n where n: "n \<le> length (take max_cas_attempts as)"
    "cas_outcome project f (fold a_others (take n (take max_cas_attempts as)) s)
      (fst (compare_and_swap project f alive as s)) (snd (compare_and_swap project f alive as s))"
    using True unfolding compare_and_swap_def by auto
  then have "take n (take max_cas_attempts as) = take n as" by simp
  then show ?thesis using n by (intro exI [of _ n]) simp
next
  case False
  then show ?thesis by (intro exI [of _ 0]) (simp add: compare_and_swap_def cas_outcome_def)
qed

section \<open>Places in the queue\<close>

lemma place_simps [simp]:
  "place p [] = 0"
  "place p (w # ws) = (if w_participant w = p then 0 else Suc (place p ws))"
  by (simp_all add: place_def split: option.split)

lemma place_append:
  "place p (us @ ws) = (if p \<in> set (map w_participant us) then place p us else length us + place p ws)"
  by (induction us) auto

lemma place_filter_le: "w \<in> set ws \<Longrightarrow> w_participant w = p \<Longrightarrow> P w \<Longrightarrow> distinct (map w_participant ws) \<Longrightarrow>
  place p (filter P ws) \<le> place p ws"
  by (induction ws) (auto simp: image_iff)

lemma place_less: "p \<in> set (map w_participant ws) \<Longrightarrow> place p ws < length ws"
  by (induction ws) auto

lemma place_names: "map w_participant vs = map w_participant ws \<Longrightarrow> place p vs = place p ws"
proof (induction ws arbitrary: vs)
  case (Cons w ws)
  then obtain v vs' where "vs = v # vs'" "w_participant v = w_participant w"
    "map w_participant vs' = map w_participant ws"
    by (cases vs) simp_all
  then show ?case using Cons.IH [of vs'] by simp
qed simp

lemma place_fresh: "p \<notin> set (map w_participant ws) \<Longrightarrow> place p ws = length ws"
  by (induction ws) auto

lemma place_joined: "place p (joined p now ws) = place p ws"
proof (cases "p \<in> set (map w_participant ws)")
  case True
  then show ?thesis by (intro place_names) (simp add: joined_participants)
next
  case False
  then have "queue_index p ws = None" by (simp add: queue_index_None)
  then show ?thesis using False place_fresh [OF False] by (simp add: joined_def place_append)
qed

lemma joined_seen: "\<exists>w \<in> set (joined p now ws). w_participant w = p \<and> w_seen w = now"
proof (cases "queue_index p ws")
  case (Some i)
  have i: "i < length ws" "w_participant (ws ! i) = p" using queue_index_Some [OF Some] by simp_all
  then have "(ws ! i)\<lparr>w_seen := now\<rparr> \<in> set (joined p now ws)"
    using Some by (simp add: joined_def set_update_memI)
  then show ?thesis using i(2) by (auto intro: bexI [rotated])
qed (simp add: joined_def)

lemma joined_tl:
  assumes "place p ws = 0"
  shows "map w_participant (tl (joined p now ws)) = tl (map w_participant ws)"
proof (cases ws)
  case Nil
  then show ?thesis by (simp add: joined_def)
next
  case (Cons w vs)
  then have "map w_participant (joined p now ws) = map w_participant ws"
    using assms by (simp add: joined_participants split: if_splits)
  then show ?thesis by (metis map_tl)
qed

lemma acquire_position:
  "lr_allowed (fst (acquire participant token now rec atts ws)) \<Longrightarrow>
   lr_position (fst (acquire participant token now rec atts ws)) = None"
  by (cases rule: acquire_cases [where atts = atts and participant = participant and token = token
      and now = now and rec = rec and ws = ws]) (auto simp: acquire_def Let_def pending_reservation_def split: if_splits)

end
