(* ===== verification/LogBudgetProperties.thy ===== *)
theory LogBudgetProperties
  imports LogBudgetHistory
begin

text \<open>
  What the log budget guarantees: its own writes are always readable again, a permit is charged until a
  minute after it is known to be complete, grants are five seconds apart and go to the head of the queue, and
  a compare-and-swap that returns has applied its decision to the version it replaced.
\<close>

text \<open>
  The budget never locks itself out.  Whatever version of the record a replica has read and validated, the
  record it writes to grant, queue or complete (with a fresh token) validates at every later server time, with
  exactly the permits and waiters it holds.
\<close>

theorem log_budget_writes_readable:
  assumes "parse_record now project snap = Inr (rec, atts, ws)"
    and "hex_string 64 participant" and "hex_string 32 token" and "now \<le> now'"
    and "(snd (acquire participant token now rec atts ws) = Some b \<and> token \<notin> p_token ` set atts) \<or>
      complete participant token now rec atts ws = Inr ((), Some b)"
  shows "parse_record now' project (Some (store_budget b)) =
    Inr (b, filter (live_permit now') (b_attempts b), filter (live_waiter now') (b_waiters b))"
proof -
  have p: "valid_budget now rec" "b_project rec = project"
    "atts = filter (live_permit now) (b_attempts rec)" "ws = filter (live_waiter now) (b_waiters rec)"
    using parse_record_valid [OF assms(1)] by simp_all
  have "valid_budget now b \<and> b_project b = b_project rec"
    using assms(5) acquire_valid [OF p(1) assms(2,3) p(3,4)] complete_valid [OF p(1,3,4)] by blast
  then show ?thesis
    using parse_stored_budget [of now' b] valid_budget_later [of now b now'] assms(4) p(2) by simp
qed

definition sample_participant :: string where "sample_participant = replicate 64 (CHR ''a'')"

definition other_participant :: string where "other_participant = replicate 64 (CHR ''b'')"

definition sample_token :: string where "sample_token = replicate 32 (CHR ''c'')"

definition sample_record :: budget where
  "sample_record =
     \<lparr>b_project = ''quota'', b_attempts = [\<lparr>p_token = sample_token, p_participant = sample_participant,
        p_reserved = 0, p_completed = None\<rparr>],
      b_waiters = [], b_next_due = 5 * second, b_updated = 0\<rparr>"

lemma sample_grant:
  "acquire sample_participant sample_token 0 (fresh_budget ''quota'' 0) [] [] =
     (\<lparr>lr_allowed = True, lr_server_time = 0, lr_next_poll = 5, lr_token = sample_token, lr_position = None,
       lr_wait = None, lr_overloaded = False, lr_reason = None\<rparr>, Some sample_record)"
  by (simp add: acquire_def fresh_budget_def sample_record_def max_waiters_def max_attempts_def
      cadence_seconds_def second_def)

lemma sample_hex: "hex_string 64 sample_participant" "hex_string 64 other_participant" "hex_string 32 sample_token"
  by code_simp+

lemma sample_fresh: "parse_record now project None = Inr (fresh_budget project now, [], [])"
  by (simp add: parse_record_def)

lemma log_budget_writes_readable_witness:
  "parse_record 7 ''quota'' (Some (store_budget sample_record)) =
     Inr (sample_record, filter (live_permit 7) (b_attempts sample_record), filter (live_waiter 7) (b_waiters sample_record))"
  by (rule log_budget_writes_readable [OF sample_fresh [of 0] sample_hex(1,3), where now' = 7 and b = sample_record])
    (simp_all add: sample_grant)

text \<open>A store after the first grant, and the version after its completion at second one.\<close>

definition granted_store :: cas_store where
  "granted_store = \<lparr>c_doc = Some (store_budget sample_record), c_version = 1\<rparr>"

definition finished_record :: budget where
  "finished_record = sample_record\<lparr>b_attempts := complete_permit sample_token second (b_attempts sample_record),
     b_updated := second\<rparr>"

lemma sample_valid: "0 \<le> now \<Longrightarrow> valid_budget now sample_record"
  using sample_hex
  by (simp add: valid_budget_def sample_record_def valid_permit_def pending_participants_def max_attempts_def
      max_waiters_def)

lemma finished_valid: "second \<le> now \<Longrightarrow> valid_budget now finished_record"
  using sample_hex
  by (simp add: valid_budget_def finished_record_def sample_record_def valid_permit_def pending_participants_def
      max_attempts_def max_waiters_def second_def)

lemma sample_read:
  "0 \<le> now \<Longrightarrow> parse_record now ''quota'' (c_doc granted_store) = Inr (sample_record, b_attempts sample_record, [])"
  using parse_stored_budget [OF sample_valid]
  by (simp add: granted_store_def sample_record_def live_permit_def)

lemma sample_finish:
  "complete sample_participant sample_token second sample_record (b_attempts sample_record) [] =
     Inr ((), Some finished_record)"
  by (simp add: complete_def sample_record_def finished_record_def)

lemma sample_history: "lb_history ''quota'' granted_store (write_doc finished_record granted_store)"
  by (rule r_into_rtranclp, rule lb_step.finished [OF sample_read sample_finish]) (simp add: second_def)

text \<open>
  A reservation takes effect at one version.  Whatever the other replicas commit between its reads and its
  writes, the call ends after at most three rounds, either with nothing written or with its decision on
  exactly the version it replaced, and the answer it returns is that decision's.  Only an expired deadline
  hides a decision that was written, and such a write is never repeated.
\<close>

theorem log_reserve_atomic:
  assumes "\<forall>a \<in> set attempts. \<forall>s. a_others a s = s \<or> c_version s < c_version (a_others a s)"
    and "log_reserve project token participant alive attempts s = (res, t)"
  shows "\<exists>n \<le> 3. \<exists>u. u = fold a_others (take n attempts) s \<and>
    (t = u \<and> (\<forall>r. res = Inr r \<longrightarrow> (\<exists>now rec atts ws.
        parse_record now project (c_doc u) = Inr (rec, atts, ws) \<and>
        acquire participant token now rec atts ws = (r, None))) \<or>
     (\<exists>now rec atts ws r b. parse_record now project (c_doc u) = Inr (rec, atts, ws) \<and>
        acquire participant token now rec atts ws = (r, Some b) \<and> t = write_doc b u \<and>
        (res = Inr r \<or> res = Inl deadline_expired)))"
proof (cases "participant_check participant")
  case (Inl e)
  then have "t = s" "res = Inl e" using assms(2) by (simp_all add: log_reserve_def)
  then show ?thesis by (intro exI [of _ 0]) auto
next
  case (Inr v)
  let ?f = "\<lambda>now rec atts ws. Inr (acquire participant token now rec atts ws)"
  have run: "compare_and_swap project ?f alive attempts s = (res, t)"
    using assms(2) Inr by (simp add: log_reserve_def)
  from compare_and_swap_outcome [OF assms(1), of project ?f s alive]
  obtain n where "n \<le> 3" "cas_outcome project ?f (fold a_others (take n attempts) s) res t"
    unfolding run by (auto simp: max_cas_attempts_def)
  then show ?thesis
    unfolding cas_outcome_def by (intro exI [of _ n]) (auto split: if_splits)
qed

lemma log_reserve_atomic_witness:
  "\<exists>b. granted_store = write_doc b \<lparr>c_doc = None, c_version = 0\<rparr>"
proof -
  let ?a = "\<lparr>a_now = 0, a_others = id, a_before_read = True, a_after_read = True, a_after_transform = True,
    a_before_write = True, a_after_write = True\<rparr>"
  let ?s = "\<lparr>c_doc = None, c_version = 0\<rparr>"
  have run: "log_reserve ''quota'' sample_token sample_participant True [?a] ?s =
      (Inr (fst (acquire sample_participant sample_token 0 (fresh_budget ''quota'' 0) [] [])), granted_store)"
    using sample_hex
    by (simp add: log_reserve_def participant_check_def raise_if_def compare_and_swap_def max_cas_attempts_def
        sample_fresh sample_grant write_doc_def granted_store_def Let_def)
  have "fold a_others (take n [?a]) ?s = ?s" for n by (cases n) simp_all
  moreover have "granted_store \<noteq> ?s" by (simp add: granted_store_def)
  ultimately show ?thesis
    using log_reserve_atomic [OF _ run] by (auto simp: sample_fresh sample_grant)
qed

text \<open>
  C14: no refunds.  From any version to any later one, whatever replicas reserve, queue and finish in between,
  a permit stays in the record with its token, owner and reservation time until a minute after it was
  completed, and a permit that was pending is charged from a completion recorded later.
\<close>

theorem log_budget_no_refund:
  assumes "lb_history project s t" and "c_doc s = Some (store_budget d)" and "p \<in> set (b_attempts d)"
  shows "\<exists>e. c_doc t = Some (store_budget e) \<and>
    ((\<exists>q \<in> set (b_attempts e). p_token q = p_token p \<and> p_participant q = p_participant p \<and>
        p_reserved q = p_reserved p \<and> (p_completed p \<noteq> None \<longrightarrow> p_completed q = p_completed p)) \<or>
     (\<exists>c. c + 60 * second \<le> b_updated e \<and>
        (case p_completed p of Some x \<Rightarrow> c = x | None \<Rightarrow> b_updated d \<le> c)))"
proof -
  obtain e where e: "c_doc t = Some (store_budget e)" "charged d e p"
    using lb_history_later [OF assms(1,2)] assms(3) by (auto simp: lb_later_def)
  then show ?thesis
    unfolding charged_def same_permit_def by (intro exI [of _ e]) (auto split: option.splits)
qed

lemma log_budget_no_refund_witness:
  "\<exists>e. c_doc (write_doc finished_record granted_store) = Some (store_budget e) \<and>
    ((\<exists>q \<in> set (b_attempts e). p_token q = sample_token \<and> p_participant q = sample_participant) \<or>
     60 * second \<le> b_updated e)"
  using log_budget_no_refund [OF sample_history, of sample_record
      "\<lparr>p_token = sample_token, p_participant = sample_participant, p_reserved = 0, p_completed = None\<rparr>"]
  by (simp add: granted_store_def) (force simp: sample_record_def)

text \<open>
  The cadence.  Two grants at different versions, by whichever replicas and with whatever commits between
  them, are at least five seconds of server time apart, and neither is given while twelve permits are charged.
\<close>

theorem log_budget_paced:
  assumes "parse_record now project (c_doc s) = Inr (rec, atts, ws)"
    and "acquire participant token now rec atts ws = (r, Some b)" and "lr_allowed r"
    and "lb_history project (write_doc b s) t"
    and "parse_record now' project (c_doc t) = Inr (rec', atts', ws')"
    and "lr_allowed (fst (acquire participant' token' now' rec' atts' ws'))"
  shows "now + 5 * second \<le> now' \<and> length atts < 12 \<and> length atts' < 12"
proof -
  have g: "b_next_due b = now + cadence_seconds * second \<and> length atts < max_attempts"
    using assms(2,3)
    by (cases rule: acquire_cases [where atts = atts and participant = participant and token = token
          and now = now and rec = rec and ws = ws]) (auto simp: pending_reservation_def)
  have g': "b_next_due rec' \<le> now' \<and> length atts' < max_attempts"
    using assms(6)
    by (cases rule: acquire_cases [where atts = atts' and participant = participant' and token = token'
          and now = now' and rec = rec' and ws = ws']) (auto simp: pending_reservation_def)
  obtain e where e: "c_doc t = Some (store_budget e)" "lb_later b e"
    using lb_history_later [OF assms(4), of b] by (auto simp: write_doc_def)
  then have "rec' = e" using assms(5) parse_stored by simp
  then show ?thesis
    using g g' e(2) by (simp add: lb_later_def cadence_seconds_def max_attempts_def)
qed

lemma log_budget_paced_witness: "0 + 5 * second \<le> 6 * second \<and> length ([] :: permit list) < 12"
proof -
  have t: "parse_record (6 * second) ''quota'' (c_doc (write_doc finished_record granted_store)) =
      Inr (finished_record, b_attempts finished_record, [])"
    using parse_stored_budget [OF finished_valid, of "6 * second"]
    by (simp add: write_doc_def finished_record_def sample_record_def live_permit_def second_def)
  have g: "lr_allowed (fst (acquire other_participant sample_token (6 * second) finished_record
      (b_attempts finished_record) []))"
    by (simp add: acquire_def finished_record_def sample_record_def max_waiters_def max_attempts_def second_def)
  have s: "granted_store = write_doc sample_record \<lparr>c_doc = None, c_version = 0\<rparr>"
    by (simp add: granted_store_def write_doc_def)
  have "lb_history ''quota'' (write_doc sample_record \<lparr>c_doc = None, c_version = 0\<rparr>)
      (write_doc finished_record granted_store)"
    using sample_history unfolding s by simp
  from log_budget_paced [OF _ sample_grant _ this t g] show ?thesis
    by (simp add: sample_fresh)
qed

text \<open>
  The queue is first-in, first-out.  A grant goes to the caller only when it is at the head of the live
  queue (or the queue is empty), within budget and cadence, and removes it from the queue; any other answer
  that writes leaves everyone's place and appends the caller if it was not queued; a caller with a pending
  permit gets nothing.
\<close>

theorem log_budget_fifo:
  assumes "acquire participant token now rec atts ws = (r, repl)"
  shows "(lr_allowed r \<longrightarrow> (ws = [] \<or> w_participant (hd ws) = participant) \<and> b_next_due rec \<le> now \<and>
      length atts < 12 \<and> (\<exists>b. repl = Some b \<and> b_next_due b = now + 5 * second \<and>
        map w_participant (b_waiters b) = tl (map w_participant ws) \<and>
        b_attempts b = atts @ [\<lparr>p_token = lr_token r, p_participant = participant, p_reserved = now, p_completed = None\<rparr>])) \<and>
    (\<not> lr_allowed r \<longrightarrow> (\<forall>b. repl = Some b \<longrightarrow> b_attempts b = atts \<and> b_next_due b = b_next_due rec \<and>
        map w_participant (b_waiters b) = map w_participant ws @ (if participant \<in> w_participant ` set ws then [] else [participant]))) \<and>
    ((\<exists>p \<in> set atts. p_participant p = participant \<and> p_completed p = None) \<longrightarrow> \<not> lr_allowed r \<and> repl = None)"
proof (cases rule: acquire_cases [where atts = atts and participant = participant and token = token
      and now = now and rec = rec and ws = ws])
  case granted
  have "ws = [] \<or> w_participant (hd ws) = participant"
    using granted(2) by (cases ws) (auto split: if_splits)
  then show ?thesis
    using granted assms
    by (auto simp: cadence_seconds_def max_attempts_def joined_tl)
next
  case (queued q)
  then show ?thesis using assms by (auto simp: joined_participants split: if_splits)
qed (use assms in \<open>auto simp: pending_reservation_def\<close>)

lemma log_budget_fifo_witness: "b_attempts sample_record = [] @
    [\<lparr>p_token = sample_token, p_participant = sample_participant, p_reserved = 0, p_completed = None\<rparr>]"
  using log_budget_fifo [OF sample_grant] by simp

text \<open>
  A waiter that polls when it is told to keeps its place.  The advised wait is between five and ten
  seconds, and up to twenty-five seconds after that poll is due the caller is still among the live waiters, no
  further back than the position it was given.
\<close>

theorem log_budget_poll_keeps_place:
  assumes "parse_record now project snap = Inr (rec, atts, ws)"
    and "acquire participant token now rec atts ws = (r, repl)" and "lr_position r = Some k"
    and "now' \<le> now + (lr_next_poll r + 25) * second"
  shows "5 \<le> lr_next_poll r \<and> lr_next_poll r \<le> 10 \<and>
    (let live = filter (live_waiter now') (b_waiters (case repl of None \<Rightarrow> rec | Some b \<Rightarrow> b))
     in participant \<in> w_participant ` set live \<and> place participant live < k)"
proof (cases rule: acquire_cases [where atts = atts and participant = participant and token = token
      and now = now and rec = rec and ws = ws])
  case (queued q)
  let ?j = "joined participant now ws"
  have poll: "5 \<le> lr_next_poll r" "lr_next_poll r \<le> 10"
    using queued(8) assms(2) by (simp_all add: cadence_seconds_def max_queue_poll_seconds_def)
  have k: "k = place participant ws + 1" using queued(7) assms(2,3) by simp
  have b: "b_waiters (case repl of None \<Rightarrow> rec | Some b \<Rightarrow> b) = ?j"
  proof -
    have "b_waiters q = ?j" using queued(4) by simp
    then show ?thesis using queued(9) assms(2) by (auto split: if_splits)
  qed
  obtain w where w: "w \<in> set ?j" "w_participant w = participant" "w_seen w = now"
    using joined_seen by blast
  have live: "live_waiter now' w"
    using assms(4) poll w(3)
    by (simp add: live_waiter_def waiter_ttl_seconds_def max_queue_poll_seconds_def second_def)
  have "distinct (map w_participant ws)"
    using parse_record_valid [OF assms(1)] by (simp add: valid_budget_def distinct_map_filter)
  then have "distinct (map w_participant ?j)" by (simp add: joined_participants)
  then have "place participant (filter (live_waiter now') ?j) \<le> place participant ws"
    using place_filter_le [where P = "live_waiter now'", OF w(1,2) live] by (simp add: place_joined)
  then show ?thesis using poll k b w live by (auto simp: Let_def)
qed (use assms(2,3) acquire_position [of participant token now rec atts ws] in \<open>auto simp: pending_reservation_def\<close>)

lemma log_budget_poll_keeps_place_witness:
  "let (r, repl) = acquire other_participant sample_token 0 sample_record (b_attempts sample_record) []
   in lr_next_poll r \<le> 10 \<and> other_participant \<in>
     w_participant ` set (filter (live_waiter (30 * second)) (b_waiters (case repl of None \<Rightarrow> sample_record | Some b \<Rightarrow> b)))"
proof -
  obtain r repl where a: "acquire other_participant sample_token 0 sample_record (b_attempts sample_record) [] = (r, repl)"
    by (cases "acquire other_participant sample_token 0 sample_record (b_attempts sample_record) []")
  have ne: "other_participant \<noteq> sample_participant" by code_simp
  have "(lr_position (fst (acquire other_participant sample_token 0 sample_record (b_attempts sample_record) [])),
      lr_next_poll (fst (acquire other_participant sample_token 0 sample_record (b_attempts sample_record) []))) = (Some 1, 5)"
    using ne by (simp add: acquire_def sample_record_def max_waiters_def max_attempts_def second_def
        cadence_seconds_def max_queue_poll_seconds_def wait_seconds_def ceil_seconds_def)
  then have "lr_position r = Some 1" "30 * second \<le> 0 + (lr_next_poll r + 25) * second"
    unfolding a by simp_all
  from log_budget_poll_keeps_place [OF sample_read a this] show ?thesis
    unfolding a by (simp add: Let_def)
qed

end
