(* ===== verification/Effects.thy ===== *)
theory Effects
  imports DocStore
begin

text \<open>
  Operations that return or raise, and leave a world either way: sequencing, \<open>try\<close> and reading.  The worlds of the
  database jobs, the OAuth provider and the Cloud Build transport are all changed through them.
\<close>

section \<open>Operations\<close>

definition db_return :: "'a \<Rightarrow> ('s, 'a) op" where
  "db_return x w = (Inr x, w)"

definition db_raise :: "py_err \<Rightarrow> ('s, 'a) op" where
  "db_raise e w = (Inl e, w)"

definition reading :: "('s \<Rightarrow> 'a result) \<Rightarrow> ('s, 'a) op" where
  "reading f w = (f w, w)"

definition db_bind :: "('s, 'a) op \<Rightarrow> ('a \<Rightarrow> ('s, 'b) op) \<Rightarrow> ('s, 'b) op" where
  "db_bind m k w = (case m w of (Inl e, w') \<Rightarrow> (Inl e, w') | (Inr x, w') \<Rightarrow> k x w')"

text \<open>\<open>try: m except: h\<close>\<close>

definition db_catch :: "('s, 'a) op \<Rightarrow> (py_err \<Rightarrow> ('s, 'a) op) \<Rightarrow> ('s, 'a) op" where
  "db_catch m h w = (case m w of (Inl e, w') \<Rightarrow> h e w' | (Inr x, w') \<Rightarrow> (Inr x, w'))"

text \<open>\<open>try: body finally: always\<close>\<close>

definition db_finally :: "('s, 'a) op \<Rightarrow> ('s, unit) op \<Rightarrow> ('s, 'a) op" where
  "db_finally m always w =
     (case m w of
        (r, w1) \<Rightarrow> (case always w1 of (Inl e, w2) \<Rightarrow> (Inl e, w2) | (Inr _, w2) \<Rightarrow> (r, w2)))"

text \<open>\<open>for x in xs: f(x)\<close>, and the list of the results\<close>

fun for_each :: "('x \<Rightarrow> ('s, unit) op) \<Rightarrow> 'x list \<Rightarrow> ('s, unit) op" where
  "for_each f [] = db_return ()"
| "for_each f (x # xs) = db_bind (f x) (\<lambda>_. for_each f xs)"

fun collect :: "('x \<Rightarrow> ('s, 'a) op) \<Rightarrow> 'x list \<Rightarrow> ('s, 'a list) op" where
  "collect f [] = db_return []"
| "collect f (x # xs) = db_bind (f x) (\<lambda>y. db_bind (collect f xs) (\<lambda>ys. db_return (y # ys)))"

section \<open>What a sequence returned\<close>

lemma db_bind_Inr: "db_bind m k w = (Inr y, w') \<longleftrightarrow> (\<exists>x v. m w = (Inr x, v) \<and> k x v = (Inr y, w'))"
  by (auto simp: db_bind_def split: prod.splits sum.splits)

lemma reading_Inr: "reading f w = (Inr x, v) \<longleftrightarrow> f w = Inr x \<and> v = w"
  by (auto simp: reading_def)


section \<open>What a sequence leaves alone\<close>

definition keeps :: "('s \<Rightarrow> 'b) \<Rightarrow> ('s, 'a) op \<Rightarrow> bool" where
  "keeps f m = (\<forall>w. f (snd (m w)) = f w)"

named_theorems keeping "operations that keep a part of the world"

lemma keepsD: "keeps f m \<Longrightarrow> m w = (r, w') \<Longrightarrow> f w' = f w"
  by (metis keeps_def snd_conv)

lemma keeps_basic [keeping]:
  "keeps f (db_return x)" "keeps f (db_raise e)" "keeps f (reading g)"
  by (simp_all add: keeps_def db_return_def db_raise_def reading_def)

lemma keeps_bind [keeping]: "keeps f m \<Longrightarrow> (\<And>x. keeps f (k x)) \<Longrightarrow> keeps f (db_bind m k)"
  by (auto simp: keeps_def db_bind_def split: prod.splits sum.splits) (metis snd_conv)+

lemma keeps_catch [keeping]: "keeps f m \<Longrightarrow> (\<And>e. keeps f (h e)) \<Longrightarrow> keeps f (db_catch m h)"
  by (auto simp: keeps_def db_catch_def split: prod.splits sum.splits) (metis snd_conv)+

lemma keeps_for_each [keeping]: "(\<And>x. keeps f (m x)) \<Longrightarrow> keeps f (for_each m xs)"
  by (induction xs) (auto intro: keeping)

lemma keeps_collect [keeping]: "(\<And>x. keeps f (m x)) \<Longrightarrow> keeps f (collect m xs)"
  by (induction xs) (auto intro!: keeping)

end
