(* ===== verification/DatabaseControl.thy ===== *)
theory DatabaseControl
  imports Codec DocStore Effects
begin

text \<open>
  The control plane of the database console: its configuration, the documents of the control store
  (\<open>services/database_job_store.py\<close>), the deployment policy that guards every action
  (\<open>services/database_jobs.py\<close>), browser sessions (\<open>services/database_sessions.py\<close>) and MCP grants
  (\<open>services/mcp_grants.py\<close>).  Times are microseconds; one clock reading serves one operation.
\<close>

section \<open>Configuration\<close>

record db_database =
  dx_id :: string
  dx_schemas :: "string list"
  dx_logins :: "string list"

definition can_read :: "db_database \<Rightarrow> string \<Rightarrow> bool" where
  "can_read d login = (str_lower login \<in> set (dx_logins d))"

text \<open>
  \<open>cf_registry\<close> is what \<open>databases()\<close> loads: \<open>None\<close> when the mounted registry does not validate.
\<close>

record db_config =
  cf_mock :: bool
  cf_enabled :: bool
  cf_executions :: bool
  cf_mcp :: bool
  cf_session_secret :: string
  cf_client_id :: string
  cf_client_secret :: string
  cf_frontend_url :: string
  cf_mcp_base_url :: string
  cf_mcp_collection :: string
  cf_access_ttl :: int
  cf_refresh_ttl :: int
  cf_policy_version :: string
  cf_project :: string
  cf_bucket :: string
  cf_collection :: string
  cf_location :: string
  cf_query_queue :: string
  cf_export_queue :: string
  cf_cleanup_queue :: string
  cf_worker :: string
  cf_api_origin :: string
  cf_registry_sha256 :: string
  cf_logins :: "string list"
  cf_registry :: "db_database list option"

definition log_auth_configured :: "db_config \<Rightarrow> bool" where
  "log_auth_configured cf =
     (32 \<le> length (cf_session_secret cf) \<and> cf_client_id cf \<noteq> [] \<and> cf_client_secret cf \<noteq> [])"

definition databases :: "db_config \<Rightarrow> db_database list result" where
  "databases cf =
     (case cf_registry cf of
        None \<Rightarrow> Inl (DatabaseUnavailable ''Database registry is unavailable'')
      | Some ds \<Rightarrow> Inr ds)"

definition wall_seconds :: int where "wall_seconds = 240"

definition worker_seconds :: int where "worker_seconds = 270"

definition dispatch_seconds :: int where "dispatch_seconds = 300"

definition ttl_seconds :: int where "ttl_seconds = 3600"

definition snapshot_bytes :: int where "snapshot_bytes = 268435456"

definition export_bytes :: int where "export_bytes = 268435456"

text \<open>\<open>json.dumps(value, sort_keys=True)\<close> of the attested settings, with the default separators.\<close>

definition policy_fields :: "db_config \<Rightarrow> (string \<times> string) list" where
  "policy_fields cf =
     [(''registry_sha256'', json_str True (cf_registry_sha256 cf)),
      (''allowed_logins'', ''['' @ join '', '' (map (json_str True) (sort (cf_logins cf))) @ '']''),
      (''oauth_client_id'', json_str True (cf_client_id cf)),
      (''frontend_url'', json_str True (cf_frontend_url cf)),
      (''worker_service_account'', json_str True (cf_worker cf)),
      (''api_origin'', json_str True (cf_api_origin cf)),
      (''project_id'', json_str True (cf_project cf)),
      (''collection'', json_str True (cf_collection cf)),
      (''result_bucket'', json_str True (cf_bucket cf)),
      (''queue_location'', json_str True (cf_location cf)),
      (''query_queue'', json_str True (cf_query_queue cf)),
      (''export_queue'', json_str True (cf_export_queue cf)),
      (''cleanup_queue'', json_str True (cf_cleanup_queue cf)),
      (''wall'', int_text wall_seconds),
      (''ttl'', int_text ttl_seconds),
      (''snapshot_bytes'', int_text snapshot_bytes)]"

definition policy_text :: "db_config \<Rightarrow> string" where
  "policy_text cf =
     ''{'' @ join '', '' (map (\<lambda>(k, v). json_str True k @ '': '' @ v) (sort_key fst (policy_fields cf))) @ ''}''"

definition policy_fingerprint :: "db_config \<Rightarrow> string result" where
  "policy_fingerprint cf =
     (case databases cf of Inl e \<Rightarrow> Inl e | Inr _ \<Rightarrow> Inr (sha256_hex (policy_text cf)))"

section \<open>The control store\<close>

record db_session =
  ss_id :: string
  ss_login :: string
  ss_created :: int
  ss_expires :: int
  ss_revoked :: int
  ss_workspaces :: "string list"
  ss_source :: "string option"
  ss_authority :: "string option"
  ss_scopes :: "string list"
  ss_client :: string
  ss_resource :: string
  ss_generation :: int
  ss_refresh :: "string option"
  ss_access :: "string option"

datatype place_state = PlaceActive | PlacePurged

record db_workspace =
  wk_id :: string
  wk_database :: string
  wk_session :: string
  wk_login :: string
  wk_policy :: string
  wk_state :: place_state
  wk_created :: int
  wk_expires :: int
  wk_execution :: "string option"
  wk_count :: nat
  wk_cleaned :: bool

datatype job_kind = Execution | Export

datatype job_state = Queued | Running | Completed | Failed | Cancelled | Expired | Purged

text \<open>
  A query execution or an export of one.  For an execution \<open>jb_execution\<close> is its own identity; absent numbers
  read as zero, as \<open>value.get(..., 0)\<close> does.
\<close>

record db_job =
  jb_id :: string
  jb_execution :: string
  jb_workspace :: string
  jb_database :: string
  jb_session :: string
  jb_login :: string
  jb_policy :: string
  jb_state :: job_state
  jb_created :: int
  jb_dispatch :: int
  jb_expires :: int
  jb_input :: "string option"
  jb_columns :: "string list"
  jb_rows :: "int option"
  jb_elapsed :: "int option"
  jb_manifest :: "string option"
  jb_file :: "string option"
  jb_bytes :: int
  jb_error :: "string option"
  jb_claim :: "string option"
  jb_export :: "string option"
  jb_worker_deadline :: int
  jb_cleaned :: bool

record db_request =
  rq_workspace :: string
  rq_execution :: string
  rq_fingerprint :: string
  rq_expires :: int

datatype permit_kind = QueryPermit | MetadataPermit | ReadPermit | ExportPermit

record db_permit =
  pm_kind :: permit_kind
  pm_owner :: string
  pm_role :: string
  pm_expires :: int

record db_reservation =
  rs_owner :: string
  rs_bytes :: int

record db_budget =
  bg_permits :: "(string \<times> db_permit) list"
  bg_reservations :: "(string \<times> db_reservation) list"

record db_policy =
  po_enabled :: bool
  po_version :: string
  po_fingerprint :: string

text \<open>
  One world: the documents by kind and identity, the private objects by
  execution and name, the tasks created, and the identities whose objects the bucket refuses to delete.
  A collection is an association list, so that \<open>find\<close> can enumerate it.
\<close>

record db_world =
  session_docs :: "(string \<times> db_session) list"
  workspace_docs :: "(string \<times> db_workspace) list"
  job_docs :: "((job_kind \<times> string) \<times> db_job) list"
  request_docs :: "(string \<times> db_request) list"
  budget :: "db_budget option"
  policy :: "db_policy option"
  objects :: "(string \<times> string) set"
  blocked :: "string set"
  outbox :: "(string \<times> string \<times> int option) list"

definition sessions :: "db_world \<Rightarrow> string \<Rightarrow> db_session option" where
  "sessions w i = map_of (session_docs w) i"

definition workspaces :: "db_world \<Rightarrow> string \<Rightarrow> db_workspace option" where
  "workspaces w i = map_of (workspace_docs w) i"

definition jobs :: "db_world \<Rightarrow> job_kind \<times> string \<Rightarrow> db_job option" where
  "jobs w i = map_of (job_docs w) i"

definition requests :: "db_world \<Rightarrow> string \<Rightarrow> db_request option" where
  "requests w i = map_of (request_docs w) i"

definition put_session :: "string \<Rightarrow> db_session \<Rightarrow> db_world \<Rightarrow> db_world" where
  "put_session i s w = w\<lparr>session_docs := AList.update i s (session_docs w)\<rparr>"

definition put_workspace :: "string \<Rightarrow> db_workspace \<Rightarrow> db_world \<Rightarrow> db_world" where
  "put_workspace i k w = w\<lparr>workspace_docs := AList.update i k (workspace_docs w)\<rparr>"

definition put_job :: "job_kind \<times> string \<Rightarrow> db_job \<Rightarrow> db_world \<Rightarrow> db_world" where
  "put_job i j w = w\<lparr>job_docs := AList.update i j (job_docs w)\<rparr>"

definition put_request :: "string \<Rightarrow> db_request \<Rightarrow> db_world \<Rightarrow> db_world" where
  "put_request i r w = w\<lparr>request_docs := AList.update i r (request_docs w)\<rparr>"

definition put_budget :: "db_budget \<Rightarrow> db_world \<Rightarrow> db_world" where
  "put_budget b w = w\<lparr>budget := Some b\<rparr>"

text \<open>Deleting a document, and \<open>find\<close> with a limit.\<close>

definition drop_session :: "string \<Rightarrow> db_world \<Rightarrow> db_world" where
  "drop_session i w = w\<lparr>session_docs := filter (\<lambda>kv. fst kv \<noteq> i) (session_docs w)\<rparr>"

definition drop_workspace :: "string \<Rightarrow> db_world \<Rightarrow> db_world" where
  "drop_workspace i w = w\<lparr>workspace_docs := filter (\<lambda>kv. fst kv \<noteq> i) (workspace_docs w)\<rparr>"

definition drop_job :: "job_kind \<times> string \<Rightarrow> db_world \<Rightarrow> db_world" where
  "drop_job i w = w\<lparr>job_docs := filter (\<lambda>kv. fst kv \<noteq> i) (job_docs w)\<rparr>"

definition drop_request :: "string \<Rightarrow> db_world \<Rightarrow> db_world" where
  "drop_request i w = w\<lparr>request_docs := filter (\<lambda>kv. fst kv \<noteq> i) (request_docs w)\<rparr>"

definition find_docs :: "('k \<times> 'd) list \<Rightarrow> ('k \<Rightarrow> 'd \<Rightarrow> bool) \<Rightarrow> nat \<Rightarrow> ('k \<times> 'd) list" where
  "find_docs docs P limit = take limit (filter (\<lambda>(k, d). P k d) docs)"

named_theorems world_simps "reading a world after a write"

lemma sessions_put [world_simps]:
  "sessions (put_session i s w) = (sessions w)(i \<mapsto> s)"
  "sessions (put_workspace k p w) = sessions w" "sessions (put_job a j w) = sessions w"
  "sessions (put_request r q w) = sessions w" "sessions (put_budget b w) = sessions w"
  by (auto simp: sessions_def put_session_def put_workspace_def put_job_def put_request_def put_budget_def update_conv')

lemma workspaces_put [world_simps]:
  "workspaces (put_workspace i k w) = (workspaces w)(i \<mapsto> k)"
  "workspaces (put_session a s w) = workspaces w" "workspaces (put_job b j w) = workspaces w"
  "workspaces (put_request r q w) = workspaces w" "workspaces (put_budget c w) = workspaces w"
  by (auto simp: workspaces_def put_session_def put_workspace_def put_job_def put_request_def put_budget_def update_conv')

lemma jobs_put [world_simps]:
  "jobs (put_job i j w) = (jobs w)(i \<mapsto> j)"
  "jobs (put_session a s w) = jobs w" "jobs (put_workspace k p w) = jobs w"
  "jobs (put_request r q w) = jobs w" "jobs (put_budget c w) = jobs w"
  by (auto simp: jobs_def put_session_def put_workspace_def put_job_def put_request_def put_budget_def update_conv')

lemma requests_put [world_simps]:
  "requests (put_request i q w) = (requests w)(i \<mapsto> q)"
  "requests (put_session a s w) = requests w" "requests (put_workspace k p w) = requests w"
  "requests (put_job b j w) = requests w" "requests (put_budget c w) = requests w"
  by (auto simp: requests_def put_session_def put_workspace_def put_job_def put_request_def put_budget_def update_conv')

lemma rest_put [world_simps]:
  "budget (put_budget b w) = Some b" "budget (put_session i s w) = budget w" "budget (put_workspace k p w) = budget w"
  "budget (put_job a j w) = budget w" "budget (put_request r q w) = budget w"
  "policy (put_budget b w) = policy w" "policy (put_session i s w) = policy w" "policy (put_workspace k p w) = policy w"
  "policy (put_job a j w) = policy w" "policy (put_request r q w) = policy w"
  "blocked (put_budget b w) = blocked w" "blocked (put_session i s w) = blocked w"
  "blocked (put_workspace k p w) = blocked w" "blocked (put_job a j w) = blocked w" "blocked (put_request r q w) = blocked w"
  "objects (put_budget b w) = objects w" "objects (put_session i s w) = objects w"
  "objects (put_workspace k p w) = objects w" "objects (put_job a j w) = objects w" "objects (put_request r q w) = objects w"
  by (simp_all add: put_session_def put_workspace_def put_job_def put_request_def put_budget_def)

lemma map_of_filter_key: "map_of (filter (\<lambda>kv. fst kv \<noteq> i) d) = (map_of d)(i := None)"
  by (induction d) (auto simp: fun_eq_iff)

lemma drops [world_simps]:
  "sessions (drop_session i w) = (sessions w)(i := None)" "workspaces (drop_session i w) = workspaces w"
  "jobs (drop_session i w) = jobs w" "requests (drop_session i w) = requests w"
  "sessions (drop_workspace i w) = sessions w" "workspaces (drop_workspace i w) = (workspaces w)(i := None)"
  "jobs (drop_workspace i w) = jobs w" "requests (drop_workspace i w) = requests w"
  "sessions (drop_job k w) = sessions w" "workspaces (drop_job k w) = workspaces w"
  "jobs (drop_job k w) = (jobs w)(k := None)" "requests (drop_job k w) = requests w"
  "sessions (drop_request i w) = sessions w" "workspaces (drop_request i w) = workspaces w"
  "jobs (drop_request i w) = jobs w" "requests (drop_request i w) = (requests w)(i := None)"
  "budget (drop_session i w) = budget w" "budget (drop_workspace i w) = budget w"
  "budget (drop_job k w) = budget w" "budget (drop_request i w) = budget w"
  "policy (drop_session i w) = policy w" "policy (drop_workspace i w) = policy w"
  "policy (drop_job k w) = policy w" "policy (drop_request i w) = policy w"
  by (auto simp: drop_session_def drop_workspace_def drop_job_def drop_request_def sessions_def workspaces_def
      jobs_def requests_def map_of_filter_key)

lemma fields_keep [world_simps]:
  "sessions (w\<lparr>objects := X\<rparr>) = sessions w" "workspaces (w\<lparr>objects := X\<rparr>) = workspaces w"
  "jobs (w\<lparr>objects := X\<rparr>) = jobs w" "requests (w\<lparr>objects := X\<rparr>) = requests w"
  "sessions (w\<lparr>outbox := Y\<rparr>) = sessions w" "workspaces (w\<lparr>outbox := Y\<rparr>) = workspaces w"
  "jobs (w\<lparr>outbox := Y\<rparr>) = jobs w" "requests (w\<lparr>outbox := Y\<rparr>) = requests w"
  "sessions (w\<lparr>blocked := Z\<rparr>) = sessions w" "workspaces (w\<lparr>blocked := Z\<rparr>) = workspaces w"
  "jobs (w\<lparr>blocked := Z\<rparr>) = jobs w" "requests (w\<lparr>blocked := Z\<rparr>) = requests w"
  by (auto simp: sessions_def workspaces_def jobs_def requests_def)

definition key_char :: "char \<Rightarrow> bool" where
  "key_char c = (let n = (of_char c :: nat) in
     is_digit c \<or> (65 \<le> n \<and> n \<le> 90) \<or> (97 \<le> n \<and> n \<le> 122) \<or> c = CHR ''_'' \<or> c = CHR ''-'')"

definition store_kinds :: "string list" where
  "store_kinds = [''session'', ''workspace'', ''execution'', ''view'', ''export'', ''control'', ''request'']"

definition store_key :: "string \<Rightarrow> string \<Rightarrow> string result" where
  "store_key kind identity =
     (if kind \<notin> set store_kinds \<or> identity = [] \<or> 128 < length identity \<or> \<not> list_all key_char identity
      then Inl (DatabaseUnavailable ''Invalid database control identity'')
      else Inr (kind @ '':'' @ identity))"

fun store_keys :: "(string \<times> string) list \<Rightarrow> string list result" where
  "store_keys [] = Inr []"
| "store_keys ((k, i) # refs) =
     (case store_key k i of
        Inl e \<Rightarrow> Inl e
      | Inr l \<Rightarrow> map_result (Cons l) (store_keys refs))"

section \<open>Operations\<close>

text \<open>An operation returns or raises, and leaves a world either way.\<close>

type_synonym 'a db = "(db_world, 'a) op"

text \<open>Only application decisions and unavailability leave a transaction.\<close>

definition visible_error :: "py_err \<Rightarrow> py_err" where
  "visible_error e =
     (case e of
        HTTPException n s \<Rightarrow> HTTPException n s
      | DatabaseUnavailable s \<Rightarrow> DatabaseUnavailable s
      | _ \<Rightarrow> DatabaseUnavailable ''Database control store is unavailable'')"

type_synonym 'a db_transform = "db_world \<Rightarrow> ('a \<times> db_world) result"

definition db_mutate :: "(string \<times> string) list \<Rightarrow> 'a db_transform \<Rightarrow> 'a db" where
  "db_mutate refs f w =
     (case store_keys refs of
        Inl e \<Rightarrow> (Inl e, w)
      | Inr labels \<Rightarrow>
          if \<not> distinct labels \<or> 32 < length labels
          then (Inl (DatabaseUnavailable ''Invalid database control transaction''), w)
          else
            (case f w of
               Inl e \<Rightarrow> (Inl (visible_error e), w)
             | Inr (x, w') \<Rightarrow> (Inr x, w')))"

text \<open>\<open>get\<close>: the label is checked before the document is read.\<close>

definition db_get :: "string \<Rightarrow> string \<Rightarrow> (db_world \<Rightarrow> 'd) \<Rightarrow> db_world \<Rightarrow> 'd result" where
  "db_get kind identity f w = (case store_key kind identity of Inl e \<Rightarrow> Inl e | Inr _ \<Rightarrow> Inr (f w))"

section \<open>Policy\<close>

definition policy_ready :: "db_config \<Rightarrow> bool" where
  "policy_ready cf =
     (\<not> cf_mock cf \<and> cf_enabled cf \<and> cf_executions cf \<and> log_auth_configured cf \<and> cf_policy_version cf \<noteq> [] \<and>
      list_all (\<lambda>s. s \<noteq> []) [cf_project cf, cf_bucket cf, cf_query_queue cf, cf_export_queue cf,
        cf_cleanup_queue cf, cf_worker cf, cf_api_origin cf] \<and>
      starts_with ''https://'' (cf_api_origin cf))"

text \<open>The stored policy is live when it is enabled with the given version and this deployment's fingerprint.\<close>

definition policy_live :: "db_config \<Rightarrow> string \<Rightarrow> db_world \<Rightarrow> bool result" where
  "policy_live cf version w =
     (case policy w of
        None \<Rightarrow> Inr False
      | Some p \<Rightarrow>
          if \<not> po_enabled p \<or> po_version p \<noteq> version then Inr False
          else map_result (\<lambda>f. po_fingerprint p = f) (policy_fingerprint cf))"

definition active_policy :: "db_config \<Rightarrow> db_world \<Rightarrow> string result" where
  "active_policy cf w =
     (if \<not> policy_ready cf then Inl (DatabaseUnavailable ''Database executions are unavailable'')
      else
        (case policy_live cf (cf_policy_version cf) w of
           Inl e \<Rightarrow> Inl e
         | Inr live \<Rightarrow>
             if live then Inr (cf_policy_version cf)
             else Inl (DatabaseUnavailable ''Database execution authority is unavailable'')))"

definition find_database :: "db_config \<Rightarrow> string \<Rightarrow> string \<Rightarrow> db_session option \<Rightarrow> db_database result" where
  "find_database cf identity login session =
     (case databases cf of
        Inl e \<Rightarrow> Inl e
      | Inr ds \<Rightarrow>
          (case find (\<lambda>d. dx_id d = identity \<and>
                        ((case session of Some s \<Rightarrow> ss_source s = Some ''mcp'' | None \<Rightarrow> False) \<or> can_read d login)) ds of
             None \<Rightarrow> Inl (HTTPException 404 ''Database not found'')
           | Some d \<Rightarrow> Inr d))"

end
