(* ===== verification/DatabaseSessions.thy ===== *)
theory DatabaseSessions
  imports DatabaseControl
begin

text \<open>
  Who may act: browser sessions (\<open>services/database_sessions.py\<close>), MCP grants (\<open>services/mcp_grants.py\<close>), the
  reader check of \<open>security.py\<close>, and the workspaces of a session (\<open>services/database_jobs.py\<close>).  A requester
  is the signed content of a browser cookie or an MCP principal.
\<close>

section \<open>Requesters\<close>

record browser =
  br_provider :: "string option"
  br_login :: "string option"
  br_nonce :: "string option"

record principal =
  pr_id :: string
  pr_login :: string
  pr_client :: string
  pr_resource :: string
  pr_generation :: int

datatype requester = Browser browser | Mcp principal

section \<open>Browser sessions\<close>

definition session_lifetime :: int where "session_lifetime = 12 * 60 * 60 * second"

definition unavailable :: py_err where
  "unavailable = HTTPException 503 ''Database session is unavailable''"

definition unauthorized :: py_err where
  "unauthorized = HTTPException 401 ''Sign in with GitHub again to query databases''"

definition sessions_enabled :: "db_config \<Rightarrow> unit result" where
  "sessions_enabled cf = raise_if (cf_mock cf \<or> \<not> cf_executions cf) unauthorized"

definition is_alnum :: "char \<Rightarrow> bool" where
  "is_alnum c = (let n = (of_char c :: nat) in is_digit c \<or> (65 \<le> n \<and> n \<le> 90) \<or> (97 \<le> n \<and> n \<le> 122))"

text \<open>\<open>[A-Za-z0-9](?:[A-Za-z0-9-]{0,38})\<close>\<close>

definition login_pattern :: "string \<Rightarrow> bool" where
  "login_pattern s =
     (1 \<le> length s \<and> length s \<le> 39 \<and> is_alnum (hd s) \<and> list_all (\<lambda>c. is_alnum c \<or> c = CHR ''-'') (tl s))"

definition session_login :: "string option \<Rightarrow> string result" where
  "session_login value =
     (case value of
        None \<Rightarrow> Inl unauthorized
      | Some s \<Rightarrow> if login_pattern s then Inr (str_lower s) else Inl unauthorized)"

text \<open>\<open>[A-Za-z0-9_-]{43}\<close>\<close>

definition nonce_pattern :: "string \<Rightarrow> bool" where
  "nonce_pattern s = (length s = 43 \<and> list_all key_char s)"

definition session_id :: "string option \<Rightarrow> string result" where
  "session_id nonce =
     (case nonce of
        None \<Rightarrow> Inl unauthorized
      | Some s \<Rightarrow> if nonce_pattern s then Inr (sha256_hex s) else Inl unauthorized)"

definition new_session :: "string \<Rightarrow> string \<Rightarrow> int \<Rightarrow> db_session" where
  "new_session identity login now =
     \<lparr>ss_id = identity, ss_login = login, ss_created = now, ss_expires = now + session_lifetime, ss_revoked = 0,
      ss_workspaces = [], ss_source = None, ss_authority = None, ss_scopes = [], ss_client = '''',
      ss_resource = '''', ss_generation = 0, ss_refresh = None, ss_access = None\<rparr>"

definition insert_session :: "db_session \<Rightarrow> unit db_transform" where
  "insert_session s w =
     (if sessions w (ss_id s) \<noteq> None then Inl (ValueError ''Database session identity is already reserved'')
      else Inr ((), put_session (ss_id s) s w))"

text \<open>\<open>create\<close>: the nonce is the random token; every failure of the store is reported as 503.\<close>

definition session_create :: "db_config \<Rightarrow> int \<Rightarrow> string \<Rightarrow> string \<Rightarrow> string db" where
  "session_create cf now nonce login =
     db_bind (reading (\<lambda>_. first_error [sessions_enabled cf, raise_if (\<not> log_auth_configured cf) unavailable]))
       (\<lambda>_. db_bind (reading (\<lambda>_. session_login (Some login)))
         (\<lambda>identity. db_bind (reading (\<lambda>_. session_id (Some nonce)))
           (\<lambda>sid. db_catch
              (db_bind (db_mutate [(''session'', sid)] (insert_session (new_session sid identity now)))
                (\<lambda>_. db_return nonce))
              (\<lambda>_. db_raise unavailable))))"

section \<open>MCP grants\<close>

definition mcp_resource :: "db_config \<Rightarrow> string option \<Rightarrow> string result" where
  "mcp_resource cf value =
     (let base = rstrip_slash (cf_mcp_base_url cf); canonical = base @ ''/mcp'' in
      if value \<notin> {None, Some canonical, Some (base @ ''/mcp/cost-alerts'')}
      then Inl (HTTPException 401 ''Invalid MCP resource'')
      else Inr canonical)"

definition mcp_reconnect :: py_err where
  "mcp_reconnect = HTTPException 401 ''Reconnect MCP to authorize full access''"

definition mcp_validate :: "db_config \<Rightarrow> int \<Rightarrow> string \<Rightarrow> string option \<Rightarrow> db_world \<Rightarrow> db_session result" where
  "mcp_validate cf now identity login w =
     (if \<not> cf_mcp cf \<or> \<not> hex_string 64 identity then Inl mcp_reconnect
      else
        (case sessions w identity of
           None \<Rightarrow> Inl mcp_reconnect
         | Some s \<Rightarrow>
             if ss_id s \<noteq> identity \<or> ss_source s \<noteq> Some ''mcp'' \<or> ss_authority s \<noteq> Some ''mcp-uniform-v1''
                \<or> ss_scopes s \<noteq> [''eng-platform.access''] \<or> ss_revoked s \<noteq> 0 \<or> ss_expires s \<le> now
                \<or> mcp_resource cf None \<noteq> Inr (ss_resource s) \<or> ss_client s = []
                \<or> (case login of None \<Rightarrow> False | Some l \<Rightarrow> ss_login s \<noteq> str_lower l)
             then Inl mcp_reconnect else Inr s))"

definition mcp_require :: "db_config \<Rightarrow> int \<Rightarrow> principal \<Rightarrow> db_world \<Rightarrow> db_session result" where
  "mcp_require cf now p w =
     (case mcp_validate cf now (pr_id p) (Some (pr_login p)) w of
        Inl e \<Rightarrow> Inl e
      | Inr s \<Rightarrow>
          if ss_client s \<noteq> pr_client p \<or> ss_resource s \<noteq> pr_resource p \<or> ss_generation s \<noteq> pr_generation p
          then Inl (HTTPException 401 ''MCP credential has been rotated or revoked'')
          else Inr s)"

definition principal_of :: "db_session \<Rightarrow> principal" where
  "principal_of s =
     \<lparr>pr_id = ss_id s, pr_login = ss_login s, pr_client = ss_client s, pr_resource = ss_resource s,
      pr_generation = ss_generation s\<rparr>"

text \<open>
  The transaction that activates a grant: a first issue needs an unused identity, a refresh the version of the grant
  it has validated, with the refresh token it presents.  A refresh keeps the creation time and the workspaces.
\<close>

definition renewed :: "db_session \<Rightarrow> db_session \<Rightarrow> db_session" where
  "renewed c g = g\<lparr>ss_created := ss_created c, ss_workspaces := ss_workspaces c\<rparr>"

definition activate_grant ::
  "int \<Rightarrow> db_session option \<Rightarrow> string option \<Rightarrow> db_session \<Rightarrow> bool db_transform" where
  "activate_grant now old previous g w =
     (case (old, sessions w (ss_id g)) of
        (None, None) \<Rightarrow> Inr (True, put_session (ss_id g) g w)
      | (None, Some _) \<Rightarrow> Inr (False, w)
      | (Some _, None) \<Rightarrow> Inr (False, w)
      | (Some v, Some c) \<Rightarrow>
          if ss_revoked c \<noteq> 0 \<or> ss_generation c \<noteq> ss_generation v \<or> ss_refresh c \<noteq> previous
             \<or> ss_expires c \<le> now \<or> ss_client c \<noteq> ss_client g
          then Inr (False, w)
          else Inr (True, put_session (ss_id g) (renewed c g) w))"

section \<open>Validation\<close>

definition session_validate :: "db_config \<Rightarrow> int \<Rightarrow> string \<Rightarrow> string \<Rightarrow> db_world \<Rightarrow> db_session result" where
  "session_validate cf now identity login w =
     (case first_error [sessions_enabled cf] of
        Inl e \<Rightarrow> Inl e
      | Inr _ \<Rightarrow>
          (case session_login (Some login) of
             Inl e \<Rightarrow> Inl e
           | Inr name \<Rightarrow>
               if \<not> hex_string 64 identity then Inl unauthorized
               else
                 (case sessions w identity of
                    Some s \<Rightarrow>
                      if ss_source s = Some ''mcp''
                      then (if \<not> cf_enabled cf then Inl unauthorized else mcp_validate cf now identity (Some name) w)
                      else if \<not> cf_enabled cf \<or> name \<notin> set (cf_logins cf)
                      then Inl (HTTPException 403 ''You are not allowed to query databases'')
                      else if ss_id s \<noteq> identity \<or> ss_login s \<noteq> name \<or> ss_created s < 0 \<or> ss_expires s < 0
                        \<or> ss_revoked s \<noteq> 0 \<or> now < ss_created s \<or> ss_expires s \<le> now
                        \<or> session_lifetime < ss_expires s - ss_created s
                      then Inl unauthorized
                      else Inr s
                  | None \<Rightarrow>
                      if \<not> cf_enabled cf \<or> name \<notin> set (cf_logins cf)
                      then Inl (HTTPException 403 ''You are not allowed to query databases'')
                      else Inl unauthorized)))"

definition session_require :: "db_config \<Rightarrow> int \<Rightarrow> browser \<Rightarrow> db_world \<Rightarrow> db_session result" where
  "session_require cf now b w =
     (case first_error [sessions_enabled cf, raise_if (br_provider b \<noteq> Some ''github_oauth'') unauthorized] of
        Inl e \<Rightarrow> Inl e
      | Inr _ \<Rightarrow>
          (case session_login (br_login b) of
             Inl e \<Rightarrow> Inl e
           | Inr name \<Rightarrow>
               (case session_id (br_nonce b) of
                  Inl e \<Rightarrow> Inl e
                | Inr identity \<Rightarrow>
                    (case session_validate cf now identity name w of
                       Inl e \<Rightarrow> Inl e
                     | Inr s \<Rightarrow> if ss_source s = Some ''mcp'' then Inl unauthorized else Inr s))))"

definition reader_identity :: "db_config \<Rightarrow> browser \<Rightarrow> string" where
  "reader_identity cf b =
     (if cf_mock cf \<or> br_provider b \<noteq> Some ''github_oauth'' then ''''
      else (case br_login b of None \<Rightarrow> '''' | Some l \<Rightarrow> l))"

definition require_reader :: "db_config \<Rightarrow> int \<Rightarrow> browser \<Rightarrow> db_world \<Rightarrow> string result" where
  "require_reader cf now b w =
     (let identity = reader_identity cf b in
      if identity = '''' then Inl (HTTPException 401 ''Sign in with GitHub to query databases'')
      else if \<not> cf_enabled cf \<or> \<not> log_auth_configured cf \<or> str_lower identity \<notin> set (cf_logins cf)
      then Inl (HTTPException 403 ''You are not allowed to query databases'')
      else if cf_executions cf then map_result (\<lambda>_. identity) (session_require cf now b w)
      else Inr identity)"

text \<open>\<open>_session\<close>\<close>

definition require_session :: "db_config \<Rightarrow> int \<Rightarrow> requester \<Rightarrow> db_world \<Rightarrow> db_session result" where
  "require_session cf now req w =
     (case req of
        Mcp p \<Rightarrow> (case active_policy cf w of Inl e \<Rightarrow> Inl e | Inr _ \<Rightarrow> mcp_require cf now p w)
      | Browser b \<Rightarrow>
          (case require_reader cf now b w of
             Inl e \<Rightarrow> Inl e
           | Inr _ \<Rightarrow> (case active_policy cf w of Inl e \<Rightarrow> Inl e | Inr _ \<Rightarrow> session_require cf now b w)))"

section \<open>Revocation\<close>

definition revoke_session :: "(db_session \<Rightarrow> bool) \<Rightarrow> int \<Rightarrow> string \<Rightarrow> unit db_transform" where
  "revoke_session applies now identity w =
     (case sessions w identity of
        None \<Rightarrow> Inr ((), w)
      | Some s \<Rightarrow>
          if applies s
          then Inr ((), put_session identity
                 (s\<lparr>ss_revoked := (if ss_revoked s \<noteq> 0 then ss_revoked s else now)\<rparr>) w)
          else Inr ((), w))"

definition session_revoke :: "int \<Rightarrow> browser \<Rightarrow> string option db" where
  "session_revoke now b =
     (case br_nonce b of
        None \<Rightarrow> db_return None
      | Some nonce \<Rightarrow>
          if \<not> nonce_pattern nonce then db_return None
          else
            db_catch
              (db_bind (db_mutate [(''session'', sha256_hex nonce)] (revoke_session (\<lambda>_. True) now (sha256_hex nonce)))
                (\<lambda>_. db_return (Some (sha256_hex nonce))))
              (\<lambda>_. db_raise unavailable))"

section \<open>Workspaces\<close>

definition gone :: py_err where
  "gone = HTTPException 410 ''Database workspace is unavailable''"

definition permission_changed :: py_err where
  "permission_changed = HTTPException 403 ''Database permission changed''"

definition live_workspace ::
  "db_config \<Rightarrow> int \<Rightarrow> string \<Rightarrow> db_session \<Rightarrow> string \<Rightarrow> db_world \<Rightarrow> db_workspace result" where
  "live_workspace cf now workspace_id session database_id w =
     (case db_get ''workspace'' workspace_id (\<lambda>w. workspaces w workspace_id) w of
        Inl e \<Rightarrow> Inl e
      | Inr None \<Rightarrow> Inl (HTTPException 404 ''Database workspace not found'')
      | Inr (Some k) \<Rightarrow>
          if wk_session k \<noteq> ss_id session \<or> wk_database k \<noteq> database_id
          then Inl (HTTPException 404 ''Database workspace not found'')
          else if wk_state k \<noteq> PlaceActive \<or> wk_expires k \<le> now then Inl gone
          else
            (case active_policy cf w of
               Inl e \<Rightarrow> Inl e
             | Inr version \<Rightarrow>
                 if wk_policy k \<noteq> version then Inl permission_changed
                 else
                   (case find_database cf database_id (ss_login session) (Some session) of
                      Inl e \<Rightarrow> Inl e
                    | Inr _ \<Rightarrow> Inr k)))"

record public_workspace =
  pw_id :: string
  pw_database :: string
  pw_expires :: int
  pw_execution :: "string option"

definition public_of_workspace :: "db_workspace \<Rightarrow> public_workspace" where
  "public_of_workspace k =
     \<lparr>pw_id = wk_id k, pw_database = wk_database k, pw_expires = wk_expires k, pw_execution = wk_execution k\<rparr>"

definition get_workspace ::
  "db_config \<Rightarrow> int \<Rightarrow> requester \<Rightarrow> string \<Rightarrow> string \<Rightarrow> db_world \<Rightarrow> public_workspace result" where
  "get_workspace cf now req database_id workspace_id w =
     (case require_session cf now req w of
        Inl e \<Rightarrow> Inl e
      | Inr s \<Rightarrow> map_result public_of_workspace (live_workspace cf now workspace_id s database_id w))"

text \<open>The authority check repeated inside a transaction: the session and the policy are still live.\<close>

definition authority_live :: "db_config \<Rightarrow> int \<Rightarrow> string \<Rightarrow> string \<Rightarrow> db_world \<Rightarrow> bool result" where
  "authority_live cf now sid version w =
     (case sessions w sid of
        None \<Rightarrow> Inr False
      | Some s \<Rightarrow>
          if ss_revoked s \<noteq> 0 \<or> ss_expires s \<le> now then Inr False
          else policy_live cf version w)"

definition insert_workspace :: "db_config \<Rightarrow> int \<Rightarrow> db_workspace \<Rightarrow> unit db_transform" where
  "insert_workspace cf now k w =
     (case authority_live cf now (wk_session k) (wk_policy k) w of
        Inl e \<Rightarrow> Inl e
      | Inr live \<Rightarrow>
          if \<not> live then Inl permission_changed
          else
            (case sessions w (wk_session k) of
               None \<Rightarrow> Inl permission_changed
             | Some s \<Rightarrow>
                 if 32 \<le> length (ss_workspaces s) then Inl (HTTPException 429 ''Database workspace budget is full'')
                 else Inr ((), put_workspace (wk_id k) k
                        (put_session (wk_session k) (s\<lparr>ss_workspaces := ss_workspaces s @ [wk_id k]\<rparr>) w))))"

definition create_workspace ::
  "db_config \<Rightarrow> int \<Rightarrow> requester \<Rightarrow> string \<Rightarrow> string \<Rightarrow> public_workspace db" where
  "create_workspace cf now req identity database_id =
     db_bind (reading (require_session cf now req)) (\<lambda>s.
       db_bind (reading (\<lambda>_. find_database cf database_id (ss_login s) (Some s))) (\<lambda>_.
         db_bind (reading (active_policy cf)) (\<lambda>version.
           let k = \<lparr>wk_id = identity, wk_database = database_id, wk_session = ss_id s, wk_login = ss_login s,
                    wk_policy = version, wk_state = PlaceActive, wk_created = now, wk_expires = ss_expires s,
                    wk_execution = None, wk_count = 0, wk_cleaned = False\<rparr>
           in db_bind (db_mutate [(''workspace'', identity), (''session'', ss_id s), (''control'', ''active_policy'')]
                         (insert_workspace cf now k)) (\<lambda>_.
                db_bind (reading (require_session cf now req)) (\<lambda>_. db_return (public_of_workspace k))))))"

end
