(* ===== verification/DatabaseJobs.thy ===== *)
theory DatabaseJobs
  imports DatabaseSessions
begin

text \<open>
  Durable query executions and their exports (\<open>services/database_jobs.py\<close>) with the tasks that carry them
  (\<open>services/database_tasks.py\<close>): the storage and connection budget, creation, claiming, finishing, workers,
  cancellation and downloads.  Sorted views are not modelled: no document carries a view.  Random identities,
  tokens and the clock are arguments.
\<close>

section \<open>Tasks and objects\<close>

text \<open>\<open>math.ceil\<close> of a time, in seconds.\<close>

definition whole_seconds :: "int \<Rightarrow> int" where
  "whole_seconds t = - ((- t) div second)"

definition tasks_configured :: "db_config \<Rightarrow> string \<Rightarrow> bool" where
  "tasks_configured cf kind =
     (list_all (\<lambda>s. s \<noteq> [])
        [cf_project cf, cf_location cf,
         (if kind = ''query'' then cf_query_queue cf else if kind = ''cleanup'' then cf_cleanup_queue cf else cf_export_queue cf),
         cf_worker cf, cf_api_origin cf] \<and>
      starts_with ''https://'' (cf_api_origin cf))"

text \<open>
  The name of a task carries its kind, identity and, for a scheduled cleanup, its second; a task that exists is
  kept.  \<open>up\<close> tells whether the queue accepts the call.
\<close>

definition enqueue :: "db_config \<Rightarrow> bool \<Rightarrow> string \<Rightarrow> string \<Rightarrow> int option \<Rightarrow> unit db" where
  "enqueue cf up kind identity schedule w =
     (if kind \<notin> {''query'', ''export'', ''sort'', ''cleanup''} \<or> \<not> hex_string 32 identity
      then (Inl (DatabaseUnavailable ''Invalid database task identity''), w)
      else if \<not> tasks_configured cf kind \<or> \<not> up
      then (Inl (DatabaseUnavailable ''Database task dispatch is unavailable''), w)
      else
        let name = (kind, identity, if kind = ''cleanup'' then map_option whole_seconds schedule else None)
        in (Inr (), w\<lparr>outbox := (if name \<in> set (outbox w) then outbox w else outbox w @ [name])\<rparr>))"

text \<open>
  \<open>purge\<close> erases everything under the prefixes of one identity, inputs, results and exports alike.  A purge or
  deletion that the bucket refuses raises and leaves the objects.
\<close>

definition purge_objects :: "string \<Rightarrow> unit db" where
  "purge_objects identity w =
     (if \<not> hex_string 32 identity then (Inl (DatabaseUnavailable ''Invalid database object identity''), w)
      else if identity \<in> blocked w
      then (Inl (DatabaseUnavailable ''Database result cleanup is unavailable''), w)
      else (Inr (), w\<lparr>objects := Set.filter (\<lambda>ob. fst ob \<noteq> identity) (objects w)\<rparr>))"

definition erase_object :: "string \<Rightarrow> string \<Rightarrow> unit db" where
  "erase_object identity name w =
     (if identity \<in> blocked w
      then (Inl (DatabaseUnavailable ''Database result cleanup is unavailable''), w)
      else (Inr (), w\<lparr>objects := objects w - {(identity, name)}\<rparr>))"

definition stage_object :: "unit result \<Rightarrow> string \<Rightarrow> string db" where
  "stage_object outcome identity w =
     (case outcome of
        Inl e \<Rightarrow> (Inl e, w)
      | Inr _ \<Rightarrow> (Inr (''inputs/'' @ identity @ ''/query.json''), w\<lparr>objects := insert (identity, ''input'') (objects w)\<rparr>))"

section \<open>The budget\<close>

definition user_bytes :: int where "user_bytes = 536870912"

definition global_bytes :: int where "global_bytes = 2147483648"

definition coordinator :: "db_budget option \<Rightarrow> db_budget" where
  "coordinator value = (case value of None \<Rightarrow> \<lparr>bg_permits = [], bg_reservations = []\<rparr> | Some b \<Rightarrow> b)"

definition reserve_in :: "string \<Rightarrow> string \<Rightarrow> int \<Rightarrow> db_budget \<Rightarrow> db_budget result" where
  "reserve_in identity owner amount control =
     (let rs = bg_reservations control; others = filter (\<lambda>kv. fst kv \<noteq> identity) rs in
      if \<not> has_key rs identity \<and> 128 \<le> length rs then Inl (HTTPException 429 ''Database result budget is full'')
      else if global_bytes < sum_list (map (rs_bytes \<circ> snd) others) + amount
        \<or> user_bytes < sum_list (map (rs_bytes \<circ> snd) (filter (\<lambda>kv. rs_owner (snd kv) = owner) others)) + amount
      then Inl (HTTPException 429 ''Database result storage budget is full'')
      else Inr (control\<lparr>bg_reservations := AList.update identity \<lparr>rs_owner = owner, rs_bytes = amount\<rparr> rs\<rparr>))"

definition reserve_storage :: "string \<Rightarrow> string \<Rightarrow> int \<Rightarrow> unit db_transform" where
  "reserve_storage identity owner amount w =
     map_result (\<lambda>b. ((), put_budget b w)) (reserve_in identity owner amount (coordinator (budget w)))"

definition release_in :: "string \<Rightarrow> unit db_transform" where
  "release_in identity w =
     (let c = coordinator (budget w)
      in Inr ((), put_budget (c\<lparr>bg_reservations := dict_pop identity (bg_reservations c)\<rparr>) w))"

definition release_storage :: "string \<Rightarrow> unit db" where
  "release_storage identity = db_mutate [(''control'', ''budget'')] (release_in identity)"

definition permit_limit :: "permit_kind \<Rightarrow> nat" where
  "permit_limit k = (case k of ExportPermit \<Rightarrow> 1 | _ \<Rightarrow> 2)"

definition live_permits :: "int \<Rightarrow> (string \<times> db_permit) list \<Rightarrow> (string \<times> db_permit) list" where
  "live_permits now ps = filter (\<lambda>kv. now < pm_expires (snd kv)) ps"

definition take_permit :: "int \<Rightarrow> string \<Rightarrow> permit_kind \<Rightarrow> string \<Rightarrow> string \<Rightarrow> unit db_transform" where
  "take_permit now token kind owner role w =
     (let c = coordinator (budget w);
          permits = live_permits now (bg_permits c);
          same = filter (\<lambda>kv. pm_kind (snd kv) = kind) permits
      in if permit_limit kind \<le> length same
           \<or> (kind = QueryPermit \<and> owner \<noteq> [] \<and> list_ex (\<lambda>kv. pm_owner (snd kv) = owner) same)
           \<or> (role \<noteq> [] \<and> list_ex (\<lambda>kv. pm_role (snd kv) = role) same)
         then Inl (HTTPException 429 ''Database operation budget is busy'')
         else Inr ((), put_budget (c\<lparr>bg_permits := AList.update token
                \<lparr>pm_kind = kind, pm_owner = owner, pm_role = role, pm_expires = now + 330 * second\<rparr> permits\<rparr>) w))"

definition drop_permit :: "string \<Rightarrow> unit db_transform" where
  "drop_permit token w =
     (let c = coordinator (budget w) in Inr ((), put_budget (c\<lparr>bg_permits := dict_pop token (bg_permits c)\<rparr>) w))"

text \<open>
  \<open>with _permit(...): body\<close>: the authorization is repeated around the taking, and the permit is released on
  every way out of the body.
\<close>

definition with_permit ::
  "int \<Rightarrow> string \<Rightarrow> permit_kind \<Rightarrow> string \<Rightarrow> string \<Rightarrow> unit db \<Rightarrow> 'a db \<Rightarrow> 'a db" where
  "with_permit now token kind owner role authorize body =
     db_bind authorize (\<lambda>_.
       db_bind (db_mutate [(''control'', ''budget'')] (take_permit now token kind (str_lower owner) role)) (\<lambda>_.
         db_finally (db_bind authorize (\<lambda>_. body)) (db_mutate [(''control'', ''budget'')] (drop_permit token))))"

section \<open>Jobs\<close>

definition kind_name :: "job_kind \<Rightarrow> string" where
  "kind_name k = (case k of Execution \<Rightarrow> ''execution'' | Export \<Rightarrow> ''export'')"

definition queue_name :: "job_kind \<Rightarrow> string" where
  "queue_name k = (case k of Execution \<Rightarrow> ''query'' | Export \<Rightarrow> ''export'')"

record public_execution =
  pe_id :: string
  pe_workspace :: string
  pe_database :: string
  pe_columns :: "string list"
  pe_rows :: "int option"
  pe_elapsed :: "int option"
  pe_expires :: int
  pe_error :: "string option"
  pe_status :: job_state

definition public_of_execution :: "db_job \<Rightarrow> public_execution" where
  "public_of_execution j =
     \<lparr>pe_id = jb_id j, pe_workspace = jb_workspace j, pe_database = jb_database j, pe_columns = jb_columns j,
      pe_rows = jb_rows j, pe_elapsed = jb_elapsed j, pe_expires = jb_expires j, pe_error = jb_error j,
      pe_status = jb_state j\<rparr>"

text \<open>\<open>_execution\<close>\<close>

definition live_execution ::
  "db_config \<Rightarrow> int \<Rightarrow> requester \<Rightarrow> string \<Rightarrow> string \<Rightarrow> string \<Rightarrow> db_world \<Rightarrow> db_job result" where
  "live_execution cf now req database_id workspace_id execution_id w =
     (case require_session cf now req w of
        Inl e \<Rightarrow> Inl e
      | Inr s \<Rightarrow>
          (case live_workspace cf now workspace_id s database_id w of
             Inl e \<Rightarrow> Inl e
           | Inr _ \<Rightarrow>
               (case db_get ''execution'' execution_id (\<lambda>w. jobs w (Execution, execution_id)) w of
                  Inl e \<Rightarrow> Inl e
                | Inr None \<Rightarrow> Inl (HTTPException 404 ''Database execution not found'')
                | Inr (Some j) \<Rightarrow>
                    if jb_session j \<noteq> ss_id s \<or> jb_workspace j \<noteq> workspace_id \<or> jb_database j \<noteq> database_id
                    then Inl (HTTPException 404 ''Database execution not found'')
                    else if jb_expires j \<le> now \<or> jb_state j \<in> {Purged, Expired}
                    then Inl (HTTPException 410 ''Database result is unavailable'')
                    else
                      (case active_policy cf w of
                         Inl e \<Rightarrow> Inl e
                       | Inr version \<Rightarrow> if jb_policy j \<noteq> version then Inl permission_changed else Inr j))))"

definition get_execution ::
  "db_config \<Rightarrow> int \<Rightarrow> requester \<Rightarrow> string \<Rightarrow> string \<Rightarrow> string \<Rightarrow> db_world \<Rightarrow> public_execution result" where
  "get_execution cf now req database_id workspace_id execution_id w =
     map_result public_of_execution (live_execution cf now req database_id workspace_id execution_id w)"

section \<open>Finishing\<close>

text \<open>What a finishing worker reports; it is stored before the outcome is.\<close>

record job_report =
  rp_manifest :: "string option"
  rp_columns :: "string list"
  rp_rows :: "int option"
  rp_elapsed :: "int option"
  rp_file :: "string option"
  rp_bytes :: int

definition apply_report :: "job_kind \<Rightarrow> job_report option \<Rightarrow> db_job \<Rightarrow> db_job" where
  "apply_report kind report j =
     (case report of
        None \<Rightarrow> j
      | Some r \<Rightarrow>
          (case kind of
             Execution \<Rightarrow> j\<lparr>jb_manifest := rp_manifest r, jb_columns := rp_columns r, jb_rows := rp_rows r,
                            jb_bytes := rp_bytes r, jb_elapsed := rp_elapsed r\<rparr>
           | Export \<Rightarrow> j\<lparr>jb_file := rp_file r, jb_bytes := rp_bytes r\<rparr>))"

text \<open>
  Publication is authorised inside the transaction: workspace, session, policy and, for an export, its source.
\<close>

definition may_complete :: "db_config \<Rightarrow> int \<Rightarrow> job_kind \<Rightarrow> db_job \<Rightarrow> db_world \<Rightarrow> bool" where
  "may_complete cf now kind j w =
     ((case workspaces w (jb_workspace j) of
         None \<Rightarrow> False | Some k \<Rightarrow> wk_state k = PlaceActive \<and> now < wk_expires k) \<and>
      (case sessions w (jb_session j) of
         None \<Rightarrow> False
       | Some s \<Rightarrow> ss_revoked s = 0 \<and> now < ss_expires s \<and> (ss_source s = Some ''mcp'' \<longrightarrow> cf_mcp cf)) \<and>
      policy_live cf (jb_policy j) w = Inr True \<and>
      (kind = Export \<longrightarrow>
         (case jobs w (Execution, jb_execution j) of
            None \<Rightarrow> False | Some src \<Rightarrow> jb_state src = Completed \<and> now < jb_expires src)))"

definition finished_state :: "db_config \<Rightarrow> int \<Rightarrow> job_kind \<Rightarrow> job_state \<Rightarrow> db_job \<Rightarrow> db_world \<Rightarrow> job_state" where
  "finished_state cf now kind state j w =
     (if jb_expires j \<le> now then Expired
      else if state = Completed \<and> \<not> may_complete cf now kind j w then Cancelled
      else state)"

definition finished_job ::
  "int \<Rightarrow> job_kind \<Rightarrow> job_state \<Rightarrow> string option \<Rightarrow> job_report option \<Rightarrow> db_job \<Rightarrow> db_job" where
  "finished_job now kind state error report j =
     (let j1 = (apply_report kind report j)\<lparr>jb_state := state, jb_error := error, jb_input := None\<rparr>;
          j2 = (if state = Completed \<and> kind = Execution then j1\<lparr>jb_expires := now + ttl_seconds * second\<rparr> else j1)
      in if state \<noteq> Completed then j2\<lparr>jb_manifest := None, jb_file := None, jb_columns := []\<rparr> else j2)"

definition finishable :: "string option \<Rightarrow> job_state \<Rightarrow> db_job \<Rightarrow> bool" where
  "finishable claim state j =
     (jb_state j \<in> {Queued, Running} \<and>
      \<not> (claim = None \<and> jb_state j = Running \<and> state = Failed) \<and>
      (case claim of None \<Rightarrow> True | Some c \<Rightarrow> jb_claim j = Some c))"

definition finish_change ::
  "db_config \<Rightarrow> int \<Rightarrow> job_kind \<Rightarrow> string \<Rightarrow> string option \<Rightarrow> job_state \<Rightarrow> string option \<Rightarrow> job_report option \<Rightarrow>
   unit db_transform" where
  "finish_change cf now kind identity claim state error report w =
     (case jobs w (kind, identity) of
        None \<Rightarrow> Inr ((), w)
      | Some j \<Rightarrow>
          if \<not> finishable claim state j then Inr ((), w)
          else
            let st = finished_state cf now kind state j w;
                j' = finished_job now kind st error report j;
                c = coordinator (budget w);
                c' = (case map_of (bg_reservations c) identity of
                        None \<Rightarrow> c
                      | Some r \<Rightarrow>
                          if st = Completed
                          then c\<lparr>bg_reservations :=
                                 AList.update identity (r\<lparr>rs_bytes := jb_bytes j'\<rparr>) (bg_reservations c)\<rparr>
                          else c)
            in Inr ((), put_budget c' (put_job (kind, identity) j' w)))"

definition finish_references :: "job_kind \<Rightarrow> string \<Rightarrow> job_state \<Rightarrow> db_job \<Rightarrow> (string \<times> string) list" where
  "finish_references kind identity state j =
     [(kind_name kind, identity), (''control'', ''budget'')] @
     (if state = Completed
      then [(''workspace'', jb_workspace j), (''session'', jb_session j), (''control'', ''active_policy'')] @
           (if kind = Export then [(''execution'', jb_execution j)] else [])
      else [])"

definition finish_job ::
  "db_config \<Rightarrow> int \<Rightarrow> job_kind \<Rightarrow> string \<Rightarrow> string option \<Rightarrow> job_state \<Rightarrow> string option \<Rightarrow> job_report option \<Rightarrow>
   unit db" where
  "finish_job cf now kind identity claim state error report =
     db_bind (reading (db_get (kind_name kind) identity (\<lambda>w. jobs w (kind, identity)))) (\<lambda>initial.
       case initial of
         None \<Rightarrow> db_return ()
       | Some j \<Rightarrow>
           db_bind (reading (\<lambda>_. if state = Completed then map_result (\<lambda>_. ()) (policy_fingerprint cf) else Inr ()))
             (\<lambda>_. db_mutate (finish_references kind identity state j)
                    (finish_change cf now kind identity claim state error report)))"

section \<open>Claims\<close>

text \<open>
  The transaction of \<open>_claim\<close>, with the variable \<open>claimed\<close> that it leaves behind: the claimed job, if any.
\<close>

definition claim_change ::
  "int \<Rightarrow> job_kind \<Rightarrow> string \<Rightarrow> string \<Rightarrow> db_job option \<Rightarrow> db_world \<Rightarrow> (db_job option \<times> db_world) result" where
  "claim_change now kind identity token claimed w =
     (case jobs w (kind, identity) of
        None \<Rightarrow> Inr (claimed, w)
      | Some j \<Rightarrow>
          if jb_state j \<noteq> Queued then Inr (claimed, w)
          else if jb_expires j \<le> now
          then Inr (claimed, put_job (kind, identity) (j\<lparr>jb_state := Expired, jb_error := Some ''RESULT_EXPIRED''\<rparr>) w)
          else if jb_dispatch j \<le> now
          then Inr (claimed, put_job (kind, identity) (j\<lparr>jb_state := Failed, jb_error := Some ''DISPATCH_FAILED''\<rparr>) w)
          else
            let j' = j\<lparr>jb_state := Running, jb_claim := Some token,
                       jb_worker_deadline := now + worker_seconds * second\<rparr>
            in Inr (Some j', put_job (kind, identity) j' w))"

text \<open>
  The store runs a transaction again when it was aborted, at most three times, with the variables of the
  closure as the earlier attempts left them.  \<open>aborts\<close> lists what made each aborted attempt fail: the commits
  of other replicas since it read.
\<close>

fun attempts :: "('c \<Rightarrow> db_world \<Rightarrow> ('c \<times> db_world) result) \<Rightarrow> 'c \<Rightarrow> (db_world \<Rightarrow> db_world) list \<Rightarrow> 'c db" where
  "attempts f c [] w = (case f c w of Inl e \<Rightarrow> (Inl (visible_error e), w) | Inr (c', w') \<Rightarrow> (Inr c', w'))"
| "attempts f c (g # gs) w =
     (case f c w of
        Inl e \<Rightarrow> (Inl (visible_error e), w)
      | Inr (c', _) \<Rightarrow> attempts f c' gs (g w))"

definition claim_job ::
  "int \<Rightarrow> job_kind \<Rightarrow> string \<Rightarrow> string \<Rightarrow> (db_world \<Rightarrow> db_world) list \<Rightarrow> db_job option db" where
  "claim_job now kind identity token aborts =
     db_bind (reading (\<lambda>_. store_key (kind_name kind) identity)) (\<lambda>_ w.
       if 3 \<le> length aborts
       then (Inl (DatabaseUnavailable ''Database control store is unavailable''), fold (\<lambda>g. g) aborts w)
       else attempts (claim_change now kind identity token) None aborts w)"

definition close_worker :: "job_kind \<Rightarrow> string \<Rightarrow> string option \<Rightarrow> unit db_transform" where
  "close_worker kind identity claim w =
     (case jobs w (kind, identity) of
        None \<Rightarrow> Inr ((), w)
      | Some j \<Rightarrow>
          if jb_claim j = claim then Inr ((), put_job (kind, identity) (j\<lparr>jb_worker_deadline := 0\<rparr>) w)
          else Inr ((), w))"

definition worker_closed :: "job_kind \<Rightarrow> string \<Rightarrow> string option \<Rightarrow> unit db" where
  "worker_closed kind identity claim = db_mutate [(kind_name kind, identity)] (close_worker kind identity claim)"

end
