(* ===== verification/DatabaseWorkers.thy ===== *)
theory DatabaseWorkers
  imports DatabaseJobs
begin

text \<open>
  The handlers of \<open>services/database_jobs.py\<close> that compose the transactions: creating executions and exports,
  the workers that run them, cancellation, purging, cleanup and the periodic sweep.  Running SQL and writing the
  workbook are arguments: what they return and what the world has become meanwhile.  Cleanup deadlines are
  taken to hold.
\<close>

section \<open>Cleanup\<close>

definition pending :: "string \<Rightarrow> py_err" where
  "pending what = DatabaseUnavailable (''Database '' @ what @ '' cleanup is pending'')"

definition find_exports :: "string \<Rightarrow> db_world \<Rightarrow> db_job list" where
  "find_exports execution_id w =
     map snd (find_docs (job_docs w) (\<lambda>(k, _) j. k = Export \<and> jb_execution j = execution_id) 8)"

definition update_job :: "job_kind \<Rightarrow> string \<Rightarrow> (db_job \<Rightarrow> db_job) \<Rightarrow> unit db_transform" where
  "update_job kind identity f w =
     (case jobs w (kind, identity) of
        None \<Rightarrow> Inr ((), w)
      | Some j \<Rightarrow> Inr ((), put_job (kind, identity) (f j) w))"

definition expired_job :: "db_job \<Rightarrow> db_job" where
  "expired_job j = j\<lparr>jb_state := (if jb_state j \<noteq> Purged then Expired else Purged), jb_manifest := None,
     jb_input := None, jb_columns := []\<rparr>"

definition purged_execution :: "db_job \<Rightarrow> db_job" where
  "purged_execution j = j\<lparr>jb_state := Purged, jb_columns := [], jb_manifest := None, jb_input := None\<rparr>"

definition purged_export :: "db_job \<Rightarrow> db_job" where
  "purged_export j = j\<lparr>jb_state := Purged, jb_file := None\<rparr>"

definition cleaned_job :: "int \<Rightarrow> db_job \<Rightarrow> db_job" where
  "cleaned_job now j = j\<lparr>jb_cleaned := True, jb_expires := now + ttl_seconds * second, jb_manifest := None,
     jb_input := None, jb_columns := [], jb_file := None,
     jb_state := (if jb_state j = Purged then Purged else Expired)\<rparr>"

fun clean_jobs :: "int \<Rightarrow> (job_kind \<times> string) list \<Rightarrow> unit db_transform" where
  "clean_jobs now [] w = Inr ((), w)"
| "clean_jobs now (k # ks) w =
     clean_jobs now ks (case jobs w k of None \<Rightarrow> w | Some j \<Rightarrow> put_job k (cleaned_job now j) w)"

definition cleaned_execution :: "int \<Rightarrow> string \<Rightarrow> db_job list \<Rightarrow> unit db" where
  "cleaned_execution now identity exported =
     db_mutate ((''execution'', identity) # map (\<lambda>x. (''export'', jb_id x)) exported)
       (clean_jobs now ((Execution, identity) # map (\<lambda>x. (Export, jb_id x)) exported))"

definition release_all :: "int \<Rightarrow> string \<Rightarrow> db_job list \<Rightarrow> unit db" where
  "release_all now identity exported =
     db_bind (purge_objects identity) (\<lambda>_.
       db_bind (release_storage identity) (\<lambda>_.
         db_bind (for_each (\<lambda>x. release_storage (jb_id x)) exported) (\<lambda>_.
           cleaned_execution now identity exported)))"

definition purge_execution :: "int \<Rightarrow> db_job \<Rightarrow> unit db" where
  "purge_execution now v =
     (if jb_cleaned v then db_return ()
      else
        let identity = jb_id v in
        db_bind (db_mutate [(''execution'', identity), (''control'', ''budget'')] (update_job Execution identity purged_execution)) (\<lambda>_.
          db_bind (reading (\<lambda>w. Inr (find_exports identity w))) (\<lambda>exported.
            db_bind (for_each (\<lambda>x. db_mutate [(''export'', jb_id x), (''control'', ''budget'')]
                                     (update_job Export (jb_id x) purged_export)) exported) (\<lambda>_.
              db_bind (reading (\<lambda>w. Inr (jobs w (Execution, identity), find_exports identity w))) (\<lambda>(current, xs).
                if (case current of None \<Rightarrow> False | Some c \<Rightarrow> now < jb_worker_deadline c)
                   \<or> list_ex (\<lambda>x. now < jb_worker_deadline x) xs
                then db_raise (pending ''worker'')
                else release_all now identity xs)))))"

definition purge_place :: "int \<Rightarrow> string \<Rightarrow> unit db_transform" where
  "purge_place now identity w =
     (case workspaces w identity of
        None \<Rightarrow> Inr ((), w)
      | Some k \<Rightarrow> Inr ((), put_workspace identity
                     (k\<lparr>wk_state := PlacePurged, wk_expires := min (wk_expires k) now\<rparr>) w))"

definition tombstone_place :: "int \<Rightarrow> string \<Rightarrow> unit db_transform" where
  "tombstone_place now identity w =
     (case workspaces w identity of
        None \<Rightarrow> Inr ((), w)
      | Some k \<Rightarrow> Inr ((), put_workspace identity
                     (k\<lparr>wk_cleaned := True, wk_expires := now + ttl_seconds * second\<rparr>) w))"

definition purge_workspace_id :: "int \<Rightarrow> string \<Rightarrow> unit db" where
  "purge_workspace_id now identity =
     db_bind (db_mutate [(''workspace'', identity)] (purge_place now identity)) (\<lambda>_.
       db_bind (reading (\<lambda>w. Inr (map snd (find_docs (job_docs w)
                  (\<lambda>(k, _) j. k = Execution \<and> jb_workspace j = identity) 256)))) (\<lambda>found.
         db_bind (for_each (purge_execution now) found) (\<lambda>_.
           db_mutate [(''workspace'', identity)] (tombstone_place now identity))))"

definition cleanup :: "int \<Rightarrow> string \<Rightarrow> unit db" where
  "cleanup now identity =
     db_bind (reading (db_get ''workspace'' identity (\<lambda>w. workspaces w identity))) (\<lambda>place.
       case place of
         Some k \<Rightarrow>
           if wk_state k = PlacePurged \<or> wk_expires k \<le> now then purge_workspace_id now identity else db_return ()
       | None \<Rightarrow>
           db_bind (reading (\<lambda>w. Inr (jobs w (Execution, identity)))) (\<lambda>job.
             case job of
               None \<Rightarrow> db_bind (purge_objects identity) (\<lambda>_. release_storage identity)
             | Some j \<Rightarrow>
                 if \<not> (jb_expires j \<le> now \<or> jb_state j \<in> {Failed, Cancelled, Expired, Purged}) then db_return ()
                 else if now < jb_worker_deadline j then db_raise (pending ''worker'')
                 else
                   db_bind (reading (\<lambda>w. Inr (find_exports identity w))) (\<lambda>exported.
                     if list_ex (\<lambda>x. now < jb_worker_deadline x) exported then db_raise (pending ''export'')
                     else
                       db_bind (db_mutate [(''execution'', identity)] (update_job Execution identity expired_job)) (\<lambda>_.
                         release_all now identity exported))))"

text \<open>The record of an export whose object is erased, and its expiry with it when it is over.\<close>

definition export_erased :: "int \<Rightarrow> db_job \<Rightarrow> db_job" where
  "export_erased now j =
     (let j1 = j\<lparr>jb_file := None, jb_worker_deadline := 0\<rparr> in
      if jb_expires j1 \<le> now \<or> jb_state j1 \<in> {Expired, Purged}
      then j1\<lparr>jb_state := Expired, jb_cleaned := True, jb_expires := now + ttl_seconds * second\<rparr> else j1)"

definition cleanup_export :: "int \<Rightarrow> string \<Rightarrow> unit db" where
  "cleanup_export now identity =
     db_bind (reading (db_get ''export'' identity (\<lambda>w. jobs w (Export, identity)))) (\<lambda>current.
       case current of
         None \<Rightarrow> db_return ()
       | Some j \<Rightarrow>
           if (jb_state j \<in> {Queued, Running, Completed} \<and> now < jb_expires j) \<or> now < jb_worker_deadline j
           then db_raise (pending ''export'')
           else
             db_bind (erase_object (jb_execution j) (''export-'' @ jb_id j)) (\<lambda>_.
               db_bind (release_storage (jb_id j)) (\<lambda>_.
                 db_mutate [(''export'', jb_id j)] (update_job Export (jb_id j) (export_erased now)))))"

definition ensure_dispatch :: "db_config \<Rightarrow> bool \<Rightarrow> int \<Rightarrow> job_kind \<Rightarrow> string \<Rightarrow> unit db" where
  "ensure_dispatch cf up now kind identity =
     db_bind (reading (db_get (kind_name kind) identity (\<lambda>w. jobs w (kind, identity)))) (\<lambda>value.
       case value of
         None \<Rightarrow> db_return ()
       | Some j \<Rightarrow>
           if jb_state j \<noteq> Queued then db_return ()
           else if jb_dispatch j \<le> now
           then db_bind (finish_job cf now kind identity None Failed (Some ''DISPATCH_FAILED'') None) (\<lambda>_.
                  (case kind of Execution \<Rightarrow> cleanup now identity | Export \<Rightarrow> cleanup_export now (jb_id j)))
           else enqueue cf up (queue_name kind) identity None)"

section \<open>Creating executions\<close>

text \<open>
  \<open>en_stage\<close> is the outcome of uploading the SQL, \<open>en_parse\<close> the query validator, \<open>en_cleanup_up\<close> and
  \<open>en_query_up\<close> whether the task queue accepts each call.
\<close>

record job_env =
  en_now :: int
  en_parse :: "string \<Rightarrow> string list \<Rightarrow> unit result"
  en_stage :: "unit result"
  en_cleanup_up :: bool
  en_query_up :: bool

definition request_identity :: "string \<Rightarrow> string \<Rightarrow> string" where
  "request_identity workspace_id client_request_id = sha256_hex (workspace_id @ '':'' @ client_request_id)"

definition conflict :: py_err where
  "conflict = HTTPException 409 ''Database request identity conflicts''"

definition new_execution :: "int \<Rightarrow> string \<Rightarrow> db_workspace \<Rightarrow> db_session \<Rightarrow> string \<Rightarrow> db_job" where
  "new_execution now identity place s reference =
     \<lparr>jb_id = identity, jb_execution = identity, jb_workspace = wk_id place, jb_database = wk_database place,
      jb_session = ss_id s, jb_login = ss_login s, jb_policy = wk_policy place, jb_state = Queued, jb_created = now,
      jb_dispatch = now + dispatch_seconds * second, jb_expires = min (wk_expires place) (now + ttl_seconds * second),
      jb_input = Some reference, jb_columns = [], jb_rows = None, jb_elapsed = None, jb_manifest = None,
      jb_file = None, jb_bytes = 0, jb_error = None, jb_claim = None, jb_export = None, jb_worker_deadline = 0,
      jb_cleaned = False\<rparr>"

text \<open>The transaction returns the execution that the request identity selects.\<close>

definition insert_execution ::
  "db_config \<Rightarrow> int \<Rightarrow> string \<Rightarrow> string \<Rightarrow> db_workspace \<Rightarrow> db_job \<Rightarrow> string db_transform" where
  "insert_execution cf now request_id fingerprint place j w =
     (case workspaces w (jb_workspace j) of
        None \<Rightarrow> Inl gone
      | Some k \<Rightarrow>
          if wk_state k \<noteq> PlaceActive \<or> wk_expires k \<le> now then Inl gone
          else
            (case authority_live cf now (jb_session j) (wk_policy place) w of
               Inl e \<Rightarrow> Inl e
             | Inr live \<Rightarrow>
                 if \<not> live then Inl permission_changed
                 else
                   (case requests w request_id of
                      Some r \<Rightarrow> if rq_fingerprint r \<noteq> fingerprint then Inl conflict else Inr (rq_execution r, w)
                    | None \<Rightarrow>
                        if 256 \<le> wk_count k
                        then Inl (HTTPException 429 ''Database workspace execution budget is full'')
                        else
                          (case reserve_in (jb_id j) (jb_login j) snapshot_bytes (coordinator (budget w)) of
                             Inl e \<Rightarrow> Inl e
                           | Inr b \<Rightarrow>
                               Inr (jb_id j,
                                 put_request request_id \<lparr>rq_workspace = jb_workspace j, rq_execution = jb_id j,
                                     rq_fingerprint = fingerprint, rq_expires = wk_expires place\<rparr>
                                  (put_workspace (jb_workspace j)
                                     (k\<lparr>wk_execution := Some (jb_id j), wk_count := wk_count k + 1\<rparr>)
                                    (put_job (Execution, jb_id j) j (put_budget b w))))))))"

definition create_execution ::
  "db_config \<Rightarrow> job_env \<Rightarrow> requester \<Rightarrow> string \<Rightarrow> string \<Rightarrow> string \<Rightarrow> string \<Rightarrow> string \<Rightarrow> public_execution db" where
  "create_execution cf en req identity database_id workspace_id statement client_request_id =
     (let now = en_now en;
          request_id = request_identity workspace_id client_request_id;
          fingerprint = sha256_hex statement;
          result_of = (\<lambda>i. reading (get_execution cf now req database_id workspace_id i))
      in
      db_bind (reading (require_session cf now req)) (\<lambda>s.
       db_bind (reading (live_workspace cf now workspace_id s database_id)) (\<lambda>place.
        db_bind (reading (\<lambda>_. find_database cf database_id (ss_login s) (Some s))) (\<lambda>d.
         db_bind (reading (\<lambda>_. en_parse en statement (dx_schemas d))) (\<lambda>_.
          db_bind (reading (db_get ''request'' request_id (\<lambda>w. requests w request_id))) (\<lambda>existing.
           case existing of
             Some r \<Rightarrow>
               if rq_fingerprint r \<noteq> fingerprint then db_raise conflict
               else db_bind (ensure_dispatch cf (en_query_up en) now Execution (rq_execution r)) (\<lambda>_.
                      result_of (rq_execution r))
           | None \<Rightarrow>
               db_bind (enqueue cf (en_cleanup_up en) ''cleanup'' identity (Some (now + ttl_seconds * second))) (\<lambda>_.
                db_bind (db_mutate [(''control'', ''budget'')] (reserve_storage identity (ss_login s) snapshot_bytes)) (\<lambda>_.
                 db_bind (db_catch (stage_object (en_stage en) identity)
                    (\<lambda>e. db_bind (purge_objects identity) (\<lambda>_. db_bind (release_storage identity) (\<lambda>_. db_raise e)))) (\<lambda>reference.
                  db_bind (db_catch
                     (db_mutate [(''control'', ''budget''), (''workspace'', workspace_id), (''request'', request_id),
                              (''execution'', identity), (''session'', ss_id s), (''control'', ''active_policy'')]
                        (insert_execution cf now request_id fingerprint place (new_execution now identity place s reference)))
                     (\<lambda>e. db_bind (reading (\<lambda>w. Inr (jobs w (Execution, identity)))) (\<lambda>x.
                        if x = None
                        then db_bind (erase_object identity ''input'') (\<lambda>_. db_bind (release_storage identity) (\<lambda>_. db_raise e))
                        else db_raise e))) (\<lambda>selected.
                   if selected \<noteq> identity
                   then db_bind (erase_object identity ''input'') (\<lambda>_. db_bind (release_storage identity) (\<lambda>_. result_of selected))
                   else
                     db_bind (db_catch (enqueue cf (en_query_up en) ''query'' identity None)
                        (\<lambda>e. db_bind (finish_job cf now Execution identity None Failed (Some ''DISPATCH_FAILED'') None) (\<lambda>_.
                           db_bind (reading (\<lambda>w. Inr (jobs w (Execution, identity)))) (\<lambda>x.
                             case x of
                               None \<Rightarrow> db_raise e
                             | Some c \<Rightarrow>
                                 if jb_state c \<noteq> Running
                                 then db_bind (purge_objects identity) (\<lambda>_. db_bind (release_storage identity) (\<lambda>_. db_raise e))
                                 else db_raise e)))) (\<lambda>_.
                      result_of identity)))))))))))"

section \<open>Workers\<close>

definition stopped :: py_err where
  "stopped = HTTPException 409 ''Database execution stopped''"

text \<open>
  \<open>RunContext.authorize(force=True)\<close>: \<open>alive\<close> tells that the worker was not cancelled and is within its wall
  clock.
\<close>

definition authorize_run :: "db_config \<Rightarrow> int \<Rightarrow> bool \<Rightarrow> job_kind \<Rightarrow> db_job \<Rightarrow> db_world \<Rightarrow> unit result" where
  "authorize_run cf now alive kind v w =
     (if \<not> alive then Inl stopped
      else
        (case active_policy cf w of
           Inl e \<Rightarrow> Inl e
         | Inr version \<Rightarrow>
             if version \<noteq> jb_policy v then Inl permission_changed
             else
               (case session_validate cf now (jb_session v) (jb_login v) w of
                  Inl e \<Rightarrow> Inl e
                | Inr s \<Rightarrow>
                    (case live_workspace cf now (jb_workspace v) s (jb_database v) w of
                       Inl e \<Rightarrow> Inl e
                     | Inr _ \<Rightarrow>
                         (case jobs w (kind, jb_id v) of
                            None \<Rightarrow> Inl stopped
                          | Some c \<Rightarrow>
                              if jb_state c \<noteq> Running \<or> jb_claim c \<noteq> jb_claim v \<or> jb_expires c \<le> now
                              then Inl stopped
                              else if kind = Export
                              then
                                (case jobs w (Execution, jb_execution v) of
                                   None \<Rightarrow> Inl (HTTPException 409 ''Database result is unavailable'')
                                 | Some src \<Rightarrow>
                                     raise_if (jb_state src \<noteq> Completed \<or> jb_expires src \<le> now)
                                       (HTTPException 409 ''Database result is unavailable''))
                              else Inr ())))))"

text \<open>
  The run itself: the outcome of the SQL or of the workbook with the world it leaves, the clock after it, and
  whether the worker is still alive.  \<open>wr_aborts\<close> are the aborted attempts of the claiming transaction.
\<close>

record worker_run =
  wr_now :: int
  wr_token :: string
  wr_aborts :: "(db_world \<Rightarrow> db_world) list"
  wr_work :: "db_job \<Rightarrow> job_report db"
  wr_later :: int
  wr_alive :: bool
  wr_cleanup_up :: bool

definition query_error :: "bool \<Rightarrow> py_err \<Rightarrow> string" where
  "query_error alive e =
     (case e of
        QueryRejected _ \<Rightarrow> ''QUERY_REJECTED''
      | HTTPException n _ \<Rightarrow>
          if n = 429 then ''RESOURCE_BUSY'' else if n = 422 then ''RESOURCE_EXCEEDED''
          else if \<not> alive then ''QUERY_STOPPED'' else ''QUERY_FAILED''
      | _ \<Rightarrow> if \<not> alive then ''QUERY_STOPPED'' else ''QUERY_FAILED'')"

text \<open>The body of the worker, and what it does about an exception.\<close>

definition publish_query :: "db_config \<Rightarrow> worker_run \<Rightarrow> string \<Rightarrow> db_job \<Rightarrow> unit db" where
  "publish_query cf run identity v =
     db_bind (reading (authorize_run cf (wr_now run) True Execution v)) (\<lambda>_.
       db_bind (reading (session_validate cf (wr_now run) (jb_session v) (jb_login v))) (\<lambda>s.
         db_bind (reading (\<lambda>_. find_database cf (jb_database v) (jb_login v) (Some s))) (\<lambda>_.
           db_bind (wr_work run v) (\<lambda>report.
             db_bind (reading (authorize_run cf (wr_later run) (wr_alive run) Execution v)) (\<lambda>_.
               db_bind (finish_job cf (wr_later run) Execution identity (jb_claim v) Completed None (Some report)) (\<lambda>_.
                 db_bind (reading (\<lambda>w. Inr (jobs w (Execution, identity)))) (\<lambda>final.
                   if (case final of None \<Rightarrow> True | Some f \<Rightarrow> jb_state f \<noteq> Completed)
                   then db_bind (purge_objects identity) (\<lambda>_. release_storage identity)
                   else db_return ())))))))"

definition fail_query :: "db_config \<Rightarrow> worker_run \<Rightarrow> string \<Rightarrow> db_job \<Rightarrow> py_err \<Rightarrow> unit db" where
  "fail_query cf run identity v e =
     db_bind (finish_job cf (wr_later run) Execution identity (jb_claim v) Failed
                (Some (query_error (wr_alive run) e)) None) (\<lambda>_.
       db_bind (purge_objects identity) (\<lambda>_. release_storage identity))"

definition schedule_expiry :: "db_config \<Rightarrow> bool \<Rightarrow> string \<Rightarrow> unit db" where
  "schedule_expiry cf up identity =
     db_bind (reading (\<lambda>w. Inr (jobs w (Execution, identity)))) (\<lambda>final.
       case final of
         Some f \<Rightarrow>
           if jb_state f = Completed then enqueue cf up ''cleanup'' identity (Some (jb_expires f)) else db_return ()
       | None \<Rightarrow> db_return ())"

definition run_query :: "db_config \<Rightarrow> worker_run \<Rightarrow> string \<Rightarrow> unit db" where
  "run_query cf run identity =
     db_bind (claim_job (wr_now run) Execution identity (wr_token run) (wr_aborts run)) (\<lambda>claimed.
       case claimed of
         None \<Rightarrow> db_return ()
       | Some v \<Rightarrow>
           db_bind
             (db_finally (db_catch (publish_query cf run identity v) (fail_query cf run identity v))
                (worker_closed Execution identity (jb_claim v)))
             (\<lambda>_. schedule_expiry cf (wr_cleanup_up run) identity))"

definition cancel :: "db_config \<Rightarrow> int \<Rightarrow> bool \<Rightarrow> requester \<Rightarrow> string \<Rightarrow> string \<Rightarrow> string \<Rightarrow> public_execution db" where
  "cancel cf now up req database_id workspace_id execution_id =
     db_bind (reading (live_execution cf now req database_id workspace_id execution_id)) (\<lambda>j.
       db_bind (finish_job cf now Execution execution_id (jb_claim j) Cancelled (Some ''QUERY_CANCELLED'') None) (\<lambda>_.
         db_bind (enqueue cf up ''cleanup'' execution_id None) (\<lambda>_.
           reading (get_execution cf now req database_id workspace_id execution_id))))"

section \<open>Exports\<close>

record public_export =
  px_id :: string
  px_status :: job_state
  px_expires :: int
  px_error :: "string option"
  px_download :: "string option"

definition live_export ::
  "db_config \<Rightarrow> int \<Rightarrow> requester \<Rightarrow> string \<Rightarrow> string \<Rightarrow> string \<Rightarrow> string \<Rightarrow> db_world \<Rightarrow> db_job result" where
  "live_export cf now req database_id workspace_id execution_id export_id w =
     (case live_execution cf now req database_id workspace_id execution_id w of
        Inl e \<Rightarrow> Inl e
      | Inr _ \<Rightarrow>
          (case db_get ''export'' export_id (\<lambda>w. jobs w (Export, export_id)) w of
             Inl e \<Rightarrow> Inl e
           | Inr None \<Rightarrow> Inl (HTTPException 404 ''Database export not found'')
           | Inr (Some j) \<Rightarrow>
               if jb_execution j \<noteq> execution_id \<or> jb_workspace j \<noteq> workspace_id
               then Inl (HTTPException 404 ''Database export not found'')
               else if jb_expires j \<le> now \<or> jb_state j \<in> {Expired, Purged}
               then Inl (HTTPException 410 ''Database export is unavailable'')
               else Inr j))"

definition public_of_export :: "string \<Rightarrow> string \<Rightarrow> string \<Rightarrow> string \<Rightarrow> db_job \<Rightarrow> public_export" where
  "public_of_export database_id workspace_id execution_id export_id j =
     \<lparr>px_id = export_id, px_status = jb_state j, px_expires = jb_expires j, px_error = jb_error j,
      px_download =
        (if jb_state j = Completed
         then Some (''/api/databases/'' @ database_id @ ''/workspaces/'' @ workspace_id @ ''/executions/'' @
                execution_id @ ''/exports/'' @ export_id @ ''/file'')
         else None)\<rparr>"

definition get_export ::
  "db_config \<Rightarrow> int \<Rightarrow> requester \<Rightarrow> string \<Rightarrow> string \<Rightarrow> string \<Rightarrow> string \<Rightarrow> db_world \<Rightarrow> public_export result" where
  "get_export cf now req database_id workspace_id execution_id export_id w =
     map_result (public_of_export database_id workspace_id execution_id export_id)
       (live_export cf now req database_id workspace_id execution_id export_id w)"

definition new_export :: "int \<Rightarrow> string \<Rightarrow> db_job \<Rightarrow> db_job" where
  "new_export now identity src =
     \<lparr>jb_id = identity, jb_execution = jb_id src, jb_workspace = jb_workspace src, jb_database = jb_database src,
      jb_session = jb_session src, jb_login = jb_login src, jb_policy = jb_policy src, jb_state = Queued,
      jb_created = now, jb_dispatch = now + dispatch_seconds * second, jb_expires = jb_expires src, jb_input = None,
      jb_columns = [], jb_rows = None, jb_elapsed = None, jb_manifest = None, jb_file = None, jb_bytes = 0,
      jb_error = None, jb_claim = None, jb_export = None, jb_worker_deadline = 0, jb_cleaned = False\<rparr>"

definition insert_export :: "db_config \<Rightarrow> int \<Rightarrow> db_job \<Rightarrow> db_job \<Rightarrow> string db_transform" where
  "insert_export cf now src j w =
     (case jobs w (Execution, jb_id src) of
        None \<Rightarrow> Inl (HTTPException 409 ''Database result is unavailable'')
      | Some c \<Rightarrow>
          if jb_state c \<noteq> Completed \<or> jb_expires c \<le> now
          then Inl (HTTPException 409 ''Database result is unavailable'')
          else
            (case (if jb_export c \<noteq> jb_export src then jb_export c else None) of
               Some other \<Rightarrow> Inr (other, w)
             | None \<Rightarrow>
                 (case workspaces w (jb_workspace src) of
                    None \<Rightarrow> Inl permission_changed
                  | Some k \<Rightarrow>
                      if wk_state k \<noteq> PlaceActive \<or> wk_expires k \<le> now then Inl permission_changed
                      else
                        (case authority_live cf now (jb_session src) (jb_policy src) w of
                           Inl e \<Rightarrow> Inl e
                         | Inr live \<Rightarrow>
                             if \<not> live then Inl permission_changed
                             else
                               (case reserve_in (jb_id j) (jb_login src) export_bytes (coordinator (budget w)) of
                                  Inl e \<Rightarrow> Inl e
                                | Inr b \<Rightarrow>
                                    Inr (jb_id j, put_job (Execution, jb_id src) (c\<lparr>jb_export := Some (jb_id j)\<rparr>)
                                      (put_job (Export, jb_id j) j (put_budget b w))))))))"

definition create_export ::
  "db_config \<Rightarrow> bool \<Rightarrow> int \<Rightarrow> requester \<Rightarrow> string \<Rightarrow> string \<Rightarrow> string \<Rightarrow> string \<Rightarrow> public_export db" where
  "create_export cf up now req identity database_id workspace_id execution_id =
     (let result_of = (\<lambda>i. reading (get_export cf now req database_id workspace_id execution_id i));
          fresh = (\<lambda>src.
            db_bind (reading (\<lambda>w. Inr (find_exports execution_id w))) (\<lambda>found.
              if 8 \<le> length found then db_raise (HTTPException 429 ''Database export retry budget is full'')
              else
                let j = new_export now identity src in
                db_bind (db_mutate [(''execution'', execution_id), (''export'', identity), (''control'', ''budget''),
                            (''session'', jb_session src), (''workspace'', workspace_id), (''control'', ''active_policy'')]
                           (insert_export cf now src j)) (\<lambda>selected.
                  db_bind
                    (if selected = identity
                     then db_catch (enqueue cf up ''export'' identity None)
                        (\<lambda>e. db_bind (finish_job cf now Export identity None Failed (Some ''DISPATCH_FAILED'') None) (\<lambda>_.
                               db_bind (cleanup_export now identity) (\<lambda>_. db_raise e)))
                     else db_return ())
                    (\<lambda>_. result_of selected))))
      in
      db_bind (reading (live_execution cf now req database_id workspace_id execution_id)) (\<lambda>src.
        if jb_state src \<noteq> Completed then db_raise (HTTPException 409 ''Database result is not complete'')
        else
          (case jb_export src of
             None \<Rightarrow> fresh src
           | Some x \<Rightarrow>
               db_bind (reading (db_get ''export'' x (\<lambda>w. jobs w (Export, x)))) (\<lambda>previous.
                 case previous of
                   None \<Rightarrow> fresh src
                 | Some p \<Rightarrow>
                     if jb_state p \<in> {Queued, Running, Completed}
                     then db_bind (ensure_dispatch cf up now Export (jb_id p)) (\<lambda>_. result_of x)
                     else db_bind (cleanup_export now (jb_id p)) (\<lambda>_. fresh src)))))"

definition publish_export :: "db_config \<Rightarrow> worker_run \<Rightarrow> string \<Rightarrow> string \<Rightarrow> db_job \<Rightarrow> unit db" where
  "publish_export cf run permit_token identity v =
     db_bind (reading (authorize_run cf (wr_now run) True Export v)) (\<lambda>_.
       db_bind (reading (\<lambda>w. Inr (jobs w (Execution, jb_execution v)))) (\<lambda>source.
         if (case source of None \<Rightarrow> True | Some f \<Rightarrow> jb_state f \<noteq> Completed)
         then db_raise (DatabaseUnavailable ''Database result is unavailable'')
         else
           with_permit (wr_now run) permit_token ExportPermit (jb_login v) ''''
             (reading (authorize_run cf (wr_now run) True Export v))
             (db_bind (wr_work run v) (\<lambda>report.
               db_bind (reading (authorize_run cf (wr_later run) (wr_alive run) Export v)) (\<lambda>_.
                 finish_job cf (wr_later run) Export identity (jb_claim v) Completed None (Some report))))))"

definition export_error :: "py_err \<Rightarrow> string" where
  "export_error e =
     (case e of
        HTTPException n _ \<Rightarrow> if n = 422 then ''RESOURCE_EXCEEDED'' else ''EXPORT_FAILED''
      | _ \<Rightarrow> ''EXPORT_FAILED'')"

definition run_export :: "db_config \<Rightarrow> worker_run \<Rightarrow> string \<Rightarrow> string \<Rightarrow> unit db" where
  "run_export cf run permit_token identity =
     db_bind (claim_job (wr_now run) Export identity (wr_token run) (wr_aborts run)) (\<lambda>claimed.
       case claimed of
         None \<Rightarrow> db_return ()
       | Some v \<Rightarrow>
           db_bind
             (db_finally
               (db_catch (publish_export cf run permit_token identity v)
                 (\<lambda>e. finish_job cf (wr_later run) Export identity (jb_claim v) Failed (Some (export_error e)) None))
               (worker_closed Export identity (jb_claim v)))
             (\<lambda>_. db_bind (reading (\<lambda>w. Inr (jobs w (Export, identity)))) (\<lambda>final.
                case final of
                  Some f \<Rightarrow> if jb_state f \<noteq> Completed then cleanup_export (wr_later run) (jb_id f) else db_return ()
                | None \<Rightarrow> db_return ())))"

section \<open>The bounded sink of an export\<close>

text \<open>\<open>_BoundedSink.write\<close>: the bytes written so far, the authorization of this write, and the chunk.\<close>

definition sink_write :: "unit result \<Rightarrow> int \<Rightarrow> nat \<Rightarrow> int result" where
  "sink_write authorized written chunk =
     (case authorized of
        Inl e \<Rightarrow> Inl e
      | Inr _ \<Rightarrow>
          if export_bytes < written + int chunk
          then Inl (HTTPException 422 ''Database export exceeds the resource budget'')
          else Inr (written + int chunk))"

section \<open>Purging\<close>

definition purge_workspace ::
  "db_config \<Rightarrow> bool \<Rightarrow> int \<Rightarrow> requester \<Rightarrow> string \<Rightarrow> string \<Rightarrow> (string \<times> place_state) db" where
  "purge_workspace cf up now req database_id workspace_id =
     db_bind (reading (require_session cf now req)) (\<lambda>s.
       db_bind (reading (db_get ''workspace'' workspace_id (\<lambda>w. workspaces w workspace_id))) (\<lambda>value.
         if (case value of None \<Rightarrow> True | Some k \<Rightarrow> wk_session k \<noteq> ss_id s \<or> wk_database k \<noteq> database_id)
         then db_raise (HTTPException 404 ''Database workspace not found'')
         else
           db_bind (db_mutate [(''workspace'', workspace_id)] (purge_place now workspace_id)) (\<lambda>_.
             db_bind (enqueue cf up ''cleanup'' workspace_id None) (\<lambda>_.
               db_return (workspace_id, PlacePurged)))))"

definition purge_session :: "db_config \<Rightarrow> bool \<Rightarrow> int \<Rightarrow> string \<Rightarrow> unit db" where
  "purge_session cf up now sid =
     db_bind (reading (\<lambda>w. Inr (map (wk_id \<circ> snd) (find_docs (workspace_docs w) (\<lambda>_ k. wk_session k = sid) 64))))
       (for_each (\<lambda>i.
          db_bind (db_mutate [(''workspace'', i)] (purge_place now i)) (\<lambda>_. enqueue cf up ''cleanup'' i None)))"

text \<open>\<open>mcp_grants.revoke\<close>\<close>

definition mcp_revoke :: "db_config \<Rightarrow> bool \<Rightarrow> int \<Rightarrow> string \<Rightarrow> unit db" where
  "mcp_revoke cf up now sid =
     db_bind (db_mutate [(''session'', sid)] (revoke_session (\<lambda>s. ss_source s = Some ''mcp'') now sid))
       (\<lambda>_. purge_session cf up now sid)"

section \<open>The sweep\<close>

text \<open>\<open>try: ... except DatabaseUnavailable: continue\<close>\<close>

definition tolerant :: "unit db \<Rightarrow> unit db" where
  "tolerant m = db_catch m (\<lambda>e. case e of DatabaseUnavailable _ \<Rightarrow> db_return () | _ \<Rightarrow> db_raise e)"

definition find_kind :: "job_kind \<Rightarrow> (db_job \<Rightarrow> bool) \<Rightarrow> db_world \<Rightarrow> db_job list" where
  "find_kind kind P w = map snd (find_docs (job_docs w) (\<lambda>(k, _) j. k = kind \<and> P j) 64)"

definition sweep_queued :: "db_config \<Rightarrow> bool \<Rightarrow> int \<Rightarrow> job_kind \<Rightarrow> unit db" where
  "sweep_queued cf up now kind =
     db_bind (reading (\<lambda>w. Inr (find_kind kind (\<lambda>j. jb_state j = Queued) w)))
       (for_each (\<lambda>j. tolerant (ensure_dispatch cf up now kind (jb_id j))))"

definition remove_document :: "string \<Rightarrow> (string \<Rightarrow> db_world \<Rightarrow> db_world) \<Rightarrow> string \<Rightarrow> unit db" where
  "remove_document kind drop_it identity = db_mutate [(kind, identity)] (\<lambda>w. Inr ((), drop_it identity w))"

definition sweep_requests :: "int \<Rightarrow> unit db" where
  "sweep_requests now =
     db_bind (reading (\<lambda>w. Inr (map fst (find_docs (request_docs w) (\<lambda>_ r. rq_expires r \<le> now) 64))))
       (for_each (remove_document ''request'' drop_request))"

definition sweep_sessions :: "int \<Rightarrow> unit db" where
  "sweep_sessions now =
     db_bind (reading (\<lambda>w. Inr (map fst (find_docs (session_docs w) (\<lambda>_ s. ss_expires s \<le> now) 64))))
       (for_each (remove_document ''session'' drop_session))"

definition forget_workspace :: "db_workspace \<Rightarrow> unit db_transform" where
  "forget_workspace k w =
     (let w1 = drop_workspace (wk_id k) w in
      case sessions w (wk_session k) of
        None \<Rightarrow> Inr ((), w1)
      | Some s \<Rightarrow> Inr ((), put_session (wk_session k)
                     (s\<lparr>ss_workspaces := filter (\<lambda>i. i \<noteq> wk_id k) (ss_workspaces s)\<rparr>) w1))"

definition sweep_workspaces :: "int \<Rightarrow> unit db" where
  "sweep_workspaces now =
     db_bind (reading (\<lambda>w. Inr (map snd (find_docs (workspace_docs w) (\<lambda>_ k. wk_expires k \<le> now) 64))))
       (for_each (\<lambda>k.
          if wk_cleaned k
          then db_mutate [(''workspace'', wk_id k), (''session'', wk_session k)] (forget_workspace k)
          else tolerant (purge_workspace_id now (wk_id k))))"

definition sweep_expired :: "int \<Rightarrow> job_kind \<Rightarrow> unit db" where
  "sweep_expired now kind =
     db_bind (reading (\<lambda>w. Inr (find_kind kind (\<lambda>j. jb_expires j \<le> now) w)))
       (for_each (\<lambda>j.
          if jb_cleaned j then remove_document (kind_name kind) (\<lambda>i. drop_job (kind, i)) (jb_id j)
          else tolerant (case kind of Execution \<Rightarrow> cleanup now (jb_id j) | Export \<Rightarrow> cleanup_export now (jb_id j))))"

definition sweep_lost :: "db_config \<Rightarrow> int \<Rightarrow> job_kind \<Rightarrow> unit db" where
  "sweep_lost cf now kind =
     db_bind (reading (\<lambda>w. Inr (find_kind kind (\<lambda>j. jb_state j = Running) w)))
       (for_each (\<lambda>j.
          if jb_worker_deadline j < now
          then
            db_bind (finish_job cf now kind (jb_id j) (jb_claim j) Failed (Some ''WORKER_LOST'') None) (\<lambda>_.
              (case kind of
                 Execution \<Rightarrow> db_bind (purge_objects (jb_id j)) (\<lambda>_. release_storage (jb_id j))
               | Export \<Rightarrow> cleanup_export now (jb_id j)))
          else db_return ()))"

definition sweep :: "db_config \<Rightarrow> bool \<Rightarrow> int \<Rightarrow> unit db" where
  "sweep cf up now =
     for_each (\<lambda>m. m)
       [sweep_queued cf up now Execution, sweep_queued cf up now Export, sweep_requests now, sweep_sessions now,
        sweep_workspaces now, sweep_expired now Execution, sweep_lost cf now Execution, sweep_lost cf now Export,
        sweep_expired now Export]"

end
