(* ===== verification/Runs.thy ===== *)
theory Runs
  imports Effects
begin

text \<open>
  Handlers as sequences of atomic steps, for any step relation: from a world that satisfies \<open>P\<close>, the operation only
  takes steps, and when it returns its result and world satisfy \<open>Q\<close>.
\<close>

definition runs_in ::
  "('s \<Rightarrow> 's \<Rightarrow> bool) \<Rightarrow> ('s \<Rightarrow> bool) \<Rightarrow> ('s, 'a) op \<Rightarrow> ('a \<Rightarrow> 's \<Rightarrow> bool) \<Rightarrow> bool" where
  "runs_in T P m Q = (\<forall>w. P w \<longrightarrow> T\<^sup>*\<^sup>* w (snd (m w)) \<and> (\<forall>x. fst (m w) = Inr x \<longrightarrow> Q x (snd (m w))))"

lemma runs_weaken: "runs_in T P m Q \<Longrightarrow> (\<And>w. P' w \<Longrightarrow> P w) \<Longrightarrow> (\<And>x w. Q x w \<Longrightarrow> Q' x w) \<Longrightarrow> runs_in T P' m Q'"
  by (auto simp: runs_in_def)

lemma runs_return: "runs_in T P (db_return x) (\<lambda>y w. y = x \<and> P w)"
  by (simp add: runs_in_def db_return_def)

lemma runs_raise: "runs_in T P (db_raise e) Q"
  by (simp add: runs_in_def db_raise_def)

lemma runs_reading: "runs_in T P (reading f) (\<lambda>x w. f w = Inr x \<and> P w)"
  by (simp add: runs_in_def reading_def)

lemma runs_bind:
  assumes "runs_in T P m Q" and "\<And>x. runs_in T (Q x) (k x) R"
  shows "runs_in T P (db_bind m k) R"
  unfolding runs_in_def
proof (intro allI impI)
  fix w
  assume "P w"
  then have m: "T\<^sup>*\<^sup>* w (snd (m w))" "\<forall>x. fst (m w) = Inr x \<longrightarrow> Q x (snd (m w))"
    using assms(1) by (auto simp: runs_in_def)
  show "T\<^sup>*\<^sup>* w (snd (db_bind m k w)) \<and>
      (\<forall>x. fst (db_bind m k w) = Inr x \<longrightarrow> R x (snd (db_bind m k w)))"
  proof (cases "fst (m w)")
    case (Inl e)
    then show ?thesis using m(1) by (cases "m w") (simp add: db_bind_def)
  next
    case (Inr x)
    then have "db_bind m k w = k x (snd (m w))" by (cases "m w") (simp add: db_bind_def)
    moreover have "T\<^sup>*\<^sup>* (snd (m w)) (snd (k x (snd (m w)))) \<and>
        (\<forall>y. fst (k x (snd (m w))) = Inr y \<longrightarrow> R y (snd (k x (snd (m w)))))"
      using assms(2) [of x] m(2) Inr by (auto simp: runs_in_def)
    ultimately show ?thesis using m(1) by (metis rtranclp_trans)
  qed
qed

lemma runs_catch:
  assumes "runs_in T P m Q" and "\<And>e. runs_in T (\<lambda>_. True) (h e) Q"
  shows "runs_in T P (db_catch m h) Q"
  unfolding runs_in_def
proof (intro allI impI)
  fix w
  assume "P w"
  then have m: "T\<^sup>*\<^sup>* w (snd (m w))" "\<forall>x. fst (m w) = Inr x \<longrightarrow> Q x (snd (m w))"
    using assms(1) by (auto simp: runs_in_def)
  show "T\<^sup>*\<^sup>* w (snd (db_catch m h w)) \<and>
      (\<forall>x. fst (db_catch m h w) = Inr x \<longrightarrow> Q x (snd (db_catch m h w)))"
  proof (cases "fst (m w)")
    case (Inr x)
    then show ?thesis using m by (cases "m w") (simp add: db_catch_def)
  next
    case (Inl e)
    then have "db_catch m h w = h e (snd (m w))" by (cases "m w") (simp add: db_catch_def)
    moreover have "T\<^sup>*\<^sup>* (snd (m w)) (snd (h e (snd (m w)))) \<and>
        (\<forall>y. fst (h e (snd (m w))) = Inr y \<longrightarrow> Q y (snd (h e (snd (m w)))))"
      using assms(2) [of e] by (auto simp: runs_in_def)
    ultimately show ?thesis using m(1) by (metis rtranclp_trans)
  qed
qed

lemma runs_always: "runs_in T (\<lambda>_. True) m Q \<Longrightarrow> runs_in T P m (\<lambda>_ _. True)"
  by (auto simp: runs_in_def)

lemma runs_finally:
  assumes "runs_in T (\<lambda>_. True) m (\<lambda>_ _. True)" and "runs_in T (\<lambda>_. True) h (\<lambda>_ _. True)"
  shows "runs_in T (\<lambda>_. True) (db_finally m h) (\<lambda>_ _. True)"
proof -
  have "T\<^sup>*\<^sup>* w (snd (db_finally m h w))" for w
  proof -
    obtain r u where m: "m w = (r, u)" by (cases "m w")
    obtain q v where h: "h u = (q, v)" by (cases "h u")
    have "T\<^sup>*\<^sup>* w u" "T\<^sup>*\<^sup>* u v" using assms m h by (auto simp: runs_in_def dest: spec [of _ w] spec [of _ u])
    then have "T\<^sup>*\<^sup>* w v" by (rule rtranclp_trans)
    then show ?thesis using m h by (cases q) (simp_all add: db_finally_def)
  qed
  then show ?thesis by (simp add: runs_in_def)
qed

lemma runs_steps: "runs_in T P m Q \<Longrightarrow> P w \<Longrightarrow> T\<^sup>*\<^sup>* w (snd (m w))"
  by (simp add: runs_in_def)

end
