(* ===== verification/DatabaseSteps.thy ===== *)
theory DatabaseSteps
  imports DatabaseWorkers Runs
begin

text \<open>
  The protocol of the database control store: one rule per atomic transaction, and the proof that every handler
  is a sequence of them.  The rules' arguments are arbitrary, so a sequence of steps is any interleaving of any
  number of replicas, workers and sweepers at the granularity of transactions.
\<close>

section \<open>Steps\<close>

definition unused :: "string \<Rightarrow> db_world \<Rightarrow> bool" where
  "unused identity w = (\<forall>k. jobs w (k, identity) = None)"

definition within_bounds :: "job_report option \<Rightarrow> bool" where
  "within_bounds report = (case report of None \<Rightarrow> True | Some r \<Rightarrow> 0 \<le> rp_bytes r \<and> rp_bytes r \<le> snapshot_bytes)"

definition fresh_job :: "db_job \<Rightarrow> bool" where
  "fresh_job j = (jb_state j = Queued \<and> jb_claim j = None \<and> jb_bytes j = 0)"

inductive db_step :: "db_config \<Rightarrow> db_world \<Rightarrow> db_world \<Rightarrow> bool" for cf where
  objects: "db_step cf w (w\<lparr>objects := X\<rparr>)"
| tasks: "db_step cf w (w\<lparr>outbox := Y\<rparr>)"
| outage: "db_step cf w (w\<lparr>blocked := Z\<rparr>)"
| administered: "db_step cf w (w\<lparr>policy := p\<rparr>)"
| signed_in: "insert_session s w = Inr ((), w') \<Longrightarrow> ss_revoked s = 0 \<Longrightarrow> db_step cf w w'"
| granted: "activate_grant now old previous g w = Inr (b, w') \<Longrightarrow> ss_revoked g = 0 \<Longrightarrow>
    (case old of None \<Rightarrow> True | Some v \<Rightarrow> ss_generation v < ss_generation g) \<Longrightarrow> db_step cf w w'"
| revoked: "revoke_session P now i w = Inr ((), w') \<Longrightarrow> db_step cf w w'"
| opened: "insert_workspace cf now k w = Inr ((), w') \<Longrightarrow> db_step cf w w'"
| staged: "reserve_storage i owner snapshot_bytes w = Inr ((), w') \<Longrightarrow> db_step cf w w'"
| released: "release_in i w = Inr ((), w') \<Longrightarrow> db_step cf w w'"
| admitted: "take_permit now token kind owner role w = Inr ((), w') \<Longrightarrow> db_step cf w w'"
| left: "drop_permit token w = Inr ((), w') \<Longrightarrow> db_step cf w w'"
| created: "insert_execution cf now r f place j w = Inr (x, w') \<Longrightarrow> fresh_job j \<Longrightarrow> unused (jb_id j) w \<Longrightarrow>
    db_step cf w w'"
| exported: "insert_export cf now src j w = Inr (x, w') \<Longrightarrow> fresh_job j \<Longrightarrow> unused (jb_id j) w \<Longrightarrow>
    jb_login j = jb_login src \<Longrightarrow> db_step cf w w'"
| claimed: "claim_change now kind i token c w = Inr (c', w') \<Longrightarrow> db_step cf w w'"
| finished: "finish_change cf now kind i claim state error report w = Inr ((), w') \<Longrightarrow>
    state \<in> {Completed, Failed, Cancelled} \<Longrightarrow> (state = Completed \<longrightarrow> claim \<noteq> None) \<Longrightarrow> within_bounds report \<Longrightarrow>
    db_step cf w w'"
| closed: "close_worker kind i claim w = Inr ((), w') \<Longrightarrow> db_step cf w w'"
| over: "update_job kind i f w = Inr ((), w') \<Longrightarrow>
    f \<in> {expired_job, purged_execution, purged_export, export_erased now} \<Longrightarrow> db_step cf w w'"
| cleaned: "clean_jobs now ks w = Inr ((), w') \<Longrightarrow> db_step cf w w'"
| purged: "purge_place now i w = Inr ((), w') \<Longrightarrow> db_step cf w w'"
| buried: "tombstone_place now i w = Inr ((), w') \<Longrightarrow> db_step cf w w'"
| forgotten: "forget_workspace k w = Inr ((), w') \<Longrightarrow> db_step cf w w'"
| expired_session: "db_step cf w (drop_session i w)"
| expired_request: "db_step cf w (drop_request i w)"
| expired_job: "db_step cf w (drop_job (k, i) w)"

abbreviation db_steps :: "db_config \<Rightarrow> db_world \<Rightarrow> db_world \<Rightarrow> bool" where
  "db_steps cf \<equiv> (db_step cf)\<^sup>*\<^sup>*"

section \<open>Running handlers\<close>

abbreviation runs :: "db_config \<Rightarrow> (db_world \<Rightarrow> bool) \<Rightarrow> 'a db \<Rightarrow> ('a \<Rightarrow> db_world \<Rightarrow> bool) \<Rightarrow> bool" where
  "runs cf \<equiv> runs_in (db_step cf)"

abbreviation moves :: "db_config \<Rightarrow> 'a db \<Rightarrow> bool" where
  "moves cf m \<equiv> runs cf (\<lambda>_. True) m (\<lambda>_ _. True)"

named_theorems moves_intro "operations that only take protocol steps"

lemma runs_moves: "moves cf m \<Longrightarrow> runs cf P m (\<lambda>_ _. True)"
  by (rule runs_always)

lemma moves_of_runs: "runs cf (\<lambda>_. True) m Q \<Longrightarrow> moves cf m"
  by (rule runs_always)

lemma runs_mutate:
  assumes "\<And>w x w'. P w \<Longrightarrow> f w = Inr (x, w') \<Longrightarrow> db_step cf w w' \<and> Q x w'"
  shows "runs cf P (db_mutate refs f) Q"
  unfolding runs_in_def
proof (intro allI impI)
  fix w
  assume "P w"
  then show "db_steps cf w (snd (db_mutate refs f w)) \<and>
      (\<forall>x. fst (db_mutate refs f w) = Inr x \<longrightarrow> Q x (snd (db_mutate refs f w)))"
    using assms [of w] by (auto simp: db_mutate_def split: sum.splits)
qed

lemma moves_mutate: "(\<And>w x w'. f w = Inr (x, w') \<Longrightarrow> db_step cf w w') \<Longrightarrow> moves cf (db_mutate refs f)"
  by (rule runs_mutate) simp

lemma moves_bind: "moves cf m \<Longrightarrow> (\<And>x. moves cf (k x)) \<Longrightarrow> moves cf (db_bind m k)"
  by (rule runs_bind)

lemma moves_catch: "moves cf m \<Longrightarrow> (\<And>e. moves cf (h e)) \<Longrightarrow> moves cf (db_catch m h)"
  by (rule runs_catch)

lemma moves_finally: "moves cf m \<Longrightarrow> moves cf h \<Longrightarrow> moves cf (db_finally m h)"
  by (rule runs_finally)

lemma moves_for_each: "(\<And>x. moves cf (f x)) \<Longrightarrow> moves cf (for_each f xs)"
  by (induction xs) (auto intro!: moves_bind moves_of_runs [OF runs_return])

lemmas moves_basic [moves_intro] =
  moves_bind moves_catch moves_finally moves_for_each moves_of_runs [OF runs_return]
  moves_of_runs [OF runs_raise] moves_of_runs [OF runs_reading]

section \<open>Every handler takes only steps\<close>

lemma moves_enqueue [moves_intro]: "moves cf (enqueue cf' up kind i s)"
  by (auto simp: runs_in_def enqueue_def Let_def intro: db_step.tasks)

lemma moves_purge_objects [moves_intro]: "moves cf (purge_objects i)"
  by (auto simp: runs_in_def purge_objects_def intro: db_step.objects)

lemma moves_erase_object [moves_intro]: "moves cf (erase_object i n)"
  by (auto simp: runs_in_def erase_object_def intro: db_step.objects)

lemma moves_stage_object [moves_intro]: "moves cf (stage_object r i)"
  by (auto simp: runs_in_def stage_object_def intro: db_step.objects split: sum.splits)

lemma moves_release_storage [moves_intro]: "moves cf (release_storage i)"
  unfolding release_storage_def by (rule moves_mutate) (auto intro: db_step.released)

lemma moves_worker_closed [moves_intro]: "moves cf (worker_closed k i c)"
  unfolding worker_closed_def by (rule moves_mutate) (auto intro: db_step.closed)

lemma moves_finish_job:
  assumes "state \<in> {Completed, Failed, Cancelled}" and "state = Completed \<longrightarrow> claim \<noteq> None" and "within_bounds report"
  shows "moves cf (finish_job cf now kind i claim state error report)"
  unfolding finish_job_def
  by (rule moves_bind [OF moves_of_runs [OF runs_reading]])
    (auto split: option.split intro!: moves_basic moves_mutate intro: db_step.finished [OF _ assms])

lemma moves_finish_other [moves_intro]:
  "moves cf (finish_job cf now kind i claim Failed error None)"
  "moves cf (finish_job cf now kind i claim Cancelled error None)"
  by (auto intro!: moves_finish_job simp: within_bounds_def)

lemma moves_update_job:
  "f \<in> {DatabaseWorkers.expired_job, purged_execution, purged_export, export_erased now} \<Longrightarrow>
   moves cf (db_mutate refs (update_job k i f))"
  by (rule moves_mutate) (auto intro: db_step.over)

lemma moves_updates [moves_intro]:
  "moves cf (db_mutate refs (update_job k i DatabaseWorkers.expired_job))"
  "moves cf (db_mutate refs (update_job k i purged_execution))"
  "moves cf (db_mutate refs (update_job k i purged_export))"
  "moves cf (db_mutate refs (update_job k i (export_erased now)))"
  by (rule moves_update_job [where now = now]; simp)+

lemma moves_places [moves_intro]:
  "moves cf (db_mutate refs (purge_place now i))" "moves cf (db_mutate refs (tombstone_place now i))"
  "moves cf (db_mutate refs (forget_workspace k))" "moves cf (db_mutate refs (clean_jobs now ks))"
  by (rule moves_mutate; auto intro: db_step.intros)+

lemma moves_cleaned_execution [moves_intro]: "moves cf (cleaned_execution now i xs)"
  unfolding cleaned_execution_def by (rule moves_places)

lemma moves_release_all [moves_intro]: "moves cf (release_all now i xs)"
  unfolding release_all_def by (intro moves_intro)

lemma moves_purge_execution [moves_intro]: "moves cf (purge_execution now v)"
  unfolding purge_execution_def Let_def
  by (auto intro!: moves_intro split: prod.split)

lemma moves_purge_workspace_id [moves_intro]: "moves cf (purge_workspace_id now i)"
  unfolding purge_workspace_id_def by (intro moves_intro)

lemma moves_cleanup [moves_intro]: "moves cf (cleanup now i)"
  unfolding cleanup_def by (auto intro!: moves_intro split: option.split)

lemma moves_cleanup_export [moves_intro]: "moves cf (cleanup_export now i)"
  unfolding cleanup_export_def by (auto intro!: moves_intro split: option.split)

lemma moves_ensure_dispatch [moves_intro]: "moves cf (ensure_dispatch cf up now k i)"
  unfolding ensure_dispatch_def by (auto intro!: moves_intro split: option.split job_kind.split)

lemma moves_cancel: "moves cf (cancel cf now up req d p e)"
  unfolding cancel_def by (intro moves_intro)

lemma moves_purge_workspace: "moves cf (purge_workspace cf up now req d p)"
  unfolding purge_workspace_def by (auto intro!: moves_intro)

lemma moves_purge_session [moves_intro]: "moves cf (purge_session cf up now s)"
  unfolding purge_session_def by (intro moves_intro)

lemma moves_revoke_session [moves_intro]: "moves cf (db_mutate refs (revoke_session P now i))"
  by (rule moves_mutate) (auto intro: db_step.revoked)

lemma moves_mcp_revoke: "moves cf (mcp_revoke cf up now s)"
  unfolding mcp_revoke_def by (intro moves_intro)

lemma moves_session_revoke: "moves cf (session_revoke now b)"
  unfolding session_revoke_def by (auto intro!: moves_intro split: option.split)

lemma moves_session_create: "moves cf (session_create cf now nonce login)"
  unfolding session_create_def
  by (intro moves_intro moves_mutate) (auto intro: db_step.signed_in simp: new_session_def)

lemma moves_create_workspace: "moves cf (create_workspace cf now req i d)"
  unfolding create_workspace_def Let_def
  by (intro moves_intro moves_mutate) (auto intro: db_step.opened)

lemma moves_tolerant [moves_intro]: "moves cf m \<Longrightarrow> moves cf (tolerant m)"
  unfolding tolerant_def by (auto intro!: moves_intro split: py_err.split)

lemma moves_removals [moves_intro]:
  "moves cf (remove_document n drop_request i)" "moves cf (remove_document n drop_session i)"
  "moves cf (remove_document n (\<lambda>i. drop_job (k, i)) i)"
  unfolding remove_document_def by (rule moves_mutate; auto intro: db_step.intros)+

lemma moves_sweeps [moves_intro]:
  "moves cf (sweep_queued cf up now k)" "moves cf (sweep_requests now)" "moves cf (sweep_sessions now)"
  "moves cf (sweep_workspaces now)" "moves cf (sweep_expired now k)" "moves cf (sweep_lost cf now k)"
  unfolding sweep_queued_def sweep_requests_def sweep_sessions_def sweep_workspaces_def sweep_expired_def sweep_lost_def
  by (auto intro!: moves_intro split: job_kind.split)

lemma moves_sweep: "moves cf (sweep cf up now)"
proof -
  have "moves cf (for_each (\<lambda>m. m) ms)" if "\<forall>m \<in> set ms. moves cf m" for ms :: "unit db list"
    using that by (induction ms) (auto intro!: moves_intro)
  from this [of "[_, _, _, _, _, _, _, _, _]"] show ?thesis
    unfolding sweep_def by (auto intro!: moves_intro)
qed

lemma moves_with_permit:
  assumes "moves cf auth" and "moves cf body"
  shows "moves cf (with_permit now token kind owner role auth body)"
proof -
  have drop: "moves cf (db_mutate [(''control'', ''budget'')] (drop_permit token))"
    by (rule moves_mutate) (auto intro: db_step.left)
  then show ?thesis
    unfolding with_permit_def
    using assms by (intro moves_intro moves_mutate) (auto intro: db_step.admitted db_step.left)
qed

text \<open>Creating handlers insert a job under an identity that is not in use when they start.\<close>

lemma unused_keep: "unused i (w\<lparr>outbox := Y\<rparr>) = unused i w" "unused i (w\<lparr>objects := X\<rparr>) = unused i w"
  "unused i (put_budget b w) = unused i w"
  by (simp_all add: unused_def world_simps)

lemma unused_enqueue: "runs cf (unused i) (enqueue cf' up kind j s) (\<lambda>_. unused i)"
  by (auto simp: runs_in_def enqueue_def Let_def unused_keep intro: db_step.tasks)

lemma unused_reserve: "runs cf (unused i) (db_mutate refs (reserve_storage j owner snapshot_bytes)) (\<lambda>_. unused i)"
proof (rule runs_mutate)
  fix w and x :: unit and w'
  assume "unused i w" "reserve_storage j owner snapshot_bytes w = Inr (x, w')"
  then show "db_step cf w w' \<and> unused i w'"
    using db_step.staged [of j owner w w' cf] by (auto simp: reserve_storage_def map_result_Inr unused_keep)
qed

lemma unused_stage: "runs cf (unused i) (stage_object r j) (\<lambda>_. unused i)"
  by (auto simp: runs_in_def stage_object_def unused_keep intro: db_step.objects split: sum.splits)

lemma runs_raising: "(\<And>x. moves cf m) \<Longrightarrow> runs cf (\<lambda>_. True) (db_bind m (\<lambda>_. db_raise e)) Q"
  by (rule runs_bind [OF _ runs_raise])

lemma fresh_new_jobs: "fresh_job (new_execution now i place s r)" "fresh_job (new_export now i src)"
  "jb_id (new_execution now i place s r) = i" "jb_id (new_export now i src) = i"
  "jb_login (new_export now i src) = jb_login src"
  by (simp_all add: fresh_job_def new_execution_def new_export_def)

lemma runs_insert_execution:
  "runs cf (unused i) (db_mutate refs (insert_execution cf now r f place (new_execution t i p s ref))) (\<lambda>_ _. True)"
  by (intro runs_mutate) (auto intro: db_step.created simp: fresh_new_jobs)

lemma runs_insert_export:
  "runs cf (unused i) (db_mutate refs (insert_export cf now src (new_export t i src))) (\<lambda>_ _. True)"
  by (intro runs_mutate) (auto intro: db_step.exported simp: fresh_new_jobs)

lemma runs_read_bind: "(\<And>x. runs cf P (k x) R) \<Longrightarrow> runs cf P (db_bind (reading f) k) R"
  by (rule runs_bind [OF runs_reading]) (auto intro: runs_weaken)

lemma runs_create_execution:
  "runs cf (unused i) (create_execution cf en req i d p sql c) (\<lambda>_ _. True)"
proof -
  have erase: "moves cf (db_bind (erase_object i ''input'') (\<lambda>_. db_bind (release_storage i) (\<lambda>_. m)))"
    if "moves cf m" for m :: "'x db"
    using that by (intro moves_intro)
  show ?thesis
    unfolding create_execution_def Let_def
    apply (intro runs_read_bind)
    apply (split option.split, intro conjI impI allI)
     apply (rule runs_bind [OF unused_enqueue])
     apply (rule runs_bind [OF unused_reserve])
     apply (rule runs_bind)
      apply (rule runs_catch [OF unused_stage])
      apply (rule runs_bind [OF moves_purge_objects], rule runs_raising [OF moves_release_storage])
     apply (rule runs_bind)
      apply (rule runs_catch)
       apply (rule runs_insert_execution)
      apply (auto intro!: moves_intro split: option.split)[1]
     apply (auto intro!: moves_intro split: option.split)[1]
    apply (rule runs_moves, auto intro!: moves_intro)
    done
qed

lemma unused_update_job: "update_job k j f w = Inr ((), w') \<Longrightarrow> unused i w \<Longrightarrow> unused i w'"
  by (auto simp: update_job_def unused_def world_simps split: option.splits)

lemma unused_release: "runs cf (unused i) (release_storage j) (\<lambda>_. unused i)"
  unfolding release_storage_def
proof (rule runs_mutate)
  fix w and x :: unit and w'
  assume "unused i w" "release_in j w = Inr (x, w')"
  then show "db_step cf w w' \<and> unused i w'"
    using db_step.released [of j w w' cf] by (auto simp: release_in_def Let_def unused_keep)
qed

lemma unused_cleanup_export: "runs cf (unused i) (cleanup_export now x) (\<lambda>_. unused i)"
  unfolding cleanup_export_def
proof (intro runs_read_bind)
  fix current :: "db_job option"
  have erase: "runs cf (unused i) (erase_object a b) (\<lambda>_. unused i)" for a b
    by (auto simp: runs_in_def erase_object_def unused_keep intro: db_step.objects)
  have update: "runs cf (unused i) (db_mutate refs (update_job k j (export_erased now))) (\<lambda>_. unused i)" for refs k j
    by (rule runs_mutate) (auto intro: db_step.over [where now = now] unused_update_job)
  have ret: "runs cf (unused i) (db_return u) (\<lambda>_. unused i)" for u :: unit
    by (rule runs_weaken [OF runs_return]) auto
  show "runs cf (unused i)
        (case current of None \<Rightarrow> db_return ()
         | Some j \<Rightarrow>
             if (jb_state j \<in> {Queued, Running, Completed} \<and> now < jb_expires j) \<or> now < jb_worker_deadline j
             then db_raise (pending ''export'')
             else db_bind (erase_object (jb_execution j) (''export-'' @ jb_id j)) (\<lambda>_.
                    db_bind (release_storage (jb_id j)) (\<lambda>_.
                      db_mutate [(''export'', jb_id j)] (update_job Export (jb_id j) (export_erased now)))))
        (\<lambda>_. unused i)"
    by (auto split: option.split intro: ret runs_raise runs_bind [OF erase] runs_bind [OF unused_release] update)
qed

lemma runs_create_export:
  "runs cf (unused i) (create_export cf up now req i d p e) (\<lambda>_ _. True)"
proof -
  have ins: "runs cf (unused i) (db_bind (db_mutate refs (insert_export cf now src (new_export now i src))) k) (\<lambda>_ _. True)"
    if "\<And>x. moves cf (k x)" for refs src and k :: "string \<Rightarrow> public_export db"
    by (rule runs_bind [OF runs_insert_export]) (rule that)
  show ?thesis
    unfolding create_export_def Let_def
    apply (intro runs_read_bind)
    apply (auto intro!: runs_raise runs_read_bind split: option.split)
       apply (auto intro!: ins moves_intro)[1]
      apply (auto intro!: ins moves_intro)[1]
     apply (rule runs_moves, auto intro!: moves_intro)[1]
     apply (rule runs_moves, auto intro!: moves_intro)[1]
     apply (rule runs_moves, auto intro!: moves_intro)[1]
    apply (rule runs_bind [OF unused_cleanup_export])
    apply (auto intro!: runs_raise runs_read_bind ins moves_intro)
    done
qed

section \<open>Workers\<close>

text \<open>
  What a run may do besides its transactions: the other replicas behind an aborted attempt, and the work, take
  steps, and the report stays within the storage that was reserved.
\<close>

definition well_run :: "db_config \<Rightarrow> worker_run \<Rightarrow> bool" where
  "well_run cf run =
     ((\<forall>v. runs cf (\<lambda>_. True) (wr_work run v) (\<lambda>r _. 0 \<le> rp_bytes r \<and> rp_bytes r \<le> snapshot_bytes)) \<and>
      (\<forall>g \<in> set (wr_aborts run). \<forall>w. db_steps cf w (g w)))"

lemma fold_steps: "(\<forall>g \<in> set gs. \<forall>w. db_steps cf w (g w)) \<Longrightarrow> db_steps cf w (fold (\<lambda>g. g) gs w)"
  by (induction gs arbitrary: w) (auto intro: rtranclp_trans)

lemma attempts_claim:
  assumes "\<forall>g \<in> set gs. \<forall>w. db_steps cf w (g w)" and "c = None \<or> (\<exists>j. c = Some j \<and> jb_claim j = Some token)"
  shows "db_steps cf w (snd (attempts (claim_change now kind i token) c gs w)) \<and>
    (\<forall>x. fst (attempts (claim_change now kind i token) c gs w) = Inr x \<longrightarrow>
       x = None \<or> (\<exists>j. x = Some j \<and> jb_claim j = Some token))"
  using assms
proof (induction gs arbitrary: c w)
  case Nil
  show ?case
  proof (cases "claim_change now kind i token c w")
    case (Inl e)
    then show ?thesis by simp
  next
    case (Inr v)
    obtain c' w' where v: "v = (c', w')" by (cases v)
    have "db_step cf w w'" using db_step.claimed Inr v by blast
    moreover have "c' = None \<or> (\<exists>j. c' = Some j \<and> jb_claim j = Some token)"
      using Inr v Nil(2) by (auto simp: claim_change_def Let_def split: option.splits if_splits)
    ultimately show ?thesis using Inr v by auto
  qed
next
  case (Cons g gs)
  show ?case
  proof (cases "claim_change now kind i token c w")
    case (Inl e)
    then show ?thesis by simp
  next
    case (Inr v)
    obtain c' w' where v: "v = (c', w')" by (cases v)
    have c: "c' = None \<or> (\<exists>j. c' = Some j \<and> jb_claim j = Some token)"
      using Inr v Cons.prems(2) by (auto simp: claim_change_def Let_def split: option.splits if_splits)
    have g: "\<forall>g \<in> set gs. \<forall>w. db_steps cf w (g w)" "db_steps cf w (g w)" using Cons.prems(1) by auto
    show ?thesis using Cons.IH [OF g(1) c, of "g w"] g(2) Inr v by (auto intro: rtranclp_trans)
  qed
qed

lemma runs_claim_job:
  assumes "\<forall>g \<in> set aborts. \<forall>w. db_steps cf w (g w)"
  shows "runs cf (\<lambda>_. True) (claim_job now kind i token aborts)
    (\<lambda>x _. x = None \<or> (\<exists>j. x = Some j \<and> jb_claim j = Some token))"
  unfolding claim_job_def
proof (intro runs_read_bind)
  show "runs cf (\<lambda>_. True)
      (\<lambda>w. if 3 \<le> length aborts
           then (Inl (DatabaseUnavailable ''Database control store is unavailable''), fold (\<lambda>g. g) aborts w)
           else attempts (claim_change now kind i token) None aborts w)
      (\<lambda>x _. x = None \<or> (\<exists>j. x = Some j \<and> jb_claim j = Some token))"
    using fold_steps [OF assms] attempts_claim [OF assms, of None] by (auto simp: runs_in_def)
qed

lemma runs_work:
  assumes "well_run cf run" and "\<And>r. 0 \<le> rp_bytes r \<and> rp_bytes r \<le> snapshot_bytes \<Longrightarrow> moves cf (k r)"
  shows "moves cf (db_bind (wr_work run v) k)"
  by (rule runs_bind [where Q = "\<lambda>r _. 0 \<le> rp_bytes r \<and> rp_bytes r \<le> snapshot_bytes"])
    (use assms in \<open>auto simp: well_run_def runs_in_def\<close>)

lemma moves_publish_query:
  "well_run cf run \<Longrightarrow> jb_claim v \<noteq> None \<Longrightarrow> moves cf (publish_query cf run i v)"
  unfolding publish_query_def
  by (intro runs_read_bind runs_work moves_bind [OF moves_finish_job])
    (auto simp: within_bounds_def intro!: moves_intro)

lemma moves_publish_export:
  "well_run cf run \<Longrightarrow> jb_claim v \<noteq> None \<Longrightarrow> moves cf (publish_export cf run t i v)"
  unfolding publish_export_def
  by (auto intro!: runs_read_bind runs_raise moves_with_permit runs_work moves_finish_job
      moves_of_runs [OF runs_reading] simp: within_bounds_def)

lemma runs_claimed:
  assumes "\<And>v. jb_claim v \<noteq> None \<Longrightarrow> moves cf (k v)"
  shows "runs cf (\<lambda>_. x = None \<or> (\<exists>j. x = Some j \<and> jb_claim j = Some t))
    (case x of None \<Rightarrow> db_return () | Some v \<Rightarrow> k v) (\<lambda>_ _. True)"
  using assms by (cases x) (auto simp: runs_in_def db_return_def)

lemma moves_run_query:
  assumes "well_run cf run"
  shows "moves cf (run_query cf run i)"
  unfolding run_query_def
  by (rule runs_bind [OF runs_claim_job runs_claimed])
    (use assms in \<open>auto simp: well_run_def fail_query_def schedule_expiry_def split: option.split
      intro!: moves_intro moves_publish_query [OF assms]\<close>)

lemma moves_run_export:
  assumes "well_run cf run"
  shows "moves cf (run_export cf run t i)"
  unfolding run_export_def
  by (rule runs_bind [OF runs_claim_job runs_claimed])
    (use assms in \<open>auto simp: well_run_def split: option.split
      intro!: moves_intro moves_publish_export [OF assms]\<close>)

end
