(* ===== verification/DatabaseInvariants.thy ===== *)
theory DatabaseInvariants
  imports DatabaseSteps
begin

text \<open>
  Invariants of the database control store, each proved over the step relation and inherited by every history
  and every handler through the interface \<open>kept\<close>: the storage budget and the connection permits.
\<close>

section \<open>The interface\<close>

locale kept =
  fixes cf :: db_config and I :: "db_world \<Rightarrow> bool"
  assumes kept_step: "db_step cf w w' \<Longrightarrow> I w \<Longrightarrow> I w'"
begin

lemma kept_steps: "db_steps cf w t \<Longrightarrow> I w \<Longrightarrow> I t"
  by (induction rule: rtranclp_induct) (auto intro: kept_step)

lemma kept_handler: "runs cf P m Q \<Longrightarrow> P w \<Longrightarrow> I w \<Longrightarrow> I (snd (m w))"
  using kept_steps by (auto simp: runs_in_def)

end

section \<open>What a step does to jobs\<close>

definition active :: "db_job \<Rightarrow> bool" where
  "active j = (jb_state j \<in> {Queued, Running})"

text \<open>No job is new or revived, and no reported size changes.\<close>

definition tamer :: "db_world \<Rightarrow> db_world \<Rightarrow> bool" where
  "tamer w w' = (\<forall>k j'. jobs w' k = Some j' \<longrightarrow>
     (\<exists>j. jobs w k = Some j \<and> jb_bytes j' = jb_bytes j \<and> (active j' \<longrightarrow> active j)))"

lemma tamer_same: "jobs w' = jobs w \<Longrightarrow> tamer w w'"
  by (simp add: tamer_def)

lemma tamer_put: "jobs w k = Some j \<Longrightarrow> jb_bytes j' = jb_bytes j \<Longrightarrow> (active j' \<Longrightarrow> active j) \<Longrightarrow> tamer w (put_job k j' w)"
  by (auto simp: tamer_def world_simps)

lemma tamer_trans: "tamer u v \<Longrightarrow> tamer v w \<Longrightarrow> tamer u w"
  unfolding tamer_def by metis

lemma tamer_claim: "claim_change now kind i token c w = Inr (c', w') \<Longrightarrow> tamer w w' \<and> budget w' = budget w"
  by (auto simp: claim_change_def Let_def active_def world_simps tamer_same intro!: tamer_put
      split: option.splits if_splits)

lemma tamer_close: "close_worker kind i c w = Inr ((), w') \<Longrightarrow> tamer w w' \<and> budget w' = budget w"
  by (auto simp: close_worker_def active_def world_simps tamer_same intro!: tamer_put split: option.splits if_splits)

lemma tamer_update:
  assumes "update_job kind i f w = Inr ((), w')"
    and "f \<in> {DatabaseWorkers.expired_job, purged_execution, purged_export, export_erased now}"
  shows "tamer w w' \<and> budget w' = budget w"
proof -
  have "jb_bytes (f j) = jb_bytes j \<and> (active (f j) \<longrightarrow> active j)" for j
    using assms(2)
    by (auto simp: DatabaseWorkers.expired_job_def purged_execution_def purged_export_def export_erased_def active_def Let_def
        split: if_splits)
  then show ?thesis
    using assms(1) by (auto simp: update_job_def world_simps tamer_same intro!: tamer_put split: option.splits)
qed

lemma tamer_clean: "clean_jobs now ks w = Inr ((), w') \<Longrightarrow> tamer w w' \<and> budget w' = budget w"
proof (induction ks arbitrary: w)
  case Nil
  then show ?case by (simp add: tamer_same)
next
  case (Cons k ks)
  let ?v = "case jobs w k of None \<Rightarrow> w | Some j \<Rightarrow> put_job k (cleaned_job now j) w"
  have "tamer w ?v \<and> budget ?v = budget w"
    by (auto simp: cleaned_job_def active_def world_simps tamer_same intro!: tamer_put split: option.splits)
  moreover have "tamer ?v w' \<and> budget w' = budget ?v"
    using Cons.IH [of ?v] Cons.prems by simp
  ultimately show ?case using tamer_trans by metis
qed

lemma tamer_drop: "tamer w (drop_job k w)"
  by (simp add: tamer_def world_simps)

text \<open>Transactions on sessions and workspaces leave jobs and the budget alone.\<close>

lemma neutral:
  "insert_session s w = Inr ((), w') \<Longrightarrow> jobs w' = jobs w \<and> budget w' = budget w"
  "activate_grant now old previous g w = Inr (b, w') \<Longrightarrow> jobs w' = jobs w \<and> budget w' = budget w"
  "revoke_session P now i w = Inr ((), w') \<Longrightarrow> jobs w' = jobs w \<and> budget w' = budget w"
  "insert_workspace cf now k w = Inr ((), w') \<Longrightarrow> jobs w' = jobs w \<and> budget w' = budget w"
  "purge_place now i w = Inr ((), w') \<Longrightarrow> jobs w' = jobs w \<and> budget w' = budget w"
  "tombstone_place now i w = Inr ((), w') \<Longrightarrow> jobs w' = jobs w \<and> budget w' = budget w"
  "forget_workspace k w = Inr ((), w') \<Longrightarrow> jobs w' = jobs w \<and> budget w' = budget w"
  by (auto simp: insert_session_def activate_grant_def revoke_session_def insert_workspace_def purge_place_def tombstone_place_def
      forget_workspace_def Let_def world_simps split: option.splits if_splits sum.splits)

lemma neutral_simps:
  "jobs (w\<lparr>policy := p\<rparr>) = jobs w" "budget (w\<lparr>policy := p\<rparr>) = budget w"
  "sessions (w\<lparr>policy := p\<rparr>) = sessions w"
  by (simp_all add: fun_eq_iff jobs_def sessions_def)

section \<open>The storage budget\<close>

definition reserved :: "(string \<times> db_reservation \<Rightarrow> bool) \<Rightarrow> (string \<times> db_reservation) list \<Rightarrow> int" where
  "reserved P rs = sum_list (map (rs_bytes \<circ> snd) (filter P rs))"

definition budget_sound :: "(string \<times> db_reservation) list \<Rightarrow> bool" where
  "budget_sound rs =
     (distinct (map fst rs) \<and> length rs \<le> 128 \<and> reserved (\<lambda>_. True) rs \<le> global_bytes \<and>
      (\<forall>owner. reserved (\<lambda>kv. rs_owner (snd kv) = owner) rs \<le> user_bytes) \<and> (\<forall>kv \<in> set rs. 0 \<le> rs_bytes (snd kv)))"

abbreviation reservations :: "db_world \<Rightarrow> (string \<times> db_reservation) list" where
  "reservations w \<equiv> bg_reservations (coordinator (budget w))"

definition storage_sound :: "db_world \<Rightarrow> bool" where
  "storage_sound w =
     (budget_sound (reservations w) \<and>
      (\<forall>i j. jobs w (Execution, i) = Some j \<longrightarrow> jobs w (Export, i) = None) \<and>
      (\<forall>k i j. jobs w (k, i) = Some j \<longrightarrow> 0 \<le> jb_bytes j \<and> jb_bytes j \<le> snapshot_bytes \<and>
         (active j \<longrightarrow> (\<forall>r. map_of (reservations w) i = Some r \<longrightarrow> rs_bytes r = snapshot_bytes))))"

lemma reserved_Cons: "reserved P (kv # rs) = (if P kv then rs_bytes (snd kv) else 0) + reserved P rs"
  by (simp add: reserved_def)

lemma reserved_Nil [simp]: "reserved P [] = 0"
  by (simp add: reserved_def)

lemma filter_other: "k \<notin> fst ` set rs \<Longrightarrow> filter (\<lambda>kv. fst kv \<noteq> k) rs = rs"
  by (induction rs) auto

lemma reserved_update:
  "distinct (map fst rs) \<Longrightarrow>
   reserved P (AList.update k v rs) = reserved P (filter (\<lambda>kv. fst kv \<noteq> k) rs) + (if P (k, v) then rs_bytes v else 0)"
proof (induction rs)
  case (Cons kv rs)
  then show ?case by (cases kv) (auto simp: reserved_Cons filter_other)
qed (simp add: reserved_Cons)

lemma reserved_others: "distinct (map fst rs) \<Longrightarrow> map_of rs k = Some r \<Longrightarrow>
  reserved P rs = reserved P (filter (\<lambda>kv. fst kv \<noteq> k) rs) + (if P (k, r) then rs_bytes r else 0)"
proof (induction rs)
  case (Cons kv rs)
  then show ?case by (cases kv) (auto simp: reserved_Cons filter_other split: if_splits)
qed simp

lemma reserved_filter_le: "(\<forall>kv \<in> set rs. 0 \<le> rs_bytes (snd kv)) \<Longrightarrow> reserved P (filter Q rs) \<le> reserved P rs"
proof (induction rs)
  case (Cons kv rs)
  then show ?case by (auto simp: reserved_Cons)
qed simp

lemma length_update: "length (AList.update k v rs) = (if has_key rs k then length rs else Suc (length rs))"
  by (induction rs) (auto simp: has_key_def)

lemma reserve_in_sound:
  assumes "reserve_in i owner amount c = Inr b" and "budget_sound (bg_reservations c)" and "0 \<le> amount"
  shows "budget_sound (bg_reservations b) \<and>
    bg_reservations b = AList.update i \<lparr>rs_owner = owner, rs_bytes = amount\<rparr> (bg_reservations c)"
proof -
  let ?rs = "bg_reservations c" and ?v = "\<lparr>rs_owner = owner, rs_bytes = amount\<rparr>"
  let ?o = "filter (\<lambda>kv. fst kv \<noteq> i) ?rs"
  have b: "bg_reservations b = AList.update i ?v ?rs"
    and room: "has_key ?rs i \<or> length ?rs < 128"
    and all: "reserved (\<lambda>_. True) ?o + amount \<le> global_bytes"
    and mine: "reserved (\<lambda>kv. rs_owner (snd kv) = owner) ?o + amount \<le> user_bytes"
    using assms(1) by (auto simp: reserve_in_def Let_def reserved_def not_less split: if_splits)
  have d: "distinct (map fst ?rs)" and pos: "\<forall>kv \<in> set ?rs. 0 \<le> rs_bytes (snd kv)"
    and len: "length ?rs \<le> 128" and owners: "\<forall>u. reserved (\<lambda>kv. rs_owner (snd kv) = u) ?rs \<le> user_bytes"
    using assms(2) by (auto simp: budget_sound_def)
  have "reserved (\<lambda>kv. rs_owner (snd kv) = u) (AList.update i ?v ?rs) \<le> user_bytes" for u
    using mine owners [rule_format, of u] reserved_filter_le [OF pos, of "\<lambda>kv. rs_owner (snd kv) = u" "\<lambda>kv. fst kv \<noteq> i"]
    by (auto simp: reserved_update [OF d])
  moreover have "\<forall>kv \<in> set (AList.update i ?v ?rs). 0 \<le> rs_bytes (snd kv)"
    using pos assms(3) set_dict_set_subset [of i ?v ?rs] by fastforce
  ultimately show ?thesis
    using b room all len d
    by (auto simp: budget_sound_def length_update reserved_update [OF d] distinct_update)
qed

lemma release_sound: "budget_sound rs \<Longrightarrow> budget_sound (dict_pop i rs)"
proof -
  assume s: "budget_sound rs"
  then have pos: "\<forall>kv \<in> set rs. 0 \<le> rs_bytes (snd kv)" by (simp add: budget_sound_def)
  have "reserved P (dict_pop i rs) \<le> reserved P rs" for P
    unfolding dict_pop_def by (rule reserved_filter_le [OF pos])
  then show ?thesis
    using s by (fastforce simp: budget_sound_def dict_pop_def distinct_map_filter
        intro: order_trans [OF length_filter_le] order_trans)
qed

lemma shrink_sound:
  assumes "budget_sound rs" and "map_of rs i = Some r" and "0 \<le> n" and "n \<le> rs_bytes r"
  shows "budget_sound (AList.update i (r\<lparr>rs_bytes := n\<rparr>) rs)"
proof -
  have d: "distinct (map fst rs)" and pos: "\<forall>kv \<in> set rs. 0 \<le> rs_bytes (snd kv)"
    using assms(1) by (simp_all add: budget_sound_def)
  have le: "reserved P (AList.update i (r\<lparr>rs_bytes := n\<rparr>) rs) \<le> reserved P rs"
    if "P (i, r\<lparr>rs_bytes := n\<rparr>) = P (i, r)" for P
    using assms(4) that by (simp add: reserved_update [OF d] reserved_others [OF d assms(2)])
  have "\<forall>kv \<in> set (AList.update i (r\<lparr>rs_bytes := n\<rparr>) rs). 0 \<le> rs_bytes (snd kv)"
    using pos assms(3) set_dict_set_subset [of i "r\<lparr>rs_bytes := n\<rparr>" rs] by fastforce
  moreover have "has_key rs i" using assms(2) by (simp add: has_key_def)
  ultimately show ?thesis
    using assms(1) le [of "\<lambda>_. True"] le [of "\<lambda>kv. rs_owner (snd kv) = u" for u]
    by (auto simp: budget_sound_def length_update distinct_update intro: order_trans)
qed

lemma storage_tamer:
  assumes "storage_sound w" and "tamer w w'" and "budget w' = budget w"
  shows "storage_sound w'"
proof -
  have "jobs w' (Execution, i) = Some j \<Longrightarrow> jobs w' (Export, i) = None" for i j
    using assms(1,2) unfolding storage_sound_def tamer_def
    by (cases "jobs w' (Export, i)") (metis option.distinct(1))+
  moreover have "0 \<le> jb_bytes j \<and> jb_bytes j \<le> snapshot_bytes \<and>
      (active j \<longrightarrow> (\<forall>r. map_of (reservations w') i = Some r \<longrightarrow> rs_bytes r = snapshot_bytes))"
    if "jobs w' (k, i) = Some j" for k i j
    using assms that unfolding storage_sound_def tamer_def by metis
  ultimately show ?thesis using assms(1,3) by (simp add: storage_sound_def)
qed

lemma storage_budget:
  assumes "storage_sound w" and "jobs w' = jobs w" and "budget_sound (reservations w')"
    and "\<And>i r. map_of (reservations w') i = Some r \<Longrightarrow> map_of (reservations w) i = Some r \<or> rs_bytes r = snapshot_bytes"
  shows "storage_sound w'"
  using assms unfolding storage_sound_def by metis

lemma coordinator_Some [simp]: "coordinator (Some b) = b"
  by (simp add: coordinator_def)

lemma snapshot_nonneg [simp]: "0 \<le> snapshot_bytes"
  by (simp add: snapshot_bytes_def)

lemma export_snapshot: "export_bytes = snapshot_bytes"
  by (simp add: export_bytes_def snapshot_bytes_def)

lemma storage_new_job:
  assumes "storage_sound w" and "fresh_job j" and "unused (jb_id j) w"
    and "jobs w' = (jobs w)((k, jb_id j) \<mapsto> j)"
    and "budget_sound (reservations w')"
    and "reservations w' = AList.update (jb_id j) \<lparr>rs_owner = owner, rs_bytes = snapshot_bytes\<rparr> (reservations w)"
  shows "storage_sound w'"
  using assms unfolding storage_sound_def fresh_job_def unused_def
  by (auto simp: update_conv' split: if_splits)

lemma finished_bytes:
  assumes "within_bounds report" and "0 \<le> jb_bytes j" and "jb_bytes j \<le> snapshot_bytes"
  shows "0 \<le> jb_bytes (finished_job now kind st error report j) \<and>
    jb_bytes (finished_job now kind st error report j) \<le> snapshot_bytes"
  using assms
  by (auto simp: finished_job_def apply_report_def within_bounds_def Let_def split: option.splits job_kind.splits)

lemma finished_job_state [simp]: "jb_state (finished_job now kind st error report j) = st"
  by (simp add: finished_job_def Let_def)

lemma finished_state_over:
  "state \<in> {Completed, Failed, Cancelled} \<Longrightarrow>
   finished_state cf now kind state j w \<in> {Completed, Failed, Cancelled, Expired}"
  by (auto simp: finished_state_def)

lemma storage_finish:
  assumes "storage_sound w" and "finish_change cf now kind i claim state error report w = Inr ((), w')"
    and "state \<in> {Completed, Failed, Cancelled}" and "within_bounds report"
  shows "storage_sound w'"
proof (cases "\<exists>j. jobs w (kind, i) = Some j \<and> finishable claim state j")
  case False
  then show ?thesis using assms(1,2) by (auto simp: finish_change_def split: option.splits if_splits)
next
  case True
  then obtain j where j: "jobs w (kind, i) = Some j" "finishable claim state j" by blast
  let ?st = "finished_state cf now kind state j w"
  let ?j = "finished_job now kind ?st error report j"
  let ?rs = "reservations w"
  have act: "active j" using j(2) by (simp add: finishable_def active_def)
  have jb: "0 \<le> jb_bytes j" "jb_bytes j \<le> snapshot_bytes"
    using assms(1) j(1) by (auto simp: storage_sound_def)
  have bytes: "0 \<le> jb_bytes ?j" "jb_bytes ?j \<le> snapshot_bytes"
    using finished_bytes [OF assms(4) jb] by auto
  have over: "\<not> active ?j" using finished_state_over [OF assms(3), of cf now kind j w] by (auto simp: active_def)
  have w': "jobs w' = (jobs w)((kind, i) \<mapsto> ?j)"
    "reservations w' = (case map_of ?rs i of None \<Rightarrow> ?rs
       | Some r \<Rightarrow> if ?st = Completed then AList.update i (r\<lparr>rs_bytes := jb_bytes ?j\<rparr>) ?rs else ?rs)"
    using assms(2) j by (auto simp: finish_change_def Let_def world_simps split: option.splits)
  have sound: "budget_sound (reservations w')"
  proof (cases "map_of ?rs i")
    case None
    then show ?thesis using assms(1) w'(2) by (simp add: storage_sound_def)
  next
    case (Some r)
    then have "rs_bytes r = snapshot_bytes" using assms(1) j(1) act by (auto simp: storage_sound_def)
    then show ?thesis
      using assms(1) w'(2) Some shrink_sound [of ?rs i r "jb_bytes ?j"] bytes by (auto simp: storage_sound_def)
  qed
  have single: "jobs w (Execution, x) = Some y \<Longrightarrow> jobs w (Export, x) = None" for x y
    using assms(1) by (simp add: storage_sound_def)
  then have alone: "jobs w (k, i) = None" if "k \<noteq> kind" for k
    using that j(1) by (cases k; cases kind; cases "jobs w (k, i)") auto
  have same: "map_of (reservations w') i' = map_of ?rs i'" if "i' \<noteq> i" for i'
    using that w'(2) by (auto simp: update_conv' split: option.splits)
  have "0 \<le> jb_bytes x \<and> jb_bytes x \<le> snapshot_bytes \<and>
      (active x \<longrightarrow> (\<forall>r. map_of (reservations w') i' = Some r \<longrightarrow> rs_bytes r = snapshot_bytes))"
    if "jobs w' (k, i') = Some x" for k i' x
  proof (cases "(k, i') = (kind, i)")
    case True
    then show ?thesis using that w'(1) bytes over by auto
  next
    case False
    then have "i' \<noteq> i" "jobs w (k, i') = Some x" using that w'(1) alone [of k] by auto
    then show ?thesis using assms(1) same unfolding storage_sound_def by metis
  qed
  moreover have "jobs w' (Export, x) = None" if "jobs w' (Execution, x) = Some y" for x y
    using single that w'(1) alone by (auto split: if_splits)
  ultimately show ?thesis using sound by (simp add: storage_sound_def)
qed

lemma storage_same: "storage_sound w \<Longrightarrow> jobs w' = jobs w \<Longrightarrow> budget w' = budget w \<Longrightarrow> storage_sound w'"
  by (simp add: storage_sound_def)

lemma insert_execution_cases:
  assumes "insert_execution cf now r f place j w = Inr (x, w')"
  obtains (known) q where "requests w r = Some q" "rq_fingerprint q = f" "x = rq_execution q" "w' = w"
  | (inserted) k b where "x = jb_id j" "requests w r = None" "workspaces w (jb_workspace j) = Some k"
      "wk_state k = PlaceActive" "now < wk_expires k"
      "reserve_in (jb_id j) (jb_login j) snapshot_bytes (coordinator (budget w)) = Inr b"
      "wk_count k < 256" "authority_live cf now (jb_session j) (wk_policy place) w = Inr True"
      "w' = put_request r \<lparr>rq_workspace = jb_workspace j, rq_execution = jb_id j, rq_fingerprint = f,
                rq_expires = wk_expires place\<rparr>
              (put_workspace (jb_workspace j) (k\<lparr>wk_execution := Some (jb_id j), wk_count := wk_count k + 1\<rparr>)
                (put_job (Execution, jb_id j) j (put_budget b w)))"
  using assms unfolding insert_execution_def
  by (auto simp: not_le split: option.splits if_splits sum.splits)

lemma insert_export_cases:
  assumes "insert_export cf now src j w = Inr (x, w')"
  obtains (known) "w' = w"
  | (inserted) c k b where "x = jb_id j" "jobs w (Execution, jb_id src) = Some c" "jb_state c = Completed"
      "now < jb_expires c" "workspaces w (jb_workspace src) = Some k" "wk_state k = PlaceActive"
      "reserve_in (jb_id j) (jb_login src) snapshot_bytes (coordinator (budget w)) = Inr b"
      "authority_live cf now (jb_session src) (jb_policy src) w = Inr True"
      "w' = put_job (Execution, jb_id src) (c\<lparr>jb_export := Some (jb_id j)\<rparr>)
              (put_job (Export, jb_id j) j (put_budget b w))"
proof -
  from assms obtain c where c: "jobs w (Execution, jb_id src) = Some c" "jb_state c = Completed" "now < jb_expires c"
    by (auto simp: insert_export_def split: option.splits if_splits)
  show thesis
  proof (cases "if jb_export c \<noteq> jb_export src then jb_export c else None")
    case (Some other)
    then show thesis using assms c by (intro known) (simp add: insert_export_def)
  next
    case None
    with assms c obtain k where k: "workspaces w (jb_workspace src) = Some k" "wk_state k = PlaceActive" "now < wk_expires k"
      by (auto simp: insert_export_def not_le split: option.splits if_splits)
    with assms c None have a: "authority_live cf now (jb_session src) (jb_policy src) w = Inr True"
      by (auto simp: insert_export_def split: sum.splits if_splits)
    with assms c None k obtain b where b: "reserve_in (jb_id j) (jb_login src) export_bytes (coordinator (budget w)) = Inr b"
      by (auto simp: insert_export_def split: sum.splits)
    then show thesis
      using assms c None k a by (intro inserted) (auto simp: insert_export_def export_snapshot)
  qed
qed

lemma storage_step: "db_step cf w w' \<Longrightarrow> storage_sound w \<Longrightarrow> storage_sound w'"
proof (induction rule: db_step.induct)
  case (staged i owner w w')
  then obtain b where b: "reserve_in i owner snapshot_bytes (coordinator (budget w)) = Inr b" "w' = put_budget b w"
    by (auto simp: reserve_storage_def map_result_Inr)
  have "budget_sound (reservations w)" using staged by (simp add: storage_sound_def)
  from reserve_in_sound [OF b(1) this]
  show ?case
    by (intro storage_budget [OF staged(2)]) (auto simp: b(2) world_simps update_conv' split: if_splits)
next
  case (released i w w')
  then show ?case
    by (intro storage_budget [OF released(2)])
      (auto simp: release_in_def Let_def world_simps dict_simps storage_sound_def intro: release_sound split: if_splits)
next
  case (admitted now token kind owner role w w')
  then show ?case
    by (intro storage_budget [OF admitted(2)])
      (auto simp: take_permit_def Let_def world_simps storage_sound_def split: if_splits)
next
  case (left token w w')
  then show ?case
    by (intro storage_budget [OF left(2)]) (auto simp: drop_permit_def Let_def world_simps storage_sound_def)
next
  case (created now r f place j w x w')
  then have s: "budget_sound (reservations w)" by (simp add: storage_sound_def)
  from created(1) show ?case
  proof (cases rule: insert_execution_cases)
    case known
    then show ?thesis using created by simp
  next
    case (inserted k b)
    then show ?thesis
      using reserve_in_sound [OF inserted(6) s] by (intro storage_new_job [OF created(4,2,3)]) (auto simp: world_simps)
  qed
next
  case (exported now src j w x w')
  then have s: "budget_sound (reservations w)" by (simp add: storage_sound_def)
  from exported(1) show ?case
  proof (cases rule: insert_export_cases)
    case known
    then show ?thesis using exported by simp
  next
    case (inserted c k b)
    let ?v = "put_job (Export, jb_id j) j (put_budget b w)"
    have "storage_sound ?v"
      using reserve_in_sound [OF inserted(7) s]
      by (intro storage_new_job [OF exported(5,2,3)]) (auto simp: world_simps)
    moreover have "jobs ?v (Execution, jb_id src) = Some c" using inserted(2) by (simp add: world_simps)
    then have "tamer ?v w'" unfolding inserted(9) by (rule tamer_put) (auto simp: active_def)
    ultimately show ?thesis by (rule storage_tamer) (simp add: inserted(9) world_simps)
  qed
next
  case (claimed now kind i token c w c' w')
  then show ?case using tamer_claim storage_tamer by blast
next
  case (finished now kind i claim state error report w w')
  then show ?case using storage_finish by blast
next
  case (closed kind i claim w w')
  then show ?case using tamer_close storage_tamer by blast
next
  case (over kind i f w w' now)
  then show ?case using tamer_update storage_tamer by blast
next
  case (cleaned now ks w w')
  then show ?case using tamer_clean storage_tamer by blast
next
  case (expired_job w k i)
  then show ?case using storage_tamer [OF _ tamer_drop] by (simp add: world_simps)
qed (auto dest!: neutral intro: storage_same simp: neutral_simps world_simps)

section \<open>Connection permits\<close>

abbreviation permits :: "db_world \<Rightarrow> (string \<times> db_permit) list" where
  "permits w \<equiv> bg_permits (coordinator (budget w))"

definition of_kind :: "permit_kind \<Rightarrow> string \<times> db_permit \<Rightarrow> bool" where
  "of_kind k kv = (pm_kind (snd kv) = k)"

text \<open>
  No kind has more permits than its limit, no named owner runs two queries, and no database role serves two
  operations of one kind.
\<close>

definition permits_sound :: "(string \<times> db_permit) list \<Rightarrow> bool" where
  "permits_sound ps =
     (\<forall>k. length (filter (of_kind k) ps) \<le> permit_limit k \<and>
        distinct (map (pm_role \<circ> snd) (filter (\<lambda>kv. of_kind k kv \<and> pm_role (snd kv) \<noteq> []) ps)) \<and>
        distinct (map (pm_owner \<circ> snd) (filter (\<lambda>kv. of_kind QueryPermit kv \<and> pm_owner (snd kv) \<noteq> []) ps)))"

lemma permits_filter: "permits_sound ps \<Longrightarrow> permits_sound (filter P ps)"
proof -
  assume s: "permits_sound ps"
  have c: "filter Q (filter P ps) = filter P (filter Q ps)" for Q :: "string \<times> db_permit \<Rightarrow> bool"
    by (induction ps) auto
  have "length (filter (of_kind k) (filter P ps)) \<le> permit_limit k" for k
  proof -
    have "length (filter (of_kind k) ps) \<le> permit_limit k" using s by (simp add: permits_sound_def)
    then show ?thesis unfolding c using length_filter_le [of P "filter (of_kind k) ps"] by linarith
  qed
  moreover have "distinct (map f (filter Q (filter P ps)))" if "distinct (map f (filter Q ps))"
    for f :: "string \<times> db_permit \<Rightarrow> string" and Q
    unfolding c by (rule distinct_map_filter [OF that])
  ultimately show ?thesis using s unfolding permits_sound_def by blast
qed

lemma length_filter_update:
  "length (filter Q (AList.update k v xs)) \<le> length (filter Q xs) + (if Q (k, v) then 1 else 0)"
  by (induction xs) auto

lemma distinct_filter_update:
  fixes xs :: "(string \<times> 'v) list"
  shows "distinct (map f (filter Q xs)) \<Longrightarrow> (Q (k, v) \<Longrightarrow> f (k, v) \<notin> f ` set (filter Q xs)) \<Longrightarrow>
   distinct (map f (filter Q (AList.update k v xs)))"
proof (induction xs)
  case (Cons x xs)
  obtain a b where x: "x = (a, b)" by (cases x)
  show ?case
  proof (cases "a = k")
    case True
    then show ?thesis using Cons.prems x by (auto split: if_splits)
  next
    case False
    have "set (filter Q (AList.update k v xs)) \<subseteq> insert (k, v) (set (filter Q xs))"
      using set_dict_set_subset [of k v xs] by auto
    then show ?thesis using Cons x False by (auto split: if_splits)
  qed
qed auto

lemma take_permit_cases:
  assumes "take_permit now token kind owner role w = Inr ((), w')"
  obtains ps where "ps = live_permits now (permits w)"
    "length (filter (of_kind kind) ps) < permit_limit kind"
    "kind = QueryPermit \<Longrightarrow> owner \<noteq> [] \<Longrightarrow> owner \<notin> (pm_owner \<circ> snd) ` set (filter (of_kind kind) ps)"
    "role \<noteq> [] \<Longrightarrow> role \<notin> (pm_role \<circ> snd) ` set (filter (of_kind kind) ps)"
    "permits w' = AList.update token
       \<lparr>pm_kind = kind, pm_owner = owner, pm_role = role, pm_expires = now + 330 * second\<rparr> ps"
proof -
  let ?ps = "live_permits now (permits w)"
  let ?same = "filter (of_kind kind) ?ps"
  have k: "(\<lambda>kv. pm_kind (snd kv) = kind) = of_kind kind" by (auto simp: of_kind_def)
  have no: "\<not> permit_limit kind \<le> length ?same"
    "kind = QueryPermit \<Longrightarrow> owner \<noteq> [] \<Longrightarrow> \<not> list_ex (\<lambda>kv. pm_owner (snd kv) = owner) ?same"
    "role \<noteq> [] \<Longrightarrow> \<not> list_ex (\<lambda>kv. pm_role (snd kv) = role) ?same"
    and w: "w' = put_budget (coordinator (budget w)\<lparr>bg_permits := AList.update token
      \<lparr>pm_kind = kind, pm_owner = owner, pm_role = role, pm_expires = now + 330 * second\<rparr> ?ps\<rparr>) w"
    using assms unfolding take_permit_def Let_def k by (simp_all split: if_splits)
  show thesis
  proof (rule that [OF refl])
    show "permits w' = AList.update token
       \<lparr>pm_kind = kind, pm_owner = owner, pm_role = role, pm_expires = now + 330 * second\<rparr> ?ps"
      by (simp add: w world_simps)
    show "length ?same < permit_limit kind" using no(1) by simp
    show "owner \<notin> (pm_owner \<circ> snd) ` set ?same" if "kind = QueryPermit" "owner \<noteq> []"
      using no(2) [OF that] unfolding list_ex_iff by force
    show "role \<notin> (pm_role \<circ> snd) ` set ?same" if "role \<noteq> []"
      using no(3) [OF that] unfolding list_ex_iff by force
  qed
qed

lemma take_permit_sound:
  assumes "take_permit now token kind owner role w = Inr ((), w')" and "permits_sound (permits w)"
  shows "permits_sound (permits w')"
  using assms(1)
proof (cases rule: take_permit_cases)
  case (1 ps)
  let ?v = "\<lparr>pm_kind = kind, pm_owner = owner, pm_role = role, pm_expires = now + 330 * second\<rparr>"
  have s: "permits_sound ps" using permits_filter [OF assms(2)] 1(1) by (simp add: live_permits_def)
  show ?thesis
    unfolding permits_sound_def 1(5)
  proof (intro allI conjI)
    fix k
    show "length (filter (of_kind k) (AList.update token ?v ps)) \<le> permit_limit k"
      using length_filter_update [of "of_kind k" token ?v ps] s 1(2)
      by (cases "k = kind") (auto simp: permits_sound_def of_kind_def intro: order_trans)
    show "distinct (map (pm_role \<circ> snd) (filter (\<lambda>kv. of_kind k kv \<and> pm_role (snd kv) \<noteq> []) (AList.update token ?v ps)))"
      by (rule distinct_filter_update) (use s 1(4) in \<open>auto simp: permits_sound_def of_kind_def\<close>)
    show "distinct (map (pm_owner \<circ> snd) (filter (\<lambda>kv. of_kind QueryPermit kv \<and> pm_owner (snd kv) \<noteq> []) (AList.update token ?v ps)))"
      by (rule distinct_filter_update) (use s 1(3) in \<open>auto simp: permits_sound_def of_kind_def\<close>)
  qed
qed

lemma reserve_in_permits: "reserve_in i owner amount c = Inr b \<Longrightarrow> bg_permits b = bg_permits c"
  by (auto simp: reserve_in_def Let_def split: if_splits)

lemma permits_step: "db_step cf w w' \<Longrightarrow> permits_sound (permits w) \<Longrightarrow> permits_sound (permits w')"
proof (induction rule: db_step.induct)
  case (staged i owner w w')
  then show ?case by (auto simp: reserve_storage_def map_result_Inr world_simps dest: reserve_in_permits)
next
  case (released i w w')
  then show ?case by (auto simp: release_in_def Let_def world_simps)
next
  case (admitted now token kind owner role w w')
  then show ?case using take_permit_sound by blast
next
  case (left token w w')
  then show ?case by (auto simp: drop_permit_def Let_def world_simps dict_pop_def intro: permits_filter)
next
  case (created now r f place j w x w')
  from created(1) show ?case
    by (cases rule: insert_execution_cases) (use created(4) in \<open>auto simp: world_simps dest: reserve_in_permits\<close>)
next
  case (exported now src j w x w')
  from exported(1) show ?case
    by (cases rule: insert_export_cases) (use exported(5) in \<open>auto simp: world_simps dest: reserve_in_permits\<close>)
next
  case (claimed now kind i token c w c' w')
  then show ?case using tamer_claim by fastforce
next
  case (finished now kind i claim state error report w w')
  then show ?case
    by (auto simp: finish_change_def Let_def world_simps split: option.splits if_splits)
next
  case (closed kind i claim w w')
  then show ?case using tamer_close by fastforce
next
  case (over kind i f w w' now)
  then show ?case using tamer_update by (metis (no_types, lifting))
next
  case (cleaned now ks w w')
  then show ?case using tamer_clean by fastforce
qed (auto dest!: neutral simp: neutral_simps world_simps)

section \<open>Interpretations\<close>

interpretation storage: kept cf storage_sound for cf
  by unfold_locales (rule storage_step)

interpretation permits: kept cf "\<lambda>w. permits_sound (permits w)" for cf
  by unfold_locales (rule permits_step)

end
