(* ===== verification/DatabaseLifecycle.thy ===== *)
theory DatabaseLifecycle
  imports DatabaseInvariants
begin

text \<open>
  The life of one job over the histories of the control store: how its state, its claim and its identity may
  change, what publishes a result, and what a revoked session can still do.
\<close>

section \<open>The order of job states\<close>

text \<open>A job only moves on: queued, running, decided, and finally expired or purged.\<close>

definition job_rank :: "job_state \<Rightarrow> nat" where
  "job_rank s = (case s of Queued \<Rightarrow> 0 | Running \<Rightarrow> 1 | Completed \<Rightarrow> 2 | Failed \<Rightarrow> 2 | Cancelled \<Rightarrow> 2
     | Expired \<Rightarrow> 3 | Purged \<Rightarrow> 3)"

instantiation job_state :: preorder
begin

definition less_eq_job_state :: "job_state \<Rightarrow> job_state \<Rightarrow> bool" where
  "s \<le> t \<longleftrightarrow> s = t \<or> job_rank s < job_rank t \<or> (job_rank s = 3 \<and> job_rank t = 3)"

definition less_job_state :: "job_state \<Rightarrow> job_state \<Rightarrow> bool" where
  "s < t \<longleftrightarrow> s \<le> t \<and> \<not> t \<le> (s :: job_state)"

instance
  by standard (auto simp: less_eq_job_state_def less_job_state_def)

end

definition same_job :: "db_job \<Rightarrow> db_job \<Rightarrow> bool" where
  "same_job j j' =
     (jb_id j' = jb_id j \<and> jb_execution j' = jb_execution j \<and> jb_workspace j' = jb_workspace j \<and>
      jb_database j' = jb_database j \<and> jb_session j' = jb_session j \<and> jb_login j' = jb_login j \<and>
      jb_policy j' = jb_policy j \<and> jb_created j' = jb_created j)"

definition job_later :: "db_job \<Rightarrow> db_job \<Rightarrow> bool" where
  "job_later j j' = (same_job j j' \<and> jb_state j \<le> jb_state j' \<and> (jb_claim j \<noteq> None \<longrightarrow> jb_claim j' = jb_claim j) \<and>
     (jb_state j' = Queued \<longrightarrow> jb_claim j' = jb_claim j))"

lemma job_later_refl: "job_later j j"
  by (simp add: job_later_def same_job_def)

lemma queued_least: "s \<le> Queued \<longleftrightarrow> s = Queued"
  by (cases s) (auto simp: less_eq_job_state_def job_rank_def)

lemma job_later_trans: "job_later a b \<Longrightarrow> job_later b c \<Longrightarrow> job_later a c"
  unfolding job_later_def same_job_def by (auto simp: queued_least intro: order_trans)

text \<open>A queued job carries no claim.\<close>

definition unclaimed :: "db_world \<Rightarrow> bool" where
  "unclaimed w = (\<forall>k j. jobs w k = Some j \<and> jb_state j = Queued \<longrightarrow> jb_claim j = None)"

text \<open>Every document after a step was there before, moved on, or is fresh under an unused identity.\<close>

definition advances :: "db_world \<Rightarrow> db_world \<Rightarrow> bool" where
  "advances w w' =
     (\<forall>k. (\<forall>j'. jobs w' k = Some j' \<longrightarrow> (\<exists>j. jobs w k = Some j \<and> job_later j j') \<or> jobs w k = None \<and> fresh_job j'))"

lemma advances_same: "jobs w' = jobs w \<Longrightarrow> advances w w'"
  by (auto simp: advances_def intro: job_later_refl)

lemma advances_refl: "advances w w"
  by (rule advances_same) simp

lemma advances_put: "jobs w k = Some j \<Longrightarrow> job_later j j' \<Longrightarrow> advances w (put_job k j' w)"
  by (auto simp: advances_def world_simps intro: job_later_refl)

lemma advances_later: "advances w w' \<Longrightarrow> jobs w k = Some j \<Longrightarrow> jobs w' k = None \<or> (\<exists>j'. jobs w' k = Some j' \<and> job_later j j')"
proof (cases "jobs w' k")
  case (Some j')
  assume "advances w w'" "jobs w k = Some j"
  with Some have "(\<exists>i. jobs w k = Some i \<and> job_later i j') \<or> jobs w k = None \<and> fresh_job j'"
    unfolding advances_def by blast
  then show ?thesis using Some \<open>jobs w k = Some j\<close> by auto
qed simp

lemma later_claim:
  assumes "unclaimed w" and "claim_change now kind i token c w = Inr (c', w')"
  shows "advances w w'"
proof (cases "jobs w (kind, i)")
  case None
  then show ?thesis using assms(2) by (simp add: claim_change_def advances_same)
next
  case (Some j)
  have "jb_claim j = None" if "jb_state j = Queued" using assms(1) Some that by (auto simp: unclaimed_def)
  then show ?thesis
    using assms(2) Some
    by (auto simp: claim_change_def Let_def job_later_def same_job_def less_eq_job_state_def job_rank_def
        intro!: advances_refl advances_put [OF Some] split: if_splits)
qed

lemma later_close: "close_worker kind i c w = Inr ((), w') \<Longrightarrow> advances w w'"
  by (auto simp: close_worker_def job_later_def same_job_def intro!: advances_refl advances_put
      split: option.splits if_splits)

lemma later_update:
  assumes "update_job kind i f w = Inr ((), w')"
    and "f \<in> {DatabaseWorkers.expired_job, purged_execution, purged_export, export_erased now}"
  shows "advances w w'"
proof -
  have "job_later j (f j)" for j
    using assms(2)
    by (cases "jb_state j")
      (auto simp: DatabaseWorkers.expired_job_def purged_execution_def purged_export_def export_erased_def Let_def
        job_later_def same_job_def less_eq_job_state_def job_rank_def)
  then show ?thesis
    using assms(1) by (auto simp: update_job_def intro!: advances_refl advances_put split: option.splits)
qed

lemma cleaned_later: "job_later j (cleaned_job now j)"
  by (cases "jb_state j")
    (auto simp: cleaned_job_def job_later_def same_job_def less_eq_job_state_def job_rank_def)

lemma later_clean: "clean_jobs now ks w = Inr ((), w') \<Longrightarrow> jobs w k = Some j \<Longrightarrow>
  \<exists>j'. jobs w' k = Some j' \<and> job_later j j'"
proof (induction ks arbitrary: w j)
  case Nil
  then show ?case using job_later_refl by auto
next
  case (Cons a ks)
  let ?v = "case jobs w a of None \<Rightarrow> w | Some j \<Rightarrow> put_job a (cleaned_job now j) w"
  have "\<exists>j1. jobs ?v k = Some j1 \<and> job_later j j1"
    using Cons.prems(2) cleaned_later job_later_refl by (auto simp: world_simps split: option.splits)
  then show ?case using Cons.IH [of ?v] Cons.prems(1) job_later_trans by auto
qed

lemma clean_none: "clean_jobs now ks w = Inr ((), w') \<Longrightarrow> jobs w k = None \<Longrightarrow> jobs w' k = None"
proof (induction ks arbitrary: w)
  case (Cons a ks)
  let ?v = "case jobs w a of None \<Rightarrow> w | Some j \<Rightarrow> put_job a (cleaned_job now j) w"
  have "jobs ?v k = None" using Cons.prems(2) by (auto simp: world_simps split: option.splits)
  then show ?case using Cons.IH [of ?v] Cons.prems(1) by simp
qed simp

lemma finished_later:
  assumes "finishable claim state j" and "state \<in> {Completed, Failed, Cancelled}"
  shows "job_later j (finished_job now kind (finished_state cf t kind state j w) error report j)"
proof -
  let ?s = "finished_state cf t kind state j w"
  have "job_rank (jb_state j) < job_rank ?s"
    using assms finished_state_over [OF assms(2), of cf t kind j w] by (auto simp: finishable_def job_rank_def)
  moreover have "same_job j (finished_job now kind ?s error report j)"
    "jb_claim (finished_job now kind ?s error report j) = jb_claim j"
    by (auto simp: same_job_def finished_job_def apply_report_def Let_def split: option.splits job_kind.splits)
  moreover have "?s \<noteq> Queued" using finished_state_over [OF assms(2), of cf t kind j w] by auto
  ultimately show ?thesis by (simp add: job_later_def less_eq_job_state_def)
qed

lemma later_finish:
  assumes "finish_change cf now kind i claim state error report w = Inr ((), w')"
    and "state \<in> {Completed, Failed, Cancelled}"
  shows "advances w w'"
proof (cases "\<exists>j. jobs w (kind, i) = Some j \<and> finishable claim state j")
  case False
  then show ?thesis using assms(1) by (auto simp: finish_change_def advances_same split: option.splits if_splits)
next
  case True
  then obtain j where j: "jobs w (kind, i) = Some j" "finishable claim state j" by blast
  then have "jobs w' = (jobs w)((kind, i) \<mapsto> finished_job now kind (finished_state cf now kind state j w) error report j)"
    using assms(1) by (auto simp: finish_change_def Let_def world_simps)
  then show ?thesis
    using j finished_later [OF j(2) assms(2)] by (auto simp: advances_def intro: job_later_refl)
qed

lemma step_advances: "db_step cf w w' \<Longrightarrow> unclaimed w \<Longrightarrow> advances w w'"
proof (induction rule: db_step.induct)
  case (staged i owner w w')
  then show ?case by (intro advances_same) (auto simp: reserve_storage_def map_result_Inr world_simps)
next
  case (released i w w')
  then show ?case by (intro advances_same) (auto simp: release_in_def Let_def world_simps)
next
  case (admitted now token kind owner role w w')
  then show ?case by (intro advances_same) (auto simp: take_permit_def Let_def world_simps split: if_splits)
next
  case (left token w w')
  then show ?case by (intro advances_same) (auto simp: drop_permit_def Let_def world_simps)
next
  case (created now r f place j w x w')
  from created(1) show ?case
    by (cases rule: insert_execution_cases)
      (use created(2,3) in \<open>auto simp: advances_def world_simps unused_def intro: job_later_refl\<close>)
next
  case (exported now src j w x w')
  from exported(1) show ?case
  proof (cases rule: insert_export_cases)
    case (inserted c k b)
    have "job_later c (c\<lparr>jb_export := Some (jb_id j)\<rparr>)" by (simp add: job_later_def same_job_def)
    then show ?thesis
      using inserted(2,9) exported(2,3) by (auto simp: advances_def world_simps unused_def intro: job_later_refl)
  qed (simp add: advances_same)
next
  case (claimed now kind i token c w c' w')
  then show ?case using later_claim by blast
next
  case (finished now kind i claim state error report w w')
  then show ?case using later_finish by blast
next
  case (closed kind i claim w w')
  then show ?case using later_close by blast
next
  case (over kind i f w w' now)
  then show ?case using later_update by blast
next
  case (cleaned now ks w w')
  then show ?case unfolding advances_def by (metis clean_none later_clean option.distinct(1) option.exhaust option.inject)
next
  case (expired_job w k i)
  then show ?case by (auto simp: advances_def world_simps intro: job_later_refl)
qed (auto dest!: neutral intro!: advances_same simp: neutral_simps world_simps)

lemma unclaimed_step:
  assumes "db_step cf w w'" and "unclaimed w"
  shows "unclaimed w'"
  unfolding unclaimed_def
proof (intro allI impI)
  fix k j'
  assume j': "jobs w' k = Some j' \<and> jb_state j' = Queued"
  with step_advances [OF assms] consider (old) j where "jobs w k = Some j" "job_later j j'" | (new) "fresh_job j'"
    unfolding advances_def by blast
  then show "jb_claim j' = None"
  proof cases
    case old
    then have "jb_state j = Queued" "jb_claim j' = jb_claim j" using j' by (auto simp: job_later_def queued_least)
    then show ?thesis using old(1) assms(2) unfolding unclaimed_def by simp
  qed (simp add: fresh_job_def)
qed

interpretation claims: kept cf unclaimed for cf
  by unfold_locales (rule unclaimed_step)

section \<open>Tracking one job\<close>

text \<open>Histories in which the identity of a job that is gone is not issued again.\<close>

definition tracked_step :: "db_config \<Rightarrow> job_kind \<times> string \<Rightarrow> db_world \<Rightarrow> db_world \<Rightarrow> bool" where
  "tracked_step cf k w w' = (db_step cf w w' \<and> (jobs w k = None \<longrightarrow> jobs w' k = None))"

lemma tracked_later:
  assumes "(tracked_step cf k)\<^sup>*\<^sup>* w t" and "unclaimed w" and "jobs w k = Some j"
  shows "unclaimed t \<and> (jobs t k = None \<or> (\<exists>j'. jobs t k = Some j' \<and> job_later j j'))"
  using assms(1)
proof (induction rule: rtranclp_induct)
  case base
  then show ?case using assms(2,3) job_later_refl by auto
next
  case (step u v)
  then have s: "db_step cf u v" "jobs u k = None \<Longrightarrow> jobs v k = None" "unclaimed u" by (auto simp: tracked_step_def)
  have "jobs v k = None \<or> (\<exists>j'. jobs v k = Some j' \<and> job_later j j')"
  proof (cases "jobs u k")
    case None
    then show ?thesis using s(2) by simp
  next
    case (Some j1)
    then show ?thesis
      using step.IH advances_later [OF step_advances [OF s(1,3)] Some] job_later_trans by auto
  qed
  then show ?case using unclaimed_step [OF s(1,3)] by simp
qed

section \<open>Publication\<close>

text \<open>A job becomes completed in one kind of step only.\<close>

definition silent :: "db_world \<Rightarrow> db_world \<Rightarrow> bool" where
  "silent w w' = (\<forall>k j'. jobs w' k = Some j' \<and> jb_state j' = Completed \<longrightarrow>
     (\<exists>j. jobs w k = Some j \<and> jb_state j = Completed))"

lemma silent_same: "jobs w' = jobs w \<Longrightarrow> silent w w'"
  by (simp add: silent_def)

lemma silent_put: "jobs w k = Some j \<Longrightarrow> (jb_state j' = Completed \<Longrightarrow> jb_state j = Completed) \<Longrightarrow> silent w (put_job k j' w)"
  by (auto simp: silent_def world_simps)

lemma silent_trans: "silent u v \<Longrightarrow> silent v w \<Longrightarrow> silent u w"
  unfolding silent_def by metis

lemma silent_clean: "clean_jobs now ks w = Inr ((), w') \<Longrightarrow> silent w w'"
proof (induction ks arbitrary: w)
  case (Cons a ks)
  let ?v = "case jobs w a of None \<Rightarrow> w | Some j \<Rightarrow> put_job a (cleaned_job now j) w"
  have "silent w ?v"
    by (cases "jobs w a") (auto simp: cleaned_job_def intro: silent_same silent_put)
  then show ?case using Cons.IH [of ?v] Cons.prems silent_trans by fastforce
qed (simp add: silent_same)

lemma silent_update:
  assumes "update_job kind i f w = Inr ((), w')"
    and "f \<in> {DatabaseWorkers.expired_job, purged_execution, purged_export, export_erased now}"
  shows "silent w w'"
proof -
  have "jb_state (f j) = Completed \<Longrightarrow> jb_state j = Completed" for j
    using assms(2)
    by (auto simp: DatabaseWorkers.expired_job_def purged_execution_def purged_export_def export_erased_def Let_def
        split: if_splits)
  then show ?thesis
    using assms(1) by (auto simp: update_job_def intro: silent_same silent_put split: option.splits)
qed

lemma step_publishes:
  assumes "db_step cf w w'" and "jobs w k = Some j" and "jb_state j \<noteq> Completed"
    and "jobs w' k = Some j'" and "jb_state j' = Completed"
  shows "\<exists>now kind i c. k = (kind, i) \<and> may_complete cf now kind j w \<and> now < jb_expires j \<and>
    jb_state j \<in> {Queued, Running} \<and> jb_claim j = Some c"
proof -
  have no: False if "silent w w'" using that assms(2-5) unfolding silent_def by (metis option.inject)
  from assms(1) show ?thesis
  proof cases
    case (finished now kind i claim state error report)
    show ?thesis
    proof (cases "jobs w (kind, i)")
      case None
      then show ?thesis using finished(1) no by (simp add: finish_change_def silent_same)
    next
      case (Some x)
      show ?thesis
      proof (cases "finishable claim state x \<and> k = (kind, i)")
        case True
        then have x: "x = j" "finishable claim state j" using Some assms(2) by auto
        then have "finished_state cf now kind state j w = Completed"
          using finished(1) Some assms(4,5) True by (auto simp: finish_change_def Let_def world_simps)
        then have "now < jb_expires j" "state = Completed" "may_complete cf now kind j w"
          by (auto simp: finished_state_def split: if_splits)
        then show ?thesis using x(2) finished(3) True by (auto simp: finishable_def split: option.splits)
      next
        case False
        then have "jobs w' k = jobs w k" using finished(1) Some by (auto simp: finish_change_def Let_def world_simps split: if_splits)
        then show ?thesis using assms(2-5) by simp
      qed
    qed
  next
    case (created now r f place x y)
    from created(1) have "silent w w'"
      by (cases rule: insert_execution_cases)
        (use created(2) in \<open>auto simp: silent_def world_simps fresh_job_def\<close>)
    then show ?thesis using no by simp
  next
    case (exported now src x y)
    from exported(1) have "silent w w'"
      by (cases rule: insert_export_cases)
        (use exported(2) in \<open>auto simp: silent_def world_simps fresh_job_def\<close>)
    then show ?thesis using no by simp
  next
    case (claimed now kind i token c c')
    then have "silent w w'"
      by (auto simp: claim_change_def Let_def intro: silent_same silent_put split: option.splits if_splits)
    then show ?thesis using no by simp
  next
    case (closed kind i c)
    then have "silent w w'" by (auto simp: close_worker_def intro: silent_same silent_put split: option.splits if_splits)
    then show ?thesis using no by simp
  next
    case (over kind i f now)
    then show ?thesis using no silent_update by blast
  next
    case (cleaned now ks)
    then show ?thesis using no silent_clean by blast
  next
    case (expired_job a b)
    then show ?thesis using assms(2-5) by (auto simp: world_simps split: if_splits)
  next
    case (staged i owner)
    then have "silent w w'" by (intro silent_same) (auto simp: reserve_storage_def map_result_Inr world_simps)
    then show ?thesis using no by simp
  next
    case (released i)
    then have "silent w w'" by (intro silent_same) (auto simp: release_in_def Let_def world_simps)
    then show ?thesis using no by simp
  next
    case (admitted now token kind owner role)
    then have "silent w w'" by (intro silent_same) (auto simp: take_permit_def Let_def world_simps split: if_splits)
    then show ?thesis using no by simp
  next
    case (left token)
    then have "silent w w'" by (intro silent_same) (auto simp: drop_permit_def Let_def world_simps)
    then show ?thesis using no by simp
  qed (use no neutral silent_same in \<open>auto simp: neutral_simps world_simps\<close>)
qed

end
