(* ===== verification/DatabaseAuthority.thy ===== *)
theory DatabaseAuthority
  imports DatabaseLifecycle
begin

text \<open>
  What a revoked session can still do, who wins a claim, and what a worker leaves behind, in particular when
  its claiming transaction was aborted and repeated.
\<close>

section \<open>Revoked sessions\<close>

definition dead :: "string \<Rightarrow> db_world \<Rightarrow> bool" where
  "dead sid w = (case sessions w sid of None \<Rightarrow> True | Some s \<Rightarrow> ss_revoked s \<noteq> 0)"

text \<open>Histories in which the identity of a session that is gone is not issued again.\<close>

definition session_step :: "db_config \<Rightarrow> string \<Rightarrow> db_world \<Rightarrow> db_world \<Rightarrow> bool" where
  "session_step cf sid w w' = (db_step cf w w' \<and> (sessions w sid = None \<longrightarrow> sessions w' sid = None))"

lemma sessions_kept:
  "reserve_storage i owner n w = Inr ((), w') \<Longrightarrow> sessions w' = sessions w"
  "release_in i w = Inr ((), w') \<Longrightarrow> sessions w' = sessions w"
  "take_permit now token pk owner role w = Inr ((), w') \<Longrightarrow> sessions w' = sessions w"
  "drop_permit token w = Inr ((), w') \<Longrightarrow> sessions w' = sessions w"
  "claim_change now kind i token c w = Inr (c', w') \<Longrightarrow> sessions w' = sessions w"
  "finish_change cf now kind i claim state error report w = Inr ((), w') \<Longrightarrow> sessions w' = sessions w"
  "close_worker kind i claim w = Inr ((), w') \<Longrightarrow> sessions w' = sessions w"
  "update_job kind i f w = Inr ((), w') \<Longrightarrow> sessions w' = sessions w"
  "purge_place now i w = Inr ((), w') \<Longrightarrow> sessions w' = sessions w"
  "tombstone_place now i w = Inr ((), w') \<Longrightarrow> sessions w' = sessions w"
  by (auto simp: reserve_storage_def release_in_def take_permit_def drop_permit_def claim_change_def finish_change_def
      close_worker_def update_job_def purge_place_def tombstone_place_def map_result_Inr Let_def world_simps
      split: option.splits if_splits)

lemma sessions_clean: "clean_jobs now ks w = Inr ((), w') \<Longrightarrow> sessions w' = sessions w"
proof (induction ks arbitrary: w)
  case (Cons a ks)
  let ?v = "case jobs w a of None \<Rightarrow> w | Some j \<Rightarrow> put_job a (cleaned_job now j) w"
  have "sessions ?v = sessions w" by (auto simp: world_simps split: option.splits)
  then show ?case using Cons.IH [of ?v] Cons.prems by simp
qed simp

lemma dead_same: "sessions w' = sessions w \<Longrightarrow> dead sid w \<Longrightarrow> dead sid w'"
  by (simp add: dead_def)

lemma dead_step: "session_step cf sid w w' \<Longrightarrow> dead sid w \<Longrightarrow> dead sid w'"
proof -
  assume a: "session_step cf sid w w'" "dead sid w"
  then have s: "db_step cf w w'" "sessions w sid = None \<longrightarrow> sessions w' sid = None" by (auto simp: session_step_def)
  from s(1) show ?thesis
  proof cases
    case (signed_in s)
    then show ?thesis
      using a(2) s(2) by (auto simp: insert_session_def dead_def world_simps split: if_splits option.splits)
  next
    case (granted now old previous g b)
    then show ?thesis
      using a(2) s(2) by (auto simp: activate_grant_def renewed_def dead_def world_simps split: if_splits option.splits)
  next
    case (revoked P now i)
    then show ?thesis
      using a(2) by (auto simp: revoke_session_def dead_def world_simps split: if_splits option.splits)
  next
    case (opened now k)
    then show ?thesis
      using a(2) by (auto simp: insert_workspace_def dead_def world_simps split: if_splits option.splits sum.splits)
  next
    case (forgotten k)
    then show ?thesis
      using a(2) by (auto simp: forget_workspace_def dead_def Let_def world_simps split: if_splits option.splits)
  next
    case (created now r f place j x)
    then show ?thesis
      using a(2) by (cases rule: insert_execution_cases) (auto intro: dead_same simp: world_simps)
  next
    case (exported now src j x)
    then show ?thesis
      using a(2) by (cases rule: insert_export_cases) (auto intro: dead_same simp: world_simps)
  next
    case (expired_session i)
    then show ?thesis using a(2) by (auto simp: dead_def world_simps)
  qed (use a(2) in \<open>auto dest!: sessions_kept sessions_clean intro: dead_same simp: world_simps neutral_simps\<close>)
qed

lemma dead_history: "(session_step cf sid)\<^sup>*\<^sup>* w t \<Longrightarrow> dead sid w \<Longrightarrow> dead sid t"
  by (induction rule: rtranclp_induct) (auto intro: dead_step)

lemma dead_mcp: "dead sid w \<Longrightarrow> \<exists>e. mcp_validate cf now sid login w = Inl e"
  by (auto simp: mcp_validate_def dead_def split: option.splits)

lemma dead_session: "dead sid w \<Longrightarrow> \<exists>e. session_validate cf now sid login w = Inl e"
proof (cases "session_validate cf now sid login w")
  case (Inr s)
  assume d: "dead sid w"
  have "\<nexists>x. mcp_validate cf now sid l w = Inr x" for l using dead_mcp [OF d, of cf now l] by auto
  then show ?thesis
    using Inr d
    by (auto simp: session_validate_def dead_def first_error.simps split: option.splits if_splits sum.splits)
qed simp

lemma dead_publication: "dead (jb_session j) w \<Longrightarrow> \<not> may_complete cf now kind j w"
  by (auto simp: may_complete_def dead_def split: option.splits)

lemma dead_authority: "dead sid w \<Longrightarrow> authority_live cf now sid version w = Inr False"
  by (auto simp: authority_live_def dead_def split: option.splits)

section \<open>Claims\<close>

definition job_claim :: "job_kind \<Rightarrow> string \<Rightarrow> int \<times> string \<Rightarrow> (db_world, bool) op" where
  "job_claim kind i c w =
     (case claim_job (fst c) kind i (snd c) [] w of (r, w') \<Rightarrow> (map_result (\<lambda>x. x \<noteq> None) r, w'))"

definition not_queued :: "job_kind \<Rightarrow> string \<Rightarrow> db_world \<Rightarrow> bool" where
  "not_queued kind i w = (case jobs w (kind, i) of None \<Rightarrow> True | Some j \<Rightarrow> jb_state j \<noteq> Queued)"

lemma job_claim_eq:
  "job_claim kind i c w =
     (case store_key (kind_name kind) i of
        Inl e \<Rightarrow> (Inl e, w)
      | Inr _ \<Rightarrow>
          (case claim_change (fst c) kind i (snd c) None w of
             Inl e \<Rightarrow> (Inl (visible_error e), w)
           | Inr (x, w') \<Rightarrow> (Inr (x \<noteq> None), w')))"
  by (auto simp: job_claim_def claim_job_def db_bind_def reading_def split: sum.splits prod.splits)

interpretation job: single_winner "job_claim kind i" "not_queued kind i" for kind i
proof
  fix c s
  assume "fst (job_claim kind i c s) = Inr True"
  then show "not_queued kind i (snd (job_claim kind i c s))"
    by (auto simp: job_claim_eq claim_change_def not_queued_def Let_def world_simps
        split: sum.splits option.splits if_splits prod.splits)
next
  fix c s
  assume "not_queued kind i s"
  then show "fst (job_claim kind i c s) \<noteq> Inr True \<and> not_queued kind i (snd (job_claim kind i c s))"
    by (auto simp: job_claim_eq claim_change_def not_queued_def split: sum.splits option.splits)
qed

section \<open>Keys\<close>

lemma hex_key_char: "c \<in> set hex_digits \<Longrightarrow> key_char c"
proof -
  have "list_all key_char hex_digits" by code_simp
  then show "c \<in> set hex_digits \<Longrightarrow> key_char c" by (simp add: list_all_iff)
qed

lemma hex_key: "hex_string n i \<Longrightarrow> 0 < n \<Longrightarrow> n \<le> 128 \<Longrightarrow> k \<in> set store_kinds \<Longrightarrow> store_key k i = Inr (k @ '':'' @ i)"
  by (auto simp: store_key_def hex_string_def list_all_iff intro: hex_key_char)

lemma kind_known [simp]: "kind_name k \<in> set store_kinds"
  by (cases k) (simp_all add: kind_name_def store_kinds_def)

lemma budget_key: "store_key ''control'' ''budget'' = Inr ''control:budget''"
  by code_simp

lemma mutate_budget: "db_mutate [(''control'', ''budget'')] f w =
  (case f w of Inl e \<Rightarrow> (Inl (visible_error e), w) | Inr (x, w') \<Rightarrow> (Inr x, w'))"
  by (simp add: db_mutate_def budget_key)

lemma mutate_job: "hex_string 32 i \<Longrightarrow> db_mutate [(kind_name k, i)] f w =
  (case f w of Inl e \<Rightarrow> (Inl (visible_error e), w) | Inr (x, w') \<Rightarrow> (Inr x, w'))"
  by (simp add: db_mutate_def hex_key)

lemma mutate_job_budget: "hex_string 32 i \<Longrightarrow> db_mutate [(kind_name k, i), (''control'', ''budget'')] f w =
  (case f w of Inl e \<Rightarrow> (Inl (visible_error e), w) | Inr (x, w') \<Rightarrow> (Inr x, w'))"
  by (cases k) (simp_all add: db_mutate_def hex_key budget_key kind_name_def store_kinds_def)

lemma release_storage_eq: "release_storage i w =
  (Inr (), put_budget (coordinator (budget w)\<lparr>bg_reservations := dict_pop i (reservations w)\<rparr>) w)"
  by (simp add: release_storage_def mutate_budget release_in_def Let_def)

lemma purge_objects_eq: "hex_string 32 i \<Longrightarrow> i \<notin> blocked w \<Longrightarrow>
  purge_objects i w = (Inr (), w\<lparr>objects := Set.filter (\<lambda>ob. fst ob \<noteq> i) (objects w)\<rparr>)"
  by (simp add: purge_objects_def)

lemma purge_refused: "hex_string 32 i \<Longrightarrow> i \<in> blocked w \<Longrightarrow> \<exists>e. purge_objects i w = (Inl e, w)"
  by (simp add: purge_objects_def)

lemma worker_closed_eq: "hex_string 32 i \<Longrightarrow> worker_closed k i c w =
  (Inr (), case jobs w (k, i) of None \<Rightarrow> w
     | Some j \<Rightarrow> if jb_claim j = c then put_job (k, i) (j\<lparr>jb_worker_deadline := 0\<rparr>) w else w)"
  by (auto simp: worker_closed_def mutate_job close_worker_def split: option.splits)

lemma finish_failed_eq: "hex_string 32 i \<Longrightarrow>
  finish_job cf now k i c Failed e r w =
    (case jobs w (k, i) of None \<Rightarrow> (Inr (), w)
     | Some _ \<Rightarrow> (case finish_change cf now k i c Failed e r w of
         Inl x \<Rightarrow> (Inl (visible_error x), w) | Inr (u, w') \<Rightarrow> (Inr u, w')))"
  by (auto simp: finish_job_def db_bind_def reading_def db_get_def hex_key finish_references_def mutate_job_budget
      db_return_def split: option.splits sum.splits)

lemma finish_change_Inr: "\<exists>w'. finish_change cf now k i c st e r w = Inr ((), w')"
  by (auto simp: finish_change_def Let_def split: option.splits)

section \<open>What a worker leaves behind\<close>

definition settled :: "string \<Rightarrow> string \<Rightarrow> db_world \<Rightarrow> bool" where
  "settled i token w = (\<forall>j. jobs w (Execution, i) = Some j \<longrightarrow> jb_claim j = Some token \<longrightarrow>
     jb_state j \<noteq> Running \<and> (jb_state j = Completed \<or> map_of (reservations w) i = None \<or> i \<in> blocked w))"

lemma settledD: "settled i token w \<Longrightarrow> jobs w (Execution, i) = Some j \<Longrightarrow> jb_claim j = Some token \<Longrightarrow>
  jb_state j \<noteq> Running \<and> (jb_state j = Completed \<or> map_of (reservations w) i = None \<or> i \<in> blocked w)"
  by (simp add: settled_def)

lemma finish_change_over:
  assumes "finish_change cf now Execution i (Some token) state e r w = Inr ((), w')"
    and "state \<in> {Completed, Failed, Cancelled}" and "jobs w' (Execution, i) = Some j" and "jb_claim j = Some token"
  shows "jb_state j \<noteq> Running"
proof -
  obtain x where x: "jobs w (Execution, i) = Some x"
    using assms(1,3) by (cases "jobs w (Execution, i)") (auto simp: finish_change_def)
  show ?thesis
  proof (cases "finishable (Some token) state x")
    case True
    then have "jb_state j = finished_state cf now Execution state x w"
      using assms(1,3) x by (auto simp: finish_change_def Let_def world_simps)
    then show ?thesis using finished_state_over [OF assms(2), of cf now Execution x w] by auto
  next
    case False
    then have "j = x" using assms(1,3) x by (simp add: finish_change_def)
    then show ?thesis using False assms(4) by (auto simp: finishable_def)
  qed
qed

lemma released_gone: "map_of (reservations (put_budget (coordinator (budget w)\<lparr>bg_reservations := dict_pop i (reservations w)\<rparr>) w)) i = None"
  by (simp add: world_simps dict_simps)

lemma fail_query_settles:
  assumes "hex_string 32 i" and "jb_claim v = Some token"
  shows "settled i token (snd (fail_query cf run i v e w))"
proof -
  obtain w1 where w1: "finish_job cf (wr_later run) Execution i (Some token) Failed (Some (query_error (wr_alive run) e)) None w = (Inr (), w1)"
    and over: "\<And>j. jobs w1 (Execution, i) = Some j \<Longrightarrow> jb_claim j = Some token \<Longrightarrow> jb_state j \<noteq> Running"
  proof (cases "jobs w (Execution, i)")
    case None
    then show thesis using that [of w] finish_failed_eq [OF assms(1)] by simp
  next
    case (Some x)
    obtain w1 where f: "finish_change cf (wr_later run) Execution i (Some token) Failed
        (Some (query_error (wr_alive run) e)) None w = Inr ((), w1)"
      using finish_change_Inr by blast
    then show thesis
      using that [of w1] Some finish_failed_eq [OF assms(1)] finish_change_over [OF f] by simp
  qed
  have f: "fail_query cf run i v e w = db_bind (purge_objects i) (\<lambda>_. release_storage i) w1"
    using w1 assms(2) by (simp add: fail_query_def db_bind_def)
  show ?thesis
  proof (cases "i \<in> blocked w1")
    case True
    obtain e' where "purge_objects i w1 = (Inl e', w1)" using purge_refused [OF assms(1) True] by blast
    then show ?thesis using f over True by (simp add: db_bind_def settled_def)
  next
    case False
    let ?w2 = "w1\<lparr>objects := Set.filter (\<lambda>ob. fst ob \<noteq> i) (objects w1)\<rparr>"
    let ?w3 = "put_budget (coordinator (budget ?w2)\<lparr>bg_reservations := dict_pop i (reservations ?w2)\<rparr>) ?w2"
    have "fail_query cf run i v e w = (Inr (), ?w3)"
      using False assms(1) by (simp add: f db_bind_def purge_objects_eq release_storage_eq)
    moreover have "settled i token ?w3"
      using over released_gone [where w = ?w2 and i = i] by (auto simp: settled_def world_simps dict_simps)
    ultimately show ?thesis by simp
  qed
qed

lemma mutate_Inr: "db_mutate refs f w = (Inr x, w') \<Longrightarrow> f w = Inr (x, w')"
  by (auto simp: db_mutate_def split: sum.splits if_splits prod.splits)

lemma finish_job_Inr:
  assumes "finish_job cf now kind i c st e r w = (Inr (), w')"
  shows "w' = w \<and> jobs w (kind, i) = None \<or> finish_change cf now kind i c st e r w = Inr ((), w')"
proof -
  obtain v where v: "db_get (kind_name kind) i (\<lambda>w. jobs w (kind, i)) w = Inr v" "(case v of None \<Rightarrow> db_return ()
      | Some b \<Rightarrow> db_mutate (finish_references kind i st b) (finish_change cf now kind i c st e r)) w = (Inr (), w')"
    using assms by (auto simp: finish_job_def db_bind_Inr reading_Inr split: option.splits)
  show ?thesis
  proof (cases v)
    case None
    then show ?thesis using v by (auto simp: db_get_def db_return_def split: sum.splits)
  next
    case (Some b)
    then have "finish_change cf now kind i c st e r w = Inr ((), w')"
      using v(2) mutate_Inr [of "finish_references kind i st b" "finish_change cf now kind i c st e r" w "()" w'] by simp
    then show ?thesis ..
  qed
qed

lemma publish_query_settles:
  assumes "hex_string 32 i" and "jb_claim v = Some token" and "publish_query cf run i v w = (Inr (), w')"
  shows "settled i token w'"
proof -
  obtain r w3 w4 where f: "finish_job cf (wr_later run) Execution i (Some token) Completed None (Some r) w3 = (Inr (), w4)"
    and rest: "(if (case jobs w4 (Execution, i) of None \<Rightarrow> True | Some f \<Rightarrow> jb_state f \<noteq> Completed)
         then db_bind (purge_objects i) (\<lambda>_. release_storage i) else db_return ()) w4 = (Inr (), w')"
    using assms(2,3) by (auto simp: publish_query_def db_bind_Inr reading_Inr)
  have over: "jb_state j \<noteq> Running" if j: "jobs w4 (Execution, i) = Some j" "jb_claim j = Some token" for j
  proof -
    have "w4 = w3 \<and> jobs w3 (Execution, i) = None \<or>
        finish_change cf (wr_later run) Execution i (Some token) Completed None (Some r) w3 = Inr ((), w4)"
      by (rule finish_job_Inr [OF f])
    then show ?thesis using finish_change_over [of cf "wr_later run" i token Completed None "Some r" w3 w4 j] j by auto
  qed
  show ?thesis
  proof (cases "case jobs w4 (Execution, i) of None \<Rightarrow> True | Some f \<Rightarrow> jb_state f \<noteq> Completed")
    case True
    let ?w5 = "w4\<lparr>objects := Set.filter (\<lambda>ob. fst ob \<noteq> i) (objects w4)\<rparr>"
    have "w' = put_budget (coordinator (budget ?w5)\<lparr>bg_reservations := dict_pop i (reservations ?w5)\<rparr>) ?w5"
      using rest True assms(1) purge_refused [OF assms(1), of w4]
      by (cases "i \<in> blocked w4") (auto simp: db_bind_def purge_objects_eq release_storage_eq)
    then show ?thesis using over released_gone [where w = ?w5 and i = i] by (auto simp: settled_def world_simps dict_simps)
  next
    case False
    then show ?thesis using rest over by (auto simp: settled_def db_return_def split: option.splits)
  qed
qed

lemma attempts_token:
  "fst (attempts (claim_change now kind i token) c gs w) = Inr x \<Longrightarrow>
   (\<forall>j. c = Some j \<longrightarrow> jb_claim j = Some token) \<Longrightarrow> (\<forall>j. x = Some j \<longrightarrow> jb_claim j = Some token)"
proof (induction gs arbitrary: c w)
  case Nil
  then show ?case by (auto simp: claim_change_def Let_def split: option.splits if_splits)
next
  case (Cons g gs)
  obtain c' w' where c: "claim_change now kind i token c w = Inr (c', w')"
    using Cons.prems(1) by (auto split: sum.splits prod.splits)
  then have "\<forall>j. c' = Some j \<longrightarrow> jb_claim j = Some token"
    using Cons.prems(2) by (auto simp: claim_change_def Let_def split: option.splits if_splits)
  moreover have "fst (attempts (claim_change now kind i token) c' gs (g w)) = Inr x" using Cons.prems(1) c by simp
  ultimately show ?case using Cons.IH by blast
qed

lemma claimed_token: "fst (claim_job now kind i token gs w) = Inr (Some v) \<Longrightarrow> jb_claim v = Some token"
  using attempts_token [of now kind i token None gs w "Some v"]
  by (auto simp: claim_job_def db_bind_def reading_def split: sum.splits if_splits prod.splits)

lemma schedule_keeps: "settled i token w \<Longrightarrow> settled i token (snd (schedule_expiry cf up i w))"
  by (auto simp: schedule_expiry_def db_bind_def reading_def enqueue_def db_return_def Let_def settled_def world_simps
      split: option.splits)

lemma run_query_worker:
  assumes "hex_string 32 i" and "claim_job (wr_now run) Execution i (wr_token run) (wr_aborts run) w = (Inr (Some v), w0)"
  obtains w1 w2 where "settled i (wr_token run) w1" "w2 = snd (worker_closed Execution i (Some (wr_token run)) w1)"
    "snd (run_query cf run i w) \<in> {w2, snd (schedule_expiry cf (wr_cleanup_up run) i w2)}"
proof -
  have c: "jb_claim v = Some (wr_token run)" using claimed_token assms(2) by (metis fst_conv)
  obtain r w1 where w1: "db_catch (publish_query cf run i v) (fail_query cf run i v) w0 = (r, w1)"
    by (metis prod.collapse)
  have s: "settled i (wr_token run) w1"
  proof (cases "publish_query cf run i v w0")
    case (Pair q u)
    show ?thesis
    proof (cases q)
      case (Inl e)
      then show ?thesis
        using w1 Pair fail_query_settles [OF assms(1) c, of cf run e u] by (simp add: db_catch_def)
    next
      case (Inr x)
      then show ?thesis using w1 Pair publish_query_settles [OF assms(1) c] by (simp add: db_catch_def)
    qed
  qed
  let ?w2 = "snd (worker_closed Execution i (Some (wr_token run)) w1)"
  have "snd (run_query cf run i w) \<in> {?w2, snd (schedule_expiry cf (wr_cleanup_up run) i ?w2)}"
    using assms(2) w1 c worker_closed_eq [OF assms(1), of Execution "Some (wr_token run)" w1]
    by (cases r) (auto simp: run_query_def db_bind_def db_finally_def)
  then show thesis using that s by blast
qed

lemma closed_settled:
  assumes "hex_string 32 i" and "settled i token w"
  shows "settled i token (snd (worker_closed Execution i (Some token) w)) \<and>
    (\<forall>j. jobs (snd (worker_closed Execution i (Some token) w)) (Execution, i) = Some j \<longrightarrow>
       jb_claim j = Some token \<longrightarrow> jb_worker_deadline j = 0)"
  using assms(2) by (auto simp: worker_closed_eq [OF assms(1)] settled_def world_simps split: option.splits if_splits)

section \<open>An aborted claim\<close>

lemma claim_attempts: "hex_string 32 i \<Longrightarrow> length gs < 3 \<Longrightarrow>
  claim_job now kind i token gs w = attempts (claim_change now kind i token) None gs w"
  by (simp add: claim_job_def db_bind_def reading_def hex_key)

lemma authorize_foreign:
  assumes "jobs w (kind, jb_id v) = Some c" and "jb_claim c \<noteq> jb_claim v"
  shows "\<exists>e. authorize_run cf now alive kind v w = Inl e"
  using assms by (auto simp: authorize_run_def split: sum.splits)

lemma finish_foreign:
  assumes "hex_string 32 i" and "jobs w (Execution, i) = Some c" and "jb_claim c \<noteq> Some token"
  shows "finish_job cf now Execution i (Some token) Failed e None w = (Inr (), w)"
  using assms by (simp add: finish_failed_eq finish_change_def finishable_def)

section \<open>Requests\<close>

text \<open>The requester presents the session with this identity.\<close>

definition acts_as :: "string \<Rightarrow> requester \<Rightarrow> bool" where
  "acts_as sid req = (case req of Mcp p \<Rightarrow> pr_id p = sid | Browser b \<Rightarrow> session_id (br_nonce b) = Inr sid)"

lemma dead_browser:
  assumes "dead sid w" and "session_id (br_nonce b) = Inr sid"
  shows "\<exists>e. session_require cf now b w = Inl e"
proof -
  have v: "\<exists>e. session_validate cf now sid l w = Inl e" for l using dead_session [OF assms(1)] .
  show ?thesis
  proof (cases "session_require cf now b w")
    case (Inr s)
    then obtain l where "session_validate cf now sid l w = Inr s"
      using assms(2) by (simp add: session_require_def split: sum.splits if_splits)
    then show ?thesis using v [of l] by simp
  qed simp
qed

lemma dead_requester:
  assumes "dead sid w" and "acts_as sid req"
  shows "\<exists>e. require_session cf now req w = Inl e"
proof (cases req)
  case (Browser b)
  then obtain e where "session_require cf now b w = Inl e"
    using dead_browser [OF assms(1), of b] assms(2) by (auto simp: acts_as_def)
  then show ?thesis using Browser by (simp add: require_session_def split: sum.splits)
next
  case (Mcp p)
  then obtain e where "mcp_validate cf now (pr_id p) (Some (pr_login p)) w = Inl e"
    using dead_mcp [OF assms(1), of cf now "Some (pr_login p)"] assms(2) by (auto simp: acts_as_def)
  then show ?thesis using Mcp by (simp add: require_session_def mcp_require_def split: sum.splits)
qed

lemma dead_run: "dead sid w \<Longrightarrow> jb_session v = sid \<Longrightarrow> \<exists>e. authorize_run cf now alive kind v w = Inl e"
proof (cases "authorize_run cf now alive kind v w")
  case (Inr u)
  assume d: "dead sid w" "jb_session v = sid"
  then obtain e where "session_validate cf now (jb_session v) (jb_login v) w = Inl e" using dead_session by blast
  then show ?thesis using Inr by (simp add: authorize_run_def split: sum.splits if_splits)
qed simp

end
