(* ===== verification/DatabaseRequests.thy ===== *)
theory DatabaseRequests
  imports DatabaseAuthority
begin

text \<open>
  Request identities: repeating a request dispatches the execution it already has, and what that may clean up on
  the way creates nothing.
\<close>

section \<open>Operations that create nothing\<close>

definition lesser :: "db_world \<Rightarrow> db_world \<Rightarrow> bool" where
  "lesser w w' = (requests w' = requests w \<and> (\<forall>k. jobs w k = None \<longrightarrow> jobs w' k = None) \<and>
     (\<forall>i. map_of (reservations w) i = None \<longrightarrow> map_of (reservations w') i = None))"

lemma lesser_refl: "lesser w w"
  by (simp add: lesser_def)

lemma lesser_trans: "lesser u v \<Longrightarrow> lesser v w \<Longrightarrow> lesser u w"
  by (simp add: lesser_def)

lemma lesser_put: "jobs w k \<noteq> None \<Longrightarrow> lesser w (put_job k j w)"
  by (auto simp: lesser_def world_simps)

lemma lesser_objects: "lesser w (w\<lparr>objects := X\<rparr>)" "lesser w (w\<lparr>outbox := Y\<rparr>)"
  by (simp_all add: lesser_def world_simps)

text \<open>What an operation returns is free; the world it leaves has nothing new.\<close>

definition creates_nothing :: "'a db \<Rightarrow> bool" where
  "creates_nothing m = (\<forall>w. lesser w (snd (m w)))"

named_theorems barren "operations that create nothing"

lemma barren_bind: "creates_nothing m \<Longrightarrow> (\<And>x. creates_nothing (k x)) \<Longrightarrow> creates_nothing (db_bind m k)"
  unfolding creates_nothing_def
proof (intro allI)
  fix w
  assume m: "\<forall>w. lesser w (snd (m w))" and k: "\<And>x. \<forall>w. lesser w (snd (k x w))"
  obtain r v where v: "m w = (r, v)" by (cases "m w")
  then have "lesser w v" using m by (metis snd_conv)
  then show "lesser w (snd (db_bind m k w))"
    using v k lesser_trans by (cases r) (auto simp: db_bind_def)
qed

lemma barren_basic: "creates_nothing (db_return x)" "creates_nothing (db_raise e)" "creates_nothing (reading f)"
  by (simp_all add: creates_nothing_def db_return_def db_raise_def reading_def lesser_refl)

lemma barren_for_each: "(\<And>x. creates_nothing (f x)) \<Longrightarrow> creates_nothing (for_each f xs)"
  by (induction xs) (auto intro: barren_bind barren_basic)

lemma barren_mutate: "(\<And>w x w'. f w = Inr (x, w') \<Longrightarrow> lesser w w') \<Longrightarrow> creates_nothing (db_mutate refs f)"
  by (auto simp: creates_nothing_def db_mutate_def lesser_refl split: sum.splits)

lemma lesser_clean: "clean_jobs now ks w = Inr ((), w') \<Longrightarrow> lesser w w'"
proof (induction ks arbitrary: w)
  case (Cons a ks)
  let ?v = "case jobs w a of None \<Rightarrow> w | Some j \<Rightarrow> put_job a (cleaned_job now j) w"
  have "lesser w ?v" by (cases "jobs w a") (auto intro: lesser_refl lesser_put)
  then show ?case using Cons.IH [of ?v] Cons.prems lesser_trans by fastforce
qed (simp add: lesser_refl)

lemma lesser_release: "release_in i w = Inr ((), w') \<Longrightarrow> lesser w w'"
  by (auto simp: release_in_def Let_def lesser_def world_simps dict_simps)

lemma lesser_finish: "finish_change cf now kind i claim Failed e None w = Inr ((), w') \<Longrightarrow> lesser w w'"
proof (cases "jobs w (kind, i)")
  case (Some j)
  assume "finish_change cf now kind i claim Failed e None w = Inr ((), w')"
  moreover have "finished_state cf now kind Failed j w \<noteq> Completed" by (simp add: finished_state_def)
  ultimately show ?thesis
    using Some by (auto simp: finish_change_def Let_def lesser_def world_simps split: if_splits option.splits)
qed (simp add: finish_change_def lesser_refl)

lemma barren_transforms [barren]:
  "creates_nothing (db_mutate refs (purge_place now i))" "creates_nothing (db_mutate refs (tombstone_place now i))"
  "creates_nothing (db_mutate refs (update_job k i g))" "creates_nothing (db_mutate refs (clean_jobs now ks))"
  "creates_nothing (db_mutate refs (release_in i))"
  by (rule barren_mutate;
      auto simp: purge_place_def tombstone_place_def update_job_def lesser_def world_simps split: option.splits
        dest: lesser_clean lesser_release)+

lemma barren_objects [barren]: "creates_nothing (purge_objects i)" "creates_nothing (enqueue cf up kind i s)"
  by (auto simp: creates_nothing_def purge_objects_def enqueue_def Let_def intro: lesser_refl lesser_objects)

lemma barren_finish [barren]: "creates_nothing (finish_job cf now kind i claim Failed e None)"
  unfolding finish_job_def
  by (intro barren_bind barren_basic)
    (auto split: option.split intro!: barren_bind barren_basic barren_mutate dest: lesser_finish)

lemmas barren_all = barren_bind barren_basic barren_for_each

lemma barren_release_all [barren]: "creates_nothing (release_all now i xs)"
  unfolding release_all_def release_storage_def cleaned_execution_def by (intro barren_all barren)

lemma barren_purge [barren]: "creates_nothing (purge_execution now v)" "creates_nothing (purge_workspace_id now i)"
proof -
  show p: "creates_nothing (purge_execution now v)" for v
    unfolding purge_execution_def Let_def by (auto intro!: barren_all barren split: prod.split)
  show "creates_nothing (purge_workspace_id now i)"
    unfolding purge_workspace_id_def by (intro barren_all barren p)
qed

lemma barren_cleanup [barren]: "creates_nothing (cleanup now i)"
  unfolding cleanup_def release_storage_def by (auto intro!: barren_all barren split: option.split)

lemma barren_dispatch: "creates_nothing (ensure_dispatch cf up now Execution i)"
  unfolding ensure_dispatch_def by (auto intro!: barren_all barren split: option.split)

section \<open>Repeated requests\<close>

lemma get_execution_result:
  "get_execution cf now req d p y w = Inr x \<Longrightarrow>
   \<exists>j. jobs w (Execution, y) = Some j \<and> x = public_of_execution j \<and> jb_workspace j = p \<and> jb_database j = d"
  by (auto simp: get_execution_def live_execution_def map_result_Inr db_get_def
      split: sum.splits option.splits if_splits)

text \<open>On a request identity that is taken, creating an execution is one of these.\<close>

lemma create_known:
  assumes "requests w (request_identity p c) = Some r"
  shows "(\<exists>e. create_execution cf en req i d p sql c w = (Inl e, w)) \<or>
    rq_fingerprint r = sha256_hex sql \<and>
    create_execution cf en req i d p sql c w =
      db_bind (ensure_dispatch cf (en_query_up en) (en_now en) Execution (rq_execution r))
        (\<lambda>_. reading (get_execution cf (en_now en) req d p (rq_execution r))) w"
  using assms
  by (auto simp: create_execution_def Let_def db_bind_def [where m = "reading _"] reading_def db_get_def db_raise_def
      split: sum.splits)

end
