(* ===== verification/DatabaseProperties.thy ===== *)
theory DatabaseProperties
  imports DatabaseRequests
begin

text \<open>
  What the database jobs guarantee: their handlers are sequences of atomic transactions, the storage and
  connection budgets are never exceeded, a job only moves on, its result is published under live authority
  only, one worker wins it, a worker that claimed settles it, and a revoked session has no power left.  The
  last section is what an aborted claiming transaction does.
\<close>

section \<open>A deployment\<close>

definition ana_cf :: db_config where
  "ana_cf =
     \<lparr>cf_mock = False, cf_enabled = True, cf_executions = True, cf_mcp = False,
      cf_session_secret = replicate 32 (CHR ''s''), cf_client_id = ''client'', cf_client_secret = ''secret'',
      cf_frontend_url = ''https://front'', cf_mcp_base_url = '''', cf_mcp_collection = '''', cf_access_ttl = 3600,
      cf_refresh_ttl = 2592000, cf_policy_version = ''v1'', cf_project = ''project'',
      cf_bucket = ''bucket'', cf_collection = ''control'', cf_location = ''region'', cf_query_queue = ''query'',
      cf_export_queue = ''export'', cf_cleanup_queue = ''cleanup'', cf_worker = ''worker'',
      cf_api_origin = ''https://api'', cf_registry_sha256 = ''registry'', cf_logins = [''ana''],
      cf_registry = Some [\<lparr>dx_id = ''db'', dx_schemas = [''public''], dx_logins = [''ana'']\<rparr>]\<rparr>"

definition ana_sid :: string where "ana_sid = replicate 64 (CHR ''5'')"

definition ana_wid :: string where "ana_wid = replicate 32 (CHR ''a'')"

definition ana_id :: string where "ana_id = replicate 32 (CHR ''e'')"

definition ana_other :: string where "ana_other = replicate 32 (CHR ''f'')"

definition ana_token :: string where "ana_token = ''t1''"

definition ana_session :: db_session where
  "ana_session =
     \<lparr>ss_id = ana_sid, ss_login = ''ana'', ss_created = 0, ss_expires = session_lifetime, ss_revoked = 0,
      ss_workspaces = [ana_wid], ss_source = None, ss_authority = None, ss_scopes = [], ss_client = '''',
      ss_resource = '''', ss_generation = 0, ss_refresh = None, ss_access = None\<rparr>"

definition ana_place :: db_workspace where
  "ana_place =
     \<lparr>wk_id = ana_wid, wk_database = ''db'', wk_session = ana_sid, wk_login = ''ana'', wk_policy = ''v1'',
      wk_state = PlaceActive, wk_created = 0, wk_expires = session_lifetime, wk_execution = Some ana_id,
      wk_count = 1, wk_cleaned = False\<rparr>"

definition ana_job :: db_job where
  "ana_job = new_execution 0 ana_id ana_place ana_session ''inputs/query.json''"

definition ana_budget :: db_budget where
  "ana_budget =
     \<lparr>bg_permits = [], bg_reservations = [(ana_id, \<lparr>rs_owner = ''ana'', rs_bytes = snapshot_bytes\<rparr>)]\<rparr>"

text \<open>One session with one workspace and one queued execution.\<close>

definition ana_world :: db_world where
  "ana_world =
     \<lparr>session_docs = [(ana_sid, ana_session)], workspace_docs = [(ana_wid, ana_place)],
      job_docs = [((Execution, ana_id), ana_job)], request_docs = [], budget = Some ana_budget,
      policy = Some \<lparr>po_enabled = True, po_version = ''v1'', po_fingerprint = sha256_hex (policy_text ana_cf)\<rparr>,
      objects = {(ana_id, ''input'')}, blocked = {}, outbox = []\<rparr>"

definition ana_report :: job_report where
  "ana_report = \<lparr>rp_manifest = Some ''manifest'', rp_columns = [''a''], rp_rows = Some 2, rp_elapsed = Some 1,
     rp_file = None, rp_bytes = 100\<rparr>"

definition ana_run :: worker_run where
  "ana_run = \<lparr>wr_now = second, wr_token = ana_token, wr_aborts = [], wr_work = (\<lambda>_. db_return ana_report),
     wr_later = 2 * second, wr_alive = True, wr_cleanup_up = True\<rparr>"

lemma ana_hex: "hex_string 32 ana_id" "hex_string 32 ana_other" "hex_string 32 ana_wid" "hex_string 64 ana_sid"
  by code_simp+

lemma ana_jobs: "jobs ana_world k = (if k = (Execution, ana_id) then Some ana_job else None)"
  by (simp add: jobs_def ana_world_def)

lemma ana_sessions: "sessions ana_world i = (if i = ana_sid then Some ana_session else None)"
  by (simp add: sessions_def ana_world_def)

lemma ana_workspaces: "workspaces ana_world i = (if i = ana_wid then Some ana_place else None)"
  by (simp add: workspaces_def ana_world_def)

lemma ana_rest: "budget ana_world = Some ana_budget"
  by (simp add: ana_world_def)

lemmas ana_simps = ana_jobs ana_sessions ana_workspaces ana_rest



lemma ana_sound: "storage_sound ana_world"
  by (auto simp: storage_sound_def ana_simps ana_budget_def budget_sound_def reserved_def global_bytes_def
      user_bytes_def snapshot_bytes_def ana_job_def new_execution_def coordinator_def)

lemma ana_permits: "permits_sound (permits ana_world)"
  by (simp add: permits_sound_def ana_rest ana_budget_def)

lemma ana_unclaimed: "unclaimed ana_world"
  by (simp add: unclaimed_def ana_jobs ana_job_def new_execution_def)

section \<open>The handlers refine the protocol\<close>




section \<open>Budgets\<close>

text \<open>
  C16: the result storage is never overcommitted.  From a sound store, after any interleaving of the transactions
  of any number of replicas, at most 128 reservations exist, they stay within the global budget, each user's
  stay within the user's budget, and no job reports more than the bytes reserved for one.
\<close>

theorem database_storage_bounded:
  assumes "db_steps cf w t" and "storage_sound w"
  shows "length (reservations t) \<le> 128 \<and> sum_list (map (rs_bytes \<circ> snd) (reservations t)) \<le> global_bytes \<and>
    (\<forall>owner. sum_list (map (rs_bytes \<circ> snd) (filter (\<lambda>kv. rs_owner (snd kv) = owner) (reservations t))) \<le> user_bytes) \<and>
    (\<forall>k j. jobs t k = Some j \<longrightarrow> jb_bytes j \<le> snapshot_bytes)"
  using storage.kept_steps [OF assms]
  by (force simp: storage_sound_def budget_sound_def reserved_def)

definition ana_reserved :: db_world where
  "ana_reserved = put_budget (ana_budget\<lparr>bg_reservations :=
     [(ana_id, \<lparr>rs_owner = ''ana'', rs_bytes = snapshot_bytes\<rparr>),
      (ana_other, \<lparr>rs_owner = ''ana'', rs_bytes = snapshot_bytes\<rparr>)]\<rparr>) ana_world"

lemma ana_distinct: "ana_id \<noteq> ana_other" "ana_other \<noteq> ana_id"
  by code_simp+

lemma ana_reserve: "reserve_storage ana_other ''ana'' snapshot_bytes ana_world = Inr ((), ana_reserved)"
  by (simp add: reserve_storage_def reserve_in_def ana_rest ana_budget_def ana_reserved_def ana_distinct has_key_def
      snapshot_bytes_def global_bytes_def user_bytes_def)

lemma database_storage_bounded_witness:
  "sum_list (map (rs_bytes \<circ> snd) (reservations ana_reserved)) \<le> global_bytes"
  using database_storage_bounded [OF r_into_rtranclp [of "db_step ana_cf", OF db_step.staged [OF ana_reserve]]
      ana_sound] by blast

text \<open>
  The connection budget is never exceeded: whatever transactions interleave, at most two permits of each kind and
  one export permit are held, no database role serves two operations of a kind, and no user runs two queries.
\<close>

theorem database_permits_bounded:
  assumes "db_steps cf w t" and "permits_sound (permits w)"
  shows "length (filter (\<lambda>kv. pm_kind (snd kv) = kind) (permits t)) \<le> permit_limit kind \<and>
    distinct (map (pm_role \<circ> snd) (filter (\<lambda>kv. pm_kind (snd kv) = kind \<and> pm_role (snd kv) \<noteq> []) (permits t))) \<and>
    distinct (map (pm_owner \<circ> snd) (filter (\<lambda>kv. pm_kind (snd kv) = QueryPermit \<and> pm_owner (snd kv) \<noteq> []) (permits t)))"
  using permits.kept_steps [OF assms] unfolding permits_sound_def of_kind_def by blast

definition ana_permitted :: db_world where
  "ana_permitted = put_budget (ana_budget\<lparr>bg_permits :=
     [(''p'', \<lparr>pm_kind = QueryPermit, pm_owner = ''ana'', pm_role = ''reader'', pm_expires = 330 * second\<rparr>)]\<rparr>) ana_world"

lemma ana_permit: "take_permit 0 ''p'' QueryPermit ''ana'' ''reader'' ana_world = Inr ((), ana_permitted)"
  by (simp add: take_permit_def ana_rest ana_budget_def ana_permitted_def live_permits_def permit_limit_def)

lemma database_permits_bounded_witness:
  "length (filter (\<lambda>kv. pm_kind (snd kv) = QueryPermit) (permits ana_permitted)) \<le> permit_limit QueryPermit"
  using database_permits_bounded [OF r_into_rtranclp [of "db_step ana_cf", OF db_step.admitted [OF ana_permit]]
      ana_permits, where kind = QueryPermit] by blast

section \<open>The life of a job\<close>

text \<open>
  A job only moves on.  From any version of a job to any later one, whatever replicas did in between, it belongs
  to the same session, workspace, database and policy; it never returns to the queue, never starts again once it
  is decided, a decision can only be followed by expiry or purging, and the first worker's claim is never replaced.
\<close>

theorem database_job_lifecycle:
  assumes "(tracked_step cf k)\<^sup>*\<^sup>* w t" and "unclaimed w" and "jobs w k = Some j" and "jobs t k = Some j'"
  shows "jb_id j' = jb_id j \<and> jb_workspace j' = jb_workspace j \<and> jb_database j' = jb_database j \<and>
    jb_session j' = jb_session j \<and> jb_login j' = jb_login j \<and> jb_policy j' = jb_policy j \<and>
    (jb_state j' = Queued \<longrightarrow> jb_state j = Queued \<and> jb_claim j' = None) \<and>
    (jb_state j' = Running \<longrightarrow> jb_state j \<in> {Queued, Running}) \<and>
    (jb_state j \<in> {Completed, Failed, Cancelled} \<longrightarrow> jb_state j' \<in> {jb_state j, Expired, Purged}) \<and>
    (jb_state j \<in> {Expired, Purged} \<longrightarrow> jb_state j' \<in> {Expired, Purged}) \<and>
    (jb_claim j \<noteq> None \<longrightarrow> jb_claim j' = jb_claim j)"
proof -
  have l: "job_later j j'" and u: "unclaimed t" using tracked_later [OF assms(1-3)] assms(4) by auto
  have "jb_state j' = Queued \<Longrightarrow> jb_claim j' = None" using u assms(4) unfolding unclaimed_def by blast
  then show ?thesis
    using l
    by (cases "jb_state j"; cases "jb_state j'"; simp add: job_later_def same_job_def less_eq_job_state_def job_rank_def)
qed

definition ana_running :: db_job where
  "ana_running = ana_job\<lparr>jb_state := Running, jb_claim := Some ana_token,
     jb_worker_deadline := second + worker_seconds * second\<rparr>"

definition ana_claimed :: db_world where
  "ana_claimed = put_job (Execution, ana_id) ana_running ana_world"

lemmas ana_job_simps = ana_running_def ana_job_def new_execution_def ana_place_def ana_session_def
  session_lifetime_def ttl_seconds_def dispatch_seconds_def second_def worker_seconds_def

lemma ana_claim: "claim_change second Execution ana_id ana_token None ana_world = Inr (Some ana_running, ana_claimed)"
  by (simp add: claim_change_def ana_simps ana_claimed_def ana_job_simps Let_def)

lemma ana_claimed_jobs: "jobs ana_claimed k = (if k = (Execution, ana_id) then Some ana_running else None)"
  by (simp add: ana_claimed_def world_simps ana_jobs)

lemma database_job_lifecycle_witness: "jb_session ana_running = jb_session ana_job \<and> jb_state ana_running \<noteq> Queued"
proof -
  have "tracked_step ana_cf (Execution, ana_id) ana_world ana_claimed"
    using db_step.claimed [OF ana_claim, of ana_cf] by (simp add: tracked_step_def ana_jobs)
  from database_job_lifecycle [OF r_into_rtranclp [of "tracked_step ana_cf (Execution, ana_id)", OF this] ana_unclaimed,
      of ana_job ana_running]
  show ?thesis by (simp add: ana_jobs ana_claimed_jobs) (simp add: ana_running_def)
qed

text \<open>
  C4: a result is published under live authority only.  The one transaction that can turn a job completed finds, in
  the same version of the store, the job claimed and not expired, its workspace active and not expired, its session
  not revoked and not expired, the policy it was created under still enabled with this deployment's fingerprint and,
  for an export, its source completed and not expired.
\<close>

theorem database_publication_authorised:
  assumes "db_step cf w w'" and "jobs w (kind, i) = Some j" and "jb_state j \<noteq> Completed"
    and "jobs w' (kind, i) = Some j'" and "jb_state j' = Completed"
  shows "\<exists>now k s p f. now < jb_expires j \<and> jb_state j \<in> {Queued, Running} \<and> jb_claim j \<noteq> None \<and>
    workspaces w (jb_workspace j) = Some k \<and> wk_state k = PlaceActive \<and> now < wk_expires k \<and>
    sessions w (jb_session j) = Some s \<and> ss_revoked s = 0 \<and> now < ss_expires s \<and>
    policy w = Some p \<and> po_enabled p \<and> po_version p = jb_policy j \<and> policy_fingerprint cf = Inr f \<and>
    po_fingerprint p = f \<and>
    (kind = Export \<longrightarrow> (\<exists>src. jobs w (Execution, jb_execution j) = Some src \<and> jb_state src = Completed \<and> now < jb_expires src))"
proof -
  obtain now c where m: "may_complete cf now kind j w" and j: "now < jb_expires j" "jb_state j \<in> {Queued, Running}"
      "jb_claim j = Some c"
    using step_publishes [OF assms] by blast
  from m obtain k s where k: "workspaces w (jb_workspace j) = Some k" "wk_state k = PlaceActive" "now < wk_expires k"
      and s: "sessions w (jb_session j) = Some s" "ss_revoked s = 0" "now < ss_expires s"
      and p: "policy_live cf (jb_policy j) w = Inr True"
      and src: "kind = Export \<longrightarrow> (\<exists>src. jobs w (Execution, jb_execution j) = Some src \<and> jb_state src = Completed \<and>
        now < jb_expires src)"
    by (auto simp: may_complete_def split: option.splits)
  from p obtain q f where "policy w = Some q" "po_enabled q" "po_version q = jb_policy j"
      "policy_fingerprint cf = Inr f" "po_fingerprint q = f"
    by (auto simp: policy_live_def map_result_Inr split: option.splits if_splits)
  then show ?thesis using j k s src by blast
qed

definition ana_done :: db_job where
  "ana_done = finished_job (2 * second) Execution Completed None (Some ana_report) ana_running"

definition ana_finished :: db_world where
  "ana_finished = put_budget (ana_budget\<lparr>bg_reservations := [(ana_id, \<lparr>rs_owner = ''ana'', rs_bytes = 100\<rparr>)]\<rparr>)
     (put_job (Execution, ana_id) ana_done ana_claimed)"

lemma ana_fingerprint: "policy_fingerprint ana_cf = Inr (sha256_hex (policy_text ana_cf))"
proof -
  have "\<exists>ds. cf_registry ana_cf = Some ds" by (simp add: ana_cf_def)
  then show ?thesis by (auto simp: policy_fingerprint_def databases_def)
qed

lemma ana_policy: "policy w = policy ana_world \<Longrightarrow> policy_live ana_cf ''v1'' w = Inr True"
  by (simp add: policy_live_def ana_fingerprint ana_world_def)

lemma ana_may: "may_complete ana_cf (2 * second) Execution ana_running ana_claimed"
proof -
  have "policy ana_claimed = policy ana_world" by (simp add: ana_claimed_def world_simps)
  then show ?thesis
    using ana_policy
    by (simp add: may_complete_def ana_claimed_def world_simps ana_simps ana_job_simps)
qed

lemma ana_finish:
  "finish_change ana_cf (2 * second) Execution ana_id (Some ana_token) Completed None (Some ana_report) ana_claimed =
     Inr ((), ana_finished)"
proof -
  have "finishable (Some ana_token) Completed ana_running" "2 * second < jb_expires ana_running"
    by (simp_all add: finishable_def ana_job_simps)
  then have "finished_state ana_cf (2 * second) Execution Completed ana_running ana_claimed = Completed"
    using ana_may by (simp add: finished_state_def)
  moreover have "jb_bytes ana_done = 100"
    by (simp add: ana_done_def finished_job_def apply_report_def ana_report_def Let_def)
  ultimately show ?thesis
    using \<open>finishable (Some ana_token) Completed ana_running\<close>
    by (simp add: finish_change_def ana_claimed_jobs Let_def ana_done_def [symmetric])
      (simp add: ana_finished_def ana_claimed_def world_simps ana_rest ana_budget_def ana_done_def [symmetric])
qed

lemma database_publication_authorised_witness: "\<exists>now. now < jb_expires ana_running"
proof -
  have "db_step ana_cf ana_claimed ana_finished"
    by (rule db_step.finished [OF ana_finish]) (simp_all add: within_bounds_def ana_report_def snapshot_bytes_def)
  from database_publication_authorised [OF this, of Execution ana_id ana_running ana_done]
  show ?thesis by (simp add: ana_claimed_jobs) (force simp: ana_finished_def world_simps ana_done_def ana_running_def)
qed

text \<open>
  One worker runs a job.  Of any number of workers that claim one job one after another, at most one is given
  it; a worker is given it exactly when the job is queued and neither expired nor past its dispatch deadline.
\<close>

theorem database_claim_exclusive:
  "length (filter (\<lambda>r. r = Inr True) (fst (run_ops (map (job_claim kind i) claims) w))) \<le> 1 \<and>
   (fst (job_claim kind i (now, token) w) = Inr True) =
     ((\<exists>l. store_key (kind_name kind) i = Inr l) \<and>
      (\<exists>j. jobs w (kind, i) = Some j \<and> jb_state j = Queued \<and> now < jb_expires j \<and> now < jb_dispatch j))"
proof
  show "length (filter (\<lambda>r. r = Inr True) (fst (run_ops (map (job_claim kind i) claims) w))) \<le> 1"
    by (rule job.at_most_one_winner)
  show "(fst (job_claim kind i (now, token) w) = Inr True) =
     ((\<exists>l. store_key (kind_name kind) i = Inr l) \<and>
      (\<exists>j. jobs w (kind, i) = Some j \<and> jb_state j = Queued \<and> now < jb_expires j \<and> now < jb_dispatch j))"
    by (auto simp: job_claim_eq claim_change_def Let_def split: sum.splits option.splits)
qed

section \<open>Workers\<close>












section \<open>Sessions\<close>

text \<open>
  C11: a revoked session has no power left.  Once a session is revoked it stays so in every history that does not
  reissue its identity: whoever presents it, by cookie or by MCP credential, is refused by every handler before
  anything changes; its workers are refused by every authorization; and its jobs cannot be published.
\<close>

theorem revoked_session_powerless:
  assumes "(session_step cf sid)\<^sup>*\<^sup>* w t" and "sessions w sid = Some s" and "ss_revoked s \<noteq> 0"
    and "acts_as sid req" and "jb_session j = sid"
  shows "(\<exists>e. create_workspace cf now req x d t = (Inl e, t)) \<and>
    (\<exists>e. create_execution cf en req x d p sql c t = (Inl e, t)) \<and>
    (\<exists>e. create_export cf up now req x d p y t = (Inl e, t)) \<and>
    (\<exists>e. cancel cf now up req d p y t = (Inl e, t)) \<and>
    (\<exists>e. purge_workspace cf up now req d p t = (Inl e, t)) \<and>
    (\<exists>e. get_execution cf now req d p y t = Inl e) \<and> (\<exists>e. get_export cf now req d p y z t = Inl e) \<and>
    (\<exists>e. authorize_run cf now alive kind j t = Inl e) \<and> \<not> may_complete cf now kind j t"
proof -
  have "dead sid w" using assms(2,3) by (simp add: dead_def)
  then have d: "dead sid t" by (rule dead_history [OF assms(1)])
  have "\<And>now. \<exists>e. require_session cf now req t = Inl e" by (rule dead_requester [OF d assms(4)])
  then obtain e where e: "\<And>now. require_session cf now req t = Inl (e now)" by metis
  have l: "live_execution cf now req d p y t = Inl (e now)" for y now by (simp add: live_execution_def e)
  show ?thesis
    using dead_run [OF d assms(5)] dead_publication [of j t cf now kind] d assms(5)
    by (simp add: create_workspace_def create_execution_def create_export_def cancel_def purge_workspace_def
        get_execution_def get_export_def live_export_def l e db_bind_def reading_def Let_def)
qed

definition ana_revoked :: db_world where
  "ana_revoked = put_session ana_sid (ana_session\<lparr>ss_revoked := 5\<rparr>) ana_world"

definition ana_principal :: principal where
  "ana_principal = \<lparr>pr_id = ana_sid, pr_login = ''ana'', pr_client = ''c'', pr_resource = ''r'', pr_generation = 0\<rparr>"

lemma revoked_session_powerless_witness:
  "(\<exists>e. cancel ana_cf 9 True (Mcp ana_principal) ''db'' ana_wid ana_id ana_revoked = (Inl e, ana_revoked)) \<and>
   \<not> may_complete ana_cf 9 Execution ana_job ana_revoked"
  using revoked_session_powerless [where sid = ana_sid and w = ana_revoked and t = ana_revoked
      and s = "ana_session\<lparr>ss_revoked := 5\<rparr>" and req = "Mcp ana_principal" and j = ana_job and cf = ana_cf
      and now = 9 and kind = Execution]
  by (simp add: ana_revoked_def world_simps acts_as_def ana_principal_def ana_job_simps)

section \<open>Requests\<close>

text \<open>
  A request is executed once.  Repeating it under the same client request identity creates no execution and
  no export, reserves no storage and records no request, whatever else it does and however it ends; with another
  statement it is refused and nothing changes, and what it returns is the execution of the first request.
\<close>

theorem database_request_once:
  assumes "requests w (request_identity p c) = Some r"
    and "create_execution cf en req i d p sql c w = (res, t)"
  shows "requests t = requests w \<and> (\<forall>k. jobs w k = None \<longrightarrow> jobs t k = None) \<and>
    (\<forall>x. map_of (reservations w) x = None \<longrightarrow> map_of (reservations t) x = None) \<and>
    (rq_fingerprint r \<noteq> sha256_hex sql \<longrightarrow> t = w \<and> (\<exists>e. res = Inl e)) \<and>
    (\<forall>x. res = Inr x \<longrightarrow> (\<exists>j. jobs t (Execution, rq_execution r) = Some j \<and> x = public_of_execution j))"
proof (cases "\<exists>e. create_execution cf en req i d p sql c w = (Inl e, w)")
  case True
  then show ?thesis using assms(2) by auto
next
  case False
  let ?m = "db_bind (ensure_dispatch cf (en_query_up en) (en_now en) Execution (rq_execution r))
        (\<lambda>_. reading (get_execution cf (en_now en) req d p (rq_execution r)))"
  have f: "rq_fingerprint r = sha256_hex sql" and m: "?m w = (res, t)"
    using create_known [OF assms(1), of cf en req i d sql] assms(2) False by auto
  have "creates_nothing ?m" by (intro barren_all barren_dispatch)
  then have "lesser w t" using m by (auto simp: creates_nothing_def dest: spec [of _ w])
  moreover have "\<exists>j. jobs t (Execution, rq_execution r) = Some j \<and> x = public_of_execution j" if "res = Inr x" for x
    using m that by (auto simp: db_bind_Inr reading_Inr dest!: get_execution_result)
  ultimately show ?thesis using f by (simp add: lesser_def)
qed

definition ana_known :: db_world where
  "ana_known = put_request (request_identity ana_wid ''req'')
     \<lparr>rq_workspace = ana_wid, rq_execution = ana_id, rq_fingerprint = sha256_hex ''select 1'', rq_expires = session_lifetime\<rparr>
     ana_world"

definition ana_env :: job_env where
  "ana_env = \<lparr>en_now = second, en_parse = (\<lambda>_ _. Inr ()), en_stage = Inr (), en_cleanup_up = True, en_query_up = True\<rparr>"

lemma database_request_once_witness:
  "jobs (snd (create_execution ana_cf ana_env (Mcp ana_principal) ana_other ''db'' ana_wid ''select 1'' ''req'' ana_known))
     (Execution, ana_other) = None"
proof -
  obtain res t where c: "create_execution ana_cf ana_env (Mcp ana_principal) ana_other ''db'' ana_wid ''select 1''
      ''req'' ana_known = (res, t)" by (metis prod.collapse)
  have "jobs ana_known (Execution, ana_other) = None"
    by (simp add: ana_known_def world_simps ana_jobs ana_distinct)
  moreover have "requests ana_known (request_identity ana_wid ''req'') = Some \<lparr>rq_workspace = ana_wid,
      rq_execution = ana_id, rq_fingerprint = sha256_hex ''select 1'', rq_expires = session_lifetime\<rparr>"
    by (simp add: ana_known_def world_simps)
  ultimately show ?thesis using database_request_once [OF _ c] c by simp
qed

section \<open>A claim that was aborted\<close>

text \<open>
  The claiming transaction keeps what an aborted attempt claimed.  When another worker commits its claim between
  two attempts of this one, this worker goes on with a claim it does not hold: it does no work, since its
  authorization is refused, but on its way out it erases the objects and the reservation of the execution that the
  other worker is running, and leaves that execution running under the other worker's claim.
\<close>

theorem aborted_claim_erases_winner:
  assumes "hex_string 32 i" and "jobs w (Execution, i) = Some j" and "jb_id j = i" and "jb_state j = Queued"
    and "wr_now run < jb_expires j" and "wr_now run < jb_dispatch j" and "winner \<noteq> wr_token run"
    and "wr_aborts run = [\<lambda>w. snd (claim_job (wr_now run) Execution i winner [] w)]"
    and "i \<notin> blocked w"
  shows "\<exists>f. fst (run_query cf run i w) = Inr () \<and> jobs (snd (run_query cf run i w)) (Execution, i) = Some f \<and>
    jb_state f = Running \<and> jb_claim f = Some winner \<and>
    map_of (reservations (snd (run_query cf run i w))) i = None \<and>
    (\<forall>name. (i, name) \<notin> objects (snd (run_query cf run i w)))"
proof -
  let ?v = "j\<lparr>jb_state := Running, jb_claim := Some (wr_token run),
     jb_worker_deadline := wr_now run + worker_seconds * second\<rparr>"
  let ?f = "j\<lparr>jb_state := Running, jb_claim := Some winner, jb_worker_deadline := wr_now run + worker_seconds * second\<rparr>"
  let ?w0 = "put_job (Execution, i) ?f w"
  let ?w1 = "?w0\<lparr>objects := Set.filter (\<lambda>ob. fst ob \<noteq> i) (objects ?w0)\<rparr>"
  let ?w2 = "put_budget (coordinator (budget ?w1)\<lparr>bg_reservations := dict_pop i (reservations ?w1)\<rparr>) ?w1"
  have win: "snd (claim_job (wr_now run) Execution i winner [] w) = ?w0"
    using assms(2,4-6) by (simp add: claim_attempts [OF assms(1)] claim_change_def Let_def)
  then have claim: "claim_job (wr_now run) Execution i (wr_token run) (wr_aborts run) w = (Inr (Some ?v), ?w0)"
    using assms(2,4-6) by (simp add: assms(8) claim_attempts [OF assms(1)] claim_change_def Let_def world_simps)
  obtain e where auth: "authorize_run cf (wr_now run) True Execution ?v ?w0 = Inl e"
    using authorize_foreign [of ?w0 Execution ?v ?f cf "wr_now run" True] assms(3,7) by (auto simp: world_simps)
  have "finish_job cf (wr_later run) Execution i (Some (wr_token run)) Failed x None ?w0 = (Inr (), ?w0)" for x
    using finish_foreign [OF assms(1), of ?w0 ?f] assms(7) by (simp add: world_simps)
  then have fail: "fail_query cf run i ?v e ?w0 = (Inr (), ?w2)"
    using assms(1,9) by (simp add: fail_query_def db_bind_def purge_objects_eq release_storage_eq world_simps)
  have j2: "jobs ?w2 (Execution, i) = Some ?f" by (simp add: world_simps)
  have closed: "worker_closed Execution i (Some (wr_token run)) ?w2 = (Inr (), ?w2)"
    using assms(7) j2 by (simp add: worker_closed_eq [OF assms(1)])
  have "schedule_expiry cf (wr_cleanup_up run) i ?w2 = (Inr (), ?w2)"
    using j2 by (simp add: schedule_expiry_def db_bind_def reading_def db_return_def)
  then have r: "run_query cf run i w = (Inr (), ?w2)"
    using claim auth fail closed
    by (simp add: run_query_def publish_query_def db_bind_def db_catch_def db_finally_def reading_def)
  show ?thesis
    using j2 released_gone [where w = ?w1 and i = i] by (simp add: r) (auto simp: put_budget_def)
qed

definition ana_loser :: worker_run where
  "ana_loser = ana_run\<lparr>wr_token := ''t2'',
     wr_aborts := [\<lambda>w. snd (claim_job second Execution ana_id ana_token [] w)]\<rparr>"

lemma aborted_claim_erases_winner_witness:
  "map_of (reservations (snd (run_query ana_cf ana_loser ana_id ana_world))) ana_id = None"
proof -
  have l: "wr_now ana_loser = second" "wr_token ana_loser = ''t2''"
    "wr_aborts ana_loser = [\<lambda>w. snd (claim_job (wr_now ana_loser) Execution ana_id ana_token [] w)]"
    by (simp_all add: ana_loser_def ana_run_def)
  have j: "jobs ana_world (Execution, ana_id) = Some ana_job" "jb_id ana_job = ana_id" "jb_state ana_job = Queued"
    "second < jb_expires ana_job" "second < jb_dispatch ana_job" "ana_token \<noteq> ''t2''"
    by (simp_all add: ana_jobs ana_job_simps ana_token_def)
  have b: "ana_id \<notin> blocked ana_world" by (simp add: ana_world_def)
  show ?thesis
    using aborted_claim_erases_winner [OF ana_hex(1) j(1-3) _ _ _ l(3)] j(4-6) l(1,2) b by metis
qed

end
