(* ===== verification/McpAuth.thy ===== *)
theory McpAuth
  imports DatabaseWorkers
begin

text \<open>
  The OAuth provider of the MCP endpoint (\<open>services/mcp_auth.py\<close>) over its private records
  (\<open>services/mcp_store.py\<close>) and the grants of the database control store: registration, authorization, browser
  consent, one-time codes, rotating credentials and revocation.  Opaque tokens and the clock are arguments, and so
  is the login GitHub reports.  Redirect URIs are given with the parts \<open>urlparse\<close> finds in them.
\<close>

section \<open>Records\<close>

record parsed_url =
  pu_text :: string
  pu_scheme :: string
  pu_host :: string
  pu_fragment :: string
  pu_user :: string
  pu_password :: string

record oauth_client =
  cl_id :: string
  cl_method :: string
  cl_redirects :: "parsed_url list"
  cl_grants :: "string list"
  cl_scope :: "string option"

text \<open>A pending authorization: the state given to GitHub, the consent the browser decides, and the code.\<close>

datatype pending_kind = StateRecord | ConsentRecord | CodeRecord

record oauth_pending =
  pn_client :: string
  pn_scopes :: "string list"
  pn_challenge :: string
  pn_redirect :: string
  pn_explicit :: bool
  pn_resource :: "string option"
  pn_state :: "string option"
  pn_subject :: "string option"
  pn_nonce :: "string option"
  pn_expires :: int

datatype token_kind = AccessRecord | RefreshRecord

text \<open>A credential as it is kept, under the hash of the token.  A legacy record has no session.\<close>

record credential =
  tk_client :: string
  tk_scopes :: "string list"
  tk_subject :: "string option"
  tk_resource :: string
  tk_session :: string
  tk_generation :: int
  tk_expires :: int

record audit_entry =
  au_subject :: "string option"
  au_client :: string
  au_grant :: string

record mcp_world =
  client_docs :: "(string \<times> (oauth_client \<times> bool)) list"
  pending_docs :: "((pending_kind \<times> string) \<times> oauth_pending) list"
  token_docs :: "((token_kind \<times> string) \<times> credential) list"
  audits :: "audit_entry list"
  control :: db_world

definition pendings :: "mcp_world \<Rightarrow> pending_kind \<times> string \<Rightarrow> oauth_pending option" where
  "pendings m k = map_of (pending_docs m) k"

definition tokens :: "mcp_world \<Rightarrow> token_kind \<times> string \<Rightarrow> credential option" where
  "tokens m k = map_of (token_docs m) k"

type_synonym 'a oauth = "(mcp_world, 'a) op"

section \<open>The private store\<close>

definition token_key :: "string \<Rightarrow> string" where
  "token_key value = sha256_hex value"

definition oauth_store :: "db_config \<Rightarrow> unit result" where
  "oauth_store cf =
     raise_if (\<not> cf_mock cf \<and> cf_mcp_collection cf = '''') (RuntimeError ''Persistent MCP OAuth storage is required'')"

definition stored :: "db_config \<Rightarrow> (mcp_world \<Rightarrow> 'a \<times> mcp_world) \<Rightarrow> 'a oauth" where
  "stored cf f m = (case oauth_store cf of Inl e \<Rightarrow> (Inl e, m) | Inr _ \<Rightarrow> (case f m of (x, m') \<Rightarrow> (Inr x, m')))"

definition save_client :: "db_config \<Rightarrow> string \<Rightarrow> oauth_client \<Rightarrow> unit oauth" where
  "save_client cf i c = stored cf (\<lambda>m. ((), m\<lparr>client_docs := AList.update i (c, False) (client_docs m)\<rparr>))"

definition put_pending :: "pending_kind \<times> string \<Rightarrow> oauth_pending \<Rightarrow> mcp_world \<Rightarrow> mcp_world" where
  "put_pending k p m = m\<lparr>pending_docs := AList.update k p (pending_docs m)\<rparr>"

definition save_pending :: "db_config \<Rightarrow> pending_kind \<times> string \<Rightarrow> oauth_pending \<Rightarrow> unit oauth" where
  "save_pending cf k p = stored cf (\<lambda>m. ((), put_pending k p m))"

definition get_pending :: "db_config \<Rightarrow> pending_kind \<times> string \<Rightarrow> oauth_pending option oauth" where
  "get_pending cf k = stored cf (\<lambda>m. (pendings m k, m))"

definition consume_pending :: "db_config \<Rightarrow> pending_kind \<times> string \<Rightarrow> oauth_pending option oauth" where
  "consume_pending cf k =
     stored cf (\<lambda>m. (pendings m k, m\<lparr>pending_docs := filter (\<lambda>kv. fst kv \<noteq> k) (pending_docs m)\<rparr>))"

definition put_token :: "token_kind \<times> string \<Rightarrow> credential \<Rightarrow> mcp_world \<Rightarrow> mcp_world" where
  "put_token k t m = m\<lparr>token_docs := AList.update k t (token_docs m)\<rparr>"

definition drop_token :: "token_kind \<times> string \<Rightarrow> mcp_world \<Rightarrow> mcp_world" where
  "drop_token k m = m\<lparr>token_docs := filter (\<lambda>kv. fst kv \<noteq> k) (token_docs m)\<rparr>"

definition save_token :: "db_config \<Rightarrow> token_kind \<times> string \<Rightarrow> credential \<Rightarrow> unit oauth" where
  "save_token cf k t = stored cf (\<lambda>m. ((), put_token k t m))"

definition get_token :: "db_config \<Rightarrow> token_kind \<times> string \<Rightarrow> credential option oauth" where
  "get_token cf k = stored cf (\<lambda>m. (tokens m k, m))"

definition delete_token :: "db_config \<Rightarrow> token_kind \<times> string \<Rightarrow> unit oauth" where
  "delete_token cf k = stored cf (\<lambda>m. ((), drop_token k m))"

definition save_audit :: "audit_entry \<Rightarrow> unit oauth" where
  "save_audit a m = (Inr (), m\<lparr>audits := audits m @ [a]\<rparr>)"

text \<open>An operation of the control store, within this world.\<close>

definition on_control :: "'a db \<Rightarrow> 'a oauth" where
  "on_control f m = (case f (control m) of (r, w) \<Rightarrow> (r, m\<lparr>control := w\<rparr>))"

lemma stored_Inr: "stored cf f m = (Inr x, m') \<longleftrightarrow> oauth_store cf = Inr () \<and> f m = (x, m')"
  by (auto simp: stored_def split: sum.splits prod.splits)

lemma tokens_simps [world_simps]:
  "tokens (put_token k t m) = (tokens m)(k \<mapsto> t)" "tokens (drop_token k m) = (tokens m)(k := None)"
  "tokens (put_pending q p m) = tokens m" "tokens (m\<lparr>pending_docs := P\<rparr>) = tokens m"
  "tokens (m\<lparr>control := w\<rparr>) = tokens m" "tokens (m\<lparr>audits := a\<rparr>) = tokens m" "tokens (m\<lparr>client_docs := c\<rparr>) = tokens m"
  by (auto simp: tokens_def put_token_def drop_token_def put_pending_def update_conv' map_of_filter_key)

lemma pendings_simps [world_simps]:
  "pendings (put_pending k p m) = (pendings m)(k \<mapsto> p)" "pendings (put_token q t m) = pendings m"
  "pendings (m\<lparr>pending_docs := filter (\<lambda>kv. fst kv \<noteq> k) (pending_docs m)\<rparr>) = (pendings m)(k := None)"
  "pendings (drop_token q m) = pendings m" "pendings (m\<lparr>control := w\<rparr>) = pendings m"
  "pendings (m\<lparr>audits := a\<rparr>) = pendings m" "pendings (m\<lparr>client_docs := c\<rparr>) = pendings m"
  by (auto simp: pendings_def put_token_def drop_token_def put_pending_def update_conv' map_of_filter_key)

lemma control_simps [world_simps]:
  "control (put_token k t m) = control m" "control (drop_token k m) = control m" "control (put_pending q p m) = control m"
  by (simp_all add: put_token_def drop_token_def put_pending_def)

section \<open>Clients\<close>

definition mcp_scope :: string where "mcp_scope = ''eng-platform.access''"

definition safe_redirect :: "parsed_url \<Rightarrow> bool" where
  "safe_redirect u =
     (pu_fragment u = '''' \<and> pu_user u = '''' \<and> pu_password u = '''' \<and> pu_host u \<noteq> '''' \<and>
      (pu_scheme u = ''https'' \<or>
       pu_scheme u = ''http'' \<and> pu_host u \<in> {''localhost'', ''127.0.0.1'', ''::1''}))"

text \<open>\<open>str.split()\<close>\<close>

fun split_words :: "string \<Rightarrow> string \<Rightarrow> string list" where
  "split_words w [] = (if w = [] then [] else [rev w])"
| "split_words w (c # s) =
     (if is_space c then (if w = [] then split_words [] s else rev w # split_words [] s) else split_words (c # w) s)"

definition invalid_metadata :: "string \<Rightarrow> py_err" where
  "invalid_metadata text = OAuthError ''invalid_client_metadata'' text"

definition register_client :: "db_config \<Rightarrow> oauth_client \<Rightarrow> unit oauth" where
  "register_client cf c =
     db_bind (reading (\<lambda>_. first_error
        [raise_if (cl_method c \<noteq> ''none'')
           (invalid_metadata ''Only public PKCE clients (token_endpoint_auth_method=none) are supported''),
         raise_if (cl_id c = '''' \<or> cl_redirects c = []) (invalid_metadata ''client_id and redirect_uris are required''),
         raise_if (\<not> list_all safe_redirect (cl_redirects c))
           (OAuthError ''invalid_redirect_uri'' ''redirect_uri must be HTTPS or localhost HTTP''),
         raise_if (\<not> {''authorization_code'', ''refresh_token''} \<subseteq> set (cl_grants c))
           (invalid_metadata ''authorization_code and refresh_token are required''),
         let scopes = split_words [] (case cl_scope c of None \<Rightarrow> mcp_scope | Some s \<Rightarrow> if s = '''' then mcp_scope else s)
         in raise_if (scopes = [] \<or> \<not> set scopes \<subseteq> {mcp_scope}) (invalid_metadata ''Requested scopes are not supported'')]))
       (\<lambda>_. save_client cf (cl_id c) c)"

definition get_client :: "db_config \<Rightarrow> string \<Rightarrow> oauth_client option oauth" where
  "get_client cf i = stored cf (\<lambda>m. (case map_of (client_docs m) i of
       None \<Rightarrow> None
     | Some (c, revoked) \<Rightarrow> if revoked then None else Some (c\<lparr>cl_scope := Some mcp_scope\<rparr>), m))"

section \<open>Authorization\<close>

definition access_denied :: "string \<Rightarrow> py_err" where
  "access_denied text = OAuthError ''access_denied'' text"

record authorization_params =
  ap_scopes :: "string list option"
  ap_challenge :: string
  ap_redirect :: string
  ap_explicit :: bool
  ap_resource :: "string option"
  ap_state :: "string option"

text \<open>\<open>params.scopes or [SCOPE]\<close>\<close>

definition requested_scopes :: "authorization_params \<Rightarrow> string list" where
  "requested_scopes ap = (case ap_scopes ap of None \<Rightarrow> [mcp_scope] | Some s \<Rightarrow> if s = [] then [mcp_scope] else s)"

definition new_state :: "int \<Rightarrow> string \<Rightarrow> authorization_params \<Rightarrow> oauth_pending" where
  "new_state now client ap =
     \<lparr>pn_client = client, pn_scopes = requested_scopes ap, pn_challenge = ap_challenge ap, pn_redirect = ap_redirect ap,
      pn_explicit = ap_explicit ap, pn_resource = ap_resource ap, pn_state = ap_state ap, pn_subject = None,
      pn_nonce = None, pn_expires = now + 600 * second\<rparr>"

text \<open>\<open>authorize\<close> up to the URL of GitHub, which carries the state that is returned here.\<close>

definition authorize :: "db_config \<Rightarrow> int \<Rightarrow> string \<Rightarrow> string \<Rightarrow> authorization_params \<Rightarrow> string oauth" where
  "authorize cf now state client ap =
     db_bind (reading (\<lambda>_. first_error
        [raise_if (cf_client_id cf = '''' \<or> cf_client_secret cf = '''')
           (OAuthError ''temporarily_unavailable'' ''GitHub OAuth is not configured''),
         raise_if (cf_mcp_base_url cf = '''') (OAuthError ''server_error'' ''MCP public URL is not configured''),
         raise_if (requested_scopes ap \<noteq> [mcp_scope]) (OAuthError ''invalid_scope'' ''Reconnect MCP for full access''),
         map_result (\<lambda>_. ()) (mcp_resource cf (ap_resource ap))]))
       (\<lambda>_. db_bind (save_pending cf (StateRecord, token_key state) (new_state now client ap)) (\<lambda>_. db_return state))"

definition owns_pending_state :: "db_config \<Rightarrow> int \<Rightarrow> string \<Rightarrow> bool oauth" where
  "owns_pending_state cf now state =
     db_bind (get_pending cf (StateRecord, token_key state))
       (\<lambda>p. db_return (case p of None \<Rightarrow> False | Some v \<Rightarrow> now \<le> pn_expires v))"

definition live_pending :: "int \<Rightarrow> oauth_pending option \<Rightarrow> bool" where
  "live_pending now p = (case p of None \<Rightarrow> False | Some v \<Rightarrow> now \<le> pn_expires v)"

text \<open>\<open>identity\<close>: the login that GitHub reports for the callback, or the exception of the exchange with it.\<close>

definition complete_github :: "db_config \<Rightarrow> int \<Rightarrow> string \<Rightarrow> string result \<Rightarrow> string \<Rightarrow> string oauth" where
  "complete_github cf now state identity consent =
     db_bind (consume_pending cf (StateRecord, token_key state)) (\<lambda>p.
       if \<not> live_pending now p then db_raise (access_denied ''OAuth state is invalid or expired'')
       else
         db_bind (reading (\<lambda>_. identity)) (\<lambda>raw.
           let login = str_lower (strip raw) in
           if login = '''' \<or> \<not> login_pattern login then db_raise (access_denied ''GitHub identity is invalid'')
           else
             db_bind (save_pending cf (ConsentRecord, token_key consent)
                        ((the p)\<lparr>pn_subject := Some login, pn_expires := now + 300 * second\<rparr>))
               (\<lambda>_. db_return (cf_mcp_base_url cf @ ''/mcp/consent?consent='' @ consent))))"

text \<open>\<open>urlencode\<close>: \<open>quote_plus\<close> of names and values.\<close>

definition url_safe :: "char \<Rightarrow> bool" where
  "url_safe c = (is_alnum c \<or> c = CHR ''_'' \<or> c = CHR ''.'' \<or> c = CHR ''-'' \<or> c = CHR ''~'')"

definition upper_hex :: "nat \<Rightarrow> char" where
  "upper_hex n = ''0123456789ABCDEF'' ! n"

definition url_quote :: "string \<Rightarrow> string" where
  "url_quote s =
     concat (map (\<lambda>c. if url_safe c then [c] else if c = CHR '' '' then ''+''
       else concat (map (\<lambda>b. [CHR ''%'', upper_hex (nat b div 16), upper_hex (nat b mod 16)]) (utf8_char c))) s)"

definition urlencode :: "(string \<times> string) list \<Rightarrow> string" where
  "urlencode xs = join ''&'' (map (\<lambda>(k, v). url_quote k @ ''='' @ url_quote v) xs)"

definition redirect_with :: "oauth_pending \<Rightarrow> string \<times> string \<Rightarrow> string" where
  "redirect_with p field =
     pn_redirect p @ (if CHR ''?'' \<in> set (pn_redirect p) then ''&'' else ''?'') @
     urlencode (field # (case pn_state p of None \<Rightarrow> [] | Some s \<Rightarrow> [(''state'', s)]))"

definition authorization_redirect :: "db_config \<Rightarrow> int \<Rightarrow> string \<Rightarrow> oauth_pending \<Rightarrow> string oauth" where
  "authorization_redirect cf now code p =
     db_bind (save_pending cf (CodeRecord, token_key code) (p\<lparr>pn_expires := now + 120 * second\<rparr>))
       (\<lambda>_. db_return (redirect_with p (''code'', code)))"

section \<open>Consent\<close>

text \<open>\<open>bind_consent_browser\<close>, with the consent that the destination carries.\<close>

definition bind_consent :: "db_config \<Rightarrow> int \<Rightarrow> string \<Rightarrow> string \<Rightarrow> string oauth" where
  "bind_consent cf now nonce consent =
     db_bind (get_pending cf (ConsentRecord, token_key consent)) (\<lambda>p.
       if \<not> live_pending now p then db_raise (access_denied ''Consent is invalid or expired'')
       else
         db_bind (save_pending cf (ConsentRecord, token_key consent) ((the p)\<lparr>pn_nonce := Some (token_key nonce)\<rparr>))
           (\<lambda>_. db_return nonce))"

definition consent_record :: "db_config \<Rightarrow> int \<Rightarrow> string \<Rightarrow> string \<Rightarrow> oauth_pending option oauth" where
  "consent_record cf now consent nonce =
     db_bind (get_pending cf (ConsentRecord, token_key consent)) (\<lambda>p. db_return
       (case p of
          None \<Rightarrow> None
        | Some v \<Rightarrow>
            if pn_expires v < now \<or> nonce = '''' \<or> (case pn_nonce v of None \<Rightarrow> '''' | Some h \<Rightarrow> h) \<noteq> token_key nonce
            then None else Some v))"

definition complete_consent :: "db_config \<Rightarrow> int \<Rightarrow> string \<Rightarrow> string \<Rightarrow> string \<Rightarrow> bool \<Rightarrow> string oauth" where
  "complete_consent cf now code consent nonce allow =
     db_bind (consent_record cf now consent nonce) (\<lambda>seen.
       if seen = None then db_raise (access_denied ''Consent is invalid or expired'')
       else
         db_bind (consume_pending cf (ConsentRecord, token_key consent)) (\<lambda>p.
           case p of
             None \<Rightarrow> db_raise (access_denied ''Consent was already consumed'')
           | Some v \<Rightarrow>
               if allow then authorization_redirect cf now code v
               else db_return (redirect_with v (''error'', ''access_denied''))))"

section \<open>Credentials\<close>

record authorization_code =
  ac_code :: string
  ac_scopes :: "string list"
  ac_expires :: int
  ac_client :: string
  ac_challenge :: string
  ac_redirect :: string
  ac_explicit :: bool
  ac_resource :: "string option"
  ac_subject :: "string option"

definition load_authorization_code ::
  "db_config \<Rightarrow> int \<Rightarrow> string \<Rightarrow> string \<Rightarrow> authorization_code option oauth" where
  "load_authorization_code cf now client code =
     db_bind (get_pending cf (CodeRecord, token_key code)) (\<lambda>p. db_return
       (case p of
          None \<Rightarrow> None
        | Some v \<Rightarrow>
            if pn_expires v < now \<or> pn_client v \<noteq> client then None
            else Some \<lparr>ac_code = code, ac_scopes = pn_scopes v, ac_expires = pn_expires v, ac_client = client,
                   ac_challenge = pn_challenge v, ac_redirect = pn_redirect v, ac_explicit = pn_explicit v,
                   ac_resource = pn_resource v, ac_subject = pn_subject v\<rparr>))"

definition invalid_grant :: "string \<Rightarrow> py_err" where
  "invalid_grant text = OAuthError ''invalid_grant'' text"

definition grant_hash :: "token_kind \<Rightarrow> db_session \<Rightarrow> string option" where
  "grant_hash kind g = (case kind of AccessRecord \<Rightarrow> ss_access g | RefreshRecord \<Rightarrow> ss_refresh g)"

text \<open>The credential the token stands for, if its record, its grant and their agreement are all live.\<close>

definition credential_of :: "db_config \<Rightarrow> int \<Rightarrow> token_kind \<Rightarrow> string \<Rightarrow> mcp_world \<Rightarrow> credential option" where
  "credential_of cf now kind token m =
     (case tokens m (kind, token_key token) of
        None \<Rightarrow> None
      | Some r \<Rightarrow>
          if tk_expires r \<le> now \<or> tk_scopes r \<noteq> [mcp_scope] \<or> tk_session r = '''' then None
          else
            (case mcp_validate cf now (tk_session r) (tk_subject r) (control m) of
               Inl _ \<Rightarrow> None
             | Inr g \<Rightarrow>
                 if tk_generation r \<noteq> ss_generation g \<or> tk_client r \<noteq> ss_client g \<or> tk_resource r \<noteq> ss_resource g
                    \<or> grant_hash kind g \<noteq> Some (token_key token)
                 then None else Some r))"

definition credential_record :: "db_config \<Rightarrow> int \<Rightarrow> token_kind \<Rightarrow> string \<Rightarrow> credential option oauth" where
  "credential_record cf now kind token = stored cf (\<lambda>m. (credential_of cf now kind token m, m))"

text \<open>The credential and the grant that \<open>_issue_tokens\<close> writes.\<close>

definition new_credential :: "string \<Rightarrow> string list \<Rightarrow> string \<Rightarrow> string \<Rightarrow> string \<Rightarrow> int \<Rightarrow> int \<Rightarrow> credential" where
  "new_credential client scopes subject canonical identity generation expires =
     \<lparr>tk_client = client, tk_scopes = scopes, tk_subject = Some subject, tk_resource = canonical,
      tk_session = identity, tk_generation = generation, tk_expires = expires\<rparr>"

definition new_grant ::
  "int \<Rightarrow> string \<Rightarrow> string \<Rightarrow> string \<Rightarrow> string list \<Rightarrow> string \<Rightarrow> string \<Rightarrow> string \<Rightarrow> int \<Rightarrow> int \<Rightarrow> db_session" where
  "new_grant now access refresh client scopes subject canonical identity generation expires =
     \<lparr>ss_id = identity, ss_login = subject, ss_created = now, ss_expires = expires, ss_revoked = 0, ss_workspaces = [],
      ss_source = Some ''mcp'', ss_authority = Some ''mcp-uniform-v1'', ss_scopes = scopes, ss_client = client,
      ss_resource = canonical, ss_generation = generation, ss_refresh = Some (token_key refresh),
      ss_access = Some (token_key access)\<rparr>"

record issued =
  is_access :: string
  is_refresh :: string
  is_expires_in :: int

text \<open>The random tokens of one issue: access, refresh, and the name of a new grant.\<close>

type_synonym fresh_tokens = "string \<times> string \<times> string"

text \<open>
  The second half of \<open>_issue_tokens\<close>: both credentials are saved, then one transaction activates them; when it
  refuses they are deleted again.
\<close>

definition commit_tokens ::
  "db_config \<Rightarrow> int \<Rightarrow> string \<Rightarrow> string \<Rightarrow> string \<Rightarrow> string list \<Rightarrow> string \<Rightarrow> string \<Rightarrow> db_session option \<Rightarrow>
   string \<Rightarrow> string option \<Rightarrow> issued oauth" where
  "commit_tokens cf now access refresh client scopes login canonical old identity previous =
     (let generation = (case old of None \<Rightarrow> 1 | Some v \<Rightarrow> ss_generation v + 1);
          expires = now + cf_refresh_ttl cf * second;
          common = new_credential client scopes login canonical identity generation
      in
      db_bind (save_token cf (AccessRecord, token_key access) (common (now + cf_access_ttl cf * second))) (\<lambda>_.
        db_bind (save_token cf (RefreshRecord, token_key refresh) (common expires)) (\<lambda>_.
          db_bind (on_control (db_mutate [(''session'', identity)] (activate_grant now old previous
              (new_grant now access refresh client scopes login canonical identity generation expires)))) (\<lambda>accepted.
            if accepted
            then db_return \<lparr>is_access = access, is_refresh = refresh, is_expires_in = cf_access_ttl cf\<rparr>
            else
              db_bind (delete_token cf (AccessRecord, token_key access)) (\<lambda>_.
                db_bind (delete_token cf (RefreshRecord, token_key refresh)) (\<lambda>_.
                  db_raise (invalid_grant ''Refresh token already used or revoked'')))))))"

definition issue_tokens ::
  "db_config \<Rightarrow> int \<Rightarrow> fresh_tokens \<Rightarrow> string \<Rightarrow> string list \<Rightarrow> string option \<Rightarrow> string option \<Rightarrow>
   string option \<Rightarrow> string option \<Rightarrow> issued oauth" where
  "issue_tokens cf now fresh client scopes subject resource grant_id previous =
     (case fresh of (access, refresh, name) \<Rightarrow>
       (case subject of
          None \<Rightarrow> db_raise (invalid_grant ''Reconnect MCP for full access'')
        | Some login \<Rightarrow>
            if scopes \<noteq> [mcp_scope] \<or> login = '''' \<or> \<not> login_pattern login
            then db_raise (invalid_grant ''Reconnect MCP for full access'')
            else
              db_bind (reading (\<lambda>_. mcp_resource cf resource)) (\<lambda>canonical.
                case grant_id of
                  None \<Rightarrow> commit_tokens cf now access refresh client scopes login canonical None (token_key name) previous
                | Some i \<Rightarrow>
                    db_bind (reading (\<lambda>m. mcp_validate cf now i (Some login) (control m))) (\<lambda>old.
                      commit_tokens cf now access refresh client scopes login canonical (Some old) i previous))))"

definition exchange_code :: "db_config \<Rightarrow> int \<Rightarrow> fresh_tokens \<Rightarrow> string \<Rightarrow> string \<Rightarrow> issued oauth" where
  "exchange_code cf now fresh client code =
     db_bind (consume_pending cf (CodeRecord, token_key code)) (\<lambda>p.
       case p of
         None \<Rightarrow> db_raise (invalid_grant ''authorization code is invalid or already used'')
       | Some v \<Rightarrow>
           if pn_expires v < now \<or> pn_client v \<noteq> client
           then db_raise (invalid_grant ''authorization code is invalid or already used'')
           else issue_tokens cf now fresh client (pn_scopes v) (pn_subject v) (pn_resource v) None None)"

text \<open>\<open>load_refresh_token\<close> and \<open>load_access_token\<close>: the record of a live token.\<close>

definition load_refresh_token :: "db_config \<Rightarrow> int \<Rightarrow> string \<Rightarrow> string \<Rightarrow> credential option oauth" where
  "load_refresh_token cf now client token =
     db_bind (credential_record cf now RefreshRecord token) (\<lambda>r. db_return
       (case r of
          None \<Rightarrow> None
        | Some v \<Rightarrow> if tk_expires v < now \<or> tk_client v \<noteq> client then None else Some v))"

definition exchange_refresh ::
  "db_config \<Rightarrow> int \<Rightarrow> fresh_tokens \<Rightarrow> string \<Rightarrow> string \<Rightarrow> string list \<Rightarrow> issued oauth" where
  "exchange_refresh cf now fresh client token scopes =
     db_bind (credential_record cf now RefreshRecord token) (\<lambda>r.
       case r of
         None \<Rightarrow> db_raise (invalid_grant ''refresh token is invalid or already used'')
       | Some v \<Rightarrow>
           if tk_expires v < now \<or> tk_client v \<noteq> client
           then db_raise (invalid_grant ''refresh token is invalid or already used'')
           else if scopes \<noteq> [mcp_scope] then db_raise (OAuthError ''invalid_scope'' ''Full MCP access is required'')
           else issue_tokens cf now fresh client scopes (tk_subject v) (Some (tk_resource v)) (Some (tk_session v))
                  (Some (token_key token)))"

definition load_access_token :: "db_config \<Rightarrow> int \<Rightarrow> string \<Rightarrow> credential option oauth" where
  "load_access_token cf now token =
     db_bind (credential_record cf now AccessRecord token) (\<lambda>r. db_return
       (case r of None \<Rightarrow> None | Some v \<Rightarrow> if tk_expires v < now then None else Some v))"

section \<open>Revocation\<close>

text \<open>One round of the loop over both kinds: whether it revoked the family.\<close>

definition revoke_kind :: "db_config \<Rightarrow> bool \<Rightarrow> int \<Rightarrow> string \<Rightarrow> string option \<Rightarrow> token_kind \<Rightarrow> bool oauth" where
  "revoke_kind cf up now token client kind =
     db_bind (get_token cf (kind, token_key token)) (\<lambda>r.
       case r of
         None \<Rightarrow> db_return False
       | Some v \<Rightarrow>
           if client \<noteq> None \<and> client \<noteq> Some (tk_client v) then db_return False
           else if tk_session v \<noteq> '''' \<and> tk_scopes v = [mcp_scope]
           then
             db_bind (on_control (mcp_revoke cf up now (tk_session v))) (\<lambda>_.
               db_bind (save_audit \<lparr>au_subject = tk_subject v, au_client = tk_client v, au_grant = tk_session v\<rparr>)
                 (\<lambda>_. db_return True))
           else db_bind (delete_token cf (kind, token_key token)) (\<lambda>_. db_return False))"

definition revoke_client_token :: "db_config \<Rightarrow> bool \<Rightarrow> int \<Rightarrow> string \<Rightarrow> string option \<Rightarrow> unit oauth" where
  "revoke_client_token cf up now token client =
     db_bind (revoke_kind cf up now token client AccessRecord) (\<lambda>done.
       if done then db_return ()
       else db_bind (revoke_kind cf up now token client RefreshRecord) (\<lambda>_. db_return ()))"

section \<open>The principal of a request\<close>

text \<open>
  \<open>_principal\<close> of \<open>mcp_server.py\<close>: the bearer token that the library authenticated, with the subject, client and
  scopes it had then, is checked again before every tool.
\<close>

record bearer =
  be_token :: string
  be_subject :: string
  be_client :: string
  be_scopes :: "string list"

definition mcp_principal :: "db_config \<Rightarrow> int \<Rightarrow> bearer option \<Rightarrow> principal oauth" where
  "mcp_principal cf now b =
     (case b of
        None \<Rightarrow> db_raise (HTTPException 401 ''MCP authentication required'')
      | Some t \<Rightarrow>
          if be_subject t = '''' then db_raise (HTTPException 401 ''MCP authentication required'')
          else if be_scopes t \<noteq> [mcp_scope]
          then db_raise (HTTPException 403 ''Reconnect MCP to authorize full access'')
          else
            db_bind (credential_record cf now AccessRecord (be_token t)) (\<lambda>r.
              case r of
                None \<Rightarrow> db_raise (HTTPException 401 ''MCP authentication was revoked'')
              | Some v \<Rightarrow>
                  if tk_subject v \<noteq> Some (be_subject t) \<or> tk_client v \<noteq> be_client t
                  then db_raise (HTTPException 401 ''MCP authentication was revoked'')
                  else
                    db_bind (reading (\<lambda>m. mcp_validate cf now (tk_session v) (Some (be_subject t)) (control m)))
                      (\<lambda>g. db_return (principal_of g))))"

end
