(* ===== verification/McpHistory.thy ===== *)
theory McpHistory
  imports McpAuth DatabaseAuthority
begin

text \<open>
  Histories of the OAuth provider: one rule per atomic access to its stores, with the whole protocol of the database
  control store as the steps of the grants; and what histories keep: generations grow, a stale credential and a
  revoked family stay so, a consumed record does not come back.
\<close>

section \<open>Steps\<close>

inductive mcp_step :: "db_config \<Rightarrow> mcp_world \<Rightarrow> mcp_world \<Rightarrow> bool" for cf where
  registered: "mcp_step cf m (m\<lparr>client_docs := c\<rparr>)"
| pended: "mcp_step cf m (m\<lparr>pending_docs := p\<rparr>)"
| issued: "tokens m k = None \<Longrightarrow> mcp_step cf m (put_token k t m)"
| dropped: "mcp_step cf m (drop_token k m)"
| audited: "mcp_step cf m (m\<lparr>audits := a\<rparr>)"
| controlled: "db_step cf (control m) w \<Longrightarrow> mcp_step cf m (m\<lparr>control := w\<rparr>)"

abbreviation goes :: "db_config \<Rightarrow> (mcp_world \<Rightarrow> bool) \<Rightarrow> 'a oauth \<Rightarrow> ('a \<Rightarrow> mcp_world \<Rightarrow> bool) \<Rightarrow> bool" where
  "goes cf \<equiv> runs_in (mcp_step cf)"

lemma goes_stored:
  assumes "\<And>m x m'. P m \<Longrightarrow> f m = (x, m') \<Longrightarrow> mcp_step cf m m' \<and> Q x m'"
  shows "goes cf P (stored cf' f) Q"
  unfolding runs_in_def
proof (intro allI impI)
  fix m
  assume P: "P m"
  obtain x m' where f: "f m = (x, m')" by (cases "f m")
  have "mcp_step cf m m'" "Q x m'" using assms [OF P f] by simp_all
  then show "(mcp_step cf)\<^sup>*\<^sup>* m (snd (stored cf' f m)) \<and>
      (\<forall>y. fst (stored cf' f m) = Inr y \<longrightarrow> Q y (snd (stored cf' f m)))"
    using f by (auto simp: stored_def split: sum.splits)
qed

lemma goes_look: "goes cf P (stored cf' (\<lambda>m. (f m, m))) (\<lambda>x m. x = f m \<and> P m)"
  by (auto simp: runs_in_def stored_def split: sum.splits)

lemma steps_control: fixes m :: mcp_world shows "db_steps cf v w \<Longrightarrow> (mcp_step cf)\<^sup>*\<^sup>* (m\<lparr>control := v\<rparr>) (m\<lparr>control := w\<rparr>)"
proof (induction rule: rtranclp_induct)
  case (step y z)
  then have "mcp_step cf (m\<lparr>control := y\<rparr>) ((m\<lparr>control := y\<rparr>)\<lparr>control := z\<rparr>)" by (intro mcp_step.controlled) simp
  then show ?case using step.IH by simp
qed simp

lemma goes_control: "moves cf f \<Longrightarrow> goes cf (\<lambda>_. True) (on_control f) (\<lambda>_ _. True)"
  unfolding runs_in_def
proof (intro allI impI conjI)
  fix m :: mcp_world
  assume "\<forall>w. True \<longrightarrow> db_steps cf w (snd (f w)) \<and> (\<forall>x. fst (f w) = Inr x \<longrightarrow> True)"
  then have "db_steps cf (control m) (snd (f (control m)))" by blast
  from steps_control [OF this, of m] show "(mcp_step cf)\<^sup>*\<^sup>* m (snd (on_control f m))"
    by (cases "f (control m)") (simp add: on_control_def)
qed auto

named_theorems goes_intro "OAuth operations that only take steps"

lemma goes_weak: "goes cf P m Q \<Longrightarrow> goes cf P m (\<lambda>_ _. True)"
  by (auto simp: runs_in_def)

lemma goes_bind: "goes cf P m (\<lambda>_ _. True) \<Longrightarrow> (\<And>x. goes cf (\<lambda>_. True) (k x) (\<lambda>_ _. True)) \<Longrightarrow>
  goes cf P (db_bind m k) (\<lambda>_ _. True)"
  by (rule runs_bind)

lemma goes_basic [goes_intro]:
  "goes cf P (db_return x) (\<lambda>_ _. True)" "goes cf P (db_raise e) (\<lambda>_ _. True)" "goes cf P (reading g) (\<lambda>_ _. True)"
  by (rule goes_weak [OF runs_return] goes_weak [OF runs_raise] goes_weak [OF runs_reading])+

lemma goes_store [goes_intro]:
  "goes cf P (save_client cf' i c) (\<lambda>_ _. True)" "goes cf P (save_pending cf' q p) (\<lambda>_ _. True)"
  "goes cf P (consume_pending cf' q) (\<lambda>_ _. True)" "goes cf P (delete_token cf' k) (\<lambda>_ _. True)"
  unfolding save_client_def save_pending_def consume_pending_def delete_token_def put_pending_def
  by (rule goes_stored; auto intro: mcp_step.intros)+

lemma goes_looks [goes_intro]:
  "goes cf P (get_pending cf' q) (\<lambda>_ _. True)" "goes cf P (get_token cf' k) (\<lambda>_ _. True)"
  "goes cf P (get_client cf' i) (\<lambda>_ _. True)" "goes cf P (credential_record cf' now kind token) (\<lambda>_ _. True)"
  unfolding get_pending_def get_token_def get_client_def credential_record_def
  by (rule goes_weak [OF goes_look])+

lemma goes_audit [goes_intro]: "goes cf P (save_audit a) (\<lambda>_ _. True)"
  by (auto simp: runs_in_def save_audit_def intro: mcp_step.audited)

section \<open>Every handler takes only steps\<close>

text \<open>The tokens of an issue are not in use.\<close>

definition fresh_for :: "fresh_tokens \<Rightarrow> mcp_world \<Rightarrow> bool" where
  "fresh_for f m = (case f of (access, refresh, name) \<Rightarrow>
     tokens m (AccessRecord, token_key access) = None \<and> tokens m (RefreshRecord, token_key refresh) = None)"

lemma goes_activate:
  assumes "case old of None \<Rightarrow> True | Some v \<Rightarrow> ss_generation v < ss_generation g" and "ss_revoked g = 0"
  shows "goes cf P (on_control (db_mutate refs (activate_grant now old previous g))) (\<lambda>_ _. True)"
proof -
  have "moves cf (db_mutate refs (activate_grant now old previous g))"
    by (rule moves_mutate) (auto intro: db_step.granted assms)
  then show ?thesis using runs_always [OF goes_control] by blast
qed

lemma goes_commit_tokens:
  "goes cf (fresh_for (access, refresh, name))
     (commit_tokens cf now access refresh client scopes login canonical old identity previous) (\<lambda>_ _. True)"
proof -
  let ?f = "(access, refresh, name)" and ?Q = "\<lambda>m. tokens m (RefreshRecord, token_key refresh) = None"
  have first: "goes cf (fresh_for ?f) (save_token cf (AccessRecord, token_key access) t) (\<lambda>_. ?Q)" for t
    unfolding save_token_def fresh_for_def
    by (rule goes_stored) (auto intro: mcp_step.issued simp: world_simps)
  have second: "goes cf ?Q (save_token cf (RefreshRecord, token_key refresh) t) (\<lambda>_ _. True)" for t
    unfolding save_token_def by (rule goes_stored) (auto intro: mcp_step.issued)
  show ?thesis
    unfolding commit_tokens_def Let_def
    by (rule runs_bind [OF first], rule runs_bind [OF second])
      (auto intro!: goes_bind goes_intro goes_activate simp: new_grant_def split: option.split)
qed

lemma goes_issue_tokens:
  "goes cf (fresh_for f) (issue_tokens cf now f client scopes subject resource grant_id previous) (\<lambda>_ _. True)"
proof (cases f)
  case (fields access refresh name)
  have read: "goes cf (fresh_for f) (reading g) (\<lambda>_. fresh_for f)" for g :: "mcp_world \<Rightarrow> 'x result"
    by (rule runs_weaken [OF runs_reading [where P = "fresh_for f"]]) auto
  show ?thesis
    by (auto simp: issue_tokens_def fields intro!: goes_intro runs_bind [OF read [unfolded fields]] goes_commit_tokens
        split: option.split)
qed

lemma goes_exchange_code:
  "goes cf (fresh_for f) (exchange_code cf now f client code) (\<lambda>_ _. True)"
proof -
  have "goes cf (fresh_for f) (consume_pending cf q) (\<lambda>_. fresh_for f)" for q
    unfolding consume_pending_def
    by (rule goes_stored) (auto intro: mcp_step.pended simp: fresh_for_def world_simps split: prod.splits)
  then show ?thesis
    unfolding exchange_code_def
    by (rule runs_bind) (auto intro!: goes_intro goes_issue_tokens split: option.split)
qed

lemma goes_exchange_refresh:
  "goes cf (fresh_for f) (exchange_refresh cf now f client token scopes) (\<lambda>_ _. True)"
proof -
  have "goes cf (fresh_for f) (credential_record cf now RefreshRecord token) (\<lambda>_. fresh_for f)"
    unfolding credential_record_def by (rule runs_weaken [OF goes_look]) auto
  then show ?thesis
    unfolding exchange_refresh_def
    by (rule runs_bind) (auto intro!: goes_intro goes_issue_tokens split: option.split)
qed

lemma goes_authorization:
  "goes cf P (register_client cf c) (\<lambda>_ _. True)" "goes cf P (authorize cf now state client ap) (\<lambda>_ _. True)"
  "goes cf P (complete_github cf now state identity consent) (\<lambda>_ _. True)"
  "goes cf P (bind_consent cf now nonce consent) (\<lambda>_ _. True)"
  "goes cf P (complete_consent cf now code consent nonce allow) (\<lambda>_ _. True)"
  unfolding register_client_def authorize_def complete_github_def bind_consent_def complete_consent_def
    consent_record_def authorization_redirect_def Let_def
  by (auto intro!: goes_bind goes_intro split: option.split)

lemma goes_revoke: "goes cf P (revoke_client_token cf up now token client) (\<lambda>_ _. True)"
proof -
  have c: "goes cf Q (on_control (mcp_revoke cf up now s)) (\<lambda>_ _. True)" for Q s
    by (rule runs_always [OF goes_control [OF moves_mcp_revoke]])
  have k: "goes cf Q (revoke_kind cf up now token client kind) (\<lambda>_ _. True)" for Q kind
    unfolding revoke_kind_def by (auto intro!: goes_bind goes_intro c split: option.split)
  show ?thesis
    unfolding revoke_client_token_def by (auto intro!: goes_bind goes_intro k)
qed

lemma goes_principal: "goes cf P (mcp_principal cf now b) (\<lambda>_ _. True)"
  unfolding mcp_principal_def by (auto intro!: goes_bind goes_intro split: option.split)

section \<open>Grants over time\<close>

text \<open>A later version of a grant: its generation grows with every new pair of hashes, and revocation is final.\<close>

definition grant_later :: "db_session \<Rightarrow> db_session \<Rightarrow> bool" where
  "grant_later g g' =
     ((ss_generation g < ss_generation g' \<or>
       ss_generation g' = ss_generation g \<and> ss_refresh g' = ss_refresh g \<and> ss_access g' = ss_access g) \<and>
      (ss_revoked g \<noteq> 0 \<longrightarrow> ss_revoked g' \<noteq> 0))"

lemma grant_later_refl: "grant_later g g"
  by (simp add: grant_later_def)

lemma grants_same: "sessions w' = sessions w \<Longrightarrow> sessions w sid = Some g \<Longrightarrow>
  sessions w' sid = None \<or> (\<exists>g'. sessions w' sid = Some g' \<and> grant_later g g')"
  by (simp add: grant_later_refl)

lemma grant_step:
  assumes "db_step cf w w'" and g: "sessions w sid = Some g"
  shows "sessions w' sid = None \<or> (\<exists>g'. sessions w' sid = Some g' \<and> grant_later g g')"
  using assms(1)
proof cases
  case (signed_in s)
  then show ?thesis
    using g by (auto simp: insert_session_def grant_later_refl world_simps split: if_splits)
next
  case (granted now old previous n b)
  then show ?thesis
    using g by (auto simp: activate_grant_def renewed_def grant_later_def world_simps split: if_splits option.splits)
next
  case (revoked P now i)
  then show ?thesis
    using g by (auto simp: revoke_session_def grant_later_def world_simps split: if_splits option.splits)
next
  case (opened now k)
  then show ?thesis
    using g by (auto simp: insert_workspace_def grant_later_def world_simps split: if_splits option.splits sum.splits)
next
  case (forgotten k)
  then show ?thesis
    using g by (auto simp: forget_workspace_def grant_later_def Let_def world_simps split: if_splits option.splits)
next
  case (created now r f place j x)
  then show ?thesis
    using g by (cases rule: insert_execution_cases) (auto intro: grants_same simp: world_simps grant_later_refl)
next
  case (exported now src j x)
  then show ?thesis
    using g by (cases rule: insert_export_cases) (auto intro: grants_same simp: world_simps grant_later_refl)
next
  case (expired_session i)
  then show ?thesis using g by (auto simp: world_simps grant_later_refl)
qed (use g in \<open>auto dest!: sessions_kept sessions_clean simp: world_simps neutral_simps grant_later_refl\<close>)

text \<open>
  Histories in which the identity of a grant that is gone is not issued again, nor a token whose record is gone.
\<close>

definition mcp_later :: "db_config \<Rightarrow> string \<Rightarrow> token_kind \<times> string \<Rightarrow> mcp_world \<Rightarrow> mcp_world \<Rightarrow> bool" where
  "mcp_later cf sid k m m' =
     (mcp_step cf m m' \<and> (sessions (control m) sid = None \<longrightarrow> sessions (control m') sid = None) \<and>
      (tokens m k = None \<longrightarrow> tokens m' k = None))"

text \<open>A credential of the grant that its current version does not carry.\<close>

definition stale :: "string \<Rightarrow> token_kind \<times> string \<Rightarrow> mcp_world \<Rightarrow> bool" where
  "stale sid k m =
     (case tokens m k of
        None \<Rightarrow> True
      | Some r \<Rightarrow> tk_session r = sid \<and>
          (case sessions (control m) sid of
             None \<Rightarrow> True
           | Some g \<Rightarrow> tk_generation r < ss_generation g \<or>
               tk_generation r = ss_generation g \<and> grant_hash (fst k) g \<noteq> Some (snd k)))"

lemma stale_grant:
  assumes "tk_generation r < ss_generation g \<or> tk_generation r = ss_generation g \<and> grant_hash kind g \<noteq> h"
    and "grant_later g g'"
  shows "tk_generation r < ss_generation g' \<or> tk_generation r = ss_generation g' \<and> grant_hash kind g' \<noteq> h"
  using assms by (auto simp: grant_later_def grant_hash_def split: token_kind.splits)

lemma stale_step:
  assumes "mcp_later cf sid k m m'" and "stale sid k m"
  shows "stale sid k m'"
proof (cases "tokens m k")
  case None
  then show ?thesis using assms(1) by (simp add: stale_def mcp_later_def)
next
  case (Some r)
  have step: "mcp_step cf m m'" and s: "sessions (control m) sid = None \<longrightarrow> sessions (control m') sid = None"
    using assms(1) by (auto simp: mcp_later_def)
  from step show ?thesis
  proof cases
    case (controlled w)
    show ?thesis
    proof (cases "sessions (control m) sid")
      case None
      then show ?thesis using s assms(2) Some controlled by (simp add: stale_def world_simps)
    next
      case (Some g)
      then show ?thesis
        using grant_step [OF controlled(2) Some] stale_grant [of r g "fst k" "Some (snd k)"] assms(2) controlled(1)
          \<open>tokens m k = Some r\<close>
        by (auto simp: stale_def world_simps)
    qed
  qed (use Some assms(2) in \<open>auto simp: stale_def world_simps\<close>)
qed

lemma stale_history: "(mcp_later cf sid k)\<^sup>*\<^sup>* m t \<Longrightarrow> stale sid k m \<Longrightarrow> stale sid k t"
  by (induction rule: rtranclp_induct) (auto intro: stale_step)

lemma stale_credential: "stale sid (kind, token_key token) m \<Longrightarrow> credential_of cf now kind token m = None"
  by (auto simp: stale_def credential_of_def mcp_validate_def split: option.splits if_splits sum.splits)

lemma dead_later: "mcp_later cf sid k m m' \<Longrightarrow> dead sid (control m) \<Longrightarrow> dead sid (control m')"
proof -
  assume a: "mcp_later cf sid k m m'" "dead sid (control m)"
  then have "mcp_step cf m m'" by (simp add: mcp_later_def)
  then show ?thesis
  proof cases
    case (controlled w)
    then have "session_step cf sid (control m) (control m')"
      using a(1) by (simp add: session_step_def mcp_later_def)
    then show ?thesis using dead_step a(2) by blast
  qed (use a(2) in \<open>auto simp: world_simps\<close>)
qed

lemma dead_family: "(mcp_later cf sid k)\<^sup>*\<^sup>* m t \<Longrightarrow> dead sid (control m) \<Longrightarrow> dead sid (control t)"
  by (induction rule: rtranclp_induct) (auto intro: dead_later)

lemma dead_credential:
  assumes "dead sid (control m)" and "tokens m (kind, token_key token) = Some r" and "tk_session r = sid"
  shows "credential_of cf now kind token m = None"
proof -
  obtain e where "mcp_validate cf now sid (tk_subject r) (control m) = Inl e" using dead_mcp [OF assms(1)] by blast
  then show ?thesis using assms(2,3) by (simp add: credential_of_def)
qed

section \<open>Presenting a dead credential\<close>

lemma no_refresh: "credential_of cf now RefreshRecord token m = None \<Longrightarrow>
  \<exists>e. exchange_refresh cf now f client token scopes m = (Inl e, m)"
  by (auto simp: exchange_refresh_def credential_record_def stored_def db_bind_def db_raise_def split: sum.split)

lemma no_principal: "credential_of cf now AccessRecord (be_token b) m = None \<Longrightarrow>
  \<exists>e. mcp_principal cf now (Some b) m = (Inl e, m)"
  by (auto simp: mcp_principal_def credential_record_def stored_def db_bind_def db_raise_def split: sum.split)

section \<open>What an exchange does\<close>

lemma db_bind_save: "db_bind (save_token cf k t) f m = (Inr x, m') \<longleftrightarrow>
  oauth_store cf = Inr () \<and> f () (put_token k t m) = (Inr x, m')"
  by (auto simp: db_bind_Inr save_token_def stored_Inr)

lemma commit_tokens_Inr:
  assumes "commit_tokens cf now access refresh client scopes login canonical old identity previous m = (Inr t, m')"
    and "g = new_grant now access refresh client scopes login canonical identity
       (case old of None \<Rightarrow> 1 | Some v \<Rightarrow> ss_generation v + 1) (now + cf_refresh_ttl cf * second)"
  shows "activate_grant now old previous g (control m) = Inr (True, control m') \<and> pendings m' = pendings m \<and>
    t = \<lparr>is_access = access, is_refresh = refresh, is_expires_in = cf_access_ttl cf\<rparr> \<and>
    tokens m' = (tokens m)((AccessRecord, token_key access) \<mapsto>
         new_credential client scopes login canonical identity (ss_generation g) (now + cf_access_ttl cf * second),
       (RefreshRecord, token_key refresh) \<mapsto>
         new_credential client scopes login canonical identity (ss_generation g) (now + cf_refresh_ttl cf * second))"
proof -
  let ?c = "new_credential client scopes login canonical identity (ss_generation g)"
  let ?m = "put_token (RefreshRecord, token_key refresh) (?c (now + cf_refresh_ttl cf * second))
      (put_token (AccessRecord, token_key access) (?c (now + cf_access_ttl cf * second)) m)"
  let ?no = "db_bind (delete_token cf (AccessRecord, token_key access)) (\<lambda>_.
      db_bind (delete_token cf (RefreshRecord, token_key refresh)) (\<lambda>_.
        db_raise (invalid_grant ''Refresh token already used or revoked'')))"
  let ?d = "db_mutate [(''session'', identity)] (activate_grant now old previous g) (control m)"
  let ?t = "\<lparr>is_access = access, is_refresh = refresh, is_expires_in = cf_access_ttl cf\<rparr>"
  have gen: "ss_generation g = (case old of None \<Rightarrow> 1 | Some v \<Rightarrow> ss_generation v + 1)"
    by (simp add: assms(2) new_grant_def)
  have g: "new_grant now access refresh client scopes login canonical identity (ss_generation g)
      (now + cf_refresh_ttl cf * second) = g"
    unfolding gen by (rule assms(2) [symmetric])
  have "db_bind (on_control (db_mutate [(''session'', identity)] (activate_grant now old previous g)))
      (\<lambda>accepted. if accepted then db_return ?t else ?no) ?m = (Inr t, m')"
    using assms(1) by (simp add: commit_tokens_def Let_def db_bind_save gen [symmetric] g split: if_splits)
  then obtain accepted where d: "on_control (db_mutate [(''session'', identity)] (activate_grant now old previous g)) ?m =
      (Inr accepted, ?m\<lparr>control := snd ?d\<rparr>)"
    and r: "(if accepted then db_return ?t else ?no) (?m\<lparr>control := snd ?d\<rparr>) = (Inr t, m')"
    by (cases ?d) (auto simp: db_bind_Inr on_control_def world_simps)
  have acc: accepted using r by (cases accepted) (auto simp: db_bind_Inr db_raise_def)
  then have m': "t = ?t" "m' = ?m\<lparr>control := snd ?d\<rparr>" using r by (simp_all add: db_return_def)
  have "?d = (Inr True, control m')"
    using d acc m'(2) by (cases ?d) (simp add: on_control_def world_simps)
  then show ?thesis using mutate_Inr m' by (fastforce simp: world_simps)
qed

lemma issue_tokens_Inr:
  assumes "issue_tokens cf now (access, refresh, name) client scopes subject resource grant_id previous m = (Inr t, m')"
  obtains login canonical where "subject = Some login" "scopes = [mcp_scope]" "login_pattern login"
    "mcp_resource cf resource = Inr canonical" "grant_id = None"
    "commit_tokens cf now access refresh client scopes login canonical None (token_key name) previous m = (Inr t, m')"
  | login canonical i old where "subject = Some login" "scopes = [mcp_scope]" "login_pattern login"
    "mcp_resource cf resource = Inr canonical" "grant_id = Some i" "mcp_validate cf now i (Some login) (control m) = Inr old"
    "commit_tokens cf now access refresh client scopes login canonical (Some old) i previous m = (Inr t, m')"
  using assms
  by (cases subject; cases grant_id)
    (auto simp: issue_tokens_def db_bind_Inr reading_Inr db_raise_def split: if_splits)

lemma exchange_refresh_Inr:
  assumes "exchange_refresh cf now f client token scopes m = (Inr t, m')"
  obtains v where "credential_of cf now RefreshRecord token m = Some v" "tk_client v = client"
    "issue_tokens cf now f client scopes (tk_subject v) (Some (tk_resource v)) (Some (tk_session v))
       (Some (token_key token)) m = (Inr t, m')"
  using assms
  by (auto simp: exchange_refresh_def db_bind_Inr credential_record_def stored_Inr db_raise_def
      split: option.splits if_splits)

section \<open>Revoking a family\<close>

lemma purge_keeps_sessions: "sessions (snd (purge_session cf up now sid w)) = sessions w"
proof -
  let ?T = "\<lambda>w w'. sessions w' = sessions w"
  have each: "runs_in ?T (\<lambda>_. True) (for_each f xs) (\<lambda>_ _. True)" if "\<And>x. runs_in ?T (\<lambda>_. True) (f x) (\<lambda>_ _. True)"
    for f :: "string \<Rightarrow> unit db" and xs
    using that by (induction xs) (auto intro: runs_bind runs_always [OF runs_return])
  have place: "runs_in ?T (\<lambda>_. True) (db_mutate refs (purge_place now i)) (\<lambda>_ _. True)" for refs i
    by (auto simp: runs_in_def db_mutate_def purge_place_def world_simps split: sum.splits option.splits
        intro!: r_into_rtranclp)
  have task: "runs_in ?T (\<lambda>_. True) (enqueue cf up k i s) (\<lambda>_ _. True)" for k i s
    by (auto simp: runs_in_def enqueue_def Let_def world_simps intro!: r_into_rtranclp)
  have "runs_in ?T (\<lambda>_. True) (purge_session cf up now sid) (\<lambda>_ _. True)"
    unfolding purge_session_def
    by (rule runs_bind [OF runs_always [OF runs_reading]])
      (auto intro!: each runs_always [OF runs_bind [OF place task]] runs_bind [OF place task])
  then have "?T\<^sup>*\<^sup>* w (snd (purge_session cf up now sid w))" by (rule runs_steps) simp
  then show ?thesis by (induction rule: rtranclp_induct) auto
qed

lemma revoke_dead:
  assumes "hex_string 64 sid" and "now \<noteq> 0" and "\<And>g. sessions w sid = Some g \<Longrightarrow> ss_source g = Some ''mcp''"
  shows "dead sid (snd (mcp_revoke cf up now sid w))"
proof -
  let ?d = "snd (db_mutate [(''session'', sid)] (revoke_session (\<lambda>s. ss_source s = Some ''mcp'') now sid) w)"
  have key: "store_key ''session'' sid = Inr (''session:'' @ sid)"
    using hex_key [OF assms(1), of "''session''"] by (simp add: store_kinds_def)
  have "dead sid ?d"
    using assms(2,3) by (auto simp: db_mutate_def key revoke_session_def dead_def world_simps split: option.split)
  moreover have "sessions (snd (mcp_revoke cf up now sid w)) = sessions ?d"
    by (auto simp: mcp_revoke_def db_bind_def purge_keeps_sessions split: sum.split prod.split)
  ultimately show ?thesis by (simp add: dead_def)
qed

text \<open>A token that the store keeps for the presenting client, as whichever kind it was issued.\<close>

definition kept_token :: "string \<Rightarrow> string option \<Rightarrow> credential \<Rightarrow> mcp_world \<Rightarrow> bool" where
  "kept_token token client r m =
     ((client = None \<or> client = Some (tk_client r)) \<and> tk_scopes r = [mcp_scope] \<and> hex_string 64 (tk_session r) \<and>
      (tokens m (AccessRecord, token_key token) = Some r \<or>
       tokens m (AccessRecord, token_key token) = None \<and> tokens m (RefreshRecord, token_key token) = Some r))"

lemma revoke_client_dead:
  assumes "oauth_store cf = Inr ()" and "kept_token token client r m" and "now \<noteq> 0"
    and "\<And>g. sessions (control m) (tk_session r) = Some g \<Longrightarrow> ss_source g = Some ''mcp''"
  shows "dead (tk_session r) (control (snd (revoke_client_token cf up now token client m)))"
proof -
  let ?s = "tk_session r"
  have d: "dead ?s (snd (mcp_revoke cf up now ?s (control m)))"
    using assms(2-4) by (intro revoke_dead) (auto simp: kept_token_def)
  have ne: "?s \<noteq> ''''" using assms(2) by (auto simp: kept_token_def hex_string_def)
  have kind: "dead ?s (control (snd (revoke_kind cf up now token client kind m))) \<and>
      fst (revoke_kind cf up now token client kind m) \<noteq> Inr False"
    if "tokens m (kind, token_key token) = Some r" for kind
    using that assms(1,2) d ne
    by (auto simp: revoke_kind_def get_token_def stored_def db_bind_def on_control_def save_audit_def db_return_def
        kept_token_def world_simps split: sum.split prod.split)
  have none: "revoke_kind cf up now token client AccessRecord m = (Inr False, m)"
    if "tokens m (AccessRecord, token_key token) = None"
    using that assms(1) by (simp add: revoke_kind_def get_token_def stored_def db_bind_def db_return_def)
  show ?thesis
  proof (cases "tokens m (AccessRecord, token_key token) = Some r")
    case True
    then show ?thesis using kind [OF True]
      by (auto simp: revoke_client_token_def db_bind_def db_return_def split: sum.split prod.split)
  next
    case False
    then have r: "tokens m (AccessRecord, token_key token) = None" "tokens m (RefreshRecord, token_key token) = Some r"
      using assms(2) by (auto simp: kept_token_def)
    then show ?thesis using kind [OF r(2)] none
      by (auto simp: revoke_client_token_def db_bind_def db_return_def split: sum.split prod.split)
  qed
qed

end
