(* ===== verification/McpProperties.thy ===== *)
theory McpProperties
  imports McpHistory
begin

text \<open>
  What the OAuth provider guarantees: its handlers are sequences of atomic accesses, one authorization leads to
  credentials of exactly the identity and client that were authorized, codes are redeemed once, rotation and
  revocation are final, and two refreshes of one grant cannot both win.
\<close>

section \<open>A deployment\<close>

definition mcp_cf :: db_config where
  "mcp_cf =
     \<lparr>cf_mock = False, cf_enabled = True, cf_executions = True, cf_mcp = True,
      cf_session_secret = replicate 32 (CHR ''s''), cf_client_id = ''client'', cf_client_secret = ''secret'',
      cf_frontend_url = ''https://front'', cf_mcp_base_url = ''https://mcp'', cf_mcp_collection = ''oauth'',
      cf_access_ttl = 3600, cf_refresh_ttl = 2592000, cf_policy_version = ''v1'', cf_project = ''project'',
      cf_bucket = ''bucket'', cf_collection = ''control'', cf_location = ''region'', cf_query_queue = ''query'',
      cf_export_queue = ''export'', cf_cleanup_queue = ''cleanup'', cf_worker = ''worker'',
      cf_api_origin = ''https://api'', cf_registry_sha256 = ''registry'', cf_logins = [''ana''], cf_registry = None\<rparr>"

definition empty_control :: db_world where
  "empty_control = \<lparr>session_docs = [], workspace_docs = [], job_docs = [], request_docs = [], budget = None,
     policy = None, objects = {}, blocked = {}, outbox = []\<rparr>"

definition empty_mcp :: mcp_world where
  "empty_mcp = \<lparr>client_docs = [], pending_docs = [], token_docs = [], audits = [], control = empty_control\<rparr>"

definition mcp_sid :: string where "mcp_sid = replicate 64 (CHR ''7'')"

definition mcp_grant :: db_session where
  "mcp_grant = new_grant 0 ''access-1'' ''refresh-1'' ''app'' [mcp_scope] ''ana'' ''https://mcp/mcp'' mcp_sid 1 (2592000 * second)"

definition mcp_token :: "int \<Rightarrow> credential" where
  "mcp_token expires = new_credential ''app'' [mcp_scope] ''ana'' ''https://mcp/mcp'' mcp_sid 1 expires"

text \<open>One grant with its first pair of credentials.\<close>

definition granted_mcp :: mcp_world where
  "granted_mcp = \<lparr>client_docs = [], pending_docs = [],
     token_docs = [((AccessRecord, token_key ''access-1''), mcp_token (3600 * second)),
       ((RefreshRecord, token_key ''refresh-1''), mcp_token (2592000 * second))],
     audits = [], control = empty_control\<lparr>session_docs := [(mcp_sid, mcp_grant)]\<rparr>\<rparr>"

lemma mcp_sid_hex: "hex_string 64 mcp_sid" "mcp_sid \<noteq> ''''"
  by code_simp+

lemma mcp_store: "oauth_store mcp_cf = Inr ()"
  by code_simp

lemma mcp_canonical: "mcp_resource mcp_cf None = Inr ''https://mcp/mcp''" "cf_mcp mcp_cf"
  "mcp_resource mcp_cf (Some ''https://mcp/mcp'') = Inr ''https://mcp/mcp''"
  by code_simp+

lemma mcp_login: "login_pattern ''ana''" "str_lower ''ana'' = ''ana''" "str_lower (strip ''Ana'') = ''ana''"
  by code_simp+

lemma granted_tokens:
  "tokens granted_mcp (AccessRecord, token_key ''access-1'') = Some (mcp_token (3600 * second))"
  "tokens granted_mcp (RefreshRecord, token_key ''refresh-1'') = Some (mcp_token (2592000 * second))"
  "sessions (control granted_mcp) mcp_sid = Some mcp_grant"
  by (simp_all add: tokens_def granted_mcp_def sessions_def)

lemma mcp_fields:
  "ss_id mcp_grant = mcp_sid" "ss_login mcp_grant = ''ana''" "ss_source mcp_grant = Some ''mcp''"
  "ss_authority mcp_grant = Some ''mcp-uniform-v1''" "ss_scopes mcp_grant = [mcp_scope]" "ss_client mcp_grant = ''app''"
  "ss_resource mcp_grant = ''https://mcp/mcp''" "ss_generation mcp_grant = 1" "ss_revoked mcp_grant = 0"
  "ss_expires mcp_grant = 2592000 * second" "ss_refresh mcp_grant = Some (token_key ''refresh-1'')"
  "ss_access mcp_grant = Some (token_key ''access-1'')"
  "tk_client (mcp_token e) = ''app''" "tk_scopes (mcp_token e) = [mcp_scope]" "tk_subject (mcp_token e) = Some ''ana''"
  "tk_resource (mcp_token e) = ''https://mcp/mcp''" "tk_session (mcp_token e) = mcp_sid"
  "tk_generation (mcp_token e) = 1" "tk_expires (mcp_token e) = e"
  by (simp_all add: mcp_grant_def new_grant_def mcp_token_def new_credential_def)

lemma granted_validate: "now < 2592000 * second \<Longrightarrow>
  mcp_validate mcp_cf now mcp_sid (Some ''ana'') (control granted_mcp) = Inr mcp_grant"
  by (simp add: mcp_validate_def mcp_canonical mcp_sid_hex granted_tokens mcp_fields mcp_login mcp_scope_def)

lemma granted_credential: "now < 2592000 * second \<Longrightarrow>
  credential_of mcp_cf now RefreshRecord ''refresh-1'' granted_mcp = Some (mcp_token (2592000 * second))"
  by (simp add: credential_of_def granted_tokens granted_validate mcp_fields mcp_sid_hex grant_hash_def)

section \<open>The handlers\<close>

text \<open>
  Every handler of the OAuth provider is a sequence of its atomic accesses: single saves, consumptions and deletions
  of private records, and the transactions of the database control store.  The exchanges issue tokens that are not
  in use.
\<close>

theorem oauth_handlers_refine:
  assumes "fresh_for f m"
  shows "(mcp_step cf)\<^sup>*\<^sup>* m (snd (exchange_code cf now f client code m)) \<and>
    (mcp_step cf)\<^sup>*\<^sup>* m (snd (exchange_refresh cf now f client token scopes m)) \<and>
    (mcp_step cf)\<^sup>*\<^sup>* m (snd (revoke_client_token cf up now token hint m)) \<and>
    (mcp_step cf)\<^sup>*\<^sup>* m (snd (register_client cf c m)) \<and>
    (mcp_step cf)\<^sup>*\<^sup>* m (snd (authorize cf now state client ap m)) \<and>
    (mcp_step cf)\<^sup>*\<^sup>* m (snd (complete_github cf now state identity consent m)) \<and>
    (mcp_step cf)\<^sup>*\<^sup>* m (snd (bind_consent cf now nonce consent m)) \<and>
    (mcp_step cf)\<^sup>*\<^sup>* m (snd (complete_consent cf now code consent nonce allow m)) \<and>
    (mcp_step cf)\<^sup>*\<^sup>* m (snd (mcp_principal cf now b m))"
proof -
  have top: "goes cf (\<lambda>_. True) h (\<lambda>_ _. True) \<Longrightarrow> (mcp_step cf)\<^sup>*\<^sup>* m (snd (h m))" for h :: "'x oauth"
    using runs_steps [of "mcp_step cf" "\<lambda>_. True" h] by blast
  show ?thesis
    by (intro conjI runs_steps [OF goes_exchange_code assms] runs_steps [OF goes_exchange_refresh assms]
        top goes_revoke goes_principal goes_authorization)
qed

lemma oauth_handlers_refine_witness:
  "(mcp_step mcp_cf)\<^sup>*\<^sup>* empty_mcp (snd (exchange_code mcp_cf 0 (''a'', ''r'', ''n'') ''app'' ''code'' empty_mcp))"
  using oauth_handlers_refine [of "(''a'', ''r'', ''n'')" empty_mcp mcp_cf 0 "''app''" "''code''"]
  by (simp add: fresh_for_def tokens_def empty_mcp_def)

section \<open>Rotation\<close>

lemma validate_session: "mcp_validate cf now i login w = Inr g \<Longrightarrow> sessions w i = Some g \<and> ss_id g = i"
  by (auto simp: mcp_validate_def split: option.splits if_splits)

lemma activate_old: "activate_grant now (Some v) previous g w = Inr (True, w') \<Longrightarrow>
  \<exists>c. sessions w (ss_id g) = Some c \<and> ss_generation c = ss_generation v \<and> ss_refresh c = previous \<and>
    ss_revoked c = 0 \<and> sessions w' = (sessions w)(ss_id g \<mapsto> renewed c g)"
  by (auto simp: activate_grant_def world_simps split: option.splits if_splits)

lemma refresh_rotates:
  assumes "exchange_refresh cf now (access, refresh, name) client token scopes m = (Inr t, m')"
  obtains v g where "credential_of cf now RefreshRecord token m = Some v"
    "sessions (control m') (tk_session v) = Some g" "ss_generation g = tk_generation v + 1"
    "\<And>k. k \<noteq> (AccessRecord, token_key access) \<Longrightarrow> k \<noteq> (RefreshRecord, token_key refresh) \<Longrightarrow> tokens m' k = tokens m k"
proof -
  obtain v where v: "credential_of cf now RefreshRecord token m = Some v"
    and i: "issue_tokens cf now (access, refresh, name) client scopes (tk_subject v) (Some (tk_resource v))
      (Some (tk_session v)) (Some (token_key token)) m = (Inr t, m')"
    using exchange_refresh_Inr [OF assms] by metis
  from i obtain login canonical old where l: "tk_subject v = Some login"
    and old: "mcp_validate cf now (tk_session v) (Some login) (control m) = Inr old"
    and c: "commit_tokens cf now access refresh client scopes login canonical (Some old) (tk_session v)
      (Some (token_key token)) m = (Inr t, m')"
    by (cases rule: issue_tokens_Inr) auto
  let ?g = "new_grant now access refresh client scopes login canonical (tk_session v) (ss_generation old + 1)
      (now + cf_refresh_ttl cf * second)"
  have a: "activate_grant now (Some old) (Some (token_key token)) ?g (control m) = Inr (True, control m')"
    and tk: "tokens m' = (tokens m)((AccessRecord, token_key access) \<mapsto>
         new_credential client scopes login canonical (tk_session v) (ss_generation ?g) (now + cf_access_ttl cf * second),
       (RefreshRecord, token_key refresh) \<mapsto>
         new_credential client scopes login canonical (tk_session v) (ss_generation ?g) (now + cf_refresh_ttl cf * second))"
    using commit_tokens_Inr [OF c refl] by simp_all
  have "tk_generation v = ss_generation old"
    using v old l by (auto simp: credential_of_def split: option.splits if_splits sum.splits)
  moreover have "ss_id ?g = tk_session v" "ss_generation ?g = ss_generation old + 1" by (simp_all add: new_grant_def)
  ultimately show thesis
    using that [OF v] activate_old [OF a] tk by (auto simp: renewed_def)
qed

text \<open>
  C12: rotation is final.  Once a refresh token was exchanged, it and every other credential issued to its grant so far
  never authenticate again, in any history that does not issue their tokens again: no lookup returns them, no refresh
  accepts them and no request is served with them, unless their hash is the hash of a token issued by that exchange.
\<close>

theorem refresh_rotation_final:
  assumes "exchange_refresh cf now (access, refresh, name) client token scopes m = (Inr t, m1)"
    and "credential_of cf now RefreshRecord token m = Some v"
    and "tokens m (kind, token_key old) = Some x" and "tk_session x = tk_session v"
    and "tk_generation x \<le> tk_generation v"
    and "(mcp_later cf (tk_session v) (kind, token_key old))\<^sup>*\<^sup>* m1 m2"
  shows "token_key old \<in> {token_key access, token_key refresh} \<or>
    credential_of cf now' kind old m2 = None \<and>
    (kind = RefreshRecord \<longrightarrow> (\<exists>e. exchange_refresh cf now' f client' old scopes' m2 = (Inl e, m2))) \<and>
    (kind = AccessRecord \<longrightarrow> (\<exists>e. mcp_principal cf now' (Some (b\<lparr>be_token := old\<rparr>)) m2 = (Inl e, m2)))"
proof (cases "token_key old \<in> {token_key access, token_key refresh}")
  case False
  from assms(1) obtain g where g: "sessions (control m1) (tk_session v) = Some g" "ss_generation g = tk_generation v + 1"
    and keep: "\<And>k. k \<noteq> (AccessRecord, token_key access) \<Longrightarrow> k \<noteq> (RefreshRecord, token_key refresh) \<Longrightarrow> tokens m1 k = tokens m k"
    by (cases rule: refresh_rotates) (use assms(2) in auto)
  have "tokens m1 (kind, token_key old) = Some x" using keep assms(3) False by auto
  then have "stale (tk_session v) (kind, token_key old) m1" using g assms(4,5) by (simp add: stale_def)
  then have "credential_of cf now' kind old m2 = None" for now'
    using stale_credential stale_history [OF assms(6)] by blast
  then show ?thesis using no_refresh [of cf now' old m2 f client' scopes'] no_principal [of cf now' "b\<lparr>be_token := old\<rparr>" m2] by auto
qed simp

definition rotated_mcp :: mcp_world where
  "rotated_mcp = snd (exchange_refresh mcp_cf 5 (''access-2'', ''refresh-2'', ''n'') ''app'' ''refresh-1'' [mcp_scope] granted_mcp)"

lemma granted_refresh:
  "exchange_refresh mcp_cf 5 (''access-2'', ''refresh-2'', ''n'') ''app'' ''refresh-1'' [mcp_scope] granted_mcp =
     (Inr \<lparr>is_access = ''access-2'', is_refresh = ''refresh-2'', is_expires_in = 3600\<rparr>, rotated_mcp)"
proof -
  have "store_key ''session'' mcp_sid = Inr (''session:'' @ mcp_sid)" by code_simp
  then have "fst (exchange_refresh mcp_cf 5 (''access-2'', ''refresh-2'', ''n'') ''app'' ''refresh-1'' [mcp_scope] granted_mcp) =
      Inr \<lparr>is_access = ''access-2'', is_refresh = ''refresh-2'', is_expires_in = 3600\<rparr>"
    by (simp add: exchange_refresh_def credential_record_def stored_def mcp_store granted_credential second_def db_bind_def
        mcp_fields issue_tokens_def mcp_login reading_def mcp_canonical granted_validate commit_tokens_def Let_def
        save_token_def on_control_def db_mutate_def world_simps activate_grant_def granted_tokens new_grant_def db_return_def)
      (simp add: mcp_cf_def)
  then show ?thesis by (metis prod.collapse rotated_mcp_def)
qed

lemma refresh_rotation_final_witness:
  "token_key ''refresh-1'' \<in> {token_key ''access-2'', token_key ''refresh-2''} \<or>
   credential_of mcp_cf 6 RefreshRecord ''refresh-1'' rotated_mcp = None"
  using refresh_rotation_final [OF granted_refresh granted_credential [of 5] granted_tokens(2) refl order_refl rtranclp.rtrancl_refl,
      of 6] by (auto simp: second_def)

text \<open>
  Two refreshes of one grant cannot both win.  A refresh activates its credentials in one transaction, against the
  generation it has validated; once one is activated, every other that validated the same generation is refused
  without effect, whatever happened to the grant in between.
\<close>

theorem grant_generation_once:
  assumes "activate_grant now (Some v) previous g w = Inr (True, w1)" and "ss_generation v < ss_generation g"
    and "ss_id g' = ss_id g" and "ss_generation v' = ss_generation v"
    and "(session_step cf (ss_id g))\<^sup>*\<^sup>* w1 w2"
  shows "activate_grant now' (Some v') previous' g' w2 = Inr (False, w2)"
proof -
  obtain c where c: "sessions w1 (ss_id g) = Some (renewed c g)" using activate_old [OF assms(1)] by auto
  have "sessions w2 (ss_id g) = None \<or> (\<exists>h. sessions w2 (ss_id g) = Some h \<and> ss_generation g \<le> ss_generation h)"
    using assms(5)
  proof (induction rule: rtranclp_induct)
    case base
    then show ?case using c by (simp add: renewed_def)
  next
    case (step y z)
    then have s: "db_step cf y z" "sessions y (ss_id g) = None \<longrightarrow> sessions z (ss_id g) = None"
      by (auto simp: session_step_def)
    show ?case
      using step.IH s(2) grant_step [OF s(1)] by (fastforce simp: grant_later_def)
  qed
  then show ?thesis using assms(2,3,4) by (auto simp: activate_grant_def)
qed

definition next_grant :: "string \<Rightarrow> string \<Rightarrow> db_session" where
  "next_grant access refresh =
     new_grant 5 access refresh ''app'' [mcp_scope] ''ana'' ''https://mcp/mcp'' mcp_sid 2 (2592000 * second)"

lemma next_activated: "activate_grant 5 (Some mcp_grant) (Some (token_key ''refresh-1'')) (next_grant ''a'' ''r'') (control granted_mcp) =
  Inr (True, put_session mcp_sid (renewed mcp_grant (next_grant ''a'' ''r'')) (control granted_mcp))"
  by (simp add: activate_grant_def next_grant_def new_grant_def granted_tokens mcp_fields second_def)

lemma grant_generation_once_witness:
  "activate_grant 6 (Some mcp_grant) (Some (token_key ''refresh-1'')) (next_grant ''b'' ''s'')
     (put_session mcp_sid (renewed mcp_grant (next_grant ''a'' ''r'')) (control granted_mcp)) =
   Inr (False, put_session mcp_sid (renewed mcp_grant (next_grant ''a'' ''r'')) (control granted_mcp))"
  by (rule grant_generation_once [OF next_activated _ _ refl rtranclp.rtrancl_refl])
    (simp_all add: next_grant_def new_grant_def mcp_fields)

section \<open>Authorization, end to end\<close>

lemma resource_none: "mcp_resource cf r = Inr c \<Longrightarrow> mcp_resource cf None = Inr c"
  by (auto simp: mcp_resource_def Let_def split: if_splits)

lemma token_key_hex: "hex_string 64 (token_key s)" "token_key s \<noteq> ''''"
proof -
  show h: "hex_string 64 (token_key s)" by (simp add: token_key_def sha256_hex_string)
  then show "token_key s \<noteq> ''''" by (auto simp: hex_string_def)
qed

text \<open>
  C39: one authorization gives credentials of exactly what was authorized.  A client that starts an authorization, whose
  user signs in at GitHub, binds the consent to the browser, allows it, and whose code is loaded and exchanged in time,
  gets the code with the client's own challenge and redirect URI, and an access token that is at once accepted, for
  that client, the full scope, the canonical resource and the login GitHub reported, in lower case.
\<close>

theorem authorization_end_to_end:
  assumes "oauth_store cf = Inr ()" and "cf_client_id cf \<noteq> ''''" and "cf_client_secret cf \<noteq> ''''"
    and "cf_mcp_base_url cf \<noteq> ''''" and "cf_mcp cf" and "requested_scopes ap = [mcp_scope]"
    and "mcp_resource cf (ap_resource ap) = Inr canonical" and "login = str_lower (strip raw)" and "login_pattern login"
    and "t1 \<le> t0 + 600 * second" and "t2 \<le> t1 + 300 * second" and "t3 \<le> t1 + 300 * second"
    and "t4 \<le> t3 + 120 * second" and "t5 < t4 + cf_access_ttl cf * second" and "t5 < t4 + cf_refresh_ttl cf * second"
    and "nonce \<noteq> ''''" and "client \<noteq> ''''" and "sessions (control m) (token_key name) = None"
  shows "fst (db_bind (authorize cf t0 state client ap) (\<lambda>_.
      db_bind (complete_github cf t1 state (Inr raw) consent) (\<lambda>_.
        db_bind (bind_consent cf t2 nonce consent) (\<lambda>_.
          db_bind (complete_consent cf t3 code consent nonce True) (\<lambda>_.
            db_bind (load_authorization_code cf t4 client code) (\<lambda>loaded.
              db_bind (exchange_code cf t4 (access, refresh, name) client code) (\<lambda>t.
                db_bind (load_access_token cf t5 access) (\<lambda>r. db_return (loaded, t, r)))))))) m) =
    Inr (Some \<lparr>ac_code = code, ac_scopes = [mcp_scope], ac_expires = t3 + 120 * second, ac_client = client,
           ac_challenge = ap_challenge ap, ac_redirect = ap_redirect ap, ac_explicit = ap_explicit ap,
           ac_resource = ap_resource ap, ac_subject = Some login\<rparr>,
         \<lparr>is_access = access, is_refresh = refresh, is_expires_in = cf_access_ttl cf\<rparr>,
         Some \<lparr>tk_client = client, tk_scopes = [mcp_scope], tk_subject = Some login, tk_resource = canonical,
           tk_session = token_key name, tk_generation = 1, tk_expires = t4 + cf_access_ttl cf * second\<rparr>)"
proof -
  note ok = assms(1)
  let ?p = "new_state t0 client ap"
  let ?q = "?p\<lparr>pn_subject := Some login, pn_expires := t1 + 300 * second\<rparr>"
  let ?r = "?q\<lparr>pn_nonce := Some (token_key nonce)\<rparr>"
  let ?c = "?r\<lparr>pn_expires := t3 + 120 * second\<rparr>"
  have login: "login \<noteq> ''''" "str_lower login = login"
    using assms(8,9) by (auto simp: login_pattern_def)
  have none: "mcp_resource cf None = Inr canonical" by (rule resource_none [OF assms(7)])
  define m1 where "m1 = put_pending (StateRecord, token_key state) ?p m"
  have s1: "authorize cf t0 state client ap m = (Inr state, m1)"
    using assms(2-4,6,7) by (simp add: authorize_def db_bind_def reading_def save_pending_def stored_def ok db_return_def m1_def first_error.simps raise_if_def)
  define m2 where "m2 = snd (complete_github cf t1 state (Inr raw) consent m1)"
  have s2: "complete_github cf t1 state (Inr raw) consent m1 = (Inr (cf_mcp_base_url cf @ ''/mcp/consent?consent='' @ consent), m2)"
    and p2: "pendings m2 (ConsentRecord, token_key consent) = Some ?q" "control m2 = control m"
    using assms(9,10) login
    by (simp_all add: m2_def complete_github_def consume_pending_def stored_def ok db_bind_def m1_def world_simps
        live_pending_def new_state_def reading_def Let_def assms(8) [symmetric] save_pending_def db_return_def)
  define m3 where "m3 = put_pending (ConsentRecord, token_key consent) ?r m2"
  have s3: "bind_consent cf t2 nonce consent m2 = (Inr nonce, m3)"
    using assms(11) p2 by (simp add: bind_consent_def get_pending_def stored_def ok db_bind_def live_pending_def save_pending_def db_return_def m3_def)
  define m4 where "m4 = snd (complete_consent cf t3 code consent nonce True m3)"
  have s4: "complete_consent cf t3 code consent nonce True m3 = (Inr (redirect_with ?r (''code'', code)), m4)"
    and p4: "pendings m4 (CodeRecord, token_key code) = Some ?c" "control m4 = control m"
    using assms(12,16) p2(2)
    by (simp_all add: m4_def complete_consent_def consent_record_def get_pending_def consume_pending_def stored_def ok
        db_bind_def m3_def world_simps authorization_redirect_def save_pending_def db_return_def)
  have s5: "load_authorization_code cf t4 client code m4 = (Inr (Some \<lparr>ac_code = code, ac_scopes = [mcp_scope],
      ac_expires = t3 + 120 * second, ac_client = client, ac_challenge = ap_challenge ap, ac_redirect = ap_redirect ap,
      ac_explicit = ap_explicit ap, ac_resource = ap_resource ap, ac_subject = Some login\<rparr>), m4)"
    using assms(6,13) p4 by (simp add: load_authorization_code_def get_pending_def stored_def ok db_bind_def db_return_def new_state_def)
  define m5 where "m5 = snd (exchange_code cf t4 (access, refresh, name) client code m4)"
  let ?g = "new_grant t4 access refresh client [mcp_scope] login canonical (token_key name) 1 (t4 + cf_refresh_ttl cf * second)"
  let ?t = "new_credential client [mcp_scope] login canonical (token_key name) 1"
  have key: "store_key ''session'' (token_key name) = Inr (''session:'' @ token_key name)"
    using hex_key [OF token_key_hex(1), of "''session''" name] by (simp add: store_kinds_def)
  have s6: "exchange_code cf t4 (access, refresh, name) client code m4 =
      (Inr \<lparr>is_access = access, is_refresh = refresh, is_expires_in = cf_access_ttl cf\<rparr>, m5)"
    and p6: "sessions (control m5) (token_key name) = Some ?g"
      "tokens m5 (AccessRecord, token_key access) = Some (?t (t4 + cf_access_ttl cf * second))"
    using assms(6,7,9,13,18) p4 login key
    by (simp_all add: m5_def exchange_code_def consume_pending_def stored_def ok db_bind_def new_state_def issue_tokens_def
        reading_def commit_tokens_def Let_def save_token_def on_control_def db_mutate_def world_simps activate_grant_def
        db_return_def new_grant_def)
  have v: "mcp_validate cf t5 (token_key name) (Some login) (control m5) = Inr ?g"
    using assms(5,15,17) p6(1) login none token_key_hex
    by (simp add: mcp_validate_def new_grant_def mcp_scope_def)
  have s7: "load_access_token cf t5 access m5 = (Inr (Some (?t (t4 + cf_access_ttl cf * second))), m5)"
    using assms(14) p6(2) v token_key_hex
    by (simp add: load_access_token_def credential_record_def stored_def ok db_bind_def credential_of_def db_return_def
        new_credential_def grant_hash_def) (simp add: new_grant_def)
  show ?thesis
    by (simp add: db_bind_def s1 s2 s3 s4 s5 s6 s7 db_return_def) (simp add: new_credential_def)
qed

definition demo_params :: authorization_params where
  "demo_params = \<lparr>ap_scopes = None, ap_challenge = ''challenge'', ap_redirect = ''https://app/callback'', ap_explicit = True,
     ap_resource = None, ap_state = Some ''s''\<rparr>"

lemma authorization_end_to_end_witness:
  "fst (db_bind (authorize mcp_cf 0 ''state'' ''app'' demo_params) (\<lambda>_.
      db_bind (complete_github mcp_cf 1 ''state'' (Inr ''Ana'') ''consent'') (\<lambda>_.
        db_bind (bind_consent mcp_cf 2 ''nonce'' ''consent'') (\<lambda>_.
          db_bind (complete_consent mcp_cf 3 ''code'' ''consent'' ''nonce'' True) (\<lambda>_.
            db_bind (load_authorization_code mcp_cf 4 ''app'' ''code'') (\<lambda>loaded.
              db_bind (exchange_code mcp_cf 4 (''access'', ''refresh'', ''n'') ''app'' ''code'') (\<lambda>t.
                db_bind (load_access_token mcp_cf 5 ''access'') (\<lambda>r. db_return (loaded, t, r)))))))) empty_mcp) =
    Inr (Some \<lparr>ac_code = ''code'', ac_scopes = [mcp_scope], ac_expires = 120000003, ac_client = ''app'',
           ac_challenge = ''challenge'', ac_redirect = ''https://app/callback'', ac_explicit = True,
           ac_resource = None, ac_subject = Some ''ana''\<rparr>,
         \<lparr>is_access = ''access'', is_refresh = ''refresh'', is_expires_in = 3600\<rparr>,
         Some \<lparr>tk_client = ''app'', tk_scopes = [mcp_scope], tk_subject = Some ''ana'', tk_resource = ''https://mcp/mcp'',
           tk_session = token_key ''n'', tk_generation = 1, tk_expires = 3600000004\<rparr>)"
proof -
  have cf: "cf_client_id mcp_cf = ''client''" "cf_client_secret mcp_cf = ''secret''" "cf_mcp_base_url mcp_cf = ''https://mcp''"
    "cf_mcp mcp_cf" "cf_access_ttl mcp_cf = 3600" "cf_refresh_ttl mcp_cf = 2592000"
    by (simp_all add: mcp_cf_def)
  have ap: "requested_scopes demo_params = [mcp_scope]" "ap_resource demo_params = None"
    "ap_challenge demo_params = ''challenge''" "ap_redirect demo_params = ''https://app/callback''" "ap_explicit demo_params"
    by (simp_all add: requested_scopes_def demo_params_def)
  show ?thesis
    using authorization_end_to_end [where cf = mcp_cf and ap = demo_params and canonical = "''https://mcp/mcp''"
        and login = "''ana''" and raw = "''Ana''" and ?t0.0 = 0 and ?t1.0 = 1 and ?t2.0 = 2 and ?t3.0 = 3 and ?t4.0 = 4
        and ?t5.0 = 5 and nonce = "''nonce''" and client = "''app''" and m = empty_mcp and name = "''n''"
        and state = "''state''" and consent = "''consent''" and code = "''code''" and access = "''access''"
        and refresh = "''refresh''"]
    by (simp add: cf ap mcp_store mcp_canonical mcp_login second_def sessions_def empty_mcp_def empty_control_def)
qed

section \<open>One-time codes\<close>

text \<open>The consumption of a code by the exchange is a fact of the first access, whatever follows it.\<close>

lemma exchange_consumes:
  assumes "oauth_store cf = Inr ()"
  shows "pendings (snd (exchange_code cf now f client code m)) (CodeRecord, token_key code) = None"
proof -
  have issue: "pendings (snd (issue_tokens cf now f client scopes subject resource None None n)) = pendings n"
    for scopes subject resource n
    by (cases f) (auto simp: issue_tokens_def commit_tokens_def Let_def db_bind_def db_raise_def db_return_def reading_def
        save_token_def delete_token_def on_control_def stored_def world_simps
        split: option.splits sum.splits prod.splits)
  show ?thesis
    by (auto simp: exchange_code_def consume_pending_def stored_def assms db_bind_def db_raise_def issue world_simps
        split: option.split)
qed

text \<open>Histories in which the record of a code that is gone is not written again.\<close>

definition code_later :: "db_config \<Rightarrow> string \<Rightarrow> mcp_world \<Rightarrow> mcp_world \<Rightarrow> bool" where
  "code_later cf code m m' =
     (mcp_step cf m m' \<and> (pendings m (CodeRecord, token_key code) = None \<longrightarrow> pendings m' (CodeRecord, token_key code) = None))"

text \<open>
  An authorization code is redeemed at most once.  Whatever comes of an exchange of it, issued credentials, a
  foreign client, an expired record or a refused grant, afterwards the code cannot be loaded and every further exchange
  of it by anyone is refused without any change, until the record of that very code is written again.
\<close>

theorem authorization_code_once:
  assumes "oauth_store cf = Inr ()"
    and "(code_later cf code)\<^sup>*\<^sup>* (snd (exchange_code cf now f client code m)) m2"
  shows "load_authorization_code cf now' client' code m2 = (Inr None, m2) \<and>
    (\<exists>m3. exchange_code cf now' f' client' code m2 =
       (Inl (OAuthError ''invalid_grant'' ''authorization code is invalid or already used''), m3) \<and>
     pendings m3 = pendings m2 \<and> tokens m3 = tokens m2 \<and> control m3 = control m2)"
proof -
  have gone: "pendings m2 (CodeRecord, token_key code) = None"
    using assms(2)
  proof (induction rule: rtranclp_induct)
    case base
    show ?case by (rule exchange_consumes [OF assms(1)])
  next
    case (step y z)
    then show ?case by (simp add: code_later_def)
  qed
  then have "(pendings m2)((CodeRecord, token_key code) := None) = pendings m2" by auto
  then show ?thesis
    using gone assms(1)
    by (simp add: load_authorization_code_def get_pending_def exchange_code_def consume_pending_def stored_def db_bind_def
        db_return_def db_raise_def invalid_grant_def world_simps)
qed

lemma authorization_code_once_witness:
  "load_authorization_code mcp_cf 2 ''app'' ''code'' (snd (exchange_code mcp_cf 1 (''a'', ''r'', ''n'') ''app'' ''code'' empty_mcp)) =
     (Inr None, snd (exchange_code mcp_cf 1 (''a'', ''r'', ''n'') ''app'' ''code'' empty_mcp))"
  using authorization_code_once [OF mcp_store rtranclp.rtrancl_refl, where code = "''code''" and now = 1
      and f = "(''a'', ''r'', ''n'')" and client = "''app''" and m = empty_mcp and now' = 2 and client' = "''app''"]
  by blast

section \<open>Revocation\<close>
text \<open>
  C13: revocation kills the whole family.  When a client presents any token the store still keeps for it, even a rotated
  one that authenticates nothing, its revocation, also one that fails later because a task cannot be queued, ends the
  grant for good: in every history that follows, no access or refresh token ever issued to that grant authenticates, no
  refresh of it succeeds and no request is served with it.
\<close>

theorem revocation_kills_family:
  assumes "oauth_store cf = Inr ()" and "kept_token token client r m" and "now \<noteq> 0"
    and "\<And>g. sessions (control m) (tk_session r) = Some g \<Longrightarrow> ss_source g = Some ''mcp''"
    and "(mcp_later cf (tk_session r) (kind, token_key any))\<^sup>*\<^sup>* (snd (revoke_client_token cf up now token client m)) m2"
    and "tokens m2 (kind, token_key any) = Some x" and "tk_session x = tk_session r"
  shows "credential_of cf now' kind any m2 = None \<and>
    (kind = RefreshRecord \<longrightarrow> (\<exists>e. exchange_refresh cf now' f client' any scopes m2 = (Inl e, m2))) \<and>
    (kind = AccessRecord \<longrightarrow> (\<exists>e. mcp_principal cf now' (Some (b\<lparr>be_token := any\<rparr>)) m2 = (Inl e, m2)))"
proof -
  have "dead (tk_session r) (control m2)"
    by (rule dead_family [OF assms(5)]) (rule revoke_client_dead [OF assms(1-4)])
  then have "credential_of cf now' kind any m2 = None" using dead_credential assms(6,7) by blast
  then show ?thesis
    using no_refresh [of cf now' any m2 f client' scopes] no_principal [of cf now' "b\<lparr>be_token := any\<rparr>" m2] by auto
qed

lemma access_kept: "kept_token ''access-1'' (Some ''app'') (mcp_token (3600 * second)) granted_mcp"
  by (simp add: kept_token_def mcp_fields mcp_sid_hex granted_tokens)

lemma revocation_keeps_records:
  "tokens (snd (revoke_client_token mcp_cf True 7 ''access-1'' (Some ''app'') granted_mcp)) (RefreshRecord, token_key ''refresh-1'') =
     Some (mcp_token (2592000 * second))"
  by (auto simp: revoke_client_token_def revoke_kind_def get_token_def stored_def mcp_store db_bind_def granted_tokens
      mcp_fields mcp_sid_hex on_control_def save_audit_def db_return_def world_simps split: sum.split prod.split)

lemma revocation_kills_family_witness:
  "credential_of mcp_cf 8 RefreshRecord ''refresh-1''
     (snd (revoke_client_token mcp_cf True 7 ''access-1'' (Some ''app'') granted_mcp)) = None"
  using revocation_kills_family [OF mcp_store access_kept _ _ rtranclp.rtrancl_refl, where kind = RefreshRecord and now = 7
      and up = True and any = "''refresh-1''" and now' = 8, OF _ _ revocation_keeps_records]
  by (simp add: mcp_fields granted_tokens)

end
