(* ===== verification/BuildProfiles.thy ===== *)
theory BuildProfiles
  imports ReleaseChecks
begin

text \<open>
  What a Cloud Build is made from: the managed service it builds (\<open>resource_access.py\<close>), its quality profile and the
  images pinned by digest (\<open>quality_profiles.py\<close>).  The profile documents and the runtime catalog are data, given
  with the configuration.
\<close>

section \<open>Configuration\<close>

record build_config =
  bc_settings :: settings
  bc_enabled :: bool
  bc_services :: "string list"
  bc_canaries :: "string list"
  bc_project :: string
  bc_account :: string
  bc_node_image :: string
  bc_python_image :: string
  bc_go_image :: string
  bc_planner_image :: string
  bc_postgres_image :: string
  bc_repositories :: "(string \<times> string) list"
  bc_api_url :: string
  bc_bucket :: string
  bc_schema :: pyval
  bc_profiles :: "(string \<times> doc) list"
  bc_observed :: "string list option"

text \<open>
  A service of the catalog.  The coverage threshold is the integer that \<open>int\<close> makes of it.
\<close>

record catalog_service =
  cs_name :: string
  cs_managed :: bool
  cs_repository :: "string option"
  cs_owner :: "string option"
  cs_profile :: "string option"
  cs_coverage :: "int option"

section \<open>Managed services\<close>

definition observation_only :: py_err where
  "observation_only = HTTPException 409 ''Resource is observation-only; management is disabled''"

text \<open>\<open>bc_observed\<close>: the observation-only names of the runtime catalog, or none when it is unavailable.\<close>

definition require_managed_service_name :: "build_config \<Rightarrow> string \<Rightarrow> unit result" where
  "require_managed_service_name cf name =
     (case bc_observed cf of
        None \<Rightarrow> Inl (HTTPException 503 ''Runtime catalog is unavailable'')
      | Some observed \<Rightarrow> raise_if (name \<in> set observed) observation_only)"

definition require_managed :: "build_config \<Rightarrow> catalog_service \<Rightarrow> unit result" where
  "require_managed cf service =
     first_error
       [raise_if (\<not> cs_managed service) observation_only,
        require_managed_service_name cf (cs_name service),
        raise_if (cs_repository service = None \<or> cs_owner service = None)
          (HTTPException 409 ''Resource management metadata is incomplete'')]"

section \<open>Quality profiles\<close>

record quality_profile =
  qp_name :: string
  qp_spec :: doc

definition qp_runtime :: "quality_profile \<Rightarrow> string result" where
  "qp_runtime p = map_result py_str (need (qp_spec p) ''runtime'')"

definition qp_coverage :: "quality_profile \<Rightarrow> int result" where
  "qp_coverage p = then_result (need (qp_spec p) ''coverage_threshold'') py_int"

definition qp_timeout :: "quality_profile \<Rightarrow> int result" where
  "qp_timeout p = then_result (need (qp_spec p) ''timeout_seconds'') py_int"

definition profile_fingerprint :: "build_config \<Rightarrow> quality_profile \<Rightarrow> string" where
  "profile_fingerprint cf p =
     sha256_hex (json_dumps False True
       (PDict [(''schema_version'', bc_schema cf), (''service_name'', PStr (qp_name p)), (''profile'', PDict (qp_spec p))]))"

definition legacy_profile_name :: "string \<Rightarrow> string" where
  "legacy_profile_name name =
     (if name = ''cgm-artemis-api'' then ''cgm-sanplat-api''
      else if name = ''cgm-artemis-web'' then ''cgm-sanplat-web''
      else name)"

definition profile_for :: "build_config \<Rightarrow> catalog_service \<Rightarrow> quality_profile result" where
  "profile_for cf service =
     (let name = legacy_profile_name (cs_name service) in
      case map_of (bc_profiles cf) name of
        None \<Rightarrow> Inl (ValueError (''No quality profile is defined for '' @ repr_str (cs_name service)))
      | Some spec \<Rightarrow>
          let p = \<lparr>qp_name = name, qp_spec = spec\<rparr> in
          then_result
            (case cs_profile service of
               None \<Rightarrow> Inr ()
             | Some runtime \<Rightarrow>
                 if runtime = [] then Inr ()
                 else then_result (qp_runtime p) (\<lambda>r. raise_if (runtime \<noteq> r)
                        (ValueError ''Catalog and quality profile runtime do not match'')))
            (\<lambda>_. then_result
               (case cs_coverage service of
                  None \<Rightarrow> Inr ()
                | Some c \<Rightarrow> then_result (qp_coverage p) (\<lambda>t. raise_if (c \<noteq> t)
                    (ValueError ''Catalog and quality profile coverage threshold do not match'')))
               (\<lambda>_. Inr p)))"

definition image_pinned :: "string \<Rightarrow> bool" where
  "image_pinned img = contains ''@sha256:'' img"

definition executor_image :: "build_config \<Rightarrow> quality_profile \<Rightarrow> string result" where
  "executor_image cf p =
     then_result (qp_runtime p) (\<lambda>runtime.
       let img = (if runtime = ''node'' then bc_node_image cf
                    else if runtime = ''go'' then bc_go_image cf
                    else bc_python_image cf)
       in if \<not> image_pinned img then Inl (ValueError ''Quality executor image must be pinned by digest'') else Inr img)"

definition planner_digest :: "build_config \<Rightarrow> string" where
  "planner_digest cf =
     sha256_hex (json_dumps True True
       (PDict [(''image'', PStr (bc_planner_image cf)), (''commit_analyzer'', PStr ''13.0.1''),
          (''release_notes_generator'', PStr ''14.1.1''), (''tag_format'', PStr ''v${version}''),
          (''branch'', PStr ''main'')]))"

text \<open>\<open>planner_hash()\<close>\<close>

definition planner_hash_of :: "build_config \<Rightarrow> string result" where
  "planner_hash_of cf =
     (if \<not> image_pinned (bc_planner_image cf) then Inl (ValueError ''Release planner image must be pinned by digest'')
      else Inr (planner_digest cf))"

section \<open>What the checks establish\<close>

lemma require_managed_Inr: "require_managed cf service = Inr u \<longleftrightarrow>
  cs_managed service \<and> (\<exists>observed. bc_observed cf = Some observed \<and> cs_name service \<notin> set observed) \<and>
  cs_repository service \<noteq> None \<and> cs_owner service \<noteq> None"
  by (auto simp: require_managed_def require_managed_service_name_def split: option.splits)

lemma executor_image_pinned: "executor_image cf p = Inr img \<Longrightarrow> image_pinned img"
  by (auto simp: executor_image_def then_result_Inr Let_def split: if_splits)

lemma profile_for_name: "profile_for cf service = Inr p \<Longrightarrow>
  qp_name p = legacy_profile_name (cs_name service) \<and> map_of (bc_profiles cf) (qp_name p) = Some (qp_spec p)"
  by (auto simp: profile_for_def Let_def then_result_Inr split: option.splits)

end
