(* ===== verification/ReleaseBuilds.thy ===== *)
theory ReleaseBuilds
  imports BuildRequests ReleaseRecovery Effects
begin

text \<open>
  The Cloud Build transport of \<open>services/release_cloud_build.py\<close> over the store of release executions: submission,
  binding, recovery of an uncertain submission, and cancellation.  What Cloud Build answers to a call is an argument;
  what is sent to it is recorded.  One clock reading serves one handler.
\<close>

section \<open>The world\<close>

text \<open>The execution store, the requests posted so far with the execution they were made for, and the cancellations.\<close>

record 's build_world =
  ledger :: 's
  posted :: "(string \<times> doc) list"
  cancelled :: "pyval list"

definition on_ledger :: "('s, 'a) op \<Rightarrow> ('s build_world, 'a) op" where
  "on_ledger f w = (case f (ledger w) of (r, s) \<Rightarrow> (r, w\<lparr>ledger := s\<rparr>))"

text \<open>A call leaves the platform whatever comes back.\<close>

definition post_build :: "string \<Rightarrow> doc \<Rightarrow> ('s build_world, unit) op" where
  "post_build execution_id request w = (Inr (), w\<lparr>posted := posted w @ [(execution_id, request)]\<rparr>)"

definition post_cancel :: "pyval \<Rightarrow> reply \<Rightarrow> ('s build_world, int \<times> pyval result) op" where
  "post_cancel build answer w = (answer, w\<lparr>cancelled := cancelled w @ [build]\<rparr>)"

section \<open>Binding\<close>

definition bind_release :: "'s backend \<Rightarrow> string \<Rightarrow> string \<Rightarrow> doc \<Rightarrow> ('s build_world, doc) op" where
  "bind_release B now execution_id build =
     (let build_id = py_str (dget_or build ''id'' (PStr '''')) in
      if build_id = '''' then db_raise (build_error ''Cloud Build did not expose a build ID'')
      else on_ledger (bind_build B now execution_id build_id
        [(''provider_status'', PStr (py_str (dget_or build ''status'' (PStr ''QUEUED'')))),
         (''logs_url'', PStr (py_str (dget_or build ''logUrl'' (PStr '''')))),
         (''build_name'', PStr (py_str (dget_or build ''name'' (PStr '''')))),
         (''submission_reconciled_at'', PStr now)]))"

section \<open>Submission\<close>

definition read_execution :: "build_config \<Rightarrow> 's backend \<Rightarrow> string \<Rightarrow> ('s build_world, doc option) op" where
  "read_execution cf B execution_id = reading (\<lambda>w. rx_get (bc_settings cf) B execution_id (ledger w))"

definition save_execution :: "build_config \<Rightarrow> 's backend \<Rightarrow> string \<Rightarrow> string \<Rightarrow> doc \<Rightarrow> ('s build_world, doc) op" where
  "save_execution cf B now execution_id changes = on_ledger (rx_save (bc_settings cf) B now execution_id changes)"

definition mark_uncertain :: "build_config \<Rightarrow> 's backend \<Rightarrow> string \<Rightarrow> string \<Rightarrow> string \<Rightarrow> ('s build_world, 'a) op" where
  "mark_uncertain cf B now execution_id reason =
     db_bind (save_execution cf B now execution_id [(''status'', PStr ''unknown''), (''uncertain_since'', PStr now)])
       (\<lambda>_. db_raise (build_error reason))"

text \<open>The diagnostic of a rejected request; only an unreadable body is excused.\<close>

definition diagnostic :: "int \<Rightarrow> pyval result \<Rightarrow> string result" where
  "diagnostic status body =
     (if status \<noteq> 400 then Inr ''''
      else
        (case then_result body (\<lambda>v. then_result (attr_dict v) (\<lambda>d.
            case dget_or d ''error'' (PDict []) of
              PDict error \<Rightarrow> Inr (take 500 (py_str (dget_or error ''message'' (PStr ''''))))
            | _ \<Rightarrow> Inr '''')) of
           Inl (TypeError _) \<Rightarrow> Inr ''''
         | Inl (ValueError _) \<Rightarrow> Inr ''''
         | r \<Rightarrow> r))"

definition reject_submission ::
  "build_config \<Rightarrow> 's backend \<Rightarrow> string \<Rightarrow> string \<Rightarrow> int \<Rightarrow> pyval result \<Rightarrow> ('s build_world, 'a) op" where
  "reject_submission cf B now execution_id status body =
     db_bind (reading (\<lambda>_. diagnostic status body)) (\<lambda>text.
       db_bind (save_execution cf B now execution_id
           ([(''status'', PStr ''failed''), (''submission_status_code'', PInt status)] @
            (if text = '''' then [] else [(''submission_error'', PStr text)])))
         (\<lambda>_. db_raise (build_error (''Release build submission failed: '' @ int_text status))))"

text \<open>\<open>operation.get("metadata", {}).get("build", operation)\<close> and its \<open>substitutions\<close>\<close>

definition created_build :: "pyval \<Rightarrow> (doc \<times> doc) result" where
  "created_build answer =
     then_result (attr_dict answer) (\<lambda>d.
     then_result (attr_dict (dget_or d ''metadata'' (PDict []))) (\<lambda>metadata.
     then_result (attr_dict (dget_or metadata ''build'' answer)) (\<lambda>build.
     then_result (attr_dict (dget_or build ''substitutions'' (PDict []))) (\<lambda>substitutions.
     Inr (build, substitutions)))))"

definition accept_created ::
  "build_config \<Rightarrow> 's backend \<Rightarrow> string \<Rightarrow> string \<Rightarrow> doc \<Rightarrow> pyval result \<Rightarrow> ('s build_world, doc) op" where
  "accept_created cf B now execution_id e body =
     db_bind (reading (\<lambda>_. then_result body created_build)) (\<lambda>(build, substitutions).
       if \<not> flag build ''id'' \<or> py_ne (dget substitutions ''_REQUEST_FINGERPRINT'') (dget e ''fingerprint'')
       then mark_uncertain cf B now execution_id ''Release build identity is uncertain''
       else bind_release B now execution_id build)"

text \<open>The answers to the two calls of one submission: the listing and the post.\<close>

record answers =
  an_listing :: reply
  an_post :: reply

text \<open>What follows from the answer to the post; no answer at all leaves the submission uncertain.\<close>

definition settle_submission ::
  "build_config \<Rightarrow> 's backend \<Rightarrow> string \<Rightarrow> string \<Rightarrow> doc \<Rightarrow> reply \<Rightarrow> ('s build_world, doc) op" where
  "settle_submission cf B now execution_id e answer =
     (case answer of
        Inl _ \<Rightarrow> mark_uncertain cf B now execution_id ''Release build submission is uncertain''
      | Inr (status, body) \<Rightarrow>
          if 300 \<le> status then reject_submission cf B now execution_id status body
          else accept_created cf B now execution_id e body)"

text \<open>The request of a submission that found no earlier build.\<close>

definition prepared_request :: "build_config \<Rightarrow> doc \<Rightarrow> catalog_service \<Rightarrow> doc result" where
  "prepared_request cf e service =
     then_result (require_new_builds (bc_settings cf)) (\<lambda>_.
     then_result (build_request cf e service) (\<lambda>request.
     then_result (validate_submission request) (\<lambda>_. Inr request)))"

definition submit ::
  "build_config \<Rightarrow> 's backend \<Rightarrow> string \<Rightarrow> answers \<Rightarrow> string \<Rightarrow> catalog_service \<Rightarrow> ('s build_world, doc) op" where
  "submit cf B now answers execution_id service =
     db_bind (reading (\<lambda>_. require_managed cf service)) (\<lambda>_.
     db_bind (read_execution cf B execution_id) (\<lambda>found.
     case found of
       None \<Rightarrow> db_raise (build_error ''Unknown release execution'')
     | Some e \<Rightarrow>
         if flag e ''bootstrap_ticket_id'' then db_raise (build_error ''Bootstrap submission cannot be retried'')
         else if \<not> is_str e ''provider'' ''cloud_build''
         then db_raise (build_error ''Release execution is not Cloud Build managed'')
         else if flag e ''build_id'' then db_return e
         else
           db_bind (reading (\<lambda>_. matching_build cf (an_listing answers) e)) (\<lambda>recovered.
           case recovered of
             Some build \<Rightarrow> bind_release B now execution_id build
           | None \<Rightarrow>
               db_bind (reading (\<lambda>_. prepared_request cf e service)) (\<lambda>request.
               db_bind (on_ledger (claim_submission B now execution_id)) (\<lambda>won.
               if \<not> won then db_raise (build_error ''Release build submission is being reconciled'')
               else
                 db_bind (reading (\<lambda>_. require_new_builds (bc_settings cf))) (\<lambda>_.
                 db_bind (post_build execution_id request) (\<lambda>_.
                 settle_submission cf B now execution_id e (an_post answers))))))))"

section \<open>Cancellation\<close>

definition cancel_build ::
  "build_config \<Rightarrow> 's backend \<Rightarrow> string \<Rightarrow> answers \<Rightarrow> string \<Rightarrow> ('s build_world, bool) op" where
  "cancel_build cf B now answers execution_id =
     db_bind (read_execution cf B execution_id) (\<lambda>found.
     case found of
       None \<Rightarrow> db_return False
     | Some e \<Rightarrow>
         if e = [] then db_return False
         else
           db_bind (reading (\<lambda>_. require_managed_service_name cf (py_str (dget_or e ''service_name'' (PStr ''''))))) (\<lambda>_.
           if \<not> is_str e ''operation'' ''pr_quality'' then db_return False
           else
             db_bind
               (if flag e ''build_id'' then db_return (Some e)
                else
                  db_bind (reading (\<lambda>_. matching_build cf (an_listing answers) e)) (\<lambda>recovered.
                  case recovered of
                    None \<Rightarrow> db_return None
                  | Some build \<Rightarrow> db_bind (bind_release B now execution_id build) (\<lambda>bound. db_return (Some bound))))
               (\<lambda>bound. case bound of
                  None \<Rightarrow> db_return False
                | Some d \<Rightarrow>
                    db_bind (reading (\<lambda>_. need d ''build_id'')) (\<lambda>build.
                    db_bind (post_cancel build (an_post answers)) (\<lambda>(status, _).
                    if 300 \<le> status \<and> status \<noteq> 409
                    then db_raise (build_error ''Unable to cancel superseded PR build'')
                    else
                      db_bind (save_execution cf B now execution_id
                          [(''status'', PStr ''failed''), (''superseded'', PBool True)])
                        (\<lambda>_. db_return True))))))"

end
