(* ===== verification/BootstrapBuilds.thy ===== *)
theory BootstrapBuilds
  imports ReleaseBuilds
begin

text \<open>
  The one-time bootstrap build of \<open>services/release_cloud_build.py\<close>: the full comparison of a build with the consumed
  request, the single post, the read-only recovery over all pages of a listing, and with it the recovery of any
  uncertain submission.  The recovery loop follows the page tokens it is given, so it may not return: it is a partial
  function, and \<open>None\<close> is running for ever.
\<close>

section \<open>Comparing a build with its request\<close>

definition request_hash :: "doc \<Rightarrow> string" where
  "request_hash request = sha256_hex (json_dumps False True (PDict request))"

definition validate_bootstrap_request :: "doc \<Rightarrow> unit result" where
  "validate_bootstrap_request request =
     first_error
       [validate_submission request,
        raise_if (has_key request ''queueTtl'') (build_error ''Bootstrap request cannot override queue TTL'')]"

definition normalize_response :: "doc \<Rightarrow> doc result" where
  "normalize_response build =
     (let given = as_dict (dget_or build ''options'' (PDict []));
          options = (if py_eq (dget given ''pool'') (PDict []) then dict_pop ''pool'' given else given);
          normalized = dict_set ''options'' (PDict options) build
      in if has_key normalized ''queueTtl''
         then if \<not> is_str normalized ''queueTtl'' ''3600s''
              then Inl (build_error ''Bootstrap response queue TTL changed'')
              else Inr (dict_pop ''queueTtl'' normalized)
         else Inr normalized)"

definition server_step_fields :: "string list" where
  "server_step_fields = [''status'', ''timing'', ''pullTiming'', ''exitCode'']"

definition submitted_step :: "pyval \<Rightarrow> pyval" where
  "submitted_step s = PDict (filter (\<lambda>kv. fst kv \<notin> set server_step_fields) (as_dict s))"

definition server_fields :: "string list" where
  "server_fields =
     [''id'', ''name'', ''projectId'', ''status'', ''statusDetail'', ''createTime'', ''startTime'', ''finishTime'',
      ''logUrl'', ''results'', ''timing'', ''warnings'', ''sourceProvenance'', ''failureInfo'', ''images'']"

text \<open>The request that the reservation bound, if it is intact.\<close>

definition bound_request :: "doc \<Rightarrow> doc result" where
  "bound_request e =
     (case dget e ''bootstrap_build_request'' of
        PDict request \<Rightarrow>
          if \<not> is_str e ''bootstrap_build_request_hash'' (request_hash request) \<or> \<not> flag e ''bootstrap_nonce''
             \<or> py_ne (dget (as_dict (dget_or request ''substitutions'' (PDict []))) ''_BOOTSTRAP_NONCE'')
                  (dget e ''bootstrap_nonce'')
          then Inl (build_error ''Bootstrap request binding is invalid'')
          else Inr request
      | _ \<Rightarrow> Inl (build_error ''Bootstrap request binding is invalid''))"

text \<open>The comparison of the normalized build with the request.\<close>

definition same_inputs :: "doc \<Rightarrow> doc \<Rightarrow> unit result" where
  "same_inputs request build =
     (let expected = as_list (dget_or request ''steps'' (PList []));
          provenance = dget (as_dict (dget_or build ''sourceProvenance'' (PDict []))) ''resolvedConnectedRepository''
      in first_error
        [validate_submission build,
         raise_if (\<not> is_str request ''timeout'' ''3600s'' \<or> \<not> is_str build ''timeout'' ''3600s'')
           (build_error ''Bootstrap timeout is invalid''),
         raise_if (\<not> flag build ''id'' \<or>
             list_ex (\<lambda>k. py_ne (dget build k) (dget request k))
               [''source'', ''serviceAccount'', ''substitutions'', ''options'', ''tags''])
           (build_error ''Bootstrap build request identity changed''),
         raise_if (py_ne (dget_or build ''images'' (PList [])) (dget_or request ''images'' (PList [])))
           (build_error ''Bootstrap build images changed''),
         raise_if (case dget_or build ''steps'' (PList []) of
             PList actual \<Rightarrow> length actual \<noteq> length expected
               \<or> list_ex (\<lambda>(x, a). py_ne (submitted_step a) x) (zip expected actual)
           | _ \<Rightarrow> True)
           (build_error ''Bootstrap build steps changed''),
         raise_if (\<not> list_all (\<lambda>kv. has_key request (fst kv) \<or> fst kv \<in> set server_fields) build)
           (build_error ''Bootstrap build contains unapproved fields''),
         if provenance = PNone then Inr ()
         else
           then_result (need request ''source'') (\<lambda>source.
           then_result (need (as_dict source) ''connectedRepository'') (\<lambda>repository.
           raise_if (py_ne provenance repository) (build_error ''Bootstrap resolved source changed'')))])"

definition verify_bootstrap_build :: "doc \<Rightarrow> doc \<Rightarrow> string \<Rightarrow> unit result" where
  "verify_bootstrap_build e build expected_id =
     (let build_id = py_str (dget_or build ''id'' (PStr '''')) in
      if build_id = '''' \<or>
         list_ex (\<lambda>v. truthy v \<and> py_str v \<noteq> build_id) [PStr expected_id, dget e ''build_id'', dget e ''provider_run_id'']
      then Inl (build_error ''Bootstrap build ID does not match requested or bound identity'')
      else
        then_result (bound_request e) (\<lambda>request.
        then_result (validate_bootstrap_request request) (\<lambda>_.
        then_result (normalize_response build) (same_inputs request))))"

definition bind_bootstrap ::
  "build_config \<Rightarrow> 's backend \<Rightarrow> string \<Rightarrow> doc \<Rightarrow> doc \<Rightarrow> string \<Rightarrow> ('s build_world, doc) op" where
  "bind_bootstrap cf B now e build expected_id =
     db_bind (reading (\<lambda>_. verify_bootstrap_build e build expected_id)) (\<lambda>_.
     on_ledger (update_quality_bootstrap (bc_settings cf) B now (text_of e ''execution_id'') (text_of e ''bootstrap_nonce'')
       [(''build_id'', PStr (text_of build ''id'')),
        (''provider_run_id'', PStr (text_of build ''id'')),
        (''provider_status'', PStr (py_str (dget_or build ''status'' (PStr ''QUEUED'')))),
        (''logs_url'', PStr (py_str (dget_or build ''logUrl'' (PStr '''')))),
        (''build_name'', PStr (py_str (dget_or build ''name'' (PStr '''')))),
        (''bootstrap_build_verified'', PBool True),
        (''bootstrap_verified_request_hash'', PStr (text_of e ''bootstrap_build_request_hash'')),
        (''submission_reconciled_at'', PStr now),
        (''status'', PStr ''running_quality'')]))"

section \<open>The single post\<close>

text \<open>\<open>permits\<close>: what the authorization says before the dispatch claim and before the post.\<close>

definition submit_quality_bootstrap ::
  "build_config \<Rightarrow> 's backend \<Rightarrow> string \<Rightarrow> unit result \<times> unit result \<Rightarrow> reply \<Rightarrow> doc \<Rightarrow> doc \<Rightarrow> string \<Rightarrow>
   ('s build_world, doc) op" where
  "submit_quality_bootstrap cf B now permits answer e request dispatch_token =
     db_bind (reading (\<lambda>_. first_error
        [require_new_builds (bc_settings cf),
         raise_if (\<not> is_str e ''status'' ''submitting'' \<or> \<not> is_str e ''provider'' ''cloud_build''
             \<or> \<not> flag e ''bootstrap_ticket_id'' \<or> flag e ''build_id''
             \<or> \<not> is_str e ''bootstrap_build_request_hash'' (request_hash request))
           (build_error ''Bootstrap submission is not reserved''),
         validate_bootstrap_request request,
         raise_if (\<not> is_str request ''timeout'' ''3600s'') (build_error ''Bootstrap timeout is invalid''),
         fst permits])) (\<lambda>_.
     db_bind (on_ledger (claim_quality_bootstrap_dispatch (bc_settings cf) B now (text_of e ''execution_id'')
         (text_of e ''bootstrap_nonce'') dispatch_token)) (\<lambda>won.
     if \<not> won then db_raise (build_error ''Bootstrap dispatch is already consumed'')
     else
       db_bind (reading (\<lambda>_. first_error [snd permits, require_new_builds (bc_settings cf)])) (\<lambda>_.
       db_catch
         (db_bind (post_build (text_of e ''execution_id'') request) (\<lambda>_. db_bind (reading (\<lambda>_. answer)) (\<lambda>(status, body).
          if 300 \<le> status then db_raise (build_error ''Bootstrap submission did not confirm a build'')
          else
            db_bind (reading (\<lambda>_. then_result body (\<lambda>v. case v of
                PDict d \<Rightarrow> then_result (attr_dict (dget_or d ''metadata'' (PDict []))) (\<lambda>metadata.
                  case dget_or metadata ''build'' v of
                    PDict build \<Rightarrow> Inr build
                  | _ \<Rightarrow> Inl (build_error ''Bootstrap submission response is unverifiable''))
              | _ \<Rightarrow> Inl (build_error ''Bootstrap submission response is unverifiable''))))
              (\<lambda>build. bind_bootstrap cf B now e build ''''))))
         (\<lambda>_. db_raise (build_error ''Bootstrap attempt consumed; read-only recovery required'')))))"

section \<open>Read-only recovery\<close>

definition get_build :: "reply \<Rightarrow> pyval result" where
  "get_build answer =
     then_result answer (\<lambda>(status, body).
       if 300 \<le> status then Inl (build_error ''Unable to read release Cloud Build'') else body)"

text \<open>One page: its builds and the token of the next.\<close>

definition page_of :: "reply \<Rightarrow> (pyval list \<times> string) result" where
  "page_of answer =
     then_result answer (\<lambda>(status, body).
       if 300 \<le> status then Inl (build_error ''Bootstrap read-only recovery failed'')
       else
         then_result body (\<lambda>v. then_result (attr_dict v) (\<lambda>payload.
           case dget_or payload ''builds'' (PList []) of
             PList builds \<Rightarrow> Inr (builds, py_str (dget_or payload ''nextPageToken'' (PStr '''')))
           | _ \<Rightarrow> Inl (build_error ''Bootstrap recovery response is unverifiable''))))"

text \<open>The builds of a page that carry the nonce; each of them must match in full.\<close>

fun matches_of :: "(doc \<Rightarrow> unit result) \<Rightarrow> pyval \<Rightarrow> pyval list \<Rightarrow> doc list result" where
  "matches_of verify nonce [] = Inr []"
| "matches_of verify nonce (v # vs) =
     then_result (attr_dict v) (\<lambda>build.
     then_result (attr_dict (dget_or build ''substitutions'' (PDict []))) (\<lambda>substitutions.
     if py_eq (dget substitutions ''_BOOTSTRAP_NONCE'') nonce
     then then_result (verify build) (\<lambda>_. map_result (Cons build) (matches_of verify nonce vs))
     else matches_of verify nonce vs))"

partial_function (option) collect_matches ::
  "(string \<Rightarrow> reply) \<Rightarrow> (doc \<Rightarrow> unit result) \<Rightarrow> pyval \<Rightarrow> string list \<Rightarrow> doc list \<Rightarrow> string \<Rightarrow> doc list result option" where
  "collect_matches pages verify nonce seen matches token =
     (case page_of (pages token) of
        Inl e \<Rightarrow> Some (Inl e)
      | Inr (builds, following) \<Rightarrow>
          (case matches_of verify nonce builds of
             Inl e \<Rightarrow> Some (Inl e)
           | Inr found \<Rightarrow>
               if following = [] then Some (Inr (matches @ found))
               else if following \<in> set seen
               then Some (Inl (build_error ''Bootstrap recovery pagination is incomplete''))
               else collect_matches pages verify nonce (following # seen) (matches @ found) following))"

definition reconcile_quality_bootstrap ::
  "build_config \<Rightarrow> 's backend \<Rightarrow> string \<Rightarrow> reply \<Rightarrow> (string \<Rightarrow> reply) \<Rightarrow> doc \<Rightarrow> string \<Rightarrow> 's build_world \<Rightarrow>
   (doc result \<times> 's build_world) option" where
  "reconcile_quality_bootstrap cf B now got pages e expected_id w =
     (if \<not> flag e ''bootstrap_ticket_id'' \<or> \<not> in_strs (dget e ''status'') [''submitting'', ''unknown'']
      then Some (Inr e, w)
      else if flag e ''build_id''
      then Some (db_bind (reading (\<lambda>_. then_result (get_build got) (\<lambda>v. then_result (attr_dict v) (\<lambda>build.
               if py_str (dget_or build ''id'' (PStr '''')) \<noteq> text_of e ''build_id''
               then Inl (build_error ''Bootstrap bound build identity changed'') else Inr build))))
             (\<lambda>build. bind_bootstrap cf B now e build expected_id) w)
      else
        (case collect_matches pages (\<lambda>b. verify_bootstrap_build e b expected_id) (dget e ''bootstrap_nonce'') [] [] '''' of
           None \<Rightarrow> None
         | Some (Inl err) \<Rightarrow> Some (Inl err, w)
         | Some (Inr []) \<Rightarrow> Some (Inr e, w)
         | Some (Inr [build]) \<Rightarrow> Some (bind_bootstrap cf B now e build expected_id w)
         | Some (Inr (_ # _ # _)) \<Rightarrow> Some (Inl (build_error ''Bootstrap recovery is ambiguous''), w)))"

section \<open>Recovery of an uncertain submission\<close>

text \<open>
  \<open>age\<close> is the time since an ISO timestamp, in microseconds, or the exception of parsing and subtracting it; \<open>later\<close>
  answers the submission that follows an absence check.
\<close>

definition recover_release ::
  "build_config \<Rightarrow> 's backend \<Rightarrow> string \<Rightarrow> (string \<Rightarrow> int result) \<Rightarrow> reply \<Rightarrow> answers \<Rightarrow> string \<Rightarrow> catalog_service \<Rightarrow>
   doc \<Rightarrow> ('s build_world, doc) op" where
  "recover_release cf B now age listing later execution_id service e =
     (if \<not> is_str e ''provider'' ''cloud_build'' \<or> flag e ''build_id''
         \<or> \<not> in_strs (dget e ''status'') [''submitting'', ''unknown'']
      then db_return e
      else
        db_bind (reading (\<lambda>_. matching_build cf listing e)) (\<lambda>recovered.
        case recovered of
          Some build \<Rightarrow> bind_release B now execution_id build
        | None \<Rightarrow>
            (case age (py_str (py_or (py_or (dget e ''uncertain_since'') (dget e ''updated_at'')) (PStr ''''))) of
               Inl (ValueError _) \<Rightarrow> db_return e
             | Inl err \<Rightarrow> db_raise err
             | Inr elapsed \<Rightarrow>
                 if elapsed < 120 * second then db_return e
                 else
                   db_bind (reading (\<lambda>_. py_int (dget_or e ''reconciliation_attempts'' (PInt 0)))) (\<lambda>attempts.
                   if 1 \<le> attempts then db_return e
                   else
                     db_bind (on_ledger (reconcile_submission_absent (bc_settings cf) B now execution_id))
                       (\<lambda>_. submit cf B now later execution_id service)))))"

definition reconcile_uncertain_submission ::
  "build_config \<Rightarrow> 's backend \<Rightarrow> string \<Rightarrow> (string \<Rightarrow> int result) \<Rightarrow> reply \<Rightarrow> (string \<Rightarrow> reply) \<Rightarrow> reply \<Rightarrow> answers \<Rightarrow>
   string \<Rightarrow> catalog_service \<Rightarrow> 's build_world \<Rightarrow> (doc result \<times> 's build_world) option" where
  "reconcile_uncertain_submission cf B now age got pages listing later execution_id service w =
     (case db_bind (reading (\<lambda>_. require_managed cf service)) (\<lambda>_. read_execution cf B execution_id) w of
        (Inl err, w') \<Rightarrow> Some (Inl err, w')
      | (Inr None, w') \<Rightarrow> Some (Inl (build_error ''Unknown release execution''), w')
      | (Inr (Some e), w') \<Rightarrow>
          if flag e ''bootstrap_ticket_id'' then reconcile_quality_bootstrap cf B now got pages e '''' w'
          else Some (recover_release cf B now age listing later execution_id service e w'))"

end
