(* ===== verification/ReleasePlane.thy ===== *)
theory ReleasePlane
  imports BootstrapBuilds Circuits
begin

text \<open>
  The world of the release plane: the store and the builds of the Cloud Build transport, with the calls made to GitHub.
  What GitHub and Cloud Build answer is given by the site.  The first part of \<open>services/release_orchestrator.py\<close>: which
  services of a repository are released, their policy hash, reservation, and the check runs of a commit.
\<close>

section \<open>Configuration\<close>

text \<open>
  A service as the orchestrator reads it.  The two thresholds only occur in the policy hash, as the JSON values they are.
\<close>

record release_service = catalog_service +
  rs_evidence :: "string list"
  rs_policy :: string
  rs_threshold :: pyval
  rs_differential :: pyval
  rs_executor :: "string option"

record plane_config =
  pc_build :: build_config
  pc_catalog :: "release_service list"
  pc_owner :: string
  pc_health_repository :: string
  pc_health_workflow :: string
  pc_logins :: "string list"
  pc_dispatch_timeout :: int

section \<open>The world\<close>

datatype github_call =
    UpsertCheck doc
  | DispatchRelease string
  | CancelRun string int
  | DispatchProbe string string
  | PublishRelease string

record github =
  gh_check :: "doc \<Rightarrow> pyval result"
  gh_dispatch :: "unit result"
  gh_cancel :: "unit result"
  gh_default_sha :: "string \<Rightarrow> string result"
  gh_fast_forward :: "string \<Rightarrow> string \<Rightarrow> string \<Rightarrow> bool result"
  gh_publish :: "doc result"

record 's plane =
  builds :: "'s build_world"
  circuit_store :: 's
  calls :: "github_call list"

text \<open>Where a handler runs: configuration, stores and their queries, a clock reading, and the answers of the services.\<close>

record 's site =
  si_config :: plane_config
  si_backend :: "'s backend"
  si_list :: "string \<Rightarrow> int \<Rightarrow> 's \<Rightarrow> doc list"
  si_find :: "string \<Rightarrow> string \<Rightarrow> string \<Rightarrow> 's \<Rightarrow> doc option"
  si_now :: string
  si_github :: github
  si_answers :: "string \<Rightarrow> answers"

definition site_build :: "'s site \<Rightarrow> build_config" where
  "site_build S = pc_build (si_config S)"

definition on_builds :: "('s build_world, 'a) op \<Rightarrow> ('s plane, 'a) op" where
  "on_builds f w = (case f (builds w) of (r, b) \<Rightarrow> (r, w\<lparr>builds := b\<rparr>))"

definition on_store :: "('s, 'a) op \<Rightarrow> ('s plane, 'a) op" where
  "on_store f = on_builds (on_ledger f)"

definition on_circuits :: "('s, 'a) op \<Rightarrow> ('s plane, 'a) op" where
  "on_circuits f w = (case f (circuit_store w) of (r, c) \<Rightarrow> (r, w\<lparr>circuit_store := c\<rparr>))"

text \<open>A call to GitHub leaves the platform whatever comes back.\<close>

definition call_github :: "github_call \<Rightarrow> 'a result \<Rightarrow> ('s plane, 'a) op" where
  "call_github c answer w = (answer, w\<lparr>calls := calls w @ [c]\<rparr>)"

section \<open>Executions\<close>

definition store_of :: "'s plane \<Rightarrow> 's" where
  "store_of w = ledger (builds w)"

definition get_release :: "'s site \<Rightarrow> string \<Rightarrow> ('s plane, doc option) op" where
  "get_release S i = reading (\<lambda>w. rx_get (bc_settings (site_build S)) (si_backend S) i (store_of w))"

text \<open>\<open>release_executions.get(i) or execution\<close>\<close>

definition current_or :: "'s site \<Rightarrow> doc \<Rightarrow> ('s plane, doc) op" where
  "current_or S e =
     db_bind (reading (\<lambda>_. need e ''execution_id'')) (\<lambda>i.
     db_bind (get_release S (py_str i)) (\<lambda>found.
     db_return (case found of None \<Rightarrow> e | Some d \<Rightarrow> if d = [] then e else d)))"

definition save_release :: "'s site \<Rightarrow> string \<Rightarrow> doc \<Rightarrow> ('s plane, doc) op" where
  "save_release S i changes =
     on_store (rx_save (bc_settings (site_build S)) (si_backend S) (si_now S) i changes)"

definition ended_statuses :: "string list" where
  "ended_statuses = [''quality_failed'', ''no_release'', ''released'', ''failed'']"

text \<open>\<open>_is_terminal\<close>\<close>

definition is_terminal :: "doc \<Rightarrow> bool" where
  "is_terminal e =
     (in_strs (dget e ''status'') ended_statuses
      \<or> (is_str e ''operation'' ''pr_quality'' \<and> is_str e ''status'' ''quality_passed''))"

section \<open>Services\<close>

text \<open>\<open>repository.split("/", 1)[0]\<close>\<close>

definition owner_of :: "plane_config \<Rightarrow> string \<Rightarrow> string" where
  "owner_of cf repo =
     (if pc_owner cf \<noteq> '''' then pc_owner cf else takeWhile (\<lambda>c. c \<noteq> CHR ''/'') repo)"

definition core :: "release_service \<Rightarrow> catalog_service" where
  "core service = catalog_service.truncate service"

definition service_enabled :: "plane_config \<Rightarrow> release_service \<Rightarrow> bool" where
  "service_enabled cf service =
     (cs_managed service \<and> cs_repository service \<notin> {None, Some ''''}
      \<and> (rs_evidence service = [] \<or> cs_name service \<in> set (rs_evidence service))
      \<and> bc_enabled (pc_build cf)
      \<and> cs_name service \<in> set (bc_services (pc_build cf) @ bc_canaries (pc_build cf)))"

definition services_by_repository :: "plane_config \<Rightarrow> string \<Rightarrow> release_service list" where
  "services_by_repository cf repo =
     filter (\<lambda>service. cs_managed service \<and>
       (case cs_repository service of None \<Rightarrow> False | Some r \<Rightarrow> r \<noteq> '''' \<and> same_repository r repo)) (pc_catalog cf)"

definition service_key :: "release_service \<Rightarrow> string" where
  "service_key service =
     (let r = (case cs_repository service of None \<Rightarrow> '''' | Some r \<Rightarrow> r) in
      case repository_id r of Some i \<Rightarrow> int_text i | None \<Rightarrow> str_lower r)"

definition artemis :: "release_service \<Rightarrow> bool" where
  "artemis service = starts_with ''cgm-artemis-'' (cs_name service)"

fun one_per_repository ::
  "plane_config \<Rightarrow> release_service dict \<Rightarrow> release_service list \<Rightarrow> release_service dict result" where
  "one_per_repository cf chosen_services [] = Inr chosen_services"
| "one_per_repository cf chosen_services (service # rest) =
     then_result (require_managed (pc_build cf) (core service)) (\<lambda>_.
     one_per_repository cf
       (case map_of chosen_services (service_key service) of
          None \<Rightarrow> dict_set (service_key service) service chosen_services
        | Some previous \<Rightarrow>
            if artemis service \<and> \<not> artemis previous
            then dict_set (service_key service) service chosen_services else chosen_services)
       rest)"

text \<open>\<open>_services\<close>\<close>

definition services_of :: "plane_config \<Rightarrow> string \<Rightarrow> release_service list result" where
  "services_of cf repo =
     map_result (map snd) (one_per_repository cf [] (filter (service_enabled cf) (services_by_repository cf repo)))"

definition policy_hash_of :: "release_service \<Rightarrow> string" where
  "policy_hash_of service =
     sha256_hex (json_dumps True True
       (PDict [(''policy_version'', PStr (rs_policy service)),
          (''profile'', case cs_profile service of None \<Rightarrow> PNone | Some p \<Rightarrow> PStr p),
          (''coverage_threshold'', rs_threshold service), (''differential_threshold'', rs_differential service)]))"

definition executors :: "release_service \<Rightarrow> catalog_executors" where
  "executors service = \<lparr>release_executor = rs_executor service, deployment_executor = None\<rparr>"

text \<open>\<open>_provider\<close>\<close>

definition default_provider :: "plane_config \<Rightarrow> release_service \<Rightarrow> string result" where
  "default_provider cf service =
     then_result (require_managed (pc_build cf) (core service)) (\<lambda>_.
     map_result ps_effective (select (executors service) None ''release'' ''github_actions''))"

text \<open>\<open>model_dump()\<close>\<close>

definition optional_text :: "string option \<Rightarrow> pyval" where
  "optional_text v = (case v of None \<Rightarrow> PNone | Some s \<Rightarrow> PStr s)"

definition dump_selection :: "provider_selection \<Rightarrow> doc" where
  "dump_selection p =
     [(''requested'', optional_text (ps_requested p)), (''service_default'', optional_text (ps_service_default p)),
      (''effective'', PStr (ps_effective p)), (''source'', PStr (ps_source p)), (''locked'', PBool (ps_locked p))]"

section \<open>Reservation\<close>

record release_intent =
  ri_operation :: string
  ri_head :: string
  ri_base :: string
  ri_branch :: string
  ri_delivery :: string
  ri_provider :: string
  ri_selection :: "provider_selection option"
  ri_trigger :: string

text \<open>The reservation that an intent asks for, by the profile, images and policy of today.\<close>

definition intended ::
  "plane_config \<Rightarrow> release_service \<Rightarrow> release_intent \<Rightarrow> quality_profile \<Rightarrow> string \<Rightarrow> string \<Rightarrow> reservation" where
  "intended cf service q profile img plan_hash =
     \<lparr>repository = (case cs_repository service of None \<Rightarrow> [] | Some r \<Rightarrow> r), service_name = cs_name service,
      operation = ri_operation q, head_sha = ri_head q, base_sha = ri_base q,
      profile_hash = profile_fingerprint (pc_build cf) profile, executor_digest = img,
      policy_hash = policy_hash_of service, planner_hash = plan_hash, branch = ri_branch q, provider = ri_provider q,
      delivery_id = ri_delivery q, selection = PNone, trigger_event = ri_trigger q\<rparr>"

text \<open>An execution of the same work, possibly under an earlier spelling of the repository.\<close>

definition same_request :: "release_service \<Rightarrow> reservation \<Rightarrow> doc \<Rightarrow> bool" where
  "same_request service r d =
     (in_strs (dget d ''service_name'') (cs_name service # rs_evidence service)
      \<and> is_str d ''operation'' (operation r) \<and> is_str d ''head_sha'' (str_lower (head_sha r))
      \<and> is_str d ''base_sha'' (str_lower (base_sha r)) \<and> is_str d ''profile_hash'' (profile_hash r)
      \<and> is_str d ''executor_digest'' (executor_digest r) \<and> is_str d ''policy_hash'' (policy_hash r)
      \<and> dget_or d ''planner_hash'' (PStr '''') = PStr (planner_hash r))"

text \<open>\<open>_reserve\<close>\<close>

definition reserve_release ::
  "'s site \<Rightarrow> release_service \<Rightarrow> release_intent \<Rightarrow> ('s plane, doc \<times> bool) op" where
  "reserve_release S service q =
     (let cf = si_config S in
      db_bind (reading (\<lambda>_. require_managed (pc_build cf) (core service))) (\<lambda>_.
      db_bind (reading (\<lambda>_. profile_for (pc_build cf) (core service))) (\<lambda>profile.
      db_bind (reading (\<lambda>_. executor_image (pc_build cf) profile)) (\<lambda>img.
      db_bind (reading (\<lambda>_. if ri_operation q = ''main_release'' then planner_hash_of (pc_build cf) else Inr '''')) (\<lambda>plan_hash.
      let r = intended cf service q profile img plan_hash in
      db_bind (reading (\<lambda>w. Inr (find (same_request service r) (si_list S (repository r) 200 (store_of w))))) (\<lambda>previous.
      case previous of
        Some d \<Rightarrow> db_return (d, False)
      | None \<Rightarrow>
          db_bind (reading (\<lambda>_. case ri_selection q of Some p \<Rightarrow> Inr p
             | None \<Rightarrow> select (executors service) None ''release'' (ri_provider q))) (\<lambda>p.
          if ps_effective p \<noteq> ri_provider q
          then db_raise (ReleaseOrchestratorError ''Execution provider does not match the reserved selection'')
          else
            db_bind (reading (\<lambda>_. if ri_provider q = ''cloud_build'' then require_new_builds (bc_settings (pc_build cf)) else Inr ())) (\<lambda>_.
            on_store (rx_reserve (si_backend S) (si_now S) (fingerprint (identity.truncate r))
              (r\<lparr>selection := PDict (dump_selection p)\<rparr>))))))))))"

section \<open>Check runs\<close>

definition upsert_check :: "'s site \<Rightarrow> doc \<Rightarrow> ('s plane, pyval) op" where
  "upsert_check S args = call_github (UpsertCheck args) (gh_check (si_github S) args)"

definition check_of :: "doc \<Rightarrow> string \<Rightarrow> string \<Rightarrow> doc \<Rightarrow> doc" where
  "check_of e kind status rest =
     [(''repository'', dget e ''repository''), (''head_sha'', dget e ''head_sha''), (''kind'', PStr kind),
      (''status'', PStr status)] @ rest"

text \<open>The checks already created for an execution, by kind.\<close>

definition check_ids :: "doc \<Rightarrow> doc" where
  "check_ids e = as_dict (py_or (dget e ''check_ids'') (PDict []))"

text \<open>A check of this kind, created unless it is already there.\<close>

definition ensure_check ::
  "'s site \<Rightarrow> doc \<Rightarrow> string \<Rightarrow> string \<Rightarrow> doc \<Rightarrow> doc \<Rightarrow> ('s plane, doc) op" where
  "ensure_check S e kind status rest ids =
     (if has_key ids kind then db_return ids
      else
        db_bind (reading (\<lambda>_. need_all e [''repository'', ''head_sha'', ''execution_id''])) (\<lambda>_.
        db_bind (upsert_check S (check_of e kind status
            (rest @ [(''external_id'', PStr (text_of e ''execution_id'' @ '':'' @ kind))])))
          (\<lambda>v. db_return (dict_set kind v ids))))"

text \<open>\<open>^(feat|fix|...)(\\([^)]+\\))?!?: .+\<close>, matched at the start\<close>

definition commit_types :: "string list" where
  "commit_types =
     [''feat'', ''fix'', ''docs'', ''style'', ''refactor'', ''perf'', ''test'', ''build'', ''ci'', ''chore'', ''revert'']"

definition after_scope :: "string \<Rightarrow> string option" where
  "after_scope s =
     (case s of
        c # rest \<Rightarrow>
          if c = CHR ''('' then
            (case (takeWhile (\<lambda>x. x \<noteq> CHR '')'') rest, dropWhile (\<lambda>x. x \<noteq> CHR '')'') rest) of
               (_ # _, _ # tail) \<Rightarrow> Some tail
             | _ \<Rightarrow> None)
          else Some s
      | [] \<Rightarrow> Some [])"

definition subject_follows :: "string \<Rightarrow> bool" where
  "subject_follows s =
     (let t = (case s of c # rest \<Rightarrow> if c = CHR ''!'' then rest else s | [] \<Rightarrow> []) in
      starts_with '': '' t \<and> drop 2 t \<noteq> [] \<and> hd (drop 2 t) \<noteq> CHR 0x0A)"

definition conventional_title :: "string \<Rightarrow> bool" where
  "conventional_title title =
     list_ex (\<lambda>kind. starts_with kind title \<and>
       (case after_scope (drop (length kind) title) of None \<Rightarrow> False | Some s \<Rightarrow> subject_follows s)) commit_types"

definition summary :: "string \<Rightarrow> doc" where
  "summary text = [(''summary'', PStr text)]"

text \<open>\<open>_start_checks\<close>\<close>

definition start_checks :: "'s site \<Rightarrow> doc \<Rightarrow> string \<Rightarrow> ('s plane, unit) op" where
  "start_checks S e pr_title =
     db_bind (reading (\<lambda>_. require_managed_service_name (site_build S) (py_str (dget_or e ''service_name'' (PStr ''''))))) (\<lambda>_.
     db_bind (ensure_check S e ''quality'' ''queued''
       (summary ''Quality execution reserved by Engineering Platform.'') (check_ids e)) (\<lambda>ids1.
     db_bind (ensure_check S e ''workflows'' ''queued'' (summary ''Repository-specific contracts are pending.'') ids1) (\<lambda>ids2.
     db_bind (reading (\<lambda>_. need_all e [''operation''])) (\<lambda>_.
     db_bind (if is_str e ''operation'' ''pr_quality''
              then
                let valid = conventional_title pr_title in
                ensure_check S e ''title'' ''completed''
                  ((''conclusion'', PStr (if valid then ''success'' else ''failure'')) #
                   summary (if valid then ''Pull request title follows Conventional Commits.''
                            else ''Pull request title must follow Conventional Commits.'')) ids2
              else db_return ids2) (\<lambda>ids3.
     db_bind (if is_str e ''operation'' ''main_release''
              then ensure_check S e ''release'' ''queued'' (summary ''Release preparation is pending.'') ids3
              else db_return ids3) (\<lambda>ids4.
     db_bind (reading (\<lambda>_. need e ''execution_id'')) (\<lambda>i.
     db_bind (save_release S (py_str i) [(''check_ids'', PDict ids4)]) (\<lambda>_. db_return ()))))))))"

end
