(* ===== verification/ReleaseOrchestrator.thy ===== *)
theory ReleaseOrchestrator
  imports ReleasePlane
begin

text \<open>
  The handlers of \<open>services/release_orchestrator.py\<close>: webhooks that reserve and submit, releases started and cancelled by
  an operator, canary approval and retirement, and the health probe.
\<close>

section \<open>Submission\<close>

text \<open>What a check run of an execution is updated to.\<close>

definition update_check :: "'s site \<Rightarrow> doc \<Rightarrow> string \<Rightarrow> string \<Rightarrow> doc \<Rightarrow> pyval \<Rightarrow> ('s plane, unit) op" where
  "update_check S e kind status rest check_id =
     db_bind (reading (\<lambda>_. need_all e [''repository'', ''head_sha''])) (\<lambda>_.
     db_bind (reading (\<lambda>_. py_int check_id)) (\<lambda>n.
     db_bind (upsert_check S (check_of e kind status (rest @ [(''check_run_id'', PInt n)]))) (\<lambda>_. db_return ())))"

definition fail_checks :: "'s site \<Rightarrow> doc \<Rightarrow> doc \<Rightarrow> ('s plane, unit) op" where
  "fail_checks S e ids =
     for_each (\<lambda>(kind, check_id).
         if kind \<notin> {''quality'', ''workflows''} \<or> \<not> truthy check_id then db_return ()
         else update_check S e kind ''completed''
           ((''conclusion'', PStr ''failure'') # summary ''Release quality could not start. No build was created.'') check_id)
       ids"

definition show_running :: "'s site \<Rightarrow> doc \<Rightarrow> doc \<Rightarrow> doc \<Rightarrow> ('s plane, unit) op" where
  "show_running S e result ids =
     for_each (\<lambda>kind.
         if flag ids kind
         then update_check S e kind ''in_progress''
           ((''details_url'', PStr (py_str (dget_or result ''logs_url'' (PStr '''')))) # summary ''Quality is running.'')
           (dget ids kind)
         else db_return ())
       [''quality'', ''workflows'']"

text \<open>\<open>_submit_if_managed\<close>\<close>

definition submit_if_managed :: "'s site \<Rightarrow> doc \<Rightarrow> release_service \<Rightarrow> ('s plane, doc) op" where
  "submit_if_managed S e service =
     db_bind (reading (\<lambda>_. require_managed (site_build S) (core service))) (\<lambda>_.
     if flag e ''bootstrap_ticket_id'' then current_or S e
     else if \<not> is_str e ''provider'' ''cloud_build'' then db_return e
     else
       db_bind (reading (\<lambda>_. need e ''execution_id'')) (\<lambda>i.
       let submitted = on_builds (submit (site_build S) (si_backend S) (si_now S) (si_answers S (py_str i)) (py_str i) (core service)) in
       db_bind
         (\<lambda>w. case submitted w of
            (Inl (ReleaseCloudBuildError reason), w') \<Rightarrow>
              db_bind (get_release S (py_str i)) (\<lambda>found. case found of
                  None \<Rightarrow> db_raise (ReleaseCloudBuildError reason)
                | Some current \<Rightarrow>
                    if \<not> is_str current ''status'' ''failed'' then db_raise (ReleaseCloudBuildError reason)
                    else db_bind (fail_checks S e (check_ids current)) (\<lambda>_. db_return (current, False))) w'
          | (Inl err, w') \<Rightarrow> (Inl err, w')
          | (Inr result, w') \<Rightarrow> (Inr (result, True), w'))
         (\<lambda>(result, running).
            if \<not> running then db_return result
            else
              let ids = as_dict (py_or (py_or (dget result ''check_ids'') (dget e ''check_ids'')) (PDict [])) in
              db_bind (show_running S e result ids) (\<lambda>_. db_return result))))"

section \<open>Webhooks\<close>

definition is_sha :: "string \<Rightarrow> bool" where
  "is_sha s = (length s = 40 \<and> list_all (\<lambda>c. is_digit c \<or> c \<in> set ''abcdef'') s)"

text \<open>\<open>payload.get("a", {}).get("b", "")\<close> as text\<close>

fun payload_text :: "string list \<Rightarrow> string \<Rightarrow> doc \<Rightarrow> string result" where
  "payload_text [] k d = Inr (py_str (dget_or d k (PStr '''')))"
| "payload_text (p # ps) k d = then_result (attr_dict (dget_or d p (PDict []))) (payload_text ps k)"

text \<open>An obsolete pull request build, cancelled when a new head supersedes it.\<close>

definition superseded_by :: "string \<Rightarrow> int \<Rightarrow> doc \<Rightarrow> bool" where
  "superseded_by execution_id number d =
     (py_ne (dget d ''execution_id'') (PStr execution_id) \<and> is_str d ''operation'' ''pr_quality''
      \<and> py_eq (dget d ''pull_request_number'') (PInt number) \<and> is_str d ''provider'' ''cloud_build'' \<and> \<not> is_terminal d)"

definition cancel_superseded :: "'s site \<Rightarrow> string \<Rightarrow> string \<Rightarrow> int \<Rightarrow> ('s plane, unit) op" where
  "cancel_superseded S repo execution_id number =
     db_bind (reading (\<lambda>w. Inr (si_list S repo 50 (store_of w)))) (\<lambda>ds.
     for_each (\<lambda>d.
         let i = text_of d ''execution_id'' in
         db_bind (on_builds (cancel_build (site_build S) (si_backend S) (si_now S) (si_answers S i) i)) (\<lambda>_. db_return ()))
       (filter (superseded_by execution_id number) ds))"

text \<open>Checks and submission of an execution that has not ended; safe to repeat after a delivery that was cut short.\<close>

definition resume_release :: "'s site \<Rightarrow> release_service \<Rightarrow> string \<Rightarrow> doc \<Rightarrow> ('s plane, doc) op" where
  "resume_release S service title e =
     (if is_terminal e then db_return e
      else
        db_bind (start_checks S e title) (\<lambda>_.
        db_bind (current_or S e) (\<lambda>current.
        submit_if_managed S current service)))"

definition pull_request_service ::
  "'s site \<Rightarrow> string \<Rightarrow> pyval \<Rightarrow> release_intent \<Rightarrow> string \<Rightarrow> release_service \<Rightarrow> ('s plane, doc) op" where
  "pull_request_service S repo number intent title service =
     db_bind (reading (\<lambda>_. default_provider (si_config S) service)) (\<lambda>p.
     db_bind (reserve_release S service (intent\<lparr>ri_provider := p\<rparr>)) (\<lambda>(e, created).
     db_bind (reading (\<lambda>_. need e ''execution_id'')) (\<lambda>i.
     db_bind (if created
              then db_bind (reading (\<lambda>_. py_int number)) (\<lambda>n.
                db_bind (save_release S (py_str i) [(''pull_request_number'', PInt n)]) (\<lambda>_. db_return ()))
              else db_return ()) (\<lambda>_.
     db_bind (reading (\<lambda>_. py_int number)) (\<lambda>n.
     db_bind (cancel_superseded S repo (py_str i) n) (\<lambda>_.
     db_bind (current_or S e) (resume_release S service title)))))))"

definition handle_pull_request :: "'s site \<Rightarrow> doc \<Rightarrow> string \<Rightarrow> ('s plane, doc list) op" where
  "handle_pull_request S payload delivery =
     (if \<not> in_strs (dget payload ''action'') [''opened'', ''synchronize'', ''reopened''] then db_return []
      else
        db_bind (reading (\<lambda>_. payload_text [''repository''] ''full_name'' payload)) (\<lambda>repo.
        db_bind (reading (\<lambda>_. payload_text [''pull_request'', ''head''] ''sha'' payload)) (\<lambda>head.
        db_bind (reading (\<lambda>_. payload_text [''pull_request'', ''base''] ''sha'' payload)) (\<lambda>base.
        db_bind (reading (\<lambda>_. payload_text [''pull_request'', ''head''] ''ref'' payload)) (\<lambda>branch_name.
        db_bind (reading (\<lambda>_. payload_text [''pull_request''] ''title'' payload)) (\<lambda>title.
        let head_low = str_lower head; base_low = str_lower base in
        if \<not> (is_sha head_low \<and> is_sha base_low) \<or> head_low = base_low
        then db_raise (ReleaseOrchestratorError ''Pull request SHAs are invalid'')
        else
          db_bind (reading (\<lambda>_. services_of (si_config S) repo)) (\<lambda>services.
          collect (pull_request_service S repo (dget_or payload ''number'' (PInt 0))
              \<lparr>ri_operation = ''pr_quality'', ri_head = head_low, ri_base = base_low, ri_branch = branch_name,
               ri_delivery = delivery, ri_provider = '''', ri_selection = None, ri_trigger = ''''\<rparr> title)
            services)))))))"

definition push_service :: "'s site \<Rightarrow> release_intent \<Rightarrow> release_service \<Rightarrow> ('s plane, doc) op" where
  "push_service S intent service =
     db_bind (reading (\<lambda>_. default_provider (si_config S) service)) (\<lambda>p.
     db_bind (reserve_release S service (intent\<lparr>ri_provider := p\<rparr>)) (\<lambda>(e, _).
     resume_release S service '''' e))"

definition handle_push :: "'s site \<Rightarrow> doc \<Rightarrow> string \<Rightarrow> ('s plane, doc list) op" where
  "handle_push S payload delivery =
     (if flag payload ''deleted'' \<or> \<not> is_str payload ''ref'' ''refs/heads/main'' then db_return []
      else
        db_bind (reading (\<lambda>_. payload_text [''repository''] ''full_name'' payload)) (\<lambda>repo.
        db_bind (reading (\<lambda>_. payload_text [] ''after'' payload)) (\<lambda>head.
        db_bind (reading (\<lambda>_. payload_text [] ''before'' payload)) (\<lambda>base.
        let head_low = str_lower head; base_low = str_lower base in
        if \<not> is_sha head_low \<or> \<not> is_sha base_low \<or> base_low = replicate 40 (CHR ''0'') \<or> base_low = head_low
        then db_raise (ReleaseOrchestratorError ''Push does not contain a valid differential base'')
        else
          db_bind (reading (\<lambda>_. gh_fast_forward (si_github S) repo base_low head_low)) (\<lambda>forward.
          if \<not> forward then db_raise (ReleaseOrchestratorError ''Non-fast-forward main push is not releasable'')
          else
            db_bind (reading (\<lambda>_. services_of (si_config S) repo)) (\<lambda>services.
            collect (push_service S
                \<lparr>ri_operation = ''main_release'', ri_head = head_low, ri_base = base_low, ri_branch = ''main'',
                 ri_delivery = delivery, ri_provider = '''', ri_selection = None, ri_trigger = ''''\<rparr>)
              services))))))"

section \<open>Decisions on a release\<close>

definition release_or_key :: "'s site \<Rightarrow> string \<Rightarrow> ('s plane, doc) op" where
  "release_or_key S i =
     db_bind (get_release S i) (\<lambda>found. case found of None \<Rightarrow> db_raise (KeyError i) | Some e \<Rightarrow> db_return e)"

definition managed_execution :: "'s site \<Rightarrow> doc \<Rightarrow> unit result" where
  "managed_execution S e = require_managed_service_name (site_build S) (py_str (dget_or e ''service_name'' (PStr '''')))"

definition approve_canary :: "'s site \<Rightarrow> string \<Rightarrow> string \<Rightarrow> ('s plane, doc) op" where
  "approve_canary S i approved_by =
     db_bind (release_or_key S i) (\<lambda>e.
     db_bind (reading (\<lambda>_. first_error
        [managed_execution S e,
         raise_if (\<not> in_strs (dget e ''service_name'') (bc_canaries (site_build S))) (ValueError ''Execution is not a canary''),
         raise_if (\<not> is_str e ''status'' ''release_planned'') (ValueError ''Canary does not have an approved release plan'')])) (\<lambda>_.
     save_release S i [(''canary_approved'', PBool True), (''canary_approved_by'', PStr approved_by)]))"

definition supersedable :: "string list" where
  "supersedable = [''quality_passed'', ''release_planned'', ''publish_pending'']"

definition supersede :: "'s site \<Rightarrow> string \<Rightarrow> string \<Rightarrow> string \<Rightarrow> ('s plane, doc) op" where
  "supersede S i by reason =
     db_bind (release_or_key S i) (\<lambda>e.
     db_bind (reading (\<lambda>_. first_error
        [managed_execution S e,
         raise_if (flag e ''canary_approved'') (ValueError ''Execution already has an approved canary publication''),
         raise_if (py_str (dget_or e ''status'' (PStr '''')) \<notin> set supersedable)
           (ValueError ''Execution is not awaiting a release decision'')])) (\<lambda>_.
     save_release S i [(''status'', PStr ''superseded''), (''superseded_by'', PStr by), (''superseded_reason'', PStr (take 500 reason))]))"

section \<open>Starting a release\<close>

definition service_named :: "plane_config \<Rightarrow> string \<Rightarrow> release_service option" where
  "service_named cf name = find (\<lambda>service. cs_name service = name) (pc_catalog cf)"

definition selection_of :: "doc \<Rightarrow> recorded_selection" where
  "selection_of e = SelectionDict (dget e ''provider_selection'')"

text \<open>The checks before anything is reserved, outside the mock mode.\<close>

definition current_head_checks :: "'s site \<Rightarrow> release_service \<Rightarrow> string \<Rightarrow> string \<Rightarrow> unit result" where
  "current_head_checks S service head base =
     (if mock_mode (bc_settings (site_build S)) then Inr ()
      else
        let repo = (case cs_repository service of None \<Rightarrow> '''' | Some r \<Rightarrow> r) in
        then_result (gh_default_sha (si_github S) repo) (\<lambda>sha.
        if sha \<noteq> head then Inl (HTTPException 409 ''Release SHA must match the current default branch'')
        else
          then_result (gh_fast_forward (si_github S) repo base head) (\<lambda>forward.
          raise_if (\<not> forward) (HTTPException 409 ''Release base is not an ancestor of head''))))"

text \<open>The selected executor is started; whatever fails, the execution is ended and no other one is tried.\<close>

definition launch :: "'s site \<Rightarrow> release_service \<Rightarrow> string \<Rightarrow> doc \<Rightarrow> ('s plane, doc) op" where
  "launch S service effective e =
     db_bind (reading (\<lambda>_. need e ''execution_id'')) (\<lambda>i.
     db_bind
       (db_catch
         (db_bind (start_checks S e '''') (\<lambda>_.
          if effective = ''cloud_build''
          then db_bind (submit_if_managed S e service) (\<lambda>d. db_return (Some d))
          else db_bind (call_github (DispatchRelease (py_str i)) (gh_dispatch (si_github S))) (\<lambda>_. db_return None)))
         (\<lambda>_. db_bind (save_release S (py_str i)
            [(''status'', PStr ''failed''),
             (''error'', PStr (''Selected provider could not start; provider remains '' @ effective))])
            (\<lambda>_. db_raise (HTTPException 502 ''Selected provider could not start; no alternate provider was launched''))))
       (\<lambda>r. case r of Some d \<Rightarrow> db_return d | None \<Rightarrow> current_or S e))"

definition start_release ::
  "'s site \<Rightarrow> string \<Rightarrow> string \<Rightarrow> string \<Rightarrow> string \<Rightarrow> string option \<Rightarrow> ('s plane, doc) op" where
  "start_release S name head base requested_by requested =
     (let cf = si_config S in
      db_bind (reading (\<lambda>_. require_managed_service_name (pc_build cf) name)) (\<lambda>_.
      case service_named cf name of
        None \<Rightarrow> db_raise (HTTPException 404 ''Unknown release service'')
      | Some service \<Rightarrow>
          db_bind (reading (\<lambda>_. first_error
            [require_managed (pc_build cf) (core service),
             raise_if (\<not> service_enabled cf service) (HTTPException 409 ''Release orchestration is not enabled for this service''),
             raise_if (\<not> is_sha head \<or> \<not> is_sha base \<or> head = base)
               (HTTPException 422 ''Release requires distinct full head and base SHAs'')])) (\<lambda>_.
          let repo = (case cs_repository service of None \<Rightarrow> '''' | Some r \<Rightarrow> r) in
          db_bind (reading (\<lambda>w. Inr (si_find S repo head ''main_release'' (store_of w)))) (\<lambda>previous.
          case previous of
            Some (x # xs) \<Rightarrow>
              let e = x # xs in
              db_bind (reading (\<lambda>_. first_error
                [raise_if (py_ne (dget e ''base_sha'') (PStr base)) (HTTPException 409 ''Existing release keeps its differential base''),
                 require_same (selection_of e) requested (dget e ''provider'')])) (\<lambda>_. db_return e)
          | _ \<Rightarrow>
              db_bind (reading (\<lambda>_. current_head_checks S service head base)) (\<lambda>_.
              db_bind (reading (\<lambda>_. if requested = None \<and> rs_executor service = None then default_provider cf service
                                    else Inr ''github_actions'')) (\<lambda>legacy.
              db_bind (reading (\<lambda>_. select (executors service) requested ''release'' legacy)) (\<lambda>p.
              db_bind (reading (\<lambda>_. if ps_effective p = ''cloud_build'' then require_new_builds (bc_settings (pc_build cf)) else Inr ())) (\<lambda>_.
              db_bind (reserve_release S service
                 \<lparr>ri_operation = ''main_release'', ri_head = head, ri_base = base, ri_branch = ''main'',
                  ri_delivery = ''operator:'' @ requested_by, ri_provider = ps_effective p, ri_selection = Some p,
                  ri_trigger = ''workflow_dispatch''\<rparr>) (\<lambda>(e, created).
              db_bind (reading (\<lambda>_. require_same (selection_of e) requested (dget e ''provider''))) (\<lambda>_.
              if \<not> created \<or> mock_mode (bc_settings (pc_build cf)) then db_return e
              else launch S service (ps_effective p) e))))))))))"

section \<open>Cancelling a release\<close>

definition cancel_decision :: "string \<Rightarrow> doc \<Rightarrow> (doc \<times> doc option) result" where
  "cancel_decision name current =
     (if \<not> is_str current ''service_name'' name then Inl (HTTPException 404 ''Unknown release execution'')
      else if is_terminal current then Inr ([], Some current)
      else if in_strs (dget current ''status'') [''submitting'', ''unknown'']
      then Inl (HTTPException 409 ''Uncertain submission requires reconciliation before cancellation'')
      else Inr ([(''status'', PStr ''failed''), (''error'', PStr ''Cancelled by operator'')], None))"

definition cancel_release :: "'s site \<Rightarrow> string \<Rightarrow> string \<Rightarrow> ('s plane, doc) op" where
  "cancel_release S name i =
     db_bind (reading (\<lambda>_. require_managed_service_name (site_build S) name)) (\<lambda>_.
     db_bind
       (\<lambda>w. case on_store (mutate (bc_settings (site_build S)) (si_backend S) i (cancel_decision name)) w of
          (Inl (KeyError _), w') \<Rightarrow> (Inl (HTTPException 404 ''Unknown release execution''), w')
        | r \<Rightarrow> r)
       (\<lambda>(updated, found).
          let e = (case found of None \<Rightarrow> updated | Some d \<Rightarrow> d) in
          if \<not> is_str e ''error'' ''Cancelled by operator'' then db_return e
          else if is_str e ''provider'' ''github_actions'' \<and> flag e ''provider_run_id''
          then
            db_bind (reading (\<lambda>_. need_all e [''repository''])) (\<lambda>_.
            db_bind (reading (\<lambda>_. py_int (dget e ''provider_run_id''))) (\<lambda>n.
            db_bind (call_github (CancelRun (text_of e ''repository'') n) (gh_cancel (si_github S))) (\<lambda>_. db_return e)))
          else if is_str e ''provider'' ''cloud_build'' \<and> flag e ''build_id''
          then db_bind (on_builds (cancel_build (site_build S) (si_backend S) (si_now S) (si_answers S i) i)) (\<lambda>_. db_return e)
          else db_return e))"

section \<open>The health probe\<close>

text \<open>
  \<open>grants\<close>: what the MCP grant of the requester says before the reservation and before the dispatch; \<open>key\<close> is the
  idempotency key or the random one that stands for it.
\<close>

definition probe_authority :: "plane_config \<Rightarrow> string \<Rightarrow> unit result \<Rightarrow> unit result" where
  "probe_authority cf requested_by grant =
     first_error
       [raise_if (pc_logins cf = [] \<or> str_lower requested_by \<notin> set (pc_logins cf))
          (HTTPException 403 ''You are not allowed to request a health probe''), grant]"

definition request_health_probe ::
  "'s site \<Rightarrow> unit result \<times> unit result \<Rightarrow> string \<Rightarrow> string \<Rightarrow> string \<Rightarrow> string \<Rightarrow> ('s plane, doc) op" where
  "request_health_probe S grants nonce requested_by reason key =
     (let cf = si_config S; repo = pc_health_repository cf; owner = owner_of cf repo in
      db_bind (reading (\<lambda>_. first_error
        [probe_authority cf requested_by (fst grants),
         raise_if (repo = '''' \<or> pc_health_workflow cf = '''')
           (ReleaseOrchestratorError ''Health probe repository/workflow is not configured'')])) (\<lambda>_.
      db_bind
        (db_catch
          (on_circuits (reserve_probe (bc_settings (site_build S)) (si_backend S) (si_now S) (si_now S) nonce owner
             \<lparr>pr_repository = repo, pr_workflow = pc_health_workflow cf, pr_requested_by = requested_by,
              pr_reason = reason, pr_idempotency_key = key\<rparr>))
          (\<lambda>err. db_raise (case err of ProbeRequestConflict t \<Rightarrow> ProbeRequestConflict t
             | _ \<Rightarrow> ReleaseOrchestratorError ''Health probe reservation is unavailable'')))
        (\<lambda>(circuit, created).
          if \<not> created then db_return (public_probe_status circuit)
          else
            let held = py_str (dget (probe_of circuit) ''nonce'');
                finish = (\<lambda>status. on_circuits (finish_probe_dispatch (si_backend S) (si_now S) owner held status)) in
            case probe_authority cf requested_by (snd grants) of
              Inl err \<Rightarrow>
                db_bind
                  (db_catch (finish ''not_dispatched'')
                    (\<lambda>_. db_raise (ReleaseOrchestratorError ''Health probe authorization changed; reservation remains fenced'')))
                  (\<lambda>_. db_raise err)
            | Inr _ \<Rightarrow>
                db_bind
                  (\<lambda>w. case call_github (DispatchProbe repo held) (gh_dispatch (si_github S)) w of
                     (Inl _, w') \<Rightarrow> (Inr ''uncertain'', w')
                   | (Inr _, w') \<Rightarrow> (Inr ''dispatched'', w'))
                  (\<lambda>status. db_bind
                     (db_catch (finish status)
                       (\<lambda>_. db_raise (ReleaseOrchestratorError ''Health probe outcome could not be saved; do not dispatch another probe'')))
                     (\<lambda>d. db_return (public_probe_status d))))))"

end
