(* ===== verification/ReleaseReconciler.thy ===== *)
theory ReleaseReconciler
  imports ReleasePlane
begin

text \<open>
  \<open>services/release_reconciler.py\<close>: engine output is consolidated only after its provider succeeded.  The stores of
  quality reports, the float arithmetic of build times, and what GitHub and Cloud Build answer belong to the site.
\<close>

section \<open>The site of a reconciliation\<close>

record quality_report =
  qr_service :: string
  qr_repository :: string
  qr_commit :: string
  qr_base :: string
  qr_policy :: string
  qr_gate :: string

text \<open>
  \<open>re_build\<close> answers the read of a build by id, \<open>re_listing\<close> and \<open>re_pages\<close> the searches for a lost one, \<open>re_later\<close> the
  submission that may follow; \<open>re_age\<close> is the time since a timestamp in microseconds, or the exception of parsing it, and
  \<open>re_elapsed\<close> the same with an unreadable timestamp as zero.
\<close>

record 's recon_site = "'s site" +
  re_build :: "string \<Rightarrow> reply"
  re_pages :: "string \<Rightarrow> reply"
  re_listing :: reply
  re_later :: answers
  re_age :: "string \<Rightarrow> int result"
  re_elapsed :: "string \<Rightarrow> int"
  re_timing :: "doc \<Rightarrow> doc \<Rightarrow> doc option"
  re_report :: "string \<Rightarrow> string \<Rightarrow> quality_report option"
  re_commit :: "quality_report \<Rightarrow> (quality_report \<times> string) result"
  re_errors :: "quality_report \<Rightarrow> string list"

definition at_site :: "'s recon_site \<Rightarrow> 's site" where
  "at_site R = site.truncate R"

text \<open>A search may not end; the operations of this theory are sequences of operations and one search.\<close>

type_synonym ('s, 'a) search = "'s \<Rightarrow> ('a result \<times> 's) option"

definition then_search :: "('s, 'a) search \<Rightarrow> ('a \<Rightarrow> ('s, 'b) op) \<Rightarrow> ('s, 'b) search" where
  "then_search m k w =
     (case m w of None \<Rightarrow> None | Some (Inl e, w') \<Rightarrow> Some (Inl e, w') | Some (Inr x, w') \<Rightarrow> Some (k x w'))"

section \<open>Checks\<close>

definition complete_check :: "'s site \<Rightarrow> doc \<Rightarrow> string \<Rightarrow> string \<Rightarrow> string \<Rightarrow> ('s plane, unit) op" where
  "complete_check S e kind conclusion reason =
     (let check_id = dget (check_ids e) kind in
      if \<not> truthy check_id then db_return ()
      else
        db_bind (reading (\<lambda>_. need_all e [''repository'', ''head_sha''])) (\<lambda>_.
        db_bind (reading (\<lambda>_. py_int check_id)) (\<lambda>n.
        db_bind (upsert_check S
            [(''repository'', PStr (text_of e ''repository'')), (''head_sha'', PStr (text_of e ''head_sha'')),
             (''kind'', PStr kind), (''status'', PStr ''completed''), (''conclusion'', PStr conclusion),
             (''details_url'', PStr (py_str (py_or (py_or (dget e ''logs_url'') (dget e ''github_run_url'')) (PStr '''')))),
             (''summary'', PStr reason), (''check_run_id'', PInt n)])
          (\<lambda>_. db_return ()))))"

definition complete_quality :: "'s site \<Rightarrow> doc \<Rightarrow> string \<Rightarrow> string \<Rightarrow> string \<Rightarrow> ('s plane, unit) op" where
  "complete_quality S e conclusion quality workflows =
     db_bind (complete_check S e ''quality'' conclusion quality) (\<lambda>_.
     complete_check S e ''workflows'' conclusion workflows)"

section \<open>Builds\<close>

definition failed_states :: "string list" where
  "failed_states = [''FAILURE'', ''TIMEOUT'', ''CANCELLED'', ''EXPIRED'', ''INTERNAL_ERROR'']"

definition verify_fields :: "build_config \<Rightarrow> doc \<Rightarrow> string \<Rightarrow> int \<Rightarrow> doc" where
  "verify_fields cf e planner count =
     [(''_EXECUTION_ID'', dget e ''execution_id''), (''_REQUEST_FINGERPRINT'', dget e ''fingerprint''),
      (''_SERVICE_NAME'', dget e ''service_name''), (''_REPOSITORY'', dget e ''repository''),
      (''_HEAD_SHA'', dget e ''head_sha''), (''_BASE_SHA'', dget e ''base_sha''),
      (''_EXECUTOR_DIGEST'', dget e ''executor_digest''), (''_OPERATION'', dget e ''operation''),
      (''_PROFILE_SHA256'', dget e ''profile_hash'')] @
     (if \<not> is_str e ''operation'' ''main_release'' then []
      else
        [(''_PLANNER_SHA256'', dget e ''planner_hash''),
         (''_PLANNER_DIGEST'', PStr (if planner \<noteq> '''' then planner else bc_planner_image cf))] @
        (if count \<noteq> 0 then [(''_PLANNER_RETRY_ATTEMPT'', PStr (int_text count))] else []) @
        (if count = 3 \<and> flag e ''planner_contract_retry_pending''
         then [(''_PLANNER_IMAGE_SHA256'', PStr (py_str (dget_or e ''planner_contract_retry_hash'' (PStr ''''))))] else []))"

text \<open>\<open>_verify_build\<close>\<close>

definition verify_build :: "build_config \<Rightarrow> doc \<Rightarrow> doc \<Rightarrow> string \<Rightarrow> unit result" where
  "verify_build cf e build planner =
     then_result (if flag e ''bootstrap_ticket_id'' then verify_bootstrap_build e build '''' else Inr ()) (\<lambda>_.
     then_result (attr_dict (dget_or build ''substitutions'' (PDict []))) (\<lambda>substitutions.
     then_result (attr_dict (dget_or build ''source'' (PDict []))) (\<lambda>from.
     then_result (attr_dict (dget_or from ''connectedRepository'' (PDict []))) (\<lambda>source.
     then_result (need_all e [''service_name'']) (\<lambda>_.
     let repo = (case map_of (bc_repositories cf) (text_of e ''service_name'') of None \<Rightarrow> '''' | Some v \<Rightarrow> v) in
     if py_str (dget_or build ''id'' (PStr '''')) \<noteq> py_str (dget_or e ''build_id'' (PStr '''')) \<or> repo = ''''
        \<or> \<not> is_str source ''repository'' repo \<or> py_ne (dget source ''revision'') (dget e ''head_sha'')
     then Inl (ValueError ''Cloud Build release source does not match execution'')
     else
       let main = is_str e ''operation'' ''main_release'' in
       then_result (need_all e ([''execution_id'', ''fingerprint'', ''service_name'', ''repository'', ''head_sha'', ''base_sha'',
         ''executor_digest'', ''operation'', ''profile_hash''] @ (if main then [''planner_hash''] else []))) (\<lambda>_.
       then_result (if main then retry_count e else Inr 0) (\<lambda>count.
       first_error
         [raise_if (list_ex (\<lambda>(k, v). py_ne (dget substitutions k) v) (verify_fields cf e planner count))
            (ValueError ''Cloud Build release identity does not match execution''),
          raise_if (\<not> is_str build ''serviceAccount'' (bc_account cf))
            (ValueError ''Cloud Build release service account does not match'')])))))))"

text \<open>\<open>_record_build_timing\<close>: what it saves, if the times can be read, belongs to the site.\<close>

definition record_timing :: "'s recon_site \<Rightarrow> string \<Rightarrow> doc \<Rightarrow> ('s plane, unit) op" where
  "record_timing R i build =
     db_bind (get_release (at_site R) i) (\<lambda>found.
     case re_timing R (case found of None \<Rightarrow> [] | Some d \<Rightarrow> d) build of
       None \<Rightarrow> db_return ()
     | Some changes \<Rightarrow> db_bind (save_release (at_site R) i changes) (\<lambda>_. db_return ()))"

definition read_build :: "'s recon_site \<Rightarrow> string \<Rightarrow> doc result" where
  "read_build R i = then_result (get_build (re_build R i)) attr_dict"

definition failed_steps :: "doc \<Rightarrow> string list" where
  "failed_steps build =
     map (\<lambda>s. py_str (dget_or s ''id'' (PStr '''')))
       (filter (\<lambda>s. py_str (dget_or s ''status'' (PStr '''')) \<in> set failed_states)
         (map as_dict (as_list (dget_or build ''steps'' (PList [])))))"

text \<open>The outcome of a build that was read and verified.\<close>

definition build_outcome :: "'s recon_site \<Rightarrow> doc \<Rightarrow> doc \<Rightarrow> ('s plane, bool) op" where
  "build_outcome R e build =
     (let S = at_site R; i = text_of e ''execution_id''; state = py_str (dget_or build ''status'' (PStr '''')) in
      if state = ''SUCCESS'' then
        db_bind (record_timing R i build) (\<lambda>_.
        db_bind (if flag e ''planner_retry_pending''
                 then db_bind (save_release S i
                   [(''planner_retry_pending'', PBool False), (''planner_retry_completed_at'', PStr (si_now S))]) (\<lambda>_. db_return ())
                 else db_return ()) (\<lambda>_. db_return True))
      else if state \<notin> set failed_states then db_return False
      else if state = ''FAILURE'' \<and> is_str e ''engine_event_status'' ''quality_failed'' \<and> flag e ''pending_report_hash''
      then db_bind (record_timing R i build) (\<lambda>_. db_return True)
      else if state = ''FAILURE'' \<and> (is_str e ''engine_event_status'' ''quality_passed'' \<or> flag e ''release_engine_failed'')
              \<and> flag e ''pending_report_hash''
      then
        let step = (case failed_steps build of [] \<Rightarrow> '''' | s # _ \<Rightarrow> s) in
        db_bind (save_release S i
          ([(''release_engine_failed'', PBool True),
            (''release_error'', PStr (py_str (py_or (dget e ''release_error'') (PStr ''Release planner failed''))))] @
           (if step \<noteq> '''' then [(''release_failed_step'', PStr step)] else []))) (\<lambda>_.
        db_bind (record_timing R i build) (\<lambda>_. db_return True))
      else
        db_bind (save_release S i
          [(''status'', PStr ''failed''), (''provider_status'', PStr state),
           (''error'', PStr (''Quality build concluded '' @ state))]) (\<lambda>_.
        db_bind (complete_quality S e ''failure'' (''Quality build: '' @ state) (''Quality build: '' @ state)) (\<lambda>_.
        db_return False)))"

definition catalog_named :: "'s recon_site \<Rightarrow> string \<Rightarrow> catalog_service option" where
  "catalog_named R name =
     map_option catalog_service.truncate (find (\<lambda>service. cs_name service = name) (pc_catalog (si_config R)))"

text \<open>\<open>_provider_success\<close>\<close>

definition bound_success :: "'s recon_site \<Rightarrow> doc \<Rightarrow> ('s plane, bool) op" where
  "bound_success R e =
     (let build_id = py_str (dget_or e ''build_id'' (PStr '''')) in
      if build_id = '''' then db_return False
      else
        db_bind (reading (\<lambda>_. read_build R build_id)) (\<lambda>build.
        db_bind (reading (\<lambda>_. verify_build (pc_build (si_config R)) e build '''')) (\<lambda>_. build_outcome R e build)))"

text \<open>The build id that the recovery of a bootstrap reads, from the execution as it is then.\<close>

definition bound_id :: "'s recon_site \<Rightarrow> string \<Rightarrow> 's plane \<Rightarrow> string" where
  "bound_id R i w =
     (case rx_get (bc_settings (pc_build (si_config R))) (si_backend R) i (store_of w) of
        Inr (Some d) \<Rightarrow> text_of d ''build_id''
      | _ \<Rightarrow> '''')"

definition find_lost :: "'s recon_site \<Rightarrow> doc \<Rightarrow> catalog_service \<Rightarrow> ('s plane, doc) search" where
  "find_lost R e service w =
     map_option (\<lambda>(r, b). (r, w\<lparr>builds := b\<rparr>))
       (reconcile_uncertain_submission (pc_build (si_config R)) (si_backend R) (si_now R) (re_age R)
         (re_build R (bound_id R (text_of e ''execution_id'') w)) (re_pages R) (re_listing R) (re_later R) (text_of e ''execution_id'')
         service (builds w))"

definition provider_success :: "'s recon_site \<Rightarrow> doc \<Rightarrow> ('s plane, bool) search" where
  "provider_success R e w =
     (if is_str e ''provider'' ''github_actions'' then Some (Inr (flag e ''provider_terminal_success''), w)
      else if py_str (dget_or e ''build_id'' (PStr '''')) \<noteq> '''' then Some (bound_success R e w)
      else
        (case need_all e [''service_name''] of
           Inl err \<Rightarrow> Some (Inl err, w)
         | Inr _ \<Rightarrow>
             (case catalog_named R (text_of e ''service_name'') of
                None \<Rightarrow> Some (Inl (ValueError ''Release service disappeared''), w)
              | Some service \<Rightarrow> then_search (find_lost R e service) (bound_success R) w)))"

section \<open>Evidence\<close>

text \<open>\<open>_commit_quality\<close>\<close>

definition report_matches :: "doc \<Rightarrow> quality_report \<Rightarrow> bool" where
  "report_matches e q =
     (is_str e ''service_name'' (qr_service q) \<and> is_str e ''repository'' (qr_repository q)
      \<and> is_str e ''head_sha'' (str_lower (qr_commit q)) \<and> is_str e ''base_sha'' (str_lower (qr_base q))
      \<and> qr_policy q = ''oss-v2'')"

definition commit_quality :: "'s recon_site \<Rightarrow> doc \<Rightarrow> ('s plane, doc) op" where
  "commit_quality R e =
     (let S = at_site R; report_hash = py_str (dget_or e ''pending_report_hash'' (PStr '''')) in
      if report_hash = '''' then db_raise (ValueError ''Successful provider did not produce a quality report'')
      else
        db_bind (reading (\<lambda>_. need_all e [''execution_id''])) (\<lambda>_.
        case re_report R (text_of e ''execution_id'') report_hash of
          None \<Rightarrow> db_raise (ValueError ''Pending quality report is missing'')
        | Some report \<Rightarrow>
            if \<not> report_matches e report then db_raise (ValueError ''Quality report does not match release execution'')
            else
              db_bind (reading (\<lambda>_. need_all e
                [''fingerprint'', ''provider'', ''executor_digest'', ''profile_hash'', ''policy_hash'', ''operation''])) (\<lambda>_.
              db_bind (reading (\<lambda>_. re_commit R report)) (\<lambda>(stored_report, committed).
              let i = text_of e ''execution_id''; errors = re_errors R stored_report in
              if qr_gate stored_report \<noteq> ''PASSED'' \<or> errors \<noteq> []
              then
                db_bind (save_release S i
                  [(''status'', PStr ''quality_failed''), (''report_hash'', PStr committed), (''quality_errors'', PList (map PStr errors))])
                  (\<lambda>d. db_bind (complete_quality S d ''failure'' ''Quality policy failed.'' ''Quality policy failed.'') (\<lambda>_. db_return d))
              else
                db_bind (save_release S i
                  [(''status'', PStr ''quality_passed''), (''report_hash'', PStr committed), (''evidence_committed'', PBool True)])
                  (\<lambda>d. db_bind (complete_quality S d ''success'' ''Exact oss-v2 evidence passed.'' ''Service contracts passed.'')
                    (\<lambda>_. db_return d))))))"

section \<open>Publication\<close>

definition publication_unsure :: "'s site \<Rightarrow> string \<Rightarrow> py_err \<Rightarrow> ('s plane, doc) op" where
  "publication_unsure S i err =
     (case err of
        GitHubReleaseConflict t \<Rightarrow>
          db_bind (save_release S i [(''status'', PStr ''unknown''), (''error'', PStr t)])
            (\<lambda>d. db_bind (complete_check S d ''release'' ''action_required'' t) (\<lambda>_. db_return d))
      | _ \<Rightarrow>
          db_bind (save_release S i
              [(''status'', PStr ''unknown''), (''error'', PStr ''GitHub release publication is uncertain''),
               (''publication_uncertain'', PBool True), (''publication_error'', PStr (take 1000 (err_text err)))])
            (\<lambda>d. db_bind (complete_check S d ''release'' ''action_required'' (take 500 (err_text err))) (\<lambda>_. db_return d)))"

definition publish_now :: "'s site \<Rightarrow> doc \<Rightarrow> ('s plane, doc) op" where
  "publish_now S e w =
     (let i = text_of e ''execution_id'' in
      case call_github (PublishRelease i) (gh_publish (si_github S)) w of
        (Inl err, w') \<Rightarrow> publication_unsure S i err w'
      | (Inr published, w') \<Rightarrow>
          db_bind (save_release S i (dict_update [(''status'', PStr ''released''), (''publication_uncertain'', PBool False)] published))
            (\<lambda>d. db_bind (reading (\<lambda>_. need published ''tag'')) (\<lambda>tag.
               db_bind (complete_check S d ''release'' ''success'' (''Published '' @ py_str tag @ ''.'')) (\<lambda>_. db_return d))) w')"

text \<open>\<open>_publish_if_allowed\<close>\<close>

definition publish_if_allowed :: "'s site \<Rightarrow> doc \<Rightarrow> ('s plane, doc) op" where
  "publish_if_allowed S e =
     db_bind (reading (\<lambda>_. first_error
       [require_managed_service_name (site_build S) (py_str (dget_or e ''service_name'' (PStr ''''))),
        need_all e [''service_name'']])) (\<lambda>_.
     if text_of e ''service_name'' \<notin> set (bc_services (site_build S)) \<and> \<not> flag e ''canary_approved'' then db_return e
     else
       db_bind (reading (\<lambda>_. need_all e [''execution_id''])) (\<lambda>_.
       db_bind
         (if is_str e ''status'' ''release_planned''
          then db_bind (on_store (claim_publish (si_backend S) (si_now S) (si_now S) (text_of e ''execution_id''))) (\<lambda>won.
            db_bind (current_or S e) (\<lambda>d. db_return (d, won)))
          else db_return (e, True))
         (\<lambda>(d, won).
            if \<not> won \<or> \<not> in_strs (dget d ''status'') [''publish_pending'', ''unknown'']
               \<or> (is_str d ''status'' ''unknown'' \<and> \<not> flag d ''publication_uncertain'')
            then db_return d
            else publish_now S d)))"

section \<open>Planner recovery\<close>

definition planner_digest_of :: "doc \<Rightarrow> string \<Rightarrow> string result" where
  "planner_digest_of build k =
     map_result (\<lambda>d. py_str (dget_or d k (PStr ''''))) (attr_dict (dget_or build ''substitutions'' (PDict [])))"

text \<open>
  The inspection of the failed build: the build with its planner digest, or none when it is not the one to retry.
\<close>

definition inspect_retry :: "'s recon_site \<Rightarrow> doc \<Rightarrow> int \<Rightarrow> (doc \<times> string) option result" where
  "inspect_retry R e count =
     (let cf = pc_build (si_config R) in
      then_result (need e ''build_id'') (\<lambda>b.
      then_result (read_build R (py_str b)) (\<lambda>build.
      then_result (planner_digest_of build ''_PLANNER_DIGEST'') (\<lambda>digest.
      then_result (planner_digest_of build ''_PLANNER_RETRY_ATTEMPT'') (\<lambda>attempt.
      if count = 1 \<and> (attempt \<noteq> ''1'' \<or> \<not> image_pinned digest \<or> digest = bc_planner_image cf
            \<or> (flag e ''planner_retry_image'' \<and> \<not> is_str e ''planner_retry_image'' digest))
      then Inr None
      else
        then_result (if count = 2 \<and> attempt = ''2'' \<and> digest = bc_planner_image cf
              \<and> is_str e ''planner_remediation_retry_image'' digest then planner_hash_of cf else Inr '''') (\<lambda>plan.
        if count = 2 \<and> (attempt \<noteq> ''2'' \<or> digest \<noteq> bc_planner_image cf
              \<or> \<not> is_str e ''planner_remediation_retry_image'' digest \<or> \<not> is_str e ''planner_remediation_retry_hash'' plan)
        then Inr None
        else then_result (verify_build cf e build (if count = 1 then digest else '''')) (\<lambda>_. Inr (Some (build, digest)))))))))"

definition checked_field :: "int \<Rightarrow> string" where
  "checked_field count =
     (if count = 2 then ''planner_contract_retry_checked''
      else if count = 1 then ''planner_remediation_retry_checked'' else ''planner_retry_checked'')"

text \<open>Staging and submission of the retry; whatever fails leaves it to a later reconciliation.\<close>

definition stage_and_submit :: "'s recon_site \<Rightarrow> doc \<Rightarrow> int \<Rightarrow> string \<Rightarrow> ('s plane, doc) op" where
  "stage_and_submit R e count digest =
     (let S = at_site R; cf = site_build S in
      db_catch
        (db_bind (reading (\<lambda>_. planner_hash_of cf)) (\<lambda>plan.
         db_bind (on_store (stage_planner_retry (bc_settings cf) (si_backend S) (si_now S) (text_of e ''execution_id'')
           \<lparr>failed_build_id = text_of e ''build_id'', planner_image = bc_planner_image cf, planner_hash_value = plan,
            remediation = (count = 1), contract_retry = (count = 2),
            previous_planner_image = (if count = 1 then digest else '''')\<rparr>)) (\<lambda>staged.
         case catalog_named R (text_of staged ''service_name'') of
           None \<Rightarrow> db_raise (ValueError ''Release service disappeared before planner retry'')
         | Some service \<Rightarrow>
             on_builds (submit cf (si_backend S) (si_now S) (re_later R) (text_of staged ''execution_id'') service))))
        (\<lambda>_. current_or S e))"

text \<open>\<open>_retry_planner_after_verified_step_failure\<close>\<close>

definition retry_planner :: "'s recon_site \<Rightarrow> doc \<Rightarrow> ('s plane, doc) op" where
  "retry_planner R e =
     (let S = at_site R; cf = site_build S in
      if \<not> cloud_build_enabled (bc_settings cf) \<or> \<not> new_builds_enabled (bc_settings cf) then db_return e
      else
        db_bind (reading (\<lambda>_. retry_count e)) (\<lambda>count.
        db_bind (reading (\<lambda>_. if count \<notin> {0, 1, 2} then Inr False
            else planner_retry_candidate e (count = 1) (count = 2))) (\<lambda>candidate.
        if \<not> candidate then db_return e
        else
          (case inspect_retry R e count of
             Inl _ \<Rightarrow> db_return e
           | Inr None \<Rightarrow> db_return e
           | Inr (Some (build, digest)) \<Rightarrow>
               db_bind (reading (\<lambda>_. need_all e [''execution_id''])) (\<lambda>_.
               if py_str (dget_or build ''status'' (PStr '''')) \<notin> set failed_states \<or> failed_steps build \<noteq> [''release-plan'']
               then save_release S (text_of e ''execution_id'') [(checked_field count, PBool True)]
               else
                 db_bind (record_timing R (text_of e ''execution_id'') build) (\<lambda>_. stage_and_submit R e count digest))))))"

definition drifted :: "doc \<Rightarrow> bool" where
  "drifted e =
     (is_str e ''status'' ''unknown'' \<and> is_str e ''error'' ''Cloud Build release identity does not match execution''
      \<and> is_str e ''provider'' ''cloud_build'' \<and> is_str e ''operation'' ''main_release''
      \<and> flag e ''release_engine_failed'' \<and> is_str e ''engine_event_status'' ''quality_passed''
      \<and> flag e ''evidence_committed'' \<and> flag e ''report_hash'')"

text \<open>\<open>_recover_unknown_planner_identity_drift\<close>\<close>

definition inspect_drift :: "'s recon_site \<Rightarrow> doc \<Rightarrow> bool result" where
  "inspect_drift R e =
     (let cf = pc_build (si_config R) in
      then_result (need e ''build_id'') (\<lambda>b.
      then_result (read_build R (py_str b)) (\<lambda>build.
      then_result (planner_digest_of build ''_PLANNER_DIGEST'') (\<lambda>digest.
      then_result (planner_digest_of build ''_PLANNER_RETRY_ATTEMPT'') (\<lambda>attempt.
      if attempt \<noteq> ''1'' \<or> \<not> image_pinned digest \<or> digest = bc_planner_image cf then Inr False
      else
        then_result (verify_build cf e build digest) (\<lambda>_.
        Inr (py_str (dget_or build ''status'' (PStr '''')) = ''FAILURE'' \<and> failed_steps build = [''release-plan''])))))))"

definition recover_drift :: "'s recon_site \<Rightarrow> doc \<Rightarrow> ('s plane, doc) op" where
  "recover_drift R e =
     (if \<not> drifted e then db_return e
      else
        db_bind (reading (\<lambda>_. retry_count e)) (\<lambda>count.
        if count \<noteq> 1 \<or> \<not> flag e ''planner_retry_checked'' \<or> flag e ''planner_remediation_retry_checked'' \<or> \<not> flag e ''build_id''
        then db_return e
        else
          (case inspect_drift R e of
             Inr True \<Rightarrow>
               db_bind (reading (\<lambda>_. need_all e [''execution_id''])) (\<lambda>_.
               db_bind (save_release (at_site R) (text_of e ''execution_id'')
                 [(''status'', PStr ''failed''),
                  (''error'', PStr ''Verified planner-only failure; callback image identity drift reconciled'')])
                 (retry_planner R))
           | _ \<Rightarrow> db_return e)))"

section \<open>Reconciliation\<close>

definition dispatch_diagnostic :: string where
  "dispatch_diagnostic =
     ''GitHub workflow has not appeared before the dispatch timeout; '' @
     ''billing rejection is unconfirmed. Automatic fallback was not started.''"

definition note_overdue :: "'s recon_site \<Rightarrow> string \<Rightarrow> doc \<Rightarrow> ('s plane, doc) op" where
  "note_overdue R i e =
     (if in_strs (dget e ''status'') [''received'', ''waiting_github''] \<and> is_str e ''provider'' ''github_actions''
         \<and> pc_dispatch_timeout (si_config R) * second \<le> re_elapsed R (py_str (dget_or e ''created_at'' (PStr '''')))
         \<and> \<not> is_str e ''error'' dispatch_diagnostic
      then save_release (at_site R) i [(''error'', PStr dispatch_diagnostic)]
      else db_return e)"

definition end_release :: "'s site \<Rightarrow> string \<Rightarrow> string \<Rightarrow> doc \<Rightarrow> string \<Rightarrow> string \<Rightarrow> ('s plane, doc) op" where
  "end_release S i status rest conclusion reason =
     db_bind (save_release S i ((''status'', PStr status) # rest)) (\<lambda>d.
     db_bind (complete_check S d ''release'' conclusion reason) (\<lambda>_. db_return d))"

definition fail_release :: "'s recon_site \<Rightarrow> string \<Rightarrow> doc \<Rightarrow> ('s plane, doc) op" where
  "fail_release R i e =
     db_bind (save_release (at_site R) i
       [(''status'', PStr ''failed''),
        (''error'', PStr (take 1000 (py_str (py_or (dget e ''release_error'') (PStr ''Release planner failed'')))))]) (\<lambda>d.
     db_bind (complete_check (at_site R) d ''release'' ''failure''
       (take 500 (py_str (py_or (dget d ''error'') (PStr ''Release planner failed''))))) (\<lambda>_.
     retry_planner R d))"

text \<open>What follows once the provider succeeded.\<close>

definition consolidate :: "'s recon_site \<Rightarrow> string \<Rightarrow> doc \<Rightarrow> ('s plane, doc) op" where
  "consolidate R i old =
     (let S = at_site R in
      db_bind (get_release S i) (\<lambda>found.
      let latest = (case found of None \<Rightarrow> old | Some d \<Rightarrow> if d = [] then old else d) in
      db_bind (if flag latest ''evidence_committed'' then db_return latest else commit_quality R latest) (\<lambda>e.
      if \<not> in_strs (dget e ''status'') [''quality_passed'', ''running_quality'']
      then
        if is_str e ''operation'' ''main_release'' \<and> flag e ''release_engine_failed''
           \<and> is_str e ''engine_event_status'' ''quality_passed'' \<and> flag e ''evidence_committed''
        then fail_release R i e
        else db_return e
      else if is_str e ''operation'' ''pr_quality'' then db_return e
      else if flag e ''release_engine_failed'' then fail_release R i e
      else
        let plan = py_or (dget e ''release_plan'') (PDict []) in
        db_bind (reading (\<lambda>_. if is_str e ''engine_event_status'' ''no_release'' then Inr [] else attr_dict plan)) (\<lambda>d.
        if is_str e ''engine_event_status'' ''no_release'' \<or> is_str d ''release_type'' ''none''
        then end_release S i ''no_release'' [] ''neutral'' ''No releasable changes.''
        else if d = []
        then end_release S i ''unknown'' [(''error'', PStr ''Release plan is missing'')] ''action_required'' ''Release plan is missing.''
        else db_bind (save_release S i [(''status'', PStr ''release_planned'')]) (publish_if_allowed S)))))"

text \<open>A reservation whose submission never happened.\<close>

definition submit_pending :: "'s recon_site \<Rightarrow> string \<Rightarrow> doc \<Rightarrow> ('s plane, doc \<times> bool) op" where
  "submit_pending R i e =
     (let S = at_site R in
      db_bind (reading (\<lambda>_. need_all e [''service_name''])) (\<lambda>_.
      case catalog_named R (text_of e ''service_name'') of
        None \<Rightarrow> db_raise (ValueError ''Release service disappeared before build submission'')
      | Some service \<Rightarrow>
          (\<lambda>w. case on_builds (submit (site_build S) (si_backend S) (si_now S) (si_answers S i) i service) w of
             (Inl (ReleaseCloudBuildError _), w') \<Rightarrow>
               db_bind (get_release S i) (\<lambda>found.
               let latest = (case found of None \<Rightarrow> e | Some d \<Rightarrow> if d = [] then e else d);
                   reason = ''Release quality could not start. No build was created.'' in
               db_bind (if is_str latest ''status'' ''failed'' then complete_quality S latest ''failure'' reason reason else db_return ())
                 (\<lambda>_. db_return (latest, False))) w'
           | (Inl err, w') \<Rightarrow> (Inl err, w')
           | (Inr d, w') \<Rightarrow> (Inr (d, True), w'))))"

definition settle_execution :: "'s recon_site \<Rightarrow> string \<Rightarrow> doc \<Rightarrow> ('s plane, doc) search" where
  "settle_execution R i e w =
     (if in_strs (dget e ''status'') [''quality_failed'', ''no_release'', ''released'', ''superseded''] then Some (Inr e, w)
      else if is_str e ''status'' ''failed'' then Some (retry_planner R e w)
      else if is_str e ''status'' ''unknown'' \<and> flag e ''publication_uncertain'' then Some (publish_if_allowed (at_site R) e w)
      else if is_str e ''status'' ''unknown'' then Some (recover_drift R e w)
      else if in_strs (dget e ''status'') [''release_planned'', ''publish_pending''] then Some (publish_if_allowed (at_site R) e w)
      else
        (case (if is_str e ''provider'' ''cloud_build'' \<and> is_str e ''status'' ''submission_pending''
               then submit_pending R i e else db_return (e, True)) w of
           (Inl err, w') \<Rightarrow> Some (Inl err, w')
         | (Inr (d, False), w') \<Rightarrow> Some (Inr d, w')
         | (Inr (d, True), w') \<Rightarrow>
             then_search (provider_success R d)
               (\<lambda>success. if success then consolidate R i d
                 else db_bind (get_release (at_site R) i)
                   (\<lambda>found. db_return (case found of None \<Rightarrow> d | Some x \<Rightarrow> if x = [] then d else x))) w'))"

definition reconcile :: "'s recon_site \<Rightarrow> string \<Rightarrow> ('s plane, doc) search" where
  "reconcile R i w =
     (let S = at_site R in
      case db_bind (get_release S i) (\<lambda>found. case found of
             None \<Rightarrow> db_raise (KeyError i)
           | Some e \<Rightarrow> db_bind (reading (\<lambda>_. require_managed_service_name (site_build S)
               (py_str (dget_or e ''service_name'' (PStr ''''))))) (\<lambda>_. db_return e)) w of
        (Inl err, w') \<Rightarrow> Some (Inl err, w')
      | (Inr e, w') \<Rightarrow>
          if flag e ''bootstrap_ticket_id'' \<and> in_strs (dget e ''status'') [''submitting'', ''unknown'']
          then
            (case reconcile_quality_bootstrap (site_build S) (si_backend S) (si_now S) (re_build R (text_of e ''build_id''))
                    (re_pages R) e '''' (builds w') of
               None \<Rightarrow> None
             | Some (Inl err, b) \<Rightarrow> Some (Inl err, w'\<lparr>builds := b\<rparr>)
             | Some (Inr d, b) \<Rightarrow>
                 if \<not> flag d ''build_id'' then Some (Inr d, w'\<lparr>builds := b\<rparr>)
                 else (case note_overdue R i d (w'\<lparr>builds := b\<rparr>) of
                         (Inl err, w2) \<Rightarrow> Some (Inl err, w2)
                       | (Inr d2, w2) \<Rightarrow> settle_execution R i d2 w2))
          else
            (case note_overdue R i e w' of
               (Inl err, w2) \<Rightarrow> Some (Inl err, w2)
             | (Inr d, w2) \<Rightarrow> settle_execution R i d w2))"

end
