(* ===== verification/BuildHistory.thy ===== *)
theory BuildHistory
  imports BootstrapBuilds ReleaseExclusive
begin

text \<open>
  Submissions by many replicas at once.  A worker runs \<open>submit\<close> one access at a time, deciding by what it read before;
  between its accesses other workers and any operation of the release store may act.  The counting argument is that a
  post is charged to the claim that its worker won.
\<close>

section \<open>A worker, one access at a time\<close>

datatype phase =
    Starting
  | Binding doc
  | Claiming doc doc
  | Posting doc doc
  | Settling doc
  | Finished

record worker =
  wr_execution :: string
  wr_clock :: string
  wr_answers :: answers
  wr_service :: catalog_service

text \<open>The first access: what the worker read and was listed decides what it does next.\<close>

definition start_submission :: "build_config \<Rightarrow> 's backend \<Rightarrow> worker \<Rightarrow> 's build_world \<Rightarrow> phase" where
  "start_submission cf B p w =
     (case require_managed cf (wr_service p) of
        Inl _ \<Rightarrow> Finished
      | Inr _ \<Rightarrow>
          (case rx_get (bc_settings cf) B (wr_execution p) (ledger w) of
             Inr (Some e) \<Rightarrow>
               if flag e ''bootstrap_ticket_id'' \<or> \<not> is_str e ''provider'' ''cloud_build'' \<or> flag e ''build_id''
               then Finished
               else
                 (case matching_build cf (an_listing (wr_answers p)) e of
                    Inl _ \<Rightarrow> Finished
                  | Inr (Some build) \<Rightarrow> Binding build
                  | Inr None \<Rightarrow>
                      (case prepared_request cf e (wr_service p) of
                         Inl _ \<Rightarrow> Finished
                       | Inr request \<Rightarrow> Claiming e request))
           | _ \<Rightarrow> Finished))"

fun worker_step :: "build_config \<Rightarrow> 's backend \<Rightarrow> worker \<Rightarrow> phase \<Rightarrow> 's build_world \<Rightarrow> phase \<times> 's build_world" where
  "worker_step cf B p Starting w = (start_submission cf B p w, w)"
| "worker_step cf B p (Binding build) w =
     (Finished, snd (bind_release B (wr_clock p) (wr_execution p) build w))"
| "worker_step cf B p (Claiming e request) w =
     (case on_ledger (claim_submission B (wr_clock p) (wr_execution p)) w of
        (Inr True, w') \<Rightarrow> (Posting e request, w')
      | (_, w') \<Rightarrow> (Finished, w'))"
| "worker_step cf B p (Posting e request) w =
     (case require_new_builds (bc_settings cf) of
        Inl _ \<Rightarrow> (Finished, w)
      | Inr _ \<Rightarrow> (Settling e, snd (post_build (wr_execution p) request w)))"
| "worker_step cf B p (Settling e) w =
     (Finished, snd (settle_submission cf B (wr_clock p) (wr_execution p) e (an_post (wr_answers p)) w))"
| "worker_step cf B p Finished w = (Finished, w)"

text \<open>Five steps finish a worker, and undisturbed they do what \<open>submit\<close> does.\<close>

fun worker_run :: "nat \<Rightarrow> build_config \<Rightarrow> 's backend \<Rightarrow> worker \<Rightarrow> phase \<times> 's build_world \<Rightarrow> phase \<times> 's build_world" where
  "worker_run 0 cf B p s = s"
| "worker_run (Suc n) cf B p s = worker_run n cf B p (worker_step cf B p (fst s) (snd s))"

lemma worker_finished: "worker_run n cf B p (Finished, w) = (Finished, w)"
  by (induction n) simp_all

lemma submit_is_worker_run:
  "worker_run 5 cf B p (Starting, w) =
   (Finished, snd (submit cf B (wr_clock p) (wr_answers p) (wr_execution p) (wr_service p) w))"
proof -
  have five: "(5::nat) = Suc (Suc (Suc (Suc (Suc 0))))" by simp
  show ?thesis
    unfolding five
    by (cases "require_new_builds (bc_settings cf)")
      (auto simp: start_submission_def submit_def db_bind_def reading_def read_execution_def db_raise_def db_return_def
        on_ledger_def post_build_def simp del: require_new_builds_ok
        split: sum.splits option.splits prod.splits bool.splits)
qed

section \<open>Interleavings\<close>

text \<open>
  What is charged to an execution: the posts made for it, and the workers that won its claim and are about to post.
\<close>

fun is_posting :: "string \<Rightarrow> worker \<times> phase \<Rightarrow> bool" where
  "is_posting i (p, Posting e request) = (wr_execution p = i)"
| "is_posting i _ = False"

definition posts_for :: "string \<Rightarrow> 's build_world \<Rightarrow> nat" where
  "posts_for i w = length (filter (\<lambda>x. fst x = i) (posted w))"

definition charge :: "string \<Rightarrow> 's build_world \<times> (worker \<times> phase) list \<Rightarrow> nat" where
  "charge i s = posts_for i (fst s) + length (filter (is_posting i) (snd s))"

text \<open>
  The steps of a cluster.  Any operation of the release store may happen between the accesses of the workers, except
  that an execution to which a post or a winning claim is charged is not made submittable again.
\<close>

inductive cluster_step ::
  "build_config \<Rightarrow> 's backend \<Rightarrow> string \<Rightarrow> 's build_world \<times> (worker \<times> phase) list \<Rightarrow>
   's build_world \<times> (worker \<times> phase) list \<Rightarrow> bool"
  for cf :: build_config and B :: "'s backend" and i :: string where
  arrives: "cluster_step cf B i (w, ws) (w, ws @ [(p, Starting)])"
| works: "k < length ws \<Longrightarrow> ws ! k = (p, ph) \<Longrightarrow> worker_step cf B p ph w = (ph', w') \<Longrightarrow>
    cluster_step cf B i (w, ws) (w', ws[k := (p, ph')])"
| other: "s' = rx_step (bc_settings cf) B e (ledger w) \<Longrightarrow>
    (doc_where B i submittable s' \<Longrightarrow> doc_where B i submittable (ledger w) \<or> charge i (w, ws) = 0) \<Longrightarrow>
    cluster_step cf B i (w, ws) (w\<lparr>ledger := s'\<rparr>, ws)"

definition charged_once :: "'s backend \<Rightarrow> string \<Rightarrow> 's build_world \<times> (worker \<times> phase) list \<Rightarrow> bool" where
  "charged_once B i s =
     (charge i s \<le> 1 \<and> (charge i s = 1 \<longrightarrow> \<not> doc_where B i submittable (ledger (fst s))))"

lemma on_ledger_simps [simp]:
  "posted (snd (on_ledger f w)) = posted w" "ledger (snd (on_ledger f w)) = snd (f (ledger w))"
  by (auto simp: on_ledger_def split: prod.split)

lemma filter_update:
  assumes "k < length ws" and "ws ! k = x"
  shows "length (filter P (ws[k := y])) + (if P x then 1 else 0) = length (filter P ws) + (if P y then 1 else 0)"
proof -
  have ws: "ws = take k ws @ x # drop (Suc k) ws" using assms by (metis id_take_nth_drop)
  have "ws[k := y] = take k ws @ y # drop (Suc k) ws" using assms(1) by (simp add: upd_conv_take_nth_drop)
  then show ?thesis by (subst (2) ws) simp
qed

text \<open>What a settling or binding worker writes cannot be claimed.\<close>

lemma submittable_patch:
  assumes "document_backend B" and "load B s j = Some d"
  shows "doc_where B i submittable (patch B j cs s) \<longleftrightarrow>
    (if i = j then submittable (dict_update d cs) else doc_where B i submittable s)"
  using document_backend.load_patch [OF assms] by (simp add: doc_where_def)

lemma transact_unsubmittable:
  assumes "document_backend B" and "\<not> doc_where B i submittable s"
    and "\<And>d x cs. load B s j = Some d \<Longrightarrow> decide (Some d) = Inr (x, Some cs) \<Longrightarrow> \<not> submittable (dict_update d cs)"
    and "\<And>x cs. decide None \<noteq> Inr (x, Some cs)"
  shows "\<not> doc_where B i submittable (snd (transact B j decide s))"
proof (cases "decide (load B s j)")
  case (Inr q)
  obtain x c where q: "q = (x, c)" by (cases q)
  show ?thesis
  proof (cases c)
    case (Some cs)
    then obtain d where d: "load B s j = Some d" using Inr q assms(4) by (cases "load B s j") auto
    then show ?thesis
      using Inr q Some assms(2) assms(3) [OF d] submittable_patch [OF assms(1) d, of i cs]
      by (simp add: transact_def)
  qed (use Inr q assms(2) in \<open>simp add: transact_def\<close>)
qed (use assms(2) in \<open>simp add: transact_def\<close>)

lemma save_unsubmittable:
  assumes "document_backend B" and "\<not> doc_where B i submittable s"
    and "\<And>d. \<not> submittable (dict_update d (dict_set ''updated_at'' (PStr now) cs))"
  shows "\<not> doc_where B i submittable (snd (rx_save cfg B now j cs s))"
proof -
  have "\<not> doc_where B i submittable (snd (mutate cfg B j (checked checks (dict_set ''updated_at'' (PStr now) cs)) s))"
    for checks
  proof (cases "j = bootstrap_document_id")
    case True
    then show ?thesis using assms(2) by (simp add: mutate_def)
  next
    case False
    show ?thesis
      unfolding mutate_def if_not_P [OF False]
      by (rule transact_unsubmittable [OF assms(1,2)])
        (use assms(3) in \<open>auto simp: checked_def guarded_Inr split: if_splits sum.splits\<close>)
  qed
  then show ?thesis using assms(2) by (simp add: rx_save_def Let_def)
qed

lemma bind_unsubmittable:
  assumes "document_backend B" and "\<not> doc_where B i submittable (ledger w)"
  shows "\<not> doc_where B i submittable (ledger (snd (bind_release B now j build w)))"
proof -
  let ?id = "py_str (dget_or build ''id'' (PStr ''''))"
  let ?meta = "[(''provider_status'', PStr (py_str (dget_or build ''status'' (PStr ''QUEUED'')))),
      (''logs_url'', PStr (py_str (dget_or build ''logUrl'' (PStr '''')))),
      (''build_name'', PStr (py_str (dget_or build ''name'' (PStr '''')))), (''submission_reconciled_at'', PStr now)]"
  have "\<not> doc_where B i submittable (snd (bind_build B now j ?id ?meta (ledger w)))" if "?id \<noteq> ''''"
  proof (cases "128 < length ?id")
    case True
    then show ?thesis using assms(2) by (simp add: bind_build_def)
  next
    case False
    with that have ok: "\<not> (?id = [] \<or> 128 < length ?id)" "\<not> list_ex (has_key ?meta) bind_forbidden"
      by (auto simp: bind_forbidden_def has_key_def)
    show ?thesis
      unfolding bind_build_def if_not_P [OF ok(1)] if_not_P [OF ok(2)] Let_def
      by (rule transact_unsubmittable [OF assms])
        (use that in \<open>auto simp: guarded_Inr submittable_def dict_simps split: if_splits\<close>)
  qed
  then show ?thesis using assms(2) by (auto simp: bind_release_def Let_def db_raise_def)
qed

lemma bind_raise: "snd (db_bind m (\<lambda>_. db_raise err) v) = snd (m v)"
  by (auto simp: db_bind_def db_raise_def split: prod.splits sum.splits)

lemma settle_unsubmittable:
  fixes w :: "'s build_world"
  assumes "document_backend B" and "\<not> doc_where B i submittable (ledger w)"
  shows "\<not> doc_where B i submittable (ledger (snd (settle_submission cf B now j e answer w)))"
proof -
  have save: "\<not> doc_where B i submittable (ledger (snd (save_execution cf B now j cs w)))"
    if "\<And>d. \<not> submittable (dict_update d (dict_set ''updated_at'' (PStr now) cs))" for cs
    unfolding save_execution_def using save_unsubmittable [OF assms that] by simp
  have uncertain: "\<not> doc_where B i submittable (ledger (snd (mark_uncertain cf B now j reason w)))" for reason
    using save [of "[(''status'', PStr ''unknown''), (''uncertain_since'', PStr now)]"]
    by (simp add: mark_uncertain_def bind_raise submittable_def dict_simps)
  have "\<not> doc_where B i submittable (ledger (snd ((reject_submission cf B now j status body :: ('s build_world, doc) op) w)))" for status body
  proof (cases "diagnostic status body")
    case (Inl err)
    then show ?thesis using assms(2) by (simp add: reject_submission_def db_bind_def reading_def)
  next
    case (Inr x)
    have "(reject_submission cf B now j status body :: ('s build_world, doc) op) w = db_bind (save_execution cf B now j
          ([(''status'', PStr ''failed''), (''submission_status_code'', PInt status)] @
            (if x = '''' then [] else [(''submission_error'', PStr x)])))
         (\<lambda>_. db_raise (build_error (''Release build submission failed: '' @ int_text status))) w"
      by (simp add: reject_submission_def db_bind_def reading_def Inr)
    then have "snd ((reject_submission cf B now j status body :: ('s build_world, doc) op) w) = snd (save_execution cf B now j
        ([(''status'', PStr ''failed''), (''submission_status_code'', PInt status)] @
          (if x = '''' then [] else [(''submission_error'', PStr x)])) w)"
      by (simp only: bind_raise)
    moreover have "\<not> submittable (dict_update d (dict_set ''updated_at'' (PStr now)
        ([(''status'', PStr ''failed''), (''submission_status_code'', PInt status)] @
          (if x = '''' then [] else [(''submission_error'', PStr x)]))))" for d
      by (simp add: submittable_def dict_simps)
    ultimately show ?thesis using save by simp
  qed
  moreover have "\<not> doc_where B i submittable (ledger (snd (accept_created cf B now j e body w)))" for body
    using uncertain bind_unsubmittable [OF assms] assms(2)
    by (auto simp: accept_created_def db_bind_def reading_def split: prod.splits sum.splits)
  ultimately show ?thesis
    using uncertain by (auto simp: settle_submission_def split: sum.splits prod.splits)
qed

lemma settle_posted [simp]: "posted (snd (settle_submission cf B now j e answer w)) = posted w"
  "posted (snd (bind_release B now j build w)) = posted w"
  by (auto simp: settle_submission_def mark_uncertain_def reject_submission_def accept_created_def bind_release_def Let_def
      db_bind_def db_raise_def reading_def save_execution_def on_ledger_def split: prod.splits sum.splits)

lemma claim_cases:
  assumes "document_backend B"
  obtains (won) d where "load B s j = Some d" "submittable d"
      "claim_submission B now j s = (Inr True, patch B j [(''status'', PStr ''submitting''), (''updated_at'', PStr now)] s)"
  | (lost) "fst (claim_submission B now j s) \<noteq> Inr True" "snd (claim_submission B now j s) = s"
proof (cases "load B s j")
  case (Some d)
  show thesis
  proof (cases "submittable d")
    case True
    then show ?thesis using Some by (intro won) (auto simp: claim_submission_def transact_def submittable_def)
  next
    case False
    then show ?thesis using Some by (intro lost) (auto simp: claim_submission_def transact_def submittable_def)
  qed
qed (use lost in \<open>simp add: claim_submission_def transact_def\<close>)

lemma charge_update:
  assumes "k < length ws" and "ws ! k = (p, ph)"
  shows "charge i (w', ws[k := (p, ph')]) + (if is_posting i (p, ph) then 1 else 0) + posts_for i w =
    charge i (w, ws) + (if is_posting i (p, ph') then 1 else 0) + posts_for i w'"
  using filter_update [OF assms, of "is_posting i" "(p, ph')"] by (simp add: charge_def)

lemma charged_once_works:
  fixes w :: "'s build_world"
  assumes B: "document_backend B" and k: "k < length ws" "ws ! k = (p, ph)"
    and step: "worker_step cf B p ph w = (ph', w')" and inv: "charged_once B i (w, ws)"
  shows "charged_once B i (w', ws[k := (p, ph')])"
proof -
  note c = charge_update [OF k, of i w' ph' w]
  have inv': "charge i (w, ws) \<le> 1" "charge i (w, ws) = 1 \<Longrightarrow> \<not> doc_where B i submittable (ledger w)"
    using inv by (auto simp: charged_once_def)
  have quiet: ?thesis if "\<not> is_posting i (p, ph')" "posted w' = posted w"
    "\<not> doc_where B i submittable (ledger w) \<Longrightarrow> \<not> doc_where B i submittable (ledger w')"
    using c that inv' by (auto simp: charged_once_def posts_for_def split: if_splits)
  show ?thesis
  proof (cases ph)
    case Starting
    have "ph' = start_submission cf B p w" "w' = w" using step Starting by auto
    then show ?thesis
      by (intro quiet) (auto simp: start_submission_def split: sum.splits option.splits if_splits)
  next
    case (Binding build)
    then show ?thesis using step bind_unsubmittable [OF B] by (intro quiet) auto
  next
    case (Claiming e request)
    show ?thesis
    proof (cases rule: claim_cases [OF B, where s = "ledger w" and now = "wr_clock p" and j = "wr_execution p"])
      case won: (1 d)
      then have w': "ph' = Posting e request" "posted w' = posted w"
          "ledger w' = patch B (wr_execution p) [(''status'', PStr ''submitting''), (''updated_at'', PStr (wr_clock p))] (ledger w)"
        using step Claiming by (auto simp: on_ledger_def)
      have sub: "doc_where B i submittable (ledger w') \<longleftrightarrow> wr_execution p \<noteq> i \<and> doc_where B i submittable (ledger w)"
        using submittable_patch [OF B won(1)] by (auto simp: w' submittable_def dict_simps)
      show ?thesis
      proof (cases "wr_execution p = i")
        case True
        then have "doc_where B i submittable (ledger w)" using won by (auto simp: doc_where_def)
        then have "charge i (w, ws) = 0" using inv' by (cases "charge i (w, ws)") auto
        then show ?thesis using c sub True w' Claiming by (simp add: charged_once_def posts_for_def)
      next
        case False
        then show ?thesis using sub w' by (intro quiet) auto
      qed
    next
      case lost: 2
      then have "ph' = Finished" "posted w' = posted w" "ledger w' = ledger w"
        using step Claiming by (auto simp: on_ledger_def split: prod.splits sum.splits bool.splits)
      then show ?thesis by (intro quiet) auto
    qed
  next
    case (Posting e request)
    show ?thesis
    proof (cases "require_new_builds (bc_settings cf)")
      case (Inl err)
      then have "ph' = Finished" "w' = w" using step Posting by auto
      then show ?thesis by (intro quiet) auto
    next
      case (Inr u)
      then have "ph' = Settling e" "ledger w' = ledger w" "posted w' = posted w @ [(wr_execution p, request)]"
        using step Posting by (auto simp: post_build_def simp del: require_new_builds_ok)
      then show ?thesis using c Posting inv' by (auto simp: charged_once_def posts_for_def split: if_splits)
    qed
  next
    case (Settling e)
    then show ?thesis using step settle_unsubmittable [OF B] by (intro quiet) auto
  next
    case Finished
    then show ?thesis using step by (intro quiet) auto
  qed
qed

lemma charged_once_step:
  assumes "document_backend B" and "cluster_step cf B i s t" and "charged_once B i s"
  shows "charged_once B i t"
  using assms(2)
proof cases
  case (arrives w ws p)
  then show ?thesis using assms(3) by (simp add: charged_once_def charge_def)
next
  case (works k ws p ph w ph' w')
  then show ?thesis using charged_once_works [OF assms(1)] assms(3) by blast
next
  case (other s' e w ws)
  then show ?thesis using assms(3) by (auto simp: charged_once_def charge_def posts_for_def)
qed

lemma charged_once_history:
  assumes "document_backend B" and "(cluster_step cf B i)\<^sup>*\<^sup>* s t" and "charged_once B i s"
  shows "charged_once B i t"
  using assms(2,3) by (induction rule: rtranclp_induct) (auto intro: charged_once_step [OF assms(1)])

end
