(* ===== verification/BuildProperties.thy ===== *)
theory BuildProperties
  imports BuildHistory
begin

text \<open>
  What the Cloud Build transport guarantees: well-formed economy requests, one post per claim under any interleaving,
  recovery that finds a build the platform made and no other, and a bootstrap recovery that ends and is unambiguous.
\<close>

section \<open>Recovery finds what was posted\<close>

text \<open>The identity fields are those of a reservation; no operation changes them.\<close>

definition reserved_as :: "reservation \<Rightarrow> doc \<Rightarrow> bool" where
  "reserved_as r e =
     (\<exists>now fp. \<forall>k \<in> set identity_fields. dget e k = dget (reserved_value now fp r) k)"

lemma reserved_fields:
  assumes "reserved_as r e"
  shows "dget e ''repository'' = PStr (repository r)" "dget e ''service_name'' = PStr (service_name r)"
    "dget e ''operation'' = PStr (operation r)" "dget e ''head_sha'' = PStr (str_lower (head_sha r))"
    "dget e ''base_sha'' = PStr (str_lower (base_sha r))" "dget e ''profile_hash'' = PStr (profile_hash r)"
    "dget e ''executor_digest'' = PStr (executor_digest r)" "dget e ''planner_hash'' = PStr (planner_hash r)"
    "\<exists>fp. dget e ''execution_id'' = PStr fp \<and> dget e ''fingerprint'' = PStr fp"
proof -
  obtain now fp where same: "dget e k = dget (reserved_value now fp r) k" if "k \<in> set identity_fields" for k
    using assms unfolding reserved_as_def by blast
  note fields = identity_fields_def reserved_value_def dget_def
  show "dget e ''repository'' = PStr (repository r)" "dget e ''service_name'' = PStr (service_name r)"
    "dget e ''operation'' = PStr (operation r)" "dget e ''head_sha'' = PStr (str_lower (head_sha r))"
    "dget e ''base_sha'' = PStr (str_lower (base_sha r))" "dget e ''profile_hash'' = PStr (profile_hash r)"
    "dget e ''executor_digest'' = PStr (executor_digest r)" "dget e ''planner_hash'' = PStr (planner_hash r)"
    by (subst same; simp add: fields)+
  have "dget e ''execution_id'' = PStr fp" "dget e ''fingerprint'' = PStr fp" by (subst same; simp add: fields)+
  then show "\<exists>fp. dget e ''execution_id'' = PStr fp \<and> dget e ''fingerprint'' = PStr fp" by blast
qed

lemma dget_has_key: "dget d k = PStr s \<Longrightarrow> has_key d k \<and> map_of d k = Some (PStr s)"
  by (auto simp: dget_def has_key_def split: option.splits)

lemma dget_or_of: "dget d k = w \<Longrightarrow> w \<noteq> PNone \<Longrightarrow> dget_or d k v = w"
  by (auto simp: dget_def dget_or_def split: option.splits)

lemma dget_cons: "dget ((k, v) # d) j = (if j = k then v else dget d j)" "dget [] j = PNone"
    "dget_or ((k, v) # d) j w = (if j = k then v else dget_or d j w)" "dget_or [] j w = w"
  by (simp_all add: dget_def dget_or_def)

lemma need_all_Inr: "need_all d ks = Inr u \<longleftrightarrow> (\<forall>k \<in> set ks. has_key d k)"
  by (auto simp: need_all_def first_error_Inr)

lemma expected_substitutions_Inr:
  assumes "reserved_as r e" and "retry_count e = Inr count"
  shows "expected_substitutions cf e = Inr
    ([(''_EXECUTION_ID'', PStr (text_of e ''execution_id'')),
      (''_REQUEST_FINGERPRINT'', PStr (text_of e ''fingerprint'')),
      (''_SERVICE_NAME'', PStr (service_name r)), (''_REPOSITORY'', PStr (repository r)),
      (''_HEAD_SHA'', PStr (str_lower (head_sha r))), (''_BASE_SHA'', PStr (str_lower (base_sha r))),
      (''_EXECUTOR_DIGEST'', PStr (executor_digest r)), (''_OPERATION'', PStr (operation r)),
      (''_PROFILE_SHA256'', PStr (profile_hash r)),
      (''_PLANNER_SHA256'', PStr (if operation r = ''main_release'' then planner_hash r else '''')),
      (''_PLANNER_DIGEST'', PStr (if operation r = ''main_release'' then bc_planner_image cf else ''''))] @
     (if count \<noteq> 0 then [(''_PLANNER_RETRY_ATTEMPT'', PStr (int_text count))] else []) @
     (if count = 3 \<and> flag e ''planner_contract_retry_pending''
      then [(''_PLANNER_IMAGE_SHA256'', PStr (py_str (dget_or e ''planner_contract_retry_hash'' (PStr ''''))))] else []))"
proof -
  note f = reserved_fields [OF assms(1)]
  obtain fp where fp: "dget e ''execution_id'' = PStr fp" "dget e ''fingerprint'' = PStr fp" using f(9) by blast
  have "need_all e ([''execution_id'', ''fingerprint'', ''service_name'', ''repository'', ''head_sha'',
         ''base_sha'', ''executor_digest'', ''profile_hash''] @ (if b then [''planner_hash''] else [])) = Inr ()" for b
    using f fp by (auto simp: need_all_Inr dest!: dget_has_key)
  moreover have "need_all e [''operation''] = Inr ()" using f(3) by (auto simp: need_all_Inr dest!: dget_has_key)
  ultimately show ?thesis
    using f assms(2) by (simp add: expected_substitutions_def text_of_def Let_def)
qed

text \<open>A request that was built, and from what.\<close>

definition built_from ::
  "build_config \<Rightarrow> doc \<Rightarrow> catalog_service \<Rightarrow> quality_profile \<Rightarrow> string \<Rightarrow> int \<Rightarrow> doc list \<Rightarrow> doc \<Rightarrow> bool" where
  "built_from cf e service p executor count steps request =
     (\<exists>source timeout options.
        connected_repository cf (cs_name service) = Inr source \<and> qp_timeout p = Inr timeout \<and>
        economy_options [(''substitutionOption'', PStr ''ALLOW_LOOSE'')] = Inr options \<and>
        request = build_document cf source (dget e ''head_sha'') steps timeout options
          (request_substitutions cf e service p count) (text_of e ''execution_id''))"

lemma quality_request_Inr:
  assumes "quality_request cf e service p executor (request_substitutions cf e service p count) env = Inr request"
  shows "built_from cf e service p executor count
    (quality_steps cf executor (cs_name service) (qp_spec p) env @
       (if text_of e ''operation'' = ''main_release'' then release_steps cf executor env else [])) request"
  using assms by (auto simp: quality_request_def built_from_def then_result_Inr Let_def)

lemma planner_retry_request_Inr:
  assumes "planner_retry_request cf e service p executor (request_substitutions cf e service p count) env = Inr request"
  shows "\<exists>h. built_from cf e service p executor count
    [prepare_step executor (cs_name service) env, planner_volume_step executor ''prepare'',
     plan_step (bc_planner_image cf) (env @ h @ git_env), publish_plan_step (bc_planner_image cf) (env @ h)] request"
proof -
  let ?e = "need_all e"
  have ex: "\<exists>h. then_result (connected_repository cf (cs_name service)) (\<lambda>source.
             then_result (qp_timeout p) (\<lambda>timeout.
             then_result (economy_options [(''substitutionOption'', PStr ''ALLOW_LOOSE'')]) (\<lambda>options.
             Inr (build_document cf source (dget e ''head_sha'')
                    [prepare_step executor (cs_name service) env, planner_volume_step executor ''prepare'',
                     plan_step (bc_planner_image cf) (env @ h @ git_env), publish_plan_step (bc_planner_image cf) (env @ h)]
                    timeout options (request_substitutions cf e service p count) (text_of e ''execution_id''))))) = Inr request"
  proof -
    obtain count' where c: "retry_count e = Inr count'"
      using assms by (cases "retry_count e") (simp_all add: planner_retry_request_def)
    define field where "field = (if contract_matches cf e count' then ''planner_contract_retry_hash''
        else if remediation_matches cf e count' then ''planner_remediation_retry_hash'' else ''planner_hash'')"
    have n: "need_all e [field] = Inr ()"
      using assms unfolding planner_retry_request_def c then_result_simps Let_def field_def [symmetric]
      by (cases "need_all e [field]") (simp_all split: if_split_asm)
    define h where "h = [''ENG_PLATFORM_RELEASE_PLANNER_HASH='' @ text_of e field,
        ''ENG_PLATFORM_RELEASE_PLANNER_IMAGE='' @ bc_planner_image cf]"
    show ?thesis
      using assms unfolding planner_retry_request_def c then_result_simps Let_def field_def [symmetric] n h_def [symmetric]
      by (intro exI [of _ h]) (simp split: if_split_asm)
  qed
  then show ?thesis unfolding built_from_def then_result_Inr by blast
qed

lemma build_request_Inr:
  assumes "build_request cf e service = Inr request"
  obtains p executor count steps where
    "require_managed cf service = Inr ()" "require_config cf service = Inr ()" "profile_for cf service = Inr p"
    "executor_image cf p = Inr executor" "retry_count e = Inr count" "text_of e ''operation'' \<in> {''pr_quality'', ''main_release''}"
    "identity_authorized cf e service p executor count" "built_from cf e service p executor count steps request"
    "steps = quality_steps cf executor (cs_name service) (qp_spec p) (common_env cf e service p) @
       (if text_of e ''operation'' = ''main_release'' then release_steps cf executor (common_env cf e service p) else []) \<or>
     (\<exists>h. steps = [prepare_step executor (cs_name service) (common_env cf e service p),
       planner_volume_step executor ''prepare'', plan_step (bc_planner_image cf) (common_env cf e service p @ h @ git_env),
       publish_plan_step (bc_planner_image cf) (common_env cf e service p @ h)])"
proof -
  let ?env = "common_env cf e service"
  note b = build_request_def first_error.simps
  have m: "first_error [require_managed cf service, require_config cf service] = Inr ()"
    using assms by (cases "first_error [require_managed cf service, require_config cf service]") (simp_all add: build_request_def)
  obtain p where p: "profile_for cf service = Inr p"
    using assms m by (cases "profile_for cf service") (simp_all add: b)
  have n: "need_all e [''execution_id'', ''fingerprint'', ''operation''] = Inr ()"
    using assms m p by (cases "need_all e [''execution_id'', ''fingerprint'', ''operation'']") (simp_all add: b)
  have op: "text_of e ''operation'' \<in> {''pr_quality'', ''main_release''}"
    using assms m p n by (auto simp: b split: if_splits)
  obtain count where c: "retry_count e = Inr count"
    using assms m p n op by (cases "retry_count e") (auto simp: b)
  obtain executor where x: "executor_image cf p = Inr executor"
    using assms m p n op c by (cases "executor_image cf p") (auto simp: b)
  have a: "identity_authorized cf e service p executor count"
    using assms m p n op c x by (auto simp: b split: if_splits)
  have n': "need_all e [''head_sha'', ''base_sha'', ''executor_digest''] = Inr ()"
    using assms m p n op c x a by (cases "need_all e [''head_sha'', ''base_sha'', ''executor_digest'']") (auto simp: b)
  have r: "(if flag e ''planner_retry_pending''
       then planner_retry_request cf e service p executor (request_substitutions cf e service p count) (?env p)
       else quality_request cf e service p executor (request_substitutions cf e service p count) (?env p)) = Inr request"
    using assms m p n op c x a n' by (auto simp: b Let_def)
  have basics: "require_managed cf service = Inr ()" "require_config cf service = Inr ()" using m by simp_all
  note th = that [OF basics p x c op a]
  show thesis
  proof (cases "flag e ''planner_retry_pending''")
    case True
    then have "planner_retry_request cf e service p executor (request_substitutions cf e service p count) (?env p) = Inr request"
      using r by simp
    then show ?thesis using planner_retry_request_Inr th by blast
  next
    case False
    then have q: "quality_request cf e service p executor (request_substitutions cf e service p count) (?env p) = Inr request"
      using r by simp
    show ?thesis by (rule th [OF quality_request_Inr [OF q]]) simp
  qed
qed

text \<open>A request that names a planner image is one whose recovery the contract retry authorized.\<close>

lemma build_request_contract:
  assumes "build_request cf e service = Inr request" and "flag e ''planner_retry_pending''" and "retry_count e = Inr 3"
  shows "text_of e ''operation'' = ''main_release'' \<and> contract_matches cf e 3"
proof -
  obtain p executor env where
    "planner_retry_request cf e service p executor (request_substitutions cf e service p 3) env = Inr request"
    using assms by (auto simp: build_request_def then_result_Inr Let_def split: if_split_asm)
  then show ?thesis
    using assms(3) by (auto simp: planner_retry_request_def text_of_def is_str_def Let_def split: if_split_asm)
qed

section \<open>The recovery is complete and exact\<close>

text \<open>What Cloud Build reports of a build it was asked for: the source, the account and the substitutions.\<close>

definition reports :: "doc \<Rightarrow> doc \<Rightarrow> bool" where
  "reports request build = (\<forall>k \<in> {''source'', ''serviceAccount'', ''substitutions''}. dget build k = dget request k)"

lemma own_build_of_request:
  assumes "build_request cf e service = Inr request" and "reserved_as r e"
    and "operation r = ''pr_quality'' \<Longrightarrow> planner_hash r = ''''"
    and "flag e ''planner_contract_retry_pending'' \<Longrightarrow> flag e ''planner_retry_pending''"
    and "reports request build"
  shows "\<exists>expected. expected_substitutions cf e = Inr expected \<and> own_build cf e expected build"
proof -
  note f = reserved_fields [OF assms(2)]
  obtain fp where fp: "dget e ''execution_id'' = PStr fp" "dget e ''fingerprint'' = PStr fp" using f(9) by blast
  from assms(1) obtain p executor count steps where
    b: "retry_count e = Inr count" "text_of e ''operation'' \<in> {''pr_quality'', ''main_release''}"
      "identity_authorized cf e service p executor count" "built_from cf e service p executor count steps request"
    by (rule build_request_Inr)
  obtain source timeout options where
    src: "connected_repository cf (cs_name service) = Inr source" and
    req: "request = build_document cf source (dget e ''head_sha'') steps timeout options
          (request_substitutions cf e service p count) (text_of e ''execution_id'')"
    using b(4) by (auto simp: built_from_def)
  have i: "service_name r = cs_name service" "repository r = (case cs_repository service of None \<Rightarrow> [] | Some x \<Rightarrow> x)"
      "profile_hash r = profile_fingerprint cf p" "executor_digest r = executor"
    using b(3) f by (auto simp: identity_authorized_def is_str_def)
  have contract: "operation r = ''main_release'' \<and> contract_matches cf e count"
    if "count = 3" "flag e ''planner_contract_retry_pending''"
    using build_request_contract [OF assms(1) assms(4) [OF that(2)]] b(1) that f(3) by (simp add: text_of_def)
  have conv: "contract_matches cf e count \<Longrightarrow> count = 3 \<and> flag e ''planner_contract_retry_pending''"
    by (simp add: contract_matches_def)
  have op: "operation r = ''pr_quality'' \<or> operation r = ''main_release''" using b(2) f(3) by (auto simp: text_of_def)
  have d: "dget build ''source'' = dget request ''source''" "dget build ''serviceAccount'' = dget request ''serviceAccount''"
     "dget build ''substitutions'' = dget request ''substitutions''" using assms(5) by (auto simp: reports_def)
  have s: "starts_with ''projects/'' source" "(case map_of (bc_repositories cf) (cs_name service) of None \<Rightarrow> '''' | Some v \<Rightarrow> v) = source"
    using src by (auto simp: connected_repository_def Let_def split: if_splits)
  define expected where "expected =
    ([(''_EXECUTION_ID'', PStr (text_of e ''execution_id'')),
      (''_REQUEST_FINGERPRINT'', PStr (text_of e ''fingerprint'')),
      (''_SERVICE_NAME'', PStr (service_name r)), (''_REPOSITORY'', PStr (repository r)),
      (''_HEAD_SHA'', PStr (str_lower (head_sha r))), (''_BASE_SHA'', PStr (str_lower (base_sha r))),
      (''_EXECUTOR_DIGEST'', PStr (executor_digest r)), (''_OPERATION'', PStr (operation r)),
      (''_PROFILE_SHA256'', PStr (profile_hash r)),
      (''_PLANNER_SHA256'', PStr (if operation r = ''main_release'' then planner_hash r else '''')),
      (''_PLANNER_DIGEST'', PStr (if operation r = ''main_release'' then bc_planner_image cf else ''''))] @
     (if count \<noteq> 0 then [(''_PLANNER_RETRY_ATTEMPT'', PStr (int_text count))] else []) @
     (if count = 3 \<and> flag e ''planner_contract_retry_pending''
      then [(''_PLANNER_IMAGE_SHA256'', PStr (py_str (dget_or e ''planner_contract_retry_hash'' (PStr ''''))))] else []))"
  have known: "text_of e k = x" if "dget e k = PStr x" for k x using that by (simp add: text_of_def)
  have img: "(if operation r = ''main_release'' \<and> contract_matches cf e count
       then [(''_PLANNER_IMAGE_SHA256'', PStr (text_of e ''planner_contract_retry_hash''))] else []) =
     (if count = 3 \<and> flag e ''planner_contract_retry_pending''
      then [(''_PLANNER_IMAGE_SHA256'', PStr (py_str (dget_or e ''planner_contract_retry_hash'' (PStr ''''))))] else [])"
  proof (cases "count = 3 \<and> flag e ''planner_contract_retry_pending''")
    case True
    then have c: "operation r = ''main_release''" "contract_matches cf e count" using contract by auto
    then have "dget_or e ''planner_contract_retry_hash'' (PStr '''') = dget e ''planner_contract_retry_hash''"
      by (intro dget_or_of) (simp_all add: contract_matches_def is_str_def)
    then show ?thesis using True c by (simp add: text_of_def)
  qed (use conv in auto)
  have planner: "py_str (dget_or e ''planner_hash'' (PStr '''')) = (if operation r = ''main_release'' then planner_hash r else '''')"
    using op assms(3) by (auto simp: dget_or_of [OF f(8)])
  have subs: "list_all (\<lambda>(k, v). py_eq (dget (request_substitutions cf e service p count) k) v) expected"
    unfolding expected_def request_substitutions_def img planner known [OF f(3)] known [OF f(4)] known [OF f(5)]
      known [OF f(7)] i
    by (cases "count = 0"; cases "count = 3 \<and> flag e ''planner_contract_retry_pending''")
      (simp_all add: dget_cons)
  have "own_build cf e expected build"
    using subs s f(1,2,4) i(1)
    by (auto simp: own_build_def Let_def dget_or_of [OF d(1)] dget_or_of [OF d(3)] d(2) req build_document_def dget_cons
        text_of_def is_str_def)
  then show ?thesis using expected_substitutions_Inr [OF assms(2) b(1)] unfolding expected_def by blast
qed

text \<open>A concrete configuration for the witnesses: one Node.js service.\<close>

definition demo_config :: build_config where
  "demo_config = \<lparr>bc_settings = \<lparr>mock_mode = True, cloud_build_enabled = True, new_builds_enabled = True\<rparr>,
     bc_enabled = True, bc_services = [''svc''], bc_canaries = [], bc_project = ''p'', bc_account = ''a'',
     bc_node_image = ''n@sha256:1'', bc_python_image = ''y@sha256:1'', bc_go_image = ''g@sha256:1'',
     bc_planner_image = ''l@sha256:1'', bc_postgres_image = '''', bc_repositories = [(''svc'', ''projects/p/r'')],
     bc_api_url = ''u'', bc_bucket = ''b'', bc_schema = PInt 1,
     bc_profiles = [(''svc'', [(''runtime'', PStr ''node''), (''coverage_threshold'', PInt 80), (''timeout_seconds'', PInt 1200)])],
     bc_observed = Some []\<rparr>"

definition demo_service :: catalog_service where
  "demo_service = \<lparr>cs_name = ''svc'', cs_managed = True, cs_repository = Some ''o/svc'', cs_owner = Some ''o'',
     cs_profile = Some ''node'', cs_coverage = Some 80\<rparr>"

definition demo_profile :: quality_profile where
  "demo_profile = \<lparr>qp_name = ''svc'',
     qp_spec = [(''runtime'', PStr ''node''), (''coverage_threshold'', PInt 80), (''timeout_seconds'', PInt 1200)]\<rparr>"

definition demo_reservation :: "string \<Rightarrow> reservation" where
  "demo_reservation sha = \<lparr>repository = ''o/svc'', service_name = ''svc'', operation = ''pr_quality'', head_sha = sha,
     base_sha = ''b0'', profile_hash = profile_fingerprint demo_config demo_profile, executor_digest = ''n@sha256:1'',
     policy_hash = ''q'', planner_hash = '''', branch = ''main'', provider = ''cloud_build'', delivery_id = ''d'',
     selection = PNone, trigger_event = ''pull_request''\<rparr>"

definition demo_execution :: "string \<Rightarrow> doc" where
  "demo_execution sha = reserved_value ''t0'' (''f'' @ sha) (demo_reservation sha)"

lemma demo_is_reserved: "reserved_as (demo_reservation sha) (demo_execution sha)"
  unfolding reserved_as_def demo_execution_def by blast

lemma demo_retry: "retry_count (demo_execution sha) = Inr 0"
  by (simp add: retry_count_def demo_execution_def reserved_value_def dget_or_def py_or_def)

lemma demo_profile_for: "profile_for demo_config demo_service = Inr demo_profile"
  by (simp add: profile_for_def demo_config_def demo_service_def demo_profile_def legacy_profile_name_def Let_def
      qp_runtime_def qp_coverage_def need_def has_key_def dget_def raise_if_def)

lemma demo_build_request: "\<exists>request. build_request demo_config (demo_execution sha) demo_service = Inr request \<and>
    validate_submission request = Inr ()"
proof -
  have m: "require_managed demo_config demo_service = Inr ()"
    by (simp add: require_managed_Inr demo_config_def demo_service_def)
  note p = demo_profile_for
  have x: "executor_image demo_config demo_profile = Inr ''n@sha256:1''"
    by (simp add: executor_image_def demo_config_def demo_profile_def qp_runtime_def need_def has_key_def dget_def image_pinned_def Let_def)
  have c: "require_config demo_config demo_service = Inr ()"
    by (simp add: require_config_def first_error.simps m p x)
      (simp add: demo_config_def demo_service_def github_actions_only_def github_actions_only_services_def image_pinned_def
        demo_profile_def flag_def dget_def raise_if_def first_error.simps)
  have o: "economy_options [(''substitutionOption'', PStr ''ALLOW_LOOSE'')] =
      Inr [(''logging'', PStr ''CLOUD_LOGGING_ONLY''), (''substitutionOption'', PStr ''ALLOW_LOOSE'')]"
    by code_simp
  have r: "connected_repository demo_config (cs_name demo_service) = Inr ''projects/p/r''"
    by (simp add: connected_repository_def demo_config_def demo_service_def)
  have t: "qp_timeout demo_profile = Inr 1200"
    by (simp add: qp_timeout_def demo_profile_def need_def has_key_def dget_cons)
  have n: "need_all (demo_execution sha) [''execution_id'', ''fingerprint'', ''operation''] = Inr ()"
    "need_all (demo_execution sha) [''head_sha'', ''base_sha'', ''executor_digest''] = Inr ()"
    by (simp_all add: need_all_Inr demo_execution_def reserved_value_def has_key_def)
  have "identity_authorized demo_config (demo_execution sha) demo_service demo_profile ''n@sha256:1'' 0"
    "text_of (demo_execution sha) ''operation'' = ''pr_quality''" "\<not> flag (demo_execution sha) ''planner_retry_pending''"
    by (simp_all add: demo_execution_def demo_reservation_def reserved_value_def text_of_def dget_cons
        identity_authorized_def is_str_def demo_service_def flag_def)
  moreover have "int_text 1200 = ''1200''" "all_digits ''1200''" "digits_int ''1200'' = 1200" by code_simp+
  ultimately show ?thesis
    by (simp add: build_request_def quality_request_def m c p x o r t n demo_retry first_error.simps Let_def
        build_document_def validate_submission_def dget_cons has_key_def is_str_def butlast_append)
qed

lemma matching_build_listed:
  assumes "expected_substitutions cf e = Inr expected" and "build \<in> set (listed_builds v)"
    and "own_build cf e expected build" and "\<not> flag e ''bootstrap_ticket_id''" and "status < 300"
  shows "\<exists>b. matching_build cf (Inr (status, Inr v)) e = Inr (Some b) \<and> own_build cf e expected b"
proof -
  obtain b where b: "find (own_build cf e expected) (listed_builds v) = Some b"
    using assms(2,3) by (cases "find (own_build cf e expected) (listed_builds v)") (auto simp: find_None_iff)
  have "need_all e [''execution_id''] = Inr ()"
    using assms(1) by (auto simp: expected_substitutions_def Let_def then_result_Inr need_all_Inr)
  then show ?thesis using assms b by (auto simp: matching_build_def find_Some_iff)
qed

text \<open>
  C8: a build that was posted for an execution is found again.  When a request was built for a reserved execution,
  and Cloud Build reports a build with the source, account and substitutions of that request, then every listing with
  this build makes the recovery of the execution find a build of its own, whatever else is listed.
\<close>

theorem build_recognised:
  assumes "build_request cf e service = Inr request" and "reserved_as r e"
    and "operation r = ''pr_quality'' \<Longrightarrow> planner_hash r = ''''"
    and "flag e ''planner_contract_retry_pending'' \<Longrightarrow> flag e ''planner_retry_pending''"
    and "reports request build" and "build \<in> set (listed_builds v)"
    and "\<not> flag e ''bootstrap_ticket_id''" and "status < 300"
  shows "\<exists>b expected. matching_build cf (Inr (status, Inr v)) e = Inr (Some b) \<and>
    expected_substitutions cf e = Inr expected \<and> own_build cf e expected b"
  using own_build_of_request [OF assms(1-5)] matching_build_listed [OF _ assms(6) _ assms(7,8)] by blast

lemma demo_not_flagged: "\<not> flag (demo_execution sha) ''planner_contract_retry_pending''"
  "\<not> flag (demo_execution sha) ''planner_retry_pending''" "\<not> flag (demo_execution sha) ''bootstrap_ticket_id''"
  by (simp_all add: demo_execution_def reserved_value_def flag_def dget_cons)

lemma build_recognised_witness:
  "\<exists>request b. build_request demo_config (demo_execution ''c1'') demo_service = Inr request \<and>
     matching_build demo_config
       (Inr (200, Inr (PDict [(''builds'', PList [PDict [(''id'', PStr ''x'')], PDict (request @ [(''id'', PStr ''1'')])])])))
       (demo_execution ''c1'') = Inr (Some b)"
proof -
  obtain request where q: "build_request demo_config (demo_execution ''c1'') demo_service = Inr request"
    using demo_build_request by blast
  have "reports request (request @ [(''id'', PStr ''1'')])"
    by (auto simp: reports_def dget_def map_add_def split: option.splits)
  from build_recognised [OF q demo_is_reserved _ _ this,
      of "PDict [(''builds'', PList [PDict [(''id'', PStr ''x'')], PDict (request @ [(''id'', PStr ''1'')])])]" 200]
  show ?thesis using q by (auto simp: demo_reservation_def demo_not_flagged listed_builds_def dget_or_def)
qed

lemma matching_build_own:
  assumes "matching_build cf listing e = Inr (Some b)"
  shows "\<exists>expected. expected_substitutions cf e = Inr expected \<and> own_build cf e expected b"
  using assms by (auto simp: matching_build_def then_result_Inr find_Some_iff split: if_splits prod.splits)

text \<open>
  C9: recovery never crosses executions.  If the recoveries of two reserved executions, possibly under different
  configurations and from different listings, find the same build, then the executions agree in their fingerprint,
  which is their id, and in service, repository, commits, operation, profile and executor.
\<close>

theorem recovery_never_crosses:
  assumes "reserved_as r e" and "reserved_as r' e'"
    and "matching_build cf listing e = Inr (Some b)" and "matching_build cf' listing' e' = Inr (Some b)"
  shows "list_all (\<lambda>k. dget e k = dget e' k)
    [''execution_id'', ''fingerprint'', ''service_name'', ''repository'', ''head_sha'', ''base_sha'', ''operation'',
     ''profile_hash'', ''executor_digest'']"
proof -
  let ?subs = "as_dict (dget_or b ''substitutions'' (PDict []))"
  have own: "dget ?subs ''_EXECUTION_ID'' = dget e ''execution_id'' \<and> dget ?subs ''_REQUEST_FINGERPRINT'' = dget e ''fingerprint'' \<and>
      dget ?subs ''_SERVICE_NAME'' = dget e ''service_name'' \<and> dget ?subs ''_REPOSITORY'' = dget e ''repository'' \<and>
      dget ?subs ''_HEAD_SHA'' = dget e ''head_sha'' \<and> dget ?subs ''_BASE_SHA'' = dget e ''base_sha'' \<and>
      dget ?subs ''_OPERATION'' = dget e ''operation'' \<and> dget ?subs ''_PROFILE_SHA256'' = dget e ''profile_hash'' \<and>
      dget ?subs ''_EXECUTOR_DIGEST'' = dget e ''executor_digest''"
    if res: "reserved_as r e" and m: "matching_build cf listing e = Inr (Some b)" for cf r e listing
  proof -
    note f = reserved_fields [OF res]
    obtain fp where fp: "dget e ''execution_id'' = PStr fp" "dget e ''fingerprint'' = PStr fp" using f(9) by blast
    obtain expected where x: "expected_substitutions cf e = Inr expected" and o: "own_build cf e expected b"
      using matching_build_own [OF m] by blast
    obtain count where c: "retry_count e = Inr count"
      using x by (auto simp: expected_substitutions_def Let_def then_result_Inr)
    show ?thesis
      using o x unfolding expected_substitutions_Inr [OF res c]
      by (auto simp: own_build_def Let_def text_of_def fp f)
  qed
  show ?thesis using own [OF assms(1,3)] own [OF assms(2,4)] by simp
qed

lemma demo_own: "\<exists>build expected. expected_substitutions demo_config (demo_execution sha) = Inr expected \<and>
    own_build demo_config (demo_execution sha) expected build"
proof -
  obtain request where q: "build_request demo_config (demo_execution sha) demo_service = Inr request"
    using demo_build_request by blast
  have "reports request request" by (simp add: reports_def)
  from own_build_of_request [OF q demo_is_reserved _ _ this] show ?thesis
    by (auto simp: demo_reservation_def demo_not_flagged)
qed

lemma demo_matching:
  assumes "expected_substitutions demo_config (demo_execution sha) = Inr expected"
    and "own_build demo_config (demo_execution sha) expected build"
  shows "matching_build demo_config (Inr (200, Inr (PDict [(''builds'', PList (PDict build # rest))]))) (demo_execution sha) =
    Inr (Some build)"
proof -
  have "need_all (demo_execution sha) [''execution_id''] = Inr ()"
    by (simp add: need_all_Inr demo_execution_def reserved_value_def has_key_def)
  then show ?thesis using assms by (simp add: matching_build_def demo_not_flagged listed_builds_def dget_or_def)
qed

lemma recovery_never_crosses_witness:
  "\<exists>build. matching_build demo_config (Inr (200, Inr (PDict [(''builds'', PList [PDict build])]))) (demo_execution ''c1'') =
     Inr (Some build) \<and>
   matching_build demo_config (Inr (200, Inr (PDict [(''builds'', PList [PDict build, PDict []])]))) (demo_execution ''c1'') =
     Inr (Some build) \<and>
   matching_build demo_config (Inr (200, Inr (PDict [(''builds'', PList [PDict build])]))) (demo_execution ''c2'') \<noteq>
     Inr (Some build)"
proof -
  obtain expected build where o: "expected_substitutions demo_config (demo_execution ''c1'') = Inr expected"
    "own_build demo_config (demo_execution ''c1'') expected build" using demo_own by blast
  note m = demo_matching [OF o]
  have "matching_build demo_config (Inr (200, Inr (PDict [(''builds'', PList [PDict build])]))) (demo_execution ''c2'') \<noteq>
     Inr (Some build)"
    using recovery_never_crosses [OF demo_is_reserved demo_is_reserved m]
    by (force simp: demo_execution_def reserved_value_def dget_cons)
  then show ?thesis using m recovery_never_crosses [OF demo_is_reserved demo_is_reserved m m] by auto
qed

section \<open>Well-formed requests\<close>

text \<open>The steps of a build: fresh ids, pinned images, and each waits only for steps before it.\<close>

fun steps_ok :: "string list \<Rightarrow> doc list \<Rightarrow> bool" where
  "steps_ok earlier [] = True"
| "steps_ok earlier (s # ss) =
     (text_of s ''id'' \<notin> set earlier \<and> image_pinned (text_of s ''name'') \<and>
      list_all (\<lambda>v. py_str v \<in> set earlier) (as_list (dget_or s ''waitFor'' (PList []))) \<and>
      steps_ok (text_of s ''id'' # earlier) ss)"

lemmas step_simps = step_of_def strs_def text_of_def dget_cons prepare_step_def planner_volume_step_def
  plan_step_def publish_plan_step_def smoke_step_def postgres_step_def quality_step_def publish_quality_step_def

lemma retry_steps_ok:
  assumes "image_pinned executor" and "image_pinned planner"
  shows "steps_ok [] [prepare_step executor name env, planner_volume_step executor ''prepare'', plan_step planner env',
    publish_plan_step planner env'']"
  using assms by (simp add: step_simps)

lemma quality_steps_ok:
  assumes "image_pinned executor"
  shows "steps_ok [] (quality_steps cf executor name spec env)"
    "image_pinned (bc_planner_image cf) \<Longrightarrow>
     steps_ok [] (quality_steps cf executor name spec env @ release_steps cf executor env')"
  using assms by (simp_all add: step_simps dict_simps quality_steps_def release_steps_def Let_def)

lemma quality_steps_nonempty: "quality_steps cf executor name spec env \<noteq> []"
  by (simp add: quality_steps_def Let_def)

text \<open>A number is read back from its text.\<close>

lemma digits_value_digits:
  "list_all is_digit xs \<Longrightarrow> xs \<noteq> [] \<or> b \<Longrightarrow>
   digits_value b acc xs = Some (foldl (\<lambda>a c. 10 * a + (int (of_char c) - 48)) acc xs)"
  by (induction xs arbitrary: b acc) simp_all

lemma nat_text_value: "foldl (\<lambda>a c. 10 * a + (int (of_char c) - 48)) 0 (nat_text n) = int n"
proof (induction n rule: nat_text.induct)
  case (1 n)
  have digit: "int (of_char (digit_char m)) - 48 = int m" if "m < 10" for m
    using that by (simp add: digit_char_def)
  show ?case
  proof (cases "n < 10")
    case True
    then show ?thesis by (subst nat_text.simps) (simp add: digit)
  next
    case False
    then have "int n = 10 * int (n div 10) + int (n mod 10)" by presburger
    then show ?thesis using False 1 by (subst nat_text.simps) (simp add: digit)
  qed
qed

lemma digits_int_text: "0 \<le> t \<Longrightarrow> digits_int (int_text t) = t"
  by (simp add: digits_int_def int_text_def digits_value_digits [OF nat_text_digits] nat_text_value)

lemma all_digits_text: "0 \<le> t \<Longrightarrow> all_digits (int_text t)"
  using nat_text_digits [of "nat t"] by (simp add: int_text_def all_digits_def)

text \<open>
  C27: every request that is built is a well-formed economy build.  If the profile allows between one second and an
  hour, the request passes the economy policy, its steps have distinct ids and images pinned by digest, and a step waits
  only for steps before it; this holds for the quality build, the release build and the planner-only retry.
\<close>

theorem build_request_wellformed:
  assumes "build_request cf e service = Inr request"
    and "profile_for cf service = Inr p" and "qp_timeout p = Inr t" and "1 \<le> t" and "t \<le> 3600"
  shows "validate_submission request = Inr () \<and>
    (\<exists>steps. dget request ''steps'' = PList (map PDict steps) \<and> steps \<noteq> [] \<and> steps_ok [] steps)"
proof -
  from assms(1) obtain executor count steps where
    b: "require_config cf service = Inr ()" "executor_image cf p = Inr executor"
      "built_from cf e service p executor count steps request"
    and steps: "steps = quality_steps cf executor (cs_name service) (qp_spec p) (common_env cf e service p) @
       (if text_of e ''operation'' = ''main_release'' then release_steps cf executor (common_env cf e service p) else []) \<or>
     (\<exists>h. steps = [prepare_step executor (cs_name service) (common_env cf e service p),
       planner_volume_step executor ''prepare'', plan_step (bc_planner_image cf) (common_env cf e service p @ h @ git_env),
       publish_plan_step (bc_planner_image cf) (common_env cf e service p @ h)])"
    by (rule build_request_Inr) (use assms(2) in auto)
  have pinned: "image_pinned executor" "image_pinned (bc_planner_image cf)"
    using executor_image_pinned [OF b(2)] b(1) assms(2) b(2) by (auto simp: require_config_def first_error_Inr then_result_Inr)
  have ok: "steps_ok [] steps \<and> steps \<noteq> []"
    using steps
  proof (elim disjE exE)
    fix h assume "steps = [prepare_step executor (cs_name service) (common_env cf e service p),
       planner_volume_step executor ''prepare'', plan_step (bc_planner_image cf) (common_env cf e service p @ h @ git_env),
       publish_plan_step (bc_planner_image cf) (common_env cf e service p @ h)]"
    then show ?thesis using retry_steps_ok [OF pinned] by (simp del: steps_ok.simps)
  qed (use quality_steps_ok [OF pinned(1)] pinned(2) in \<open>simp add: quality_steps_nonempty\<close>)
  have o: "economy_options [(''substitutionOption'', PStr ''ALLOW_LOOSE'')] =
      Inr [(''logging'', PStr ''CLOUD_LOGGING_ONLY''), (''substitutionOption'', PStr ''ALLOW_LOOSE'')]"
    by code_simp
  obtain source where req: "request = build_document cf source (dget e ''head_sha'') steps t
      [(''logging'', PStr ''CLOUD_LOGGING_ONLY''), (''substitutionOption'', PStr ''ALLOW_LOOSE'')]
      (request_substitutions cf e service p count) (text_of e ''execution_id'')"
    using b(3) assms(3) o by (auto simp: built_from_def)
  have "validate_submission request = Inr ()"
    using assms(4,5) digits_int_text [of t] all_digits_text [of t]
    by (simp add: req validate_submission_def build_document_def dget_cons has_key_def is_str_def Let_def butlast_append)
  then show ?thesis using ok by (simp add: req build_document_def dget_cons) blast
qed

lemma build_request_wellformed_witness:
  "\<exists>request. build_request demo_config (demo_execution ''c1'') demo_service = Inr request \<and>
     validate_submission request = Inr ()"
proof -
  obtain request where q: "build_request demo_config (demo_execution ''c1'') demo_service = Inr request"
    using demo_build_request by blast
  have "qp_timeout demo_profile = Inr 1200" by (simp add: qp_timeout_def demo_profile_def need_def has_key_def dget_cons)
  then show ?thesis using build_request_wellformed [OF q demo_profile_for, of 1200] q by simp
qed

section \<open>One post\<close>

text \<open>
  C6: however many replicas submit an execution, and however their accesses interleave with each other and with the
  operations of the release store, at most one request is posted for it, as long as no operation makes the execution
  submittable again after its claim was won.
\<close>

theorem submission_posted_once:
  assumes "document_backend B" and "(cluster_step cf B i)\<^sup>*\<^sup>* (w, []) t" and "posts_for i w = 0"
  shows "posts_for i (fst t) + length (filter (is_posting i) (snd t)) \<le> 1"
proof -
  have "charged_once B i (w, [])" using assms(3) by (simp add: charged_once_def charge_def)
  from charged_once_history [OF assms(1,2) this] show ?thesis by (simp add: charged_once_def charge_def)
qed

definition demo_worker :: worker where
  "demo_worker = \<lparr>wr_execution = ''fc1'', wr_clock = ''t1'',
     wr_answers = \<lparr>an_listing = Inr (200, Inr (PDict [])), an_post = Inl (RuntimeError ''timeout'')\<rparr>, wr_service = demo_service\<rparr>"

definition demo_world :: "mem build_world" where
  "demo_world = \<lparr>ledger = [(''fc1'', demo_execution ''c1'')], posted = [], cancelled = []\<rparr>"

lemma demo_fields: "dget (demo_execution sha) ''provider'' = PStr ''cloud_build''" "demo_execution sha \<noteq> []"
  "dget (demo_execution sha) ''build_id'' = PNone" "dget (demo_execution sha) ''status'' = PStr ''submission_pending''"
  by (simp_all add: demo_execution_def reserved_value_def demo_reservation_def dget_cons)

lemma demo_starts: "\<exists>request. start_submission demo_config mem_backend demo_worker demo_world = Claiming (demo_execution ''c1'') request"
proof -
  obtain request where q: "build_request demo_config (demo_execution ''c1'') demo_service = Inr request"
      "validate_submission request = Inr ()" using demo_build_request by blast
  have m: "require_managed demo_config demo_service = Inr ()"
    by (simp add: require_managed_Inr demo_config_def demo_service_def)
  obtain expected where x: "expected_substitutions demo_config (demo_execution ''c1'') = Inr expected" using demo_own by blast
  have "need_all (demo_execution ''c1'') [''execution_id''] = Inr ()"
    by (simp add: need_all_Inr demo_execution_def reserved_value_def has_key_def)
  then have l: "matching_build demo_config (Inr (200, Inr (PDict []))) (demo_execution ''c1'') = Inr None"
    by (simp add: matching_build_def demo_not_flagged x listed_builds_def dget_or_def)
  have g: "rx_get (bc_settings demo_config) mem_backend ''fc1'' (ledger demo_world) = Inr (Some (demo_execution ''c1''))"
    by (simp add: rx_get_def demo_world_def mem_load_def demo_fields demo_not_flagged)
  have b: "require_new_builds (bc_settings demo_config) = Inr ()" by (simp add: require_new_builds_def demo_config_def)
  show ?thesis
    using g by (simp add: start_submission_def demo_worker_def m l prepared_request_def b q demo_not_flagged is_str_def
        flag_def demo_fields demo_not_flagged [unfolded flag_def])
qed

lemma works_step: "k < length ws \<Longrightarrow> worker_step cf B (fst (ws ! k)) (snd (ws ! k)) w = (ph', w') \<Longrightarrow>
    cluster_step cf B i (w, ws) (w', ws[k := (fst (ws ! k), ph')])"
  by (rule cluster_step.works) auto

lemma demo_cluster: "\<exists>t. (cluster_step demo_config mem_backend ''fc1'')\<^sup>*\<^sup>* (demo_world, []) t \<and> posts_for ''fc1'' (fst t) = 1"
proof -
  let ?step = "cluster_step demo_config mem_backend ''fc1''" and ?p = demo_worker
  let ?ph = "Claiming (demo_execution ''c1'')" and ?po = "Posting (demo_execution ''c1'')" and ?se = "Settling (demo_execution ''c1'')"
  obtain q where start: "start_submission demo_config mem_backend ?p demo_world = ?ph q" using demo_starts by blast
  then have begin_step: "worker_step demo_config mem_backend ?p Starting demo_world = (?ph q, demo_world)" by simp
  have f: "\<not> flag (demo_execution ''c1'') ''build_id''" "\<not> flag (demo_execution ''c1'') ''bootstrap_ticket_id''"
    by (simp_all add: flag_def demo_fields demo_not_flagged [unfolded flag_def])
  define w1 where "w1 = snd (on_ledger (claim_submission mem_backend ''t1'' ''fc1'') demo_world)"
  have claim: "worker_step demo_config mem_backend ?p (?ph q) demo_world = (?po q, w1)"
    by (simp add: w1_def demo_worker_def on_ledger_def claim_submission_def transact_def demo_world_def mem_load_def f
        is_str_def demo_fields in_strs_def)
  have l1: "load mem_backend (ledger w1) ''fc1'' =
      Some (dict_update (demo_execution ''c1'') [(''status'', PStr ''submitting''), (''updated_at'', PStr ''t1'')])"
    by (simp add: w1_def on_ledger_def claim_submission_def transact_def demo_world_def mem_load_def f
        is_str_def demo_fields in_strs_def mem_patch_def dict_simps)
  have lose: "worker_step demo_config mem_backend ?p (?ph q) w1 = (Finished, w1)"
    using l1 by (simp add: demo_worker_def on_ledger_def claim_submission_def transact_def dict_simps in_strs_def)
  have post: "worker_step demo_config mem_backend ?p (?po q) w1 = (?se, w1\<lparr>posted := [(''fc1'', q)]\<rparr>)"
    by (simp add: w1_def demo_worker_def on_ledger_def demo_world_def post_build_def require_new_builds_def demo_config_def
        split: prod.split)
  have "?step (demo_world, []) (demo_world, [(?p, Starting)])" using cluster_step.arrives [where ws = "[]"] by simp
  moreover have "?step (demo_world, [(?p, Starting)]) (demo_world, [(?p, Starting), (?p, Starting)])"
    using cluster_step.arrives [where ws = "[(?p, Starting)]"] by simp
  moreover have "?step (demo_world, [(?p, Starting), (?p, Starting)]) (demo_world, [(?p, ?ph q), (?p, Starting)])"
    using works_step [of 0 "[(?p, Starting), (?p, Starting)]"] begin_step by (simp del: worker_step.simps)
  moreover have "?step (demo_world, [(?p, ?ph q), (?p, Starting)]) (demo_world, [(?p, ?ph q), (?p, ?ph q)])"
    using works_step [of 1 "[(?p, ?ph q), (?p, Starting)]"] begin_step by (simp del: worker_step.simps)
  moreover have "?step (demo_world, [(?p, ?ph q), (?p, ?ph q)]) (w1, [(?p, ?po q), (?p, ?ph q)])"
    using works_step [of 0 "[(?p, ?ph q), (?p, ?ph q)]"] claim by (simp del: worker_step.simps)
  moreover have "?step (w1, [(?p, ?po q), (?p, ?ph q)]) (w1, [(?p, ?po q), (?p, Finished)])"
    using works_step [of 1 "[(?p, ?po q), (?p, ?ph q)]"] lose by (simp del: worker_step.simps)
  moreover have "?step (w1, [(?p, ?po q), (?p, Finished)]) (w1\<lparr>posted := [(''fc1'', q)]\<rparr>, [(?p, ?se), (?p, Finished)])"
    using works_step [of 0 "[(?p, ?po q), (?p, Finished)]"] post by (simp del: worker_step.simps)
  ultimately have "?step\<^sup>*\<^sup>* (demo_world, []) (w1\<lparr>posted := [(''fc1'', q)]\<rparr>, [(?p, ?se), (?p, Finished)])"
    by (meson converse_rtranclp_into_rtranclp rtranclp.rtrancl_refl)
  then show ?thesis by (intro exI conjI) (auto simp: posts_for_def)
qed

lemma submission_posted_once_witness:
  "\<exists>t. (cluster_step demo_config mem_backend ''fc1'')\<^sup>*\<^sup>* (demo_world, []) t \<and> posts_for ''fc1'' (fst t) = 1 \<and>
     filter (is_posting ''fc1'') (snd t) = []"
proof -
  obtain t where t: "(cluster_step demo_config mem_backend ''fc1'')\<^sup>*\<^sup>* (demo_world, []) t" "posts_for ''fc1'' (fst t) = 1"
    using demo_cluster by blast
  have "posts_for ''fc1'' demo_world = 0" by (simp add: posts_for_def demo_world_def)
  from submission_posted_once [OF memory.document_backend_axioms t(1) this] t
  have "filter (is_posting ''fc1'') (snd t) = []" by simp
  then show ?thesis using t by blast
qed

section \<open>Recovery\<close>

lemma rx_save_ok:
  assumes "load B s i = Some d" and "i \<noteq> bootstrap_document_id" and "\<not> flag d ''bootstrap_ticket_id''"
    and "\<not> list_ex (has_key (dict_set ''updated_at'' (PStr now) given)) identity_fields"
    and "validate_changes cfg B d (dict_set ''updated_at'' (PStr now) given) = Inr ()"
  shows "rx_save cfg B now i given s =
    (Inr (dict_update d (dict_set ''updated_at'' (PStr now) given)), patch B i (dict_set ''updated_at'' (PStr now) given) s)"
proof -
  have "dict_set ''updated_at'' (PStr now) given \<noteq> []" by (cases given) auto
  then show ?thesis
    using assms by (simp add: rx_save_def Let_def mutate_def transact_def map_op_def checked_def guarded_def first_error.simps)
qed

text \<open>A write of status fields that a lawful move of an unlocked execution allows.\<close>

lemma status_write_ok:
  assumes "\<not> flag d ''bootstrap_ticket_id''" and "\<not> is_str d ''ticket_id'' quality_bootstrap_ticket_id"
    and "dget d ''status'' = PStr old" and "new \<in> set (successors old)"
    and "k \<in> {''reconciliation_attempts'', ''uncertain_since'', ''error''}"
  shows "validate_changes cfg B d (dict_set ''updated_at'' (PStr now) [(''status'', PStr new), (k, v)]) = Inr ()"
    "\<not> list_ex (has_key (dict_set ''updated_at'' (PStr now) [(''status'', PStr new), (k, v)])) identity_fields"
proof -
  have "dget_or d ''status'' (PStr ''received'') = PStr old" by (rule dget_or_of [OF assms(3)]) simp
  then show "validate_changes cfg B d (dict_set ''updated_at'' (PStr now) [(''status'', PStr new), (k, v)]) = Inr ()"
    "\<not> list_ex (has_key (dict_set ''updated_at'' (PStr now) [(''status'', PStr new), (k, v)])) identity_fields"
    using assms by (auto simp: validate_changes_def validate_status_change_def Let_def first_error_Inr dget_cons in_strs_def
        rewrites_any_def identity_fields_def has_key_def)
qed

lemma dict_set_two: "dict_set ''updated_at'' (PStr now) [(''status'', v), (''reconciliation_attempts'', x)] =
    [(''status'', v), (''reconciliation_attempts'', x), (''updated_at'', PStr now)]"
  "dict_set ''updated_at'' (PStr now) [(''status'', v), (''uncertain_since'', x)] =
    [(''status'', v), (''uncertain_since'', x), (''updated_at'', PStr now)]"
  "dict_set ''updated_at'' (PStr now) [(''status'', v), (''error'', x)] =
    [(''status'', v), (''error'', x), (''updated_at'', PStr now)]"
  by simp_all

text \<open>An execution that a stale write of an absence check reopens can be claimed.\<close>

lemma reopened_claimed:
  assumes "document_backend B" and "load B s i = Some d" and "i \<noteq> bootstrap_document_id"
    and "is_str d ''provider'' ''cloud_build''" and "\<not> flag d ''build_id''" and "\<not> flag d ''bootstrap_ticket_id''"
    and "\<not> is_str d ''ticket_id'' quality_bootstrap_ticket_id" and "in_strs (dget d ''status'') [''submitting'', ''unknown'']"
  shows "\<exists>s1 d'. rx_save cfg B now i [(''status'', PStr ''submission_pending''), (''reconciliation_attempts'', PInt n)] s = (Inr d', s1) \<and>
    (\<exists>s2. claim_submission B now' i s1 = (Inr True, s2) \<and>
      load B s2 i = Some (dict_update (dict_update d [(''status'', PStr ''submission_pending''),
        (''reconciliation_attempts'', PInt n), (''updated_at'', PStr now)]) [(''status'', PStr ''submitting''), (''updated_at'', PStr now')]))"
proof -
  obtain old where old: "dget d ''status'' = PStr old" "old \<in> {''submitting'', ''unknown''}"
    using assms(8) by (auto simp: in_strs_def split: pyval.splits)
  have "''submission_pending'' \<in> set (successors ''submitting'')" "''submission_pending'' \<in> set (successors ''unknown'')"
    by code_simp+
  then have "''submission_pending'' \<in> set (successors old)" using old(2) by blast
  note ok = status_write_ok [OF assms(6,7) old(1) this]
  have ok2: "validate_changes cfg B d (dict_set ''updated_at'' (PStr now)
        [(''status'', PStr ''submission_pending''), (''reconciliation_attempts'', PInt n)]) = Inr ()"
    "\<not> list_ex (has_key (dict_set ''updated_at'' (PStr now)
        [(''status'', PStr ''submission_pending''), (''reconciliation_attempts'', PInt n)])) identity_fields"
    by (rule ok, simp)+
  let ?cs = "[(''status'', PStr ''submission_pending''), (''reconciliation_attempts'', PInt n), (''updated_at'', PStr now)]"
  have save: "rx_save cfg B now i [(''status'', PStr ''submission_pending''), (''reconciliation_attempts'', PInt n)] s =
      (Inr (dict_update d ?cs), patch B i ?cs s)"
    using rx_save_ok [OF assms(2,3,6) ok2(2,1)] by (simp only: dict_set_two)
  have l1: "load B (patch B i ?cs s) i = Some (dict_update d ?cs)"
    using document_backend.load_patch [OF assms(1,2)] by simp
  have "claim_submission B now' i (patch B i ?cs s) =
      (Inr True, patch B i [(''status'', PStr ''submitting''), (''updated_at'', PStr now')] (patch B i ?cs s))"
    using assms(4-6) by (simp add: claim_submission_def transact_def l1 dict_simps in_strs_def)
  then show ?thesis using save document_backend.load_patch [OF assms(1) l1] by simp
qed

text \<open>
  C37: the absence check is not atomic, and two of them undo the claim that keeps submissions single.  Of two reconcilers
  that both find the same uncertain execution, the second writes from what it read before the first one's write, so after
  the first has reopened the execution and claimed it for its own post, the second reopens it once more and claims it
  again: both may post.
\<close>

theorem reopened_submission_claimed_twice:
  assumes "document_backend B" and "load B s i = Some d" and "i \<noteq> bootstrap_document_id" and "d \<noteq> []"
    and "is_str d ''provider'' ''cloud_build''" and "\<not> flag d ''build_id''" and "\<not> flag d ''bootstrap_ticket_id''"
    and "\<not> is_str d ''ticket_id'' quality_bootstrap_ticket_id" and "in_strs (dget d ''status'') [''submitting'', ''unknown'']"
    and "py_int (dget_or d ''reconciliation_attempts'' (PInt 0)) = Inr n"
  shows "reconcile_submission_absent cfg B now i s = rx_save cfg B now i
      [(''status'', PStr ''submission_pending''), (''reconciliation_attempts'', PInt (n + 1))] s \<and>
    map (\<lambda>r. r = Inr True) (fst (run_ops
      [map_op (\<lambda>_. True) (reconcile_submission_absent cfg B now i), claim_submission B t1 i,
       map_op (\<lambda>_. True) (rx_save cfg B now' i
         [(''status'', PStr ''submission_pending''), (''reconciliation_attempts'', PInt (n + 1))]),
       claim_submission B t2 i] s)) = [True, True, True, True]"
proof -
  have g: "rx_get cfg B i s = Inr (Some d)" using assms(2,4,7) by (simp add: rx_get_def)
  have "reconcile_checks d = Inr ()" using assms(6,7,9) by (simp add: reconcile_checks_def first_error_Inr)
  then have r: "reconcile_submission_absent cfg B now i s = rx_save cfg B now i
      [(''status'', PStr ''submission_pending''), (''reconciliation_attempts'', PInt (n + 1))] s"
    using g assms(10) by (simp add: reconcile_submission_absent_def)
  from reopened_claimed [OF assms(1-3,5-9), of cfg now "n + 1" t1] obtain s1 d1 s2 where
    first: "rx_save cfg B now i [(''status'', PStr ''submission_pending''), (''reconciliation_attempts'', PInt (n + 1))] s = (Inr d1, s1)"
      "claim_submission B t1 i s1 = (Inr True, s2)"
    and l2: "load B s2 i = Some (dict_update (dict_update d [(''status'', PStr ''submission_pending''),
        (''reconciliation_attempts'', PInt (n + 1)), (''updated_at'', PStr now)])
        [(''status'', PStr ''submitting''), (''updated_at'', PStr t1)])" by blast
  from reopened_claimed [OF assms(1) l2 assms(3), of cfg now' "n + 1" t2] assms(5-8) obtain s3 d3 s4 where
    second: "rx_save cfg B now' i [(''status'', PStr ''submission_pending''), (''reconciliation_attempts'', PInt (n + 1))] s2 = (Inr d3, s3)"
      "claim_submission B t2 i s3 = (Inr True, s4)"
    by (auto simp: dict_simps in_strs_def)
  show ?thesis using r first second by (simp add: map_op_def)
qed

lemma reopened_submission_claimed_twice_witness:
  "map (\<lambda>r. r = Inr True) (fst (run_ops
      [map_op (\<lambda>_. True) (reconcile_submission_absent (bc_settings demo_config) mem_backend ''t1'' ''e''),
       claim_submission mem_backend ''t2'' ''e'',
       map_op (\<lambda>_. True) (rx_save (bc_settings demo_config) mem_backend ''t3'' ''e''
         [(''status'', PStr ''submission_pending''), (''reconciliation_attempts'', PInt 1)]),
       claim_submission mem_backend ''t4'' ''e'']
      [(''e'', [(''provider'', PStr ''cloud_build''), (''status'', PStr ''unknown'')])])) = [True, True, True, True]"
  using reopened_submission_claimed_twice [OF memory.document_backend_axioms, of
      "[(''e'', [(''provider'', PStr ''cloud_build''), (''status'', PStr ''unknown'')])]" "''e''"
      "[(''provider'', PStr ''cloud_build''), (''status'', PStr ''unknown'')]" 0 "bc_settings demo_config" "''t1''" "''t2''" "''t3''" "''t4''"]
  by (simp add: mem_load_def bootstrap_document_id_def is_str_def flag_def dget_cons in_strs_def)

section \<open>The bootstrap recovery\<close>

lemma collect_matches_returns:
  assumes "finite tokens" and "\<And>token builds following. page_of (pages token) = Inr (builds, following) \<Longrightarrow> following \<in> tokens"
  shows "\<exists>r. collect_matches pages verify nonce seen found token = Some r"
proof (induction "card (tokens - set seen)" arbitrary: seen found token rule: less_induct)
  case less
  show ?case
  proof (cases "page_of (pages token)")
    case (Inr page)
    obtain builds following where page: "page = (builds, following)" by (cases page)
    have "following \<in> tokens" using assms(2) Inr page by blast
    show ?thesis
    proof (cases "following \<in> set seen")
      case False
      then have "card (tokens - set (following # seen)) < card (tokens - set seen)"
        using \<open>following \<in> tokens\<close> assms(1) by (intro psubset_card_mono) auto
      from less [OF this] show ?thesis
        by (subst collect_matches.simps) (auto simp: Inr page split: sum.splits)
    qed (subst collect_matches.simps, auto simp: Inr page split: sum.splits)
  qed (subst collect_matches.simps, simp)
qed






lemma recovery_returns:
  assumes "finite tokens" and "\<And>token builds following. page_of (pages token) = Inr (builds, following) \<Longrightarrow> following \<in> tokens"
  shows "\<exists>r. reconcile_quality_bootstrap cf B now got pages e x w = Some r"
    "\<exists>r. reconcile_uncertain_submission cf B now age got pages listing later execution_id service w = Some r"
proof -
  have returns: "(collect_matches pages verify nonce seen found token = None) = False" for verify nonce seen found token
    using collect_matches_returns [of tokens pages verify nonce seen found token, OF assms] by auto
  have boot: "\<exists>r. reconcile_quality_bootstrap cf B now got pages e x w = Some r" for e x and w :: "'a build_world"
    by (auto simp: reconcile_quality_bootstrap_def returns split: option.splits sum.splits list.splits)
  show "\<exists>r. reconcile_quality_bootstrap cf B now got pages e x w = Some r" by (rule boot)
  show "\<exists>r. reconcile_uncertain_submission cf B now age got pages listing later execution_id service w = Some r"
    using boot by (auto simp: reconcile_uncertain_submission_def split: prod.splits sum.splits option.splits)
qed

definition looping_pages :: "string \<Rightarrow> reply" where
  "looping_pages token = Inr (200, Inr (PDict [(''nextPageToken'', PStr (if token = ''a'' then ''b'' else ''a''))]))"






section \<open>A lost response\<close>

lemma bind_release_ok:
  fixes w :: "'s build_world"
  assumes "document_backend B" and "load B (ledger w) i = Some d" and "\<not> flag d ''bootstrap_ticket_id''"
    and "is_str d ''provider'' ''cloud_build''" and "\<not> has_key d ''build_id''" and "dget d ''status'' = PStr ''unknown''"
    and "py_str (dget_or build ''id'' (PStr '''')) = build_id" and "build_id \<noteq> ''''" and "length build_id \<le> 128"
  shows "\<exists>d' w'. bind_release B now i build w = (Inr d', w') \<and> dget d' ''build_id'' = PStr build_id \<and> posted w' = posted w"
proof -
  let ?m = "[(''provider_status'', PStr (py_str (dget_or build ''status'' (PStr ''QUEUED'')))),
      (''logs_url'', PStr (py_str (dget_or build ''logUrl'' (PStr '''')))),
      (''build_name'', PStr (py_str (dget_or build ''name'' (PStr '''')))), (''submission_reconciled_at'', PStr now)]"
  let ?cs = "dict_update ?m [(''build_id'', PStr build_id), (''provider_run_id'', PStr build_id),
      (''status'', PStr ''submission_pending''), (''updated_at'', PStr now)]"
  have "''submission_pending'' \<in> set (successors ''unknown'')" by code_simp
  then have "validate_status_change d ?cs = Inr ()"
    using assms(3,6) dget_or_of [OF assms(6), of "PStr ''received''"]
    by (auto simp: validate_status_change_def Let_def first_error_Inr dict_simps dget_cons in_strs_def)
  moreover have "dget_or d ''build_id'' (PStr '''') = PStr ''''"
    using assms(5) by (simp add: dget_or_def has_key_def split: option.splits)
  moreover have ok: "\<not> list_ex (has_key ?m) bind_forbidden" by (simp add: bind_forbidden_def has_key_def)
  moreover have "\<not> (build_id = [] \<or> 128 < length build_id)" using assms(8,9) by simp
  ultimately have "bind_build B now i build_id ?m (ledger w) = (Inr (dict_update d ?cs), patch B i ?cs (ledger w))"
    unfolding bind_build_def if_not_P [OF ok]
    using assms(2-4,8) by (simp add: transact_def guarded_def first_error.simps raise_if_def Let_def del: dict_update.simps)
  moreover have "dget (dict_update d ?cs) ''build_id'' = PStr build_id" by (simp add: dict_simps dget_cons)
  ultimately show ?thesis
    using assms(8) by (simp add: bind_release_def assms(7) on_ledger_def)
qed

text \<open>The execution after a post without an answer.\<close>

definition uncertain_version :: "string \<Rightarrow> doc \<Rightarrow> doc" where
  "uncertain_version now e =
     dict_update (dict_update e [(''status'', PStr ''submitting''), (''updated_at'', PStr now)])
       [(''status'', PStr ''unknown''), (''uncertain_since'', PStr now), (''updated_at'', PStr now)]"

lemma uncertain_lookup:
  assumes "k \<noteq> ''status'' \<and> k \<noteq> ''updated_at'' \<and> k \<noteq> ''uncertain_since''"
  shows "dget (uncertain_version now e) k = dget e k" "dget_or (uncertain_version now e) k v = dget_or e k v"
    "has_key (uncertain_version now e) k = has_key e k"
  using assms by (simp_all add: uncertain_version_def dict_simps has_key_def)

lemma uncertain_keeps:
  "expected_substitutions cf (uncertain_version now e) = expected_substitutions cf e"
  "own_build cf (uncertain_version now e) expected build = own_build cf e expected build"
  "flag (uncertain_version now e) ''bootstrap_ticket_id'' = flag e ''bootstrap_ticket_id''"
  "flag (uncertain_version now e) ''build_id'' = flag e ''build_id''"
  "is_str (uncertain_version now e) ''provider'' p = is_str e ''provider'' p"
  "dget (uncertain_version now e) ''status'' = PStr ''unknown''"
  subgoal by (simp add: expected_substitutions_def need_all_def text_of_def retry_count_def flag_def uncertain_lookup Let_def cong: if_cong)
  subgoal by (simp add: own_build_def text_of_def uncertain_lookup)
  by (simp_all add: flag_def is_str_def uncertain_lookup) (simp add: uncertain_version_def dict_simps)

lemma uncertain_nonempty: "uncertain_version now e \<noteq> []"
proof
  assume "uncertain_version now e = []"
  then have "dget (uncertain_version now e) ''status'' = PNone" by (simp add: dget_def)
  then show False by (simp add: uncertain_keeps)
qed

text \<open>A submission whose post is not answered.\<close>

lemma submission_lost:
  fixes w :: "'s build_world"
  assumes B: "document_backend B" and e: "load B (ledger w) i = Some e" "submittable e" "dget e ''status'' = PStr ''submission_pending''"
    and i: "i \<noteq> bootstrap_document_id" "\<not> is_str e ''ticket_id'' quality_bootstrap_ticket_id"
    and request: "require_managed cf service = Inr ()" "prepared_request cf e service = Inr request"
    and answers: "matching_build cf (an_listing answers) e = Inr None" "an_post answers = Inl err"
  shows "\<exists>w'. submit cf B now answers i service w = (Inl (build_error ''Release build submission is uncertain''), w') \<and>
    posted w' = posted w @ [(i, request)] \<and> load B (ledger w') i = Some (uncertain_version now e)"
proof -
  have s: "\<not> flag e ''bootstrap_ticket_id''" "is_str e ''provider'' ''cloud_build''" "\<not> flag e ''build_id''"
    using e(2) by (simp_all add: submittable_def)
  have "e \<noteq> []" using e(3) by (auto simp: dget_def)
  then have g: "rx_get (bc_settings cf) B i (ledger w) = Inr (Some e)" using e(1) s(1) by (simp add: rx_get_def)
  have allowed: "require_new_builds (bc_settings cf) = Inr ()"
    using request(2) by (auto simp: prepared_request_def then_result_Inr)
  define s1 where "s1 = patch B i [(''status'', PStr ''submitting''), (''updated_at'', PStr now)] (ledger w)"
  define d1 where "d1 = dict_update e [(''status'', PStr ''submitting''), (''updated_at'', PStr now)]"
  have l1: "load B s1 i = Some d1" unfolding s1_def d1_def by (rule document_backend.load_patch_same [OF B e(1)])
  have claim: "claim_submission B now i (ledger w) = (Inr True, s1)"
    using e s by (simp add: s1_def claim_submission_def transact_def in_strs_def)
  have d1: "\<not> flag d1 ''bootstrap_ticket_id''" "\<not> is_str d1 ''ticket_id'' quality_bootstrap_ticket_id"
    "dget d1 ''status'' = PStr ''submitting''"
    using s i(2) by (simp_all add: d1_def dict_simps)
  have "''unknown'' \<in> set (successors ''submitting'')" by code_simp
  note ok = status_write_ok [OF d1 this]
  let ?cs = "[(''status'', PStr ''unknown''), (''uncertain_since'', PStr now), (''updated_at'', PStr now)]"
  have ok2: "validate_changes (bc_settings cf) B d1 (dict_set ''updated_at'' (PStr now)
        [(''status'', PStr ''unknown''), (''uncertain_since'', PStr now)]) = Inr ()"
    "\<not> list_ex (has_key (dict_set ''updated_at'' (PStr now)
        [(''status'', PStr ''unknown''), (''uncertain_since'', PStr now)])) identity_fields"
    by (rule ok, simp)+
  have save: "rx_save (bc_settings cf) B now i [(''status'', PStr ''unknown''), (''uncertain_since'', PStr now)] s1 =
      (Inr (dict_update d1 ?cs), patch B i ?cs s1)"
    using rx_save_ok [OF l1 i(1) d1(1) ok2(2,1)] by (simp only: dict_set_two)
  have l2: "load B (patch B i ?cs s1) i = Some (uncertain_version now e)"
    using document_backend.load_patch_same [OF B l1] by (simp only: uncertain_version_def d1_def)
  show ?thesis
    using l2 by (simp add: submit_def db_bind_def reading_def read_execution_def db_raise_def request answers g s allowed on_ledger_def
        claim post_build_def settle_submission_def mark_uncertain_def save_execution_def save del: require_new_builds_ok)
qed

text \<open>
  C7: a lost response is recovered without a second post.  A submission whose post gets no answer leaves the execution
  uncertain; when the build then appears in a listing, the recovery binds a build of this execution, and posts nothing.
\<close>

theorem lost_response_recovered:
  fixes w :: "'s build_world"
  assumes "document_backend B" and "load B (ledger w) i = Some e" and "dget e ''status'' = PStr ''submission_pending''"
    and "submittable e" and "i \<noteq> bootstrap_document_id" and "\<not> is_str e ''ticket_id'' quality_bootstrap_ticket_id"
    and "\<not> has_key e ''build_id''" and "reserved_as r e" and "operation r = ''pr_quality'' \<Longrightarrow> planner_hash r = ''''"
    and "flag e ''planner_contract_retry_pending'' \<Longrightarrow> flag e ''planner_retry_pending''"
    and "prepared_request cf e service = Inr request"
    and "matching_build cf (an_listing answers) e = Inr None" and "an_post answers = Inl err"
    and "reports request build" and "build \<in> set (listed_builds v)" and "status < 300"
    and "list_all (\<lambda>b. \<exists>c cs. py_str (dget_or b ''id'' (PStr '''')) = c # cs \<and> length cs < 128) (listed_builds v)"
  shows "\<exists>w1 d w2. submit cf B now answers i service w = (Inl (build_error ''Release build submission is uncertain''), w1) \<and>
    reconcile_uncertain_submission cf B now' age got pages (Inr (status, Inr v)) later i service w1 = Some (Inr d, w2) \<and>
    flag d ''build_id'' \<and> posted w1 = posted w @ [(i, request)] \<and> posted w2 = posted w1"
proof -
  have q: "build_request cf e service = Inr request" using assms(11) by (auto simp: prepared_request_def then_result_Inr)
  then have m: "require_managed cf service = Inr ()" by (rule build_request_Inr)
  from submission_lost [OF assms(1,2,4,3,5,6) m assms(11,12,13)] obtain w1 where
    w1: "submit cf B now answers i service w = (Inl (build_error ''Release build submission is uncertain''), w1)"
      "posted w1 = posted w @ [(i, request)]" "load B (ledger w1) i = Some (uncertain_version now e)" by blast
  have s: "\<not> flag e ''bootstrap_ticket_id''" "is_str e ''provider'' ''cloud_build''" "\<not> flag e ''build_id''"
    using assms(4) by (simp_all add: submittable_def)
  obtain expected where x: "expected_substitutions cf e = Inr expected" "own_build cf e expected build"
    using own_build_of_request [OF q assms(8-10,14)] by blast
  obtain b where b: "matching_build cf (Inr (status, Inr v)) (uncertain_version now e) = Inr (Some b)"
    using matching_build_listed [of cf "uncertain_version now e" expected build v status] x assms(15,16) s(1)
    by (auto simp: uncertain_keeps)
  then have "b \<in> set (listed_builds v)" using assms(16) by (auto simp: matching_build_def then_result_Inr find_Some_iff split: if_splits)
  then obtain c cs where id: "py_str (dget_or b ''id'' (PStr '''')) = c # cs" "length (c # cs) \<le> 128"
    using assms(17) by (fastforce simp: list_all_iff)
  from bind_release_ok [OF assms(1) w1(3) _ _ _ _ id(1) _ id(2), of now'] obtain d w2 where
    bind: "bind_release B now' i b w1 = (Inr d, w2)" "dget d ''build_id'' = PStr (c # cs)" "posted w2 = posted w1"
    using s assms(7) by (auto simp: uncertain_keeps uncertain_lookup)
  have g: "rx_get (bc_settings cf) B i (ledger w1) = Inr (Some (uncertain_version now e))"
    using w1(3) s(1) by (simp add: rx_get_def uncertain_nonempty uncertain_keeps)
  have "reconcile_uncertain_submission cf B now' age got pages (Inr (status, Inr v)) later i service w1 = Some (Inr d, w2)"
    using s by (simp add: reconcile_uncertain_submission_def recover_release_def db_bind_def reading_def read_execution_def m g
        uncertain_keeps in_strs_def b bind(1))
  then show ?thesis using w1 bind by (auto simp: flag_def)
qed

lemma lost_response_recovered_witness:
  "\<exists>v w1 d w2. submit demo_config mem_backend ''t1'' (wr_answers demo_worker) ''fc1'' demo_service demo_world =
      (Inl (build_error ''Release build submission is uncertain''), w1) \<and>
    reconcile_uncertain_submission demo_config mem_backend ''t2'' (\<lambda>_. Inr 0) (Inr (200, Inr PNone)) looping_pages
      (Inr (200, Inr v)) (wr_answers demo_worker) ''fc1'' demo_service w1 = Some (Inr d, w2) \<and>
    flag d ''build_id'' \<and> length (posted w1) = 1 \<and> posted w2 = posted w1"
proof -
  obtain q where start: "start_submission demo_config mem_backend demo_worker demo_world = Claiming (demo_execution ''c1'') q"
    using demo_starts by blast
  then have q: "prepared_request demo_config (demo_execution ''c1'') demo_service = Inr q"
    "matching_build demo_config (an_listing (wr_answers demo_worker)) (demo_execution ''c1'') = Inr None"
    by (auto simp: start_submission_def demo_worker_def demo_world_def rx_get_def mem_load_def
        split: sum.splits option.splits if_splits)
  let ?b = "(''id'', PStr ''1'') # q"
  let ?v = "PDict [(''builds'', PList [PDict ?b])]"
  have load: "load mem_backend (ledger demo_world) ''fc1'' = Some (demo_execution ''c1'')"
    by (simp add: demo_world_def mem_load_def)
  have sub: "submittable (demo_execution ''c1'')"
    by (simp add: submittable_def is_str_def demo_fields in_strs_def flag_def demo_not_flagged [unfolded flag_def])
  have rest: "\<not> is_str (demo_execution ''c1'') ''ticket_id'' quality_bootstrap_ticket_id" "\<not> has_key (demo_execution ''c1'') ''build_id''"
    by (simp_all add: demo_execution_def reserved_value_def is_str_def dget_cons has_key_def)
  have "reports q ?b" by (simp add: reports_def dget_cons)
  from lost_response_recovered [OF memory.document_backend_axioms load demo_fields(4) sub _ rest demo_is_reserved _ _ q(1,2) _ this, of "RuntimeError ''timeout''" ?v 200]
  have "\<exists>w1 d w2. submit demo_config mem_backend ''t1'' (wr_answers demo_worker) ''fc1'' demo_service demo_world =
      (Inl (build_error ''Release build submission is uncertain''), w1) \<and>
    reconcile_uncertain_submission demo_config mem_backend ''t2'' (\<lambda>_. Inr 0) (Inr (200, Inr PNone)) looping_pages
      (Inr (200, Inr ?v)) (wr_answers demo_worker) ''fc1'' demo_service w1 = Some (Inr d, w2) \<and>
    flag d ''build_id'' \<and> posted w1 = posted demo_world @ [(''fc1'', q)] \<and> posted w2 = posted w1"
    by (simp add: bootstrap_document_id_def demo_reservation_def demo_not_flagged demo_worker_def listed_builds_def dget_cons)
  moreover have "posted demo_world = []" by (simp add: demo_world_def)
  ultimately show ?thesis by fastforce
qed

end
