(* ===== verification/OrchestratorProperties.thy ===== *)
theory OrchestratorProperties
  imports ReleaseOrchestrator ReleaseReconciler BuildProperties
begin

text \<open>
  What the release plane guarantees across its handlers: one provider per release, evidence before quality passes, builds
  that are verified before they count; and where the handlers do not fit together.
\<close>

section \<open>The world of a handler\<close>

lemma site_simps [simp]: "si_config (at_site R) = si_config R" "si_backend (at_site R) = si_backend R"
  "si_now (at_site R) = si_now R" "si_answers (at_site R) = si_answers R" "si_find (at_site R) = si_find R"
  "si_list (at_site R) = si_list R" "si_github (at_site R) = si_github R" "site_build (at_site R) = pc_build (si_config R)"
  by (simp_all add: at_site_def site_build_def site.truncate_def)

text \<open>The documents of the release store, seen through the world.\<close>

definition release_doc :: "'s backend \<Rightarrow> string \<Rightarrow> 's plane \<Rightarrow> doc option" where
  "release_doc B i w = load B (store_of w) i"

lemma on_builds_simps [simp]:
  "calls (snd (on_builds f w)) = calls w" "circuit_store (snd (on_builds f w)) = circuit_store w"
  "builds (snd (on_builds f w)) = snd (f (builds w))" "fst (on_builds f w) = fst (f (builds w))"
  by (auto simp: on_builds_def split: prod.split)

lemma get_release_found:
  assumes "release_doc (si_backend S) i w = Some e" and "e \<noteq> []" and "\<not> flag e ''bootstrap_ticket_id''"
  shows "get_release S i w = (Inr (Some e), w)"
  using assms by (simp add: get_release_def reading_def rx_get_def release_doc_def)

section \<open>A concrete release plane\<close>

definition plane_service :: release_service where
  "plane_service = \<lparr>cs_name = ''svc'', cs_managed = True, cs_repository = Some ''o/svc'', cs_owner = Some ''o'',
     cs_profile = Some ''node'', cs_coverage = Some 80, rs_evidence = [], rs_policy = ''oss-v2'', rs_threshold = PInt 80,
     rs_differential = PInt 90, rs_executor = Some ''cloud_build''\<rparr>"

definition plane_demo :: plane_config where
  "plane_demo = \<lparr>pc_build = demo_config, pc_catalog = [plane_service], pc_owner = ''o'', pc_health_repository = ''o/h'',
     pc_health_workflow = ''probe.yml'', pc_logins = [''ana''], pc_dispatch_timeout = 600\<rparr>"

definition github_demo :: github where
  "github_demo = \<lparr>gh_check = (\<lambda>_. Inr (PInt 7)), gh_dispatch = Inr (), gh_cancel = Inr (),
     gh_default_sha = (\<lambda>_. Inr ''c1''), gh_fast_forward = (\<lambda>_ _ _. Inr True),
     gh_publish = Inr [(''tag'', PStr ''v1'')]\<rparr>"

definition recon_demo :: "mem recon_site" where
  "recon_demo = \<lparr>si_config = plane_demo, si_backend = mem_backend, si_list = (\<lambda>_ _ _. []), si_find = (\<lambda>_ _ _ _. None),
     si_now = ''t1'', si_github = github_demo, si_answers = (\<lambda>_. wr_answers demo_worker),
     re_build = (\<lambda>_. Inr (404, Inr PNone)), re_pages = looping_pages, re_listing = Inr (200, Inr PNone), re_later = wr_answers demo_worker,
     re_age = (\<lambda>_. Inr 0), re_elapsed = (\<lambda>_. 0), re_timing = (\<lambda>_ _. None), re_report = (\<lambda>_ _. None),
     re_commit = (\<lambda>q. Inr (q, ''h'')), re_errors = (\<lambda>_. [])\<rparr>"

definition plane_world :: "mem \<Rightarrow> mem plane" where
  "plane_world m = \<lparr>builds = demo_world\<lparr>ledger := m\<rparr>, circuit_store = [], calls = []\<rparr>"

lemma plane_demo_simps [simp]:
  "pc_build plane_demo = demo_config" "si_config recon_demo = plane_demo" "si_backend recon_demo = mem_backend"
  "si_github recon_demo = github_demo" "gh_check github_demo a = Inr (PInt 7)" "si_now recon_demo = ''t1''"
  "si_answers recon_demo i = wr_answers demo_worker" "re_pages recon_demo = looping_pages" "store_of (plane_world m) = m" "ledger (builds (plane_world m)) = m"
  "calls (plane_world m) = []" "release_doc mem_backend i (plane_world m) = map_of m i"
  by (simp_all add: plane_demo_def recon_demo_def github_demo_def plane_world_def store_of_def release_doc_def mem_load_def)

lemma demo_recorded:
  "dget_or (demo_execution sha) ''service_name'' v = PStr ''svc''" "dget (demo_execution sha) ''bootstrap_ticket_id'' = PNone"
  "dget (demo_execution sha) ''publication_uncertain'' = PNone" "dget (demo_execution sha) ''release_engine_failed'' = PNone"
  by (simp_all add: demo_execution_def reserved_value_def demo_reservation_def dget_cons)

lemma demo_managed: "require_managed_service_name demo_config ''svc'' = Inr ()"
  by code_simp

section \<open>Lost submissions\<close>

text \<open>
  The reconciler does not recover a lost submission.  An execution whose post was not answered is \<open>unknown\<close>; its
  reconciliation returns before it looks for the build, whatever Cloud Build lists, and changes nothing.
\<close>

theorem lost_submission_not_reconciled:
  assumes "release_doc (si_backend R) i w = Some e" and "dget e ''status'' = PStr ''unknown''"
    and "\<not> flag e ''bootstrap_ticket_id''" and "\<not> flag e ''publication_uncertain''" and "\<not> flag e ''release_engine_failed''"
    and "require_managed_service_name (pc_build (si_config R)) (py_str (dget_or e ''service_name'' (PStr ''''))) = Inr ()"
  shows "reconcile R i w = Some (Inr e, w)"
proof -
  have "e \<noteq> []" using assms(2) by (auto simp: dget_def)
  then have "get_release (at_site R) i w = (Inr (Some e), w)" using get_release_found [of "at_site R"] assms(1,3) by simp
  then show ?thesis
    using assms by (simp add: reconcile_def db_bind_def reading_def db_return_def note_overdue_def settle_execution_def
        in_strs_def is_str_def recover_drift_def drifted_def)
qed

lemma lost_submission_not_reconciled_witness:
  "reconcile recon_demo ''fc1'' (plane_world [(''fc1'', uncertain_version ''t1'' (demo_execution ''c1''))]) =
     Some (Inr (uncertain_version ''t1'' (demo_execution ''c1'')), plane_world [(''fc1'', uncertain_version ''t1'' (demo_execution ''c1''))])"
proof -
  let ?w = "plane_world [(''fc1'', uncertain_version ''t1'' (demo_execution ''c1''))]"
  have "release_doc (si_backend recon_demo) ''fc1'' ?w = Some (uncertain_version ''t1'' (demo_execution ''c1''))" by simp
  from lost_submission_not_reconciled [OF this] show ?thesis
    by (simp add: uncertain_keeps uncertain_lookup flag_def demo_recorded demo_managed)
qed

section \<open>Termination\<close>

lemma then_search_returns [intro!]: "m w \<noteq> None \<Longrightarrow> then_search m k w \<noteq> None"
  by (auto simp: then_search_def split: sum.splits)

lemma settle_returns:
  assumes "finite tokens" and "\<And>token builds following. page_of (re_pages R token) = Inr (builds, following) \<Longrightarrow> following \<in> tokens"
  shows "settle_execution R i e w \<noteq> None"
proof -
  have "find_lost R d service v \<noteq> None" for d service v
    unfolding find_lost_def using recovery_returns(2) [OF assms] by fastforce
  then have "provider_success R d v \<noteq> None" for d v
    unfolding provider_success_def by (simp add: then_search_returns del: not_None_eq split: sum.split option.split)
  then show ?thesis
    unfolding settle_execution_def by (simp add: then_search_returns del: not_None_eq split: sum.split prod.split bool.split)
qed

text \<open>
  C32: a reconciliation ends.  The searches for a lost build follow page tokens until Cloud Build gives none; provided only
  finitely many distinct tokens are ever named -- repeated tokens included -- \<open>reconcile\<close> returns, whatever the execution,
  its status, the store and the other services answer.
\<close>

theorem reconcile_terminates:
  assumes "finite tokens" and "\<And>token builds following. page_of (re_pages R token) = Inr (builds, following) \<Longrightarrow> following \<in> tokens"
  shows "\<exists>r w'. reconcile R i w = Some (r, w')"
proof -
  have "settle_execution R i d v \<noteq> None" for d v by (rule settle_returns [OF assms])
  moreover have "reconcile_quality_bootstrap cf (si_backend R) now got (re_pages R) e x v \<noteq> None" for cf now got e x v
    using recovery_returns(1) [OF assms] by fastforce
  ultimately have "reconcile R i w \<noteq> None"
    by (simp add: reconcile_def Let_def del: not_None_eq split: sum.split prod.split option.split)
  then show ?thesis by fastforce
qed

lemma reconcile_terminates_witness:
  "\<exists>r w'. reconcile recon_demo ''fc1'' (plane_world [(''fc1'', demo_execution ''c1'')]) = Some (r, w')"
  by (rule reconcile_terminates [where tokens = "{''a'', ''b''}"])
    (auto simp: looping_pages_def page_of_def attr_dict_def then_result_Inr dget_or_def split: if_splits)

section \<open>What the effects leave alone\<close>

definition posts :: "'s plane \<Rightarrow> (string \<times> doc) list" where
  "posts w = posted (builds w)"

fun is_dispatch :: "github_call \<Rightarrow> bool" where
  "is_dispatch (DispatchRelease i) = True"
| "is_dispatch _ = False"

definition dispatches :: "'s plane \<Rightarrow> github_call list" where
  "dispatches w = filter is_dispatch (calls w)"

lemma keeps_store [keeping]: "keeps posts (on_store f)" "keeps dispatches (on_builds g)" "keeps dispatches (on_store f)"
  by (auto simp: keeps_def posts_def dispatches_def on_store_def on_builds_def on_ledger_def split: prod.splits)

lemma keeps_plane_check [keeping]: "keeps posts (call_github c a)" "keeps dispatches (upsert_check S args)"
  by (simp_all add: keeps_def posts_def dispatches_def call_github_def upsert_check_def)

lemma keeps_check_posts [keeping]: "keeps posts (upsert_check S args)"
  unfolding upsert_check_def by (rule keeping)

lemma keeps_plane_if [keeping]: "keeps f m \<Longrightarrow> keeps f k \<Longrightarrow> keeps f (if b then m else k)"
  by simp

lemma keeps_get [keeping]: "keeps f (get_release S i)" "keeps f (current_or S e)"
  unfolding get_release_def current_or_def by (auto intro!: keeping)

lemma keeps_save [keeping]: "keeps posts (save_release S i cs)" "keeps dispatches (save_release S i cs)"
  unfolding save_release_def by (rule keeping)+

lemma keeps_start_checks [keeping]: "keeps posts (start_checks S e title)" "keeps dispatches (start_checks S e title)"
  unfolding start_checks_def ensure_check_def Let_def by (intro keeping)+

lemma keeps_update [keeping]: "keeps posts (update_check S e kind status rest v)" "keeps dispatches (update_check S e kind status rest v)"
  unfolding update_check_def by (intro keeping)+

lemma keeps_shows [keeping]: "keeps dispatches (fail_checks S e ids)" "keeps dispatches (show_running S e d ids)"
  unfolding fail_checks_def show_running_def by (auto intro!: keeping split: prod.split)

lemma keeps_submit [keeping]: "keeps dispatches (submit_if_managed S e service)"
proof -
  have step: "keeps dispatches (\<lambda>w. case on_builds g w of
            (Inl (ReleaseCloudBuildError reason), w') \<Rightarrow> h reason w'
          | (Inl err, w') \<Rightarrow> (Inl err, w')
          | (Inr result, w') \<Rightarrow> (Inr (result, True), w'))"
    if "\<And>reason. keeps dispatches (h reason)" for g and h :: "string \<Rightarrow> ('b plane, doc \<times> bool) op"
    using that by (auto simp: keeps_def dispatches_def on_builds_def split: prod.splits sum.splits py_err.splits)
  show ?thesis
    unfolding submit_if_managed_def Let_def
    by (intro keeping step) (auto intro!: keeping split: option.split prod.split)
qed

lemma keeps_reserve [keeping]: "keeps posts (reserve_release S service q)" "keeps dispatches (reserve_release S service q)"
  unfolding reserve_release_def Let_def by (auto intro!: keeping split: option.split)

section \<open>One provider per release\<close>

definition one_provider :: "('s plane, 'a) op \<Rightarrow> bool" where
  "one_provider m = (\<forall>w. posts (snd (m w)) = posts w \<or> dispatches (snd (m w)) = dispatches w)"

lemma one_provider_keeps: "keeps posts m \<Longrightarrow> one_provider m" "keeps dispatches m \<Longrightarrow> one_provider m"
  by (simp_all add: one_provider_def keeps_def)

lemma one_provider_bind:
  "keeps posts m \<Longrightarrow> keeps dispatches m \<Longrightarrow> (\<And>x. one_provider (k x)) \<Longrightarrow> one_provider (db_bind m k)"
  by (auto simp: one_provider_def keeps_def db_bind_def split: prod.splits sum.splits) (metis snd_conv)+

lemma launch_one_provider: "one_provider (launch S service effective e)"
proof (cases "effective = ''cloud_build''")
  case True
  then have "keeps dispatches (launch S service effective e)"
    unfolding launch_def by (auto intro!: keeping split: option.split)
  then show ?thesis by (rule one_provider_keeps)
next
  case False
  then have "keeps posts (launch S service effective e)"
    unfolding launch_def by (auto intro!: keeping split: option.split)
  then show ?thesis by (rule one_provider_keeps)
qed

text \<open>
  C31: starting a release starts at most one executor.  Whatever is requested, whatever the providers answer and whichever
  step fails, \<open>start_release\<close> either posts no build or dispatches no GitHub workflow.
\<close>

theorem start_release_one_provider:
  "posts (snd (start_release S name head base by requested w)) = posts w \<or>
   dispatches (snd (start_release S name head base by requested w)) = dispatches w"
proof -
  have raise: "one_provider (db_raise x)" "one_provider (db_return y)" for x y
    by (intro one_provider_keeps keeping)+
  have "one_provider (start_release S name head base by requested)"
    unfolding start_release_def Let_def
    by (intro one_provider_bind keeping raise launch_one_provider impI conjI allI
        | split option.split prod.split list.split if_split)+
  then show ?thesis by (simp add: one_provider_def)
qed

section \<open>A release that lost its build\<close>

text \<open>An execution whose uncertain submission is ended as failed.\<close>

lemma end_uncertain:
  assumes "document_backend B" and "load B s i = Some (uncertain_version now e)" and "i \<noteq> bootstrap_document_id"
    and "\<not> flag e ''bootstrap_ticket_id''" and "\<not> is_str e ''ticket_id'' quality_bootstrap_ticket_id" and "\<not> flag e ''build_id''"
  shows "\<exists>d s'. rx_save cfg B now i [(''status'', PStr ''failed''), (''error'', v)] s = (Inr d, s') \<and> load B s' i = Some d \<and>
    dget d ''status'' = PStr ''failed'' \<and> \<not> flag d ''build_id'' \<and> \<not> flag d ''bootstrap_ticket_id''"
proof -
  let ?d = "uncertain_version now e" and ?cs = "[(''status'', PStr ''failed''), (''error'', v), (''updated_at'', PStr now)]"
  have u: "\<not> flag ?d ''bootstrap_ticket_id''" "\<not> is_str ?d ''ticket_id'' quality_bootstrap_ticket_id"
    "dget ?d ''status'' = PStr ''unknown''" "\<not> flag ?d ''build_id''"
    using assms(4-6) by (simp_all add: uncertain_keeps) (simp add: is_str_def uncertain_lookup)
  have "''failed'' \<in> set (successors ''unknown'')" by code_simp
  note ok = status_write_ok [OF u(1-3) this]
  have ok2: "validate_changes cfg B ?d (dict_set ''updated_at'' (PStr now) [(''status'', PStr ''failed''), (''error'', v)]) = Inr ()"
    "\<not> list_ex (has_key (dict_set ''updated_at'' (PStr now) [(''status'', PStr ''failed''), (''error'', v)])) identity_fields"
    by (rule ok, simp)+
  have "rx_save cfg B now i [(''status'', PStr ''failed''), (''error'', v)] s = (Inr (dict_update ?d ?cs), patch B i ?cs s)"
    using rx_save_ok [OF assms(2,3) u(1) ok2(2,1)] by (simp only: dict_set_two)
  moreover have "load B (patch B i ?cs s) i = Some (dict_update ?d ?cs)"
    by (rule document_backend.load_patch_same [OF assms(1,2)])
  ultimately show ?thesis using u by (simp add: dict_simps flag_def dget_cons)
qed

text \<open>
  C33: a release whose build was posted but not acknowledged is ended as failed when it is started.  The operator is told
  that the provider could not start; the build, which may be running, was posted exactly once, the execution is failed
  without its id, and the recovery of lost submissions leaves it so whatever Cloud Build lists.
\<close>

theorem start_gives_up_lost_build:
  fixes S :: "'s site"
  assumes "document_backend (si_backend S)" and "start_checks S e0 '''' w0 = (Inr (), w)" and "dget e0 ''execution_id'' = PStr i"
    and "is_str e0 ''provider'' ''cloud_build''" and "\<not> flag e0 ''bootstrap_ticket_id''"
    and "release_doc (si_backend S) i w = Some e" and "submittable e" and "dget e ''status'' = PStr ''submission_pending''"
    and "i \<noteq> bootstrap_document_id" and "\<not> is_str e ''ticket_id'' quality_bootstrap_ticket_id"
    and "require_managed (site_build S) (core service) = Inr ()" and "prepared_request (site_build S) e (core service) = Inr request"
    and "matching_build (site_build S) (an_listing (si_answers S i)) e = Inr None" and "an_post (si_answers S i) = Inl err"
  shows "\<exists>w' d. launch S service ''cloud_build'' e0 w0 =
      (Inl (HTTPException 502 ''Selected provider could not start; no alternate provider was launched''), w') \<and>
    posts w' = posts w0 @ [(i, request)] \<and> release_doc (si_backend S) i w' = Some d \<and> dget d ''status'' = PStr ''failed'' \<and>
    \<not> flag d ''build_id'' \<and>
    reconcile_uncertain_submission (site_build S) (si_backend S) now' age got pages listing later i (core service) (builds w') =
      Some (Inr d, builds w')"
proof -
  let ?B = "si_backend S"
  have load: "load ?B (ledger (builds w)) i = Some e" using assms(6) by (simp add: release_doc_def store_of_def)
  from submission_lost [OF assms(1) load assms(7-14)] obtain b where
    b: "submit (site_build S) ?B (si_now S) (si_answers S i) i (core service) (builds w) =
        (Inl (build_error ''Release build submission is uncertain''), b)"
      "posted b = posted (builds w) @ [(i, request)]" "load ?B (ledger b) i = Some (uncertain_version (si_now S) e)"
    by blast
  have s: "\<not> flag e ''bootstrap_ticket_id''" "\<not> flag e ''build_id''" using assms(7) by (simp_all add: submittable_def)
  let ?w1 = "w\<lparr>builds := b\<rparr>"
  have "get_release S i ?w1 = (Inr (Some (uncertain_version (si_now S) e)), ?w1)"
    using b(3) s(1) by (intro get_release_found) (simp_all add: release_doc_def store_of_def uncertain_nonempty uncertain_keeps)
  moreover have n: "\<not> is_str (uncertain_version (si_now S) e) ''status'' ''failed''" by (simp add: is_str_def uncertain_keeps)
  moreover have k: "need e0 ''execution_id'' = Inr (PStr i)"
    using assms(3) by (simp add: need_def has_key_def dget_def split: option.splits)
  ultimately have "submit_if_managed S e0 service w = (Inl (build_error ''Release build submission is uncertain''), ?w1)"
    using assms(4,5,11) b(1)
    by (simp add: submit_if_managed_def db_bind_def reading_def db_raise_def on_builds_def build_error_def)
  moreover from end_uncertain [OF assms(1) b(3) assms(9) s(1) assms(10) s(2)] obtain d m where
    d: "rx_save (bc_settings (site_build S)) ?B (si_now S) i
         [(''status'', PStr ''failed''), (''error'', PStr (''Selected provider could not start; provider remains '' @ ''cloud_build''))]
         (ledger b) = (Inr d, m)" "load ?B m i = Some d" "dget d ''status'' = PStr ''failed''" "\<not> flag d ''build_id''"
       "\<not> flag d ''bootstrap_ticket_id''"
    by blast
  let ?w2 = "w\<lparr>builds := b\<lparr>ledger := m\<rparr>\<rparr>"
  have "save_release S i
         [(''status'', PStr ''failed''), (''error'', PStr (''Selected provider could not start; provider remains '' @ ''cloud_build''))]
         ?w1 = (Inr d, ?w2)"
    using d(1) by (simp add: save_release_def on_store_def on_builds_def on_ledger_def)
  ultimately have "launch S service ''cloud_build'' e0 w0 =
      (Inl (HTTPException 502 ''Selected provider could not start; no alternate provider was launched''), ?w2)"
    using assms(2) k by (simp add: launch_def db_bind_def db_catch_def reading_def db_raise_def)
  moreover have "posted (builds w) = posts w0"
    using keepsD [OF keeps_start_checks(1) assms(2)] by (simp add: posts_def)
  moreover have "d \<noteq> []" using d(3) by (auto simp: dget_def)
  then have "reconcile_uncertain_submission (site_build S) ?B now' age got pages listing later i (core service) (builds ?w2) =
      Some (Inr d, builds ?w2)"
    using d assms(11) by (simp add: reconcile_uncertain_submission_def db_bind_def reading_def read_execution_def rx_get_def
        recover_release_def in_strs_def db_return_def)
  ultimately show ?thesis
    using b(2) d by (intro exI [of _ ?w2] exI [of _ d]) (simp add: posts_def release_doc_def store_of_def)
qed

text \<open>The checks of a new execution, all created by GitHub under the same number.\<close>

definition demo_checks :: doc where
  "demo_checks = [(''quality'', PInt 7), (''workflows'', PInt 7), (''title'', PInt 7)]"

lemma check_lookup:
  assumes "k \<noteq> ''check_ids'' \<and> k \<noteq> ''updated_at''"
  shows "dget (dict_update e [(''check_ids'', v), (''updated_at'', x)]) k = dget e k"
    "dget_or (dict_update e [(''check_ids'', v), (''updated_at'', x)]) k z = dget_or e k z"
    "has_key (dict_update e [(''check_ids'', v), (''updated_at'', x)]) k = has_key e k"
  using assms by (simp_all add: dict_simps has_key_def)

lemma check_request:
  fixes e v x
  defines "e' \<equiv> dict_update e [(''check_ids'', v), (''updated_at'', x)]"
  shows "retry_count e' = retry_count e" "flag e' ''planner_retry_pending'' = flag e ''planner_retry_pending''"
   "request_substitutions cf e' service p count = request_substitutions cf e service p count"
   "common_env cf e' service p = common_env cf e service p"
   "identity_authorized cf e' service p executor count = identity_authorized cf e service p executor count"
   "planner_retry_request cf e' service p executor subs env = planner_retry_request cf e service p executor subs env"
   "quality_request cf e' service p executor subs env = quality_request cf e service p executor subs env"
   "expected_substitutions cf e' = expected_substitutions cf e"
  unfolding e'_def
  by (simp_all add: retry_count_def flag_def request_substitutions_def common_env_def identity_authorized_def
    planner_retry_request_def quality_request_def expected_substitutions_def text_of_def need_all_def is_str_def check_lookup Let_def
     contract_matches_def remediation_matches_def del: dict_update.simps cong: if_cong)

lemma check_build: "build_request cf (dict_update e [(''check_ids'', v), (''updated_at'', x)]) service = build_request cf e service"
  by (simp add: build_request_def check_request text_of_def need_all_def check_lookup Let_def del: dict_update.simps cong: if_cong)

lemma check_matching: "matching_build cf answer (dict_update e [(''check_ids'', v), (''updated_at'', x)]) = matching_build cf answer e"
proof -
  have "own_build cf (dict_update e [(''check_ids'', v), (''updated_at'', x)]) = own_build cf e"
    by (simp add: own_build_def text_of_def check_lookup fun_eq_iff del: dict_update.simps)
  then show ?thesis
    by (simp add: matching_build_def check_request need_all_def check_lookup flag_def del: dict_update.simps cong: if_cong)
qed

lemma start_gives_up_lost_build_witness:
  "\<exists>q w' d. launch (at_site recon_demo) plane_service ''cloud_build'' (demo_execution ''c1'') (plane_world [(''fc1'', demo_execution ''c1'')]) =
      (Inl (HTTPException 502 ''Selected provider could not start; no alternate provider was launched''), w') \<and>
    posts w' = [(''fc1'', q)] \<and> release_doc mem_backend ''fc1'' w' = Some d \<and> dget d ''status'' = PStr ''failed'' \<and>
    \<not> flag d ''build_id'' \<and>
    reconcile_uncertain_submission demo_config mem_backend ''t2'' (\<lambda>_. Inr 0) (Inr (200, Inr PNone)) looping_pages
      (Inr (200, Inr (PDict [(''builds'', PList [PDict ((''id'', PStr ''1'') # q)])]))) (wr_answers demo_worker) ''fc1'' demo_service (builds w') = Some (Inr d, builds w')"
proof -
  let ?e = "dict_update (demo_execution ''c1'') [(''check_ids'', PDict demo_checks), (''updated_at'', PStr ''t1'')]"
  let ?S = "at_site recon_demo" and ?w = "plane_world [(''fc1'', demo_execution ''c1'')]"
  let ?sum = "\<lambda>t. summary t"
  have f: "dget (demo_execution ''c1'') ''execution_id'' = PStr ''fc1''" "dget (demo_execution ''c1'') ''check_ids'' = PNone"
    "is_str (demo_execution ''c1'') ''operation'' ''pr_quality''" "\<not> is_str (demo_execution ''c1'') ''operation'' ''main_release''"
    "need_all (demo_execution ''c1'') [''repository'', ''head_sha'', ''execution_id''] = Inr ()" "need_all (demo_execution ''c1'') [''operation''] = Inr ()"
    "need (demo_execution ''c1'') ''execution_id'' = Inr (PStr ''fc1'')" "\<not> flag (demo_execution ''c1'') ''bootstrap_ticket_id''"
    "\<not> is_str (demo_execution ''c1'') ''ticket_id'' quality_bootstrap_ticket_id"
    "is_str (demo_execution ''c1'') ''provider'' ''cloud_build''"
    by (simp_all add: demo_execution_def reserved_value_def demo_reservation_def dget_cons is_str_def need_all_Inr has_key_def need_def flag_def)
  have save: "rx_save (bc_settings demo_config) mem_backend ''t1'' ''fc1'' [(''check_ids'', PDict demo_checks)]
        [(''fc1'', demo_execution ''c1'')] = (Inr ?e, [(''fc1'', ?e)])"
  proof -
    have "rx_save (bc_settings demo_config) mem_backend ''t1'' ''fc1'' [(''check_ids'', PDict demo_checks)] [(''fc1'', demo_execution ''c1'')] =
      (Inr (dict_update (demo_execution ''c1'') (dict_set ''updated_at'' (PStr ''t1'') [(''check_ids'', PDict demo_checks)])),
       patch mem_backend ''fc1'' (dict_set ''updated_at'' (PStr ''t1'') [(''check_ids'', PDict demo_checks)]) [(''fc1'', demo_execution ''c1'')])"
      using f by (intro rx_save_ok) (auto simp: mem_load_def bootstrap_document_id_def has_key_def validate_changes_def first_error_Inr raise_if_def
          validate_status_change_def rewrites_any_def identity_fields_def dget_cons)
    then show ?thesis by (simp add: mem_patch_def mem_load_def mem_put_def del: dict_update.simps)
  qed
  obtain w where w: "start_checks ?S (demo_execution ''c1'') '''' ?w = (Inr (), w)" "builds w = demo_world\<lparr>ledger := [(''fc1'', ?e)]\<rparr>"
    using f save
    by (simp add: start_checks_def ensure_check_def db_bind_def reading_def upsert_check_def call_github_def check_ids_def
        demo_recorded demo_managed db_return_def save_release_def on_store_def on_builds_def on_ledger_def plane_world_def
        has_key_def demo_checks_def py_or_def Let_def del: dict_update.simps)
  obtain q where "start_submission demo_config mem_backend demo_worker demo_world = Claiming (demo_execution ''c1'') q"
    using demo_starts by blast
  then have q: "prepared_request demo_config (demo_execution ''c1'') demo_service = Inr q"
    "matching_build demo_config (an_listing (wr_answers demo_worker)) (demo_execution ''c1'') = Inr None"
    by (auto simp: start_submission_def demo_worker_def demo_world_def rx_get_def mem_load_def
        split: sum.splits option.splits if_splits)
  have m: "matching_build demo_config (an_listing (wr_answers demo_worker)) ?e = Inr None"
    using q(2) by (simp only: check_matching)
  have p: "prepared_request demo_config ?e demo_service = Inr q" using q(1) by (simp add: prepared_request_def check_build del: dict_update.simps)
  have sub: "submittable ?e" "dget ?e ''status'' = PStr ''submission_pending''" "\<not> is_str ?e ''ticket_id'' quality_bootstrap_ticket_id"
    using f(8-10) by (simp_all add: submittable_def flag_def is_str_def check_lookup demo_fields in_strs_def del: dict_update.simps)
  have r: "release_doc mem_backend ''fc1'' w = Some ?e" using w(2) by (simp add: release_doc_def store_of_def mem_load_def del: dict_update.simps)
  have c: "core plane_service = demo_service" by (simp add: core_def catalog_service.truncate_def plane_service_def demo_service_def)
  have g: "require_managed demo_config demo_service = Inr ()"
    by (simp add: require_managed_Inr demo_config_def demo_service_def)
  have "posts ?w = []" by (simp add: posts_def plane_world_def demo_world_def)
  with start_gives_up_lost_build [of ?S, OF _ w(1) f(1,10,8) _ sub(1,2) _ sub(3), of plane_service q "RuntimeError ''timeout''"
      "''t2''" "\<lambda>_. Inr 0" "Inr (200, Inr PNone)" looping_pages
      "Inr (200, Inr (PDict [(''builds'', PList [PDict ((''id'', PStr ''1'') # q)])]))" "wr_answers demo_worker"]
  show ?thesis
    using r c g m p by (simp add: memory.document_backend_axioms bootstrap_document_id_def demo_worker_def del: dict_update.simps) blast
qed
text \<open>A planned release of the service.\<close>

definition planned_execution :: doc where
  "planned_execution = [(''execution_id'', PStr ''r''), (''service_name'', PStr ''svc''), (''operation'', PStr ''main_release''),
     (''provider'', PStr ''cloud_build''), (''status'', PStr ''release_planned'')]"

section \<open>Retiring a release that is being published\<close>

text \<open>A lawful move of an unlocked execution, with other changes that keep off the guarded fields.\<close>

definition plain_changes :: "doc \<Rightarrow> bool" where
  "plain_changes = list_all (\<lambda>(k, _). k \<notin> set ([''provider'', ''provider_selection'', ''trigger_event'', ''status''] @ identity_fields)
      \<and> \<not> starts_with ''bootstrap_'' k)"

lemma rx_save_status:
  assumes "load B s i = Some d" and "i \<noteq> bootstrap_document_id" and "\<not> flag d ''bootstrap_ticket_id''"
    and "\<not> is_str d ''ticket_id'' quality_bootstrap_ticket_id" and "dget d ''status'' = PStr old" and "new \<in> set (successors old)"
    and "plain_changes rest"
  shows "rx_save cfg B now i ((''status'', PStr new) # rest) s =
    (Inr (dict_update d (dict_set ''updated_at'' (PStr now) ((''status'', PStr new) # rest))),
     patch B i (dict_set ''updated_at'' (PStr now) ((''status'', PStr new) # rest)) s)"
proof -
  let ?cs = "dict_set ''updated_at'' (PStr now) ((''status'', PStr new) # rest)"
  have free: "has_key rest k \<Longrightarrow> k \<notin> set ([''provider'', ''provider_selection'', ''trigger_event''] @ identity_fields)" for k
    using assms(7) by (fastforce simp: plain_changes_def has_key_iff list_all_iff)
  have has: "has_key ?cs k \<longleftrightarrow> k = ''updated_at'' \<or> k = ''status'' \<or> has_key rest k" for k
    by (simp only: has_key_dict_set) (auto simp: has_key_def)
  have "''updated_at'' \<notin> set identity_fields" "''status'' \<notin> set identity_fields" by code_simp+
  then have "\<not> list_ex (has_key ?cs) identity_fields"
    using free unfolding list_ex_iff has by fastforce
  moreover have "\<not> list_ex (\<lambda>kv. starts_with ''bootstrap_'' (fst kv)) ?cs"
    using set_dict_set_subset [of "''updated_at''" "PStr now" "(''status'', PStr new) # rest"] assms(7)
    by (fastforce simp: plain_changes_def list_ex_iff list_all_iff)
  moreover have "\<not> rewrites_any [''provider'', ''provider_selection'', ''trigger_event''] d ?cs"
    using free unfolding rewrites_any_def list_ex_iff has by fastforce
  moreover have "validate_status_change d ?cs = Inr ()"
    using assms(3,6) dget_or_of [OF assms(5), of "PStr ''received''"]
    by (auto simp: validate_status_change_def Let_def dict_simps dget_cons in_strs_def)
  ultimately have "validate_changes cfg B d ?cs = Inr ()" "\<not> list_ex (has_key ?cs) identity_fields"
    using assms(3,4) by (simp_all add: validate_changes_def first_error_Inr)
  then show ?thesis using assms(1-3) by (intro rx_save_ok)
qed

text \<open>A superseded execution accepts no other status.\<close>

lemma superseded_stays:
  assumes "load B s i = Some d" and "dget d ''status'' = PStr ''superseded''" and "dget given ''status'' = PStr new"
    and "new \<noteq> ''superseded''" and "new \<noteq> ''''"
  shows "\<exists>err. rx_save cfg B now i given s = (Inl err, s)"
proof -
  have e: "successors ''superseded'' = []" by code_simp
  have "dget_or d ''status'' (PStr ''received'') = PStr ''superseded''" using assms(2) by (rule dget_or_of) simp
  then have "validate_status_change d (dict_set ''updated_at'' (PStr now) given) \<noteq> Inr ()"
    using assms(2-5) e by (auto simp: validate_status_change_def Let_def dict_simps in_strs_def dget_def split: option.splits)
  then have "validate_changes cfg B d (dict_set ''updated_at'' (PStr now) given) \<noteq> Inr ()"
    by (auto simp: validate_changes_def first_error_Inr)
  then obtain err where "validate_changes cfg B d (dict_set ''updated_at'' (PStr now) given) = Inl err"
    by (cases "validate_changes cfg B d (dict_set ''updated_at'' (PStr now) given)") auto
  then show ?thesis
    using assms(1) by (auto simp: rx_save_def Let_def mutate_def transact_def map_op_def checked_def guarded_def first_error.simps)
qed

lemma publish_superseded:
  assumes "load (si_backend S) (store_of w) i = Some d" and "dget d ''status'' = PStr ''superseded''" and "text_of e ''execution_id'' = i"
    and "\<And>published. gh_publish (si_github S) = Inr published \<Longrightarrow> \<not> has_key published ''status''"
  shows "\<exists>err. publish_now S e w = (Inl err, w\<lparr>calls := calls w @ [PublishRelease i]\<rparr>)"
proof -
  let ?w = "w\<lparr>calls := calls w @ [PublishRelease i]\<rparr>"
  have "\<exists>err. save_release S i given ?w = (Inl err, ?w)" if "dget given ''status'' = PStr new" "new \<noteq> ''superseded''" "new \<noteq> ''''" for given new
    using superseded_stays [OF assms(1,2) that, of "bc_settings (site_build S)" "si_now S"]
    by (auto simp: save_release_def on_store_def on_builds_def on_ledger_def store_of_def)
  then obtain f where f: "save_release S i given ?w = (Inl (f given), ?w)"
    if "dget given ''status'' \<in> {PStr ''unknown'', PStr ''released''}" for given
    by (atomize_elim, intro choice allI) fastforce
  have "\<exists>x. publication_unsure S i err ?w = (Inl x, ?w)" for err
    by (cases err) (simp_all add: publication_unsure_def db_bind_def f dget_cons)
  moreover have "dget (dict_update [(''status'', PStr ''released''), (''publication_uncertain'', PBool False)] published) ''status'' = PStr ''released''"
    if "gh_publish (si_github S) = Inr published" for published
  proof -
    have "map_of (rev published) ''status'' = None"
      using assms(4) [OF that] by (simp add: has_key_iff map_of_eq_None_iff)
    then show ?thesis unfolding dget_def map_of_dict_update_rev by (simp add: map_add_def)
  qed
  ultimately show ?thesis
    using assms(3) by (auto simp: publish_now_def call_github_def db_bind_def f split: sum.split)
qed

text \<open>
  Retiring a release races its publication.  When the reconciler has won the claim and is about to publish, the release
  can still be superseded, with success; the reconciler publishes it nevertheless, fails to record this whatever GitHub
  answered, and the release stays superseded while its tag may exist.
\<close>

theorem superseded_while_publishing:
  fixes S :: "'s site"
  assumes "document_backend (si_backend S)" and "release_doc (si_backend S) i w = Some e" and "i \<noteq> bootstrap_document_id"
    and "dget e ''execution_id'' = PStr i" and "dget e ''status'' = PStr ''release_planned''" and "is_str e ''operation'' ''main_release''"
    and "\<not> flag e ''publish_claimed_at''" and "\<not> flag e ''bootstrap_ticket_id''" and "\<not> is_str e ''ticket_id'' quality_bootstrap_ticket_id"
    and "\<not> flag e ''canary_approved''" and "dget e ''service_name'' = PStr name" and "name \<in> set (bc_services (site_build S))"
    and "require_managed_service_name (site_build S) name = Inr ()"
    and "\<And>published. gh_publish (si_github S) = Inr published \<Longrightarrow> \<not> has_key published ''status''"
  shows "\<exists>claimed w1 retired w2 err w3.
    publish_if_allowed S e w = publish_now S claimed w1 \<and>
    supersede S i by reason w1 = (Inr retired, w2) \<and> dget retired ''status'' = PStr ''superseded'' \<and>
    publish_now S claimed w2 = (Inl err, w3) \<and> calls w3 = calls w @ [PublishRelease i] \<and>
    release_doc (si_backend S) i w3 = Some retired"
proof -
  let ?B = "si_backend S"
  have load: "load ?B (ledger (builds w)) i = Some e" using assms(2) by (simp add: release_doc_def store_of_def)
  let ?cs = "[(''status'', PStr ''publish_pending''), (''updated_at'', PStr (si_now S)), (''publish_claimed_at'', PStr (si_now S))]"
  define d1 where "d1 = dict_update e ?cs"
  define m where "m = patch ?B i ?cs (ledger (builds w))"
  let ?w1 = "w\<lparr>builds := builds w\<lparr>ledger := m\<rparr>\<rparr>"
  have l1: "load ?B m i = Some d1" unfolding m_def d1_def by (rule document_backend.load_patch_same [OF assms(1) load])
  have f: "dget d1 ''execution_id'' = PStr i" "dget d1 ''status'' = PStr ''publish_pending''" "\<not> flag d1 ''bootstrap_ticket_id''"
    "\<not> is_str d1 ''ticket_id'' quality_bootstrap_ticket_id" "\<not> flag d1 ''canary_approved''" "dget d1 ''service_name'' = PStr name" "d1 \<noteq> []"
    using assms(4,8-11) by (simp_all add: d1_def dict_simps flag_def dget_cons)
  have get: "get_release S i ?w1 = (Inr (Some d1), ?w1)"
    using l1 f by (intro get_release_found) (simp_all add: release_doc_def store_of_def)
  have claim: "claim_publish ?B (si_now S) (si_now S) i (ledger (builds w)) = (Inr True, m)"
    using load assms(5-7) by (simp add: claim_publish_def transact_def m_def is_str_def)
  have name: "dget_or d ''service_name'' v = PStr name" if "dget d ''service_name'' = PStr name" for d v
    using that by (rule dget_or_of) simp
  have keys: "need_all e [''service_name''] = Inr ()" "need_all e [''execution_id''] = Inr ()"
    using assms(4,11) by (auto simp: need_all_Inr dest!: dget_has_key)
  have n: "need e ''execution_id'' = Inr (PStr i)"
    using assms(4) by (simp add: need_def has_key_def dget_def split: option.splits)
  have won: "publish_if_allowed S e w = publish_now S d1 ?w1"
    using assms(4,5,11-13) f get claim keys n
    by (simp add: publish_if_allowed_def name db_bind_def reading_def first_error.simps text_of_def is_str_def
        on_store_def on_builds_def on_ledger_def current_or_def db_return_def in_strs_def)
  have "''superseded'' \<in> set (successors ''publish_pending'')" by code_simp
  from rx_save_status [OF l1 assms(3) f(3,4,2) this, of "[(''superseded_by'', PStr by), (''superseded_reason'', PStr (take 500 reason))]"
      "bc_settings (site_build S)" "si_now S"]
  obtain m2 d2 cs where save: "rx_save (bc_settings (site_build S)) ?B (si_now S) i
        [(''status'', PStr ''superseded''), (''superseded_by'', PStr by), (''superseded_reason'', PStr (take 500 reason))] m = (Inr d2, m2)"
      "d2 = dict_update d1 cs" "m2 = patch ?B i cs m" "cs = [(''status'', PStr ''superseded''), (''superseded_by'', PStr by),
         (''superseded_reason'', PStr (take 500 reason)), (''updated_at'', PStr (si_now S))]"
    by (simp add: plain_changes_def identity_fields_def)
  let ?w2 = "w\<lparr>builds := builds w\<lparr>ledger := m2\<rparr>\<rparr>"
  have retire: "supersede S i by reason ?w1 = (Inr d2, ?w2)"
    using f get save(1) assms(13)
    by (simp add: supersede_def release_or_key_def db_bind_def reading_def db_return_def managed_execution_def name first_error.simps
        supersedable_def raise_if_def dget_or_of save_release_def on_store_def on_builds_def on_ledger_def)
  have d2: "dget d2 ''status'' = PStr ''superseded''" by (simp add: save(2,4) dict_simps)
  have l2: "load ?B (store_of ?w2) i = Some d2"
    using document_backend.load_patch_same [OF assms(1) l1] by (simp add: store_of_def save(2,3))
  have "text_of d1 ''execution_id'' = i" using f(1) by (simp add: text_of_def)
  from publish_superseded [OF l2 d2 this assms(14)] obtain err where
    "publish_now S d1 ?w2 = (Inl err, ?w2\<lparr>calls := calls ?w2 @ [PublishRelease i]\<rparr>)" by blast
  then show ?thesis
    using won retire d2 l2 by (intro exI [of _ d1] exI [of _ ?w1] exI [of _ d2] exI [of _ ?w2]) (auto simp: release_doc_def store_of_def)
qed

lemma superseded_while_publishing_witness:
  "\<exists>claimed w1 retired w2 err w3.
    publish_if_allowed (at_site recon_demo) planned_execution (plane_world [(''r'', planned_execution)]) = publish_now (at_site recon_demo) claimed w1 \<and>
    supersede (at_site recon_demo) ''r'' ''ana'' ''obsolete'' w1 = (Inr retired, w2) \<and> dget retired ''status'' = PStr ''superseded'' \<and>
    publish_now (at_site recon_demo) claimed w2 = (Inl err, w3) \<and> calls w3 = [PublishRelease ''r''] \<and>
    release_doc mem_backend ''r'' w3 = Some retired"
  using superseded_while_publishing [of "at_site recon_demo" "''r''" "plane_world [(''r'', planned_execution)]" planned_execution "''svc''" "''ana''" "''obsolete''"]
  by (simp add: memory.document_backend_axioms bootstrap_document_id_def planned_execution_def dget_cons is_str_def flag_def demo_managed
    quality_bootstrap_ticket_id_def demo_config_def [THEN arg_cong [of _ _ bc_services]] github_demo_def has_key_def)
section \<open>Cancellation\<close>

lemma cancel_release_decides:
  assumes "release_doc (si_backend S) i w = Some e" and "i \<noteq> bootstrap_document_id" and "\<not> flag e ''bootstrap_ticket_id''"
  shows "on_store (mutate (bc_settings (site_build S)) (si_backend S) i (cancel_decision name)) w =
    (case cancel_decision name e of
       Inl err \<Rightarrow> (Inl err, w)
     | Inr (changes, found) \<Rightarrow>
         (Inr (dict_update e changes, found),
          if changes = [] then w else w\<lparr>builds := builds w\<lparr>ledger := patch (si_backend S) i changes (store_of w)\<rparr>\<rparr>))"
  using assms by (auto simp: on_store_def on_builds_def on_ledger_def mutate_def transact_def release_doc_def store_of_def
      split: sum.split prod.split)

text \<open>
  An operator cannot cancel what is uncertain or over.  A release whose submission is uncertain is refused with a
  conflict and nothing changes; one that ended is returned as it is, with nothing sent to a provider.
\<close>

theorem cancel_release_safe:
  assumes "release_doc (si_backend S) i w = Some e" and "i \<noteq> bootstrap_document_id" and "\<not> flag e ''bootstrap_ticket_id''"
    and "is_str e ''service_name'' name" and "require_managed_service_name (site_build S) name = Inr ()"
  shows "(in_strs (dget e ''status'') [''submitting'', ''unknown''] \<longrightarrow>
      cancel_release S name i w = (Inl (HTTPException 409 ''Uncertain submission requires reconciliation before cancellation''), w)) \<and>
    (is_terminal e \<and> \<not> is_str e ''error'' ''Cancelled by operator'' \<longrightarrow> cancel_release S name i w = (Inr e, w))"
proof (intro conjI impI)
  note m = cancel_release_decides [OF assms(1-3), of name]
  show "cancel_release S name i w = (Inl (HTTPException 409 ''Uncertain submission requires reconciliation before cancellation''), w)"
    if "in_strs (dget e ''status'') [''submitting'', ''unknown'']"
  proof -
    have "\<not> is_terminal e" using that by (auto simp: is_terminal_def in_strs_def is_str_def ended_statuses_def split: pyval.splits)
    then show ?thesis using assms(4,5) that m by (simp add: cancel_release_def cancel_decision_def db_bind_def reading_def)
  qed
  show "cancel_release S name i w = (Inr e, w)" if "is_terminal e \<and> \<not> is_str e ''error'' ''Cancelled by operator''"
    using assms(4,5) that m by (simp add: cancel_release_def cancel_decision_def db_bind_def reading_def db_return_def)
qed

lemma cancel_release_safe_witness:
  "cancel_release (at_site recon_demo) ''svc'' ''fc1'' (plane_world [(''fc1'', uncertain_version ''t1'' (demo_execution ''c1''))]) =
     (Inl (HTTPException 409 ''Uncertain submission requires reconciliation before cancellation''),
      plane_world [(''fc1'', uncertain_version ''t1'' (demo_execution ''c1''))])"
proof -
  let ?e = "uncertain_version ''t1'' (demo_execution ''c1'')"
  have "is_str ?e ''service_name'' ''svc''"
    by (simp add: is_str_def uncertain_lookup) (simp add: demo_execution_def reserved_value_def demo_reservation_def dget_cons)
  with cancel_release_safe [of "at_site recon_demo" "''fc1''" "plane_world [(''fc1'', ?e)]" ?e "''svc''"] show ?thesis
    by (simp add: bootstrap_document_id_def uncertain_keeps demo_managed in_strs_def) (simp add: flag_def demo_recorded uncertain_lookup)
qed

text \<open>
  C36: cancelling a release does not stop its build.  A main release with a bound Cloud Build build that has not ended is
  marked failed, and no cancellation is sent: neither Cloud Build nor GitHub hears of it.
\<close>

theorem cancelled_release_build_runs_on:
  assumes "document_backend (si_backend S)" and "release_doc (si_backend S) i w = Some e" and "i \<noteq> bootstrap_document_id"
    and "\<not> flag e ''bootstrap_ticket_id''" and "dget e ''service_name'' = PStr name"
    and "require_managed_service_name (site_build S) name = Inr ()" and "dget e ''operation'' = PStr ''main_release''"
    and "is_str e ''provider'' ''cloud_build''" and "flag e ''build_id''" and "\<not> is_terminal e"
    and "\<not> in_strs (dget e ''status'') [''submitting'', ''unknown'']"
  shows "\<exists>d w'. cancel_release S name i w = (Inr d, w') \<and> dget d ''status'' = PStr ''failed'' \<and>
    release_doc (si_backend S) i w' = Some d \<and> dget d ''build_id'' = dget e ''build_id'' \<and>
    cancelled (builds w') = cancelled (builds w) \<and> calls w' = calls w \<and> posts w' = posts w"
proof -
  let ?B = "si_backend S" and ?cs = "[(''status'', PStr ''failed''), (''error'', PStr ''Cancelled by operator'')]"
  define d where "d = dict_update e ?cs"
  define m where "m = patch ?B i ?cs (store_of w)"
  let ?w = "w\<lparr>builds := builds w\<lparr>ledger := m\<rparr>\<rparr>"
  have load: "load ?B m i = Some d"
    using document_backend.load_patch_same [OF assms(1)] assms(2) by (simp add: m_def d_def release_doc_def)
  have f: "dget d ''error'' = PStr ''Cancelled by operator''" "dget d ''status'' = PStr ''failed''" "\<not> flag d ''bootstrap_ticket_id''"
    "dget d ''service_name'' = PStr name" "dget d ''operation'' = PStr ''main_release''" "is_str d ''provider'' ''cloud_build''"
    "flag d ''build_id''" "dget d ''build_id'' = dget e ''build_id''" "d \<noteq> []"
    using assms(4,5,7-9) by (simp_all add: d_def dict_simps is_str_def flag_def dget_cons)
  have g: "rx_get (bc_settings (site_build S)) ?B i m = Inr (Some d)" using load f(3,9) by (simp add: rx_get_def)
  have "on_store (mutate (bc_settings (site_build S)) ?B i (cancel_decision name)) w = (Inr (d, None), ?w)"
    using assms(5,10,11) cancel_release_decides [OF assms(2-4), of name] by (simp add: cancel_decision_def is_str_def d_def m_def)
  moreover have "on_builds (cancel_build (site_build S) ?B (si_now S) (si_answers S i) i) ?w = (Inr False, ?w)"
    using f g assms(6) by (simp add: on_builds_def cancel_build_def db_bind_def read_execution_def reading_def dget_or_of db_return_def is_str_def)
  ultimately have "cancel_release S name i w = (Inr d, ?w)"
    using f assms(6) by (simp add: cancel_release_def db_bind_def reading_def is_str_def db_return_def)
  then show ?thesis using f load by (intro exI [of _ d] exI [of _ ?w]) (simp add: release_doc_def store_of_def posts_def)
qed

definition running_execution :: doc where
  "running_execution = [(''execution_id'', PStr ''r''), (''service_name'', PStr ''svc''), (''operation'', PStr ''main_release''),
     (''provider'', PStr ''cloud_build''), (''status'', PStr ''running_quality''), (''build_id'', PStr ''b1'')]"

lemma cancelled_release_build_runs_on_witness:
  "\<exists>d w'. cancel_release (at_site recon_demo) ''svc'' ''r'' (plane_world [(''r'', running_execution)]) = (Inr d, w') \<and>
    dget d ''status'' = PStr ''failed'' \<and> release_doc mem_backend ''r'' w' = Some d \<and> dget d ''build_id'' = PStr ''b1'' \<and>
    cancelled (builds w') = [] \<and> calls w' = [] \<and> posts w' = []"
proof -
  have "posts (plane_world s) = []" "cancelled (builds (plane_world s)) = []" for s
    by (simp_all add: posts_def plane_world_def demo_world_def)
  then show ?thesis
    using cancelled_release_build_runs_on [of "at_site recon_demo" "''r''" "plane_world [(''r'', running_execution)]" running_execution "''svc''"]
    by (simp add: memory.document_backend_axioms bootstrap_document_id_def running_execution_def dget_cons is_str_def flag_def
      demo_managed is_terminal_def in_strs_def ended_statuses_def)
qed
section \<open>Evidence before quality passes\<close>

lemma rx_save_result:
  assumes "rx_save cfg B now i given s = (Inr d, s')"
  shows "\<exists>current. load B s i = Some current \<and> d = dict_update current (dict_set ''updated_at'' (PStr now) given)"
  using assms by (auto simp: rx_save_def Let_def map_op_def mutate_def transact_def checked_def guarded_def map_result_def
      split: if_splits option.splits sum.splits)

lemma save_release_result:
  assumes "save_release S i given w = (Inr d, w')"
  shows "\<exists>current. release_doc (si_backend S) i w = Some current \<and> d = dict_update current (dict_set ''updated_at'' (PStr (si_now S)) given)"
  using assms rx_save_result [of "bc_settings (site_build S)" "si_backend S" "si_now S" i given "ledger (builds w)" d]
  by (auto simp: save_release_def on_store_def on_builds_def on_ledger_def release_doc_def store_of_def split: prod.splits)

text \<open>
  C29: quality passes on evidence only.  When the reconciler commits the quality of an execution as passed, the report that
  its provider announced exists, is about the service, repository, head and base of the execution under the policy in
  force, passed its gate without a policy error, and its committed hash is recorded with the status.
\<close>

theorem evidence_required:
  assumes "commit_quality R e w = (Inr d, w')" and "is_str d ''status'' ''quality_passed''"
  shows "\<exists>q passed committed. re_report R (text_of e ''execution_id'') (py_str (dget_or e ''pending_report_hash'' (PStr ''''))) = Some q \<and>
    report_matches e q \<and> re_commit R q = Inr (passed, committed) \<and> qr_gate passed = ''PASSED'' \<and> re_errors R passed = [] \<and>
    dget d ''report_hash'' = PStr committed \<and> dget d ''evidence_committed'' = PBool True"
proof -
  let ?i = "text_of e ''execution_id''" and ?h = "py_str (dget_or e ''pending_report_hash'' (PStr ''''))"
  obtain q where q: "re_report R ?i ?h = Some q" "report_matches e q"
    using assms(1) by (auto simp: commit_quality_def db_raise_def db_bind_def reading_def Let_def split: if_splits sum.splits option.splits)
  obtain passed committed where c: "re_commit R q = Inr (passed, committed)"
    using assms(1) q by (auto simp: commit_quality_def db_raise_def db_bind_def reading_def Let_def split: if_splits sum.splits option.splits)
  let ?failed = "qr_gate passed \<noteq> ''PASSED'' \<or> re_errors R passed \<noteq> []"
  define changes where "changes =
     (if ?failed then [(''status'', PStr ''quality_failed''), (''report_hash'', PStr committed), (''quality_errors'', PList (map PStr (re_errors R passed)))]
      else [(''status'', PStr ''quality_passed''), (''report_hash'', PStr committed), (''evidence_committed'', PBool True)])"
  have "\<exists>v. save_release (at_site R) ?i changes w = (Inr d, v)"
    using assms(1) q c unfolding changes_def
    by (auto simp: commit_quality_def db_raise_def db_return_def db_bind_def reading_def Let_def split: if_splits sum.splits option.splits prod.splits)
  then obtain current where d: "d = dict_update current (dict_set ''updated_at'' (PStr (si_now R)) changes)"
    using save_release_result by fastforce
  have "\<not> ?failed"
  proof
    assume ?failed
    then have "dget d ''status'' = PStr ''quality_failed''" by (simp add: d changes_def dict_simps)
    then show False using assms(2) by (simp add: is_str_def)
  qed
  then show ?thesis using q c by (intro exI [of _ q] exI [of _ passed] exI [of _ committed]) (auto simp: d changes_def dict_simps)
qed

text \<open>An execution whose provider announced a report, and the build it ran.\<close>

definition reported_execution :: doc where
  "reported_execution = [(''execution_id'', PStr ''r''), (''fingerprint'', PStr ''f''), (''service_name'', PStr ''svc''),
     (''repository'', PStr ''o/svc''), (''operation'', PStr ''pr_quality''), (''head_sha'', PStr ''c1''), (''base_sha'', PStr ''b0''),
     (''profile_hash'', PStr ''p''), (''executor_digest'', PStr ''x''), (''policy_hash'', PStr ''q''), (''provider'', PStr ''cloud_build''),
     (''status'', PStr ''running_quality''), (''build_id'', PStr ''b1''), (''pending_report_hash'', PStr ''h'')]"

definition reported_build :: doc where
  "reported_build = [(''id'', PStr ''b1''), (''status'', PStr ''SUCCESS''), (''serviceAccount'', PStr ''a''),
     (''source'', PDict [(''connectedRepository'', PDict [(''repository'', PStr ''projects/p/r''), (''revision'', PStr ''c1'')])]),
     (''substitutions'', PDict [(''_EXECUTION_ID'', PStr ''r''), (''_REQUEST_FINGERPRINT'', PStr ''f''), (''_SERVICE_NAME'', PStr ''svc''),
       (''_REPOSITORY'', PStr ''o/svc''), (''_HEAD_SHA'', PStr ''c1''), (''_BASE_SHA'', PStr ''b0''), (''_EXECUTOR_DIGEST'', PStr ''x''),
       (''_OPERATION'', PStr ''pr_quality''), (''_PROFILE_SHA256'', PStr ''p'')])]"

definition reported_quality :: quality_report where
  "reported_quality = \<lparr>qr_service = ''svc'', qr_repository = ''o/svc'', qr_commit = ''C1'', qr_base = ''b0'', qr_policy = ''oss-v2'', qr_gate = ''PASSED''\<rparr>"

definition evidence_demo :: "mem recon_site" where
  "evidence_demo = recon_demo\<lparr>re_report := \<lambda>_ _. Some reported_quality, re_build := \<lambda>_. Inr (200, Inr (PDict reported_build))\<rparr>"

lemma evidence_demo_simps [simp]:
  "re_report evidence_demo i h = Some reported_quality" "re_commit evidence_demo q = Inr (q, ''h'')" "re_errors evidence_demo q = []"
  "re_build evidence_demo i = Inr (200, Inr (PDict reported_build))" "re_timing evidence_demo d b = None"
  "si_config evidence_demo = plane_demo" "si_backend evidence_demo = mem_backend" "si_now evidence_demo = ''t1''"
  by (simp_all add: evidence_demo_def) (simp_all add: recon_demo_def)

lemma evidence_required_witness:
  "\<exists>d w'. commit_quality evidence_demo reported_execution (plane_world [(''r'', reported_execution)]) = (Inr d, w') \<and>
    is_str d ''status'' ''quality_passed'' \<and> report_matches reported_execution reported_quality \<and>
    dget d ''report_hash'' = PStr ''h'' \<and> dget d ''evidence_committed'' = PBool True"
proof -
  have "''quality_passed'' \<in> set (successors ''running_quality'')" by code_simp
  then have "rx_save (bc_settings demo_config) mem_backend ''t1'' ''r''
      [(''status'', PStr ''quality_passed''), (''report_hash'', PStr ''h''), (''evidence_committed'', PBool True)] [(''r'', reported_execution)] =
    (Inr (dict_update reported_execution (dict_set ''updated_at'' (PStr ''t1'')
       [(''status'', PStr ''quality_passed''), (''report_hash'', PStr ''h''), (''evidence_committed'', PBool True)])),
     patch mem_backend ''r'' (dict_set ''updated_at'' (PStr ''t1'')
       [(''status'', PStr ''quality_passed''), (''report_hash'', PStr ''h''), (''evidence_committed'', PBool True)]) [(''r'', reported_execution)])"
    by (intro rx_save_status [where old = "''running_quality''"])
      (simp_all add: mem_load_def reported_execution_def bootstrap_document_id_def flag_def is_str_def dget_cons
        plain_changes_def identity_fields_def)
  then obtain d m where save: "rx_save (bc_settings demo_config) mem_backend ''t1'' ''r''
      [(''status'', PStr ''quality_passed''), (''report_hash'', PStr ''h''), (''evidence_committed'', PBool True)] [(''r'', reported_execution)] = (Inr d, m)"
      "d = dict_update reported_execution [(''status'', PStr ''quality_passed''), (''report_hash'', PStr ''h''),
        (''evidence_committed'', PBool True), (''updated_at'', PStr ''t1'')]"
    by simp
  have r: "report_matches reported_execution reported_quality"
    by (simp add: report_matches_def reported_quality_def reported_execution_def is_str_def dget_cons) code_simp
  have "dget d ''check_ids'' = PNone" by (simp add: save(2) dict_simps) (simp add: reported_execution_def dget_cons)
  then have c: "complete_check S d k conclusion reason = db_return ()" for S :: "mem site" and k conclusion reason
    by (simp add: complete_check_def check_ids_def py_or_def dget_cons)
  have k: "need_all reported_execution [''execution_id''] = Inr ()"
    "need_all reported_execution [''fingerprint'', ''provider'', ''executor_digest'', ''profile_hash'', ''policy_hash'', ''operation''] = Inr ()"
    "text_of reported_execution ''execution_id'' = ''r''" "dget_or reported_execution ''pending_report_hash'' v = PStr ''h''" for v
    by (simp_all add: need_all_Inr reported_execution_def has_key_def text_of_def dget_cons)
  have g: "qr_gate reported_quality = ''PASSED''" by (simp add: reported_quality_def)
  have run: "\<exists>w'. commit_quality evidence_demo reported_execution (plane_world [(''r'', reported_execution)]) = (Inr d, w')"
    using save(1) by (simp add: commit_quality_def k r c db_bind_def db_return_def reading_def Let_def save_release_def on_store_def on_builds_def
        on_ledger_def complete_quality_def g)
  then obtain w' where w': "commit_quality evidence_demo reported_execution (plane_world [(''r'', reported_execution)]) = (Inr d, w')" by blast
  moreover have "is_str d ''status'' ''quality_passed''" by (simp add: save(2) is_str_def dict_simps)
  ultimately show ?thesis using evidence_required [OF w'] by auto
qed

section \<open>Builds that count\<close>

lemma build_outcome_success:
  assumes "build_outcome R e build w = (Inr True, w')"
  shows "py_str (dget_or build ''status'' (PStr '''')) \<in> {''SUCCESS'', ''FAILURE''} \<and>
    (py_str (dget_or build ''status'' (PStr '''')) = ''FAILURE'' \<longrightarrow> flag e ''pending_report_hash'')"
  using assms by (auto simp: build_outcome_def db_bind_def db_return_def Let_def split: if_splits sum.splits prod.splits)

lemma bound_success_verified:
  assumes "bound_success R e w = (Inr True, w')"
  shows "\<exists>build. read_build R (py_str (dget_or e ''build_id'' (PStr ''''))) = Inr build \<and>
    verify_build (pc_build (si_config R)) e build '''' = Inr () \<and>
    py_str (dget_or build ''status'' (PStr '''')) \<in> {''SUCCESS'', ''FAILURE''} \<and>
    (py_str (dget_or build ''status'' (PStr '''')) = ''FAILURE'' \<longrightarrow> flag e ''pending_report_hash'')"
  using assms build_outcome_success [of R e] 
  by (fastforce simp: bound_success_def db_bind_def db_return_def reading_def Let_def split: if_splits sum.splits)

text \<open>
  C30: a build counts only when it was read and verified.  If the reconciler takes the provider of a Cloud Build execution
  to have succeeded, then it read a build under the id bound to the execution (or to the one the recovery found); that
  build has the source, account and identity of the execution, and it succeeded, or failed after its report was announced.
\<close>

theorem only_verified_builds_count:
  assumes "provider_success R e w = Some (Inr True, w')" and "\<not> is_str e ''provider'' ''github_actions''"
  shows "\<exists>d build. (d = e \<or> (\<exists>service v. find_lost R e service w = Some (Inr d, v))) \<and>
    read_build R (py_str (dget_or d ''build_id'' (PStr ''''))) = Inr build \<and>
    verify_build (pc_build (si_config R)) d build '''' = Inr () \<and>
    (py_str (dget_or build ''status'' (PStr '''')) = ''SUCCESS'' \<or>
     py_str (dget_or build ''status'' (PStr '''')) = ''FAILURE'' \<and> flag d ''pending_report_hash'')"
proof -
  have "\<exists>d v v'. bound_success R d v = (Inr True, v') \<and> (d = e \<or> (\<exists>service v. find_lost R e service w = Some (Inr d, v)))"
    using assms by (fastforce simp: provider_success_def then_search_def split: if_splits sum.splits option.splits)
  then obtain d v v' where "bound_success R d v = (Inr True, v')" "d = e \<or> (\<exists>service v. find_lost R e service w = Some (Inr d, v))"
    by blast
  with bound_success_verified [OF this(1)] show ?thesis by blast
qed
lemma only_verified_builds_count_witness:
  "\<exists>w'. provider_success evidence_demo reported_execution (plane_world [(''r'', reported_execution)]) = Some (Inr True, w') \<and>
    verify_build demo_config reported_execution reported_build '''' = Inr ()"
proof -
  have v: "verify_build demo_config reported_execution reported_build '''' = Inr ()"
    by code_simp
  have t: "record_timing evidence_demo i reported_build w = (Inr (), w)" if "release_doc mem_backend i w = Some d" "d \<noteq> []" "\<not> flag d ''bootstrap_ticket_id''" for i w d
    using get_release_found [of "at_site evidence_demo" i w d] that by (simp add: record_timing_def db_bind_def db_return_def)
  have r: "read_build evidence_demo ''b1'' = Inr reported_build" by (simp add: read_build_def get_build_def attr_dict_def)
  have f: "\<not> flag reported_execution ''planner_retry_pending''" "\<not> is_str reported_execution ''provider'' ''github_actions''"
    "\<not> flag reported_execution ''bootstrap_ticket_id''" "reported_execution \<noteq> []"
    "dget_or reported_execution ''build_id'' x = PStr ''b1''" "text_of reported_execution ''execution_id'' = ''r''"
    "dget_or reported_build ''status'' x = PStr ''SUCCESS''" for x
    by (simp_all add: reported_execution_def reported_build_def flag_def dget_cons is_str_def text_of_def)
  have "bound_success evidence_demo reported_execution (plane_world [(''r'', reported_execution)]) =
      (Inr True, plane_world [(''r'', reported_execution)])"
    using v r f t [of "''r''" "plane_world [(''r'', reported_execution)]" reported_execution]
    by (simp add: bound_success_def build_outcome_def db_bind_def db_return_def reading_def Let_def)
  then have p: "provider_success evidence_demo reported_execution (plane_world [(''r'', reported_execution)]) =
      Some (Inr True, plane_world [(''r'', reported_execution)])"
    using f by (simp add: provider_success_def)
  from only_verified_builds_count [OF p f(2)] show ?thesis using p v by blast
qed
end
