(* ===== verification/ReleaseProfiles.thy ===== *)
theory ReleaseProfiles
  imports Effects Codec
begin

text \<open>
  The release profiles: \<open>services/release_profiles.py\<close>, which authorizes a release with the fingerprint of its profile, and
  the copy of the table in \<open>docker/release-executor/release_executor.py\<close>, which is what the executor follows once the
  fingerprints agree.
\<close>

section \<open>The central table\<close>

record release_profile =
  rp_name :: string
  rp_timeout :: int
  rp_build_args :: "(string \<times> string) list"
  rp_env :: "(string \<times> string) list"
  rp_pre_candidate :: "string list"
  rp_candidate :: "string list"
  rp_pre_promote :: "string list"
  rp_post_promote :: "string list"
  rp_recovery :: string
  rp_rollback :: string
  rp_strategy :: string
  rp_mode :: string

definition profile_of :: "string \<Rightarrow> int \<Rightarrow> release_profile" where
  "profile_of name timeout =
     \<lparr>rp_name = name, rp_timeout = timeout, rp_build_args = [], rp_env = [], rp_pre_candidate = [], rp_candidate = [],
      rp_pre_promote = [], rp_post_promote = [], rp_recovery = '''', rp_rollback = '''', rp_strategy = ''merge'',
      rp_mode = ''traffic''\<rparr>"

text \<open>JSON lists of strings and of pairs.\<close>

definition texts :: "string list \<Rightarrow> pyval" where
  "texts xs = PList (map PStr xs)"

definition pairs :: "(string \<times> string) list \<Rightarrow> pyval" where
  "pairs xs = PList (map (\<lambda>(a, b). texts [a, b]) xs)"

text \<open>Three profiles keep the fingerprint they had before hooks were paired.\<close>

definition legacy_names :: "string list" where
  "legacy_names = [''eng-platform-api'', ''eng-platform-web'', ''communications-ms'']"

text \<open>\<open>asdict(self)\<close>, or the fields of a legacy profile\<close>

definition profile_value :: "release_profile \<Rightarrow> pyval" where
  "profile_value p = PDict
     (if rp_name p \<in> set legacy_names
      then
        [(''name'', PStr (rp_name p)), (''timeout_seconds'', PInt (rp_timeout p)), (''build_args'', pairs (rp_build_args p)),
         (''hooks'', texts (rp_candidate p)), (''candidate_update_strategy'', PStr (rp_strategy p)),
         (''rollback_mode'', PStr (rp_mode p))]
      else
        [(''name'', PStr (rp_name p)), (''timeout_seconds'', PInt (rp_timeout p)), (''build_args'', pairs (rp_build_args p)),
         (''candidate_env_vars'', pairs (rp_env p)), (''pre_candidate_hooks'', texts (rp_pre_candidate p)),
         (''candidate_hooks'', texts (rp_candidate p)), (''pre_promote_hooks'', texts (rp_pre_promote p)),
         (''post_promote_hooks'', texts (rp_post_promote p)), (''recovery_hook'', PStr (rp_recovery p)),
         (''rollback_hook'', PStr (rp_rollback p)), (''candidate_update_strategy'', PStr (rp_strategy p)),
         (''rollback_mode'', PStr (rp_mode p))])"

definition release_fingerprint :: "release_profile \<Rightarrow> string" where
  "release_fingerprint p = sha256_hex (json_dumps True True (profile_value p))"

definition platform_profiles :: "release_profile dict" where
  "platform_profiles =
     [(''eng-platform-api'', (profile_of ''eng-platform-api'' 1800)\<lparr>rp_candidate := [''verify_candidate_config'']\<rparr>),
      (''eng-platform-web'', (profile_of ''eng-platform-web'' 1800)\<lparr>rp_build_args := [(''APP_VERSION'', ''{tag}'')]\<rparr>),
      (''cgm-reconnections-api'', profile_of ''cgm-reconnections-api'' 1800),
      (''communications-ms'', (profile_of ''communications-ms'' 1800)\<lparr>rp_strategy := ''overwrite''\<rparr>),
      (''cgm-bot-api'', (profile_of ''cgm-bot-api'' 1800)
        \<lparr>rp_pre_candidate := [''ensure_bulk_queue'', ''deploy_bulk_worker''], rp_candidate := [''validate_smarti''],
         rp_post_promote := [''promote_bulk_worker''], rp_recovery := ''recover_bulk_worker'',
         rp_rollback := ''rollback_bulk_worker'', rp_strategy := ''overwrite''\<rparr>),
      (''cgm-sanplat-web'', (profile_of ''cgm-sanplat-web'' 3600)
        \<lparr>rp_pre_promote := [''corporate_window_web''], rp_post_promote := [''wait_corporate_activation_web''],
         rp_recovery := ''recover_corporate_web'', rp_rollback := ''rollback_corporate_web'', rp_mode := ''corporate_web''\<rparr>),
      (''cgm-sanplat-api'', (profile_of ''cgm-sanplat-api'' 3600)
        \<lparr>rp_env := [(''APP_RELEASE_SHA'', ''{sha}'')], rp_pre_candidate := [''prepare_corporate_runtimes''],
         rp_candidate := [''validate_openapi_inventory'', ''validate_corporate_auth''],
         rp_pre_promote := [''corporate_window_api''], rp_post_promote := [''wait_corporate_activation_api''],
         rp_recovery := ''recover_corporate_api'', rp_rollback := ''rollback_corporate_api'', rp_mode := ''corporate_api''\<rparr>)]"

definition artemis_services :: "string list" where
  "artemis_services =
     [''cgm-artemis-api'', ''cgm-artemis-web'', ''cgm-artemis-job-dispatcher'', ''cgm-artemis-job-worker'',
      ''cgm-artemis-sync-worker'', ''cgm-artemis-clock-sync-worker'', ''cgm-artemis-data-recovery-worker'',
      ''cgm-artemis-fnd-ip-sync-worker'', ''cgm-artemis-mcp-worker'']"

definition artemis_jobs :: "string list" where
  "artemis_jobs =
     [''cgm-artemis-fnd-observation-worker'', ''cgm-artemis-readings-export-worker'',
      ''cgm-artemis-smarti-prevention-worker'', ''cgm-artemis-wm-sweep-worker'']"

definition task_workers :: "string dict" where
  "task_workers =
     [(''cgm-artemis-sync-worker'', ''sync''), (''cgm-artemis-clock-sync-worker'', ''clock-sync''),
      (''cgm-artemis-data-recovery-worker'', ''data-recovery''), (''cgm-artemis-fnd-ip-sync-worker'', ''fnd-ip-sync''),
      (''cgm-artemis-mcp-worker'', ''mcp-parameterization'')]"

definition dispatcher_env :: "(string \<times> string) list" where
  "dispatcher_env =
     [(''JOB_WORKER_PREFIX'', ''cgm-artemis''),
      (''JOB_TASK_OIDC_SERVICE_ACCOUNT'', ''artemis-tasks-invoker@cgm-assistant-prod.iam.gserviceaccount.com''),
      (''ARTEMIS_SYNC_QUEUE'', ''cgm-artemis-sync''),
      (''ARTEMIS_SYNC_WORKER_URL'', ''{service_uri:cgm-artemis-sync-worker}''),
      (''ARTEMIS_CLOCK_SYNC_QUEUE'', ''cgm-artemis-clock-sync''),
      (''ARTEMIS_CLOCK_SYNC_WORKER_URL'', ''{service_uri:cgm-artemis-clock-sync-worker}''),
      (''ARTEMIS_DATA_RECOVERY_QUEUE'', ''cgm-artemis-data-recovery''),
      (''ARTEMIS_DATA_RECOVERY_WORKER_URL'', ''{service_uri:cgm-artemis-data-recovery-worker}''),
      (''ARTEMIS_FND_IP_SYNC_QUEUE'', ''cgm-artemis-fnd-ip-sync''),
      (''ARTEMIS_FND_IP_SYNC_WORKER_URL'', ''{service_uri:cgm-artemis-fnd-ip-sync-worker}'')]"

text \<open>The two loops that extend the table.\<close>

definition artemis_profile :: "string \<Rightarrow> release_profile" where
  "artemis_profile name =
     (profile_of name 3600)
       \<lparr>rp_build_args := (if name = ''cgm-artemis-web'' then [(''APP_VERSION'', ''{tag}'')] else []),
        rp_env :=
          (if name \<noteq> ''cgm-artemis-web''
           then [(''APP_RELEASE_SHA'', ''{sha}''), (''APP_RELEASE_SCOPE'', ''runtime-v1''), (''APP_RELEASE_RESOURCE'', name)]
           else []) @
          (if name = ''cgm-artemis-api'' then [(''APP_BACKGROUND_TASKS_ENABLED'', ''false'')]
           else if name = ''cgm-artemis-job-dispatcher'' then dispatcher_env else []) @
          (case map_of task_workers name of None \<Rightarrow> [] | Some kind \<Rightarrow> [(''ARTEMIS_WORKER_TYPE'', kind)])\<rparr>"

definition remove_prefix :: "string \<Rightarrow> string \<Rightarrow> string" where
  "remove_prefix p s = (if starts_with p s then drop (length p) s else s)"

definition remove_suffix :: "string \<Rightarrow> string \<Rightarrow> string" where
  "remove_suffix p s = (if p \<noteq> '''' \<and> starts_with (rev p) (rev s) then take (length s - length p) s else s)"

definition artemis_job_profile :: "string \<Rightarrow> release_profile" where
  "artemis_job_profile name =
     (profile_of name 3600)
       \<lparr>rp_env :=
          [(''APP_RELEASE_SHA'', ''{sha}''), (''APP_RELEASE_SCOPE'', ''runtime-v1''), (''APP_RELEASE_RESOURCE'', name),
           (''APP_RUNTIME_CHECK_ONLY'', ''true''),
           (''ARTEMIS_WORKER_TYPE'', remove_suffix ''-worker'' (remove_prefix ''cgm-artemis-'' name))],
        rp_mode := ''job_definition''\<rparr>"

definition central_profiles :: "release_profile dict" where
  "central_profiles =
     platform_profiles @ map (\<lambda>name. (name, artemis_profile name)) artemis_services @
     map (\<lambda>name. (name, artemis_job_profile name)) artemis_jobs"

definition central_profile :: "string \<Rightarrow> release_profile result" where
  "central_profile name =
     (case map_of central_profiles name of
        None \<Rightarrow> Inl (ValueError (''No central release profile is defined for '' @ repr_str name))
      | Some p \<Rightarrow> Inr p)"

section \<open>The table of the executor\<close>

definition spec_entry ::
  "string \<Rightarrow> int \<Rightarrow> (string \<times> string) list \<Rightarrow> (string \<times> string) list \<Rightarrow> string list \<Rightarrow> string list \<Rightarrow> string list \<Rightarrow>
   string list \<Rightarrow> string \<Rightarrow> string \<Rightarrow> string \<Rightarrow> string \<Rightarrow> doc" where
  "spec_entry name timeout args vars pre_candidate candidate pre_promote post_promote recovery rollback strategy mode =
     [(''name'', PStr name), (''timeout_seconds'', PInt timeout), (''build_args'', pairs args),
      (''candidate_env_vars'', pairs vars), (''pre_candidate_hooks'', texts pre_candidate), (''candidate_hooks'', texts candidate),
      (''pre_promote_hooks'', texts pre_promote), (''post_promote_hooks'', texts post_promote),
      (''recovery_hook'', PStr recovery), (''rollback_hook'', PStr rollback), (''candidate_update_strategy'', PStr strategy),
      (''rollback_mode'', PStr mode)]"

definition platform_specs :: "doc dict" where
  "platform_specs =
    [(''eng-platform-api'', spec_entry ''eng-platform-api'' 1800 []
        []
        [] [''verify_candidate_config''] [] [] '''' '''' ''merge'' ''traffic''),
     (''eng-platform-web'', spec_entry ''eng-platform-web'' 1800 [(''APP_VERSION'', ''{tag}'')]
        []
        [] [] [] [] '''' '''' ''merge'' ''traffic''),
     (''cgm-reconnections-api'', spec_entry ''cgm-reconnections-api'' 1800 []
        []
        [] [] [] [] '''' '''' ''merge'' ''traffic''),
     (''communications-ms'', spec_entry ''communications-ms'' 1800 []
        []
        [] [] [] [] '''' '''' ''overwrite'' ''traffic''),
     (''cgm-bot-api'', spec_entry ''cgm-bot-api'' 1800 []
        []
        [''ensure_bulk_queue'', ''deploy_bulk_worker''] [''validate_smarti''] [] [''promote_bulk_worker'']
        ''recover_bulk_worker'' ''rollback_bulk_worker'' ''overwrite'' ''traffic''),
     (''cgm-sanplat-web'', spec_entry ''cgm-sanplat-web'' 3600 []
        []
        [] [] [''corporate_window_web''] [''wait_corporate_activation_web''] ''recover_corporate_web''
        ''rollback_corporate_web'' ''merge'' ''corporate_web''),
     (''cgm-sanplat-api'', spec_entry ''cgm-sanplat-api'' 3600 []
        [(''APP_RELEASE_SHA'', ''{sha}'')]
        [''prepare_corporate_runtimes''] [''validate_openapi_inventory'', ''validate_corporate_auth'']
        [''corporate_window_api''] [''wait_corporate_activation_api''] ''recover_corporate_api'' ''rollback_corporate_api''
        ''merge'' ''corporate_api'')]"

definition artemis_specs :: "doc dict" where
  "artemis_specs =
    [(''cgm-artemis-api'', spec_entry ''cgm-artemis-api'' 3600 []
        [(''APP_RELEASE_SHA'', ''{sha}''), (''APP_RELEASE_SCOPE'', ''runtime-v1''), (''APP_RELEASE_RESOURCE'',
        ''cgm-artemis-api''), (''APP_BACKGROUND_TASKS_ENABLED'', ''false'')]
        [] [] [] [] '''' '''' ''merge'' ''traffic''),
     (''cgm-artemis-web'', spec_entry ''cgm-artemis-web'' 3600 [(''APP_VERSION'', ''{tag}'')]
        []
        [] [] [] [] '''' '''' ''merge'' ''traffic''),
     (''cgm-artemis-job-dispatcher'', spec_entry ''cgm-artemis-job-dispatcher'' 3600 []
        [(''APP_RELEASE_SHA'', ''{sha}''), (''APP_RELEASE_SCOPE'', ''runtime-v1''), (''APP_RELEASE_RESOURCE'',
        ''cgm-artemis-job-dispatcher''), (''JOB_WORKER_PREFIX'', ''cgm-artemis''), (''JOB_TASK_OIDC_SERVICE_ACCOUNT'',
        ''artemis-tasks-invoker@cgm-assistant-prod.iam.gserviceaccount.com''), (''ARTEMIS_SYNC_QUEUE'', ''cgm-artemis-sync''),
        (''ARTEMIS_SYNC_WORKER_URL'', ''{service_uri:cgm-artemis-sync-worker}''), (''ARTEMIS_CLOCK_SYNC_QUEUE'',
        ''cgm-artemis-clock-sync''), (''ARTEMIS_CLOCK_SYNC_WORKER_URL'', ''{service_uri:cgm-artemis-clock-sync-worker}''),
        (''ARTEMIS_DATA_RECOVERY_QUEUE'', ''cgm-artemis-data-recovery''), (''ARTEMIS_DATA_RECOVERY_WORKER_URL'',
        ''{service_uri:cgm-artemis-data-recovery-worker}''), (''ARTEMIS_FND_IP_SYNC_QUEUE'', ''cgm-artemis-fnd-ip-sync''),
        (''ARTEMIS_FND_IP_SYNC_WORKER_URL'', ''{service_uri:cgm-artemis-fnd-ip-sync-worker}'')]
        [] [] [] [] '''' '''' ''merge'' ''traffic''),
     (''cgm-artemis-job-worker'', spec_entry ''cgm-artemis-job-worker'' 3600 []
        [(''APP_RELEASE_SHA'', ''{sha}''), (''APP_RELEASE_SCOPE'', ''runtime-v1''), (''APP_RELEASE_RESOURCE'',
        ''cgm-artemis-job-worker'')]
        [] [] [] [] '''' '''' ''merge'' ''traffic''),
     (''cgm-artemis-sync-worker'', spec_entry ''cgm-artemis-sync-worker'' 3600 []
        [(''APP_RELEASE_SHA'', ''{sha}''), (''APP_RELEASE_SCOPE'', ''runtime-v1''), (''APP_RELEASE_RESOURCE'',
        ''cgm-artemis-sync-worker''), (''ARTEMIS_WORKER_TYPE'', ''sync'')]
        [] [] [] [] '''' '''' ''merge'' ''traffic''),
     (''cgm-artemis-clock-sync-worker'', spec_entry ''cgm-artemis-clock-sync-worker'' 3600 []
        [(''APP_RELEASE_SHA'', ''{sha}''), (''APP_RELEASE_SCOPE'', ''runtime-v1''), (''APP_RELEASE_RESOURCE'',
        ''cgm-artemis-clock-sync-worker''), (''ARTEMIS_WORKER_TYPE'', ''clock-sync'')]
        [] [] [] [] '''' '''' ''merge'' ''traffic''),
     (''cgm-artemis-data-recovery-worker'', spec_entry ''cgm-artemis-data-recovery-worker'' 3600 []
        [(''APP_RELEASE_SHA'', ''{sha}''), (''APP_RELEASE_SCOPE'', ''runtime-v1''), (''APP_RELEASE_RESOURCE'',
        ''cgm-artemis-data-recovery-worker''), (''ARTEMIS_WORKER_TYPE'', ''data-recovery'')]
        [] [] [] [] '''' '''' ''merge'' ''traffic''),
     (''cgm-artemis-fnd-ip-sync-worker'', spec_entry ''cgm-artemis-fnd-ip-sync-worker'' 3600 []
        [(''APP_RELEASE_SHA'', ''{sha}''), (''APP_RELEASE_SCOPE'', ''runtime-v1''), (''APP_RELEASE_RESOURCE'',
        ''cgm-artemis-fnd-ip-sync-worker''), (''ARTEMIS_WORKER_TYPE'', ''fnd-ip-sync'')]
        [] [] [] [] '''' '''' ''merge'' ''traffic''),
     (''cgm-artemis-mcp-worker'', spec_entry ''cgm-artemis-mcp-worker'' 3600 []
        [(''APP_RELEASE_SHA'', ''{sha}''), (''APP_RELEASE_SCOPE'', ''runtime-v1''), (''APP_RELEASE_RESOURCE'',
        ''cgm-artemis-mcp-worker''), (''ARTEMIS_WORKER_TYPE'', ''mcp-parameterization'')]
        [] [] [] [] '''' '''' ''merge'' ''traffic'')]"

definition artemis_job_specs :: "doc dict" where
  "artemis_job_specs =
    [(''cgm-artemis-fnd-observation-worker'', spec_entry ''cgm-artemis-fnd-observation-worker'' 3600 []
        [(''APP_RELEASE_SHA'', ''{sha}''), (''APP_RELEASE_SCOPE'', ''runtime-v1''), (''APP_RELEASE_RESOURCE'',
        ''cgm-artemis-fnd-observation-worker''), (''APP_RUNTIME_CHECK_ONLY'', ''true''), (''ARTEMIS_WORKER_TYPE'',
        ''fnd-observation'')]
        [] [] [] [] '''' '''' ''merge'' ''job_definition''),
     (''cgm-artemis-readings-export-worker'', spec_entry ''cgm-artemis-readings-export-worker'' 3600 []
        [(''APP_RELEASE_SHA'', ''{sha}''), (''APP_RELEASE_SCOPE'', ''runtime-v1''), (''APP_RELEASE_RESOURCE'',
        ''cgm-artemis-readings-export-worker''), (''APP_RUNTIME_CHECK_ONLY'', ''true''), (''ARTEMIS_WORKER_TYPE'',
        ''readings-export'')]
        [] [] [] [] '''' '''' ''merge'' ''job_definition''),
     (''cgm-artemis-smarti-prevention-worker'', spec_entry ''cgm-artemis-smarti-prevention-worker'' 3600 []
        [(''APP_RELEASE_SHA'', ''{sha}''), (''APP_RELEASE_SCOPE'', ''runtime-v1''), (''APP_RELEASE_RESOURCE'',
        ''cgm-artemis-smarti-prevention-worker''), (''APP_RUNTIME_CHECK_ONLY'', ''true''), (''ARTEMIS_WORKER_TYPE'',
        ''smarti-prevention'')]
        [] [] [] [] '''' '''' ''merge'' ''job_definition''),
     (''cgm-artemis-wm-sweep-worker'', spec_entry ''cgm-artemis-wm-sweep-worker'' 3600 []
        [(''APP_RELEASE_SHA'', ''{sha}''), (''APP_RELEASE_SCOPE'', ''runtime-v1''), (''APP_RELEASE_RESOURCE'',
        ''cgm-artemis-wm-sweep-worker''), (''APP_RUNTIME_CHECK_ONLY'', ''true''), (''ARTEMIS_WORKER_TYPE'', ''wm-sweep'')]
        [] [] [] [] '''' '''' ''merge'' ''job_definition'')]"

definition profile_specs :: "doc dict" where
  "profile_specs = platform_specs @ artemis_specs @ artemis_job_specs"

text \<open>\<open>profile_fingerprint\<close>\<close>

definition spec_value :: "string \<Rightarrow> doc \<Rightarrow> pyval" where
  "spec_value name spec = PDict
     (if name \<in> set legacy_names
      then
        [(''name'', dget spec ''name''), (''timeout_seconds'', dget spec ''timeout_seconds''),
         (''build_args'', dget spec ''build_args''), (''hooks'', dget spec ''candidate_hooks''),
         (''candidate_update_strategy'', dget spec ''candidate_update_strategy''), (''rollback_mode'', dget spec ''rollback_mode'')]
      else spec)"

definition spec_fingerprint :: "string \<Rightarrow> string result" where
  "spec_fingerprint name =
     (case map_of profile_specs name of
        None \<Rightarrow> Inl (KeyError name)
      | Some spec \<Rightarrow> Inr (sha256_hex (json_dumps True True (spec_value name spec))))"

section \<open>Parity\<close>

lemma specs_are_profiles:
  "map (\<lambda>(name, spec). (name, spec_value name spec)) profile_specs = map (\<lambda>(name, p). (name, profile_value p)) central_profiles"
  by code_simp

end
