(* ===== verification/JsonReader.thy ===== *)
theory JsonReader
  imports Codec
begin

text \<open>
  \<open>json.loads\<close>: texts, whole numbers, lists and objects.  Numbers with a fraction or an exponent have no value here and
  read as an error, as do escapes beyond the 8-bit characters.  With \<open>unique\<close>, a repeated key of an object is an error, as
  under the hook of the release executor; otherwise the last one wins.
\<close>

section \<open>Tokens\<close>

fun skip_blank :: "string \<Rightarrow> string" where
  "skip_blank [] = []"
| "skip_blank (c # cs) = (if c \<in> {CHR '' '', CHR 0x09, CHR 0x0A, CHR 0x0D} then skip_blank cs else c # cs)"

lemma skip_blank_length: "length (skip_blank s) \<le> length s"
  by (induction s) auto

definition hex_value :: "char \<Rightarrow> nat option" where
  "hex_value c =
     (let n = (of_char c :: nat) in
      if 48 \<le> n \<and> n \<le> 57 then Some (n - 48)
      else if 97 \<le> n \<and> n \<le> 102 then Some (n - 87)
      else if 65 \<le> n \<and> n \<le> 70 then Some (n - 55)
      else None)"

definition unescape :: "char \<Rightarrow> char option" where
  "unescape e =
     map_of [(CHR 0x22, CHR 0x22), (CHR 0x5C, CHR 0x5C), (CHR ''/'', CHR ''/''), (CHR ''b'', CHR 0x08), (CHR ''f'', CHR 0x0C),
       (CHR ''n'', CHR 0x0A), (CHR ''r'', CHR 0x0D), (CHR ''t'', CHR 0x09)] e"

text \<open>The rest of a string after its opening quote.\<close>

function read_chars :: "string \<Rightarrow> (string \<times> string) option" where
  "read_chars s =
     (case s of
        [] \<Rightarrow> None
      | c # cs \<Rightarrow>
          if c = CHR 0x22 then Some ([], cs)
          else if c \<noteq> CHR 0x5C
          then if of_char c < (32 :: nat) then None
               else (case read_chars cs of None \<Rightarrow> None | Some (t, r) \<Rightarrow> Some (c # t, r))
          else
            (case cs of
               e # r \<Rightarrow>
                 if e = CHR ''u''
                 then
                   (case r of
                      h1 # h2 # h3 # h4 # r' \<Rightarrow>
                        (case (hex_value h3, hex_value h4) of
                           (Some a, Some b) \<Rightarrow>
                             if h1 = CHR ''0'' \<and> h2 = CHR ''0''
                             then (case read_chars r' of None \<Rightarrow> None | Some (t, r'') \<Rightarrow> Some (char_of (16 * a + b) # t, r''))
                             else None
                         | _ \<Rightarrow> None)
                    | _ \<Rightarrow> None)
                 else
                   (case unescape e of
                      None \<Rightarrow> None
                    | Some x \<Rightarrow> (case read_chars r of None \<Rightarrow> None | Some (t, r') \<Rightarrow> Some (x # t, r')))
             | [] \<Rightarrow> None))"
  by pat_completeness auto
termination by (relation "measure length") auto

declare read_chars.simps [simp del]

text \<open>\<open>-?(0|[1-9][0-9]*)\<close>, not followed by a fraction or an exponent.\<close>

definition read_digits :: "string \<Rightarrow> (int \<times> string) option" where
  "read_digits s =
     (let ds = takeWhile is_digit s; rest = dropWhile is_digit s in
      if ds = [] \<or> (length ds > 1 \<and> hd ds = CHR ''0'') \<or> (rest \<noteq> [] \<and> hd rest \<in> {CHR ''.'', CHR ''e'', CHR ''E''}) then None
      else map_option (\<lambda>n. (n, rest)) (digits_value False 0 ds))"

definition read_number :: "string \<Rightarrow> (int \<times> string) option" where
  "read_number s =
     (case s of
        c # cs \<Rightarrow> if c = CHR ''-'' then map_option (\<lambda>(n, r). (- n, r)) (read_digits cs) else read_digits (c # cs)
      | [] \<Rightarrow> None)"

definition read_word :: "string \<Rightarrow> pyval \<Rightarrow> string \<Rightarrow> (pyval \<times> string) option" where
  "read_word w v s = (if starts_with w s then Some (v, drop (length w) s) else None)"

section \<open>Values\<close>

text \<open>The first argument bounds the number of values; twice the length of the text is always enough, as every value but the last has a character of its own.\<close>

fun read_value :: "bool \<Rightarrow> nat \<Rightarrow> string \<Rightarrow> (pyval \<times> string) option"
and read_items :: "bool \<Rightarrow> nat \<Rightarrow> string \<Rightarrow> (pyval list \<times> string) option"
and read_fields :: "bool \<Rightarrow> nat \<Rightarrow> doc \<Rightarrow> string \<Rightarrow> (doc \<times> string) option" where
  "read_value unique 0 s = None"
| "read_value unique (Suc n) s =
     (case skip_blank s of
        [] \<Rightarrow> None
      | c # cs \<Rightarrow>
          if c = CHR 0x22 then map_option (\<lambda>(t, r). (PStr t, r)) (read_chars cs)
          else if c = CHR ''['' then
            (case skip_blank cs of
               d # r \<Rightarrow> if d = CHR '']'' then Some (PList [], r)
                        else map_option (\<lambda>(vs, r). (PList vs, r)) (read_items unique n (d # r))
             | [] \<Rightarrow> None)
          else if c = CHR ''{'' then
            (case skip_blank cs of
               d # r \<Rightarrow> if d = CHR ''}'' then Some (PDict [], r)
                        else map_option (\<lambda>(d', r). (PDict d', r)) (read_fields unique n [] (d # r))
             | [] \<Rightarrow> None)
          else if c = CHR ''n'' then read_word ''null'' PNone (c # cs)
          else if c = CHR ''t'' then read_word ''true'' (PBool True) (c # cs)
          else if c = CHR ''f'' then read_word ''false'' (PBool False) (c # cs)
          else map_option (\<lambda>(i, r). (PInt i, r)) (read_number (c # cs)))"
| "read_items unique 0 s = None"
| "read_items unique (Suc n) s =
     (case read_value unique n s of
        None \<Rightarrow> None
      | Some (v, r) \<Rightarrow>
          (case skip_blank r of
             c # r' \<Rightarrow>
               if c = CHR '']'' then Some ([v], r')
               else if c = CHR '','' then map_option (\<lambda>(vs, r). (v # vs, r)) (read_items unique n r')
               else None
           | [] \<Rightarrow> None))"
| "read_fields unique 0 d s = None"
| "read_fields unique (Suc n) d s =
     (case skip_blank s of
        c # cs \<Rightarrow>
          if c \<noteq> CHR 0x22 then None
          else
            (case read_chars cs of
               None \<Rightarrow> None
             | Some (k, r) \<Rightarrow>
                 (case skip_blank r of
                    e # r' \<Rightarrow>
                      if e \<noteq> CHR '':'' \<or> (unique \<and> has_key d k) then None
                      else
                        (case read_value unique n r' of
                           None \<Rightarrow> None
                         | Some (v, q) \<Rightarrow>
                             (case skip_blank q of
                                f # q' \<Rightarrow>
                                  if f = CHR ''}'' then Some (dict_set k v d, q')
                                  else if f = CHR '','' then read_fields unique n (dict_set k v d) q'
                                  else None
                              | [] \<Rightarrow> None))
                  | [] \<Rightarrow> None))
      | [] \<Rightarrow> None)"

definition json_loads :: "bool \<Rightarrow> string \<Rightarrow> pyval result" where
  "json_loads unique s =
     (case read_value unique (2 * length s + 2) s of
        None \<Rightarrow> Inl (ValueError ''Invalid JSON'')
      | Some (v, r) \<Rightarrow> if skip_blank r = [] then Inr v else Inl (ValueError ''Extra data''))"

end
