(* ===== verification/ExecutorEngine.thy ===== *)
theory ExecutorEngine
  imports ReleaseProfiles JsonReader
begin

text \<open>
  The release executor, \<open>docker/release-executor/release_executor.py\<close>: its environment, the commands it runs, the
  requests it makes and the events it reports.  Cloud Run, the scheduler, the registry, Docker, the file system and HTTP are
  arguments: any transformation of an unknown outside world.
\<close>

section \<open>The outside world\<close>

text \<open>
  \<open>cl_exec\<close> runs a command, with the content of the temporary file that stands as \<open>{file}\<close> in its arguments, and answers
  its exit code, output and error output, or raises when it cannot start.  \<open>cl_open\<close> makes a request, following redirects
  or not, and answers its status and body.  \<open>cl_fetch\<close> copies an object into a temporary file and reads it.
  \<open>cl_resolve\<close> is \<open>Path.resolve\<close>; \<open>cl_yaml\<close> and \<open>cl_dump\<close> are \<open>yaml.safe_load\<close> and \<open>yaml.safe_dump\<close>.
\<close>

datatype body = JsonBody pyval | FormBody "(string \<times> string) list"

record request =
  rq_url :: string
  rq_headers :: "string dict"
  rq_body :: "body option"

record 'w outside =
  cl_exec :: "string list \<Rightarrow> string option \<Rightarrow> ('w, int \<times> string \<times> string) op"
  cl_open :: "bool \<Rightarrow> request \<Rightarrow> ('w, int \<times> string) op"
  cl_fetch :: "string \<Rightarrow> ('w, string) op"
  cl_read :: "string \<Rightarrow> string option"
  cl_resolve :: "string \<Rightarrow> string"
  cl_exists :: "string \<Rightarrow> bool"
  cl_is_file :: "string \<Rightarrow> bool"
  cl_yaml :: "string \<Rightarrow> pyval result"
  cl_dump :: "pyval \<Rightarrow> string"

text \<open>
  The files the executor leaves in the checkout are part of its own state, and so are the local flags of the release in
  progress, which its exception handlers read.
\<close>

record flags =
  granted :: bool
  promoted :: bool
  started :: bool
  resume_safe :: bool

record 'w engine =
  environ :: "string dict"
  candidate_file :: "string option"
  result_file :: "doc option"
  flags :: flags
  world :: 'w

definition outside_op :: "('w, 'a) op \<Rightarrow> ('w engine, 'a) op" where
  "outside_op f w = (case f (world w) of (r, v) \<Rightarrow> (r, w\<lparr>world := v\<rparr>))"

section \<open>The environment\<close>

definition getenv_or :: "string \<Rightarrow> string \<Rightarrow> ('w engine, string) op" where
  "getenv_or name v0 = reading (\<lambda>w. Inr (case map_of (environ w) name of None \<Rightarrow> v0 | Some v \<Rightarrow> v))"

definition getenv :: "string \<Rightarrow> ('w engine, string) op" where
  "getenv name = getenv_or name ''''"

definition env :: "string \<Rightarrow> ('w engine, string) op" where
  "env name =
     db_bind (getenv name) (\<lambda>v.
     if strip v = '''' then db_raise (RuntimeError (''missing required engine input: '' @ name)) else db_return (strip v))"

definition setenv :: "string \<Rightarrow> string \<Rightarrow> ('w engine, unit) op" where
  "setenv name v w = (Inr (), w\<lparr>environ := dict_set name v (environ w)\<rparr>)"

definition check :: "bool \<Rightarrow> string \<Rightarrow> ('w engine, unit) op" where
  "check b message = (if b then db_return () else db_raise (RuntimeError message))"

text \<open>\<open>--region\<close> and \<open>--project\<close> of the release.\<close>

definition region_args :: "string \<Rightarrow> string \<Rightarrow> string list" where
  "region_args region project = [''--region'', region, ''--project'', project]"

definition with_place :: "(string \<Rightarrow> string \<Rightarrow> ('w engine, 'a) op) \<Rightarrow> ('w engine, 'a) op" where
  "with_place k = db_bind (env ''CGM_REGION'') (\<lambda>region. db_bind (env ''CGM_PROJECT_ID'') (\<lambda>project. k region project))"

definition with_service :: "(string \<Rightarrow> string \<Rightarrow> string \<Rightarrow> ('w engine, 'a) op) \<Rightarrow> ('w engine, 'a) op" where
  "with_service k = db_bind (env ''CGM_SERVICE'') (\<lambda>service. with_place (k service))"

section \<open>Diagnostics without secrets\<close>

text \<open>\<open>re.sub\<close> with a matcher that answers the replacement and the length of a match at the front.\<close>

function sub_all :: "(string \<Rightarrow> (string \<times> nat) option) \<Rightarrow> string \<Rightarrow> string" where
  "sub_all m [] = []"
| "sub_all m (c # cs) =
     (case m (c # cs) of None \<Rightarrow> c # sub_all m cs | Some (t, n) \<Rightarrow> t @ sub_all m (drop (n - 1) cs))"
  by pat_completeness auto
termination by (relation "measure (length \<circ> snd)") auto

definition redacted :: string where
  "redacted = ''[redacted]''"

definition match_text :: "string \<Rightarrow> string \<Rightarrow> (string \<times> nat) option" where
  "match_text old s = (if starts_with old s then Some (redacted, length old) else None)"

text \<open>A prefix up to a token, which is replaced.\<close>

definition match_token :: "nat \<Rightarrow> (char \<Rightarrow> bool) \<Rightarrow> string \<Rightarrow> (string \<times> nat) option" where
  "match_token n inside s =
     (let tok = takeWhile inside (drop n s) in if tok = [] then None else Some (take n s @ redacted, n + length tok))"

definition spaces :: "string \<Rightarrow> nat" where
  "spaces s = length (takeWhile is_space s)"

definition match_bearer :: "string \<Rightarrow> (string \<times> nat) option" where
  "match_bearer s =
     (let n = spaces (drop 6 s) in
      if \<not> starts_with ''bearer'' (str_lower s) \<or> n = 0 then None
      else match_token (6 + n) (\<lambda>c. \<not> is_space c \<and> c \<noteq> CHR 0x22 \<and> c \<noteq> CHR 0x27) s)"

definition match_assignment :: "string \<Rightarrow> (string \<times> nat) option" where
  "match_assignment s =
     (case find (\<lambda>p. starts_with p (str_lower s)) [''password'', ''secret'', ''token''] of
        None \<Rightarrow> None
      | Some p \<Rightarrow>
          (let n = length p + spaces (drop (length p) s) in
           case drop n s of
             [] \<Rightarrow> None
           | c # cs \<Rightarrow>
               if c \<noteq> CHR ''='' \<and> c \<noteq> CHR '':'' then None
               else match_token (n + 1 + spaces cs) (\<lambda>c. \<not> is_space c \<and> c \<noteq> CHR '','' \<and> c \<noteq> CHR '';'') s))"

definition is_lower :: "char \<Rightarrow> bool" where
  "is_lower c = (let n = (of_char c :: nat) in 97 \<le> n \<and> n \<le> 122)"

definition match_credentials :: "string \<Rightarrow> (string \<times> nat) option" where
  "match_credentials s =
     (let scheme = takeWhile (\<lambda>c. is_lower c \<or> is_digit c \<or> c \<in> set ''+.-'') s;
          n = length scheme + 3;
          user = takeWhile (\<lambda>c. \<not> is_space c \<and> c \<noteq> CHR ''/'' \<and> c \<noteq> CHR ''@'') (drop n s) in
      if scheme = [] \<or> \<not> is_lower (hd scheme) \<or> \<not> starts_with ''://'' (drop (length scheme) s) \<or>
         \<not> starts_with ''@'' (drop (n + length user) s) \<or> CHR '':'' \<notin> set (drop 1 (butlast user))
      then None
      else Some (take n s @ redacted @ ''@'', n + length user + 1))"

text \<open>The names of environment variables are ASCII.\<close>

definition secret_name :: "string \<Rightarrow> bool" where
  "secret_name key = list_ex (\<lambda>p. contains p (str_lower key)) [''token'', ''secret'', ''password'', ''database_url'']"

definition sanitized_error :: "string dict \<Rightarrow> string \<Rightarrow> string" where
  "sanitized_error variables message =
     (let m1 = foldl (\<lambda>m (key, v). if 6 \<le> length v \<and> secret_name key then sub_all (match_text v) m else m) message variables;
          m2 = sub_all match_credentials (sub_all match_assignment (sub_all match_bearer m1)) in
      drop (length m2 - 2000) m2)"

section \<open>Commands\<close>

definition process :: "'w outside \<Rightarrow> string option \<Rightarrow> string list \<Rightarrow> ('w engine, int \<times> string \<times> string) op" where
  "process C file args = outside_op (cl_exec C args file)"

definition failure_detail :: "string \<Rightarrow> string \<Rightarrow> string" where
  "failure_detail out err = (if err \<noteq> '''' then err else if out \<noteq> '''' then out else ''no diagnostic output'')"

text \<open>The text of a \<open>CommandFailure\<close>, which no later change of the environment alters.\<close>

definition failure_text :: "string dict \<Rightarrow> string list \<Rightarrow> int \<Rightarrow> string \<Rightarrow> string \<Rightarrow> string" where
  "failure_text variables args code out err =
     ''command failed (exit '' @ int_text code @ ''): '' @ sanitized_error variables (join '' '' args) @ '': '' @
     sanitized_error variables (failure_detail out err)"

definition run_file :: "'w outside \<Rightarrow> string option \<Rightarrow> string list \<Rightarrow> ('w engine, string) op" where
  "run_file C file args =
     db_bind (process C file args) (\<lambda>(code, out, err).
     if code = 0 then db_return (strip out)
     else reading (\<lambda>w. Inl (CommandFailure (failure_text (environ w) args code out err))))"

definition run_command :: "'w outside \<Rightarrow> string list \<Rightarrow> ('w engine, string) op" where
  "run_command C args = run_file C None args"

definition run_json :: "'w outside \<Rightarrow> string list \<Rightarrow> ('w engine, pyval) op" where
  "run_json C args = db_bind (run_command C args) (\<lambda>out. reading (\<lambda>_. json_loads False out))"

text \<open>\<open>urlopen\<close>: a status other than success is an \<open>HTTPError\<close>, here \<open>Inr\<close> of the status.\<close>

definition success :: "int \<Rightarrow> bool" where
  "success status = (200 \<le> status \<and> status < 300)"

definition http_open :: "'w outside \<Rightarrow> request \<Rightarrow> ('w engine, int \<times> string) op" where
  "http_open C q = outside_op (cl_open C True q)"

definition bearer_header :: "string \<Rightarrow> string dict" where
  "bearer_header token = [(''Authorization'', ''Bearer '' @ token)]"

section \<open>Events\<close>

text \<open>\<open>emit\<close>: a failure to report is not one of the release, but a missing input is.\<close>

definition lstrip_slash :: "string \<Rightarrow> string" where
  "lstrip_slash s = dropWhile (\<lambda>c. c = CHR ''/'') s"

definition swallow :: "('w, 'a) op \<Rightarrow> ('w, unit) op" where
  "swallow m w = (Inr (), snd (m w))"

definition event_body :: "string \<Rightarrow> string \<Rightarrow> int \<Rightarrow> string \<Rightarrow> string \<Rightarrow> (string \<times> string) list \<Rightarrow> doc" where
  "event_body build fingerprint sequence stage status values =
     dict_update
       [(''build_id'', PStr build), (''fingerprint'', PStr fingerprint), (''sequence'', PInt sequence), (''stage'', PStr stage),
        (''status'', PStr status)]
       (map (\<lambda>(k, v). (k, PStr v)) (filter (\<lambda>(k, v). v \<noteq> '''') values))"

definition post_event :: "'w outside \<Rightarrow> string \<Rightarrow> doc \<Rightarrow> ('w engine, int \<times> string) op" where
  "post_event C url event =
     db_bind (run_command C [''gcloud'', ''auth'', ''print-identity-token'', ''--audiences='' @ url]) (\<lambda>token.
     db_bind (env ''CGM_DEPLOYMENT_ID'') (\<lambda>deployment.
     http_open C
       \<lparr>rq_url = url @ ''/api/internal/deployments/'' @ deployment @ ''/events'',
        rq_headers = bearer_header token @ [(''Content-Type'', ''application/json'')],
        rq_body = Some (JsonBody (PDict event))\<rparr>))"

definition emit :: "'w outside \<Rightarrow> string \<Rightarrow> string \<Rightarrow> (string \<times> string) list \<Rightarrow> ('w engine, unit) op" where
  "emit C stage status values =
     db_bind (getenv ''CGM_PLATFORM_API_URL'') (\<lambda>url.
     db_bind (getenv ''BUILD_ID'') (\<lambda>build.
     if rstrip_slash url = '''' \<or> strip build = '''' then db_return ()
     else
       db_bind (if status = ''running'' then setenv ''CGM_CURRENT_STAGE'' stage else db_return ()) (\<lambda>_.
       db_bind (getenv_or ''CGM_EVENT_SEQUENCE'' ''0'') (\<lambda>prior.
       db_bind (reading (\<lambda>_. py_int (PStr prior))) (\<lambda>n.
       db_bind (setenv ''CGM_EVENT_SEQUENCE'' (int_text (n + 1))) (\<lambda>_.
       db_bind (env ''CGM_REQUEST_FINGERPRINT'') (\<lambda>fp.
       swallow (post_event C (rstrip_slash url) (event_body build fp (n + 1) stage status values)))))))))"

section \<open>Production traffic\<close>

text \<open>The live rows of a traffic report: revisions with a positive share.\<close>

fun live_rows :: "int dict \<Rightarrow> pyval list \<Rightarrow> int dict result" where
  "live_rows acc [] = Inr acc"
| "live_rows acc (v # vs) =
     then_result (attr_dict v) (\<lambda>row.
     if \<not> flag row ''revisionName'' then live_rows acc vs
     else
       then_result (py_int (dget_or row ''percent'' (PInt 0))) (\<lambda>n.
       live_rows (if 0 < n then dict_set (py_str (dget row ''revisionName'')) n acc else acc) vs))"

text \<open>\<open>document.get("a", {}).get("b", {})...\<close>\<close>

fun inner_doc :: "string list \<Rightarrow> doc \<Rightarrow> doc result" where
  "inner_doc [] d = Inr d"
| "inner_doc (k # ks) d = then_result (attr_dict (dget_or d k (PDict []))) (inner_doc ks)"

definition traffic_rows :: "pyval \<Rightarrow> pyval list result" where
  "traffic_rows v =
     (case v of
        PDict d \<Rightarrow> then_result (inner_doc [''status''] d) (\<lambda>s. items_of (dget_or s ''traffic'' (PList [])))
      | _ \<Rightarrow> Inr [])"

definition describe_traffic :: "string \<Rightarrow> string \<Rightarrow> string \<Rightarrow> string list" where
  "describe_traffic service region project =
     [''gcloud'', ''run'', ''services'', ''describe'', service] @ region_args region project @ [''--format=json(status.traffic)'']"

text \<open>\<open>_traffic\<close>\<close>

definition snapshot :: "pyval \<Rightarrow> int dict result" where
  "snapshot v =
     then_result (traffic_rows v) (\<lambda>rows.
     then_result (live_rows [] rows) (\<lambda>traffic.
     if sum_list (map snd traffic) \<noteq> 100 then Inl (RuntimeError ''production traffic snapshot is not complete'')
     else Inr traffic))"

definition traffic_now :: "'w outside \<Rightarrow> string \<Rightarrow> string \<Rightarrow> string \<Rightarrow> ('w engine, int dict) op" where
  "traffic_now C service region project =
     db_bind (run_json C (describe_traffic service region project)) (\<lambda>v. reading (\<lambda>_. snapshot v))"

text \<open>\<open>==\<close> of two dictionaries.\<close>

definition same_dict :: "int dict \<Rightarrow> int dict \<Rightarrow> bool" where
  "same_dict a b = (length a = length b \<and> list_all (\<lambda>(k, n). map_of b k = Some n) a)"

text \<open>\<open>_set_traffic\<close>\<close>

definition traffic_text :: "int dict \<Rightarrow> string" where
  "traffic_text traffic = join '','' (map (\<lambda>(revision, n). revision @ ''='' @ int_text n) (sort_key fst traffic))"

definition update_traffic :: "string \<Rightarrow> string \<Rightarrow> string \<Rightarrow> string \<Rightarrow> string list" where
  "update_traffic service shares region project =
     [''gcloud'', ''run'', ''services'', ''update-traffic'', service, ''--to-revisions'', shares] @ region_args region project @ [''--quiet'']"

definition set_traffic :: "'w outside \<Rightarrow> string \<Rightarrow> string \<Rightarrow> string \<Rightarrow> int dict \<Rightarrow> ('w engine, unit) op" where
  "set_traffic C service region project traffic =
     db_bind (run_command C (update_traffic service (traffic_text traffic) region project)) (\<lambda>_. db_return ())"

definition service_url :: "'w outside \<Rightarrow> string \<Rightarrow> string \<Rightarrow> string \<Rightarrow> ('w engine, string) op" where
  "service_url C service region project =
     run_command C ([''gcloud'', ''run'', ''services'', ''describe'', service] @ region_args region project @ [''--format=value(status.url)''])"

text \<open>\<open>max(traffic, key=traffic.get)\<close>: the first revision with the largest share\<close>

fun busiest :: "int dict \<Rightarrow> string result" where
  "busiest [] = Inl (ValueError ''max() iterable argument is empty'')"
| "busiest [(k, n)] = Inr k"
| "busiest ((k, n) # (j, m) # rest) = busiest (if n < m then (j, m) # rest else (k, n) # rest)"

section \<open>Addresses\<close>

definition upto_char :: "char \<Rightarrow> string \<Rightarrow> string" where
  "upto_char c s = takeWhile (\<lambda>x. x \<noteq> c) s"

definition after_char :: "char \<Rightarrow> string \<Rightarrow> string" where
  "after_char c s = drop 1 (dropWhile (\<lambda>x. x \<noteq> c) s)"

record url_parts =
  up_scheme :: string
  up_netloc :: string
  up_user :: string
  up_password :: string
  up_host :: string
  up_port :: string
  up_path :: string
  up_query :: string
  up_fragment :: string

definition is_alpha :: "char \<Rightarrow> bool" where
  "is_alpha c = (let n = (of_char (char_lower c) :: nat) in 97 \<le> n \<and> n \<le> 122)"

definition scheme_char :: "char \<Rightarrow> bool" where
  "scheme_char c = (is_alpha c \<or> is_digit c \<or> c \<in> set ''+-.'')"

text \<open>\<open>urllib.parse.urlsplit\<close>; brackets, which only occur in IP literals, are rejected like unbalanced ones.\<close>

definition urlsplit :: "string \<Rightarrow> url_parts result" where
  "urlsplit url =
     (let s = filter (\<lambda>c. c \<notin> {CHR 0x09, CHR 0x0A, CHR 0x0D}) (dropWhile (\<lambda>c. of_char c \<le> (32 :: nat)) url);
          front = upto_char (CHR '':'') s;
          has_scheme = (front \<noteq> s \<and> front \<noteq> [] \<and> is_alpha (hd front) \<and> list_all scheme_char front);
          rest = (if has_scheme then after_char (CHR '':'') s else s);
          netloc = (if starts_with ''//'' rest then takeWhile (\<lambda>c. c \<notin> set ''/?#'') (drop 2 rest) else []);
          tail = (if starts_with ''//'' rest then dropWhile (\<lambda>c. c \<notin> set ''/?#'') (drop 2 rest) else rest);
          prior = upto_char (CHR ''#'') tail;
          info = rev (upto_char (CHR ''@'') (rev netloc));
          user = (if CHR ''@'' \<in> set netloc then take (length netloc - length info - 1) netloc else []) in
      if CHR ''['' \<in> set netloc \<or> CHR '']'' \<in> set netloc then Inl (ValueError ''Invalid IPv6 URL'')
      else Inr
        \<lparr>up_scheme = (if has_scheme then str_lower front else []), up_netloc = netloc, up_user = upto_char (CHR '':'') user,
         up_password = after_char (CHR '':'') user, up_host = str_lower (upto_char (CHR '':'') info),
         up_port = after_char (CHR '':'') info, up_path = upto_char (CHR ''?'') prior,
         up_query = after_char (CHR ''?'') prior, up_fragment = after_char (CHR ''#'') tail\<rparr>)"

definition url_port :: "url_parts \<Rightarrow> int option result" where
  "url_port u =
     (if up_port u = [] then Inr None
      else if \<not> list_all is_digit (up_port u) then Inl (ValueError ''Port could not be cast to integer value'')
      else
        (case digits_value False 0 (up_port u) of
           Some n \<Rightarrow> if n \<le> 65535 then Inr (Some n) else Inl (ValueError ''Port out of range 0-65535'')
         | None \<Rightarrow> Inl (ValueError ''Port could not be cast to integer value'')))"

text \<open>\<open>_cloud_run_url\<close>\<close>

definition cloud_run_url :: "string \<Rightarrow> unit result" where
  "cloud_run_url url =
     (let bad = Inl (RuntimeError ''candidate URL is not the assigned Cloud Run endpoint'') in
      then_result (urlsplit url) (\<lambda>u.
      if up_scheme u \<noteq> ''https'' \<or> up_host u = [] \<or> \<not> ends_with ''.run.app'' (up_host u) \<or> up_user u \<noteq> [] \<or> up_password u \<noteq> []
      then bad
      else
        then_result (url_port u) (\<lambda>port.
        if port \<notin> {None, Some 0} \<or> up_query u \<noteq> [] \<or> up_fragment u \<noteq> [] \<or> up_path u \<notin> {'''', ''/''} then bad else Inr ())))"

end
