(* ===== verification/ExecutorToken.thy ===== *)
theory ExecutorToken
  imports ExecutorEngine
begin

text \<open>
  The identity token a release presents to a private runtime: \<open>runtime_identity_token\<close> and its helpers in
  \<open>docker/release-executor/release_executor.py\<close>.
\<close>

section \<open>Answers with credentials\<close>

text \<open>\<open>_token_json\<close>: no redirect is followed, and no body of an answer is exposed.\<close>

definition token_json :: "'w outside \<Rightarrow> string \<Rightarrow> request \<Rightarrow> ('w engine, doc) op" where
  "token_json C stage q =
     (let unavailable = RuntimeError (''runtime token '' @ stage @ '' unavailable'') in
      db_bind (db_catch (outside_op (cl_open C False q)) (\<lambda>_. db_raise unavailable)) (\<lambda>(status, raw).
      if \<not> success status then db_raise (RuntimeError (''runtime token '' @ stage @ '' HTTP '' @ int_text status))
      else if 65536 < length raw then db_raise unavailable
      else (case json_loads False raw of Inr (PDict d) \<Rightarrow> db_return d | _ \<Rightarrow> db_raise unavailable)))"

definition token_value :: "doc \<Rightarrow> string \<Rightarrow> string result" where
  "token_value payload key =
     (case dget payload key of
        PStr t \<Rightarrow> if t = '''' \<or> list_ex is_space t then Inl (RuntimeError ''runtime token response is invalid'') else Inr t
      | _ \<Rightarrow> Inl (RuntimeError ''runtime token response is invalid''))"

section \<open>Patterns\<close>

text \<open>What is left after a fixed text, and after one or more characters of a class.\<close>

definition take_text :: "string \<Rightarrow> string \<Rightarrow> string option" where
  "take_text p s = (if starts_with p s then Some (drop (length p) s) else None)"

definition take_run :: "(char \<Rightarrow> bool) \<Rightarrow> string \<Rightarrow> string option" where
  "take_run inside s = (if s \<noteq> [] \<and> inside (hd s) then Some (dropWhile inside s) else None)"

definition chain :: "(string \<Rightarrow> string option) list \<Rightarrow> string \<Rightarrow> bool" where
  "chain steps s = (foldl (\<lambda>r step. Option.bind r step) (Some s) steps = Some [])"

definition alnum_char :: "char \<Rightarrow> bool" where
  "alnum_char c = (is_alpha c \<or> is_digit c)"

definition host_char :: "char \<Rightarrow> bool" where
  "host_char c = (is_lower c \<or> is_digit c \<or> c = CHR ''.'' \<or> c = CHR ''-'')"

definition canonical_audience :: "string \<Rightarrow> bool" where
  "canonical_audience audience =
     (case take_text ''https://'' audience of
        None \<Rightarrow> False
      | Some host \<Rightarrow>
          8 < length host \<and> ends_with ''.run.app'' host \<and> list_all host_char host \<and> hd host \<noteq> CHR ''.'' \<and> hd host \<noteq> CHR ''-'' \<and>
          \<not> contains ''---'' audience)"

definition account_suffix :: string where
  "account_suffix = ''.iam.gserviceaccount.com:generateAccessToken''"

definition iam_prefix :: string where
  "iam_prefix = ''https://iamcredentials.googleapis.com/v1/projects/-/serviceAccounts/''"

definition impersonation_url :: "string \<Rightarrow> bool" where
  "impersonation_url target =
     (case Option.bind (take_text iam_prefix target)
             (take_run (\<lambda>c. alnum_char c \<or> c \<in> set ''._-'')) of
        None \<Rightarrow> False
      | Some rest \<Rightarrow>
          (case take_text ''@'' rest of
             None \<Rightarrow> False
           | Some domain \<Rightarrow>
               length account_suffix < length domain \<and> ends_with account_suffix domain \<and>
               list_all host_char (take (length domain - length account_suffix) domain)))"

definition workload_pool :: "string \<Rightarrow> bool" where
  "workload_pool =
     (let name = take_run (\<lambda>c. alnum_char c \<or> c = CHR ''_'' \<or> c = CHR ''-'') in
      chain
        [take_text ''//iam.googleapis.com/projects/'', take_run is_digit, take_text ''/locations/global/workloadIdentityPools/'',
         name, take_text ''/providers/'', name])"

section \<open>The credential configuration\<close>

record wif =
  wf_source :: string
  wf_authorization :: string
  wf_audience :: string
  wf_target :: string

definition sts_url :: string where
  "sts_url = ''https://sts.googleapis.com/v1/token''"

definition jwt_type :: string where
  "jwt_type = ''urn:ietf:params:oauth:token-type:jwt''"

text \<open>The credential source pinned by the GitHub authentication action.\<close>

definition source_of :: "doc \<Rightarrow> (string \<times> string) option" where
  "source_of config =
     (case dget config ''credential_source'' of
        PDict source \<Rightarrow>
          (case (dget source ''url'', dget source ''headers'') of
             (PStr url, PDict [(key, PStr authorization)]) \<Rightarrow>
               (case urlsplit url of
                  Inr u \<Rightarrow>
                    if up_scheme u = ''https'' \<and> ends_with ''.actions.githubusercontent.com'' (up_host u) \<and>
                       CHR ''@'' \<notin> set (up_netloc u) \<and> url_port u = Inr None \<and> up_fragment u = '''' \<and>
                       py_eq (dget source ''format'')
                         (PDict [(''type'', PStr ''json''), (''subject_token_field_name'', PStr ''value'')]) \<and>
                       key = ''Authorization'' \<and> chain [take_text ''Bearer '', take_run (\<lambda>c. \<not> is_space c)] authorization
                    then Some (url, authorization) else None
                | Inl _ \<Rightarrow> None)
           | _ \<Rightarrow> None)
      | _ \<Rightarrow> None)"

definition wif_of :: "doc \<Rightarrow> wif option" where
  "wif_of config =
     (case (dget config ''service_account_impersonation_url'', dget config ''audience'', source_of config) of
        (PStr target, PStr audience, Some (url, authorization)) \<Rightarrow>
          if impersonation_url target \<and> is_str config ''token_url'' sts_url \<and>
             is_str config ''subject_token_type'' jwt_type \<and> workload_pool audience
          then Some \<lparr>wf_source = url, wf_authorization = authorization, wf_audience = audience, wf_target = target\<rparr> else None
      | _ \<Rightarrow> None)"

section \<open>The exchange\<close>

definition print_token :: "'w outside \<Rightarrow> string \<Rightarrow> ('w engine, string) op" where
  "print_token C audience = run_command C [''gcloud'', ''auth'', ''print-identity-token'', ''--audiences='' @ audience]"

definition source_request :: "wif \<Rightarrow> request" where
  "source_request f =
     \<lparr>rq_url = wf_source f, rq_headers = [(''Authorization'', wf_authorization f)], rq_body = None\<rparr>"

definition exchange_request :: "wif \<Rightarrow> string \<Rightarrow> request" where
  "exchange_request f subject =
     \<lparr>rq_url = sts_url, rq_headers = [(''Content-Type'', ''application/x-www-form-urlencoded'')],
      rq_body = Some (FormBody
        [(''audience'', wf_audience f), (''grant_type'', ''urn:ietf:params:oauth:grant-type:token-exchange''),
         (''requested_token_type'', ''urn:ietf:params:oauth:token-type:access_token''),
         (''scope'', ''https://www.googleapis.com/auth/cloud-platform''), (''subject_token_type'', jwt_type),
         (''subject_token'', subject)])\<rparr>"

definition mint_request :: "wif \<Rightarrow> string \<Rightarrow> string \<Rightarrow> request" where
  "mint_request f audience federated =
     \<lparr>rq_url = remove_suffix '':generateAccessToken'' (wf_target f) @ '':generateIdToken'',
      rq_headers = bearer_header federated @ [(''Content-Type'', ''application/json'')],
      rq_body = Some (JsonBody (PDict [(''audience'', PStr audience), (''includeEmail'', PBool True)]))\<rparr>"

definition exchange_token :: "'w outside \<Rightarrow> string \<Rightarrow> wif \<Rightarrow> ('w engine, string) op" where
  "exchange_token C audience f =
     db_bind (token_json C ''source'' (source_request f)) (\<lambda>d1.
     db_bind (reading (\<lambda>_. token_value d1 ''value'')) (\<lambda>subject.
     db_bind (token_json C ''STS'' (exchange_request f subject)) (\<lambda>d2.
     db_bind (reading (\<lambda>_. token_value d2 ''access_token'')) (\<lambda>federated.
     db_bind (token_json C ''IAM'' (mint_request f audience federated)) (\<lambda>d3.
     reading (\<lambda>_. token_value d3 ''token''))))))"

definition identity_token :: "'w outside \<Rightarrow> string \<Rightarrow> ('w engine, string) op" where
  "identity_token C audience =
     (let invalid = RuntimeError ''runtime WIF credential configuration is invalid'' in
      db_bind (check (canonical_audience audience) ''runtime token requires the canonical Cloud Run audience'') (\<lambda>_.
      db_bind (getenv ''CLOUDSDK_AUTH_CREDENTIAL_FILE_OVERRIDE'') (\<lambda>override.
      db_bind (getenv ''GOOGLE_APPLICATION_CREDENTIALS'') (\<lambda>fallback.
      let path = (if override \<noteq> '''' then override else fallback) in
      if path = '''' then print_token C audience
      else
        (case cl_read C path of
           None \<Rightarrow> db_raise invalid
         | Some raw \<Rightarrow>
             if 65536 < length raw then db_raise invalid
             else
               (case json_loads False raw of
                  Inr (PDict config) \<Rightarrow>
                    if \<not> is_str config ''type'' ''external_account'' then db_catch (print_token C audience) (\<lambda>_. db_raise invalid)
                    else (case wif_of config of None \<Rightarrow> db_raise invalid | Some f \<Rightarrow> exchange_token C audience f)
                | _ \<Rightarrow> db_raise invalid))))))"

end
