(* ===== verification/ExecutorRuntime.thy ===== *)
theory ExecutorRuntime
  imports ExecutorToken
begin

text \<open>
  What the releases of \<open>docker/release-executor/release_executor.py\<close> are made of: the checks of the profile, the source, the
  quality evidence and the image, the hooks, the candidate with its environment, its smoke test and readiness, and the grants
  of the independent runtimes.
\<close>

section \<open>Paths\<close>

definition root_path :: string where
  "root_path = ''/workspace''"

definition hooks_root :: string where
  "hooks_root = root_path @ ''/scripts/eng-platform-release-hooks''"

definition join_path :: "string \<Rightarrow> string \<Rightarrow> string" where
  "join_path a b = (if starts_with ''/'' b then b else a @ ''/'' @ b)"

definition parent_path :: "string \<Rightarrow> string" where
  "parent_path p = rev (after_char (CHR ''/'') (rev p))"

definition inside_root :: "string \<Rightarrow> bool" where
  "inside_root p = (p = root_path \<or> starts_with (root_path @ ''/'') p)"

text \<open>\<open>s.rsplit(c, 1)[0]\<close> and \<open>[1]\<close>\<close>

definition before_last :: "char \<Rightarrow> string \<Rightarrow> string" where
  "before_last c s = (if c \<in> set s then rev (after_char c (rev s)) else s)"

section \<open>The profile\<close>

text \<open>\<open>PROFILE_SPECS[env("CGM_PROFILE")]\<close>\<close>

definition profile_spec :: "('w engine, doc) op" where
  "profile_spec = db_bind (env ''CGM_PROFILE'') (\<lambda>name. reading (\<lambda>_. (case map_of profile_specs name of None \<Rightarrow> Inl (KeyError name) | Some spec \<Rightarrow> Inr spec)))"

definition texts_of :: "pyval \<Rightarrow> string list" where
  "texts_of v = map py_str (as_list v)"

definition pairs_of :: "pyval \<Rightarrow> (string \<times> string) list" where
  "pairs_of v = map (\<lambda>row. case texts_of row of [a, b] \<Rightarrow> (a, b) | _ \<Rightarrow> ('''', '''')) (as_list v)"

definition hooks_of :: "string \<Rightarrow> doc \<Rightarrow> string list" where
  "hooks_of phase spec = texts_of (dget spec phase)"

definition verify_profile :: "('w engine, unit) op" where
  "verify_profile =
     db_bind (env ''CGM_PROFILE'') (\<lambda>name.
     db_bind (check (has_key profile_specs name) ''unrecognized release profile'') (\<lambda>_.
     db_bind (reading (\<lambda>_. spec_fingerprint name)) (\<lambda>fp.
     db_bind (env ''CGM_PROFILE_SHA256'') (\<lambda>authorized.
     check (fp = authorized) ''authorized release profile does not match executor''))))"

section \<open>The source\<close>

definition plain_number :: "string \<Rightarrow> string option" where
  "plain_number s =
     (let ds = takeWhile is_digit s in
      if ds = [] then None
      else if hd ds = CHR ''0'' then Some (drop 1 s)
      else Some (dropWhile is_digit s))"

definition tag_char :: "char \<Rightarrow> bool" where
  "tag_char c = (alnum_char c \<or> c = CHR ''.'' \<or> c = CHR ''-'')"

definition optional_part :: "char \<Rightarrow> string \<Rightarrow> string option" where
  "optional_part mark s = (if s \<noteq> [] \<and> hd s = mark then take_run tag_char (tl s) else Some s)"

definition semantic_tag :: "string \<Rightarrow> bool" where
  "semantic_tag tag =
     chain
       [\<lambda>s. Some (remove_prefix ''v'' s), plain_number, take_text ''.'', plain_number, take_text ''.'', plain_number,
        optional_part (CHR ''-''), optional_part (CHR ''+'')] tag"

definition assert_source :: "'w outside \<Rightarrow> ('w engine, unit) op" where
  "assert_source C =
     db_bind (check (cl_exists C (root_path @ ''/.git'')) ''Cloud Build source must be a connected repository checkout'') (\<lambda>_.
     db_bind (run_command C [''git'', ''-c'', ''safe.directory='' @ root_path, ''rev-parse'', ''HEAD'']) (\<lambda>head.
     db_bind (env ''CGM_RELEASE_SHA'') (\<lambda>sha.
     db_bind (check (head = sha) ''connected repository checkout does not match authorized SHA'') (\<lambda>_.
     db_bind (env ''CGM_RELEASE_TAG'') (\<lambda>tag.
     check (semantic_tag tag) ''release tag is not semantic'')))))"

section \<open>Quality evidence\<close>

definition independent_runtime :: "('w engine, bool) op" where
  "independent_runtime =
     db_bind (env ''CGM_SERVICE'') (\<lambda>service.
     db_return (starts_with ''cgm-artemis-'' service \<and> service \<noteq> ''cgm-artemis-web''))"

text \<open>\<open>json.dumps\<close> with its default separators\<close>

fun json_text :: "pyval \<Rightarrow> string" where
  "json_text (PList xs) = ''['' @ join '', '' (map json_text xs) @ '']''"
| "json_text (PDict d) =
     ''{'' @ join '', '' (map (\<lambda>kv. json_str True (fst kv) @ '': '' @ json_text (snd kv)) d) @ ''}''"
| "json_text v = json_dumps True False v"

fun any_failed :: "pyval list \<Rightarrow> bool result" where
  "any_failed [] = Inr False"
| "any_failed (v # vs) =
     then_result (attr_dict v) (\<lambda>c. if is_str c ''status'' ''FAILED'' then Inr True else any_failed vs)"

definition evidence_checks :: "string list \<Rightarrow> string list result \<Rightarrow> string \<Rightarrow> pyval \<Rightarrow> unit result" where
  "evidence_checks owners repositories sha v =
     (let identity = Inl (RuntimeError ''quality evidence identity does not match release'');
          policy = Inl (RuntimeError ''release requires exact passed oss-v2 evidence'') in
      then_result (attr_dict v) (\<lambda>r.
      then_result (in_set (dget r ''service_name'') owners) (\<lambda>owned.
      if \<not> owned then identity
      else
        then_result repositories (\<lambda>names.
        then_result (in_set (dget r ''repository'') names) (\<lambda>placed.
        if \<not> placed \<or> \<not> is_str r ''commit_sha'' sha then identity
        else if \<not> is_str r ''policy_version'' ''oss-v2'' \<or> \<not> is_str r ''quality_gate_status'' ''PASSED'' \<or> \<not> flag r ''checks''
        then policy
        else
          then_result (items_of (dget r ''checks'')) (\<lambda>cs.
          then_result (any_failed cs) (\<lambda>failed. if failed then policy else Inr ())))))))"

definition open_json :: "'w outside \<Rightarrow> string \<Rightarrow> ('w engine, pyval) op" where
  "open_json C url =
     db_bind (http_open C \<lparr>rq_url = url, rq_headers = [], rq_body = None\<rparr>) (\<lambda>(status, raw).
     if \<not> success status then db_raise (OSError (''HTTP Error '' @ int_text status))
     else reading (\<lambda>_. json_loads False raw))"

definition evidence_object :: "string \<Rightarrow> string \<Rightarrow> string" where
  "evidence_object bucket deployment = ''gs://'' @ bucket @ ''/release-evidence/'' @ deployment @ ''.json''"

definition verify_quality :: "'w outside \<Rightarrow> ('w engine, unit) op" where
  "verify_quality C =
     db_bind (env ''CGM_PLATFORM_API_URL'') (\<lambda>url.
     db_bind (env ''CGM_SERVICE'') (\<lambda>service.
     db_bind (env ''CGM_RELEASE_SHA'') (\<lambda>sha.
     db_bind (open_json C (rstrip_slash url @ ''/api/quality/services/'' @ service @ ''/commits/'' @ sha @ ''?for_release=true'')) (\<lambda>report.
     db_bind (getenv ''CGM_QUALITY_EVIDENCE_SERVICES'') (\<lambda>owners.
     db_bind (getenv ''CGM_REPOSITORY_ALIASES'') (\<lambda>aliases.
     db_bind (reading (\<lambda>w.
       evidence_checks (service # filter (\<lambda>s. s \<noteq> '''') (split_char (CHR '','') owners))
         (map_result (\<lambda>repo. repo # split_char (CHR '','') aliases) (fst (env ''CGM_REPOSITORY'' w))) sha report)) (\<lambda>_.
     db_bind independent_runtime (\<lambda>independent.
     if \<not> independent then db_return ()
     else
       db_bind (env ''CGM_EVIDENCE_BUCKET'') (\<lambda>bucket.
       db_bind (env ''CGM_DEPLOYMENT_ID'') (\<lambda>deployment.
       db_bind (run_file C (Some (json_text report)) [''gcloud'', ''storage'', ''cp'', ''{file}'', evidence_object bucket deployment])
         (\<lambda>_. db_return ())))))))))))"

section \<open>The image\<close>

definition described_digest :: "'w outside \<Rightarrow> string \<Rightarrow> ('w engine, string) op" where
  "described_digest C img =
     run_command C [''gcloud'', ''artifacts'', ''docker'', ''images'', ''describe'', img, ''--format=value(image_summary.digest)'']"

text \<open>\<open>try: ... except CalledProcessError: default\<close>\<close>

definition unless_failed :: "('w, 'a) op \<Rightarrow> 'a \<Rightarrow> ('w, 'a) op" where
  "unless_failed m v = db_catch m (\<lambda>e. case e of CommandFailure _ \<Rightarrow> db_return v | _ \<Rightarrow> db_raise e)"

definition existing_image :: "'w outside \<Rightarrow> string \<Rightarrow> ('w engine, string) op" where
  "existing_image C img =
     db_bind (run_command C [''docker'', ''inspect'', ''--format'', ''{{json .Config.Labels}}'', img]) (\<lambda>labels.
     db_bind (reading (\<lambda>_. json_loads False (if labels = '''' then ''{}'' else labels))) (\<lambda>v.
     db_bind (env ''CGM_REPOSITORY'') (\<lambda>repo.
     db_bind (getenv ''CGM_REPOSITORY_ALIASES'') (\<lambda>aliases.
     db_bind (reading (\<lambda>_. attr_dict v)) (\<lambda>data.
     db_bind (env ''CGM_RELEASE_SHA'') (\<lambda>sha.
     db_bind (reading (\<lambda>_.
       if \<not> is_str data ''org.opencontainers.image.revision'' sha then Inr False
       else
         in_set (dget data ''org.opencontainers.image.source'')
           (repo # filter (\<lambda>s. s \<noteq> '''') (split_char (CHR '','') aliases)))) (\<lambda>ours.
     db_bind (check ours ''existing release image tag has conflicting provenance'') (\<lambda>_.
     db_bind (described_digest C img) (\<lambda>digest.
     db_bind (check (starts_with ''sha256:'' digest) ''existing release image has no immutable digest'') (\<lambda>_.
     db_return (before_last (CHR '':'') img @ ''@'' @ digest)))))))))))"

definition serving_image :: "'w outside \<Rightarrow> ('w engine, string) op" where
  "serving_image C =
     with_service (\<lambda>service region project.
       run_command C ([''gcloud'', ''run'', ''services'', ''describe'', service] @ region_args region project @
         [''--format=value(spec.template.spec.containers[0].image)'']))"

definition build_image :: "'w outside \<Rightarrow> string \<Rightarrow> ('w engine, string) op" where
  "build_image C img =
     db_bind (env ''CGM_BUILD_CONTEXT'') (\<lambda>directory.
     let source = cl_resolve C (join_path root_path directory) in
     db_bind (check (inside_root source) ''build context escapes repository'') (\<lambda>_.
     db_bind (getenv_or ''CGM_DOCKERFILE_PATH'' ''Dockerfile'') (\<lambda>file.
     let dockerfile = cl_resolve C (join_path root_path file) in
     db_bind (check (inside_root dockerfile \<and> cl_is_file C dockerfile) ''Dockerfile is absent or escapes repository'') (\<lambda>_.
     db_bind (env ''CGM_RELEASE_SHA'') (\<lambda>sha.
     db_bind (env ''CGM_REPOSITORY'') (\<lambda>repo.
     db_bind (env ''CGM_PROFILE'') (\<lambda>profile.
     db_bind (if profile \<in> {''eng-platform-web'', ''cgm-artemis-web''}
              then db_bind (env ''CGM_RELEASE_TAG'') (\<lambda>tag. db_return [''--build-arg'', ''APP_VERSION='' @ tag])
              else db_return []) (\<lambda>build_args.
     db_bind (getenv ''CGM_CACHE_IMAGE'') (\<lambda>given.
     db_bind (if strip given \<noteq> '''' then db_return (strip given) else unless_failed (serving_image C) '''') (\<lambda>cache.
     db_bind (if cache = '''' then db_return [] else db_bind (process C None [''docker'', ''pull'', cache]) (\<lambda>_. db_return [''--cache-from'', cache])) (\<lambda>cache_args.
     db_bind (run_command C
       ([''docker'', ''build'', ''--file'', dockerfile, ''--label'', ''org.opencontainers.image.revision='' @ sha, ''--label'',
         ''org.opencontainers.image.source='' @ repo, ''-t'', img] @ build_args @ cache_args @ [source])) (\<lambda>_.
     db_bind (run_command C [''docker'', ''push'', img]) (\<lambda>_.
     db_bind (described_digest C img) (\<lambda>digest.
     db_bind (check (starts_with ''sha256:'' digest) ''Artifact Registry did not return an immutable digest'') (\<lambda>_.
     db_return (upto_char (CHR '':'') img @ ''@'' @ digest))))))))))))))))"

definition image_for_tag :: "'w outside \<Rightarrow> ('w engine, string) op" where
  "image_for_tag C =
     db_bind (env ''CGM_IMAGE'') (\<lambda>img.
     db_bind (run_command C [''gcloud'', ''auth'', ''configure-docker'', upto_char (CHR ''/'') img, ''--quiet'']) (\<lambda>_.
     db_bind (unless_failed (db_bind (run_command C [''docker'', ''pull'', img]) (\<lambda>_. db_return True)) False) (\<lambda>exists.
     if exists then existing_image C img else build_image C img)))"

section \<open>Hooks\<close>

definition hook_path :: "'w outside \<Rightarrow> string \<Rightarrow> string" where
  "hook_path C name = cl_resolve C (hooks_root @ ''/'' @ name @ ''.sh'')"

definition hook_check :: "'w outside \<Rightarrow> string \<Rightarrow> ('w engine, unit) op" where
  "hook_check C name =
     check (parent_path (hook_path C name) = hooks_root \<and> cl_is_file C (hook_path C name))
       (''authorized hook is absent from exact commit: '' @ name)"

definition hook :: "'w outside \<Rightarrow> string \<Rightarrow> ('w engine, unit) op" where
  "hook C name =
     db_bind (hook_check C name) (\<lambda>_.
     db_bind (process C None [''bash'', hook_path C name]) (\<lambda>(code, out, err).
     if code = 0 then db_return ()
     else
       reading (\<lambda>w. Inl (RuntimeError
         (''hook '' @ name @ '' failed (exit '' @ int_text code @ ''): '' @
          sanitized_error (environ w) (failure_detail out err))))))"

definition all_hooks :: "doc \<Rightarrow> string list" where
  "all_hooks spec =
     filter (\<lambda>name. name \<noteq> '''' \<and> name \<noteq> ''verify_candidate_config'')
       (hooks_of ''pre_candidate_hooks'' spec @ hooks_of ''candidate_hooks'' spec @ hooks_of ''pre_promote_hooks'' spec @
        hooks_of ''post_promote_hooks'' spec @ [py_str (dget spec ''recovery_hook''), py_str (dget spec ''rollback_hook'')])"

definition verify_hooks :: "'w outside \<Rightarrow> ('w engine, unit) op" where
  "verify_hooks C = db_bind profile_spec (\<lambda>spec. for_each (hook_check C) (all_hooks spec))"

definition config_check :: "'w outside \<Rightarrow> ('w engine, unit) op" where
  "config_check C =
     db_bind (env ''CGM_PROJECT_ID'') (\<lambda>project.
     db_bind (env ''CGM_REGION'') (\<lambda>region.
     db_bind (env ''CGM_CANDIDATE_REVISION'') (\<lambda>revision.
     db_bind (run_command C
       [''python3'', ''src/eng_platform_api/verify_candidate_config.py'', ''--project'', project, ''--region'', region,
        ''--revision'', revision]) (\<lambda>_. db_return ()))))"

definition run_hooks :: "'w outside \<Rightarrow> string \<Rightarrow> ('w engine, unit) op" where
  "run_hooks C phase =
     db_bind profile_spec (\<lambda>spec.
     for_each (\<lambda>name. if name = ''verify_candidate_config'' then config_check C else hook C name) (hooks_of phase spec))"

end
