(* ===== verification/ExecutorCandidate.thy ===== *)
theory ExecutorCandidate
  imports ExecutorRuntime
begin

text \<open>
  The candidate revision of a release in \<open>docker/release-executor/release_executor.py\<close>: the variables it gets, its
  deployment without traffic, its smoke test and readiness, and the grants of the independent runtimes.
\<close>

section \<open>The variables of a candidate\<close>

definition worker_types :: "string dict" where
  "worker_types =
     [(''cgm-artemis-sync-worker'', ''sync''), (''cgm-artemis-clock-sync-worker'', ''clock-sync''),
      (''cgm-artemis-data-recovery-worker'', ''data-recovery''), (''cgm-artemis-fnd-ip-sync-worker'', ''fnd-ip-sync''),
      (''cgm-artemis-mcp-worker'', ''mcp-parameterization''), (''cgm-artemis-fnd-observation-worker'', ''fnd-observation''),
      (''cgm-artemis-readings-export-worker'', ''readings-export''),
      (''cgm-artemis-smarti-prevention-worker'', ''smarti-prevention''), (''cgm-artemis-wm-sweep-worker'', ''wm-sweep'')]"

definition allowed_routes :: "string dict" where
  "allowed_routes =
     [(''cgm-artemis-sync-worker'', ''ARTEMIS_SYNC_WORKER_URL''),
      (''cgm-artemis-clock-sync-worker'', ''ARTEMIS_CLOCK_SYNC_WORKER_URL''),
      (''cgm-artemis-data-recovery-worker'', ''ARTEMIS_DATA_RECOVERY_WORKER_URL''),
      (''cgm-artemis-fnd-ip-sync-worker'', ''ARTEMIS_FND_IP_SYNC_WORKER_URL'')]"

definition queue_names :: "string list" where
  "queue_names =
     [''ARTEMIS_SYNC_QUEUE'', ''ARTEMIS_CLOCK_SYNC_QUEUE'', ''ARTEMIS_DATA_RECOVERY_QUEUE'', ''ARTEMIS_FND_IP_SYNC_QUEUE'']"

text \<open>\<open>expected_host\<close>: the host Cloud Run assigns to a service of the region\<close>

definition expected_host :: "string \<Rightarrow> string \<Rightarrow> string \<Rightarrow> bool" where
  "expected_host target region host =
     (case take_text (target @ ''-'') host of
        None \<Rightarrow> False
      | Some rest \<Rightarrow>
          (list_all is_digit (take 12 rest) \<and> drop 12 rest = ''.'' @ region @ ''.a.run.app'') \<or>
          (list_all (\<lambda>c. is_lower c \<or> is_digit c) (take 10 rest) \<and> drop 10 rest = ''-uc.a.run.app''))"

definition worker_url :: "string \<Rightarrow> string \<Rightarrow> string \<Rightarrow> unit result" where
  "worker_url target region url =
     (let bad = Inl (RuntimeError ''Cloud Run returned an invalid Artemis worker URL'') in
      then_result (urlsplit url) (\<lambda>u.
      if up_scheme u \<noteq> ''https'' \<or> \<not> expected_host target region (up_host u) \<or> up_path u \<notin> {'''', ''/''} \<or>
         up_query u \<noteq> '''' \<or> up_fragment u \<noteq> '''' \<or> up_user u \<noteq> ''''
      then bad
      else then_result (url_port u) (\<lambda>port. if port \<noteq> None then bad else Inr ())))"

definition service_uri :: "string \<Rightarrow> string option" where
  "service_uri template =
     (case take_text ''{service_uri:'' template of
        None \<Rightarrow> None
      | Some rest \<Rightarrow> if ends_with ''}'' template then Some (butlast rest) else None)"

text \<open>The value of one row of the profile.\<close>

definition row_value :: "'w outside \<Rightarrow> string \<Rightarrow> string \<Rightarrow> string \<Rightarrow> ('w engine, string) op" where
  "row_value C profile name template =
     (if template = ''{sha}'' \<and> name = ''APP_RELEASE_SHA'' then env ''CGM_RELEASE_SHA''
      else if name = ''ARTEMIS_WORKER_TYPE''
      then
        db_bind (check (map_of worker_types profile = Some template) ''task worker type does not match release profile'')
          (\<lambda>_. db_return template)
      else if starts_with ''cgm-artemis-'' profile \<and>
              ((name = ''APP_RELEASE_SCOPE'' \<and> template = ''runtime-v1'') \<or>
               (name = ''APP_RELEASE_RESOURCE'' \<and> template = profile) \<or>
               (name = ''APP_RUNTIME_CHECK_ONLY'' \<and> template = ''true''))
      then db_return template
      else
        (case service_uri template of
           Some target \<Rightarrow>
             db_bind (check (profile = ''cgm-artemis-job-dispatcher'' \<and> map_of allowed_routes target = Some name)
               ''service URL is not allowed by dispatcher profile'') (\<lambda>_.
             with_place (\<lambda>region project.
             db_bind (service_url C target region project) (\<lambda>url.
             db_bind (reading (\<lambda>_. worker_url target region url)) (\<lambda>_.
             db_return url))))
         | None \<Rightarrow>
             if profile = ''cgm-artemis-api'' \<and> name = ''APP_BACKGROUND_TASKS_ENABLED'' \<and> template = ''false''
             then db_return template
             else if profile = ''cgm-artemis-job-dispatcher'' \<and>
               ((name = ''JOB_WORKER_PREFIX'' \<and> template = ''cgm-artemis'') \<or>
                (name = ''JOB_TASK_OIDC_SERVICE_ACCOUNT'' \<and>
                 template = ''artemis-tasks-invoker@cgm-assistant-prod.iam.gserviceaccount.com'') \<or>
                (name \<in> set queue_names \<and> starts_with ''cgm-artemis-'' template))
             then db_return template
             else db_raise (RuntimeError ''unsupported candidate environment template'')))"

definition candidate_env_args :: "'w outside \<Rightarrow> ('w engine, string list) op" where
  "candidate_env_args C =
     db_bind (env ''CGM_PROFILE'') (\<lambda>profile.
     db_bind profile_spec (\<lambda>spec.
     let rows = pairs_of (dget spec ''candidate_env_vars'') in
     if rows = [] then db_return []
     else
       db_bind (collect (\<lambda>(name, template). db_bind (row_value C profile name template) (\<lambda>v. db_return (name @ ''='' @ v))) rows) (\<lambda>vs.
       db_return [''--update-env-vars'', join '','' vs])))"

section \<open>Smoke test\<close>

definition private_headers :: "'w outside \<Rightarrow> ('w engine, string dict) op" where
  "private_headers C =
     db_bind (getenv ''CGM_PRIVATE_RUNTIME'') (\<lambda>private.
     if private \<noteq> ''true'' then db_return []
     else
       db_bind (with_service (service_url C)) (\<lambda>audience.
       db_bind (identity_token C audience) (\<lambda>token.
       db_return (bearer_header token))))"

text \<open>The first argument is the number of attempts that are left.\<close>

fun smoke_attempts :: "'w outside \<Rightarrow> request \<Rightarrow> nat \<Rightarrow> ('w engine, unit) op" where
  "smoke_attempts C q 0 = db_return ()"
| "smoke_attempts C q (Suc n) =
     db_bind
       (db_catch (db_bind (http_open C q) (\<lambda>(status, raw). db_return (success status))) (\<lambda>_. db_return False)) (\<lambda>passed.
     if passed then db_return ()
     else if n = 0 then db_raise (RuntimeError ''release smoke failed'')
     else
       db_bind (process C None [''sleep'', ''3'']) (\<lambda>(code, _, _).
       if code \<noteq> 0 then db_raise (CommandFailure (''Command '' @ py_repr (texts [''sleep'', ''3'']) @ '' returned non-zero exit status '' @ int_text code @ ''.''))
       else smoke_attempts C q n))"

definition smoke :: "'w outside \<Rightarrow> string \<Rightarrow> ('w engine, unit) op" where
  "smoke C url =
     db_bind (env ''CGM_HEALTH_PATH'') (\<lambda>path.
     db_bind (private_headers C) (\<lambda>headers.
     smoke_attempts C
       \<lparr>rq_url = rstrip_slash url @ ''/'' @ lstrip_slash path, rq_headers = headers, rq_body = None\<rparr> 5))"

section \<open>The candidate\<close>

fun tagged_url :: "string \<Rightarrow> pyval list \<Rightarrow> pyval result" where
  "tagged_url tag [] = Inr (PStr '''')"
| "tagged_url tag (v # vs) =
     then_result (attr_dict v) (\<lambda>row.
     if is_str row ''tag'' tag then Inr (dget_or row ''url'' (PStr '''')) else tagged_url tag vs)"

definition text_value :: "pyval \<Rightarrow> string result" where
  "text_value v = (case v of PStr s \<Rightarrow> Inr s | _ \<Rightarrow> Inl (AttributeError ''rstrip''))"

definition created_revision :: "'w outside \<Rightarrow> string \<Rightarrow> string \<Rightarrow> string \<Rightarrow> ('w engine, string) op" where
  "created_revision C service region project =
     run_command C ([''gcloud'', ''run'', ''services'', ''describe'', service] @ region_args region project @
       [''--format=value(status.latestCreatedRevisionName)''])"

definition candidate_update :: "string \<Rightarrow> string \<Rightarrow> string \<Rightarrow> string list \<Rightarrow> string \<Rightarrow> string \<Rightarrow> string \<Rightarrow> string list" where
  "candidate_update service img sha args region project fp =
     [''gcloud'', ''run'', ''services'', ''update'', service, ''--image'', img, ''--update-labels'', ''commit-sha='' @ sha] @ args @
     region_args region project @ [''--no-traffic'', ''--revision-suffix'', ''ep-'' @ take 10 fp, ''--quiet'']"

definition tag_update :: "string \<Rightarrow> string \<Rightarrow> string \<Rightarrow> string \<Rightarrow> string list" where
  "tag_update service tags region project =
     [''gcloud'', ''run'', ''services'', ''update-traffic'', service, ''--update-tags'', tags] @ region_args region project @ [''--quiet'']"

definition traffic_list :: "pyval \<Rightarrow> pyval list result" where
  "traffic_list v =
     then_result (attr_dict v) (\<lambda>d.
     then_result (inner_doc [''status''] d) (\<lambda>s. items_of (dget_or s ''traffic'' (PList []))))"

definition deploy_candidate :: "'w outside \<Rightarrow> string \<Rightarrow> string \<Rightarrow> string \<Rightarrow> string \<Rightarrow> ('w engine, string \<times> string) op" where
  "deploy_candidate C img service region project =
     db_bind (emit C ''deploy-candidate'' ''running'' []) (\<lambda>_.
     db_bind (env ''CGM_REQUEST_FINGERPRINT'') (\<lambda>fp.
     db_bind (env ''CGM_RELEASE_SHA'') (\<lambda>sha.
     db_bind (candidate_env_args C) (\<lambda>args.
     db_bind (run_command C (candidate_update service img sha args region project fp)) (\<lambda>_.
     db_bind (created_revision C service region project) (\<lambda>candidate.
     let tag = ''c-'' @ take 12 fp in
     db_bind (run_command C (tag_update service (tag @ ''='' @ candidate) region project)) (\<lambda>_.
     db_bind (run_json C (describe_traffic service region project)) (\<lambda>v.
     db_bind (reading (\<lambda>_. then_result (traffic_list v) (tagged_url tag))) (\<lambda>found.
     db_bind (check (truthy found) ''candidate URL was not created'') (\<lambda>_.
     db_bind (reading (\<lambda>_. text_value found)) (\<lambda>url.
     db_bind (emit C ''deploy-candidate'' ''succeeded'' [(''candidate_revision'', candidate), (''candidate_url'', url), (''image_digest'', img)]) (\<lambda>_.
     db_return (candidate, url)))))))))))))"

section \<open>Grants and readiness of independent runtimes\<close>

definition grant_command :: "string \<Rightarrow> string \<Rightarrow> string \<Rightarrow> string \<Rightarrow> string \<Rightarrow> string \<Rightarrow> string \<Rightarrow> string list" where
  "grant_command action sha service region project deployment bucket =
     [''gcloud'', ''run'', ''jobs'', ''execute'', ''cgm-artemis-corporate-activate''] @ region_args region project @
     [''--args='' @ join '',''
        [''-m'', ''cgm_sanplat_param.security.runtime_rollout'', action, ''--resource'', service, ''--sha'', sha, ''--event-id'',
         deployment @ '':'' @ action @ '':'' @ sha, ''--evidence'', evidence_object bucket deployment],
      ''--wait'', ''--quiet'']"

definition runtime_grant :: "'w outside \<Rightarrow> string \<Rightarrow> string \<Rightarrow> ('w engine, unit) op" where
  "runtime_grant C action sha =
     db_bind (check (hex_string 40 sha) ''runtime grant requires an exact commit'') (\<lambda>_.
     db_bind (env ''CGM_DEPLOYMENT_ID'') (\<lambda>deployment.
     db_bind (env ''CGM_EVIDENCE_BUCKET'') (\<lambda>bucket.
     with_place (\<lambda>region project.
     db_bind (env ''CGM_SERVICE'') (\<lambda>service.
     db_bind (run_command C (grant_command action sha service region project deployment bucket)) (\<lambda>_. db_return ()))))))"

text \<open>A commit read from a configuration, which must be a text.\<close>

definition grant_value :: "'w outside \<Rightarrow> string \<Rightarrow> pyval \<Rightarrow> ('w engine, unit) op" where
  "grant_value C action v =
     (case v of PStr sha \<Rightarrow> runtime_grant C action sha | _ \<Rightarrow> db_raise (TypeError ''expected string or bytes-like object''))"

text \<open>\<open>{item["name"]: item.get("value", "") for item in ...}\<close>; a key that is no text is one that nothing looks up.\<close>

fun variables :: "doc \<Rightarrow> pyval list \<Rightarrow> doc result" where
  "variables acc [] = Inr acc"
| "variables acc (v # vs) =
     (case v of
        PDict item \<Rightarrow>
          then_result (need item ''name'') (\<lambda>name.
          case name of
            PStr k \<Rightarrow> variables (dict_set k (dget_or item ''value'' (PStr '''')) acc) vs
          | PList _ \<Rightarrow> Inl (TypeError ''unhashable type'')
          | PDict _ \<Rightarrow> Inl (TypeError ''unhashable type'')
          | _ \<Rightarrow> variables acc vs)
      | _ \<Rightarrow> Inl (TypeError ''indices must be integers''))"

text \<open>\<open>v[k]\<close> and \<open>v[0]\<close>\<close>

definition field :: "string \<Rightarrow> pyval \<Rightarrow> pyval result" where
  "field k v = (case v of PDict d \<Rightarrow> need d k | _ \<Rightarrow> Inl (TypeError ''indices must be integers''))"

definition first_item :: "pyval \<Rightarrow> pyval result" where
  "first_item v =
     (case v of
        PList (x # _) \<Rightarrow> Inr x
      | PList [] \<Rightarrow> Inl (IndexError ''list index out of range'')
      | PStr (c # _) \<Rightarrow> Inr (PStr [c])
      | PStr [] \<Rightarrow> Inl (IndexError ''string index out of range'')
      | PDict _ \<Rightarrow> Inl (KeyError ''0'')
      | _ \<Rightarrow> Inl (TypeError ''object is not subscriptable''))"

fun path_to :: "string list \<Rightarrow> pyval \<Rightarrow> pyval result" where
  "path_to [] v = Inr v"
| "path_to (k # ks) v = then_result (field k v) (path_to ks)"

definition container_env :: "pyval \<Rightarrow> doc result" where
  "container_env containers =
     then_result (first_item containers) (\<lambda>c.
     then_result (attr_dict c) (\<lambda>d.
     then_result (items_of (dget_or d ''env'' (PList []))) (variables [])))"

definition describe_revision :: "string \<Rightarrow> string \<Rightarrow> string \<Rightarrow> string list" where
  "describe_revision revision region project =
     [''gcloud'', ''run'', ''revisions'', ''describe'', revision] @ region_args region project @ [''--format=json'']"

definition revision_runtime :: "'w outside \<Rightarrow> string \<Rightarrow> ('w engine, doc) op" where
  "revision_runtime C revision =
     with_place (\<lambda>region project.
     db_bind (run_json C (describe_revision revision region project)) (\<lambda>v.
     reading (\<lambda>_. then_result (path_to [''spec'', ''containers''] v) container_env)))"

definition readiness :: "string \<Rightarrow> string \<Rightarrow> bool \<Rightarrow> pyval \<Rightarrow> unit result" where
  "readiness service sha candidate v =
     then_result (attr_dict v) (\<lambda>outer.
     then_result (attr_dict (dget_or outer ''detail'' v)) (\<lambda>d.
     if \<not> is_str d ''resource'' service \<or> \<not> is_str d ''release_sha'' sha \<or> \<not> is_str d ''scope'' ''runtime-v1''
     then Inl (RuntimeError ''runtime readiness identity or activation protocol mismatch'')
     else if is_str d ''status'' ''ready'' \<and> is_str d ''reason'' ''active'' then Inr ()
     else if candidate \<and> is_str d ''reason'' ''release_not_activated'' then Inr ()
     else
       Inl (RuntimeError (''runtime readiness blocked: '' @ py_str (dget_or d ''reason'' (PStr ''invalid_response''))))))"

definition ready_once :: "'w outside \<Rightarrow> string \<Rightarrow> bool \<Rightarrow> string \<Rightarrow> ('w engine, unit) op" where
  "ready_once C url candidate sha =
     db_bind (if sha \<noteq> '''' then db_return sha else env ''CGM_RELEASE_SHA'') (\<lambda>expected.
     db_bind (private_headers C) (\<lambda>headers.
     db_bind (http_open C \<lparr>rq_url = rstrip_slash url @ ''/ready'', rq_headers = headers, rq_body = None\<rparr>) (\<lambda>(status, raw).
     if \<not> success status \<and> (status \<noteq> 503 \<or> \<not> candidate)
     then db_raise (RuntimeError (''runtime readiness HTTP '' @ int_text status))
     else
       db_bind (reading (\<lambda>_. json_loads False raw)) (\<lambda>v.
       db_bind (env ''CGM_SERVICE'') (\<lambda>service.
       reading (\<lambda>_. readiness service expected candidate v))))))"

definition runtime_error :: "py_err \<Rightarrow> bool" where
  "runtime_error e = (case e of RuntimeError _ \<Rightarrow> True | AutomaticRollback _ \<Rightarrow> True | _ \<Rightarrow> False)"

fun ready_attempts :: "'w outside \<Rightarrow> string \<Rightarrow> bool \<Rightarrow> string \<Rightarrow> nat \<Rightarrow> ('w engine, unit) op" where
  "ready_attempts C url candidate sha 0 = db_return ()"
| "ready_attempts C url candidate sha (Suc n) =
     db_catch (ready_once C url candidate sha) (\<lambda>e.
     if \<not> runtime_error e \<or> candidate \<or> n = 0 then db_raise e else ready_attempts C url candidate sha n)"

definition runtime_ready :: "'w outside \<Rightarrow> string \<Rightarrow> bool \<Rightarrow> string \<Rightarrow> ('w engine, unit) op" where
  "runtime_ready C url candidate sha = ready_attempts C url candidate sha 6"

definition verify_artemis_web :: "'w outside \<Rightarrow> ('w engine, unit) op" where
  "verify_artemis_web C =
     db_bind (env ''CGM_SERVICE'') (\<lambda>service.
     if service \<noteq> ''cgm-artemis-api'' then db_return ()
     else
       db_bind (env ''CGM_PAIRED_WEB_SHA'') (\<lambda>expected.
       with_place (\<lambda>region project.
       db_bind (traffic_now C ''cgm-artemis-web'' region project) (\<lambda>traffic.
       for_each (\<lambda>(revision, percent).
         db_bind (run_command C ([''gcloud'', ''run'', ''revisions'', ''describe'', revision] @ region_args region project @
           [''--format=value(metadata.labels.commit-sha)''])) (\<lambda>sha.
         check (sha = expected) ''API paired web commit does not match serving revision'')) traffic))))"

end
