(* ===== verification/ExecutorReleases.thy ===== *)
theory ExecutorReleases
  imports ExecutorCandidate
begin

text \<open>
  The releases of services in \<open>docker/release-executor/release_executor.py\<close>: \<open>deploy\<close>, \<open>deploy_runtime\<close>, \<open>rollback\<close> and
  \<open>rollback_runtime\<close>.  The local flags that a handler reads are fields of the executor's state.
\<close>

section \<open>Shared steps\<close>

definition no_flags :: flags where
  "no_flags = \<lparr>granted = False, promoted = False, started = False, resume_safe = False\<rparr>"

definition mark :: "(flags \<Rightarrow> flags) \<Rightarrow> ('w engine, unit) op" where
  "mark f w = (Inr (), w\<lparr>flags := f (flags w)\<rparr>)"

definition flagged :: "(flags \<Rightarrow> bool) \<Rightarrow> ('w engine, bool) op" where
  "flagged f = reading (\<lambda>w. Inr (f (flags w)))"

definition only_if :: "bool \<Rightarrow> ('w, unit) op \<Rightarrow> ('w, unit) op" where
  "only_if b m = (if b then m else db_return ())"

definition traffic_value :: "int dict \<Rightarrow> pyval" where
  "traffic_value traffic = PDict (map (\<lambda>(revision, n). (revision, PInt n)) traffic)"

definition released :: "string \<Rightarrow> string \<Rightarrow> string \<Rightarrow> string \<Rightarrow> string dict" where
  "released candidate url production img =
     [(''candidate_revision'', candidate), (''candidate_url'', url), (''production_revision'', candidate),
      (''production_url'', production), (''image_digest'', img)]"

definition emit_rollback :: "'w outside \<Rightarrow> int dict \<Rightarrow> ('w engine, unit) op" where
  "emit_rollback C traffic =
     db_bind (reading (\<lambda>_. busiest traffic)) (\<lambda>revision.
     emit C ''rollback'' ''succeeded'' [(''production_revision'', revision)])"

section \<open>Independent runtimes\<close>

definition is_runtime :: "doc \<Rightarrow> bool" where
  "is_runtime row = is_str row ''APP_RELEASE_SCOPE'' ''runtime-v1''"

text \<open>\<open>runtime_grant("retire", old_sha)\<close> for the configurations of other commits\<close>

definition retire :: "'w outside \<Rightarrow> doc \<Rightarrow> ('w engine, unit) op" where
  "retire C row =
     (let old = dget_or row ''APP_RELEASE_SHA'' (PStr '''') in
      if \<not> is_runtime row then db_return ()
      else
        db_bind (env ''CGM_RELEASE_SHA'') (\<lambda>sha.
        if old = PStr sha then db_return () else grant_value C ''retire'' old))"

definition reauthorize :: "'w outside \<Rightarrow> doc \<Rightarrow> ('w engine, unit) op" where
  "reauthorize C row =
     (if is_runtime row
      then db_bind (reading (\<lambda>_. need row ''APP_RELEASE_SHA'')) (grant_value C ''authorize'')
      else db_return ())"

definition revoke_unless :: "'w outside \<Rightarrow> pyval list \<Rightarrow> ('w engine, unit) op" where
  "revoke_unless C shas =
     db_bind (flagged granted) (\<lambda>g.
     if \<not> g then db_return ()
     else
       db_bind (env ''CGM_RELEASE_SHA'') (\<lambda>sha.
       if PStr sha \<in> set shas then db_return () else runtime_grant C ''revoke'' sha))"

definition runtime_promotion ::
  "'w outside \<Rightarrow> string \<Rightarrow> string \<Rightarrow> string \<Rightarrow> doc list \<Rightarrow> string \<Rightarrow> string \<Rightarrow> string \<Rightarrow> ('w engine, string dict) op" where
  "runtime_promotion C service region project configs candidate url img =
     db_bind (mark (granted_update (\<lambda>_. True))) (\<lambda>_.
     db_bind (env ''CGM_RELEASE_SHA'') (\<lambda>sha.
     db_bind (runtime_grant C ''authorize'' sha) (\<lambda>_.
     db_bind (runtime_ready C url False '''') (\<lambda>_.
     db_bind (emit C ''validate-candidate'' ''succeeded'' [(''candidate_revision'', candidate), (''candidate_url'', url)]) (\<lambda>_.
     db_bind (emit C ''promote'' ''running'' []) (\<lambda>_.
     db_bind (mark (promoted_update (\<lambda>_. True))) (\<lambda>_.
     db_bind (set_traffic C service region project [(candidate, 100)]) (\<lambda>_.
     db_bind (emit C ''promote'' ''succeeded'' [(''production_revision'', candidate)]) (\<lambda>_.
     db_bind (service_url C service region project) (\<lambda>production.
     db_bind (emit C ''validate-production'' ''running'' []) (\<lambda>_.
     db_bind (runtime_ready C production False '''') (\<lambda>_.
     db_bind (for_each (retire C) configs) (\<lambda>_.
     db_bind (emit C ''validate-production'' ''succeeded'' [(''production_revision'', candidate), (''production_url'', production)]) (\<lambda>_.
     db_return (released candidate url production img)))))))))))))))"

text \<open>What every automatic recovery of an independent runtime does once traffic may have moved.\<close>

definition restore_runtime ::
  "'w outside \<Rightarrow> string \<Rightarrow> string \<Rightarrow> string \<Rightarrow> int dict \<Rightarrow> ('w engine, unit) op \<Rightarrow> string \<Rightarrow> ('w engine, unit) op" where
  "restore_runtime C service region project previous grants message =
     db_bind grants (\<lambda>_.
     db_bind (set_traffic C service region project previous) (\<lambda>_.
     db_bind (traffic_now C service region project) (\<lambda>now.
     check (same_dict now previous) message)))"

definition runtime_recovery ::
  "'w outside \<Rightarrow> string \<Rightarrow> string \<Rightarrow> string \<Rightarrow> int dict \<Rightarrow> doc list \<Rightarrow> pyval list \<Rightarrow> py_err \<Rightarrow> ('w engine, string dict) op" where
  "runtime_recovery C service region project previous configs shas e =
     db_bind (getenv_or ''CGM_CURRENT_STAGE'' ''validate-candidate'') (\<lambda>stage.
     db_bind (emit C stage ''failed'' [(''error'', err_text e)]) (\<lambda>_.
     db_bind (flagged promoted) (\<lambda>p.
     db_bind (only_if p (restore_runtime C service region project previous (for_each (reauthorize C) configs)
       ''runtime rollback traffic verification failed'')) (\<lambda>_.
     db_bind (revoke_unless C shas) (\<lambda>_.
     if \<not> p then db_raise e
     else
       db_bind (emit_rollback C previous) (\<lambda>_.
       db_raise (AutomaticRollback (''runtime deployment failed; restored only '' @ service @ '': '' @ err_text e))))))))"

fun hashable :: "pyval list \<Rightarrow> unit result" where
  "hashable [] = Inr ()"
| "hashable (v # vs) =
     (case v of PList _ \<Rightarrow> Inl (TypeError ''unhashable type'') | PDict _ \<Rightarrow> Inl (TypeError ''unhashable type'') | _ \<Rightarrow> hashable vs)"

definition deploy_runtime :: "'w outside \<Rightarrow> string \<Rightarrow> ('w engine, string dict) op" where
  "deploy_runtime C img =
     with_service (\<lambda>service region project.
     db_bind (traffic_now C service region project) (\<lambda>previous.
     db_bind (collect (revision_runtime C) (map fst previous)) (\<lambda>configs.
     let shas = map (\<lambda>row. dget_or row ''APP_RELEASE_SHA'' (PStr '''')) configs in
     db_bind (reading (\<lambda>_. hashable shas)) (\<lambda>_.
     db_bind (verify_artemis_web C) (\<lambda>_.
     db_bind (deploy_candidate C img service region project) (\<lambda>(candidate, url).
     db_bind (emit C ''validate-candidate'' ''running'' []) (\<lambda>_.
     db_bind (runtime_ready C url True '''') (\<lambda>_.
     db_bind (mark (\<lambda>_. no_flags)) (\<lambda>_.
     db_catch (runtime_promotion C service region project configs candidate url img)
       (runtime_recovery C service region project previous configs shas))))))))))"

section \<open>Services with hooks\<close>

definition start_if :: "bool \<Rightarrow> ('w engine, unit) op" where
  "start_if b = only_if b (mark (started_update (\<lambda>_. True)))"

definition service_promotion ::
  "'w outside \<Rightarrow> doc \<Rightarrow> string \<Rightarrow> string \<Rightarrow> string \<Rightarrow> string \<Rightarrow> ('w engine, string dict) op" where
  "service_promotion C spec img service region project =
     db_bind (start_if (hooks_of ''pre_candidate_hooks'' spec \<noteq> [])) (\<lambda>_.
     db_bind (run_hooks C ''pre_candidate_hooks'') (\<lambda>_.
     db_bind (deploy_candidate C img service region project) (\<lambda>(candidate, url).
     db_bind (setenv ''CGM_CANDIDATE_REVISION'' candidate) (\<lambda>_.
     db_bind (setenv ''CGM_CANDIDATE_URL'' url) (\<lambda>_.
     db_bind (emit C ''validate-candidate'' ''running'' []) (\<lambda>_.
     db_bind (smoke C url) (\<lambda>_.
     db_bind (run_hooks C ''candidate_hooks'') (\<lambda>_.
     db_bind (emit C ''validate-candidate'' ''succeeded'' [(''candidate_revision'', candidate), (''candidate_url'', url)]) (\<lambda>_.
     db_bind (start_if (hooks_of ''pre_promote_hooks'' spec \<noteq> [])) (\<lambda>_.
     db_bind (run_hooks C ''pre_promote_hooks'') (\<lambda>_.
     db_bind (emit C ''promote'' ''running'' []) (\<lambda>_.
     db_bind (mark (promoted_update (\<lambda>_. True))) (\<lambda>_.
     db_bind (set_traffic C service region project [(candidate, 100)]) (\<lambda>_.
     db_bind (emit C ''promote'' ''succeeded'' [(''production_revision'', candidate)]) (\<lambda>_.
     db_bind (emit C ''validate-production'' ''running'' []) (\<lambda>_.
     db_bind (service_url C service region project) (\<lambda>production.
     db_bind (setenv ''CGM_PRODUCTION_URL'' production) (\<lambda>_.
     db_bind (smoke C production) (\<lambda>_.
     db_bind (run_hooks C ''post_promote_hooks'') (\<lambda>_.
     db_bind (emit C ''validate-production'' ''succeeded'' [(''production_revision'', candidate), (''production_url'', production)]) (\<lambda>_.
     db_return (released candidate url production img))))))))))))))))))))))"

definition restore_service ::
  "'w outside \<Rightarrow> string \<Rightarrow> string \<Rightarrow> string \<Rightarrow> string \<Rightarrow> int dict \<Rightarrow> ('w engine, string) op" where
  "restore_service C recovery service region project previous =
     db_bind (flagged promoted) (\<lambda>p.
     db_bind (if recovery \<noteq> '''' then hook C recovery
              else only_if p (set_traffic C service region project previous)) (\<lambda>_.
     db_bind (traffic_now C service region project) (\<lambda>current.
     db_bind (check (recovery \<noteq> '''' \<or> same_dict current previous) ''prior traffic was not restored exactly'') (\<lambda>_.
     reading (\<lambda>_. busiest current)))))"

definition service_recovery ::
  "'w outside \<Rightarrow> string \<Rightarrow> string \<Rightarrow> string \<Rightarrow> string \<Rightarrow> int dict \<Rightarrow> py_err \<Rightarrow> ('w engine, string dict) op" where
  "service_recovery C recovery service region project previous e =
     db_bind (flagged promoted) (\<lambda>p.
     db_bind (flagged started) (\<lambda>s.
     if \<not> p \<and> \<not> s then db_raise e
     else
       db_bind (emit C ''rollback'' ''running'' []) (\<lambda>_.
       db_bind
         (db_catch (restore_service C recovery service region project previous) (\<lambda>_.
          db_bind (emit C ''rollback'' ''failed'' [(''error'', ''paired recovery could not be verified'')]) (\<lambda>_.
          db_raise (RuntimeError ''release failed and paired recovery could not be verified'')))) (\<lambda>restored.
       db_bind (emit C ''rollback'' ''succeeded'' [(''production_revision'', restored)]) (\<lambda>_.
       reading (\<lambda>w. Inl (AutomaticRollback
         (''release failed; prior resources were restored: '' @ sanitized_error (environ w) (err_text e)))))))))"

definition deploy :: "'w outside \<Rightarrow> string \<Rightarrow> ('w engine, string dict) op" where
  "deploy C img =
     db_bind independent_runtime (\<lambda>independent.
     if independent then deploy_runtime C img
     else
       with_service (\<lambda>service region project.
       db_bind (traffic_now C service region project) (\<lambda>previous.
       db_bind (setenv ''CGM_PREVIOUS_TRAFFIC'' (json_text (traffic_value (sort_key fst previous)))) (\<lambda>_.
       db_bind profile_spec (\<lambda>spec.
       db_bind (verify_hooks C) (\<lambda>_.
       db_bind (setenv ''CGM_RESOLVED_IMAGE'' img) (\<lambda>_.
       db_bind (mark (\<lambda>_. no_flags)) (\<lambda>_.
       db_catch (service_promotion C spec img service region project)
         (service_recovery C (py_str (dget spec ''recovery_hook'')) service region project previous)))))))))"

section \<open>Rollbacks\<close>

definition rollback_runtime :: "'w outside \<Rightarrow> ('w engine, string dict) op" where
  "rollback_runtime C =
     db_bind (env ''CGM_TARGET_REVISION'') (\<lambda>target.
     db_bind (revision_runtime C target) (\<lambda>values.
     db_bind (env ''CGM_SERVICE'') (\<lambda>service.
     db_bind (check (is_runtime values \<and> is_str values ''APP_RELEASE_RESOURCE'' service)
       ''rollback requires a compatible independent runtime revision'') (\<lambda>_.
     with_place (\<lambda>region project.
     db_bind (traffic_now C service region project) (\<lambda>previous.
     db_bind (verify_artemis_web C) (\<lambda>_.
     let sha = dget_or values ''APP_RELEASE_SHA'' (PStr '''') in
     db_bind (grant_value C ''authorize'' sha) (\<lambda>_.
     db_bind
       (db_catch
         (db_bind (set_traffic C service region project [(target, 100)]) (\<lambda>_.
          db_bind (service_url C service region project) (\<lambda>url.
          db_bind (runtime_ready C url False (py_str sha)) (\<lambda>_. db_return url))))
         (\<lambda>e. db_bind (set_traffic C service region project previous) (\<lambda>_. db_raise e))) (\<lambda>url.
     db_bind (emit C ''rollback'' ''succeeded'' [(''production_revision'', target)]) (\<lambda>_.
     db_return [(''production_revision'', target), (''production_url'', url)]))))))))))"

definition rollback_service :: "'w outside \<Rightarrow> ('w engine, string dict) op" where
  "rollback_service C =
     db_bind profile_spec (\<lambda>spec.
     db_bind (verify_hooks C) (\<lambda>_.
     db_bind (env ''CGM_TARGET_REVISION'') (\<lambda>target.
     db_bind (emit C ''rollback'' ''running'' []) (\<lambda>_.
     let recovery = py_str (dget spec ''rollback_hook'') in
     db_bind
       (if recovery \<noteq> ''''
        then
          db_bind (hook C recovery) (\<lambda>_.
          with_service (\<lambda>service region project.
          db_bind (traffic_now C service region project) (\<lambda>current. reading (\<lambda>_. busiest current))))
        else
          with_service (\<lambda>service region project.
          db_bind (run_command C (update_traffic service (target @ ''=100'') region project)) (\<lambda>_. db_return target))) (\<lambda>actual.
     db_bind (emit C ''rollback'' ''succeeded'' [(''production_revision'', actual)]) (\<lambda>_.
     db_bind (with_service (service_url C)) (\<lambda>url.
     db_return [(''production_revision'', actual), (''production_url'', url)])))))))"

end
