(* ===== verification/ExecutorJobs.thy ===== *)
theory ExecutorJobs
  imports ExecutorReleases
begin

text \<open>
  The releases of scheduled jobs in \<open>docker/release-executor/release_executor.py\<close>: the schedules that are paused for one,
  the definition that is saved and restored, \<open>deploy_job\<close> and \<open>rollback_job\<close>.
\<close>

section \<open>Schedules\<close>

definition job_schedules :: "string list dict" where
  "job_schedules =
     [(''cgm-artemis-fnd-observation-worker'', [''cgm-artemis-fnd-observation-five-minutes'']),
      (''cgm-artemis-readings-export-worker'', [''cgm-artemis-readings-export-five-minutes'']),
      (''cgm-artemis-smarti-prevention-worker'', [''cgm-artemis-smarti-prevention-daytime'']),
      (''cgm-artemis-wm-sweep-worker'', [''cgm-artemis-wm-sweep-hour'', ''cgm-artemis-wm-sweep-half''])]"

definition scheduler_args :: "string \<Rightarrow> string \<Rightarrow> string list \<Rightarrow> string \<Rightarrow> string \<Rightarrow> string list" where
  "scheduler_args action name args region project =
     [''gcloud'', ''scheduler'', ''jobs'', action, name] @ args @ [''--location'', region, ''--project'', project, ''--quiet'']"

definition scheduler_command :: "'w outside \<Rightarrow> string \<Rightarrow> string \<Rightarrow> string list \<Rightarrow> ('w engine, string) op" where
  "scheduler_command C action name args =
     with_place (\<lambda>region project. run_command C (scheduler_args action name args region project))"

definition resume_schedules :: "'w outside \<Rightarrow> string list \<Rightarrow> ('w engine, unit) op" where
  "resume_schedules C = for_each (\<lambda>name. db_bind (scheduler_command C ''resume'' name []) (\<lambda>_. db_return ()))"

text \<open>On any exception, the schedules that were found active are resumed.\<close>

definition or_resume :: "'w outside \<Rightarrow> string list \<Rightarrow> ('w engine, 'a) op \<Rightarrow> ('w engine, 'a) op" where
  "or_resume C active m = db_catch m (\<lambda>e. db_bind (resume_schedules C active) (\<lambda>_. db_raise e))"

definition schedule_enabled :: "'w outside \<Rightarrow> string \<Rightarrow> ('w engine, bool) op" where
  "schedule_enabled C name =
     db_bind (scheduler_command C ''describe'' name [''--format=json'']) (\<lambda>raw.
     reading (\<lambda>_.
       then_result (json_loads False raw) (\<lambda>v. map_result (\<lambda>info. is_str info ''state'' ''ENABLED'') (attr_dict v))))"

fun pause_each :: "'w outside \<Rightarrow> string list \<Rightarrow> string list \<Rightarrow> ('w engine, string list) op" where
  "pause_each C active [] = db_return active"
| "pause_each C active (name # names) =
     db_bind (or_resume C active (schedule_enabled C name)) (\<lambda>enabled.
     if enabled
     then
       db_bind (or_resume C (active @ [name]) (scheduler_command C ''pause'' name [])) (\<lambda>_.
       pause_each C (active @ [name]) names)
     else pause_each C active names)"

definition pause_schedules :: "'w outside \<Rightarrow> ('w engine, string list) op" where
  "pause_schedules C =
     db_bind (env ''CGM_SERVICE'') (\<lambda>service.
     db_bind (reading (\<lambda>_. case map_of job_schedules service of None \<Rightarrow> Inl (KeyError service) | Some names \<Rightarrow> Inr names))
       (pause_each C []))"

section \<open>Definitions\<close>

definition job_describe :: "string \<Rightarrow> string \<Rightarrow> string \<Rightarrow> string \<Rightarrow> string list" where
  "job_describe format service region project =
     [''gcloud'', ''run'', ''jobs'', ''describe'', service] @ region_args region project @ [''--format='' @ format]"

definition job_definition :: "'w outside \<Rightarrow> ('w engine, string) op" where
  "job_definition C =
     with_service (\<lambda>service region project.
     db_bind (run_command C (job_describe ''export'' service region project)) (\<lambda>out. db_return (out @ [CHR 0x0A])))"

text \<open>The annotations and labels that gcloud stamps itself are dropped from the template.\<close>

definition drop_volatile :: "pyval \<Rightarrow> pyval" where
  "drop_volatile v =
     (case v of
        PDict d \<Rightarrow>
          PDict (dict_pop ''client.knative.dev/nonce''
            (dict_pop ''run.googleapis.com/client-version'' (dict_pop ''run.googleapis.com/client-name'' d)))
      | _ \<Rightarrow> v)"

definition change_at :: "string \<Rightarrow> (pyval \<Rightarrow> pyval) \<Rightarrow> doc \<Rightarrow> doc" where
  "change_at k f d = (case map_of d k of None \<Rightarrow> d | Some v \<Rightarrow> dict_set k (f v) d)"

definition stable_metadata :: "pyval \<Rightarrow> pyval" where
  "stable_metadata v =
     (case v of PDict d \<Rightarrow> PDict (change_at ''labels'' drop_volatile (change_at ''annotations'' drop_volatile d)) | _ \<Rightarrow> v)"

definition operational_spec :: "string \<Rightarrow> pyval \<Rightarrow> doc result" where
  "operational_spec service v =
     (let bad = Inl (RuntimeError ''Job snapshot does not match authorized resource'') in
      case v of
        PDict payload \<Rightarrow>
          if \<not> is_str payload ''kind'' ''Job'' then bad
          else
            then_result (inner_doc [''metadata''] payload) (\<lambda>m.
            if \<not> is_str m ''name'' service then bad
            else
              (case dget payload ''spec'' of
                 PDict spec \<Rightarrow>
                   then_result (inner_doc [''template''] spec) (\<lambda>template.
                   Inr (change_at ''template'' (\<lambda>_. PDict (change_at ''metadata'' stable_metadata template)) spec))
               | _ \<Rightarrow> Inl (RuntimeError ''Job snapshot lacks a specification'')))
      | _ \<Rightarrow> bad)"

definition job_spec :: "'w outside \<Rightarrow> string \<Rightarrow> ('w engine, doc) op" where
  "job_spec C text =
     db_bind (reading (\<lambda>_. cl_yaml C text)) (\<lambda>v.
     db_bind (env ''CGM_SERVICE'') (\<lambda>service.
     reading (\<lambda>_. operational_spec service v)))"

definition job_containers :: "string list" where
  "job_containers = [''spec'', ''template'', ''spec'', ''template'', ''spec'', ''containers'']"

definition job_environment :: "'w outside \<Rightarrow> string \<Rightarrow> doc result" where
  "job_environment C text = then_result (cl_yaml C text) (\<lambda>v. then_result (path_to job_containers v) container_env)"

definition single_image :: "pyval \<Rightarrow> string result" where
  "single_image v =
     (let bad = Inl (RuntimeError ''Job must have exactly one configured container'') in
      then_result (attr_dict v) (\<lambda>d.
      then_result (inner_doc (butlast job_containers) d) (\<lambda>s.
      case dget_or s ''containers'' (PList []) of
        PList [c] \<Rightarrow>
          then_result (attr_dict c) (\<lambda>c. if flag c ''image'' then Inr (py_str (dget c ''image'')) else bad)
      | PList _ \<Rightarrow> bad
      | PDict [_] \<Rightarrow> Inl (KeyError ''0'')
      | PDict _ \<Rightarrow> bad
      | PStr [_] \<Rightarrow> Inl (AttributeError ''get'')
      | PStr _ \<Rightarrow> bad
      | _ \<Rightarrow> Inl (TypeError ''object has no len()''))))"

definition job_image :: "'w outside \<Rightarrow> ('w engine, string) op" where
  "job_image C =
     with_service (\<lambda>service region project.
     db_bind (run_json C (job_describe ''json'' service region project)) (\<lambda>v. reading (\<lambda>_. single_image v)))"

definition job_revision :: "string \<Rightarrow> bool" where
  "job_revision revision =
     (case take_text ''job-'' revision of None \<Rightarrow> False | Some digest \<Rightarrow> hex_string 64 digest)"

definition bucket_name :: "string \<Rightarrow> bool" where
  "bucket_name b =
     (3 \<le> length b \<and> length b \<le> 223 \<and> (is_lower (hd b) \<or> is_digit (hd b)) \<and>
      list_all (\<lambda>c. is_lower c \<or> is_digit c \<or> c \<in> set ''._-'') b)"

definition snapshot_uri :: "string \<Rightarrow> ('w engine, string) op" where
  "snapshot_uri revision =
     db_bind (check (job_revision revision) ''invalid Job snapshot fingerprint'') (\<lambda>_.
     db_bind (env ''CGM_EVIDENCE_BUCKET'') (\<lambda>bucket.
     db_bind (check (bucket_name bucket) ''invalid evidence bucket'') (\<lambda>_.
     db_bind (env ''CGM_SERVICE'') (\<lambda>service.
     db_return (''gs://'' @ bucket @ ''/job-definitions/'' @ service @ ''/'' @ revision @ ''.yaml'')))))"

definition replace_args :: "string \<Rightarrow> string \<Rightarrow> string list" where
  "replace_args region project =
     [''gcloud'', ''run'', ''jobs'', ''replace'', ''{file}''] @ region_args region project @ [''--quiet'']"

definition replace_job :: "'w outside \<Rightarrow> string \<Rightarrow> ('w engine, unit) op" where
  "replace_job C text =
     with_place (\<lambda>region project. db_bind (run_file C (Some text) (replace_args region project)) (\<lambda>_. db_return ()))"

definition definition_id :: "string \<Rightarrow> string" where
  "definition_id text = ''job-'' @ sha256_hex text"

definition save_definition :: "'w outside \<Rightarrow> string \<Rightarrow> ('w engine, string) op" where
  "save_definition C text =
     db_bind (snapshot_uri (definition_id text)) (\<lambda>uri.
     db_bind (run_file C (Some text) [''gcloud'', ''storage'', ''cp'', ''{file}'', uri]) (\<lambda>_.
     db_return (definition_id text)))"

definition check_job_runtime :: "'w outside \<Rightarrow> ('w engine, unit) op" where
  "check_job_runtime C =
     with_service (\<lambda>service region project.
     db_bind (run_command C ([''gcloud'', ''run'', ''jobs'', ''execute'', service] @ region_args region project @ [''--wait'', ''--quiet'']))
       (\<lambda>_. db_return ()))"

section \<open>Deploying a job\<close>

definition job_arguments :: "'w outside \<Rightarrow> string \<Rightarrow> pyval result" where
  "job_arguments C text =
     then_result (cl_yaml C text) (\<lambda>v.
     then_result (path_to job_containers v) (\<lambda>cs.
     then_result (first_item cs) (\<lambda>c.
     map_result (\<lambda>d. dget_or d ''args'' (PList [])) (attr_dict c))))"

definition approved_arguments :: "pyval \<Rightarrow> pyval list result" where
  "approved_arguments v =
     (let bad = Inl (RuntimeError ''Job command does not match the approved worker profile'') in
      case v of
        PList args \<Rightarrow>
          if take 2 args \<noteq> [PStr ''-m'', PStr ''cgm_sanplat_param.worker''] \<or> PStr ''--type'' \<notin> set args then bad else Inr args
      | PStr _ \<Rightarrow> bad
      | PDict _ \<Rightarrow> Inl (TypeError ''unhashable type'')
      | _ \<Rightarrow> Inl (TypeError ''object is not subscriptable''))"

text \<open>\<open>",".join(...)\<close>\<close>

definition joined_args :: "pyval list \<Rightarrow> string result" where
  "joined_args vs =
     (if list_all (\<lambda>v. case v of PStr _ \<Rightarrow> True | _ \<Rightarrow> False) vs then Inr (join '','' (map py_str vs))
      else Inl (TypeError ''sequence item: expected str instance''))"

definition job_update :: "string \<Rightarrow> string list \<Rightarrow> string \<Rightarrow> string \<Rightarrow> string \<Rightarrow> string list" where
  "job_update service options args region project =
     [''gcloud'', ''run'', ''jobs'', ''update'', service] @ options @ [''--args='' @ args] @ region_args region project @ [''--quiet'']"

definition job_promotion :: "'w outside \<Rightarrow> string \<Rightarrow> doc \<Rightarrow> pyval list \<Rightarrow> ('w engine, string dict) op" where
  "job_promotion C img previous args =
     db_bind (emit C ''deploy-candidate'' ''running'' []) (\<lambda>_.
     db_bind (env ''CGM_SERVICE'') (\<lambda>service.
     db_bind (env ''CGM_RELEASE_SHA'') (\<lambda>sha.
     db_bind (candidate_env_args C) (\<lambda>vars.
     db_bind (reading (\<lambda>_. joined_args (args @ [PStr ''--check-runtime'']))) (\<lambda>checking.
     with_place (\<lambda>region project.
     db_bind (run_command C
       (job_update service ([''--image'', img, ''--update-labels'', ''commit-sha='' @ sha] @ vars) checking region project)) (\<lambda>_.
     db_bind (job_image C) (\<lambda>actual.
     db_bind (check (actual = img) ''updated Job image does not match authorized digest'') (\<lambda>_.
     db_bind (emit C ''deploy-candidate'' ''succeeded'' [(''candidate_revision'', img), (''image_digest'', img)]) (\<lambda>_.
     db_bind (emit C ''validate-candidate'' ''running'' []) (\<lambda>_.
     db_bind (mark (granted_update (\<lambda>_. True))) (\<lambda>_.
     db_bind (runtime_grant C ''authorize'' sha) (\<lambda>_.
     db_bind (check_job_runtime C) (\<lambda>_.
     db_bind (emit C ''validate-candidate'' ''succeeded'' [(''candidate_revision'', img)]) (\<lambda>_.
     db_bind (emit C ''promote'' ''running'' []) (\<lambda>_.
     db_bind (reading (\<lambda>_. joined_args args)) (\<lambda>working.
     db_bind (run_command C (job_update service [''--update-env-vars'', ''APP_RUNTIME_CHECK_ONLY=false''] working region project)) (\<lambda>_.
     db_bind (job_definition C) (\<lambda>current.
     db_bind (save_definition C current) (\<lambda>revision.
     db_bind (emit C ''promote'' ''succeeded'' [(''production_revision'', revision)]) (\<lambda>_.
     db_bind
       (if is_runtime previous \<and> \<not> is_str previous ''APP_RELEASE_SHA'' sha
        then db_bind (reading (\<lambda>_. need previous ''APP_RELEASE_SHA'')) (grant_value C ''retire'')
        else db_return ()) (\<lambda>_.
     db_bind (emit C ''validate-production'' ''succeeded'' [(''production_revision'', revision)]) (\<lambda>_.
     db_bind (mark (resume_safe_update (\<lambda>_. True))) (\<lambda>_.
     db_return [(''candidate_revision'', img), (''production_revision'', revision), (''image_digest'', img)]))))))))))))))))))))))))"

text \<open>The comparison of the definition that is live with the one that was restored.\<close>

definition same_definition :: "'w outside \<Rightarrow> doc \<Rightarrow> ('w engine, bool) op" where
  "same_definition C spec =
     db_bind (job_definition C) (\<lambda>current.
     db_bind (job_spec C current) (\<lambda>now. db_return (py_eq (PDict now) (PDict spec))))"

definition job_recovery :: "'w outside \<Rightarrow> string \<Rightarrow> doc \<Rightarrow> py_err \<Rightarrow> ('w engine, string dict) op" where
  "job_recovery C prior previous e =
     db_bind (getenv_or ''CGM_CURRENT_STAGE'' ''deploy-candidate'') (\<lambda>stage.
     db_bind (emit C stage ''failed'' [(''error'', err_text e)]) (\<lambda>_.
     db_bind (reauthorize C previous) (\<lambda>_.
     db_bind (replace_job C prior) (\<lambda>_.
     db_bind (job_definition C) (\<lambda>current.
     db_bind (job_spec C current) (\<lambda>now.
     db_bind (job_spec C prior) (\<lambda>old.
     db_bind (check (py_eq (PDict now) (PDict old)) ''Job definition restoration could not be verified'') (\<lambda>_.
     db_bind (revoke_unless C [dget previous ''APP_RELEASE_SHA'']) (\<lambda>_.
     db_bind (emit C ''rollback'' ''succeeded'' []) (\<lambda>_.
     db_bind (mark (resume_safe_update (\<lambda>_. True))) (\<lambda>_.
     db_raise (AutomaticRollback (''Job update failed; prior definition restored: '' @ err_text e)))))))))))))"

definition resume_when_safe :: "'w outside \<Rightarrow> string list \<Rightarrow> ('w engine, unit) op" where
  "resume_when_safe C active = db_bind (flagged resume_safe) (\<lambda>safe. only_if safe (resume_schedules C active))"

definition deploy_job :: "'w outside \<Rightarrow> string \<Rightarrow> ('w engine, string dict) op" where
  "deploy_job C img =
     db_bind (check (contains ''@sha256:'' img) ''Job deployment requires an immutable image'') (\<lambda>_.
     db_bind (job_definition C) (\<lambda>prior.
     db_bind (job_spec C prior) (\<lambda>_.
     db_bind (job_image C) (\<lambda>_.
     db_bind (save_definition C prior) (\<lambda>_.
     db_bind (reading (\<lambda>_. job_environment C prior)) (\<lambda>previous.
     db_bind (reading (\<lambda>_. then_result (job_arguments C prior) approved_arguments)) (\<lambda>args.
     db_bind (pause_schedules C) (\<lambda>active.
     db_bind (mark (\<lambda>_. no_flags)) (\<lambda>_.
     db_finally
       (db_catch (job_promotion C img previous args) (job_recovery C prior previous))
       (resume_when_safe C active))))))))))"

section \<open>Rolling a job back\<close>

fun change_path :: "string list \<Rightarrow> (pyval \<Rightarrow> pyval result) \<Rightarrow> pyval \<Rightarrow> pyval result" where
  "change_path [] f v = f v"
| "change_path (k # ks) f v =
     (case v of
        PDict d \<Rightarrow> then_result (need d k) (\<lambda>x. map_result (\<lambda>y. PDict (dict_set k y d)) (change_path ks f x))
      | _ \<Rightarrow> Inl (TypeError ''indices must be integers''))"

text \<open>\<open>[item for item in ... if item["name"] != "APP_RUNTIME_CHECK_ONLY"]\<close>\<close>

fun without_check_only :: "pyval list \<Rightarrow> pyval list result" where
  "without_check_only [] = Inr []"
| "without_check_only (v # vs) =
     then_result (field ''name'' v) (\<lambda>name.
     map_result (\<lambda>rest. if name = PStr ''APP_RUNTIME_CHECK_ONLY'' then rest else v # rest) (without_check_only vs))"

definition checking_container :: "pyval \<Rightarrow> pyval result" where
  "checking_container c =
     then_result (attr_dict c) (\<lambda>d.
     then_result (items_of (dget_or d ''env'' (PList []))) (\<lambda>items.
     then_result (without_check_only items) (\<lambda>kept.
     then_result (items_of (dget_or d ''args'' (PList []))) (\<lambda>args.
     Inr (PDict
       (dict_set ''args'' (PList (args @ [PStr ''--check-runtime'']))
         (dict_set ''env''
           (PList (kept @ [PDict [(''name'', PStr ''APP_RUNTIME_CHECK_ONLY''), (''value'', PStr ''true'')]])) d)))))))"

definition checking_job :: "pyval \<Rightarrow> pyval result" where
  "checking_job =
     change_path job_containers (\<lambda>cs.
       case cs of
         PList (c # rest) \<Rightarrow> map_result (\<lambda>c'. PList (c' # rest)) (checking_container c)
       | _ \<Rightarrow> Inl (TypeError ''object is not subscriptable''))"

definition restore_job :: "'w outside \<Rightarrow> string \<Rightarrow> doc \<Rightarrow> doc \<Rightarrow> ('w engine, unit) op" where
  "restore_job C target expected values =
     db_bind (reading (\<lambda>_. need values ''APP_RELEASE_SHA'')) (\<lambda>sha.
     db_bind (grant_value C ''authorize'' sha) (\<lambda>_.
     db_bind (reading (\<lambda>_. then_result (cl_yaml C target) checking_job)) (\<lambda>job.
     db_bind (replace_job C (cl_dump C job)) (\<lambda>_.
     db_bind (check_job_runtime C) (\<lambda>_.
     db_bind (replace_job C target) (\<lambda>_.
     db_bind (same_definition C expected) (\<lambda>same.
     db_bind (check same ''restored Job definition differs from target'') (\<lambda>_.
     mark (resume_safe_update (\<lambda>_. True))))))))))"

definition rollback_job_recovery :: "'w outside \<Rightarrow> string \<Rightarrow> py_err \<Rightarrow> ('w engine, unit) op" where
  "rollback_job_recovery C prior e =
     db_bind (replace_job C prior) (\<lambda>_.
     db_bind (job_definition C) (\<lambda>current.
     db_bind (job_spec C current) (\<lambda>now.
     db_bind (job_spec C prior) (\<lambda>old.
     db_bind (check (py_eq (PDict now) (PDict old)) ''Job rollback recovery could not be verified'') (\<lambda>_.
     db_bind (mark (resume_safe_update (\<lambda>_. True))) (\<lambda>_.
     db_raise e))))))"

definition rollback_job :: "'w outside \<Rightarrow> ('w engine, string dict) op" where
  "rollback_job C =
     db_bind (env ''CGM_TARGET_REVISION'') (\<lambda>revision.
     db_bind (check (job_revision revision) ''invalid target Job definition fingerprint'') (\<lambda>_.
     db_bind (job_definition C) (\<lambda>prior.
     db_bind (snapshot_uri revision) (\<lambda>uri.
     db_bind (outside_op (cl_fetch C uri)) (\<lambda>target.
     db_bind (check (definition_id target = revision) ''target Job definition fingerprint mismatch'') (\<lambda>_.
     db_bind (job_spec C target) (\<lambda>expected.
     db_bind (reading (\<lambda>_. job_environment C target)) (\<lambda>values.
     db_bind (env ''CGM_SERVICE'') (\<lambda>service.
     db_bind (check (is_runtime values \<and> is_str values ''APP_RELEASE_RESOURCE'' service)
       ''rollback requires a compatible independent Job definition'') (\<lambda>_.
     db_bind (pause_schedules C) (\<lambda>active.
     db_bind (emit C ''rollback'' ''running'' []) (\<lambda>_.
     db_bind (mark (\<lambda>_. no_flags)) (\<lambda>_.
     db_bind
       (db_finally (db_catch (restore_job C target expected values) (rollback_job_recovery C prior))
         (resume_when_safe C active)) (\<lambda>_.
     db_bind (emit C ''rollback'' ''succeeded'' [(''production_revision'', revision)]) (\<lambda>_.
     db_bind (job_image C) (\<lambda>img.
     db_return [(''production_revision'', revision), (''image_digest'', img)]))))))))))))))))"

definition rollback :: "'w outside \<Rightarrow> ('w engine, string dict) op" where
  "rollback C =
     db_bind (getenv ''CGM_RUNTIME_KIND'') (\<lambda>kind.
     if kind = ''cloud_run_job'' then rollback_job C
     else
       db_bind independent_runtime (\<lambda>independent.
       if independent then rollback_runtime C else rollback_service C))"

end
