(* ===== verification/ExecutorPhases.thy ===== *)
theory ExecutorPhases
  imports ExecutorJobs
begin

text \<open>
  The staged releases of \<open>docker/release-executor/release_executor.py\<close>, which prepare a candidate in one job and promote it in
  another, with the continuation file between them; and \<open>main\<close>.
\<close>

section \<open>The phase\<close>

definition release_phase :: "('w engine, string) op" where
  "release_phase =
     db_bind (getenv_or ''CGM_RELEASE_PHASE'' ''full'') (\<lambda>given.
     let phase = (if strip given = '''' then ''full'' else strip given) in
     db_bind (check (phase \<in> {''full'', ''candidate'', ''promote''}) ''unsupported release phase'') (\<lambda>_.
     if phase = ''full'' then db_return phase
     else
       (let bad = RuntimeError ''staged release requires an Artemis GitHub service deploy'' in
        db_bind (getenv ''BUILD_ID'') (\<lambda>build.
        if strip build \<noteq> '''' then db_raise bad
        else
          db_bind (env ''CGM_OPERATION'') (\<lambda>action.
          if action \<noteq> ''deploy'' then db_raise bad
          else
            db_bind (env ''CGM_SERVICE'') (\<lambda>service.
            if service \<notin> {''cgm-artemis-api'', ''cgm-artemis-web''} then db_raise bad
            else
              db_bind (env ''CGM_PROFILE'') (\<lambda>profile.
              db_bind (getenv ''CGM_RUNTIME_KIND'') (\<lambda>kind.
              if profile \<noteq> service \<or> kind \<noteq> ''cloud_run_service'' then db_raise bad else db_return phase))))))))"

definition canonical :: "pyval \<Rightarrow> string" where
  "canonical v = json_dumps True True v"

definition identity_names :: "string list" where
  "identity_names =
     [''CGM_DEPLOYMENT_ID'', ''CGM_REPOSITORY'', ''CGM_SERVICE'', ''CGM_RELEASE_SHA'', ''CGM_RELEASE_TAG'',
      ''CGM_REQUEST_FINGERPRINT'', ''CGM_PROFILE'', ''CGM_PROFILE_SHA256'']"

definition phase_identity :: "('w engine, pyval) op" where
  "phase_identity =
     db_bind (collect (\<lambda>name. db_bind (env name) (\<lambda>v. db_return (name, PStr v))) identity_names) (\<lambda>d. db_return (PDict d))"

definition configuration_names :: "string list" where
  "configuration_names =
     [''CGM_PROJECT_ID'', ''CGM_REGION'', ''CGM_IMAGE'', ''CGM_BUILD_CONTEXT'', ''CGM_HEALTH_PATH'', ''CGM_RUNTIME_KIND'',
      ''CGM_EVIDENCE_BUCKET'', ''CGM_PRIVATE_RUNTIME'', ''CGM_DOCKERFILE_PATH'', ''CGM_QUALITY_EVIDENCE_SERVICES'',
      ''CGM_REPOSITORY_ALIASES'', ''CGM_PAIRED_WEB_SHA'', ''CGM_PLATFORM_API_URL'']"

definition phase_configuration :: "('w engine, pyval) op" where
  "phase_configuration =
     db_bind (collect (\<lambda>name. db_bind (getenv name) (\<lambda>v. db_return (name, PStr v))) configuration_names) (\<lambda>d. db_return (PDict d))"

section \<open>Live configuration\<close>

text \<open>A described revision: its document, with the specification and the single container of it.\<close>

record revision_doc =
  rd_doc :: doc
  rd_spec :: doc
  rd_container :: pyval

definition revision_of :: "string \<Rightarrow> pyval \<Rightarrow> revision_doc result" where
  "revision_of revision v =
     (let bad = Inl (RuntimeError ''release revision identity or configuration is invalid'') in
      case v of
        PDict payload \<Rightarrow>
          then_result (inner_doc [''metadata''] payload) (\<lambda>m.
          if \<not> is_str m ''name'' revision then bad
          else
            then_result (inner_doc [''spec''] payload) (\<lambda>spec.
            case dget spec ''containers'' of
              PList [c] \<Rightarrow> Inr \<lparr>rd_doc = payload, rd_spec = spec, rd_container = c\<rparr>
            | _ \<Rightarrow> bad))
      | _ \<Rightarrow> bad)"

definition revision_document :: "'w outside \<Rightarrow> string \<Rightarrow> ('w engine, revision_doc) op" where
  "revision_document C revision =
     with_place (\<lambda>region project.
     db_bind (run_json C (describe_revision revision region project)) (\<lambda>v. reading (\<lambda>_. revision_of revision v)))"

definition release_names :: "string list" where
  "release_names = [''APP_RELEASE_SHA'', ''APP_RELEASE_SCOPE'', ''APP_RELEASE_RESOURCE'']"

fun release_variables :: "doc \<Rightarrow> pyval list \<Rightarrow> doc result" where
  "release_variables acc [] = Inr acc"
| "release_variables acc (v # vs) =
     then_result (attr_dict v) (\<lambda>row.
     then_result (in_set (dget row ''name'') release_names) (\<lambda>wanted.
     release_variables (if wanted then dict_set (py_str (dget row ''name'')) (dget_or row ''value'' (PStr '''')) acc else acc) vs))"

definition spec_digest :: "doc \<Rightarrow> string" where
  "spec_digest spec = sha256_hex (canonical (PDict spec))"

definition runtime_facts :: "revision_doc \<Rightarrow> pyval result" where
  "runtime_facts r =
     then_result (attr_dict (rd_container r)) (\<lambda>c.
     then_result (items_of (dget_or c ''env'' (PList []))) (\<lambda>rows.
     then_result (release_variables [] rows) (\<lambda>values.
     Inr (PDict
       [(''sha'', dget_or values ''APP_RELEASE_SHA'' (PStr '''')), (''scope'', dget_or values ''APP_RELEASE_SCOPE'' (PStr '''')),
        (''resource'', dget_or values ''APP_RELEASE_RESOURCE'' (PStr '''')), (''spec_sha256'', PStr (spec_digest (rd_spec r)))]))))"

definition previous_runtime :: "'w outside \<Rightarrow> string list \<Rightarrow> ('w engine, doc) op" where
  "previous_runtime C =
     collect (\<lambda>revision.
       db_bind (revision_document C revision) (\<lambda>r.
       db_bind (reading (\<lambda>_. runtime_facts r)) (\<lambda>facts. db_return (revision, facts))))"

section \<open>The private boundary\<close>

definition anonymous_private_check :: "'w outside \<Rightarrow> string \<Rightarrow> ('w engine, unit) op" where
  "anonymous_private_check C url =
     db_bind (reading (\<lambda>_. cloud_run_url url)) (\<lambda>_.
     db_bind (env ''CGM_HEALTH_PATH'') (\<lambda>path.
     db_bind (http_open C \<lparr>rq_url = rstrip_slash url @ ''/'' @ lstrip_slash path, rq_headers = [], rq_body = None\<rparr>) (\<lambda>(status, raw).
     check (status = 401 \<or> status = 403) ''private runtime accepts or cannot verify anonymous access'')))"

definition invoker_disabled :: "doc \<Rightarrow> bool" where
  "invoker_disabled values =
     (str_lower (py_str (dget_or values ''run.googleapis.com/invoker-iam-disabled'' (PStr ''false''))) \<noteq> ''false'')"

definition invoker_check :: "pyval \<Rightarrow> unit result" where
  "invoker_check v =
     then_result (attr_dict v) (\<lambda>d.
     then_result (inner_doc [''metadata''] d) (\<lambda>m.
     then_result (inner_doc [''spec'', ''template'', ''metadata''] d) (\<lambda>t.
     let bad = Inl (RuntimeError ''private runtime has its invoker IAM check disabled'') in
     if flag d ''invokerIamDisabled'' then bad
     else
       then_result (attr_dict (dget_or m ''annotations'' (PDict []))) (\<lambda>a.
       if invoker_disabled a then bad
       else
         then_result (attr_dict (dget_or t ''annotations'' (PDict []))) (\<lambda>b. if invoker_disabled b then bad else Inr ())))))"

fun any_public :: "pyval list \<Rightarrow> bool result" where
  "any_public [] = Inr False"
| "any_public (v # vs) =
     then_result (attr_dict v) (\<lambda>row.
     if \<not> is_str row ''role'' ''roles/run.invoker'' then any_public vs
     else
       then_result (items_of (dget_or row ''members'' (PList []))) (\<lambda>members.
       if list_ex (\<lambda>m. in_strs m [''allUsers'', ''allAuthenticatedUsers'']) members then Inr True else any_public vs))"

definition policy_check :: "pyval \<Rightarrow> unit result" where
  "policy_check v =
     then_result (attr_dict v) (\<lambda>d.
     then_result (items_of (dget_or d ''bindings'' (PList []))) (\<lambda>rows.
     then_result (any_public rows) (\<lambda>public.
     if public then Inl (RuntimeError ''private runtime has a public invoker binding'') else Inr ())))"

definition verify_private_boundary :: "'w outside \<Rightarrow> string \<Rightarrow> ('w engine, unit) op" where
  "verify_private_boundary C url =
     db_bind (getenv ''CGM_PRIVATE_RUNTIME'') (\<lambda>private.
     if private \<noteq> ''true'' then db_return ()
     else
       with_service (\<lambda>service region project.
       db_bind (run_json C ([''gcloud'', ''run'', ''services'', ''describe'', service] @ region_args region project @ [''--format=json''])) (\<lambda>v.
       db_bind (reading (\<lambda>_. invoker_check v)) (\<lambda>_.
       db_bind (run_json C ([''gcloud'', ''run'', ''services'', ''get-iam-policy'', service] @ region_args region project @ [''--format=json''])) (\<lambda>p.
       db_bind (reading (\<lambda>_. policy_check p)) (\<lambda>_.
       anonymous_private_check C url))))))"

section \<open>The facts of a candidate\<close>

definition revision_name :: "string \<Rightarrow> bool" where
  "revision_name s =
     (s \<noteq> '''' \<and> length s \<le> 63 \<and> is_lower (hd s) \<and> list_all (\<lambda>c. is_lower c \<or> is_digit c \<or> c = CHR ''-'') s)"

definition image_of :: "string \<Rightarrow> string \<Rightarrow> bool" where
  "image_of authorized img =
     (case take_text (before_last (CHR '':'') authorized @ ''@sha256:'') img of
        None \<Rightarrow> False | Some digest \<Rightarrow> hex_string 64 digest)"

fun any_ready :: "pyval list \<Rightarrow> bool result" where
  "any_ready [] = Inr False"
| "any_ready (v # vs) =
     then_result (attr_dict v) (\<lambda>row.
     if is_str row ''type'' ''Ready'' \<and> is_str row ''status'' ''True'' then Inr True else any_ready vs)"

definition live_revision :: "string \<Rightarrow> string \<Rightarrow> string \<Rightarrow> revision_doc \<Rightarrow> unit result" where
  "live_revision service sha img r =
     (let bad = Inl (RuntimeError ''live candidate identity, image or readiness does not match'') in
      then_result (inner_doc [''metadata'', ''labels''] (rd_doc r)) (\<lambda>labels.
      then_result (attr_dict (dget_or (rd_doc r) ''status'' (PDict []))) (\<lambda>status.
      if \<not> is_str labels ''serving.knative.dev/service'' service \<or> \<not> is_str labels ''commit-sha'' sha then bad
      else
        then_result (attr_dict (rd_container r)) (\<lambda>c.
        if \<not> is_str c ''image'' img then bad
        else
          then_result (in_set (dget status ''imageDigest'') [img, after_last ''@'' img]) (\<lambda>same.
          if \<not> same then bad
          else
            then_result (items_of (dget_or status ''conditions'' (PList []))) (\<lambda>rows.
            then_result (any_ready rows) (\<lambda>ready. if ready then Inr () else bad)))))))"

fun tagged :: "string \<Rightarrow> pyval list \<Rightarrow> doc list result" where
  "tagged tag [] = Inr []"
| "tagged tag (v # vs) =
     then_result (attr_dict v) (\<lambda>row.
     map_result (\<lambda>rest. if is_str row ''tag'' tag then row # rest else rest) (tagged tag vs))"

definition tag_check :: "string \<Rightarrow> string \<Rightarrow> string \<Rightarrow> pyval \<Rightarrow> unit result" where
  "tag_check tag revision url v =
     then_result (traffic_list v) (\<lambda>rows.
     then_result (tagged tag rows) (\<lambda>matches.
     case matches of
       [row] \<Rightarrow>
         if is_str row ''revisionName'' revision \<and> is_str row ''url'' url then Inr ()
         else Inl (RuntimeError ''live candidate tag and URL do not match continuation'')
     | _ \<Rightarrow> Inl (RuntimeError ''live candidate tag and URL do not match continuation'')))"

definition candidate_facts :: "'w outside \<Rightarrow> string \<Rightarrow> string \<Rightarrow> string \<Rightarrow> ('w engine, string) op" where
  "candidate_facts C img revision url =
     db_bind (env ''CGM_IMAGE'') (\<lambda>authorized.
     db_bind (check (image_of authorized img) ''candidate image is not the authorized immutable artifact'') (\<lambda>_.
     db_bind (env ''CGM_SERVICE'') (\<lambda>service.
     db_bind (check (starts_with (service @ ''-'') revision \<and> revision_name revision)
       ''candidate revision does not belong to the service'') (\<lambda>_.
     db_bind (reading (\<lambda>_. cloud_run_url url)) (\<lambda>_.
     db_bind (revision_document C revision) (\<lambda>r.
     db_bind (env ''CGM_RELEASE_SHA'') (\<lambda>sha.
     db_bind (reading (\<lambda>_. live_revision service sha img r)) (\<lambda>_.
     with_place (\<lambda>region project.
     db_bind (run_json C (describe_traffic service region project)) (\<lambda>v.
     db_bind (env ''CGM_REQUEST_FINGERPRINT'') (\<lambda>fp.
     db_bind (reading (\<lambda>_. tag_check (''c-'' @ take 12 fp) revision url v)) (\<lambda>_.
     db_return (spec_digest (rd_spec r))))))))))))))"

end
