(* ===== verification/ExecutorMain.thy ===== *)
theory ExecutorMain
  imports ExecutorPhases
begin

text \<open>
  Staging and promoting a candidate, the summary and \<open>main\<close> of \<open>docker/release-executor/release_executor.py\<close>.
\<close>

section \<open>Staging\<close>

definition candidate_limit :: nat where
  "candidate_limit = 65536"

definition candidate_path :: string where
  "candidate_path = root_path @ ''/.eng-platform-candidate.json''"

text \<open>\<open>runtime_ready(url, candidate=True)\<close>, or the smoke test and the hooks of the candidate\<close>

definition validate_candidate :: "'w outside \<Rightarrow> string \<Rightarrow> ('w engine, unit) op" where
  "validate_candidate C url =
     db_bind independent_runtime (\<lambda>independent.
     if independent then runtime_ready C url True ''''
     else db_bind (smoke C url) (\<lambda>_. run_hooks C ''candidate_hooks''))"

definition continuation :: "pyval \<Rightarrow> pyval \<Rightarrow> string \<Rightarrow> string \<Rightarrow> string \<Rightarrow> string \<Rightarrow> int dict \<Rightarrow> doc \<Rightarrow> doc" where
  "continuation identity configuration img candidate url digest previous runtimes =
     [(''schema_version'', PInt 1), (''identity'', identity), (''configuration'', configuration), (''image_digest'', PStr img),
      (''candidate_revision'', PStr candidate), (''candidate_url'', PStr url), (''candidate_spec_sha256'', PStr digest),
      (''previous_traffic'', traffic_value previous), (''previous_runtime'', PDict runtimes)]"

text \<open>\<open>path.open("xb")\<close>\<close>

definition write_candidate :: "string \<Rightarrow> ('w engine, unit) op" where
  "write_candidate payload w =
     (case candidate_file w of
        Some _ \<Rightarrow> (Inl (FileExistsError candidate_path), w)
      | None \<Rightarrow> (Inr (), w\<lparr>candidate_file := Some payload\<rparr>))"

definition stage_candidate :: "'w outside \<Rightarrow> string \<Rightarrow> ('w engine, string dict) op" where
  "stage_candidate C img =
     with_service (\<lambda>service region project.
     db_bind (traffic_now C service region project) (\<lambda>previous.
     db_bind (previous_runtime C (map fst previous)) (\<lambda>runtimes.
     db_bind (verify_artemis_web C) (\<lambda>_.
     db_bind (service_url C service region project) (\<lambda>serving.
     db_bind (verify_private_boundary C serving) (\<lambda>_.
     db_bind (deploy_candidate C img service region project) (\<lambda>(candidate, url).
     db_bind (verify_private_boundary C url) (\<lambda>_.
     db_bind (candidate_facts C img candidate url) (\<lambda>digest.
     db_bind (emit C ''validate-candidate'' ''running'' []) (\<lambda>_.
     db_bind (validate_candidate C url) (\<lambda>_.
     db_bind (traffic_now C service region project) (\<lambda>now.
     db_bind (check (same_dict now previous) ''production traffic changed during candidate preparation'') (\<lambda>_.
     db_bind phase_identity (\<lambda>identity.
     db_bind phase_configuration (\<lambda>configuration.
     let payload = canonical (PDict (continuation identity configuration img candidate url digest previous runtimes)) in
     db_bind (check (length payload \<le> candidate_limit) ''candidate continuation exceeds the size limit'') (\<lambda>_.
     db_bind (write_candidate payload) (\<lambda>_.
     db_bind (emit C ''validate-candidate'' ''succeeded'' [(''candidate_revision'', candidate), (''candidate_url'', url)]) (\<lambda>_.
     db_return
       [(''phase'', ''candidate''), (''candidate_revision'', candidate), (''candidate_url'', url), (''image_digest'', img),
        (''candidate_sha256'', sha256_hex payload)]))))))))))))))))))"

section \<open>The continuation\<close>

definition continuation_fields :: "string list" where
  "continuation_fields =
     [''schema_version'', ''identity'', ''configuration'', ''image_digest'', ''candidate_revision'', ''candidate_url'',
      ''candidate_spec_sha256'', ''previous_traffic'', ''previous_runtime'']"

text \<open>Equality of the keys of a dictionary with a set of names.\<close>

definition keys_are :: "doc \<Rightarrow> string list \<Rightarrow> bool" where
  "keys_are d names = (list_all (has_key d) names \<and> list_all (\<lambda>(k, _). k \<in> set names) d)"

definition weight_ok :: "string \<Rightarrow> string \<times> pyval \<Rightarrow> bool" where
  "weight_ok service row =
     (starts_with (service @ ''-'') (fst row) \<and> revision_name (fst row) \<and>
      (case snd row of PInt n \<Rightarrow> 0 < n \<and> n \<le> 100 | _ \<Rightarrow> False))"

definition whole :: "pyval \<Rightarrow> int" where
  "whole v = (case v of PInt n \<Rightarrow> n | _ \<Rightarrow> 0)"

definition is_text :: "pyval \<Rightarrow> bool" where
  "is_text v = (case v of PStr _ \<Rightarrow> True | _ \<Rightarrow> False)"

definition snapshot_checks :: "string \<Rightarrow> doc \<Rightarrow> bool" where
  "snapshot_checks service d =
     (case (dget d ''previous_traffic'', dget d ''previous_runtime'') of
        (PDict traffic, PDict runtimes) \<Rightarrow>
          traffic \<noteq> [] \<and> list_all (weight_ok service) traffic \<and> sum_list (map (whole \<circ> snd) traffic) = 100 \<and>
          keys_are runtimes (map fst traffic) \<and>
          list_all (\<lambda>k. is_text (dget d k)) [''image_digest'', ''candidate_revision'', ''candidate_url'', ''candidate_spec_sha256'']
      | _ \<Rightarrow> False)"

definition identity_checks :: "pyval \<Rightarrow> pyval \<Rightarrow> doc \<Rightarrow> bool" where
  "identity_checks identity configuration d =
     (keys_are d continuation_fields \<and> dget d ''schema_version'' = PInt 1 \<and> py_eq (dget d ''identity'') identity \<and>
      py_eq (dget d ''configuration'') configuration)"

definition read_candidate :: "('w engine, string) op" where
  "read_candidate =
     reading (\<lambda>w. case candidate_file w of None \<Rightarrow> Inl (OSError candidate_path) | Some t \<Rightarrow> Inr t)"

definition load_continuation :: "('w engine, doc) op" where
  "load_continuation =
     db_bind (env ''CGM_CANDIDATE_SHA256'') (\<lambda>checksum.
     db_bind (check (hex_string 64 checksum) ''candidate checksum must come from the trusted candidate job'') (\<lambda>_.
     db_bind read_candidate (\<lambda>payload.
     db_bind (check (length payload \<le> candidate_limit \<and> sha256_hex payload = checksum)
       ''candidate continuation checksum or size does not match'') (\<lambda>_.
     db_bind
       (reading (\<lambda>_. case json_loads True payload of
          Inl _ \<Rightarrow> Inl (RuntimeError ''candidate continuation JSON is invalid'') | Inr v \<Rightarrow> Inr v)) (\<lambda>v.
     let bad = RuntimeError ''candidate continuation identity or configuration does not match'' in
     (case v of
        PDict d \<Rightarrow>
          db_bind phase_identity (\<lambda>identity.
          db_bind phase_configuration (\<lambda>configuration.
          if \<not> identity_checks identity configuration d then db_raise bad
          else
            db_bind (env ''CGM_SERVICE'') (\<lambda>service.
            db_bind (check (snapshot_checks service d) ''candidate continuation runtime snapshot is invalid'') (\<lambda>_.
            db_return d))))
      | _ \<Rightarrow> db_raise bad))))))"

section \<open>Promoting\<close>

text \<open>The rows of the previous runtimes: their commit and whether they are independent.\<close>

definition runtime_row :: "string \<times> pyval \<Rightarrow> doc" where
  "runtime_row kv = as_dict (snd kv)"

definition scoped :: "doc \<Rightarrow> bool" where
  "scoped row = is_str row ''scope'' ''runtime-v1''"

definition retire_previous :: "'w outside \<Rightarrow> doc \<Rightarrow> ('w engine, unit) op" where
  "retire_previous C row =
     (if \<not> scoped row then db_return ()
      else
        db_bind (env ''CGM_RELEASE_SHA'') (\<lambda>sha.
        if is_str row ''sha'' sha then db_return () else grant_value C ''retire'' (dget row ''sha'')))"

definition authorize_previous :: "'w outside \<Rightarrow> doc \<Rightarrow> ('w engine, unit) op" where
  "authorize_previous C row =
     db_bind independent_runtime (\<lambda>independent.
     if independent \<and> scoped row then grant_value C ''authorize'' (dget row ''sha'') else db_return ())"

definition staged_promotion ::
  "'w outside \<Rightarrow> string \<Rightarrow> string \<Rightarrow> string \<Rightarrow> doc list \<Rightarrow> string \<Rightarrow> string \<Rightarrow> string \<Rightarrow> ('w engine, string dict) op" where
  "staged_promotion C service region project runtimes candidate url img =
     db_bind independent_runtime (\<lambda>independent.
     db_bind
       (if independent
        then
          db_bind (mark (granted_update (\<lambda>_. True))) (\<lambda>_.
          db_bind (env ''CGM_RELEASE_SHA'') (\<lambda>sha.
          db_bind (runtime_grant C ''authorize'' sha) (\<lambda>_.
          runtime_ready C url False '''')))
        else db_return ()) (\<lambda>_.
     db_bind (run_hooks C ''pre_promote_hooks'') (\<lambda>_.
     db_bind (emit C ''promote'' ''running'' []) (\<lambda>_.
     db_bind (mark (promoted_update (\<lambda>_. True))) (\<lambda>_.
     db_bind (set_traffic C service region project [(candidate, 100)]) (\<lambda>_.
     db_bind (emit C ''promote'' ''succeeded'' [(''production_revision'', candidate)]) (\<lambda>_.
     db_bind (service_url C service region project) (\<lambda>production.
     db_bind (emit C ''validate-production'' ''running'' []) (\<lambda>_.
     db_bind (verify_private_boundary C production) (\<lambda>_.
     db_bind
       (if independent
        then db_bind (runtime_ready C production False '''') (\<lambda>_. for_each (retire_previous C) runtimes)
        else db_bind (smoke C production) (\<lambda>_. run_hooks C ''post_promote_hooks'')) (\<lambda>_.
     db_bind (emit C ''validate-production'' ''succeeded'' [(''production_revision'', candidate), (''production_url'', production)]) (\<lambda>_.
     db_return (released candidate url production img)))))))))))))"

definition staged_recovery ::
  "'w outside \<Rightarrow> string \<Rightarrow> string \<Rightarrow> string \<Rightarrow> int dict \<Rightarrow> doc list \<Rightarrow> py_err \<Rightarrow> ('w engine, string dict) op" where
  "staged_recovery C service region project previous runtimes e =
     db_bind (flagged promoted) (\<lambda>p.
     db_bind (only_if p (restore_runtime C service region project previous (for_each (authorize_previous C) runtimes)
       ''staged release rollback traffic could not be verified'')) (\<lambda>_.
     db_bind (revoke_unless C (map (\<lambda>row. dget row ''sha'') runtimes)) (\<lambda>_.
     if \<not> p then db_raise e
     else
       db_bind (emit_rollback C previous) (\<lambda>_.
       db_raise (AutomaticRollback ''staged release failed; prior traffic was restored'')))))"

definition promote_candidate :: "'w outside \<Rightarrow> ('w engine, string dict) op" where
  "promote_candidate C =
     db_bind load_continuation (\<lambda>d.
     with_service (\<lambda>service region project.
     let traffic = as_dict (dget d ''previous_traffic'');
         previous = map (\<lambda>(k, v). (k, whole v)) traffic;
         runtimes = as_dict (dget d ''previous_runtime'');
         candidate = py_str (dget d ''candidate_revision'');
         url = py_str (dget d ''candidate_url'');
         img = py_str (dget d ''image_digest'');
         changed = ''production traffic or configuration changed after candidate validation'' in
     db_bind (traffic_now C service region project) (\<lambda>now.
     db_bind (check (same_dict now previous) changed) (\<lambda>_.
     db_bind (previous_runtime C (map fst previous)) (\<lambda>current.
     db_bind (check (py_eq (PDict current) (PDict runtimes)) changed) (\<lambda>_.
     db_bind (candidate_facts C img candidate url) (\<lambda>digest.
     db_bind (check (is_str d ''candidate_spec_sha256'' digest) ''candidate revision configuration changed after validation'') (\<lambda>_.
     db_bind (verify_private_boundary C url) (\<lambda>_.
     db_bind (verify_artemis_web C) (\<lambda>_.
     db_bind (validate_candidate C url) (\<lambda>_.
     db_bind (mark (\<lambda>_. no_flags)) (\<lambda>_.
     db_catch (staged_promotion C service region project (map runtime_row runtimes) candidate url img)
       (staged_recovery C service region project previous (map runtime_row runtimes))))))))))))))"

section \<open>The whole release\<close>

definition summary_names :: "(string \<times> string) list" where
  "summary_names =
     [(''deployment_id'', ''CGM_DEPLOYMENT_ID''), (''fingerprint'', ''CGM_REQUEST_FINGERPRINT''), (''service'', ''CGM_SERVICE''),
      (''sha'', ''CGM_RELEASE_SHA''), (''tag'', ''CGM_RELEASE_TAG'')]"

definition result_path :: string where
  "result_path = root_path @ ''/.eng-platform-release-result.json''"

definition write_summary :: "'w outside \<Rightarrow> string dict \<Rightarrow> ('w engine, unit) op" where
  "write_summary C values =
     db_bind (collect (\<lambda>(k, name). db_bind (env name) (\<lambda>v. db_return (k, PStr v))) summary_names) (\<lambda>base.
     db_bind (\<lambda>w. (Inr (), w\<lparr>result_file := Some (dict_update base (map (\<lambda>(k, v). (k, PStr v)) values))\<rparr>)) (\<lambda>_.
     db_bind (getenv ''CGM_EVIDENCE_BUCKET'') (\<lambda>bucket.
     if strip bucket = '''' then db_return ()
     else
       db_bind (env ''CGM_DEPLOYMENT_ID'') (\<lambda>deployment.
       db_bind (run_command C
         [''gcloud'', ''storage'', ''cp'', result_path,
          ''gs://'' @ strip bucket @ ''/deployment-summaries/'' @ deployment @ ''.json'']) (\<lambda>_. db_return ())))))"

definition configure_runtime_home :: "('w engine, unit) op" where
  "configure_runtime_home =
     db_bind (getenv ''BUILD_ID'') (\<lambda>build. only_if (strip build \<noteq> '''') (setenv ''HOME'' ''/builder/home''))"

text \<open>What \<open>main\<close> checks before it touches anything.\<close>

definition gates :: "'w outside \<Rightarrow> ('w engine, string) op" where
  "gates C =
     db_bind release_phase (\<lambda>phase.
     db_bind configure_runtime_home (\<lambda>_.
     db_bind verify_profile (\<lambda>_.
     db_bind (assert_source C) (\<lambda>_.
     db_bind (verify_hooks C) (\<lambda>_.
     db_bind (emit C ''verify-release'' ''running'' []) (\<lambda>_.
     db_bind (env ''CGM_OPERATION'') (\<lambda>action.
     db_bind
       (if action \<noteq> ''rollback'' then db_return True else independent_runtime) (\<lambda>evidence.
     db_bind (only_if evidence (verify_quality C)) (\<lambda>_.
     db_bind (emit C ''verify-release'' ''succeeded'' []) (\<lambda>_.
     db_return phase))))))))))"

definition build_and_deploy :: "'w outside \<Rightarrow> string \<Rightarrow> ('w engine, unit) op" where
  "build_and_deploy C phase =
     db_bind (emit C ''build'' ''running'' []) (\<lambda>_.
     db_bind (image_for_tag C) (\<lambda>img.
     db_bind (emit C ''build'' ''succeeded'' [(''image_digest'', img)]) (\<lambda>_.
     db_bind (getenv ''CGM_RUNTIME_KIND'') (\<lambda>kind.
     db_bind
       (if phase = ''candidate'' then stage_candidate C img
        else if kind = ''cloud_run_job'' then deploy_job C img
        else deploy C img) (write_summary C)))))"

definition main :: "'w outside \<Rightarrow> ('w engine, unit) op" where
  "main C =
     db_bind (gates C) (\<lambda>phase.
     db_bind (env ''CGM_OPERATION'') (\<lambda>action.
     if action = ''rollback'' then db_bind (rollback C) (write_summary C)
     else if phase = ''promote'' then db_bind (promote_candidate C) (write_summary C)
     else
       db_bind
         (if phase = ''candidate''
          then reading (\<lambda>w. case candidate_file w of None \<Rightarrow> Inr ()
            | Some _ \<Rightarrow> Inl (FileExistsError ''candidate continuation already exists; reconcile before retry''))
          else db_return ()) (\<lambda>_.
       build_and_deploy C phase)))"

text \<open>The end of a run: a failure that is no automatic rollback is reported at the stage it happened.\<close>

definition run_main :: "'w outside \<Rightarrow> ('w engine, unit) op" where
  "run_main C =
     db_catch (main C) (\<lambda>e.
       case e of
         AutomaticRollback _ \<Rightarrow> db_raise e
       | _ \<Rightarrow>
           db_bind (getenv_or ''CGM_CURRENT_STAGE'' ''verify-release'') (\<lambda>stage.
           db_bind (emit C stage ''failed'' [(''error'', err_text e)]) (\<lambda>_.
           db_raise e)))"

end
