(* ===== verification/ExecutorLaws.thy ===== *)
theory ExecutorLaws
  imports ExecutorMain
begin

text \<open>
  What every step of the release executor leaves alone.  The laws of Cloud Run that the releases rely on are \<open>traffic_laws\<close>;
  each operation is shown to keep the live traffic, the flags and the inputs of the release, so that a property of a whole
  release only follows the few steps that do not.
\<close>

section \<open>Cloud Run\<close>

definition moves_traffic :: "string list \<Rightarrow> bool" where
  "moves_traffic args =
     (take 4 args = [''gcloud'', ''run'', ''services'', ''update-traffic''] \<and> take 1 (drop 5 args) = [''--to-revisions''])"

definition is_script :: "string list \<Rightarrow> bool" where
  "is_script args = (take 1 args = [''bash''])"

text \<open>
  \<open>live\<close> is the production traffic of the service.  Only \<open>update-traffic --to-revisions\<close> and scripts of the repository change
  it; what \<open>describe\<close> reports is it; a successful update to a single revision sets it.  A failed update may do anything.
\<close>

definition traffic_laws :: "'w outside \<Rightarrow> ('w \<Rightarrow> int dict) \<Rightarrow> string \<Rightarrow> string \<Rightarrow> string \<Rightarrow> bool" where
  "traffic_laws C live service region project \<longleftrightarrow>
     (\<forall>args file w. \<not> moves_traffic args \<longrightarrow> \<not> is_script args \<longrightarrow> live (snd (cl_exec C args file w)) = live w) \<and>
     (\<forall>follow q w. live (snd (cl_open C follow q w)) = live w) \<and>
     (\<forall>uri w. live (snd (cl_fetch C uri w)) = live w) \<and>
     (\<forall>w out err w' t.
        cl_exec C (describe_traffic service region project) None w = (Inr (0, out, err), w') \<longrightarrow>
        then_result (json_loads False (strip out)) snapshot = Inr t \<longrightarrow> t = live w') \<and>
     (\<forall>w revision out err w'.
        cl_exec C (update_traffic service (revision @ ''=100'') region project) None w = (Inr (0, out, err), w') \<longrightarrow>
        live w' = [(revision, 100)])"

section \<open>Inputs and reporting\<close>

text \<open>The variables the executor sets itself; all others are inputs, which nothing changes.\<close>

definition own_names :: "string list" where
  "own_names =
     [''HOME'', ''CGM_CURRENT_STAGE'', ''CGM_EVENT_SEQUENCE'', ''CGM_PREVIOUS_TRAFFIC'', ''CGM_RESOLVED_IMAGE'',
      ''CGM_CANDIDATE_REVISION'', ''CGM_CANDIDATE_URL'', ''CGM_PRODUCTION_URL'']"

definition inputs :: "string dict \<Rightarrow> string \<Rightarrow> string option" where
  "inputs e name = (if name \<in> set own_names then None else map_of e name)"

definition lookup :: "string dict \<Rightarrow> string \<Rightarrow> string" where
  "lookup e name = (case map_of e name of None \<Rightarrow> '''' | Some v \<Rightarrow> v)"

text \<open>Whether \<open>emit\<close> returns: nothing is reported, or its sequence and fingerprint can be read.\<close>

definition reporting :: "string dict \<Rightarrow> bool" where
  "reporting e =
     (rstrip_slash (lookup e ''CGM_PLATFORM_API_URL'') = '''' \<or> strip (lookup e ''BUILD_ID'') = '''' \<or>
      ((case map_of e ''CGM_EVENT_SEQUENCE'' of None \<Rightarrow> True | Some v \<Rightarrow> parse_int v \<noteq> None) \<and>
       strip (lookup e ''CGM_REQUEST_FINGERPRINT'') \<noteq> ''''))"

definition watch :: "('w \<Rightarrow> int dict) \<Rightarrow> 'w engine \<Rightarrow> int dict \<times> flags \<times> (string \<Rightarrow> string option) \<times> bool" where
  "watch live w = (live (world w), flags w, inputs (environ w), reporting (environ w))"

section \<open>Steps that keep what is watched\<close>

lemma digits_value_some: "list_all is_digit s \<Longrightarrow> s \<noteq> [] \<or> after \<Longrightarrow> digits_value after acc s \<noteq> None"
  by (induction s arbitrary: after acc) auto

lemma is_digit_not_space: "is_digit c \<Longrightarrow> \<not> is_space c"
  by (auto simp: is_digit_def is_space_def Let_def)

lemma dropWhile_space_digits: "list_all is_digit s \<Longrightarrow> dropWhile is_space s = s"
  by (cases s) (auto simp: is_digit_not_space)

lemma strip_int_text: "strip (int_text i) = int_text i"
proof -
  have d: "list_all is_digit (rev (nat_text n))" for n
    using nat_text_digits [of n] by (simp add: list_all_iff)
  have "dropWhile is_space (rev (nat_text n) @ [CHR ''-'']) = rev (nat_text n) @ [CHR ''-'']" for n
    using d [of n] nat_text_nonempty [of n]
    by (cases "rev (nat_text n)") (auto simp: is_digit_not_space)
  moreover have "\<not> is_space (CHR ''-'')" by (simp add: is_space_def)
  ultimately show ?thesis
    using d nat_text_digits by (auto simp: strip_def int_text_def dropWhile_space_digits)
qed

lemma parse_int_int_text: "parse_int (int_text i) \<noteq> None"
proof -
  have d: "digits_value False 0 (nat_text n) \<noteq> None" for n
    by (rule digits_value_some) (simp_all add: nat_text_digits)
  have "\<exists>c cs. nat_text n = c # cs \<and> is_digit c" for n
    using nat_text_digits [of n] nat_text_nonempty [of n] by (cases "nat_text n") auto
  then obtain c cs where c: "nat_text (nat i) = c # cs" "is_digit c" by blast
  then have "c \<noteq> CHR ''-''" "c \<noteq> CHR ''+''" by (auto simp: is_digit_def)
  then show ?thesis
    using d [of "nat i"] d [of "nat (- i)"] c
    unfolding parse_int_def strip_int_text
    by (auto simp: int_text_def)
qed

lemma lookup_set: "lookup (dict_set k v e) name = (if name = k then v else lookup e name)"
  by (simp add: lookup_def dict_simps)

lemma inputs_set: "k \<in> set own_names \<Longrightarrow> inputs (dict_set k v e) = inputs e"
  by (rule ext) (auto simp: inputs_def dict_simps)

lemma own_facts:
  "''CGM_PLATFORM_API_URL'' \<notin> set own_names" "''BUILD_ID'' \<notin> set own_names" "''CGM_REQUEST_FINGERPRINT'' \<notin> set own_names"
  "''CGM_EVENT_SEQUENCE'' \<in> set own_names" "''CGM_CURRENT_STAGE'' \<in> set own_names"
  by (simp_all add: own_names_def)

lemma own_ne:
  "name \<in> set own_names \<Longrightarrow> name \<noteq> ''CGM_PLATFORM_API_URL''" "name \<in> set own_names \<Longrightarrow> name \<noteq> ''BUILD_ID''"
  "name \<in> set own_names \<Longrightarrow> name \<noteq> ''CGM_REQUEST_FINGERPRINT''"
  using own_facts by metis+

lemma reporting_set:
  assumes "name \<in> set own_names" "name \<noteq> ''CGM_EVENT_SEQUENCE''"
  shows "reporting (dict_set name v e) = reporting e"
  using assms own_ne [OF assms(1)] by (auto simp: reporting_def lookup_set dict_simps)

lemma keeps_watch_setenv [keeping]:
  "name \<in> set own_names \<Longrightarrow> name \<noteq> ''CGM_EVENT_SEQUENCE'' \<Longrightarrow> keeps (watch live) (setenv name v)"
  by (simp add: keeps_def setenv_def watch_def inputs_set reporting_set)

lemma keeps_if [keeping]: "(b \<Longrightarrow> keeps f m) \<Longrightarrow> (\<not> b \<Longrightarrow> keeps f m') \<Longrightarrow> keeps f (if b then m else m')"
  by simp

lemma keeps_swallow [keeping]: "keeps f m \<Longrightarrow> keeps f (swallow m)"
  by (simp add: keeps_def swallow_def)

lemma keeps_getenv [keeping]: "keeps f (getenv_or n v)" "keeps f (getenv n)" "keeps f (env n)"
  by (auto simp: getenv_or_def getenv_def env_def intro!: keeping)

lemma keeps_check [keeping]: "keeps f (check b m)"
  by (auto simp: check_def intro: keeping)

lemma keeps_with [keeping]:
  "(\<And>region project. keeps f (k region project)) \<Longrightarrow> keeps f (with_place k)"
  "(\<And>service region project. keeps f (k' service region project)) \<Longrightarrow> keeps f (with_service k')"
  by (auto simp: with_place_def with_service_def intro!: keeping)

section \<open>Quiet operations\<close>

definition quiet :: "'w outside \<Rightarrow> ('w \<Rightarrow> int dict) \<Rightarrow> bool" where
  "quiet C live \<longleftrightarrow>
     (\<forall>args file w. \<not> moves_traffic args \<longrightarrow> \<not> is_script args \<longrightarrow> live (snd (cl_exec C args file w)) = live w) \<and>
     (\<forall>follow q w. live (snd (cl_open C follow q w)) = live w) \<and>
     (\<forall>uri w. live (snd (cl_fetch C uri w)) = live w)"

lemma laws_quiet: "traffic_laws C live s r p \<Longrightarrow> quiet C live"
  by (simp add: traffic_laws_def quiet_def)

lemma keeps_outside: "(\<And>w. live (snd (f w)) = live w) \<Longrightarrow> keeps (watch live) (outside_op f)"
  by (simp add: keeps_def outside_op_def watch_def case_prod_beta)

lemma keeps_process [keeping]:
  "quiet C live \<Longrightarrow> \<not> moves_traffic args \<Longrightarrow> \<not> is_script args \<Longrightarrow> keeps (watch live) (process C file args)"
  unfolding process_def by (rule keeps_outside) (simp add: quiet_def)

lemma keeps_split [keeping]: "(\<And>x y z. keeps f (k x y z)) \<Longrightarrow> keeps f (case t of (x, y, z) \<Rightarrow> k x y z)"
  by (cases t) auto

lemma keeps_run [keeping]:
  assumes "quiet C live" "\<not> moves_traffic args" "\<not> is_script args"
  shows "keeps (watch live) (run_file C file args)" "keeps (watch live) (run_command C args)" "keeps (watch live) (run_json C args)"
  unfolding run_json_def run_command_def run_file_def using assms by (auto intro!: keeping)

lemma keeps_http [keeping]:
  "quiet C live \<Longrightarrow> keeps (watch live) (http_open C q)" "quiet C live \<Longrightarrow> keeps (watch live) (outside_op (cl_open C b q))"
  "quiet C live \<Longrightarrow> keeps (watch live) (outside_op (cl_fetch C uri))"
  unfolding http_open_def by (auto intro!: keeps_outside simp: quiet_def)

text \<open>Commands are told apart by their first words.\<close>

lemma moves_traffic_words [simp]:
  "moves_traffic (a # b # c # d # rest) \<longleftrightarrow>
     a = ''gcloud'' \<and> b = ''run'' \<and> c = ''services'' \<and> d = ''update-traffic'' \<and> take 1 (drop 1 rest) = [''--to-revisions'']"
  by (simp add: moves_traffic_def)

lemma moves_traffic_short [simp]: "\<not> moves_traffic [a, b, c]" "\<not> moves_traffic [a, b]"
  by (simp_all add: moves_traffic_def)

lemma is_script_word [simp]: "is_script (a # rest) \<longleftrightarrow> a = ''bash''"
  by (simp add: is_script_def)

subsection \<open>Events\<close>

definition silent :: "string dict \<Rightarrow> bool" where
  "silent e = (rstrip_slash (lookup e ''CGM_PLATFORM_API_URL'') = '''' \<or> strip (lookup e ''BUILD_ID'') = '''')"

definition sequence_of :: "string dict \<Rightarrow> int option" where
  "sequence_of e = parse_int (case map_of e ''CGM_EVENT_SEQUENCE'' of None \<Rightarrow> ''0'' | Some v \<Rightarrow> v)"

lemma parse_zero: "parse_int ''0'' = Some 0"
  by code_simp

lemma reporting_sequence:
  "reporting e \<longleftrightarrow> silent e \<or> sequence_of e \<noteq> None \<and> strip (lookup e ''CGM_REQUEST_FINGERPRINT'') \<noteq> ''''"
  by (auto simp: reporting_def silent_def sequence_of_def parse_zero split: option.splits)

lemma getenv_eq: "getenv n w = (Inr (lookup (environ w) n), w)"
  by (simp add: getenv_def getenv_or_def reading_def lookup_def)

lemma env_eq:
  "env n w =
     (if strip (lookup (environ w) n) = '''' then (Inl (RuntimeError (''missing required engine input: '' @ n)), w)
      else (Inr (strip (lookup (environ w) n)), w))"
  by (simp add: env_def db_bind_def getenv_eq db_raise_def db_return_def)

lemma keeps_post_event: "quiet C live \<Longrightarrow> keeps (watch live) (post_event C url event)"
  unfolding post_event_def by (auto intro!: keeping)

lemma emit_eq:
  "emit C stage status vs w =
     (let w1 = (if status = ''running'' then w\<lparr>environ := dict_set ''CGM_CURRENT_STAGE'' stage (environ w)\<rparr> else w) in
      if silent (environ w) then (Inr (), w)
      else
        (case sequence_of (environ w) of
           None \<Rightarrow> (Inl (ValueError ''invalid literal for int() with base 10''), w1)
         | Some n \<Rightarrow>
             (let w2 = w1\<lparr>environ := dict_set ''CGM_EVENT_SEQUENCE'' (int_text (n + 1)) (environ w1)\<rparr> in
              if strip (lookup (environ w) ''CGM_REQUEST_FINGERPRINT'') = ''''
              then (Inl (RuntimeError ''missing required engine input: CGM_REQUEST_FINGERPRINT''), w2)
              else
                (Inr (), snd (post_event C (rstrip_slash (lookup (environ w) ''CGM_PLATFORM_API_URL''))
                  (event_body (lookup (environ w) ''BUILD_ID'') (strip (lookup (environ w) ''CGM_REQUEST_FINGERPRINT''))
                    (n + 1) stage status vs) w2)))))"
  by (simp add: emit_def db_bind_def getenv_eq env_eq silent_def sequence_of_def getenv_or_def reading_def setenv_def
      db_return_def swallow_def lookup_set dict_simps Let_def split: option.splits cong: if_cong)

lemma watch_stage [simp]:
  "watch live (w\<lparr>environ := dict_set ''CGM_CURRENT_STAGE'' stage (environ w)\<rparr>) = watch live w"
  by (simp add: watch_def inputs_set reporting_set own_facts)

lemma watch_sequence:
  assumes "sequence_of (environ w) \<noteq> None"
  shows "watch live (w\<lparr>environ := dict_set ''CGM_EVENT_SEQUENCE'' (int_text n) (environ w)\<rparr>) = watch live w"
  using assms by (simp add: watch_def inputs_set own_facts reporting_sequence silent_def lookup_set)
    (simp add: sequence_of_def dict_simps parse_int_int_text [simplified])

lemma watch_stage_sequence:
  assumes "sequence_of (environ w) \<noteq> None"
  shows "watch live (w\<lparr>environ := dict_set ''CGM_EVENT_SEQUENCE'' (int_text n) (dict_set ''CGM_CURRENT_STAGE'' stage (environ w))\<rparr>) =
         watch live w"
proof -
  let ?v = "w\<lparr>environ := dict_set ''CGM_CURRENT_STAGE'' stage (environ w)\<rparr>"
  have "sequence_of (environ ?v) \<noteq> None" using assms by (simp add: sequence_of_def dict_simps)
  from watch_sequence [OF this, of live n] show ?thesis by simp
qed

lemma keeps_emit [keeping]: "quiet C live \<Longrightarrow> keeps (watch live) (emit C stage status vs)"
  using keepsD [OF keeps_post_event surjective_pairing, of C live]
  by (auto simp: keeps_def emit_eq Let_def watch_sequence watch_stage_sequence split: option.splits)

lemma emit_returns: "fst (emit C stage status vs w) = Inr () \<longleftrightarrow> reporting (environ w)"
  by (simp add: emit_eq reporting_sequence Let_def split: option.split)

section \<open>The operations that are quiet\<close>

lemma keeps_case_option [keeping]:
  "(x = None \<Longrightarrow> keeps f m) \<Longrightarrow> (\<And>y. keeps f (k y)) \<Longrightarrow> keeps f (case x of None \<Rightarrow> m | Some y \<Rightarrow> k y)"
  by (cases x) auto

lemma keeps_case_pair [keeping]: "(\<And>x y. keeps f (k x y)) \<Longrightarrow> keeps f (case t of (x, y) \<Rightarrow> k x y)"
  by (cases t) auto

lemma keeps_Let [keeping]: "(\<And>x. keeps f (k x)) \<Longrightarrow> keeps f (let x = v in k x)"
  by simp

lemma keeps_only_if [keeping]: "keeps f m \<Longrightarrow> keeps f (only_if b m)"
  by (auto simp: only_if_def intro: keeping)

lemma keeps_flagged [keeping]: "keeps f (flagged g)"
  by (auto simp: flagged_def intro: keeping)

lemma keeps_token [keeping]:
  assumes "quiet C live"
  shows "keeps (watch live) (print_token C audience)" "keeps (watch live) (token_json C stage q)"
proof -
  show "keeps (watch live) (print_token C audience)"
    unfolding print_token_def using assms by (auto intro!: keeping)
  have "keeps f (case r of Inl e \<Rightarrow> db_raise u | Inr (PDict d) \<Rightarrow> db_return d | Inr _ \<Rightarrow> db_raise u)" for f r u
    by (auto intro!: keeping split: sum.split pyval.split)
  then show "keeps (watch live) (token_json C stage q)"
    unfolding token_json_def Let_def using assms by (auto intro!: keeping)
qed

lemma keeps_identity_token [keeping]:
  assumes "quiet C live"
  shows "keeps (watch live) (exchange_token C audience f)" "keeps (watch live) (identity_token C audience)"
proof -
  show *: "keeps (watch live) (exchange_token C audience f)" for f
    unfolding exchange_token_def using assms by (auto intro!: keeping)
  have dict: "keeps (watch live) (case json_loads False raw of Inr (PDict config) \<Rightarrow> k config | _ \<Rightarrow> db_raise u)"
    if "\<And>config. keeps (watch live) (k config)" for raw k u
    using that by (auto intro!: keeping split: sum.split pyval.split)
  show "keeps (watch live) (identity_token C audience)"
    unfolding identity_token_def Let_def using assms by (auto intro!: keeping * dict)
qed

lemma keeps_profile [keeping]: "keeps f profile_spec" "keeps f verify_profile" "keeps f independent_runtime"
  unfolding profile_spec_def verify_profile_def independent_runtime_def by (auto intro!: keeping)

lemma keeps_source [keeping]:
  assumes "quiet C live"
  shows "keeps (watch live) (assert_source C)" "keeps (watch live) (verify_quality C)" "keeps (watch live) (hook_check C name)"
    "keeps (watch live) (verify_hooks C)" "keeps (watch live) (config_check C)"
  unfolding assert_source_def verify_quality_def open_json_def hook_check_def verify_hooks_def config_check_def
  using assms by (auto intro!: keeping)

lemma keeps_unless [keeping]: "keeps f m \<Longrightarrow> keeps f (unless_failed m v)"
  unfolding unless_failed_def by (auto intro!: keeping split: py_err.split)

lemma keeps_image [keeping]:
  assumes "quiet C live"
  shows "keeps (watch live) (described_digest C img)" "keeps (watch live) (serving_image C)" "keeps (watch live) (existing_image C img)"
    "keeps (watch live) (build_image C img)" "keeps (watch live) (image_for_tag C)"
proof -
  show d: "keeps (watch live) (described_digest C img)" for img
    unfolding described_digest_def using assms by (auto intro!: keeping)
  show s: "keeps (watch live) (serving_image C)"
    unfolding serving_image_def using assms by (auto intro!: keeping)
  show e: "keeps (watch live) (existing_image C img)" for img
    unfolding existing_image_def using assms by (auto intro!: keeping d)
  show b: "keeps (watch live) (build_image C img)" for img
    unfolding build_image_def Let_def using assms by (auto intro!: keeping d s)
  show "keeps (watch live) (image_for_tag C)"
    unfolding image_for_tag_def using assms by (auto intro!: keeping e b)
qed

lemma keeps_service_state [keeping]:
  assumes "quiet C live"
  shows "keeps (watch live) (traffic_now C s r p)" "keeps (watch live) (service_url C s r p)"
    "keeps (watch live) (created_revision C s r p)"
  unfolding traffic_now_def service_url_def created_revision_def describe_traffic_def using assms by (auto intro!: keeping)

lemma keeps_row [keeping]:
  assumes "quiet C live"
  shows "keeps (watch live) (row_value C profile name template)" "keeps (watch live) (candidate_env_args C)"
proof -
  show r: "keeps (watch live) (row_value C profile name template)" for name template profile
    unfolding row_value_def using assms by (auto intro!: keeping)
  show "keeps (watch live) (candidate_env_args C)"
    unfolding candidate_env_args_def Let_def using assms by (auto intro!: keeping r)
qed

lemma keeps_smoke [keeping]:
  assumes "quiet C live"
  shows "keeps (watch live) (private_headers C)" "keeps (watch live) (smoke_attempts C q n)" "keeps (watch live) (smoke C url)"
proof -
  show h: "keeps (watch live) (private_headers C)"
    unfolding private_headers_def using assms by (auto intro!: keeping)
  show a: "keeps (watch live) (smoke_attempts C q n)" for q n
    using assms by (induction n) (auto intro!: keeping)
  show "keeps (watch live) (smoke C url)"
    unfolding smoke_def using assms by (auto intro!: keeping h a)
qed

lemma keeps_candidate [keeping]:
  "quiet C live \<Longrightarrow> keeps (watch live) (deploy_candidate C img s r p)"
  unfolding deploy_candidate_def Let_def candidate_update_def tag_update_def describe_traffic_def by (auto intro!: keeping)

lemma keeps_grant [keeping]:
  assumes "quiet C live"
  shows "keeps (watch live) (runtime_grant C action sha)" "keeps (watch live) (grant_value C action v)"
    "keeps (watch live) (revision_runtime C revision)"
proof -
  show g: "keeps (watch live) (runtime_grant C action sha)" for sha
    unfolding runtime_grant_def grant_command_def using assms by (auto intro!: keeping)
  show "keeps (watch live) (grant_value C action v)"
    unfolding grant_value_def by (auto intro!: keeping g split: pyval.split)
  show "keeps (watch live) (revision_runtime C revision)"
    unfolding revision_runtime_def describe_revision_def using assms by (auto intro!: keeping)
qed

lemma keeps_ready [keeping]:
  assumes "quiet C live"
  shows "keeps (watch live) (ready_once C url b sha)" "keeps (watch live) (runtime_ready C url b sha)"
    "keeps (watch live) (verify_artemis_web C)"
proof -
  show o: "keeps (watch live) (ready_once C url b sha)"
    unfolding ready_once_def using assms by (auto intro!: keeping)
  have "keeps (watch live) (ready_attempts C url b sha n)" for n
    by (induction n) (auto intro!: keeping o)
  then show "keeps (watch live) (runtime_ready C url b sha)"
    by (simp add: runtime_ready_def)
  show "keeps (watch live) (verify_artemis_web C)"
    unfolding verify_artemis_web_def using assms by (auto intro!: keeping)
qed

lemma keeps_release [keeping]:
  assumes "quiet C live"
  shows "keeps (watch live) (emit_rollback C traffic)" "keeps (watch live) (retire C row)" "keeps (watch live) (reauthorize C row)"
    "keeps (watch live) (revoke_unless C shas)"
  unfolding emit_rollback_def retire_def reauthorize_def revoke_unless_def Let_def using assms by (auto intro!: keeping)

text \<open>The hooks of a profile without scripts.\<close>

lemma keeps_phase [keeping]: "keeps f release_phase" "keeps f phase_identity" "keeps f phase_configuration"
  unfolding release_phase_def phase_identity_def phase_configuration_def Let_def by (auto intro!: keeping)

end
