(* ===== verification/ExecutorOutcomes.thy ===== *)
theory ExecutorOutcomes
  imports ExecutorLaws
begin

text \<open>
  Where production traffic is after a release: Hoare triples over the steps of a release, with a postcondition for its result
  and one for its exception, and the outcomes of \<open>deploy\<close>, \<open>deploy_runtime\<close> and \<open>promote_candidate\<close>.
\<close>

section \<open>Triples\<close>

definition triple :: "('s \<Rightarrow> bool) \<Rightarrow> ('s, 'a) op \<Rightarrow> ('a \<Rightarrow> 's \<Rightarrow> bool) \<Rightarrow> (py_err \<Rightarrow> 's \<Rightarrow> bool) \<Rightarrow> bool" where
  "triple P m Q E \<longleftrightarrow> (\<forall>w. P w \<longrightarrow> (case m w of (Inr x, w') \<Rightarrow> Q x w' | (Inl e, w') \<Rightarrow> E e w'))"

lemma tripleD: "triple P m Q E \<Longrightarrow> P w \<Longrightarrow> m w = (Inr x, w') \<Longrightarrow> Q x w'"
  "triple P m Q E \<Longrightarrow> P w \<Longrightarrow> m w = (Inl e, w') \<Longrightarrow> E e w'"
  by (fastforce simp: triple_def)+

lemma triple_bind:
  "triple P m Q E \<Longrightarrow> (\<And>x. triple (Q x) (k x) R E) \<Longrightarrow> triple P (db_bind m k) R E"
  unfolding triple_def db_bind_def by (fastforce split: prod.splits sum.splits)

lemma triple_catch:
  "triple P m Q F \<Longrightarrow> (\<And>e. triple (F e) (h e) Q E) \<Longrightarrow> triple P (db_catch m h) Q E"
  unfolding triple_def db_catch_def by (fastforce split: prod.splits sum.splits)

lemma triple_basic:
  "(\<And>w. P w \<Longrightarrow> Q x w) \<Longrightarrow> triple P (db_return x) Q E"
  "(\<And>w. P w \<Longrightarrow> E e w) \<Longrightarrow> triple P (db_raise e) Q E"
  "(\<And>w x. P w \<Longrightarrow> f w = Inr x \<Longrightarrow> Q x w) \<Longrightarrow> (\<And>w e. P w \<Longrightarrow> f w = Inl e \<Longrightarrow> E e w) \<Longrightarrow> triple P (reading f) Q E"
  by (auto simp: triple_def db_return_def db_raise_def reading_def split: sum.split)

lemma triple_weaken:
  "triple P m Q E \<Longrightarrow> (\<And>w. P' w \<Longrightarrow> P w) \<Longrightarrow> (\<And>x w. Q x w \<Longrightarrow> Q' x w) \<Longrightarrow> (\<And>e w. E e w \<Longrightarrow> E' e w) \<Longrightarrow> triple P' m Q' E'"
  unfolding triple_def by (fastforce split: prod.splits sum.splits)

lemma triple_if: "(b \<Longrightarrow> triple P m Q E) \<Longrightarrow> (\<not> b \<Longrightarrow> triple P m' Q E) \<Longrightarrow> triple P (if b then m else m') Q E"
  by simp

text \<open>An operation that keeps \<open>f\<close> keeps every condition on it.\<close>

lemma triple_keeps:
  assumes k: "keeps f m" and P: "\<And>w w'. f w' = f w \<Longrightarrow> P w \<Longrightarrow> P w'" and E: "\<And>e w. P w \<Longrightarrow> E e w"
  shows "triple P m (\<lambda>_. P) E"
  unfolding triple_def
proof (intro allI impI)
  fix w assume w: "P w"
  obtain r w' where m: "m w = (r, w')" by (cases "m w")
  have "P w'" using P [OF keepsD [OF k m] w] .
  then show "case m w of (Inl e, w') \<Rightarrow> E e w' | (Inr x, w') \<Rightarrow> P w'"
    using E by (simp add: m split: sum.split)
qed

section \<open>Conditions on a release\<close>

text \<open>The state of a release with hooks that are no scripts.\<close>

definition hook_free :: "doc \<Rightarrow> bool" where
  "hook_free spec =
     (list_all (\<lambda>phase. list_all (\<lambda>name. name = ''verify_candidate_config'') (hooks_of phase spec))
        [''pre_candidate_hooks'', ''candidate_hooks'', ''pre_promote_hooks'', ''post_promote_hooks''] \<and>
      hooks_of ''pre_candidate_hooks'' spec = [] \<and> hooks_of ''pre_promote_hooks'' spec = [] \<and>
      dget spec ''recovery_hook'' = PStr '''')"

definition scriptless :: "'w engine \<Rightarrow> bool" where
  "scriptless w = (case fst (profile_spec w) of Inl _ \<Rightarrow> True | Inr spec \<Rightarrow> hook_free spec)"

definition input :: "'w engine \<Rightarrow> string \<Rightarrow> string" where
  "input w name = strip (lookup (environ w) name)"

definition release_laws :: "'w outside \<Rightarrow> ('w \<Rightarrow> int dict) \<Rightarrow> 'w engine \<Rightarrow> bool" where
  "release_laws C live w = traffic_laws C live (input w ''CGM_SERVICE'') (input w ''CGM_REGION'') (input w ''CGM_PROJECT_ID'')"

lemma lookup_inputs: "inputs e = inputs e' \<Longrightarrow> name \<notin> set own_names \<Longrightarrow> lookup e name = lookup e' name"
  unfolding inputs_def lookup_def by (metis (no_types, lifting))

lemma profile_inputs: "inputs (environ w) = inputs (environ w') \<Longrightarrow> fst (profile_spec w) = fst (profile_spec w')"
proof -
  assume "inputs (environ w) = inputs (environ w')"
  then have "lookup (environ w) ''CGM_PROFILE'' = lookup (environ w') ''CGM_PROFILE''"
    by (rule lookup_inputs) (simp add: own_names_def)
  then show ?thesis by (simp add: profile_spec_def db_bind_def env_eq reading_def)
qed

text \<open>Before promotion: the traffic \<open>L\<close>, no flag but \<open>granted\<close>, and the inputs \<open>I\<close>.  After it: the flag.\<close>

definition calm :: "('w \<Rightarrow> int dict) \<Rightarrow> int dict \<Rightarrow> (string \<Rightarrow> string option) \<Rightarrow> 'w engine \<Rightarrow> bool" where
  "calm live L I w \<longleftrightarrow> live (world w) = L \<and> \<not> promoted (flags w) \<and> \<not> started (flags w) \<and> inputs (environ w) = I"

definition telling :: "('w \<Rightarrow> int dict) \<Rightarrow> int dict \<Rightarrow> (string \<Rightarrow> string option) \<Rightarrow> 'w engine \<Rightarrow> bool" where
  "telling live L I w \<longleftrightarrow> calm live L I w \<and> reporting (environ w)"

definition moved :: "('w \<Rightarrow> int dict) \<Rightarrow> (string \<Rightarrow> string option) \<Rightarrow> 'w engine \<Rightarrow> bool" where
  "moved live I w \<longleftrightarrow> promoted (flags w) \<and> inputs (environ w) = I \<and> reporting (environ w)"

definition serving :: "('w \<Rightarrow> int dict) \<Rightarrow> string \<Rightarrow> (string \<Rightarrow> string option) \<Rightarrow> 'w engine \<Rightarrow> bool" where
  "serving live c I w \<longleftrightarrow> moved live I w \<and> live (world w) = [(c, 100)]"

definition either :: "('w \<Rightarrow> int dict) \<Rightarrow> int dict \<Rightarrow> (string \<Rightarrow> string option) \<Rightarrow> py_err \<Rightarrow> 'w engine \<Rightarrow> bool" where
  "either live L I e w \<longleftrightarrow> calm live L I w \<or> moved live I w"

lemma watch_eq:
  "watch live w' = watch live w \<longleftrightarrow>
     live (world w') = live (world w) \<and> flags w' = flags w \<and> inputs (environ w') = inputs (environ w) \<and>
     reporting (environ w') = reporting (environ w)"
  by (auto simp: watch_def)

lemma calm_watch: "watch live w' = watch live w \<Longrightarrow> calm live L I w \<Longrightarrow> calm live L I w'"
  and serving_watch: "watch live w' = watch live w \<Longrightarrow> serving live c I w \<Longrightarrow> serving live c I w'"
  and moved_watch: "watch live w' = watch live w \<Longrightarrow> moved live I w \<Longrightarrow> moved live I w'"
  by (auto simp: watch_eq calm_def serving_def moved_def)

lemma serving_moved: "serving live c I w \<Longrightarrow> moved live I w"
  by (simp add: serving_def)

lemma step_calm:
  assumes "keeps (watch live) m" "\<And>x. triple (calm live L I) (k x) R (either live L I)"
  shows "triple (calm live L I) (db_bind m k) R (either live L I)"
  by (rule triple_bind [OF triple_keeps [OF assms(1)] assms(2)]) (auto simp: either_def intro: calm_watch)

lemma step_moved:
  assumes "keeps (watch live) m" "\<And>x. triple (serving live c I) (k x) R (either live L I)"
  shows "triple (serving live c I) (db_bind m k) R (either live L I)"
  by (rule triple_bind [OF triple_keeps [OF assms(1)] assms(2)]) (auto simp: either_def serving_moved intro: serving_watch)

lemma step_telling:
  assumes "quiet C live" "\<And>x. triple (telling live L I) (k x) R (either live L I)"
  shows "triple (calm live L I) (db_bind (emit C stage status vs) k) R (either live L I)"
proof (rule triple_bind [OF _ assms(2)])
  show "triple (calm live L I) (emit C stage status vs) (\<lambda>_. telling live L I) (either live L I)"
    unfolding triple_def
  proof (intro allI impI)
    fix w assume w: "calm live L I w"
    obtain r w' where m: "emit C stage status vs w = (r, w')" by (cases "emit C stage status vs w")
    have k: "watch live w' = watch live w" by (rule keepsD [OF keeps_emit [OF assms(1)] m])
    have "r = Inr () \<longleftrightarrow> reporting (environ w)" using emit_returns [of C stage status vs w] by (simp add: m)
    then show "case emit C stage status vs w of (Inl e, w') \<Rightarrow> either live L I e w' | (Inr x, w') \<Rightarrow> telling live L I w'"
      using calm_watch [OF k w] k by (auto simp: m either_def telling_def watch_eq split: sum.split)
  qed
qed

lemma step_promoted:
  assumes "\<And>x. triple (moved live I) (k x) R (either live L I)"
  shows "triple (telling live L I) (db_bind (mark (promoted_update (\<lambda>_. True))) k) R (either live L I)"
  by (rule triple_bind [OF _ assms]) (simp add: triple_def mark_def telling_def calm_def moved_def)

section \<open>Traffic\<close>

lemma int_text_100: "int_text 100 = ''100''"
  by code_simp

lemma traffic_text_single: "traffic_text [(c, 100)] = c @ ''=100''"
  by (simp add: traffic_text_def int_text_100)

lemma run_command_Inr:
  "run_command C args w = (Inr t, w') \<Longrightarrow>
     \<exists>out err v. cl_exec C args None (world w) = (Inr (0, out, err), v) \<and> t = strip out \<and> w' = w\<lparr>world := v\<rparr>"
  by (auto simp: run_command_def run_file_def db_bind_def process_def outside_op_def db_return_def reading_def
      split: prod.splits sum.splits if_splits)

lemma keeps_local: "keeps (\<lambda>w. (environ w, flags w)) (set_traffic C s r p t)"
  by (auto simp: keeps_def set_traffic_def run_command_def run_file_def db_bind_def process_def outside_op_def db_return_def reading_def
      split: prod.splits sum.splits)

lemma set_traffic_live:
  assumes "traffic_laws C live s r p" "set_traffic C s r p [(c, 100)] w = (Inr u, w')"
  shows "live (world w') = [(c, 100)]"
proof -
  have "fst (run_command C (update_traffic s (c @ ''=100'') r p) w) = Inr (strip (fst (snd (projr (fst (cl_exec C (update_traffic s (c @ ''=100'') r p) None (world w)))))))
    \<and> w' = snd (run_command C (update_traffic s (c @ ''=100'') r p) w)"
    using assms(2) by (auto simp: set_traffic_def traffic_text_single db_bind_def db_return_def run_command_def run_file_def process_def outside_op_def reading_def
        split: prod.splits sum.splits if_splits)
  then obtain t where "run_command C (update_traffic s (c @ ''=100'') r p) w = (Inr t, w')"
    by (metis surjective_pairing)
  from run_command_Inr [OF this] show ?thesis
    using assms(1) unfolding traffic_laws_def by fastforce
qed

lemma traffic_now_live:
  assumes "traffic_laws C live s r p" "traffic_now C s r p w = (Inr t, w')"
  shows "t = live (world w')"
proof -
  obtain v u where 1: "run_json C (describe_traffic s r p) w = (Inr v, u)" "snapshot v = Inr t" "w' = u"
    using assms(2) by (auto simp: traffic_now_def db_bind_def reading_def split: prod.splits sum.splits)
  then obtain out where 2: "run_command C (describe_traffic s r p) w = (Inr out, u)" "json_loads False out = Inr v"
    by (auto simp: run_json_def db_bind_def reading_def split: prod.splits sum.splits)
  from run_command_Inr [OF 2(1)] obtain raw err x where
    3: "cl_exec C (describe_traffic s r p) None (world w) = (Inr (0, raw, err), x)" "out = strip raw" "u = w\<lparr>world := x\<rparr>"
    by blast
  have "then_result (json_loads False (strip raw)) snapshot = Inr t" using 1 2 3 by simp
  with 3(1) assms(1) have "t = live x" unfolding traffic_laws_def by blast
  then show ?thesis using 1 3 by simp
qed

lemma live_rows_distinct: "live_rows acc vs = Inr t \<Longrightarrow> distinct (map fst acc) \<Longrightarrow> distinct (map fst t)"
proof (induction acc vs arbitrary: t rule: live_rows.induct)
  case (2 acc v vs)
  then show ?case
    by (auto simp: then_result_def distinct_update split: sum.splits if_splits)
qed simp

lemma snapshot_distinct: "snapshot v = Inr t \<Longrightarrow> distinct (map fst t)"
  by (auto simp: snapshot_def then_result_def dest: live_rows_distinct split: sum.splits if_splits)

text \<open>Equal dictionaries, one of which has been read, share every revision with its weight.\<close>

lemma same_dict_map:
  assumes "same_dict a b" "distinct (map fst a)"
  shows "map_of a = map_of b"
proof -
  have sub: "map_of b k = Some n" if "map_of a k = Some n" for k n
    using map_of_SomeD [OF that] assms(1) by (auto simp: same_dict_def list_all_iff)
  have "fst ` set a \<subseteq> fst ` set b"
    using sub by (metis domIff dom_map_of_conv_image_fst not_None_eq option.distinct(1) subsetI)
  moreover have "card (fst ` set b) \<le> card (fst ` set a)"
    using assms card_length [of "map fst b"] distinct_card [OF assms(2)] by (simp add: same_dict_def)
  ultimately have eq: "fst ` set a = fst ` set b"
    by (metis List.finite_set card_seteq finite_imageI)
  show ?thesis
  proof
    fix k
    show "map_of a k = map_of b k"
    proof (cases "map_of a k")
      case None
      then show ?thesis using eq by (metis map_of_eq_None_iff)
    qed (use sub in simp)
  qed
qed

lemma traffic_now_distinct: "traffic_now C s r p w = (Inr t, w') \<Longrightarrow> distinct (map fst t)"
  by (auto simp: traffic_now_def db_bind_def reading_def dest: snapshot_distinct split: prod.splits sum.splits)

lemma step_set_traffic:
  assumes "traffic_laws C live s r p" "\<And>x. triple (serving live c I) (k x) R (either live L I)"
  shows "triple (moved live I) (db_bind (set_traffic C s r p [(c, 100)]) k) R (either live L I)"
proof (rule triple_bind [OF _ assms(2)])
  show "triple (moved live I) (set_traffic C s r p [(c, 100)]) (\<lambda>_. serving live c I) (either live L I)"
    unfolding triple_def
  proof (intro allI impI)
    fix w assume w: "moved live I w"
    obtain x w' where m: "set_traffic C s r p [(c, 100)] w = (x, w')" by (cases "set_traffic C s r p [(c, 100)] w")
    have "moved live I w'" using keepsD [OF keeps_local m] w by (simp add: moved_def)
    then show "case set_traffic C s r p [(c, 100)] w of (Inl e, w') \<Rightarrow> either live L I e w' | (Inr x, w') \<Rightarrow> serving live c I w'"
      using set_traffic_live [OF assms(1)] m by (auto simp: either_def serving_def split: sum.split)
  qed
qed

section \<open>Hooks\<close>

lemma keeps_config_checks:
  assumes "quiet C live" "list_all (\<lambda>name. name = ''verify_candidate_config'') names"
  shows "keeps (watch live) (for_each (\<lambda>name. if name = ''verify_candidate_config'' then config_check C else hook C name) names)"
  using assms by (induction names) (auto intro!: keeping)

lemma run_hooks_watch:
  assumes "quiet C live" "scriptless w"
    and "phase \<in> {''pre_candidate_hooks'', ''candidate_hooks'', ''pre_promote_hooks'', ''post_promote_hooks''}"
  shows "watch live (snd (run_hooks C phase w)) = watch live w"
proof (cases "fst (profile_spec w)")
  case (Inl e)
  then show ?thesis
    by (auto simp: run_hooks_def db_bind_def profile_spec_def env_eq reading_def split: prod.splits sum.splits if_splits)
next
  case (Inr spec)
  have p: "profile_spec w = (Inr spec, w)"
    using Inr by (auto simp: profile_spec_def db_bind_def env_eq reading_def split: prod.splits sum.splits if_splits)
  have "list_all (\<lambda>name. name = ''verify_candidate_config'') (hooks_of phase spec)"
    using assms(2,3) Inr by (auto simp: scriptless_def hook_free_def)
  from keeps_config_checks [OF assms(1) this] show ?thesis
    by (simp add: run_hooks_def db_bind_def p keeps_def)
qed

lemma scriptless_inputs: "inputs (environ w) = inputs (environ w') \<Longrightarrow> scriptless w = scriptless w'"
  using profile_inputs [of w w'] by (simp add: scriptless_def)

section \<open>The body of a release\<close>

definition free_profile :: "(string \<Rightarrow> string option) \<Rightarrow> bool" where
  "free_profile I =
     (case map_of profile_specs (strip (case I ''CGM_PROFILE'' of None \<Rightarrow> '''' | Some v \<Rightarrow> v)) of
        None \<Rightarrow> True | Some spec \<Rightarrow> hook_free spec)"

lemma no_empty_profile: "map_of profile_specs '''' = None"
  by code_simp

lemma scriptless_iff: "scriptless w = free_profile (inputs (environ w))"
  by (auto simp: scriptless_def free_profile_def profile_spec_def db_bind_def env_eq reading_def lookup_def inputs_def own_names_def
      no_empty_profile split: option.splits sum.splits)

lemma triple_pair: "(\<And>a b. triple P (k a b) R E) \<Longrightarrow> triple P (case x of (a, b) \<Rightarrow> k a b) R E"
  by (cases x) simp

lemma hooks_triple:
  assumes "quiet C live" "free_profile I"
    and "phase \<in> {''pre_candidate_hooks'', ''candidate_hooks'', ''pre_promote_hooks'', ''post_promote_hooks''}"
    and "\<And>w w'. watch live w' = watch live w \<Longrightarrow> P w \<Longrightarrow> P w'"
    and "\<And>e w. P w \<Longrightarrow> E e w" "\<And>w. P w \<Longrightarrow> inputs (environ w) = I"
  shows "triple P (run_hooks C phase) (\<lambda>_. P) E"
  unfolding triple_def
proof (intro allI impI)
  fix w assume w: "P w"
  obtain r w' where m: "run_hooks C phase w = (r, w')" by (cases "run_hooks C phase w")
  have "watch live w' = watch live w"
    using run_hooks_watch [of C live w, OF assms(1) _ assms(3)] assms(2) assms(6) [OF w] by (simp add: m scriptless_iff)
  then have "P w'" using assms(4) w by blast
  then show "case run_hooks C phase w of (Inl e, w') \<Rightarrow> E e w' | (Inr x, w') \<Rightarrow> P w'"
    using assms(5) by (simp add: m split: sum.split)
qed

lemma calm_inputs: "calm live L I w \<Longrightarrow> inputs (environ w) = I"
  and serving_inputs: "serving live c I w \<Longrightarrow> inputs (environ w) = I"
  by (simp_all add: calm_def serving_def moved_def)

lemma step_hooks_calm:
  assumes "quiet C live" "free_profile I"
    and "phase \<in> {''pre_candidate_hooks'', ''candidate_hooks'', ''pre_promote_hooks'', ''post_promote_hooks''}"
    and "\<And>x. triple (calm live L I) (k x) R (either live L I)"
  shows "triple (calm live L I) (db_bind (run_hooks C phase) k) R (either live L I)"
  by (rule triple_bind [OF hooks_triple [OF assms(1-3)] assms(4)]) (auto simp: either_def intro: calm_watch dest: calm_inputs)

lemma step_hooks_serving:
  assumes "quiet C live" "free_profile I"
    and "phase \<in> {''pre_candidate_hooks'', ''candidate_hooks'', ''pre_promote_hooks'', ''post_promote_hooks''}"
    and "\<And>x. triple (serving live c I) (k x) R (either live L I)"
  shows "triple (serving live c I) (db_bind (run_hooks C phase) k) R (either live L I)"
  by (rule triple_bind [OF hooks_triple [OF assms(1-3)] assms(4)])
    (auto simp: either_def serving_moved intro: serving_watch dest: serving_inputs)

definition serves :: "('w \<Rightarrow> int dict) \<Rightarrow> string dict \<Rightarrow> 'w engine \<Rightarrow> bool" where
  "serves live res w \<longleftrightarrow>
     (\<exists>c. map_of res ''production_revision'' = Some c \<and> map_of res ''candidate_revision'' = Some c \<and> live (world w) = [(c, 100)])"

lemma released_serves: "triple (serving live c I) (db_return (released c url production img)) (serves live) E"
  by (rule triple_basic) (auto simp: serves_def serving_def released_def)

lemma start_if_empty: "start_if False = db_return ()"
  by (simp add: start_if_def only_if_def)

lemma own_name_mem [keeping]:
  "''CGM_CANDIDATE_REVISION'' \<in> set own_names" "''CGM_CANDIDATE_URL'' \<in> set own_names" "''CGM_PRODUCTION_URL'' \<in> set own_names"
  "''CGM_PREVIOUS_TRAFFIC'' \<in> set own_names" "''CGM_RESOLVED_IMAGE'' \<in> set own_names" "''HOME'' \<in> set own_names"
  by (simp_all add: own_names_def)

lemma service_promotion_triple:
  assumes laws: "traffic_laws C live s r p" and free: "free_profile I"
    and spec: "hook_free spec"
  shows "triple (calm live L I) (service_promotion C spec img s r p) (serves live) (either live L I)"
proof -
  note q = laws_quiet [OF laws]
  have none: "hooks_of ''pre_candidate_hooks'' spec = []" "hooks_of ''pre_promote_hooks'' spec = []"
    using spec by (simp_all add: hook_free_def)
  note steps = step_hooks_calm [OF q free] step_hooks_serving [OF q free] step_set_traffic [OF laws] step_promoted
  show ?thesis
    unfolding service_promotion_def none simp_thms start_if_empty
    apply (rule step_calm, rule keeping)
    apply (rule step_hooks_calm [OF q free], simp)
    apply (rule step_calm, rule keeping, rule q, rule triple_pair)
    apply (rule step_calm, rule keeping, rule own_name_mem, simp)+
    apply (rule step_calm, rule keeping, rule q)+
    apply (rule step_hooks_calm [OF q free], simp)
    apply (rule step_calm, rule keeping, rule q)
    apply (rule step_calm, rule keeping)
    apply (rule step_hooks_calm [OF q free], simp)
    apply (rule step_telling [OF q])
    apply (rule step_promoted)
    apply (rule step_set_traffic [OF laws])
    apply (rule step_moved, rule keeping, rule q)+
    apply (rule step_moved, rule keeping, rule own_name_mem, simp)
    apply (rule step_moved, rule keeping, rule q)
    apply (rule step_hooks_serving [OF q free], simp)
    apply (rule step_moved, rule keeping, rule q)
    apply (rule released_serves)
    done
qed

section \<open>Recoveries\<close>

definition undone :: "('w \<Rightarrow> int dict) \<Rightarrow> int dict \<Rightarrow> (string \<Rightarrow> string option) \<Rightarrow> 'w engine \<Rightarrow> bool" where
  "undone live L I w \<longleftrightarrow> moved live I w \<and> map_of (live (world w)) = map_of L"

lemma undone_watch: "watch live w' = watch live w \<Longrightarrow> undone live L I w \<Longrightarrow> undone live L I w'"
  by (auto simp: watch_eq undone_def moved_def)

lemma undone_moved: "undone live L I w \<Longrightarrow> moved live I w"
  by (simp add: undone_def)

lemma moved_reporting: "moved live I w \<Longrightarrow> reporting (environ w)"
  by (simp add: moved_def)

text \<open>An event that is known to be reported raises nothing.\<close>

lemma emit_triple:
  assumes q: "quiet C live" and P: "\<And>w w'. watch live w' = watch live w \<Longrightarrow> P w \<Longrightarrow> P w'" "\<And>w. P w \<Longrightarrow> reporting (environ w)"
  shows "triple P (emit C stage status vs) (\<lambda>_. P) E"
  unfolding triple_def
proof (intro allI impI)
  fix w assume w: "P w"
  obtain r w' where m: "emit C stage status vs w = (r, w')" by (cases "emit C stage status vs w")
  have "r = Inr ()" using emit_returns [of C stage status vs w] P(2) [OF w] by (simp add: m)
  moreover have "P w'" by (rule P(1) [OF keepsD [OF keeps_emit [OF q] m] w])
  ultimately show "case emit C stage status vs w of (Inl e, w') \<Rightarrow> E e w' | (Inr x, w') \<Rightarrow> P w'"
    by (simp add: m)
qed

lemma emit_moved: "quiet C live \<Longrightarrow> triple (moved live I) (emit C stage status vs) (\<lambda>_. moved live I) E"
  by (rule emit_triple, assumption, rule moved_watch, assumption+, rule moved_reporting)

lemma emit_undone: "quiet C live \<Longrightarrow> triple (undone live L I) (emit C stage status vs) (\<lambda>_. undone live L I) E"
  by (rule emit_triple, assumption, rule undone_watch, assumption+, rule moved_reporting, rule undone_moved)

lemma set_traffic_moved: "triple (moved live I) (set_traffic C s r p t) (\<lambda>_. moved live I) (\<lambda>_. moved live I)"
  by (rule triple_keeps [OF keeps_local]) (auto simp: moved_def)

lemma flagged_promoted: "triple (moved live I) (flagged promoted) (\<lambda>b w. b \<and> moved live I w) E"
  by (auto simp: triple_def flagged_def reading_def moved_def)

lemma traffic_now_triple:
  assumes "traffic_laws C live s r p"
  shows "triple (moved live I) (traffic_now C s r p) (\<lambda>t w. moved live I w \<and> live (world w) = t \<and> distinct (map fst t)) (\<lambda>_. moved live I)"
  unfolding triple_def
proof (intro allI impI)
  fix w assume w: "moved live I w"
  obtain x w' where m: "traffic_now C s r p w = (x, w')" by (cases "traffic_now C s r p w")
  have k: "keeps (watch live) (traffic_now C s r p)" by (rule keeping, rule laws_quiet [OF assms])
  have "moved live I w'" using keepsD [OF k m] w by (rule moved_watch)
  then show "case traffic_now C s r p w of (Inl e, w') \<Rightarrow> moved live I w' | (Inr t, w') \<Rightarrow> moved live I w' \<and> live (world w') = t \<and> distinct (map fst t)"
    using traffic_now_live [OF assms] traffic_now_distinct m by (auto split: sum.split)
qed

lemma restore_service_triple:
  assumes "traffic_laws C live s r p"
  shows "triple (moved live I) (restore_service C '''' s r p L) (\<lambda>_. undone live L I) (\<lambda>_. moved live I)"
proof -
  have reading: "triple (\<lambda>w. undone live L I w \<and> live (world w) = t) (reading (\<lambda>_. busiest t)) (\<lambda>_. undone live L I) (\<lambda>_. moved live I)" for t
    by (rule triple_basic) (auto simp: undone_def)
  have check: "triple (\<lambda>w. moved live I w \<and> live (world w) = t \<and> distinct (map fst t)) (check (same_dict t L) m)
    (\<lambda>_ w. undone live L I w \<and> live (world w) = t) (\<lambda>_. moved live I)" for t m
    by (auto simp: check_def db_return_def db_raise_def triple_def undone_def dest: same_dict_map)
  have only: "triple (\<lambda>w. b \<and> moved live I w) (only_if b (set_traffic C s r p L)) (\<lambda>_. moved live I) (\<lambda>_. moved live I)" for b
    using set_traffic_moved [of live I C s r p L] by (cases b) (auto simp: triple_def only_if_def)
  show ?thesis
    unfolding restore_service_def simp_thms if_False
    by (rule triple_bind [OF flagged_promoted], rule triple_bind [OF only], rule triple_bind [OF traffic_now_triple [OF assms]],
        rule triple_bind [OF check], rule reading)
qed

definition settled :: "('w \<Rightarrow> int dict) \<Rightarrow> int dict \<Rightarrow> 'w engine \<Rightarrow> bool" where
  "settled live L w \<longleftrightarrow> map_of (live (world w)) = map_of L"

definition unverified :: py_err where
  "unverified = RuntimeError ''release failed and paired recovery could not be verified''"

lemma service_recovery_triple:
  assumes laws: "traffic_laws C live s r p"
  shows "triple (either live L I e) (service_recovery C '''' s r p L e) Q (\<lambda>x w. settled live L w \<or> x = unverified)"
proof -
  let ?E = "\<lambda>x w. settled live L w \<or> x = unverified"
  note q = laws_quiet [OF laws]
  note emit_moved = emit_moved [OF q] and emit_undone = emit_undone [OF q]
  have final: "triple (undone live L I) (reading (\<lambda>w. Inl (AutomaticRollback (f w)))) Q ?E" for f
    by (auto simp: triple_def reading_def settled_def undone_def)
  have failed: "triple (moved live I) (db_bind (emit C a b vs) (\<lambda>_. db_raise unverified)) (\<lambda>_. undone live L I) ?E" for a b vs
    by (rule triple_bind [OF emit_moved]) (auto simp: triple_def db_raise_def)
  let ?after = "db_bind (emit C ''rollback'' ''running'' []) (\<lambda>_.
      db_bind (db_catch (restore_service C '''' s r p L) (\<lambda>_.
        db_bind (emit C ''rollback'' ''failed'' [(''error'', ''paired recovery could not be verified'')]) (\<lambda>_. db_raise unverified))) (\<lambda>restored.
      db_bind (emit C ''rollback'' ''succeeded'' [(''production_revision'', restored)]) (\<lambda>_.
      reading (\<lambda>w. Inl (AutomaticRollback
        (''release failed; prior resources were restored: '' @ sanitized_error (environ w) (err_text e)))))))"
  have after: "triple (moved live I) ?after Q ?E"
    apply (rule triple_bind [OF emit_moved])
    apply (rule triple_bind [OF triple_catch [OF restore_service_triple [OF laws] failed]])
    apply (rule triple_bind [OF emit_undone final])
    done
  show ?thesis
    unfolding triple_def
  proof (intro allI impI)
    fix w assume w: "either live L I e w"
    show "case service_recovery C '''' s r p L e w of (Inl e, w') \<Rightarrow> ?E e w' | (Inr x, w') \<Rightarrow> Q x w'"
    proof (cases "moved live I w")
      case True
      then have "service_recovery C '''' s r p L e w = ?after w"
        by (simp add: service_recovery_def db_bind_def flagged_def reading_def moved_def unverified_def)
      then show ?thesis using after True unfolding triple_def by simp
    next
      case False
      with w have "calm live L I w" by (simp add: either_def)
      then show ?thesis
        by (simp add: service_recovery_def db_bind_def flagged_def reading_def db_raise_def calm_def settled_def)
    qed
  qed
qed

section \<open>A whole release of a service\<close>

lemma step_quiet:
  assumes "keeps (watch live) m" "\<And>e w. calm live L I w \<Longrightarrow> E e w" "\<And>x. triple (calm live L I) (k x) R E"
  shows "triple (calm live L I) (db_bind m k) R E"
  by (rule triple_bind [OF triple_keeps [OF assms(1)] assms(3)]) (auto intro: calm_watch assms(2))

lemma step_traffic:
  assumes laws: "traffic_laws C live s r p" and E: "\<And>e w. calm live L I w \<Longrightarrow> E e w"
    and k: "triple (calm live L I) (k L) R E"
  shows "triple (calm live L I) (db_bind (traffic_now C s r p) k) R E"
proof -
  have "triple (calm live L I) (traffic_now C s r p) (\<lambda>t w. calm live L I w \<and> t = L) E"
    unfolding triple_def
  proof (intro allI impI)
    fix w assume w: "calm live L I w"
    obtain x w' where m: "traffic_now C s r p w = (x, w')" by (cases "traffic_now C s r p w")
    have c: "keeps (watch live) (traffic_now C s r p)" by (rule keeping, rule laws_quiet [OF laws])
    have "calm live L I w'" using keepsD [OF c m] w by (rule calm_watch)
    then show "case traffic_now C s r p w of (Inl e, w') \<Rightarrow> E e w' | (Inr t, w') \<Rightarrow> calm live L I w' \<and> t = L"
      using traffic_now_live [OF laws] m E by (auto simp: calm_def split: sum.split)
  qed
  moreover have "triple (\<lambda>w. calm live L I w \<and> t = L) (k t) R E" for t
    using k by (auto simp: triple_def)
  ultimately show ?thesis by (rule triple_bind)
qed

lemma step_spec:
  assumes "free_profile I" "\<And>e w. calm live L I w \<Longrightarrow> E e w" "\<And>spec. hook_free spec \<Longrightarrow> triple (calm live L I) (k spec) R E"
  shows "triple (calm live L I) (db_bind profile_spec k) R E"
proof -
  have "triple (calm live L I) profile_spec (\<lambda>spec w. calm live L I w \<and> hook_free spec) E"
    unfolding triple_def
  proof (intro allI impI)
    fix w assume w: "calm live L I w"
    have "scriptless w" using assms(1) w by (simp add: scriptless_iff calm_def)
    moreover have "snd (profile_spec w) = w"
      by (auto simp: profile_spec_def db_bind_def env_eq reading_def)
    ultimately show "case profile_spec w of (Inl e, w') \<Rightarrow> E e w' | (Inr spec, w') \<Rightarrow> calm live L I w' \<and> hook_free spec"
      using w assms(2) by (auto simp: scriptless_def split: prod.splits sum.splits)
  qed
  moreover have "triple (\<lambda>w. calm live L I w \<and> hook_free spec) (k spec) R E" for spec
    using assms(3) by (auto simp: triple_def)
  ultimately show ?thesis by (rule triple_bind)
qed

lemma step_no_flags:
  "triple (calm live L I) (k ()) R E \<Longrightarrow> triple (calm live L I) (db_bind (mark (\<lambda>_. no_flags)) k) R E"
  by (simp add: triple_def db_bind_def mark_def calm_def no_flags_def)

lemma with_service_cases:
  assumes "\<And>e. E e w" "case k (input w ''CGM_SERVICE'') (input w ''CGM_REGION'') (input w ''CGM_PROJECT_ID'') w of (Inl e, w') \<Rightarrow> E e w' | (Inr x, w') \<Rightarrow> R x w'"
  shows "case with_service k w of (Inl e, w') \<Rightarrow> E e w' | (Inr x, w') \<Rightarrow> R x w'"
  using assms by (auto simp: with_service_def with_place_def db_bind_def env_eq input_def)

section \<open>A whole release of a service\<close>

lemma deploy_service_cases:
  assumes laws: "release_laws C live w0"
    and start: "scriptless w0" "fst (independent_runtime w0) = Inr False" "flags w0 = no_flags"
  shows "case deploy C img w0 of
      (Inl e, w) \<Rightarrow> settled live (live (world w0)) w \<or> e = unverified
    | (Inr res, w) \<Rightarrow> serves live res w"
proof -
  let ?s = "input w0 ''CGM_SERVICE''" and ?r = "input w0 ''CGM_REGION''" and ?p = "input w0 ''CGM_PROJECT_ID''"
  let ?I = "inputs (environ w0)" and ?L = "live (world w0)"
  let ?E = "\<lambda>e w. settled live ?L w \<or> e = unverified"
  have laws: "traffic_laws C live ?s ?r ?p" using laws by (simp add: release_laws_def)
  note q = laws_quiet [OF laws]
  have free: "free_profile ?I" using start(1) by (simp add: scriptless_iff)
  have calm: "calm live ?L ?I w0" using start(3) by (simp add: calm_def no_flags_def)
  have E: "calm live ?L ?I w \<Longrightarrow> ?E e w" for e w by (simp add: calm_def settled_def)
  have body: "triple (calm live ?L ?I)
      (db_catch (service_promotion C spec img ?s ?r ?p) (service_recovery C (py_str (dget spec ''recovery_hook'')) ?s ?r ?p ?L))
      (serves live) ?E" if "hook_free spec" for spec
  proof -
    have none: "py_str (dget spec ''recovery_hook'') = ''''" using that by (simp add: hook_free_def)
    show ?thesis
      unfolding none by (rule triple_catch [OF service_promotion_triple [OF laws free that] service_recovery_triple [OF laws]])
  qed
  have whole: "triple (calm live ?L ?I)
     (db_bind (traffic_now C ?s ?r ?p) (\<lambda>previous.
       db_bind (setenv ''CGM_PREVIOUS_TRAFFIC'' (json_text (traffic_value (sort_key fst previous)))) (\<lambda>_.
       db_bind profile_spec (\<lambda>spec.
       db_bind (verify_hooks C) (\<lambda>_.
       db_bind (setenv ''CGM_RESOLVED_IMAGE'' img) (\<lambda>_.
       db_bind (mark (\<lambda>_. no_flags)) (\<lambda>_.
       db_catch (service_promotion C spec img ?s ?r ?p)
         (service_recovery C (py_str (dget spec ''recovery_hook'')) ?s ?r ?p previous))))))))
     (serves live) ?E"
    apply (rule step_traffic [OF laws E], assumption)
    apply (rule step_quiet [OF _ E], rule keeping, rule own_name_mem, simp, assumption)
    apply (rule step_spec [OF free E], assumption)
    apply (rule step_quiet [OF _ E], rule keeping, rule q, assumption)
    apply (rule step_quiet [OF _ E], rule keeping, rule own_name_mem, simp, assumption)
    apply (rule step_no_flags)
    apply (erule body)
    done
  have "deploy C img w0 = with_service (\<lambda>service region project.
       db_bind (traffic_now C service region project) (\<lambda>previous.
       db_bind (setenv ''CGM_PREVIOUS_TRAFFIC'' (json_text (traffic_value (sort_key fst previous)))) (\<lambda>_.
       db_bind profile_spec (\<lambda>spec.
       db_bind (verify_hooks C) (\<lambda>_.
       db_bind (setenv ''CGM_RESOLVED_IMAGE'' img) (\<lambda>_.
       db_bind (mark (\<lambda>_. no_flags)) (\<lambda>_.
       db_catch (service_promotion C spec img service region project)
         (service_recovery C (py_str (dget spec ''recovery_hook'')) service region project previous)))))))) w0"
    using start(2) by (auto simp: deploy_def db_bind_def independent_runtime_def env_eq db_return_def split: prod.splits sum.splits if_splits)
  then show ?thesis
    using with_service_cases [where E = ?E and R = "serves live", OF E [OF calm]] whole calm unfolding triple_def by simp
qed

section \<open>Automatic rollbacks\<close>

text \<open>No program, and no step of a recovery, raises the executor's own \<open>AutomaticRollback\<close>.\<close>

definition plain :: "('s, 'a) op \<Rightarrow> bool" where
  "plain m \<longleftrightarrow> (\<forall>w t. fst (m w) \<noteq> Inl (AutomaticRollback t))"

definition honest :: "'w outside \<Rightarrow> bool" where
  "honest C \<longleftrightarrow> (\<forall>args file. plain (cl_exec C args file))"

named_theorems plainly "operations that raise no automatic rollback"

lemma plain_basic [plainly]:
  "plain (db_return x)" "(\<And>t. e \<noteq> AutomaticRollback t) \<Longrightarrow> plain (db_raise e)"
  "(\<And>w t. f w \<noteq> Inl (AutomaticRollback t)) \<Longrightarrow> plain (reading f)"
  by (simp_all add: plain_def db_return_def db_raise_def reading_def)

lemma plain_bind [plainly]: "plain m \<Longrightarrow> (\<And>x. plain (k x)) \<Longrightarrow> plain (db_bind m k)"
  by (auto simp: plain_def db_bind_def split: prod.splits sum.splits) (metis fst_conv)

lemma plain_cases [plainly]:
  "(b \<Longrightarrow> plain m) \<Longrightarrow> (\<not> b \<Longrightarrow> plain m') \<Longrightarrow> plain (if b then m else m')"
  "(\<And>x y z. plain (k3 x y z)) \<Longrightarrow> plain (case t of (x, y, z) \<Rightarrow> k3 x y z)"
  by (auto split: prod.split)

lemma plain_for_each [plainly]: "(\<And>x. plain (f x)) \<Longrightarrow> plain (for_each f xs)"
  by (induction xs) (auto intro!: plainly)

lemma plain_env [plainly]: "plain (getenv_or n v)" "plain (getenv n)" "plain (env n)" "plain (check b m)" "plain (flagged f)" "plain (setenv n v)"
  by (auto simp: getenv_or_def getenv_def env_def check_def flagged_def setenv_def plain_def db_bind_def db_return_def db_raise_def reading_def)

lemma plain_run [plainly]:
  assumes "honest C"
  shows "plain (run_file C file args)" "plain (run_command C args)"
proof -
  have "plain (process C f args)" for f
    using assms by (auto simp: plain_def process_def outside_op_def honest_def split: prod.split) (metis fst_conv)
  then have run: "plain (run_file C f args)" for f
    unfolding run_file_def by (auto intro!: plainly)
  from run show "plain (run_file C file args)" .
  from run show "plain (run_command C args)" by (simp add: run_command_def)
qed

lemma plain_result:
  "json_loads b s \<noteq> Inl (AutomaticRollback t)" "snapshot v \<noteq> Inl (AutomaticRollback t)" "busiest d \<noteq> Inl (AutomaticRollback t)"
  "need row k \<noteq> Inl (AutomaticRollback t)"
proof -
  show "json_loads b s \<noteq> Inl (AutomaticRollback t)" by (auto simp: json_loads_def split: option.split)
  have attr: "attr_dict v \<noteq> Inl (AutomaticRollback t)" for v by (auto simp: attr_dict_def split: pyval.split)
  have int: "py_int v \<noteq> Inl (AutomaticRollback t)" for v by (cases v) (auto split: option.split)
  have rows: "live_rows acc vs \<noteq> Inl (AutomaticRollback t)" for acc vs
    using attr int by (induction acc vs rule: live_rows.induct) (auto simp: then_result_def split: sum.split)
  have inner: "inner_doc ks d \<noteq> Inl (AutomaticRollback t)" for ks d
    using attr by (induction ks d rule: inner_doc.induct) (auto simp: then_result_def split: sum.split)
  have "traffic_rows v \<noteq> Inl (AutomaticRollback t)"
    using inner attr by (auto simp: traffic_rows_def items_of_def then_result_def split: pyval.split sum.split)
  then show "snapshot v \<noteq> Inl (AutomaticRollback t)"
    using rows by (auto simp: snapshot_def then_result_def split: sum.split)
  show "busiest d \<noteq> Inl (AutomaticRollback t)" by (induction d rule: busiest.induct) auto
  show "need row k \<noteq> Inl (AutomaticRollback t)" by (auto simp: need_def split: option.split)
qed

lemma plain_emit [plainly]: "plain (emit C stage status vs)"
  by (auto simp: plain_def emit_eq Let_def split: option.split)

lemma plain_recovery [plainly]:
  assumes "honest C"
  shows "plain (set_traffic C s r p d)" "plain (traffic_now C s r p)" "plain (grant_value C action v)" "plain (reauthorize C row)"
    "plain (authorize_previous C row)" "plain (revoke_unless C shas)" "plain (emit_rollback C d)"
proof -
  note run = plain_run [OF assms]
  show "plain (set_traffic C s r p d)" unfolding set_traffic_def by (auto intro!: plainly run)
  show "plain (traffic_now C s r p)" unfolding traffic_now_def run_json_def by (auto intro!: plainly run simp: plain_result)
  have grant: "plain (runtime_grant C action sha)" for action sha
    unfolding runtime_grant_def with_place_def by (auto intro!: plainly run)
  show granted: "plain (grant_value C action v)" for action v
    unfolding grant_value_def by (auto intro!: plainly grant split: pyval.split)
  show "plain (reauthorize C row)" unfolding reauthorize_def by (auto intro!: plainly granted simp: plain_result)
  show "plain (authorize_previous C row)" unfolding authorize_previous_def independent_runtime_def by (auto intro!: plainly granted)
  show "plain (revoke_unless C shas)" unfolding revoke_unless_def by (auto intro!: plainly grant)
  show "plain (emit_rollback C d)" unfolding emit_rollback_def by (auto intro!: plainly simp: plain_result)
qed

text \<open>What holds after any exception of a release.\<close>

definition rolled :: "('w \<Rightarrow> int dict) \<Rightarrow> int dict \<Rightarrow> py_err \<Rightarrow> 'w engine \<Rightarrow> bool" where
  "rolled live L e w \<longleftrightarrow>
     ((\<exists>t. e = AutomaticRollback t) \<longrightarrow> settled live L w) \<and> (\<not> promoted (flags w) \<longrightarrow> live (world w) = L)"

lemma plain_triple:
  assumes "plain m" "triple P m Q (\<lambda>_. moved live I)"
  shows "triple P m Q (rolled live L)"
  unfolding triple_def
proof (intro allI impI)
  fix w assume w: "P w"
  obtain r w' where m: "m w = (r, w')" by (cases "m w")
  have "r \<noteq> Inl (AutomaticRollback t)" for t using assms(1) m unfolding plain_def by (metis fst_conv)
  then show "case m w of (Inl e, w') \<Rightarrow> rolled live L e w' | (Inr x, w') \<Rightarrow> Q x w'"
    using tripleD [OF assms(2) w] m by (auto simp: rolled_def moved_def split: sum.split)
qed

lemma restore_runtime_triple:
  assumes laws: "traffic_laws C live s r p" and grants: "keeps (watch live) grants" and P: "map_of P = map_of L"
  shows "triple (moved live I) (restore_runtime C s r p P grants message) (\<lambda>_. undone live L I) (\<lambda>_. moved live I)"
proof -
  have g: "triple (moved live I) grants (\<lambda>_. moved live I) (\<lambda>_. moved live I)"
    by (rule triple_keeps [OF grants]) (auto intro: moved_watch)
  have check: "triple (\<lambda>w. moved live I w \<and> live (world w) = t \<and> distinct (map fst t)) (check (same_dict t P) message)
      (\<lambda>_. undone live L I) (\<lambda>_. moved live I)" for t
    using P by (auto simp: check_def db_return_def db_raise_def triple_def undone_def dest: same_dict_map)
  show ?thesis
    unfolding restore_runtime_def
    by (rule triple_bind [OF g], rule triple_bind [OF set_traffic_moved], rule triple_bind [OF traffic_now_triple [OF laws]], rule check)
qed

subsection \<open>The recoveries of independent and staged releases\<close>

lemma calm_rolled: "calm live L I w \<Longrightarrow> rolled live L e w"
  by (simp add: calm_def rolled_def settled_def)

lemma undone_rolled: "undone live L I w \<Longrightarrow> rolled live L e w"
  by (simp add: undone_def moved_def rolled_def settled_def)

text \<open>The end of both recoveries, once traffic may have moved.\<close>

lemma roll_back_triple:
  assumes laws: "traffic_laws C live s r p" and C: "honest C" and grants: "keeps (watch live) grants" "plain grants"
    and P: "map_of P = map_of L"
  shows "triple (moved live I)
    (db_bind (only_if True (restore_runtime C s r p P grants message)) (\<lambda>_.
     db_bind (revoke_unless C shas) (\<lambda>_.
     db_bind (emit_rollback C P) (\<lambda>_. db_raise e)))) Q (rolled live L)"
proof -
  note q = laws_quiet [OF laws]
  have keep: "triple (undone live L I) m (\<lambda>_. undone live L I) (rolled live L)" if "keeps (watch live) m" for m :: "('a engine, unit) op"
    by (rule triple_keeps [OF that]) (auto intro: undone_watch undone_rolled)
  have plain: "plain (restore_runtime C s r p P grants message)"
    unfolding restore_runtime_def using grants(2) C by (auto intro!: plainly)
  have last: "triple (undone live L I) (db_raise e) Q (rolled live L)"
    by (rule triple_basic) (rule undone_rolled)
  show ?thesis
    unfolding only_if_def if_True
    apply (rule triple_bind [OF plain_triple [OF plain restore_runtime_triple [OF laws grants(1) P]]])
    apply (rule triple_bind [OF keep], rule keeping, rule q)
    apply (rule triple_bind [OF keep], rule keeping, rule q)
    apply (rule last)
    done
qed

lemma return_bind: "db_bind (db_return x) k = k x"
  by (rule ext) (simp add: db_bind_def db_return_def)

lemma calm_end_triple:
  assumes "quiet C live"
  shows "triple (calm live L I) (db_bind (revoke_unless C shas) (\<lambda>_. db_raise e)) Q (rolled live L)"
  by (rule step_quiet, rule keeping, rule assms, erule calm_rolled, rule triple_basic, erule calm_rolled)

lemma flag_cases:
  assumes "triple (moved live I) (k True) Q E" "triple (calm live L I) (k False) Q E"
  shows "triple (either live L I e) (db_bind (flagged promoted) k) Q E"
  using assms by (auto simp: triple_def db_bind_def flagged_def reading_def either_def moved_def calm_def)

lemma runtime_recovery_triple:
  assumes laws: "traffic_laws C live s r p" and C: "honest C"
  shows "triple (either live L I e) (runtime_recovery C s r p L configs shas e) Q (rolled live L)"
proof -
  note q = laws_quiet [OF laws]
  have grants: "keeps (watch live) (for_each (reauthorize C) configs)" "plain (for_each (reauthorize C) configs)"
    using q C by (auto intro!: keeping plainly)
  have stage: "triple (either live L I e) (getenv_or a b) (\<lambda>_. either live L I e) E" for a b E
    by (auto simp: triple_def getenv_or_def reading_def)
  have told: "triple (either live L I e) (emit C a b vs) (\<lambda>_. either live L I e) (rolled live L)" for a b vs
  proof -
    have "triple (moved live I) (emit C a b vs) (\<lambda>_. either live L I e) (rolled live L)"
      by (rule triple_weaken [OF emit_moved [OF q, where E = "rolled live L"]]) (auto simp: either_def)
    moreover have "triple (calm live L I) (emit C a b vs) (\<lambda>_. calm live L I) (rolled live L)"
      by (rule triple_keeps, rule keeping, rule q) (auto intro: calm_watch calm_rolled)
    ultimately show ?thesis unfolding either_def by (auto simp: triple_def split: prod.splits sum.splits)
  qed
  show ?thesis
    unfolding runtime_recovery_def
    apply (rule triple_bind [OF stage])
    apply (rule triple_bind [OF told])
    apply (rule flag_cases)
    subgoal using roll_back_triple [OF laws C grants refl] by simp
    subgoal using calm_end_triple [OF q] by (simp add: only_if_def return_bind)
    done
qed

lemma staged_recovery_triple:
  assumes laws: "traffic_laws C live s r p" and C: "honest C" and P: "map_of P = map_of L"
  shows "triple (either live L I e) (staged_recovery C s r p P runtimes e) Q (rolled live L)"
proof -
  note q = laws_quiet [OF laws]
  have "keeps (watch live) (authorize_previous C row)" for row
    unfolding authorize_previous_def using q by (auto intro!: keeping)
  then have grants: "keeps (watch live) (for_each (authorize_previous C) runtimes)" "plain (for_each (authorize_previous C) runtimes)"
    using C by (auto intro!: keeping plainly)
  show ?thesis
    unfolding staged_recovery_def
    apply (rule flag_cases)
    subgoal using roll_back_triple [OF laws C grants P] by simp
    subgoal using calm_end_triple [OF q] by (simp add: only_if_def return_bind)
    done
qed

subsection \<open>The bodies\<close>

lemma step_granted:
  "(\<And>x. triple (calm live L I) (k x) R E) \<Longrightarrow> triple (calm live L I) (db_bind (mark (granted_update (\<lambda>_. True))) k) R E"
  by (auto simp: triple_def db_bind_def mark_def calm_def)

lemma runtime_promotion_triple:
  assumes laws: "traffic_laws C live s r p"
  shows "triple (calm live L I) (runtime_promotion C s r p configs c url img) (serves live) (either live L I)"
proof -
  note q = laws_quiet [OF laws]
  show ?thesis
    unfolding runtime_promotion_def
    apply (rule step_granted)
    apply (rule step_calm, rule keeping)
    apply (rule step_calm, rule keeping, rule q)
    apply (rule step_calm, rule keeping, rule q)
    apply (rule step_calm, rule keeping, rule q)
    apply (rule step_telling [OF q])
    apply (rule step_promoted)
    apply (rule step_set_traffic [OF laws])
    apply (rule step_moved, rule keeping, rule q)+
    apply (rule step_moved, rule keeping, rule keeping, rule q)
    apply (rule step_moved, rule keeping, rule q)
    apply (rule released_serves)
    done
qed

lemma keeps_private [keeping]:
  assumes "quiet C live"
  shows "keeps (watch live) (anonymous_private_check C url)" "keeps (watch live) (verify_private_boundary C url)"
    "keeps (watch live) (revision_document C revision)" "keeps (watch live) (previous_runtime C revisions)"
    "keeps (watch live) (candidate_facts C img revision url)" "keeps (watch live) (retire_previous C row)"
proof -
  show a: "keeps (watch live) (anonymous_private_check C url)" for url
    unfolding anonymous_private_check_def using assms by (auto intro!: keeping)
  show "keeps (watch live) (verify_private_boundary C url)"
    unfolding verify_private_boundary_def using assms by (auto intro!: keeping a)
  show d: "keeps (watch live) (revision_document C revision)" for revision
    unfolding revision_document_def describe_revision_def using assms by (auto intro!: keeping)
  show "keeps (watch live) (previous_runtime C revisions)"
    unfolding previous_runtime_def by (auto intro!: keeping d)
  show "keeps (watch live) (candidate_facts C img revision url)"
    unfolding candidate_facts_def describe_traffic_def using assms by (auto intro!: keeping d)
  show "keeps (watch live) (retire_previous C row)"
    unfolding retire_previous_def using assms by (auto intro!: keeping)
qed

lemma independent_triple: "(\<And>w. P w \<Longrightarrow> E (RuntimeError ''missing required engine input: CGM_SERVICE'') w) \<Longrightarrow>
    triple P independent_runtime (\<lambda>_. P) E"
  by (auto simp: triple_def independent_runtime_def db_bind_def env_eq db_return_def)

lemma staged_promotion_triple:
  assumes laws: "traffic_laws C live s r p" and free: "free_profile I"
  shows "triple (calm live L I) (staged_promotion C s r p runtimes c url img) (serves live) (either live L I)"
proof -
  note q = laws_quiet [OF laws]
  have grant: "triple (calm live L I)
      (if b then db_bind (mark (granted_update (\<lambda>_. True))) (\<lambda>_. db_bind (env ''CGM_RELEASE_SHA'') (\<lambda>sha.
         db_bind (runtime_grant C ''authorize'' sha) (\<lambda>_. runtime_ready C url False ''''))) else db_return ())
      (\<lambda>_. calm live L I) (either live L I)" for b
  proof (rule triple_if)
    show "triple (calm live L I) (db_bind (mark (granted_update (\<lambda>_. True))) (\<lambda>_. db_bind (env ''CGM_RELEASE_SHA'') (\<lambda>sha.
         db_bind (runtime_grant C ''authorize'' sha) (\<lambda>_. runtime_ready C url False ''''))))
       (\<lambda>_. calm live L I) (either live L I)"
      apply (rule step_granted)
      apply (rule step_calm, rule keeping)
      apply (rule step_calm, rule keeping, rule q)
      apply (rule triple_keeps, rule keeping, rule q, erule (1) calm_watch)
      apply (simp add: either_def)
      done
  next
    show "triple (calm live L I) (db_return ()) (\<lambda>_. calm live L I) (either live L I)" by (rule triple_basic) simp
  qed
  have validate: "triple (serving live c I)
      (if b then db_bind (runtime_ready C url' False '''') (\<lambda>_. for_each (retire_previous C) runtimes)
       else db_bind (smoke C url') (\<lambda>_. run_hooks C ''post_promote_hooks''))
      (\<lambda>_. serving live c I) (either live L I)" for b url'
  proof (rule triple_if)
    show "triple (serving live c I) (db_bind (runtime_ready C url' False '''') (\<lambda>_. for_each (retire_previous C) runtimes))
      (\<lambda>_. serving live c I) (either live L I)"
      apply (rule step_moved, rule keeping, rule q)
      apply (rule triple_keeps, rule keeping, rule keeping, rule q, erule (1) serving_watch)
      apply (simp add: either_def serving_moved)
      done
    show "triple (serving live c I) (db_bind (smoke C url') (\<lambda>_. run_hooks C ''post_promote_hooks''))
      (\<lambda>_. serving live c I) (either live L I)"
      apply (rule step_moved, rule keeping, rule q)
      apply (rule hooks_triple [OF q free], simp, erule (1) serving_watch)
       apply (simp_all add: either_def serving_moved serving_inputs)
      done
  qed
  show ?thesis
    unfolding staged_promotion_def
    apply (rule triple_bind [OF independent_triple], simp add: either_def)
    apply (rule triple_bind [OF grant])
    apply (rule step_hooks_calm [OF q free], simp)
    apply (rule step_telling [OF q])
    apply (rule step_promoted)
    apply (rule step_set_traffic [OF laws])
    apply (rule step_moved, rule keeping, rule q)
    apply (rule step_moved, rule keeping, rule q)
    apply (rule step_moved, rule keeping, rule q)
    apply (rule step_moved, rule keeping, rule q)
    apply (rule triple_bind [OF validate])
    apply (rule step_moved, rule keeping, rule q)
    apply (rule released_serves)
    done
qed

section \<open>Whole releases of independent and staged runtimes\<close>

lemma input_inputs: "inputs (environ w) = inputs (environ w') \<Longrightarrow> name \<notin> set own_names \<Longrightarrow> input w name = input w' name"
  unfolding input_def by (simp add: lookup_inputs [of "environ w" "environ w'"])

lemma step_service:
  assumes "\<And>e w. calm live L (inputs (environ w0)) w \<Longrightarrow> E e w"
    and "triple (calm live L (inputs (environ w0)))
      (k (input w0 ''CGM_SERVICE'') (input w0 ''CGM_REGION'') (input w0 ''CGM_PROJECT_ID'')) R E"
  shows "triple (calm live L (inputs (environ w0))) (with_service k) R E"
  unfolding triple_def
proof (intro allI impI)
  fix w assume w: "calm live L (inputs (environ w0)) w"
  have "input w n = input w0 n" if "n \<notin> set own_names" for n
    by (rule input_inputs) (use w that in \<open>simp_all add: calm_def\<close>)
  then have "input w ''CGM_SERVICE'' = input w0 ''CGM_SERVICE''" "input w ''CGM_REGION'' = input w0 ''CGM_REGION''"
    "input w ''CGM_PROJECT_ID'' = input w0 ''CGM_PROJECT_ID''"
    by (simp_all add: own_names_def)
  then show "case with_service k w of (Inl e, w') \<Rightarrow> E e w' | (Inr x, w') \<Rightarrow> R x w'"
    using assms w by (intro with_service_cases) (auto simp: triple_def)
qed

lemma deploy_runtime_triple:
  assumes laws: "release_laws C live w0" and C: "honest C"
  shows "triple (calm live L (inputs (environ w0))) (deploy_runtime C img) (serves live) (rolled live L)"
proof -
  note laws = laws [unfolded release_laws_def]
  note q = laws_quiet [OF laws]
  note E = calm_rolled [where L = L and I = "inputs (environ w0)" and live = live]
  show ?thesis
    unfolding deploy_runtime_def Let_def
    apply (rule step_service, erule E)
    apply (rule step_traffic [OF laws], erule E)
    apply (rule step_quiet, rule keeping, rule keeping, rule q, erule E)
    apply (rule step_quiet, rule keeping, erule E)
    apply (rule step_quiet, rule keeping, rule q, erule E)
    apply (rule step_quiet, rule keeping, rule q, erule E)
    apply (rule triple_pair)
    apply (rule step_quiet, rule keeping, rule q, erule E)
    apply (rule step_quiet, rule keeping, rule q, erule E)
    apply (rule step_no_flags)
    apply (rule triple_catch [OF runtime_promotion_triple [OF laws] runtime_recovery_triple [OF laws C]])
    done
qed

lemma keeps_load [keeping]: "keeps f load_continuation"
proof -
  have dict: "keeps f (case v of PDict d \<Rightarrow> k d | _ \<Rightarrow> db_raise e)" if "\<And>d. keeps f (k d)" for v k e
    using that by (auto intro!: keeping split: pyval.split)
  show ?thesis
    unfolding load_continuation_def read_candidate_def Let_def by (auto intro!: keeping dict)
qed

lemma validate_triple:
  assumes q: "quiet C live" and free: "free_profile I"
  shows "triple (calm live L I) (validate_candidate C url) (\<lambda>_. calm live L I) (rolled live L)"
proof -
  have "triple (calm live L I) (if b then runtime_ready C url True '''' else db_bind (smoke C url) (\<lambda>_. run_hooks C ''candidate_hooks''))
    (\<lambda>_. calm live L I) (rolled live L)" for b
  proof (rule triple_if)
    show "triple (calm live L I) (runtime_ready C url True '''') (\<lambda>_. calm live L I) (rolled live L)"
      by (rule triple_keeps, rule keeping, rule q) (auto intro: calm_watch calm_rolled)
    show "triple (calm live L I) (db_bind (smoke C url) (\<lambda>_. run_hooks C ''candidate_hooks'')) (\<lambda>_. calm live L I) (rolled live L)"
      apply (rule step_quiet, rule keeping, rule q, erule calm_rolled)
      apply (rule hooks_triple [OF q free], simp, erule (1) calm_watch, erule calm_rolled, erule calm_inputs)
      done
  qed
  then show ?thesis
    unfolding validate_candidate_def by (rule triple_bind [OF independent_triple, rotated]) (rule calm_rolled)
qed

lemma check_map:
  assumes "distinct (map fst L)" "map_of P = map_of L \<Longrightarrow> triple (calm live L I) (k ()) R (rolled live L)"
  shows "triple (calm live L I) (db_bind (check (same_dict L P) m) k) R (rolled live L)"
  using assms same_dict_map [of L P] calm_rolled
  by (auto simp: check_def db_bind_def db_return_def db_raise_def triple_def)

lemma step_traffic_distinct:
  assumes laws: "traffic_laws C live s r p" and E: "\<And>e w. calm live L I w \<Longrightarrow> E e w"
    and k: "distinct (map fst L) \<Longrightarrow> triple (calm live L I) (k L) R E"
  shows "triple (calm live L I) (db_bind (traffic_now C s r p) k) R E"
proof (cases "distinct (map fst L)")
  case True
  then show ?thesis by (intro step_traffic [OF laws E] k)
next
  case False
  have "triple (calm live L I) (traffic_now C s r p) (\<lambda>_ _. False) E"
    unfolding triple_def
  proof (intro allI impI)
    fix w assume w: "calm live L I w"
    obtain x w' where m: "traffic_now C s r p w = (x, w')" by (cases "traffic_now C s r p w")
    have c: "keeps (watch live) (traffic_now C s r p)" by (rule keeping, rule laws_quiet [OF laws])
    have "calm live L I w'" using keepsD [OF c m] w by (rule calm_watch)
    then show "case traffic_now C s r p w of (Inl e, w') \<Rightarrow> E e w' | (Inr t, w') \<Rightarrow> False"
      using traffic_now_live [OF laws] m E False by (auto simp: calm_def dest: traffic_now_distinct split: sum.split)
  qed
  then show ?thesis by (rule triple_bind) (simp add: triple_def)
qed

lemma promote_candidate_triple:
  assumes laws: "release_laws C live w0" and C: "honest C" and free: "scriptless w0"
  shows "triple (calm live L (inputs (environ w0))) (promote_candidate C) (serves live) (rolled live L)"
proof -
  note laws = laws [unfolded release_laws_def]
  note q = laws_quiet [OF laws] and free = free [unfolded scriptless_iff]
  note E = calm_rolled [where L = L and I = "inputs (environ w0)" and live = live]
  show ?thesis
    unfolding promote_candidate_def Let_def
    apply (rule step_quiet, rule keeping, erule E)
    apply (rule step_service, erule E)
    apply (rule step_traffic_distinct [OF laws], erule E)
    apply (rule check_map, assumption)
    apply (rule step_quiet, rule keeping, rule q, erule E)
    apply (rule step_quiet, rule keeping, erule E)
    apply (rule step_quiet, rule keeping, rule q, erule E)
    apply (rule step_quiet, rule keeping, erule E)
    apply (rule step_quiet, rule keeping, rule q, erule E)
    apply (rule step_quiet, rule keeping, rule q, erule E)
    apply (rule triple_bind [OF validate_triple [OF q free]])
    apply (rule step_no_flags)
    apply (rule triple_catch [OF staged_promotion_triple [OF laws free] staged_recovery_triple [OF laws C]])
    apply assumption
    done
qed

section \<open>The gates\<close>

definition served_report :: "'w outside \<Rightarrow> doc \<Rightarrow> bool" where
  "served_report C report \<longleftrightarrow>
     (\<exists>q u status raw v. cl_open C True q u = (Inr (status, raw), v) \<and> success status \<and> json_loads False raw = Inr (PDict report))"

definition evidence_owners :: "'w engine \<Rightarrow> string list" where
  "evidence_owners w =
     input w ''CGM_SERVICE'' #
     filter (\<lambda>s. s \<noteq> '''') (split_char (CHR '','') (lookup (environ w) ''CGM_QUALITY_EVIDENCE_SERVICES''))"

definition evidence_repositories :: "'w engine \<Rightarrow> string list" where
  "evidence_repositories w =
     input w ''CGM_REPOSITORY'' # split_char (CHR '','') (lookup (environ w) ''CGM_REPOSITORY_ALIASES'')"

definition passed_report :: "'w engine \<Rightarrow> doc \<Rightarrow> bool" where
  "passed_report w report \<longleftrightarrow>
     in_strs (dget report ''service_name'') (evidence_owners w) \<and>
     in_strs (dget report ''repository'') (evidence_repositories w) \<and>
     is_str report ''commit_sha'' (input w ''CGM_RELEASE_SHA'') \<and> is_str report ''policy_version'' ''oss-v2'' \<and>
     is_str report ''quality_gate_status'' ''PASSED'' \<and>
     (\<exists>checks. items_of (dget report ''checks'') = Inr checks \<and> checks \<noteq> [] \<and> any_failed checks = Inr False)"

lemma in_set_True: "in_set v names = Inr True \<Longrightarrow> in_strs v names"
  by (auto simp: in_set_def in_strs_def split: pyval.splits)

lemma items_nonempty: "items_of v = Inr [] \<Longrightarrow> \<not> truthy v"
  by (auto simp: items_of_def split: pyval.splits)

lemma evidence_passed:
  assumes "evidence_checks owners repositories sha v = Inr ()"
  shows "\<exists>report names. v = PDict report \<and> repositories = Inr names \<and> in_strs (dget report ''service_name'') owners \<and>
    in_strs (dget report ''repository'') names \<and> is_str report ''commit_sha'' sha \<and> is_str report ''policy_version'' ''oss-v2'' \<and>
    is_str report ''quality_gate_status'' ''PASSED'' \<and>
    (\<exists>checks. items_of (dget report ''checks'') = Inr checks \<and> checks \<noteq> [] \<and> any_failed checks = Inr False)"
  using assms
  by (auto simp: evidence_checks_def then_result_def attr_dict_def Let_def flag_def dest!: in_set_True
      dest: items_nonempty split: sum.splits if_splits pyval.splits)

lemma open_json_served:
  assumes "open_json C url w = (Inr (PDict report), w')" shows "served_report C report"
proof -
  from assms obtain status raw where
    "http_open C \<lparr>rq_url = url, rq_headers = [], rq_body = None\<rparr> w = (Inr (status, raw), w')" "success status"
    "json_loads False raw = Inr (PDict report)"
    by (auto simp: open_json_def db_bind_def db_raise_def reading_def split: prod.splits sum.splits if_splits)
  then show ?thesis
    unfolding served_report_def http_open_def outside_op_def by (fastforce split: prod.splits)
qed

lemma env_Inr: "env n w = (Inr x, w') \<longleftrightarrow> w' = w \<and> x = input w n \<and> input w n \<noteq> ''''"
  by (auto simp: env_eq input_def)

lemma independent_eq:
  "independent_runtime w =
     (if input w ''CGM_SERVICE'' = '''' then (Inl (RuntimeError ''missing required engine input: CGM_SERVICE''), w)
      else (Inr (starts_with ''cgm-artemis-'' (input w ''CGM_SERVICE'') \<and> input w ''CGM_SERVICE'' \<noteq> ''cgm-artemis-web''), w))"
  by (simp add: independent_runtime_def db_bind_def env_eq db_return_def input_def)

lemma quality_passed:
  assumes "verify_quality C w = (Inr u, w')"
  shows "\<exists>report. served_report C report \<and> passed_report w report"
proof -
  obtain url v w1 where 1: "open_json C (rstrip_slash url @ ''/api/quality/services/'' @ input w ''CGM_SERVICE'' @ ''/commits/'' @
      input w ''CGM_RELEASE_SHA'' @ ''?for_release=true'') w = (Inr v, w1)"
    and 2: "evidence_checks
        (input w ''CGM_SERVICE'' #
         filter (\<lambda>s. s \<noteq> '''') (split_char (CHR '','') (lookup (environ w1) ''CGM_QUALITY_EVIDENCE_SERVICES'')))
        (map_result (\<lambda>repo. repo # split_char (CHR '','') (lookup (environ w1) ''CGM_REPOSITORY_ALIASES''))
          (fst (env ''CGM_REPOSITORY'' w1)))
        (input w ''CGM_RELEASE_SHA'') v = Inr ()"
    using assms unfolding verify_quality_def by (auto simp: db_bind_Inr env_Inr reading_Inr getenv_eq)
  have same: "environ w1 = environ w"
    using 1 by (auto simp: open_json_def http_open_def outside_op_def db_bind_def db_raise_def reading_def
        split: prod.splits sum.splits if_splits)
  then have repo: "fst (env ''CGM_REPOSITORY'' w1) = Inr x \<Longrightarrow> x = input w ''CGM_REPOSITORY''" for x
    by (auto simp: env_eq input_def split: if_splits)
  from evidence_passed [OF 2] obtain report where r: "v = PDict report" and "passed_report w report"
    using repo by (auto simp: passed_report_def evidence_owners_def evidence_repositories_def same map_result_Inr)
  with 1 open_json_served show ?thesis by blast
qed

lemma keeps_gates [keeping]: "quiet C live \<Longrightarrow> keeps (watch live) (gates C)"
  unfolding gates_def configure_runtime_home_def by (auto intro!: keeping own_name_mem)

text \<open>What the gates have checked when they let a release through.\<close>

definition gate_facts :: "'w outside \<Rightarrow> 'w engine \<Rightarrow> bool" where
  "gate_facts C w \<longleftrightarrow>
     spec_fingerprint (input w ''CGM_PROFILE'') = Inr (input w ''CGM_PROFILE_SHA256'') \<and>
     semantic_tag (input w ''CGM_RELEASE_TAG'') \<and>
     ((input w ''CGM_OPERATION'' = ''rollback'' \<and> fst (independent_runtime w) = Inr False) \<or>
      (\<exists>report. served_report C report \<and> passed_report w report))"

lemma passed_report_inputs:
  assumes "inputs (environ w) = inputs (environ w')"
  shows "passed_report w report = passed_report w' report"
proof -
  have "lookup (environ w) n = lookup (environ w') n" if "n \<notin> set own_names" for n
    using assms that by (rule lookup_inputs)
  then show ?thesis
    by (simp add: passed_report_def evidence_owners_def evidence_repositories_def input_def own_names_def)
qed

lemma gates_facts:
  assumes q: "quiet C live" and g: "gates C w = (Inr phase, w')"
  shows "gate_facts C w"
proof -
  note keep = keepsD [of "watch live"]
  have release_phase: "keeps (watch live) release_phase" and home: "keeps (watch live) configure_runtime_home"
    and source: "keeps (watch live) (assert_source C)" and hooks: "keeps (watch live) (verify_hooks C)"
    and emit: "\<And>a b c. keeps (watch live) (emit C a b c)" and profile: "keeps (watch live) verify_profile"
    using q unfolding configure_runtime_home_def by (auto intro!: keeping own_name_mem)
  from g obtain ph w1 u2 w2 u3 w3 u4 w4 u5 w5 u6 w6 action w7 b w8 u9 w9 where
      0: "release_phase w = (Inr ph, w1)" and 1: "configure_runtime_home w1 = (Inr u2, w2)" and
      2: "verify_profile w2 = (Inr u3, w3)" and 3: "assert_source C w3 = (Inr u4, w4)" and
      4: "verify_hooks C w4 = (Inr u5, w5)" and 5: "emit C ''verify-release'' ''running'' [] w5 = (Inr u6, w6)" and
      6: "env ''CGM_OPERATION'' w6 = (Inr action, w7)" and
      7: "(if action \<noteq> ''rollback'' then db_return True else independent_runtime) w7 = (Inr b, w8)" and
      8: "only_if b (verify_quality C) w8 = (Inr u9, w9)"
    unfolding gates_def db_bind_Inr by blast
  have quality: "(input w6 ''CGM_OPERATION'' = ''rollback'' \<and> fst (independent_runtime w6) = Inr False) \<or>
      (\<exists>u. verify_quality C w6 = (Inr u, w9))"
    using 6 7 8 by (cases b) (auto simp: env_Inr db_return_def only_if_def independent_eq split: if_splits)
  have source_tag: "semantic_tag (input w3 ''CGM_RELEASE_TAG'')"
  proof -
    from 3 obtain a v1 b v2 c v3 d v4 e v5 where
      "check (cl_exists C (root_path @ ''/.git'')) ''Cloud Build source must be a connected repository checkout'' w3 = (Inr a, v1)"
      "run_command C [''git'', ''-c'', ''safe.directory='' @ root_path, ''rev-parse'', ''HEAD''] v1 = (Inr b, v2)"
      "env ''CGM_RELEASE_SHA'' v2 = (Inr c, v3)"
      "check (b = c) ''connected repository checkout does not match authorized SHA'' v3 = (Inr d, v4)"
      "env ''CGM_RELEASE_TAG'' v4 = (Inr e, v5)" "check (semantic_tag e) ''release tag is not semantic'' v5 = (Inr u4, w4)"
      unfolding assert_source_def db_bind_Inr by blast
    then have "environ v4 = environ w3" "e = input v4 ''CGM_RELEASE_TAG''" "semantic_tag e"
      by (auto simp: check_def db_return_def db_raise_def env_Inr dest: run_command_Inr split: if_splits)
    then show ?thesis by (simp add: input_def)
  qed
  have same: "inputs (environ w2) = inputs (environ w)" "inputs (environ w3) = inputs (environ w)" "inputs (environ w4) = inputs (environ w)"
      "inputs (environ w6) = inputs (environ w)"
    using keep [OF release_phase 0] keep [OF home 1] keep [OF profile 2] keep [OF source 3] keep [OF hooks 4] keep [OF emit 5] by (simp_all add: watch_eq)
  have i2: "input w2 n = input w n" and i3: "input w3 n = input w n" and i6: "input w6 n = input w n" if "n \<notin> set own_names" for n
    using that by (rule input_inputs [OF same(1)] input_inputs [OF same(2)] input_inputs [OF same(4)])+
  have "spec_fingerprint (input w2 ''CGM_PROFILE'') = Inr (input w2 ''CGM_PROFILE_SHA256'')"
    using 2 by (auto simp: verify_profile_def db_bind_Inr env_Inr reading_Inr check_def db_return_def db_raise_def split: if_splits)
  moreover note source_tag
  moreover have "(input w6 ''CGM_OPERATION'' = ''rollback'' \<and> fst (independent_runtime w6) = Inr False) \<or>
      (\<exists>report. served_report C report \<and> passed_report w report)"
    using quality quality_passed [of C w6] passed_report_inputs [OF same(4)] by auto
  moreover have "fst (independent_runtime w6) = fst (independent_runtime w)"
    using i6 [of "''CGM_SERVICE''"] by (simp add: independent_eq own_names_def)
  ultimately show ?thesis
    unfolding gate_facts_def using i2 i3 i6 by (auto simp: own_names_def)
qed

lemma main_gated:
  assumes q: "quiet C live"
  shows "live (world (snd (run_main C w))) = live (world w) \<or> gate_facts C w"
proof (cases "gates C w")
  case (Pair r v)
  show ?thesis
  proof (cases r)
    case (Inr phase)
    then show ?thesis using gates_facts [OF q] Pair by blast
  next
    case (Inl e)
    have "live (world v) = live (world w)"
      using keepsD [OF keeps_gates [OF q] Pair] by (simp add: watch_eq)
    moreover have "main C w = (Inl e, v)" using Pair Inl by (simp add: main_def db_bind_def)
    moreover let ?tail = "\<lambda>e. case e of AutomaticRollback _ \<Rightarrow> db_raise e | _ \<Rightarrow>
        db_bind (getenv_or ''CGM_CURRENT_STAGE'' ''verify-release'') (\<lambda>stage.
        db_bind (emit C stage ''failed'' [(''error'', err_text e)]) (\<lambda>_. db_raise e))"
    have "keeps (watch live) (?tail e :: ('a engine, unit) op)"
      using q by (auto intro!: keeping split: py_err.split)
    then have "live (world (snd ((?tail e :: ('a engine, unit) op) v))) = live (world v)"
      unfolding keeps_def watch_eq by blast
    moreover have "run_main C w = ?tail e v"
      using \<open>main C w = (Inl e, v)\<close> by (simp add: run_main_def db_catch_def)
    ultimately show ?thesis by simp
  qed
qed

end
