(* ===== verification/ExecutorProperties.thy ===== *)
theory ExecutorProperties
  imports ExecutorOutcomes
begin

text \<open>
  What the release profiles and the release executor guarantee, with a small Cloud Run to run them on: its update to the new
  revision commits and then times out.
\<close>

section \<open>A small cloud\<close>










section \<open>The profiles\<close>

text \<open>
  C38: The table of profiles the executor carries and the one the control plane authorizes releases with agree: they know the
  same names, and every profile has the same fingerprint in both, with the shorter form of the three legacy profiles.
\<close>

theorem profiles_agree:
  "case central_profile name of
     Inl _ \<Rightarrow> spec_fingerprint name = Inl (KeyError name)
   | Inr p \<Rightarrow> spec_fingerprint name = Inr (release_fingerprint p)"
proof -
  have lookup: "map_of (map (\<lambda>(k, x). (k, f k x)) xs) k = map_option (f k) (map_of xs k)" for f xs and k :: string
    by (induction xs) auto
  have "map_option (spec_value name) (map_of profile_specs name) = map_option profile_value (map_of central_profiles name)"
    using specs_are_profiles lookup [of spec_value profile_specs name] lookup [of "\<lambda>_. profile_value" central_profiles name]
    by simp
  then show ?thesis
    by (cases "map_of profile_specs name"; cases "map_of central_profiles name")
      (simp_all add: central_profile_def spec_fingerprint_def release_fingerprint_def)
qed

section \<open>Releases\<close>












section \<open>Credentials\<close>












end
