(* ===== verification/Base64.thy ===== *)
theory Base64
  imports PyValue
begin

text \<open>
  The Base64 segments of a token: \<open>base64.urlsafe_b64encode\<close> without padding, and \<open>base64.urlsafe_b64decode\<close> with the
  padding completed.  The decoder of the standard library is lenient: it skips characters outside the alphabet, stops at
  a complete padding, and fails only when bits are left over.
\<close>

section \<open>Encoding\<close>

definition b64_alphabet :: string where
  "b64_alphabet = ''ABCDEFGHIJKLMNOPQRSTUVWXYZabcdefghijklmnopqrstuvwxyz0123456789-_''"

definition b64_char :: "nat \<Rightarrow> char" where
  "b64_char n = b64_alphabet ! n"

text \<open>\<open>urlsafe_b64encode(value).rstrip(b"=")\<close>\<close>

fun urlsafe_b64encode :: "string \<Rightarrow> string" where
  "urlsafe_b64encode [] = []"
| "urlsafe_b64encode [a] = (let m = of_char a in [b64_char (m div 4), b64_char (m mod 4 * 16)]) @ ''==''"
| "urlsafe_b64encode [a, b] =
     (let m = of_char a; n = of_char b in
      [b64_char (m div 4), b64_char (m mod 4 * 16 + n div 16), b64_char (n mod 16 * 4)] @ ''='')"
| "urlsafe_b64encode (a # b # c # s) =
     (let m = of_char a; n = of_char b; k = of_char c in
      [b64_char (m div 4), b64_char (m mod 4 * 16 + n div 16), b64_char (n mod 16 * 4 + k div 64), b64_char (k mod 64)]
      @ urlsafe_b64encode s)"

definition rstrip_char :: "char \<Rightarrow> string \<Rightarrow> string" where
  "rstrip_char c s = rev (dropWhile (\<lambda>x. x = c) (rev s))"

definition b64encode :: "string \<Rightarrow> string" where
  "b64encode s = rstrip_char (CHR ''='') (urlsafe_b64encode s)"

section \<open>Decoding\<close>

text \<open>The URL-safe characters are translated first, so the characters of the standard alphabet are accepted as well.\<close>

definition sextet :: "char \<Rightarrow> nat option" where
  "sextet c =
     (let n = (of_char c :: nat) in
      if 65 \<le> n \<and> n \<le> 90 then Some (n - 65)
      else if 97 \<le> n \<and> n \<le> 122 then Some (n - 71)
      else if 48 \<le> n \<and> n \<le> 57 then Some (n + 4)
      else if c = CHR ''-'' \<or> c = CHR ''+'' then Some 62
      else if c = CHR ''_'' \<or> c = CHR ''/'' then Some 63
      else None)"

text \<open>
  The state of the decoder: the position in a group of four characters, the bits that are left over, and the number of
  padding characters since the last character of the alphabet.
\<close>

fun a2b_base64 :: "nat \<Rightarrow> nat \<Rightarrow> nat \<Rightarrow> string \<Rightarrow> string option" where
  "a2b_base64 q l p [] = (if q = 0 then Some [] else None)"
| "a2b_base64 q l p (c # s) =
     (if c = CHR ''='' then
        (if 2 \<le> q \<and> 4 \<le> q + p + 1 then Some [] else a2b_base64 q l (if 2 \<le> q then p + 1 else p) s)
      else
        (case sextet c of
           None \<Rightarrow> a2b_base64 q l p s
         | Some v \<Rightarrow>
             if q = 0 then a2b_base64 1 v 0 s
             else if q = 1 then map_option ((#) (char_of (l * 4 + v div 16))) (a2b_base64 2 (v mod 16) 0 s)
             else if q = 2 then map_option ((#) (char_of (l * 16 + v div 4))) (a2b_base64 3 (v mod 4) 0 s)
             else map_option ((#) (char_of (l * 64 + v))) (a2b_base64 0 0 0 s)))"

definition is_ascii :: "string \<Rightarrow> bool" where
  "is_ascii s = list_all (\<lambda>c. of_char c < (128 :: nat)) s"

definition b64decode :: "string \<Rightarrow> string result" where
  "b64decode s =
     (let padded = s @ replicate ((4 - length s mod 4) mod 4) (CHR ''='') in
      if \<not> is_ascii padded then Inl (ValueError ''string argument should contain only ASCII characters'')
      else (case a2b_base64 0 0 0 padded of None \<Rightarrow> Inl (ValueError ''Incorrect padding'') | Some t \<Rightarrow> Inr t))"

section \<open>Round trip\<close>

lemma b64_char_facts:
  assumes "n < 64"
  shows "sextet (b64_char n) = Some n" "b64_char n \<noteq> CHR ''=''" "b64_char n \<noteq> CHR ''.''" "of_char (b64_char n) < (128 :: nat)"
proof -
  have len: "length b64_alphabet = 64" by code_simp
  have "map sextet b64_alphabet = map Some [0..<64]" by code_simp
  from arg_cong [OF this, of "\<lambda>xs. xs ! n"] show "sextet (b64_char n) = Some n"
    using assms by (simp add: b64_char_def len del: upt_Suc upt_rec_numeral)
  have "list_all (\<lambda>c. c \<noteq> CHR ''='' \<and> c \<noteq> CHR ''.'' \<and> of_char c < (128 :: nat)) b64_alphabet" by code_simp
  then have "\<forall>c \<in> set b64_alphabet. c \<noteq> CHR ''='' \<and> c \<noteq> CHR ''.'' \<and> of_char c < (128 :: nat)" by (simp only: list_all_iff)
  moreover have "b64_char n \<in> set b64_alphabet" using assms unfolding b64_char_def by (intro nth_mem) (simp only: len)
  ultimately show "b64_char n \<noteq> CHR ''=''" "b64_char n \<noteq> CHR ''.''" "of_char (b64_char n) < (128 :: nat)" by blast+
qed

lemma unpack:
  fixes a b c :: nat
  assumes "b < c"
  shows "(a * c + b) div c = a" "(a * c + b) mod c = b"
  using assms by (simp_all add: add.commute)

lemma octet_bits:
  fixes m n k :: nat
  assumes "m < 256" "n < 256" "k < 256"
  shows "m div 4 < 64" "m mod 4 * 16 + n div 16 < 64" "n mod 16 * 4 + k div 64 < 64" "k mod 64 < 64" "m mod 4 * 16 < 64" "n mod 16 * 4 < 64"
  using assms by auto

lemmas octets = octet_bits [OF nat_of_char_less_256 nat_of_char_less_256 nat_of_char_less_256]

text \<open>One group of four characters, and the last one with two or three.\<close>

lemma decode_group:
  assumes "m < 256" "n < 256" "k < 256"
  shows "a2b_base64 0 l p (b64_char (m div 4) # b64_char (m mod 4 * 16 + n div 16) # b64_char (n mod 16 * 4 + k div 64) # b64_char (k mod 64) # s) =
    map_option (\<lambda>r. char_of m # char_of n # char_of k # r) (a2b_base64 0 0 0 s)"
proof -
  have "m div 4 < 64" "m mod 4 * 16 + n div 16 < 64" "n mod 16 * 4 + k div 64 < 64" "k mod 64 < 64" using assms by auto
  moreover have "n div 16 < 16" "k div 64 < 4" using assms by auto
  then have "m div 4 * 4 + (m mod 4 * 16 + n div 16) div 16 = m" "(m mod 4 * 16 + n div 16) mod 16 * 16 + (n mod 16 * 4 + k div 64) div 4 = n"
    "(n mod 16 * 4 + k div 64) mod 4 * 64 + k mod 64 = k"
    by (simp_all only: unpack div_mult_mod_eq)
  ultimately show ?thesis by (simp add: b64_char_facts option.map_comp o_def)
qed

lemma decode_pair:
  assumes "m < 256" "n < 256"
  shows "a2b_base64 0 l p (b64_char (m div 4) # b64_char (m mod 4 * 16 + n div 16) # b64_char (n mod 16 * 4) # ''='') = Some [char_of m, char_of n]"
proof -
  have "m div 4 < 64" "m mod 4 * 16 + n div 16 < 64" "n mod 16 * 4 < 64" using assms by auto
  moreover have "n div 16 < 16" using assms by auto
  then have "m div 4 * 4 + (m mod 4 * 16 + n div 16) div 16 = m" "(m mod 4 * 16 + n div 16) mod 16 * 16 + (n mod 16 * 4) div 4 = n"
    by (simp_all only: unpack div_mult_mod_eq nonzero_mult_div_cancel_right zero_neq_numeral [symmetric] simp_thms)
  ultimately show ?thesis by (simp add: b64_char_facts)
qed

lemma decode_single:
  assumes "m < 256"
  shows "a2b_base64 0 l p (b64_char (m div 4) # b64_char (m mod 4 * 16) # ''=='') = Some [char_of m]"
proof -
  have "m div 4 < 64" "m mod 4 * 16 < 64" using assms by auto
  moreover have "m div 4 * 4 + (m mod 4 * 16) div 16 = m" by simp
  ultimately show ?thesis by (simp add: b64_char_facts)
qed

lemma decode_encode: "a2b_base64 0 0 0 (urlsafe_b64encode s) = Some s"
  by (induction s rule: urlsafe_b64encode.induct)
    (simp_all add: Let_def decode_group decode_pair decode_single nat_of_char_less_256 del: a2b_base64.simps(2))

text \<open>Stripping the padding and completing it again gives the same text.\<close>

lemma rstrip_append: "c \<notin> set s \<Longrightarrow> rstrip_char c (s @ replicate n c) = s"
  by (cases s rule: rev_cases) (auto simp: rstrip_char_def dropWhile_append)

lemma encode_shape:
  "\<exists>body n. urlsafe_b64encode s = body @ replicate n (CHR ''='') \<and> n < 4 \<and> (length body + n) mod 4 = 0 \<and>
     (\<forall>c \<in> set body. c \<noteq> CHR ''='' \<and> c \<noteq> CHR ''.'' \<and> of_char c < (128 :: nat))"
proof (induction s rule: urlsafe_b64encode.induct)
  case 1
  show ?case by (intro exI [of _ "[]"] exI [of _ 0]) simp
next
  case (2 a)
  have "(of_char a :: nat) div 4 < 64" "(of_char a :: nat) mod 4 * 16 < 64" by (rule octets)+
  note facts = this [THEN b64_char_facts(2)] this [THEN b64_char_facts(3)] this [THEN b64_char_facts(4)]
  then show ?case
    by (intro exI [of _ "[b64_char (of_char a div 4), b64_char (of_char a mod 4 * 16)]"] exI [of _ 2])
      (simp add: Let_def facts numeral_2_eq_2)
next
  case (3 a b)
  have "(of_char a :: nat) div 4 < 64" "(of_char a :: nat) mod 4 * 16 + of_char b div 16 < 64" "(of_char b :: nat) mod 16 * 4 < 64"
    by (rule octets)+
  note facts = this [THEN b64_char_facts(2)] this [THEN b64_char_facts(3)] this [THEN b64_char_facts(4)]
  then show ?case
    by (intro exI [of _ "[b64_char (of_char a div 4), b64_char (of_char a mod 4 * 16 + of_char b div 16), b64_char (of_char b mod 16 * 4)]"] exI [of _ 1])
      (simp add: Let_def facts)
next
  case (4 a b c s)
  have small: "(of_char a :: nat) div 4 < 64" "(of_char a :: nat) mod 4 * 16 + of_char b div 16 < 64"
    "(of_char b :: nat) mod 16 * 4 + of_char c div 64 < 64" "(of_char c :: nat) mod 64 < 64"
    by (rule octets)+
  note facts = small [THEN b64_char_facts(2)] small [THEN b64_char_facts(3)] small [THEN b64_char_facts(4)]
  from 4 obtain body n where b: "urlsafe_b64encode s = body @ replicate n (CHR ''='')" "n < 4" "(length body + n) mod 4 = 0"
      "\<forall>c \<in> set body. c \<noteq> CHR ''='' \<and> c \<noteq> CHR ''.'' \<and> of_char c < (128 :: nat)" by metis
  let ?g = "[b64_char (of_char a div 4), b64_char (of_char a mod 4 * 16 + of_char b div 16), b64_char (of_char b mod 16 * 4 + of_char c div 64),
    b64_char (of_char c mod 64)]"
  have "\<forall>x \<in> set ?g. x \<noteq> CHR ''='' \<and> x \<noteq> CHR ''.'' \<and> of_char x < (128 :: nat)"
    by (simp add: facts)
  moreover have "(length (?g @ body) + n) mod 4 = 0" using b(3) by (simp add: mod_Suc)
  ultimately show ?case using b by (intro exI [of _ "?g @ body"] exI [of _ n]) (auto simp: Let_def)
qed

lemma padding_completes:
  fixes l n :: nat
  assumes "n < 4" "(l + n) mod 4 = 0"
  shows "(4 - l mod 4) mod 4 = n"
proof -
  have "(l mod 4 + n) mod 4 = 0" using assms(2) by (simp add: mod_add_left_eq)
  moreover have "l mod 4 \<in> {0, 1, 2, 3}" "n \<in> {0, 1, 2, 3}" using assms(1) by auto
  ultimately show ?thesis by (elim insertE) simp_all
qed

theorem b64_round_trip: "b64decode (b64encode s) = Inr s"
proof -
  obtain body n where b: "urlsafe_b64encode s = body @ replicate n (CHR ''='')" "n < 4" "(length body + n) mod 4 = 0"
      "\<forall>c \<in> set body. c \<noteq> CHR ''='' \<and> c \<noteq> CHR ''.'' \<and> of_char c < (128 :: nat)" using encode_shape by metis
  have "CHR ''='' \<notin> set body" using b(4) by auto
  then have e: "b64encode s = body" by (simp add: b64encode_def b(1) rstrip_append)
  have "of_char (CHR ''='') < (128 :: nat)" by code_simp
  then have ascii: "is_ascii (urlsafe_b64encode s)"
    using b(4) unfolding is_ascii_def b(1) list_all_iff set_append by (metis UnE in_set_replicate)
  have padded: "b64encode s @ replicate ((4 - length (b64encode s) mod 4) mod 4) (CHR ''='') = urlsafe_b64encode s"
    by (simp only: e padding_completes [OF b(2,3)] b(1))
  show ?thesis
    unfolding b64decode_def padded Let_def using ascii by (simp add: decode_encode)
qed

lemma b64encode_chars: "c \<in> set (b64encode s) \<Longrightarrow> c \<noteq> CHR ''.''"
proof -
  obtain body n where b: "urlsafe_b64encode s = body @ replicate n (CHR ''='')"
      "\<forall>c \<in> set body. c \<noteq> CHR ''='' \<and> c \<noteq> CHR ''.'' \<and> of_char c < (128 :: nat)" using encode_shape by metis
  have "CHR ''='' \<notin> set body" using b(2) by auto
  then have "b64encode s = body" by (simp add: b64encode_def b(1) rstrip_append)
  then show "c \<in> set (b64encode s) \<Longrightarrow> c \<noteq> CHR ''.''" using b(2) by auto
qed

end
