(* ===== verification/WorkflowIdentity.thy ===== *)
theory WorkflowIdentity
  imports PyValue
begin

text \<open>
  Which GitHub workflow is calling: \<open>services/workflow_identity.py\<close> for release authorizations and
  \<open>services/release_workflow_identity.py\<close> for quality and release callbacks.  The verified claims of a token are the
  argument \<open>decode\<close>, the answer of \<open>jwt.decode\<close> with the audience and the issuer of the module (none when it raises); its
  first argument says whether the claim \<open>sha\<close> is required as well.
\<close>

section \<open>Claims\<close>

definition identity_error :: "string \<Rightarrow> 'a result" where
  "identity_error message = Inl (ReleaseAuthorizationError message)"

definition decode_claims :: "(bool \<Rightarrow> string \<Rightarrow> doc option) \<Rightarrow> bool \<Rightarrow> string \<Rightarrow> doc result" where
  "decode_claims decode platform token =
     (if token = '''' \<or> 16384 < length token then identity_error ''Missing workflow identity''
      else (case decode platform token of None \<Rightarrow> identity_error ''Invalid workflow identity'' | Some claims \<Rightarrow> Inr claims))"

text \<open>\<open>claims[key] == value\<close> for several keys, left to right up to the first that differs\<close>

fun claims_are :: "(string \<times> string) list \<Rightarrow> doc \<Rightarrow> bool result" where
  "claims_are [] claims = Inr True"
| "claims_are ((k, s) # ks) claims =
     then_result (need claims k) (\<lambda>v. if v \<noteq> PStr s then Inr False else claims_are ks claims)"

text \<open>\<open>{key: str(claims[key]) for key in keys}\<close>\<close>

fun claim_texts :: "string list \<Rightarrow> doc \<Rightarrow> doc result" where
  "claim_texts [] claims = Inr []"
| "claim_texts (k # ks) claims =
     then_result (need claims k) (\<lambda>v. then_result (claim_texts ks claims) (\<lambda>d. Inr ((k, PStr (py_str v)) # d)))"

definition release_kind :: "string \<Rightarrow> bool" where
  "release_kind kind = (kind \<in> {''deploy'', ''rollback''})"

section \<open>The central workflow\<close>

definition central_reference :: "string \<Rightarrow> string" where
  "central_reference repository = repository @ ''/.github/workflows/central-release.yml@refs/heads/main''"

definition verify_central :: "(bool \<Rightarrow> string \<Rightarrow> doc option) \<Rightarrow> string \<Rightarrow> string \<Rightarrow> string \<Rightarrow> doc result" where
  "verify_central decode token execution_repository kind =
     (if execution_repository = '''' then identity_error ''Missing workflow identity''
      else
        then_result (decode_claims decode False token) (\<lambda>claims.
        let expected = central_reference execution_repository; untrusted = identity_error ''Untrusted release workflow'' in
        if \<not> release_kind kind then untrusted
        else
          then_result
            (claims_are [(''repository'', execution_repository), (''ref'', ''refs/heads/main''), (''workflow_ref'', expected)] claims) (\<lambda>here.
          if \<not> here \<or> dget_or claims ''job_workflow_ref'' (PStr expected) \<noteq> PStr expected then untrusted
          else
            then_result (claims_are [(''event_name'', ''workflow_dispatch'')] claims) (\<lambda>dispatched.
            if \<not> dispatched then untrusted
            else claim_texts [''repository'', ''workflow_ref'', ''run_id'', ''run_attempt''] claims))))"

section \<open>Platform workflows\<close>

text \<open>The environment of the approval that a stage needs; none for consumption.\<close>

definition stage_environment :: "string \<Rightarrow> string \<Rightarrow> string \<Rightarrow> string result" where
  "stage_environment kind mode stage =
     (if mode = ''continue'' then
        (let environments = (if kind = ''deploy'' then [(''candidate'', ''candidate''), (''promote'', ''production'')]
                             else [(''rollback'', ''production'')]) in
         case map_of environments stage of
           None \<Rightarrow> identity_error ''Invalid platform continuation stage''
         | Some environment \<Rightarrow> Inr environment)
      else if mode \<noteq> ''consume'' \<or> stage \<noteq> '''' then identity_error ''Invalid platform consumption stage''
      else Inr '''')"

text \<open>\<open>re.fullmatch(r"[1-9][0-9]*", s)\<close>\<close>

definition positive_text :: "string \<Rightarrow> bool" where
  "positive_text s = (s \<noteq> [] \<and> list_all is_digit s \<and> hd s \<noteq> CHR ''0'')"

fun positive_claim :: "pyval \<Rightarrow> string option" where
  "positive_claim (PStr s) = (if positive_text s then Some s else None)"
| "positive_claim v = None"

definition before_char :: "char \<Rightarrow> string \<Rightarrow> string" where
  "before_char c s = takeWhile (\<lambda>x. x \<noteq> c) s"

definition behind_char :: "char \<Rightarrow> string \<Rightarrow> string" where
  "behind_char c s = drop 1 (dropWhile (\<lambda>x. x \<noteq> c) s)"

text \<open>The subjects GitHub may sign for the repository: by its name, and by its name with the identities in the claims.\<close>

definition subjects_of :: "doc \<Rightarrow> string \<Rightarrow> string \<Rightarrow> string list result" where
  "subjects_of claims repository context =
     (if CHR ''/'' \<notin> set repository then Inl (ValueError ''not enough values to unpack (expected 2, got 1)'')
      else
        (let owner = before_char (CHR ''/'') repository; name = behind_char (CHR ''/'') repository in
         Inr ((''repo:'' @ repository @ '':'' @ context) #
           (case (positive_claim (dget claims ''repository_owner_id''), positive_claim (dget claims ''repository_id'')) of
              (Some i, Some j) \<Rightarrow>
                if is_str claims ''repository_owner'' owner
                then [''repo:'' @ owner @ ''@'' @ i @ ''/'' @ name @ ''@'' @ j @ '':'' @ context] else []
            | _ \<Rightarrow> []))))"

definition platform_reference :: "string \<Rightarrow> string \<Rightarrow> string" where
  "platform_reference kind tag = (if kind = ''deploy'' then ''refs/tags/'' @ tag else ''refs/heads/main'')"

definition platform_workflow :: "string \<Rightarrow> string \<Rightarrow> string \<Rightarrow> string" where
  "platform_workflow repository kind reference = repository @ ''/.github/workflows/platform-'' @ kind @ ''.yml@'' @ reference"

text \<open>The checks that follow the one of the subject, left to right.\<close>

definition platform_run_ok :: "string \<Rightarrow> string \<Rightarrow> string \<Rightarrow> doc \<Rightarrow> bool result" where
  "platform_run_ok kind release_sha environment claims =
     (if dget_or claims ''environment'' (PStr '''') \<noteq> PStr environment then Inr False
      else
        then_result (need claims ''sha'') (\<lambda>sha.
        if \<not> hex_string 40 (py_str sha) \<or> (kind = ''deploy'' \<and> sha \<noteq> PStr release_sha) then Inr False
        else
          then_result (need claims ''run_id'') (\<lambda>run.
          if \<not> positive_text (py_str run) then Inr False
          else then_result (need claims ''run_attempt'') (\<lambda>attempt. Inr (positive_text (py_str attempt))))))"

definition verify_platform ::
  "(bool \<Rightarrow> string \<Rightarrow> doc option) \<Rightarrow> string \<Rightarrow> string \<Rightarrow> string \<Rightarrow> string \<Rightarrow> string \<Rightarrow> string \<Rightarrow> string \<Rightarrow> doc result" where
  "verify_platform decode token repository kind tag release_sha mode stage =
     then_result (decode_claims decode True token) (\<lambda>claims.
     let reference = platform_reference kind tag; expected = platform_workflow repository kind reference;
         untrusted = identity_error ''Untrusted platform workflow'' in
     then_result (stage_environment kind mode stage) (\<lambda>environment.
     let context = (if environment \<noteq> '''' then ''environment:'' @ environment else ''ref:'' @ reference) in
     then_result (subjects_of claims repository context) (\<lambda>subjects.
     if \<not> release_kind kind then untrusted
     else
       then_result (claims_are [(''repository'', repository), (''ref'', reference), (''workflow_ref'', expected)] claims) (\<lambda>here.
       if \<not> here \<or> dget_or claims ''job_workflow_ref'' (PStr expected) \<noteq> PStr expected then untrusted
       else
         then_result (claims_are [(''event_name'', ''workflow_dispatch'')] claims) (\<lambda>dispatched.
         if \<not> dispatched then untrusted
         else
           then_result (need claims ''sub'') (\<lambda>sub.
           then_result (in_set sub subjects) (\<lambda>ours.
           if \<not> ours then untrusted
           else
             then_result (platform_run_ok kind release_sha environment claims) (\<lambda>ok.
             if \<not> ok then untrusted
             else
               then_result (claim_texts [''repository'', ''ref'', ''workflow_ref'', ''sha'', ''run_id'', ''run_attempt''] claims) (\<lambda>identity.
               Inr (identity @
                 (if sub \<noteq> PStr (''repo:'' @ repository @ '':'' @ context)
                  then [(''repository_owner_id'', PStr (py_str (dget claims ''repository_owner_id''))),
                        (''repository_id'', PStr (py_str (dget claims ''repository_id'')))]
                  else [])))))))))))"

section \<open>Callbacks\<close>

definition workflow_error :: "string \<Rightarrow> 'a result" where
  "workflow_error message = Inl (ReleaseWorkflowIdentityError message)"

text \<open>The only workflow that may drive an operation.\<close>

definition workflow_file :: "string \<Rightarrow> string result" where
  "workflow_file operation =
     (case map_of [(''pr_quality'', ''eng-platform-quality.yml''), (''main_release'', ''eng-platform-release.yml'')] operation of
        None \<Rightarrow> workflow_error ''Unknown release operation''
      | Some file_name \<Rightarrow> Inr file_name)"

definition matches_workflow_path :: "string \<Rightarrow> string \<Rightarrow> bool result" where
  "matches_workflow_path operation path =
     (let normalized = dropWhile (\<lambda>c. c = CHR ''/'') (before_char (CHR ''@'') path) in
      then_result (workflow_file operation) (\<lambda>f. Inr (normalized = ''.github/workflows/'' @ f)))"

definition callback_event :: "doc \<Rightarrow> string \<Rightarrow> pyval" where
  "callback_event execution operation =
     py_or (dget execution ''trigger_event'') (PStr (if operation = ''pr_quality'' then ''pull_request_target'' else ''push''))"

definition verify_callback :: "(string \<Rightarrow> doc option) \<Rightarrow> string \<Rightarrow> doc \<Rightarrow> doc result" where
  "verify_callback decode token execution =
     (if token = '''' \<or> 16384 < length token then workflow_error ''Missing workflow identity''
      else
        (case decode token of
           None \<Rightarrow> workflow_error ''Invalid workflow identity''
         | Some claims \<Rightarrow>
             then_result (need execution ''operation'') (\<lambda>v.
             let operation = py_str v in
             then_result (workflow_file operation) (\<lambda>workflow.
             if py_ne (dget claims ''repository'') (dget execution ''repository'') \<or>
                py_ne (dget claims ''event_name'') (callback_event execution operation) \<or>
                \<not> ends_with (''/.github/workflows/'' @ workflow @ ''@refs/heads/main'') (py_str (dget_or claims ''workflow_ref'' (PStr ''''))) \<or>
                \<not> is_str claims ''ref'' ''refs/heads/main'' \<or>
                (operation = ''pr_quality'' \<and> \<not> is_str claims ''base_ref'' ''main'') \<or>
                (operation = ''main_release'' \<and> py_ne (dget claims ''sha'') (dget execution ''head_sha''))
             then workflow_error ''Untrusted quality workflow''
             else claim_texts [''repository'', ''ref'', ''workflow_ref'', ''run_id'', ''run_attempt'', ''event_name'', ''sha''] claims))))"

end
