(* ===== verification/Authorizations.thy ===== *)
theory Authorizations
  imports Base64 JsonReader WorkflowIdentity DatabaseSessions BuildProfiles
begin

text \<open>
  Release authorizations: signed tickets (\<open>services/release_authorization.py\<close>), the store where each is consumed once
  (\<open>services/release_authorization_store.py\<close>) and the endpoint that consumes and continues them
  (\<open>routers/release_authorizations.py\<close>).  The Ed25519 keys are a \<open>signer\<close>; a clock reading is in microseconds and serves
  one operation, as for the database jobs whose grants the endpoint validates.
\<close>

section \<open>Issuing\<close>

record signer =
  sg_sign :: "string \<Rightarrow> string result"
  sg_check :: "string \<Rightarrow> string \<Rightarrow> bool"

definition default_audience :: string where
  "default_audience = ''github-release-workflow''"

definition token_ttl :: int where
  "token_ttl = 300"

text \<open>The arguments of \<open>issue\<close>.\<close>

record ticket =
  ti_repository :: string
  ti_service :: string
  ti_tag :: string
  ti_sha :: string
  ti_deployment :: int
  ti_requested_by :: string
  ti_kind :: string
  ti_target_revision :: string
  ti_execution_repository :: string
  ti_configuration :: "doc option"
  ti_release :: string
  ti_artifact_digest :: string
  ti_target :: string
  ti_operation :: string
  ti_audience :: string
  ti_execution_mode :: string
  ti_configuration_hash :: string
  ti_capability :: bool
  ti_continuation :: bool

text \<open>\<open>mcp_grants.release_claims\<close>; the principal is the one of the current request, if it came through MCP.\<close>

definition release_claims :: "db_config \<Rightarrow> int \<Rightarrow> principal option \<Rightarrow> string \<Rightarrow> db_world \<Rightarrow> doc result" where
  "release_claims cf now current requested_by w =
     (case current of
        None \<Rightarrow> Inr []
      | Some p \<Rightarrow>
          then_result (mcp_require cf now p w) (\<lambda>_.
          if pr_login p \<noteq> str_lower requested_by then Inl (HTTPException 403 ''MCP operator mismatch'')
          else Inr [(''mcp_grant_id'', PStr (pr_id p)), (''mcp_authority_policy'', PStr ''mcp-uniform-v1'')]))"

definition base_claims :: "int \<Rightarrow> string \<Rightarrow> ticket \<Rightarrow> doc" where
  "base_claims seconds jti t =
     [(''iss'', PStr ''engineering-platform''), (''aud'', PStr (ti_audience t)), (''iat'', PInt seconds),
      (''exp'', PInt (seconds + token_ttl)), (''jti'', PStr jti), (''repository'', PStr (ti_repository t)),
      (''service_name'', PStr (ti_service t)), (''tag'', PStr (ti_tag t)), (''sha'', PStr (ti_sha t)),
      (''github_deployment_id'', PStr (int_text (ti_deployment t))), (''requested_by'', PStr (ti_requested_by t)),
      (''kind'', PStr (ti_kind t)), (''execution_mode'', PStr (ti_execution_mode t))]"

definition optional_claim :: "string \<Rightarrow> string \<Rightarrow> doc" where
  "optional_claim k v = (if v = '''' then [] else [(k, PStr v)])"

definition true_claim :: "string \<Rightarrow> bool \<Rightarrow> doc" where
  "true_claim k b = (if b then [(k, PBool True)] else [])"

text \<open>The value of the claim \<open>configuration_hash\<close>; none is the empty string.\<close>

definition hash_claim :: "ticket \<Rightarrow> string result" where
  "hash_claim t =
     (case ti_configuration t of
        None \<Rightarrow> Inr (ti_configuration_hash t)
      | Some d \<Rightarrow>
          if ti_configuration_hash t \<noteq> '''' then Inl (ReleaseAuthorizationError ''Specify configuration or configuration_hash, not both'')
          else Inr (sha256_hex (json_dumps True True (PDict d))))"

definition may_continue :: "ticket \<Rightarrow> string \<Rightarrow> bool" where
  "may_continue t config_hash =
     (starts_with ''cgm-artemis-'' (ti_service t) \<and> release_kind (ti_kind t) \<and> ti_execution_repository t = '''' \<and>
      ti_audience t = default_audience \<and> ti_execution_mode t = ''github-actions'' \<and> hex_string 64 config_hash)"

definition ticket_claims :: "int \<Rightarrow> string \<Rightarrow> doc \<Rightarrow> string \<Rightarrow> ticket \<Rightarrow> doc" where
  "ticket_claims seconds jti grant config_hash t =
     base_claims seconds jti t @ grant @ optional_claim ''release_id'' (ti_release t) @
     optional_claim ''artifact_digest'' (ti_artifact_digest t) @ optional_claim ''target'' (ti_target t) @
     optional_claim ''operation'' (ti_operation t) @ optional_claim ''target_revision'' (ti_target_revision t) @
     optional_claim ''configuration_hash'' config_hash @ optional_claim ''execution_repository'' (ti_execution_repository t) @
     true_claim ''capability_issued'' (ti_capability t) @ true_claim ''workflow_continuation'' (ti_continuation t)"

definition token_header :: doc where
  "token_header = [(''alg'', PStr ''EdDSA''), (''typ'', PStr ''JWT''), (''kid'', PStr ''release-v1'')]"

definition json_segment :: "doc \<Rightarrow> string" where
  "json_segment d = b64encode (json_dumps True True (PDict d))"

definition signing_input :: "doc \<Rightarrow> string" where
  "signing_input claims = json_segment token_header @ ''.'' @ json_segment claims"

definition signed_token :: "doc \<Rightarrow> string \<Rightarrow> string" where
  "signed_token claims signature = signing_input claims @ ''.'' @ b64encode signature"

definition issue :: "signer \<Rightarrow> build_config \<Rightarrow> db_config \<Rightarrow> int \<Rightarrow> string \<Rightarrow> principal option \<Rightarrow> db_world \<Rightarrow> ticket \<Rightarrow> (string \<times> doc) result" where
  "issue G bc cf now jti current w t =
     then_result (require_managed_service_name bc (ti_service t)) (\<lambda>_.
     then_result (release_claims cf now current (ti_requested_by t) w) (\<lambda>grant.
     then_result (hash_claim t) (\<lambda>config_hash.
     if ti_continuation t \<and> \<not> may_continue t config_hash
     then Inl (ReleaseAuthorizationError ''Invalid platform continuation capability'')
     else
       let claims = ticket_claims (now div second) jti grant config_hash t in
       then_result (sg_sign G (signing_input claims)) (\<lambda>signature. Inr (signed_token claims signature, claims)))))"

section \<open>Verification\<close>

text \<open>
  The text of UTF-8 bytes.  Characters beyond the 8-bit ones have no value here and read as an error.
\<close>

fun utf8_text :: "string \<Rightarrow> string result" where
  "utf8_text [] = Inr []"
| "utf8_text (c # s) =
     (let n = (of_char c :: nat); invalid = Inl (ValueError ''invalid utf-8'') in
      if n < 128 then map_result ((#) c) (utf8_text s)
      else if n = 194 \<or> n = 195 then
        (case s of
           d # r \<Rightarrow>
             (let m = (of_char d :: nat) in
              if 128 \<le> m \<and> m < 192 then map_result ((#) (char_of (n mod 4 * 64 + m mod 64))) (utf8_text r) else invalid)
         | [] \<Rightarrow> invalid)
      else invalid)"

definition read_segment :: "string \<Rightarrow> pyval result" where
  "read_segment s = then_result (b64decode s) (\<lambda>raw. then_result (utf8_text raw) (json_loads False))"

text \<open>Header, claims, signing input and signature of a token.\<close>

definition token_parts :: "string \<Rightarrow> (pyval \<times> pyval \<times> string \<times> string) result" where
  "token_parts token =
     (case split_char (CHR ''.'') token of
        [h, p, s] \<Rightarrow>
          (case (read_segment h, read_segment p, b64decode s) of
             (Inr header, Inr claims, Inr signature) \<Rightarrow> Inr (header, claims, h @ ''.'' @ p, signature)
           | _ \<Rightarrow> Inl (ReleaseAuthorizationError ''Malformed release authorization''))
      | _ \<Rightarrow> Inl (ReleaseAuthorizationError ''Malformed release authorization''))"

text \<open>\<open>isinstance(v, int)\<close>, which booleans are as well\<close>

fun int_claim :: "pyval \<Rightarrow> int option" where
  "int_claim (PInt i) = Some i"
| "int_claim (PBool b) = Some (if b then 1 else 0)"
| "int_claim v = None"

definition continuing :: "doc \<Rightarrow> bool" where
  "continuing claims = (dget claims ''workflow_continuation'' = PBool True)"

definition claims_current :: "int \<Rightarrow> string \<Rightarrow> bool \<Rightarrow> doc \<Rightarrow> bool" where
  "claims_current seconds audience continuation claims =
     (is_str claims ''iss'' ''engineering-platform'' \<and> is_str claims ''aud'' audience \<and>
      (case (int_claim (dget claims ''iat''), int_claim (dget claims ''exp'')) of
         (Some iat, Some expiry) \<Rightarrow>
           iat \<le> seconds + 30 \<and> (seconds \<le> expiry \<or> (continuation \<and> continuing claims)) \<and>
           iat < expiry \<and> expiry - iat \<le> token_ttl
       | _ \<Rightarrow> False) \<and>
      flag claims ''jti'')"

fun claims_match :: "(string \<times> string) list \<Rightarrow> doc \<Rightarrow> unit result" where
  "claims_match [] claims = Inr ()"
| "claims_match ((k, v) # ks) claims =
     (if py_str (dget_or claims k (PStr '''')) \<noteq> v then Inl (ReleaseAuthorizationError (''Release authorization mismatch: '' @ k))
      else claims_match ks claims)"

definition verify_ticket :: "signer \<Rightarrow> int \<Rightarrow> string \<Rightarrow> bool \<Rightarrow> string \<Rightarrow> (string \<times> string) list \<Rightarrow> doc result" where
  "verify_ticket G seconds audience continuation token expected =
     then_result (token_parts token) (\<lambda>(header, payload, input, signature).
     if py_ne header (PDict token_header) then Inl (ReleaseAuthorizationError ''Unsupported release authorization header'')
     else if \<not> sg_check G signature input then Inl (ReleaseAuthorizationError ''Invalid release authorization signature'')
     else
       then_result (attr_dict payload) (\<lambda>claims.
       if \<not> claims_current seconds audience continuation claims
       then Inl (ReleaseAuthorizationError ''Expired or invalid release authorization'')
       else then_result (claims_match expected claims) (\<lambda>_. Inr claims)))"

section \<open>The store\<close>

text \<open>A store is Firestore, or the process-local simulation when no collection is configured.\<close>

record 's ticket_store =
  ts_backend :: "'s backend"
  ts_project :: bool
  ts_mock :: bool

definition with_store :: "'s ticket_store \<Rightarrow> bool \<Rightarrow> ('s, 'a) op \<Rightarrow> ('s, 'a) op" where
  "with_store T require_durable m =
     (if \<not> volatile (ts_backend T)
      then if ts_project T then m else db_raise (RuntimeError ''Release authorization project is not configured'')
      else if require_durable \<or> \<not> ts_mock T then db_raise (RuntimeError ''Durable release authorization store is not configured'')
      else m)"

definition consume_ticket :: "'s ticket_store \<Rightarrow> string \<Rightarrow> doc \<Rightarrow> bool \<Rightarrow> ('s, bool) op" where
  "consume_ticket T jti d require_durable =
     with_store T require_durable (\<lambda>s.
       case load (ts_backend T) s jti of
         Some _ \<Rightarrow> (Inr False, s)
       | None \<Rightarrow> (Inr True, put (ts_backend T) jti d s))"

definition revoke_ticket :: "'s ticket_store \<Rightarrow> string \<Rightarrow> ('s, unit) op" where
  "revoke_ticket T jti =
     (if jti = '''' then db_return ()
      else
        with_store T False (\<lambda>s.
          let d = [(''revoked'', PBool True)] in
          case load (ts_backend T) s jti of
            None \<Rightarrow> (Inr (), put (ts_backend T) jti d s)
          | Some _ \<Rightarrow> (Inr (), patch (ts_backend T) jti d s)))"

definition get_ticket :: "'s ticket_store \<Rightarrow> string \<Rightarrow> bool \<Rightarrow> ('s, doc option) op" where
  "get_ticket T jti require_durable =
     (if jti = '''' then db_return None
      else
        with_store T require_durable (reading (\<lambda>s.
          Inr (case load (ts_backend T) s jti of
            None \<Rightarrow> None
          | Some d \<Rightarrow> if volatile (ts_backend T) \<and> d = [] then None else Some d))))"

subsection \<open>Execution bindings\<close>

definition digests_of :: "doc \<Rightarrow> pyval list result" where
  "digests_of d = (if flag d ''effect_digests'' then items_of (dget d ''effect_digests'') else Inr [])"

definition known :: "pyval \<Rightarrow> pyval list \<Rightarrow> bool" where
  "known v vs = list_ex (py_eq v) vs"

definition scope_names :: "string list" where
  "scope_names = [''scope'', ''scope_key'', ''context'']"

text \<open>\<open>compatible\<close>: the binding to store, or none when the ticket is bound to something else.\<close>

definition merged_binding :: "doc \<Rightarrow> doc \<Rightarrow> doc result" where
  "merged_binding current incoming =
     then_result (digests_of current) (\<lambda>old.
     let legacy = dget_or current ''effect_digest'' (PStr ''''); new = dget_or incoming ''effect_digest'' (PStr '''');
         with_legacy = (if truthy legacy \<and> \<not> known legacy old then legacy # old else old);
         digests = (if truthy new \<and> \<not> known new with_legacy then with_legacy @ [new] else with_legacy);
         normalized = dict_set ''effect_digests'' (PList digests) current in
     Inr (if \<not> flag normalized ''effect_digest'' \<and> truthy new then dict_set ''effect_digest'' new normalized else normalized))"

definition compatible_binding :: "pyval \<Rightarrow> doc \<Rightarrow> doc option result" where
  "compatible_binding current incoming =
     (if \<not> truthy current then
        (let digest = dget_or incoming ''effect_digest'' (PStr '''') in
         Inr (Some (dict_set ''effect_digests'' (PList (if truthy digest then [digest] else [])) incoming)))
      else
        (case current of
           PDict d \<Rightarrow>
             if list_ex (\<lambda>k. py_ne (dget d k) (dget incoming k)) scope_names then Inr None
             else map_result Some (merged_binding d incoming)
         | _ \<Rightarrow> Inr None))"

definition bind_decision :: "bool \<Rightarrow> doc \<Rightarrow> doc option \<Rightarrow> (bool \<times> doc option) result" where
  "bind_decision local binding d =
     (case d of
        None \<Rightarrow> Inr (False, None)
      | Some r \<Rightarrow>
          if local \<and> r = [] then Inr (False, None)
          else
            then_result (compatible_binding (dget r ''execution_binding'') binding) (\<lambda>found.
            case found of
              None \<Rightarrow> Inr (False, None)
            | Some b \<Rightarrow>
                Inr (True, if py_ne (dget r ''execution_binding'') (PDict b) then Some [(''execution_binding'', PDict b)] else None)))"

definition bind_ticket :: "'s ticket_store \<Rightarrow> string \<Rightarrow> doc \<Rightarrow> bool \<Rightarrow> ('s, bool) op" where
  "bind_ticket T jti binding require_durable =
     with_store T require_durable
       (transact (ts_backend T) jti (bind_decision (volatile (ts_backend T)) binding))"

section \<open>The endpoint\<close>

record consume_payload =
  cr_mode :: string
  cr_stage :: string
  cr_token :: string
  cr_repository :: string
  cr_service :: string
  cr_tag :: string
  cr_sha :: string
  cr_deployment :: string
  cr_kind :: string
  cr_target_revision :: string
  cr_configuration_hash :: string

record 's authority =
  ay_signer :: signer
  ay_store :: "'s ticket_store"
  ay_decode :: "bool \<Rightarrow> string \<Rightarrow> doc option"
  ay_build :: build_config
  ay_control :: db_config
  ay_logins :: "string list"

definition expected_claims :: "consume_payload \<Rightarrow> (string \<times> string) list" where
  "expected_claims q =
     [(''repository'', cr_repository q), (''service_name'', cr_service q), (''tag'', cr_tag q), (''sha'', cr_sha q),
      (''github_deployment_id'', cr_deployment q), (''kind'', cr_kind q)]"

definition authorization_error :: "string \<Rightarrow> 'a result" where
  "authorization_error message = Inl (ReleaseAuthorizationError message)"

text \<open>\<open>verify_continuation\<close>: an expired ticket continues only the operation that consumed it.\<close>

definition verify_continuation :: "'s authority \<Rightarrow> int \<Rightarrow> string \<Rightarrow> (string \<times> string) list \<Rightarrow> ('s, doc \<times> doc) op" where
  "verify_continuation A seconds token expected =
     db_bind (reading (\<lambda>_. verify_ticket (ay_signer A) seconds default_audience True token expected)) (\<lambda>claims.
     if \<not> continuing claims then db_raise (ReleaseAuthorizationError ''Ticket does not authorize continuation'')
     else
       db_bind (get_ticket (ay_store A) (py_str (dget claims ''jti'')) True) (\<lambda>found.
       let refuse = db_raise (ReleaseAuthorizationError ''Continuation requires a consumed ticket'') in
       case found of
         None \<Rightarrow> refuse
       | Some consumed \<Rightarrow>
           if consumed = [] \<or> flag consumed ''revoked'' \<or> \<not> continuing consumed \<or> py_ne (dget consumed ''exp'') (dget claims ''exp'')
           then refuse else db_return (claims, consumed)))"

text \<open>The MCP grant of a ticket is still valid.\<close>

definition check_grant :: "db_config \<Rightarrow> int \<Rightarrow> db_world \<Rightarrow> doc \<Rightarrow> unit result" where
  "check_grant cf now w claims =
     (if \<not> flag claims ''mcp_grant_id'' then Inr ()
      else if \<not> is_str claims ''mcp_authority_policy'' ''mcp-uniform-v1'' then authorization_error ''MCP policy changed''
      else
        (case dget claims ''mcp_grant_id'' of
           PStr i \<Rightarrow>
             (case dget claims ''requested_by'' of
                PNone \<Rightarrow> then_result (mcp_validate cf now i None w) (\<lambda>_. Inr ())
              | PStr login \<Rightarrow> then_result (mcp_validate cf now i (Some login) w) (\<lambda>_. Inr ())
              | _ \<Rightarrow> then_result (mcp_validate cf now i None w) (\<lambda>_. Inl (AttributeError ''lower'')))
         | _ \<Rightarrow>
             if cf_mcp cf then Inl (TypeError ''expected string or bytes-like object'') else Inl mcp_reconnect))"

text \<open>Whoever asked for the release may still operate.\<close>

definition check_operator :: "string list \<Rightarrow> doc \<Rightarrow> unit result" where
  "check_operator logins claims =
     (if flag claims ''mcp_grant_id'' then Inr ()
      else
        (case dget_or claims ''requested_by'' (PStr '''') of
           PStr login \<Rightarrow> if str_lower login \<in> set logins then Inr () else authorization_error ''Operator authorization was revoked''
         | _ \<Rightarrow> Inl (AttributeError ''lower'')))"

definition workflow_of :: "'s authority \<Rightarrow> consume_payload \<Rightarrow> string \<Rightarrow> doc \<Rightarrow> doc result" where
  "workflow_of A q oidc claims =
     (if continuing claims then
        if \<not> starts_with ''cgm-artemis-'' (cr_service q) \<or> flag claims ''execution_repository''
        then authorization_error ''Invalid platform continuation capability''
        else verify_platform (ay_decode A) oidc (cr_repository q) (cr_kind q) (cr_tag q) (cr_sha q) (cr_mode q) (cr_stage q)
      else
        (case dget claims ''execution_repository'' of
           PStr r \<Rightarrow> verify_central (ay_decode A) oidc r (cr_kind q)
         | _ \<Rightarrow> authorization_error ''Untrusted release workflow''))"

text \<open>The workflow identity that a request is bound to; none for callers of the old kind.\<close>

definition request_identity :: "'s authority \<Rightarrow> consume_payload \<Rightarrow> string \<Rightarrow> doc \<Rightarrow> doc result" where
  "request_identity A q oidc claims =
     (let bound = (continuing claims \<or> flag claims ''execution_repository'') in
      if (bound \<or> cr_target_revision q \<noteq> '''') \<and> dget_or claims ''target_revision'' (PStr '''') \<noteq> PStr (cr_target_revision q)
      then authorization_error ''Rollback target mismatch''
      else if \<not> bound then Inr []
      else
        then_result (check_operator (ay_logins A) claims) (\<lambda>_.
        if dget claims ''configuration_hash'' \<noteq> PStr (cr_configuration_hash q) then authorization_error ''Configuration mismatch''
        else workflow_of A q oidc claims))"

definition request_context :: "consume_payload \<Rightarrow> doc \<Rightarrow> doc result" where
  "request_context q claims =
     then_result (need claims ''exp'') (\<lambda>expiry.
     Inr (map (\<lambda>(k, v). (k, PStr v)) (expected_claims q) @
       [(''exp'', expiry), (''requested_by'', dget_or claims ''requested_by'' (PStr '''')),
        (''configuration_hash'', dget_or claims ''configuration_hash'' (PStr '''')), (''target_revision'', PStr (cr_target_revision q)),
        (''mcp_grant_id'', dget_or claims ''mcp_grant_id'' (PStr '''')),
        (''mcp_authority_policy'', dget_or claims ''mcp_authority_policy'' (PStr ''''))]))"

text \<open>The checks between the token and the store: the context of the request and the workflow it is bound to.\<close>

definition authorize_request :: "'s authority \<Rightarrow> int \<Rightarrow> db_world \<Rightarrow> consume_payload \<Rightarrow> string \<Rightarrow> doc \<Rightarrow> (doc \<times> doc) result" where
  "authorize_request A now w q oidc claims =
     then_result (check_grant (ay_control A) now w claims) (\<lambda>_.
     then_result (request_identity A q oidc claims) (\<lambda>identity.
     then_result (require_managed_service_name (ay_build A) (cr_service q)) (\<lambda>_.
     then_result (request_context q claims) (\<lambda>context. Inr (context, identity)))))"

definition same_operation :: "doc \<Rightarrow> doc \<Rightarrow> doc \<Rightarrow> bool" where
  "same_operation context identity previous =
     (list_all (\<lambda>(k, v). \<not> py_ne (dget previous k) v) context \<and> py_eq (dget previous ''workflow_identity'') (PDict identity))"

definition continue_request :: "'s authority \<Rightarrow> int \<Rightarrow> db_world \<Rightarrow> consume_payload \<Rightarrow> string \<Rightarrow> ('s, bool \<times> string) op" where
  "continue_request A now w q oidc =
     db_bind (verify_continuation A (now div second) (cr_token q) (expected_claims q)) (\<lambda>(claims, previous).
     db_bind (reading (\<lambda>_. authorize_request A now w q oidc claims)) (\<lambda>(context, identity).
     if same_operation context identity previous then db_return (True, py_str (dget claims ''jti''))
     else db_raise (ReleaseAuthorizationError ''Continuation does not match the consumed operation'')))"

definition consume_request :: "'s authority \<Rightarrow> int \<Rightarrow> db_world \<Rightarrow> consume_payload \<Rightarrow> string \<Rightarrow> ('s, bool \<times> string) op" where
  "consume_request A now w q oidc =
     (if cr_stage q \<noteq> '''' then db_raise (ReleaseAuthorizationError ''Consumption cannot select an approval stage'')
      else
        db_bind (reading (\<lambda>_. verify_ticket (ay_signer A) (now div second) default_audience False (cr_token q) (expected_claims q))) (\<lambda>claims.
        db_bind (reading (\<lambda>_. authorize_request A now w q oidc claims)) (\<lambda>(context, identity).
        let jti = py_str (dget claims ''jti'') in
        db_bind (consume_ticket (ay_store A) jti
            (context @ [(''workflow_identity'', PDict identity), (''workflow_continuation'', PBool (continuing claims))])
            (continuing claims \<or> flag claims ''execution_repository'')) (\<lambda>won.
        db_return (won, jti)))))"

text \<open>The identity of the ticket, or the error of the response.\<close>

definition consume_authorization :: "'s authority \<Rightarrow> int \<Rightarrow> db_world \<Rightarrow> consume_payload \<Rightarrow> string \<Rightarrow> ('s, string) op" where
  "consume_authorization A now w q oidc =
     db_bind
       (db_catch
         (if cr_mode q = ''continue'' then continue_request A now w q oidc else consume_request A now w q oidc)
         (\<lambda>e. case e of
            HTTPException _ _ \<Rightarrow> db_raise e
          | ReleaseAuthorizationError _ \<Rightarrow> db_raise (HTTPException 401 ''Invalid release authorization'')
          | RuntimeError _ \<Rightarrow> db_raise (HTTPException 401 ''Invalid release authorization'')
          | _ \<Rightarrow> db_raise (HTTPException 503 ''Release authorization store unavailable''))) (\<lambda>(won, jti).
     if won then db_return jti else db_raise (HTTPException 409 ''Release authorization has already been consumed''))"

end
