(* ===== verification/JsonRoundTrip.thy ===== *)
theory JsonRoundTrip
  imports JsonReader
begin

text \<open>
  What \<open>json.dumps\<close> with sorted keys writes, \<open>json.loads\<close> reads back: the same value, its dictionaries in the order of
  their keys.
\<close>

section \<open>Strings\<close>

lemma hex_value_char: "n < 16 \<Longrightarrow> hex_value (hex_char n) = Some n"
proof -
  have "list_all (\<lambda>n. hex_value (hex_char n) = Some n) [0..<16]" by code_simp
  then show "n < 16 \<Longrightarrow> hex_value (hex_char n) = Some n" by (simp add: list_all_iff)
qed

lemma unescape_short:
  assumes "json_short (of_char c) = Some k"
  shows "k \<noteq> CHR ''u'' \<and> unescape k = Some c"
proof -
  have "list_all (\<lambda>n. case json_short n of None \<Rightarrow> True | Some k \<Rightarrow> k \<noteq> CHR ''u'' \<and> unescape k = Some (char_of n)) [0..<256]"
    by code_simp
  then have "case json_short (of_char c) of None \<Rightarrow> True | Some k \<Rightarrow> k \<noteq> CHR ''u'' \<and> unescape k = Some (char_of (of_char c :: nat))"
    using nat_of_char_less_256 [of c] by (simp only: list_all_iff set_upt) fastforce
  then show ?thesis using assms by simp
qed

lemma read_chars_escape:
  "read_chars (json_escape ascii c @ s) = (case read_chars s of None \<Rightarrow> None | Some (t, r) \<Rightarrow> Some (c # t, r))"
proof (rule json_escape_cases [where c = c and ascii = ascii], goal_cases)
  case (1 k)
  then show ?case using unescape_short by (subst read_chars.simps) (auto split: option.split)
next
  case 2
  have "(of_char c :: nat) div 16 < 16" using nat_of_char_less_256 [of c] by (simp add: less_mult_imp_div_less)
  moreover have "char_of (16 * ((of_char c :: nat) div 16) + of_char c mod 16) = c" by simp
  ultimately show ?case using 2 by (subst read_chars.simps) (simp add: hex_value_char split: option.split)
next
  case 3
  then show ?case using json_short_None [OF 3(1)]
    by (subst read_chars.simps) (auto simp: json_escape_def Let_def split: option.split if_splits)
qed

lemma read_chars_body: "read_chars (concat (map (json_escape ascii) s) @ CHR 0x22 # r) = Some (s, r)"
  by (induction s) (simp_all add: read_chars_escape, subst read_chars.simps, simp)

lemma json_str_eq: "json_str ascii s = CHR 0x22 # concat (map (json_escape ascii) s) @ [CHR 0x22]"
  by (simp add: json_str_def)

section \<open>Numbers\<close>

lemma digits_value_text: "digits_value b 0 (nat_text n) = Some (int n)"
proof -
  have "digits_value b a (s @ t) = (if list_all is_digit s \<and> s \<noteq> [] then digits_value True (foldl (\<lambda>a c. 10 * a + (int (of_char c) - 48)) a s) t
      else digits_value b a (s @ t))" for b a s t
    by (induction s arbitrary: b a) (auto split: if_splits, metis append_Nil digits_value.simps(2) foldl_Nil list.exhaust)
  note run = this
  have "foldl (\<lambda>a c. 10 * a + (int (of_char c) - 48)) 0 (nat_text n) = int n"
  proof (induction n rule: nat_text.induct)
    case (1 n)
    have "(of_char (digit_char m) :: nat) = 48 + m" if "m < 10" for m
      using that by (simp add: digit_char_def of_char_of)
    then show ?case using 1
      by (subst nat_text.simps) (auto simp: zmod_int zdiv_int; presburger)
  qed
  then show ?thesis
    using run [of b 0 "nat_text n" "[]"] nat_text_digits [of n] by simp
qed

lemma nat_text_zero: "hd (nat_text n) = CHR ''0'' \<Longrightarrow> length (nat_text n) = 1"
proof (induction n rule: nat_text.induct)
  case (1 n)
  show ?case
  proof (cases "n < 10")
    case True
    then show ?thesis by (subst nat_text.simps) simp
  next
    case False
    then have "hd (nat_text n) = hd (nat_text (n div 10))" by (subst nat_text.simps) simp
    then have z: "hd (nat_text (n div 10)) = CHR ''0''" using 1 by simp
    then have l: "length (nat_text (n div 10)) = 1" using 1(1) False by simp
    then have small: "n div 10 < 10"
      by (subst (asm) nat_text.simps) (auto split: if_splits)
    then have "nat_text (n div 10) = [digit_char (n div 10)]" by (subst nat_text.simps) simp
    then have "digit_char (n div 10) = CHR ''0''" using z by simp
    moreover have "(of_char (digit_char (n div 10)) :: nat) = 48 + n div 10" using small by (simp add: digit_char_def of_char_of)
    ultimately have "n div 10 = 0" by simp
    then show ?thesis using False by simp
  qed
qed

text \<open>What may follow a value.\<close>

definition ends_value :: "string \<Rightarrow> bool" where
  "ends_value r = (r = [] \<or> hd r \<in> {CHR '','', CHR '']'', CHR ''}''})"

lemma ends_no_digit: "ends_value r \<Longrightarrow> takeWhile is_digit r = [] \<and> dropWhile is_digit r = r \<and> (r \<noteq> [] \<longrightarrow> hd r \<notin> {CHR ''.'', CHR ''e'', CHR ''E''})"
  by (cases r) (auto simp: ends_value_def is_digit_def)

lemma read_digits_text:
  assumes "ends_value r"
  shows "read_digits (nat_text n @ r) = Some (int n, r)"
proof -
  have d: "\<forall>c \<in> set (nat_text n). is_digit c" using nat_text_digits by (simp add: list_all_iff)
  show ?thesis
    using ends_no_digit [OF assms] nat_text_zero [of n]
    by (auto simp: read_digits_def Let_def takeWhile_append2 [OF d [rule_format]] dropWhile_append2 [OF d [rule_format]] digits_value_text)
qed

lemma int_text_head: "\<exists>c cs. int_text i = c # cs \<and> (is_digit c \<or> c = CHR ''-'')"
  using nat_text_digits [of "nat i"] by (cases "nat_text (nat i)") (auto simp: int_text_def)

lemma read_number_text: "ends_value r \<Longrightarrow> read_number (int_text i @ r) = Some (i, r)"
proof -
  assume r: "ends_value r"
  obtain c cs where c: "nat_text (nat i) = c # cs" "is_digit c"
    using nat_text_digits [of "nat i"] by (cases "nat_text (nat i)") auto
  then have "c \<noteq> CHR ''-''" by (auto simp: is_digit_def)
  then show ?thesis
    using c read_digits_text [OF r, of "nat i"] read_digits_text [OF r, of "nat (- i)"]
    by (auto simp: read_number_def int_text_def)
qed

section \<open>Values\<close>

text \<open>The value that is read back, and what values are dictionaries throughout.\<close>

fun in_key_order :: "pyval \<Rightarrow> pyval" where
  "in_key_order (PList xs) = PList (map in_key_order xs)"
| "in_key_order (PDict d) = PDict (sort_key fst (map (\<lambda>kv. (fst kv, in_key_order (snd kv))) d))"
| "in_key_order v = v"

fun keys_distinct :: "pyval \<Rightarrow> bool" where
  "keys_distinct (PList xs) = list_all keys_distinct xs"
| "keys_distinct (PDict d) = (distinct (map fst d) \<and> list_all (\<lambda>kv. keys_distinct (snd kv)) d)"
| "keys_distinct v = True"

lemma sort_key_map_snd: "sort_key fst (map (\<lambda>kv. (fst kv, f (snd kv))) d) = map (\<lambda>kv. (fst kv, f (snd kv))) (sort_key fst d)"
proof -
  have ins: "insort_key fst (fst x, f (snd x)) (map (\<lambda>kv. (fst kv, f (snd kv))) ys) =
      map (\<lambda>kv. (fst kv, f (snd kv))) (insort_key fst x ys)" for x ys
    by (induction ys) auto
  show ?thesis by (induction d) (simp_all add: ins)
qed

lemma dict_set_new: "k \<notin> fst ` set e \<Longrightarrow> dict_set k v e = e @ [(k, v)]"
  by (induction e) auto

lemma join_Cons: "join s (x # xs) = (if xs = [] then x else x @ s @ join s xs)"
  by (cases xs) simp_all

lemma dumps_head: "\<exists>c cs. json_dumps a True v = c # cs \<and> (\<forall>xs. skip_blank (c # xs) = c # xs) \<and> c \<noteq> CHR '']''"
proof (cases v)
  case (PInt i)
  then show ?thesis using int_text_head [of i] by (auto simp: is_digit_def)
qed (auto simp: json_str_eq Let_def)

lemma read_items_dumps:
  assumes "\<And>v n r. v \<in> set vs \<Longrightarrow> ends_value r \<Longrightarrow> 2 * length (json_dumps a True v) \<le> n \<Longrightarrow>
      read_value u n (json_dumps a True v @ r) = Some (g v, r)"
    and "vs \<noteq> []" "2 * length (join '','' (map (json_dumps a True) vs)) + 1 \<le> n"
  shows "read_items u n (join '','' (map (json_dumps a True) vs) @ CHR '']'' # r) = Some (map g vs, r)"
  using assms
proof (induction vs arbitrary: n)
  case (Cons v vs)
  obtain m where n: "n = Suc m" using Cons.prems(3) by (cases n) auto
  show ?case
  proof (cases "vs = []")
    case True
    then show ?thesis using Cons.prems(1) [of v "CHR '']'' # r" m] Cons.prems(3) n by (simp add: ends_value_def)
  next
    case False
    let ?rest = "join '','' (map (json_dumps a True) vs) @ CHR '']'' # r"
    have "read_value u m (json_dumps a True v @ CHR '','' # ?rest) = Some (g v, CHR '','' # ?rest)"
      using Cons.prems(1) [of v "CHR '','' # ?rest" m] Cons.prems(3) n False by (simp add: ends_value_def join_Cons)
    moreover have "read_items u m ?rest = Some (map g vs, r)"
      by (rule Cons.IH) (use Cons.prems n False in \<open>auto simp: join_Cons\<close>)
    ultimately show ?thesis using n False by (simp add: join_Cons)
  qed
qed simp

lemma read_fields_dumps:
  assumes "\<And>k v n r. (k, v) \<in> set d \<Longrightarrow> ends_value r \<Longrightarrow> 2 * length (json_dumps a True v) \<le> n \<Longrightarrow>
      read_value u n (json_dumps a True v @ r) = Some (g v, r)"
    and "d \<noteq> []" "2 * length (join '','' (map (\<lambda>kv. json_str a (fst kv) @ '':'' @ json_dumps a True (snd kv)) d)) + 1 \<le> n"
    and "distinct (map fst (e @ d))"
  shows "read_fields u n e (join '','' (map (\<lambda>kv. json_str a (fst kv) @ '':'' @ json_dumps a True (snd kv)) d) @ CHR ''}'' # r) =
    Some (e @ map (\<lambda>kv. (fst kv, g (snd kv))) d, r)"
  using assms
proof (induction d arbitrary: n e)
  case (Cons kv d)
  obtain k v where kv: "kv = (k, v)" by (cases kv)
  obtain m where n: "n = Suc m" using Cons.prems(3) by (cases n) auto
  have key: "read_chars (concat (map (json_escape a) k) @ CHR 0x22 # s) = Some (k, s)" for s by (rule read_chars_body)
  have new: "\<not> has_key e k" "dict_set k (g v) e = e @ [(k, g v)]"
    using Cons.prems(4) kv by (auto simp: has_key_iff dict_set_new)
  show ?case
  proof (cases "d = []")
    case True
    then show ?thesis
      using Cons.prems(1) [of k v "CHR ''}'' # r" m] Cons.prems(3) n kv new key
      by (simp add: ends_value_def json_str_eq)
  next
    case False
    let ?rest = "join '','' (map (\<lambda>kv. json_str a (fst kv) @ '':'' @ json_dumps a True (snd kv)) d) @ CHR ''}'' # r"
    have "read_value u m (json_dumps a True v @ CHR '','' # ?rest) = Some (g v, CHR '','' # ?rest)"
      using Cons.prems(1) [of k v "CHR '','' # ?rest" m] Cons.prems(3) n kv False by (simp add: ends_value_def join_Cons)
    moreover have "read_fields u m (e @ [(k, g v)]) ?rest = Some ((e @ [(k, g v)]) @ map (\<lambda>kv. (fst kv, g (snd kv))) d, r)"
      by (rule Cons.IH) (use Cons.prems n kv False in \<open>auto simp: join_Cons\<close>)
    ultimately show ?thesis using n kv False new key by (simp add: join_Cons json_str_eq)
  qed
qed simp

lemma number_head: "is_digit c \<or> c = CHR ''-'' \<Longrightarrow>
    c \<notin> {CHR '' '', CHR 0x09, CHR 0x0A, CHR 0x0D, CHR 0x22, CHR ''['', CHR ''{'', CHR ''n'', CHR ''t'', CHR ''f''}"
  by (auto simp: is_digit_def)

lemma distinct_sort_fst: "distinct (map fst d) \<Longrightarrow> distinct (map fst (sort_key fst d))"
  by (simp add: distinct_map)

lemma read_value_dumps:
  "keys_distinct v \<Longrightarrow> ends_value r \<Longrightarrow> 2 * length (json_dumps a True v) \<le> n \<Longrightarrow>
   read_value u n (json_dumps a True v @ r) = Some (in_key_order v, r)"
proof (induction v arbitrary: n r)
  case (PInt i)
  obtain c cs where c: "int_text i = c # cs" "is_digit c \<or> c = CHR ''-''" using int_text_head by blast
  obtain m where n: "n = Suc m" using PInt.prems c by (cases n) auto
  have dump: "json_dumps a True (PInt i) @ r = c # cs @ r" using c by simp
  have num: "read_number (c # cs @ r) = Some (i, r)" using read_number_text [OF PInt.prems(2), of i] c(1) by simp
  show ?case unfolding dump n using number_head [OF c(2)] num by simp
next
  case (PStr s)
  obtain m where "n = Suc m" using PStr by (cases n) (auto simp: json_str_eq)
  then show ?case by (simp add: json_str_eq read_chars_body)
next
  case (PList vs)
  obtain m where n: "n = Suc m" using PList.prems by (cases n) auto
  show ?case
  proof (cases vs)
    case Nil
    then show ?thesis using n by simp
  next
    case (Cons v ws)
    have items: "read_items u m (join '','' (map (json_dumps a True) vs) @ CHR '']'' # r) = Some (map in_key_order vs, r)"
      using PList Cons n by (intro read_items_dumps) (auto simp: list_all_iff)
    let ?t = "join '','' (map (json_dumps a True) vs) @ CHR '']'' # r"
    obtain c cs where c: "json_dumps a True v = c # cs" "\<forall>xs. skip_blank (c # xs) = c # xs" "c \<noteq> CHR '']''"
      using dumps_head by blast
    then obtain xs where "?t = c # xs" using Cons by (cases "ws = []") (auto simp: join_Cons)
    moreover have "skip_blank ?t = ?t" using c(2) calculation by simp
    ultimately have "json_dumps a True (PList vs) @ r = CHR ''['' # ?t" "skip_blank ?t = c # xs" "?t = c # xs" by simp_all
    then show ?thesis using n items c(3) by simp
  qed
next
  case (PDict d)
  let ?d = "sort_key fst d"
  let ?g = "\<lambda>kv. json_str a (fst kv) @ '':'' @ json_dumps a True (snd kv)"
  have dump: "json_dumps a True (PDict d) = ''{'' @ join '','' (map ?g ?d) @ ''}''"
    by (simp add: sort_key_map_snd o_def)
  have order: "in_key_order (PDict d) = PDict (map (\<lambda>kv. (fst kv, in_key_order (snd kv))) ?d)"
    by (simp add: sort_key_map_snd)
  obtain m where n: "n = Suc m" using PDict.prems by (cases n) auto
  show ?case
  proof (cases "?d = []")
    case True
    then show ?thesis using n unfolding dump order by simp
  next
    case False
    have "distinct (map fst ?d)"
      using PDict.prems(1) by (simp add: distinct_sort_fst)
    then have fields: "read_fields u m [] (join '','' (map ?g ?d) @ CHR ''}'' # r) =
        Some (map (\<lambda>kv. (fst kv, in_key_order (snd kv))) ?d, r)"
      using read_fields_dumps [of ?d a u in_key_order m "[]" r] PDict False n dump by (fastforce simp: list_all_iff)
    obtain xs where "join '','' (map ?g ?d) @ CHR ''}'' # r = CHR 0x22 # xs"
      using False by (cases ?d; cases "tl ?d = []") (auto simp: join_Cons json_str_eq)
    then show ?thesis using n fields unfolding dump order by simp
  qed
qed (case_tac n; auto simp: read_word_def split: if_splits)+

text \<open>A dumped value reads back.\<close>

theorem loads_dumps: "keys_distinct v \<Longrightarrow> json_loads u (json_dumps a True v) = Inr (in_key_order v)"
  using read_value_dumps [of v "[]" a "2 * length (json_dumps a True v) + 2" u]
  by (simp add: json_loads_def ends_value_def)

lemma map_of_in_order:
  fixes d :: "(string \<times> 'b) list"
  assumes "distinct (map fst d)"
  shows "map_of (map (\<lambda>kv. (fst kv, f (snd kv))) (sort_key fst d)) k = map_option f (map_of d k)"
proof -
  have "map_of (sort_key fst d) = map_of d"
    using assms by (intro map_of_inject_set [THEN iffD2]) (simp_all add: distinct_sort_fst)
  moreover have "map_of (map (\<lambda>kv. (fst kv, f (snd kv))) xs) k = map_option f (map_of xs k)" for xs :: "(string \<times> 'b) list"
    by (induction xs) auto
  ultimately show ?thesis by simp
qed

end
