(* ===== verification/AuthorizationTokens.thy ===== *)
theory AuthorizationTokens
  imports Authorizations JsonRoundTrip "HOL-Library.Sublist"
begin

text \<open>
  What a token says: the segments that \<open>issue\<close> writes are the ones that verification reads, and the text that is signed
  determines the claims.
\<close>

section \<open>Segments\<close>

lemma split_char_plain: "c \<notin> set s \<Longrightarrow> split_char c s = [s]"
  by (induction s) auto

lemma split_char_append: "c \<notin> set s \<Longrightarrow> split_char c (s @ c # t) = s # split_char c t"
  by (induction s) auto

lemma split_char_nonempty: "split_char c s \<noteq> []"
  by (induction s) (auto split: list.split)

lemma split_char_parts: "x \<in> set (split_char c s) \<Longrightarrow> c \<notin> set x"
  by (induction s arbitrary: x) (auto split: list.splits if_splits)

lemma split_at_first: "c \<notin> set a \<Longrightarrow> c \<notin> set x \<Longrightarrow> a @ c # b = x @ c # y \<Longrightarrow> a = x \<and> b = y"
proof (induction a arbitrary: x)
  case Nil
  then show ?case by (cases x) auto
next
  case (Cons d a)
  then show ?case by (cases x) auto
qed

lemma ascii_simps [simp]: "is_ascii [] = True" "is_ascii (c # s) = (of_char c < (128 :: nat) \<and> is_ascii s)"
    "is_ascii (s @ t) = (is_ascii s \<and> is_ascii t)"
  by (simp_all add: is_ascii_def)

lemma utf8_text_ascii: "is_ascii s \<Longrightarrow> utf8_text s = Inr s"
  by (induction s) (simp_all add: Let_def)

lemma hex_char_ascii: "n < 16 \<Longrightarrow> of_char (hex_char n) < (128 :: nat)"
proof -
  define good where "good n = (of_char (hex_char n) < (128 :: nat))" for n
  have "list_all good [0..<16]" unfolding good_def by code_simp
  then show "n < 16 \<Longrightarrow> of_char (hex_char n) < (128 :: nat)"
    unfolding list_all_iff set_upt good_def by auto
qed

lemma json_short_ascii: "json_short n = Some k \<Longrightarrow> of_char k < (128 :: nat)"
  by (auto simp: json_short_def split: if_splits)

lemma escape_ascii: "is_ascii (json_escape True c)"
proof -
  have "(of_char c :: nat) div 16 < 16" using nat_of_char_less_256 [of c] by (simp add: less_mult_imp_div_less)
  then show ?thesis
    by (auto simp: json_escape_def Let_def hex_char_ascii json_short_ascii split: option.split)
qed

lemma json_str_ascii: "is_ascii (json_str True s)"
  by (induction s) (simp_all add: json_str_eq escape_ascii)

lemma digit_ascii: "list_all is_digit s \<Longrightarrow> is_ascii s"
  by (induction s) (auto simp: is_digit_def Let_def)

lemma int_text_ascii: "is_ascii (int_text i)"
  using digit_ascii [OF nat_text_digits] by (simp add: int_text_def)

lemma join_ascii: "is_ascii s \<Longrightarrow> list_all is_ascii xs \<Longrightarrow> is_ascii (join s xs)"
  by (induction xs) (auto simp: join_Cons)

lemma dumps_ascii: "is_ascii (json_dumps True srt v)"
proof (induction v)
  case (PList xs)
  then show ?case by (auto simp: list_all_iff intro!: join_ascii)
next
  case (PDict d)
  then show ?case by (auto simp: Let_def list_all_iff json_str_ascii intro!: join_ascii)
qed (auto simp: json_str_ascii int_text_ascii)

section \<open>Tokens\<close>

lemma segment_dotless: "CHR ''.'' \<notin> set (json_segment d)"
  using b64encode_chars by (auto simp: json_segment_def)

theorem read_segment_json: "keys_distinct (PDict d) \<Longrightarrow> read_segment (json_segment d) = Inr (in_key_order (PDict d))"
  by (simp add: read_segment_def json_segment_def b64_round_trip utf8_text_ascii dumps_ascii loads_dumps del: json_dumps.simps in_key_order.simps)

definition read_header :: pyval where
  "read_header = in_key_order (PDict token_header)"

lemma header_read: "read_segment (json_segment token_header) = Inr read_header"
  unfolding read_header_def by (rule read_segment_json) (simp add: token_header_def)

lemma header_accepted: "\<not> py_ne read_header (PDict token_header)"
  by code_simp

lemma token_parts_signed:
  assumes "keys_distinct (PDict claims)"
  shows "token_parts (signed_token claims sig) = Inr (read_header, in_key_order (PDict claims), signing_input claims, sig)"
proof -
  have d: "CHR ''.'' \<notin> set (b64encode sig)" using b64encode_chars by blast
  have "split_char (CHR ''.'') (signed_token claims sig) = [json_segment token_header, json_segment claims, b64encode sig]"
    by (simp add: signed_token_def signing_input_def split_char_append segment_dotless split_char_plain [OF d])
  then show ?thesis
    by (simp add: token_parts_def read_segment_json [OF assms] header_read b64_round_trip signing_input_def del: in_key_order.simps)
qed

text \<open>Conversely, a token whose signed text is the one of some claims carries these claims.\<close>

lemma token_parts_of_input:
  assumes "token_parts token = Inr (header, payload, signing_input claims, sig)" "keys_distinct (PDict claims)"
  shows "payload = in_key_order (PDict claims)"
proof -
  obtain h p s where split: "split_char (CHR ''.'') token = [h, p, s]"
    and parts: "read_segment p = Inr payload" "signing_input claims = h @ ''.'' @ p"
    using assms(1) unfolding token_parts_def by (auto split: list.splits sum.splits)
  have "CHR ''.'' \<notin> set h" using split_char_parts [of h "CHR ''.''" token] split by simp
  then have "json_segment token_header = h \<and> json_segment claims = p"
    using parts(2) segment_dotless [of token_header] split_at_first [of "CHR ''.''" "json_segment token_header" h "json_segment claims" p]
    by (simp add: signing_input_def)
  then show ?thesis using parts(1) read_segment_json [OF assms(2)] by simp
qed

section \<open>Claims\<close>

lemma grant_claims: "release_claims cf now current r w = Inr grant \<Longrightarrow>
    grant = [] \<or> (\<exists>i. grant = [(''mcp_grant_id'', PStr i), (''mcp_authority_policy'', PStr ''mcp-uniform-v1'')])"
  by (auto simp: release_claims_def then_result_Inr split: option.splits if_splits)

definition claim_names :: "string list" where
  "claim_names =
     [''iss'', ''aud'', ''iat'', ''exp'', ''jti'', ''repository'', ''service_name'', ''tag'', ''sha'', ''github_deployment_id'',
      ''requested_by'', ''kind'', ''execution_mode''] @ [''mcp_grant_id'', ''mcp_authority_policy''] @ [''release_id''] @
     [''artifact_digest''] @ [''target''] @ [''operation''] @ [''target_revision''] @ [''configuration_hash''] @
     [''execution_repository''] @ [''capability_issued''] @ [''workflow_continuation'']"

lemma subseq_distinct: "subseq xs ys \<Longrightarrow> distinct ys \<Longrightarrow> distinct xs"
  by (induction rule: list_emb.induct) (auto dest: list_emb_set)

lemma optional_keys: "subseq (map fst (optional_claim k v)) [k]" "subseq (map fst (true_claim k b)) [k]"
  by (simp_all add: optional_claim_def true_claim_def)

lemma ticket_claims_distinct:
  assumes "grant = [] \<or> (\<exists>i. grant = [(''mcp_grant_id'', PStr i), (''mcp_authority_policy'', PStr ''mcp-uniform-v1'')])"
  shows "distinct (map fst (ticket_claims seconds jti grant h t))"
proof -
  have "subseq (map fst grant) [''mcp_grant_id'', ''mcp_authority_policy'']" using assms by auto
  then have "subseq (map fst (ticket_claims seconds jti grant h t)) claim_names"
    unfolding ticket_claims_def claim_names_def map_append
    by (intro list_emb_append_mono optional_keys) (simp_all add: base_claims_def)
  moreover have "distinct claim_names" by code_simp
  ultimately show ?thesis by (rule subseq_distinct)
qed

lemma ticket_claims_plain:
  assumes "grant = [] \<or> (\<exists>i. grant = [(''mcp_grant_id'', PStr i), (''mcp_authority_policy'', PStr ''mcp-uniform-v1'')])"
  shows "keys_distinct (PDict (ticket_claims seconds jti grant h t))"
proof -
  have "list_all (\<lambda>kv. keys_distinct (snd kv)) (ticket_claims seconds jti grant h t)"
    using assms by (auto simp: ticket_claims_def base_claims_def optional_claim_def true_claim_def)
  then show ?thesis using ticket_claims_distinct [OF assms] by simp
qed

text \<open>What the claims say of the ticket.\<close>

lemma map_of_optional: "map_of (optional_claim k v @ d) j = (if j = k \<and> v \<noteq> '''' then Some (PStr v) else map_of d j)"
    "map_of (true_claim k b @ d) j = (if j = k \<and> b then Some (PBool True) else map_of d j)"
    "map_of (optional_claim k v) j = (if j = k \<and> v \<noteq> '''' then Some (PStr v) else None)"
    "map_of (true_claim k b) j = (if j = k \<and> b then Some (PBool True) else None)"
  by (auto simp: optional_claim_def true_claim_def)

lemma ticket_claims_base:
  "map_of (base_claims seconds jti t) k = Some v \<Longrightarrow> map_of (ticket_claims seconds jti grant h t) k = Some v"
  by (simp add: ticket_claims_def map_add_def)

lemma ticket_dget:
  assumes "claims = ticket_claims seconds jti grant h t"
  shows "map_of claims ''iss'' = Some (PStr ''engineering-platform'')" "map_of claims ''aud'' = Some (PStr (ti_audience t))"
    "map_of claims ''iat'' = Some (PInt seconds)" "map_of claims ''exp'' = Some (PInt (seconds + token_ttl))"
    "map_of claims ''jti'' = Some (PStr jti)" "map_of claims ''repository'' = Some (PStr (ti_repository t))"
    "map_of claims ''service_name'' = Some (PStr (ti_service t))" "map_of claims ''tag'' = Some (PStr (ti_tag t))"
    "map_of claims ''sha'' = Some (PStr (ti_sha t))" "map_of claims ''github_deployment_id'' = Some (PStr (int_text (ti_deployment t)))"
    "map_of claims ''kind'' = Some (PStr (ti_kind t))"
  unfolding assms by (rule ticket_claims_base, simp add: base_claims_def)+

lemma ticket_optional:
  assumes "claims = ticket_claims seconds jti grant h t"
    and "grant = [] \<or> (\<exists>i. grant = [(''mcp_grant_id'', PStr i), (''mcp_authority_policy'', PStr ''mcp-uniform-v1'')])"
  shows "map_of claims ''target_revision'' = (if ti_target_revision t \<noteq> '''' then Some (PStr (ti_target_revision t)) else None)"
    "map_of claims ''execution_repository'' = (if ti_execution_repository t \<noteq> '''' then Some (PStr (ti_execution_repository t)) else None)"
    "map_of claims ''workflow_continuation'' = (if ti_continuation t then Some (PBool True) else None)"
proof -
  have base: "map_of (base_claims seconds jti t @ d) k = map_of d k" if "k \<notin> set (take 13 claim_names)" for k d
    using that by (simp add: base_claims_def claim_names_def)
  have grant: "map_of (grant @ d) k = map_of d k" if "k \<notin> {''mcp_grant_id'', ''mcp_authority_policy''}" for k d
    using assms(2) that by auto
  have "map_of claims k = map_of (optional_claim ''release_id'' (ti_release t) @
      optional_claim ''artifact_digest'' (ti_artifact_digest t) @ optional_claim ''target'' (ti_target t) @
      optional_claim ''operation'' (ti_operation t) @ optional_claim ''target_revision'' (ti_target_revision t) @
      optional_claim ''configuration_hash'' h @ optional_claim ''execution_repository'' (ti_execution_repository t) @
      true_claim ''capability_issued'' (ti_capability t) @ true_claim ''workflow_continuation'' (ti_continuation t)) k"
    if "k \<notin> set (take 13 claim_names)" "k \<notin> {''mcp_grant_id'', ''mcp_authority_policy''}" for k
    unfolding assms(1) ticket_claims_def base [OF that(1)] grant [OF that(2)] ..
  note tail = this
  show "map_of claims ''target_revision'' = (if ti_target_revision t \<noteq> '''' then Some (PStr (ti_target_revision t)) else None)"
    "map_of claims ''execution_repository'' = (if ti_execution_repository t \<noteq> '''' then Some (PStr (ti_execution_repository t)) else None)"
    "map_of claims ''workflow_continuation'' = (if ti_continuation t then Some (PBool True) else None)"
    by (subst tail, simp add: claim_names_def, simp, simp only: map_of_optional, simp)+
qed

section \<open>Issued tickets\<close>

lemma issue_Inr:
  assumes "issue G bc cf now jti current w t = Inr (token, claims)"
  obtains grant h sig where "release_claims cf now current (ti_requested_by t) w = Inr grant" "hash_claim t = Inr h"
    "claims = ticket_claims (now div second) jti grant h t" "sg_sign G (signing_input claims) = Inr sig"
    "token = signed_token claims sig" "ti_continuation t \<longrightarrow> may_continue t h"
  using assms unfolding issue_def by (auto simp: then_result_Inr Let_def split: if_splits)

lemma issued_plain: "issue G bc cf now jti current w t = Inr (token, claims) \<Longrightarrow> keys_distinct (PDict claims)"
  using ticket_claims_plain [OF grant_claims] by (metis issue_Inr)

text \<open>The claims that are read are the ones that were issued, in another order.\<close>

lemma order_lookup:
  assumes "keys_distinct (PDict claims)" "list_all (\<lambda>kv. in_key_order (snd kv) = snd kv) claims"
  obtains c where "in_key_order (PDict claims) = PDict c" "\<And>k. map_of c k = map_of claims k"
proof -
  let ?c = "sort_key fst (map (\<lambda>kv. (fst kv, in_key_order (snd kv))) claims)"
  have "map (\<lambda>kv. (fst kv, in_key_order (snd kv))) claims = claims"
    using assms(2) by (intro map_idI) (auto simp: list_all_iff prod_eq_iff)
  then have "map_of ?c k = map_of claims k" for k
    using map_of_in_order [of claims id k] assms(1) by (simp add: option.map_id)
  then show thesis using that [of ?c] by simp
qed

lemma ticket_claims_scalar: "grant = [] \<or> (\<exists>i. grant = [(''mcp_grant_id'', PStr i), (''mcp_authority_policy'', PStr ''mcp-uniform-v1'')]) \<Longrightarrow>
    list_all (\<lambda>kv. in_key_order (snd kv) = snd kv) (ticket_claims seconds jti grant h t)"
  by (auto simp: ticket_claims_def base_claims_def optional_claim_def true_claim_def)

lemma issued_read:
  assumes "issue G bc cf now jti current w t = Inr (token, claims)"
  obtains c where "in_key_order (PDict claims) = PDict c" "\<And>k. map_of c k = map_of claims k"
proof -
  obtain grant h where g: "release_claims cf now current (ti_requested_by t) w = Inr grant" "claims = ticket_claims (now div second) jti grant h t"
    using assms by (metis issue_Inr)
  show thesis
    using order_lookup [OF issued_plain [OF assms]] ticket_claims_scalar [OF grant_claims [OF g(1)]] that unfolding g(2) by metis
qed

end
