(* ===== verification/AuthorizationProperties.thy ===== *)
theory AuthorizationProperties
  imports AuthorizationTokens
begin

text \<open>
  The properties of release authorizations: what is issued verifies, what is accepted was issued, one consumption per ticket
  however calls interleave, and a continuation is one of the operation that consumed the ticket.
\<close>

section \<open>Verification of issued tickets\<close>

lemma lookups_same:
  assumes "\<And>k. map_of c k = map_of d k"
  shows "dget c k = dget d k" "dget_or c k v = dget_or d k v" "flag c k = flag d k" "is_str c k s = is_str d k s"
  using assms by (simp_all add: dget_def dget_or_def flag_def is_str_def)

lemma claims_match_same: "(\<And>k. map_of c k = map_of d k) \<Longrightarrow> claims_match expected c = claims_match expected d"
  by (induction expected) (auto simp: dget_or_def)

lemma claims_current_same: "(\<And>k. map_of c k = map_of d k) \<Longrightarrow> claims_current seconds audience b c = claims_current seconds audience b d"
proof -
  assume same: "\<And>k. map_of c k = map_of d k"
  have continues: "continuing c = continuing d" by (simp add: continuing_def lookups_same [OF same])
  show ?thesis unfolding claims_current_def lookups_same [OF same] continues ..
qed

lemma issued_current:
  assumes "issue G bc cf now jti current w t = Inr (token, claims)"
  shows "claims_current seconds audience b claims \<longleftrightarrow>
    audience = ti_audience t \<and> jti \<noteq> '''' \<and> now div second - 30 \<le> seconds \<and>
    (seconds \<le> now div second + token_ttl \<or> (b \<and> ti_continuation t))"
proof -
  obtain grant h where g: "release_claims cf now current (ti_requested_by t) w = Inr grant" "claims = ticket_claims (now div second) jti grant h t"
    using assms by (metis issue_Inr)
  note look = ticket_dget [OF g(2)] ticket_optional [OF g(2) grant_claims [OF g(1)]]
  have c: "continuing claims = ti_continuation t" by (simp add: continuing_def dget_def look)
  have f: "flag claims ''jti'' = (jti \<noteq> '''')" by (simp add: flag_def dget_def look)
  show ?thesis
    unfolding claims_current_def c f
    by (auto simp: is_str_def dget_def look token_ttl_def)
qed

lemma verify_issued:
  assumes "issue G bc cf now jti current w t = Inr (token, claims)"
    and "\<And>sig. sg_sign G (signing_input claims) = Inr sig \<Longrightarrow> sg_check G sig (signing_input claims)"
  obtains c where "\<And>k. map_of c k = map_of claims k"
    "\<And>seconds audience b expected. verify_ticket G seconds audience b token expected =
      (if claims_current seconds audience b claims then then_result (claims_match expected claims) (\<lambda>_. Inr c)
       else Inl (ReleaseAuthorizationError ''Expired or invalid release authorization''))"
proof -
  obtain sig where sig: "sg_sign G (signing_input claims) = Inr sig" "token = signed_token claims sig"
    using assms(1) by (metis issue_Inr)
  obtain c where c: "in_key_order (PDict claims) = PDict c" "\<And>k. map_of c k = map_of claims k"
    using issued_read [OF assms(1)] by blast
  have parts: "token_parts token = Inr (read_header, PDict c, signing_input claims, sig)"
    using token_parts_signed [OF issued_plain [OF assms(1)]] by (simp add: sig(2) c(1) del: in_key_order.simps)
  show thesis
  proof (rule that [OF c(2)])
    show "verify_ticket G seconds audience b token expected =
      (if claims_current seconds audience b claims then then_result (claims_match expected claims) (\<lambda>_. Inr c)
       else Inl (ReleaseAuthorizationError ''Expired or invalid release authorization''))" for seconds audience b expected
      using assms(2) [OF sig(1)] header_accepted
      by (simp add: verify_ticket_def parts attr_dict_def claims_current_same [OF c(2)] claims_match_same [OF c(2)])
  qed
qed

text \<open>
  C25: A ticket verifies exactly during its lifetime: from thirty seconds before it was issued, for clocks that differ, to
  five minutes after, for the audience it was issued for, and when it says what the caller expects.  Verification then
  returns every claim as it was issued: the JSON text, the Base64 segments and the signature lose nothing.
\<close>

theorem issued_ticket_verifies:
  assumes "issue G bc cf now jti current w t = Inr (token, claims)"
    and "\<And>m sig. sg_sign G m = Inr sig \<Longrightarrow> sg_check G sig m"
  shows "\<exists>c. (\<forall>k. map_of c k = map_of claims k) \<and>
    (\<forall>seconds audience expected. verify_ticket G seconds audience False token expected =
      (if audience = ti_audience t \<and> jti \<noteq> '''' \<and> now div second - 30 \<le> seconds \<and> seconds \<le> now div second + token_ttl
       then then_result (claims_match expected claims) (\<lambda>_. Inr c)
       else Inl (ReleaseAuthorizationError ''Expired or invalid release authorization'')))"
proof -
  obtain c where "\<And>k. map_of c k = map_of claims k"
    "\<And>seconds audience b expected. verify_ticket G seconds audience b token expected =
      (if claims_current seconds audience b claims then then_result (claims_match expected claims) (\<lambda>_. Inr c)
       else Inl (ReleaseAuthorizationError ''Expired or invalid release authorization''))"
    using verify_issued [OF assms(1) assms(2)] by blast
  then show ?thesis using issued_current [OF assms(1)] by (intro exI [of _ c]) simp
qed

section \<open>Acceptance\<close>





lemma op_Inr:
  "db_raise e s = (Inr x, v) \<longleftrightarrow> False" "db_return x s = (Inr y, v) \<longleftrightarrow> y = x \<and> v = s"
  by (auto simp: db_raise_def db_return_def)

lemma catch_Inr:
  assumes "\<And>e v. fst (h e v) \<noteq> Inr y"
  shows "db_catch m h s = (Inr y, v) \<longleftrightarrow> m s = (Inr y, v)"
  using assms by (auto simp: db_catch_def split: prod.splits sum.splits) (metis fst_conv)+

lemma get_ticket_frame: "get_ticket T j b s = (r, v) \<Longrightarrow> v = s"
  by (auto simp: get_ticket_def with_store_def reading_def db_return_def db_raise_def split: if_splits)

lemma consume_authorization_Inr:
  "consume_authorization A now w q oidc s = (Inr jti, s') \<longleftrightarrow>
   (if cr_mode q = ''continue'' then continue_request A now w q oidc else consume_request A now w q oidc) s = (Inr (True, jti), s')"
proof -
  have "db_catch m (\<lambda>e. case e of HTTPException _ _ \<Rightarrow> db_raise e | ReleaseAuthorizationError _ \<Rightarrow> db_raise (HTTPException 401 ''Invalid release authorization'')
      | RuntimeError _ \<Rightarrow> db_raise (HTTPException 401 ''Invalid release authorization'')
      | _ \<Rightarrow> db_raise (HTTPException 503 ''Release authorization store unavailable'')) s = (Inr y, v) \<longleftrightarrow> m s = (Inr y, v)"
    for m :: "('s, bool \<times> string) op" and s y v
    by (rule catch_Inr) (simp add: db_raise_def split: py_err.split)
  note this [simp]
  show ?thesis
    by (auto simp: consume_authorization_def db_bind_Inr op_Inr split: if_splits)
qed

text \<open>What the endpoint did when it answered with a ticket.\<close>

lemma continued_cases:
  assumes "consume_authorization A now w q oidc s = (Inr jti, s')" "cr_mode q = ''continue''"
  obtains claims ctx identity previous where
    "verify_ticket (ay_signer A) (now div second) default_audience True (cr_token q) (expected_claims q) = Inr claims"
    "authorize_request A now w q oidc claims = Inr (ctx, identity)" "jti = py_str (dget claims ''jti'')"
    "continuing claims" "get_ticket (ay_store A) jti True s = (Inr (Some previous), s)" "previous \<noteq> []"
    "\<not> flag previous ''revoked''" "continuing previous" "\<not> py_ne (dget previous ''exp'') (dget claims ''exp'')"
    "same_operation ctx identity previous" "s' = s"
proof -
  have run: "continue_request A now w q oidc s = (Inr (True, jti), s')"
    using assms by (simp add: consume_authorization_Inr)
  then obtain claims previous v where v: "verify_continuation A (now div second) (cr_token q) (expected_claims q) s = (Inr (claims, previous), v)"
    and rest: "db_bind (reading (\<lambda>_. authorize_request A now w q oidc claims)) (\<lambda>(ctx, identity).
      if same_operation ctx identity previous then db_return (True, py_str (dget claims ''jti''))
      else db_raise (ReleaseAuthorizationError ''Continuation does not match the consumed operation'')) v = (Inr (True, jti), s')"
    unfolding continue_request_def by (auto simp: db_bind_Inr)
  obtain ctx identity where a: "authorize_request A now w q oidc claims = Inr (ctx, identity)" "same_operation ctx identity previous"
      "jti = py_str (dget claims ''jti'')" "s' = v"
    using rest by (auto simp: db_bind_Inr reading_Inr op_Inr split: if_splits)
  obtain found where f: "verify_ticket (ay_signer A) (now div second) default_audience True (cr_token q) (expected_claims q) = Inr claims"
      "continuing claims" "get_ticket (ay_store A) (py_str (dget claims ''jti'')) True s = (Inr found, v)"
      "found = Some previous \<and> previous \<noteq> [] \<and> \<not> flag previous ''revoked'' \<and> continuing previous \<and> \<not> py_ne (dget previous ''exp'') (dget claims ''exp'')"
    using v unfolding verify_continuation_def Let_def
    by (fastforce simp: db_bind_Inr reading_Inr op_Inr split: if_splits option.splits dest: get_ticket_frame)
  have "v = s" by (rule get_ticket_frame [OF f(3)])
  then show thesis using that f a by simp
qed



section \<open>Consumption\<close>

















text \<open>A ticket that was revoked before anybody consumed it can still be bound: the record of the revocation is taken for one of a
  consumption.\<close>

theorem revoked_ticket_bound:
  assumes "document_backend (ts_backend T)" "\<not> volatile (ts_backend T)" "ts_project T" "load (ts_backend T) s j = None" "j \<noteq> ''''"
  shows "fst (bind_ticket T j binding b (snd (revoke_ticket T j s))) = Inr True"
  using assms(2-5)
  by (simp add: revoke_ticket_def bind_ticket_def with_store_def document_backend.load_put [OF assms(1)] transact_def
      bind_decision_def compatible_binding_def dget_def Let_def split: option.split sum.split)

section \<open>Continuation\<close>

lemma same_operation_expected:
  assumes "same_operation ctx identity previous" "request_context q claims = Inr ctx"
  shows "(k, v) \<in> set (expected_claims q) \<Longrightarrow> is_str previous k v" "is_str previous ''target_revision'' (cr_target_revision q)"
proof -
  have same: "(k, v) \<in> set ctx \<Longrightarrow> \<not> py_ne (dget previous k) v" for k v
    using assms(1) by (auto simp: same_operation_def list_all_iff)
  have str: "\<not> py_ne w (PStr x) \<Longrightarrow> w = PStr x" for w x
    by (cases w) (auto simp: py_ne_def)
  show "(k, v) \<in> set (expected_claims q) \<Longrightarrow> is_str previous k v"
    using assms(2) same [of k "PStr v"] str by (force simp: request_context_def then_result_Inr is_str_def)
  show "is_str previous ''target_revision'' (cr_target_revision q)"
    using assms(2) same [of "''target_revision''" "PStr (cr_target_revision q)"] str by (auto simp: request_context_def then_result_Inr is_str_def)
qed

text \<open>
  C24: A continuation is accepted only for a ticket of a staged release that was consumed and not revoked: the stored
  consumption names the same release and revision, and the same workflow run -- the identity that GitHub signs now, in the
  environment whose approval the stage needs, is the one of the run that consumed the ticket.  It changes nothing in the store.
\<close>

theorem continuation_same_operation:
  assumes "consume_authorization A now w q oidc s = (Inr jti, s')" "cr_mode q = ''continue''"
  shows "s' = s \<and> (\<exists>previous identity. load (ts_backend (ay_store A)) s jti = Some previous \<and> \<not> flag previous ''revoked'' \<and>
    continuing previous \<and> list_all (\<lambda>(k, v). is_str previous k v) (expected_claims q) \<and>
    is_str previous ''target_revision'' (cr_target_revision q) \<and>
    verify_platform (ay_decode A) oidc (cr_repository q) (cr_kind q) (cr_tag q) (cr_sha q) ''continue'' (cr_stage q) = Inr identity \<and>
    py_eq (dget previous ''workflow_identity'') (PDict identity))"
proof -
  obtain claims ctx identity previous where a:
    "authorize_request A now w q oidc claims = Inr (ctx, identity)" "continuing claims"
    "get_ticket (ay_store A) jti True s = (Inr (Some previous), s)" "\<not> flag previous ''revoked''" "continuing previous"
    "same_operation ctx identity previous" "s' = s"
    by (rule continued_cases [OF assms]) (rule that)
  have "load (ts_backend (ay_store A)) s jti = Some previous"
    using a(3) by (auto simp: get_ticket_def with_store_def reading_def db_return_def db_raise_def split: if_splits option.splits)
  moreover have "verify_platform (ay_decode A) oidc (cr_repository q) (cr_kind q) (cr_tag q) (cr_sha q) ''continue'' (cr_stage q) = Inr identity"
    and ctx: "request_context q claims = Inr ctx"
    using a(1,2) assms(2)
    by (auto simp: authorize_request_def request_identity_def workflow_of_def authorization_error_def then_result_Inr Let_def split: if_splits)
  moreover note same_operation_expected [OF a(6) ctx]
  moreover have "py_eq (dget previous ''workflow_identity'') (PDict identity)" using a(6) by (simp add: same_operation_def)
  ultimately show ?thesis using a(4,5,7) by (auto simp: list_all_iff)
qed

section \<open>A release\<close>

definition open_build :: build_config where
  "open_build = \<lparr>bc_settings = \<lparr>mock_mode = False, cloud_build_enabled = True, new_builds_enabled = True\<rparr>,
     bc_enabled = True, bc_services = [], bc_canaries = [], bc_project = ''p'', bc_account = ''a'', bc_node_image = '''',
     bc_python_image = '''', bc_go_image = '''', bc_planner_image = '''', bc_postgres_image = '''', bc_repositories = [],
     bc_api_url = ''u'', bc_bucket = ''b'', bc_schema = PNone, bc_profiles = [], bc_observed = Some []\<rparr>"

definition closed_control :: db_config where
  "closed_control = \<lparr>cf_mock = False, cf_enabled = False, cf_executions = False, cf_mcp = False, cf_session_secret = '''',
     cf_client_id = '''', cf_client_secret = '''', cf_frontend_url = '''', cf_mcp_base_url = '''', cf_mcp_collection = '''',
     cf_access_ttl = 0, cf_refresh_ttl = 0, cf_policy_version = '''', cf_project = '''', cf_bucket = '''', cf_collection = '''',
     cf_location = '''', cf_query_queue = '''', cf_export_queue = '''', cf_cleanup_queue = '''', cf_worker = '''', cf_api_origin = '''',
     cf_registry_sha256 = '''', cf_logins = [], cf_registry = None\<rparr>"

definition staged_ticket :: ticket where
  "staged_ticket = \<lparr>ti_repository = ''o/r'', ti_service = ''cgm-artemis-web'', ti_tag = ''v1.0.0'',
     ti_sha = ''aaaaaaaaaaaaaaaaaaaaaaaaaaaaaaaaaaaaaaaa'', ti_deployment = 7, ti_requested_by = ''Dev'', ti_kind = ''deploy'',
     ti_target_revision = '''', ti_execution_repository = '''', ti_configuration = None, ti_release = '''', ti_artifact_digest = '''',
     ti_target = '''', ti_operation = '''', ti_audience = default_audience, ti_execution_mode = ''github-actions'',
     ti_configuration_hash = ''aaaaaaaaaaaaaaaaaaaaaaaaaaaaaaaaaaaaaaaaaaaaaaaaaaaaaaaaaaaaaaaa'', ti_capability = False,
     ti_continuation = True\<rparr>"

definition staged_claims :: doc where
  "staged_claims = ticket_claims 1000 ''j1'' [] (ti_configuration_hash staged_ticket) staged_ticket"

definition demo_signer :: signer where
  "demo_signer = \<lparr>sg_sign = (\<lambda>_. Inr ''s''), sg_check = (\<lambda>sig m. m = signing_input staged_claims)\<rparr>"

definition staged_token :: string where
  "staged_token = signed_token staged_claims ''s''"

definition no_grants :: db_world where
  "no_grants = \<lparr>session_docs = [], workspace_docs = [], job_docs = [], request_docs = [], budget = None, policy = None,
     objects = {}, blocked = {}, outbox = []\<rparr>"

definition workflow_claims :: "string \<Rightarrow> string \<Rightarrow> doc" where
  "workflow_claims subject environment =
     [(''repository'', PStr ''o/r''), (''ref'', PStr ''refs/tags/v1.0.0''),
      (''workflow_ref'', PStr ''o/r/.github/workflows/platform-deploy.yml@refs/tags/v1.0.0''), (''event_name'', PStr ''workflow_dispatch''),
      (''sub'', PStr (''repo:o/r:'' @ subject)), (''environment'', PStr environment),
      (''sha'', PStr ''aaaaaaaaaaaaaaaaaaaaaaaaaaaaaaaaaaaaaaaa''), (''run_id'', PStr ''11''), (''run_attempt'', PStr ''1'')]"

definition demo_authority :: "mem authority" where
  "demo_authority = \<lparr>ay_signer = demo_signer,
     ay_store = \<lparr>ts_backend = mem_backend\<lparr>volatile := False\<rparr>, ts_project = True, ts_mock = False\<rparr>,
     ay_decode = (\<lambda>_ token. Some (if token = ''k'' then workflow_claims ''environment:candidate'' ''candidate''
       else workflow_claims ''ref:refs/tags/v1.0.0'' '''')),
     ay_build = open_build, ay_control = closed_control, ay_logins = [''dev'']\<rparr>"

definition staged_request :: "string \<Rightarrow> string \<Rightarrow> consume_payload" where
  "staged_request mode stage = \<lparr>cr_mode = mode, cr_stage = stage, cr_token = staged_token, cr_repository = ''o/r'',
     cr_service = ''cgm-artemis-web'', cr_tag = ''v1.0.0'', cr_sha = ''aaaaaaaaaaaaaaaaaaaaaaaaaaaaaaaaaaaaaaaa'',
     cr_deployment = ''7'', cr_kind = ''deploy'', cr_target_revision = '''',
     cr_configuration_hash = ''aaaaaaaaaaaaaaaaaaaaaaaaaaaaaaaaaaaaaaaaaaaaaaaaaaaaaaaaaaaaaaaa''\<rparr>"

lemma issue_staged:
  assumes "sg_sign G (signing_input staged_claims) = Inr ''s''"
  shows "issue G open_build closed_control (1000 * second) ''j1'' None no_grants staged_ticket = Inr (staged_token, staged_claims)"
proof -
  have "may_continue staged_ticket (ti_configuration_hash staged_ticket)" by code_simp
  moreover have "require_managed_service_name open_build (ti_service staged_ticket) = Inr ()" by code_simp
  moreover have "hash_claim staged_ticket = Inr (ti_configuration_hash staged_ticket)" by code_simp
  moreover have "1000 * second div second = 1000" by (simp add: second_def)
  ultimately show ?thesis
    using assms by (simp add: issue_def release_claims_def staged_token_def flip: staged_claims_def)
qed

lemma staged_issue: "issue demo_signer open_build closed_control (1000 * second) ''j1'' None no_grants staged_ticket = Inr (staged_token, staged_claims)"
  by (rule issue_staged) (simp add: demo_signer_def)


definition sorted_claims :: doc where
  "sorted_claims =
     [(''aud'', PStr ''github-release-workflow''),
      (''configuration_hash'', PStr ''aaaaaaaaaaaaaaaaaaaaaaaaaaaaaaaaaaaaaaaaaaaaaaaaaaaaaaaaaaaaaaaa''),
      (''execution_mode'', PStr ''github-actions''), (''exp'', PInt 1300), (''github_deployment_id'', PStr ''7''), (''iat'', PInt 1000),
      (''iss'', PStr ''engineering-platform''), (''jti'', PStr ''j1''), (''kind'', PStr ''deploy''), (''repository'', PStr ''o/r''),
      (''requested_by'', PStr ''Dev''), (''service_name'', PStr ''cgm-artemis-web''),
      (''sha'', PStr ''aaaaaaaaaaaaaaaaaaaaaaaaaaaaaaaaaaaaaaaa''), (''tag'', PStr ''v1.0.0''), (''workflow_continuation'', PBool True)]"

lemma sorted_read: "in_key_order (PDict staged_claims) = PDict sorted_claims"
  by code_simp

lemma demo_verify:
  "verify_ticket demo_signer seconds audience b staged_token expected =
    (if claims_current seconds audience b sorted_claims then then_result (claims_match expected sorted_claims) (\<lambda>_. Inr sorted_claims)
     else Inl (ReleaseAuthorizationError ''Expired or invalid release authorization''))"
proof -
  have "token_parts staged_token = Inr (read_header, PDict sorted_claims, signing_input staged_claims, ''s'')"
    using token_parts_signed [OF issued_plain [OF staged_issue], of "''s''"] by (simp only: staged_token_def sorted_read)
  then show ?thesis using header_accepted by (simp add: verify_ticket_def attr_dict_def demo_signer_def)
qed

definition staged_identity :: doc where
  "staged_identity =
     [(''repository'', PStr ''o/r''), (''ref'', PStr ''refs/tags/v1.0.0''),
      (''workflow_ref'', PStr ''o/r/.github/workflows/platform-deploy.yml@refs/tags/v1.0.0''),
      (''sha'', PStr ''aaaaaaaaaaaaaaaaaaaaaaaaaaaaaaaaaaaaaaaa''), (''run_id'', PStr ''11''), (''run_attempt'', PStr ''1'')]"

definition staged_context :: doc where
  "staged_context =
     [(''repository'', PStr ''o/r''), (''service_name'', PStr ''cgm-artemis-web''), (''tag'', PStr ''v1.0.0''),
      (''sha'', PStr ''aaaaaaaaaaaaaaaaaaaaaaaaaaaaaaaaaaaaaaaa''), (''github_deployment_id'', PStr ''7''), (''kind'', PStr ''deploy''),
      (''exp'', PInt 1300), (''requested_by'', PStr ''Dev''),
      (''configuration_hash'', PStr ''aaaaaaaaaaaaaaaaaaaaaaaaaaaaaaaaaaaaaaaaaaaaaaaaaaaaaaaaaaaaaaaa''),
      (''target_revision'', PStr ''''), (''mcp_grant_id'', PStr ''''), (''mcp_authority_policy'', PStr '''')]"

definition staged_record :: doc where
  "staged_record = staged_context @ [(''workflow_identity'', PDict staged_identity), (''workflow_continuation'', PBool True)]"

lemma demo_expected:
  "expected_claims (staged_request mode stage) =
     [(''repository'', ''o/r''), (''service_name'', ''cgm-artemis-web''), (''tag'', ''v1.0.0''),
      (''sha'', ''aaaaaaaaaaaaaaaaaaaaaaaaaaaaaaaaaaaaaaaa''), (''github_deployment_id'', ''7''), (''kind'', ''deploy'')]"
  by (simp add: expected_claims_def staged_request_def)

lemma demo_facts:
  "claims_current 1000 default_audience False sorted_claims" "claims_current 5000 default_audience True sorted_claims"
  "claims_match (expected_claims (staged_request ''consume'' '''')) sorted_claims = Inr ()"
  "claims_match (expected_claims (staged_request ''continue'' ''candidate'')) sorted_claims = Inr ()"
  "continuing sorted_claims" "py_str (dget sorted_claims ''jti'') = ''j1''"
  unfolding demo_expected by code_simp+

lemma platform_facts:
  "decode_claims (ay_decode demo_authority) True ''c'' = Inr (workflow_claims ''ref:refs/tags/v1.0.0'' '''')"
  "decode_claims (ay_decode demo_authority) True ''k'' = Inr (workflow_claims ''environment:candidate'' ''candidate'')"
  by (simp_all add: decode_claims_def demo_authority_def)

lemma reference_facts:
  "platform_reference ''deploy'' ''v1.0.0'' = ''refs/tags/v1.0.0''"
  "platform_workflow ''o/r'' ''deploy'' ''refs/tags/v1.0.0'' = ''o/r/.github/workflows/platform-deploy.yml@refs/tags/v1.0.0''"
  "stage_environment ''deploy'' ''consume'' '''' = Inr ''''" "stage_environment ''deploy'' ''continue'' ''candidate'' = Inr ''candidate''"
  by code_simp+

lemma claims_facts:
  assumes "(subject, environment) \<in> {(''ref:refs/tags/v1.0.0'', ''''), (''environment:candidate'', ''candidate'')}"
  shows "subjects_of (workflow_claims subject environment) ''o/r'' subject = Inr [''repo:o/r:'' @ subject]"
    "claims_are [(''repository'', ''o/r''), (''ref'', ''refs/tags/v1.0.0''),
        (''workflow_ref'', ''o/r/.github/workflows/platform-deploy.yml@refs/tags/v1.0.0'')] (workflow_claims subject environment) = Inr True"
    "claims_are [(''event_name'', ''workflow_dispatch'')] (workflow_claims subject environment) = Inr True"
    "dget_or (workflow_claims subject environment) ''job_workflow_ref''
        (PStr ''o/r/.github/workflows/platform-deploy.yml@refs/tags/v1.0.0'') = PStr ''o/r/.github/workflows/platform-deploy.yml@refs/tags/v1.0.0''"
    "need (workflow_claims subject environment) ''sub'' = Inr (PStr (''repo:o/r:'' @ subject))"
    "in_set (PStr (''repo:o/r:'' @ subject)) [''repo:o/r:'' @ subject] = Inr True"
    "platform_run_ok ''deploy'' ''aaaaaaaaaaaaaaaaaaaaaaaaaaaaaaaaaaaaaaaa'' environment (workflow_claims subject environment) = Inr True"
    "claim_texts [''repository'', ''ref'', ''workflow_ref'', ''sha'', ''run_id'', ''run_attempt''] (workflow_claims subject environment) = Inr staged_identity"
  using assms by (elim insertE emptyE; simp only: prod.inject; code_simp)+


lemma demo_platform:
  "verify_platform (ay_decode demo_authority) ''c'' ''o/r'' ''deploy'' ''v1.0.0'' ''aaaaaaaaaaaaaaaaaaaaaaaaaaaaaaaaaaaaaaaa'' ''consume'' '''' = Inr staged_identity"
  "verify_platform (ay_decode demo_authority) ''k'' ''o/r'' ''deploy'' ''v1.0.0'' ''aaaaaaaaaaaaaaaaaaaaaaaaaaaaaaaaaaaaaaaa'' ''continue'' ''candidate'' = Inr staged_identity"
proof -
  have kind: "release_kind ''deploy''" by (simp add: release_kind_def)
  have consumed: "(''ref:refs/tags/v1.0.0'', '''') \<in> {(''ref:refs/tags/v1.0.0'', ''''), (''environment:candidate'', ''candidate'')}"
    and continued: "(''environment:candidate'', ''candidate'') \<in> {(''ref:refs/tags/v1.0.0'', ''''), (''environment:candidate'', ''candidate'')}"
    by simp_all
  have subject: "''ref:'' @ ''refs/tags/v1.0.0'' = ''ref:refs/tags/v1.0.0''" "''environment:'' @ ''candidate'' = ''environment:candidate''"
      "''repo:'' @ ''o/r'' @ '':'' @ s = ''repo:o/r:'' @ s" for s
    by simp_all
  note facts = platform_facts reference_facts then_result_simps Let_def kind if_False if_True simp_thms subject HOL.refl list.distinct
  show "verify_platform (ay_decode demo_authority) ''c'' ''o/r'' ''deploy'' ''v1.0.0'' ''aaaaaaaaaaaaaaaaaaaaaaaaaaaaaaaaaaaaaaaa'' ''consume'' '''' = Inr staged_identity"
    by (simp only: verify_platform_def facts claims_facts [OF consumed] append_Nil2)
  show "verify_platform (ay_decode demo_authority) ''k'' ''o/r'' ''deploy'' ''v1.0.0'' ''aaaaaaaaaaaaaaaaaaaaaaaaaaaaaaaaaaaaaaaa'' ''continue'' ''candidate'' = Inr staged_identity"
    by (simp only: verify_platform_def facts claims_facts [OF continued] append_Nil2)
qed


lemma sorted_facts:
  "flag sorted_claims ''mcp_grant_id'' = False" "flag sorted_claims ''execution_repository'' = False"
  "check_operator [''dev''] sorted_claims = Inr ()" "dget_or sorted_claims ''target_revision'' (PStr '''') = PStr ''''"
  "dget sorted_claims ''configuration_hash'' = PStr ''aaaaaaaaaaaaaaaaaaaaaaaaaaaaaaaaaaaaaaaaaaaaaaaaaaaaaaaaaaaaaaaa''"
  "dget_or sorted_claims ''requested_by'' (PStr '''') = PStr ''Dev''" "dget_or sorted_claims ''mcp_grant_id'' (PStr '''') = PStr ''''"
  "dget_or sorted_claims ''configuration_hash'' (PStr '''') = PStr ''aaaaaaaaaaaaaaaaaaaaaaaaaaaaaaaaaaaaaaaaaaaaaaaaaaaaaaaaaaaaaaaa''"
  "dget_or sorted_claims ''mcp_authority_policy'' (PStr '''') = PStr ''''" "need sorted_claims ''exp'' = Inr (PInt 1300)"
  by code_simp+

lemma demo_context: "request_context (staged_request mode stage) sorted_claims = Inr staged_context"
  by (simp add: request_context_def demo_expected sorted_facts staged_context_def) (simp add: staged_request_def)

lemma demo_authorized:
  "authorize_request demo_authority now w (staged_request ''consume'' '''') ''c'' sorted_claims = Inr (staged_context, staged_identity)"
  "authorize_request demo_authority now w (staged_request ''continue'' ''candidate'') ''k'' sorted_claims = Inr (staged_context, staged_identity)"
proof -
  have logins: "ay_logins demo_authority = [''dev'']" and build: "ay_build demo_authority = open_build" by (simp_all add: demo_authority_def)
  have managed: "require_managed_service_name open_build ''cgm-artemis-web'' = Inr ()" by code_simp
  have fields: "cr_target_revision (staged_request m g) = ''''" "cr_service (staged_request m g) = ''cgm-artemis-web''"
      "cr_repository (staged_request m g) = ''o/r''" "cr_kind (staged_request m g) = ''deploy''" "cr_tag (staged_request m g) = ''v1.0.0''"
      "cr_sha (staged_request m g) = ''aaaaaaaaaaaaaaaaaaaaaaaaaaaaaaaaaaaaaaaa''" "cr_mode (staged_request m g) = m" "cr_stage (staged_request m g) = g"
      "cr_configuration_hash (staged_request m g) = ''aaaaaaaaaaaaaaaaaaaaaaaaaaaaaaaaaaaaaaaaaaaaaaaaaaaaaaaaaaaaaaaa''" for m g
    by (simp_all add: staged_request_def)
  have service: "starts_with ''cgm-artemis-'' ''cgm-artemis-web''" by code_simp
  note facts = authorize_request_def check_grant_def request_identity_def workflow_of_def sorted_facts demo_context demo_facts(5) logins build managed
    fields service demo_platform Let_def then_result_simps if_True if_False simp_thms HOL.refl
  show "authorize_request demo_authority now w (staged_request ''consume'' '''') ''c'' sorted_claims = Inr (staged_context, staged_identity)"
    "authorize_request demo_authority now w (staged_request ''continue'' ''candidate'') ''k'' sorted_claims = Inr (staged_context, staged_identity)"
    by (simp_all only: facts)
qed

lemma request_modes: "cr_mode (staged_request m g) = m" "cr_stage (staged_request m g) = g" "cr_token (staged_request m g) = staged_token"
  by (simp_all add: staged_request_def)

lemma demo_seconds: "1000 * second div second = 1000" "5000 * second div second = 5000"
  by (simp_all add: second_def)


lemma demo_record:
  "staged_record \<noteq> []" "flag staged_record ''revoked'' = False" "continuing staged_record"
  "py_ne (dget staged_record ''exp'') (dget sorted_claims ''exp'') = False" "same_operation staged_context staged_identity staged_record"
  by code_simp+

lemma demo_continued:
  "consume_authorization demo_authority (5000 * second) no_grants (staged_request ''continue'' ''candidate'') ''k'' [(''j1'', staged_record)] =
   (Inr ''j1'', [(''j1'', staged_record)])"
proof -
  have v: "verify_ticket (ay_signer demo_authority) 5000 default_audience True staged_token (expected_claims (staged_request ''continue'' ''candidate'')) = Inr sorted_claims"
    using demo_facts by (simp add: demo_authority_def demo_verify)
  have g: "get_ticket (ay_store demo_authority) ''j1'' True [(''j1'', staged_record)] = (Inr (Some staged_record), [(''j1'', staged_record)])"
    by (simp add: get_ticket_def with_store_def demo_authority_def mem_load_def reading_def)
  have "verify_continuation demo_authority 5000 staged_token (expected_claims (staged_request ''continue'' ''candidate'')) [(''j1'', staged_record)] =
      (Inr (sorted_claims, staged_record), [(''j1'', staged_record)])"
    using demo_facts(5,6) demo_record by (simp add: verify_continuation_def v g db_bind_def reading_def db_return_def Let_def)
  then have "continue_request demo_authority (5000 * second) no_grants (staged_request ''continue'' ''candidate'') ''k'' [(''j1'', staged_record)] =
      (Inr (True, ''j1''), [(''j1'', staged_record)])"
    using demo_facts(6) demo_record
    by (simp add: continue_request_def request_modes demo_seconds demo_authorized db_bind_def reading_def db_return_def)
  then show ?thesis by (simp add: consume_authorization_Inr request_modes)
qed

section \<open>Witnesses\<close>

theorem issued_ticket_verifies_witness:
  "\<exists>c. map_of c ''tag'' = Some (PStr ''v1.0.0'') \<and>
    verify_ticket (demo_signer\<lparr>sg_check := \<lambda>_ _. True\<rparr>) 1300 default_audience False staged_token [(''tag'', ''v1.0.0'')] = Inr c \<and>
    verify_ticket (demo_signer\<lparr>sg_check := \<lambda>_ _. True\<rparr>) 1301 default_audience False staged_token [(''tag'', ''v1.0.0'')] =
      Inl (ReleaseAuthorizationError ''Expired or invalid release authorization'')"
proof -
  let ?G = "demo_signer\<lparr>sg_check := \<lambda>_ _. True\<rparr>"
  have i: "issue ?G open_build closed_control (1000 * second) ''j1'' None no_grants staged_ticket = Inr (staged_token, staged_claims)"
    by (rule issue_staged) (simp add: demo_signer_def)
  have audience: "ti_audience staged_ticket = default_audience" by (simp add: staged_ticket_def)
  have "map_of staged_claims ''tag'' = Some (PStr ''v1.0.0'')"
    using ticket_dget(8) [OF staged_claims_def] by (simp add: staged_ticket_def)
  moreover from this have "claims_match [(''tag'', ''v1.0.0'')] staged_claims = Inr ()" by (simp add: dget_or_def)
  moreover obtain c where "\<forall>k. map_of c k = map_of staged_claims k"
    "\<forall>seconds audience expected. verify_ticket ?G seconds audience False staged_token expected =
      (if audience = default_audience \<and> ''j1'' \<noteq> '''' \<and> 970 \<le> seconds \<and> seconds \<le> 1300
       then then_result (claims_match expected staged_claims) (\<lambda>_. Inr c)
       else Inl (ReleaseAuthorizationError ''Expired or invalid release authorization''))"
    using issued_ticket_verifies [OF i] by (auto simp: demo_seconds audience token_ttl_def)
  ultimately show ?thesis by (intro exI [of _ c]) simp
qed



theorem continuation_same_operation_witness:
  "\<exists>identity. verify_platform (ay_decode demo_authority) ''k'' ''o/r'' ''deploy'' ''v1.0.0'' ''aaaaaaaaaaaaaaaaaaaaaaaaaaaaaaaaaaaaaaaa'' ''continue'' ''candidate'' = Inr identity \<and>
     py_eq (dget staged_record ''workflow_identity'') (PDict identity)"
proof -
  have "load (ts_backend (ay_store demo_authority)) [(''j1'', staged_record)] ''j1'' = Some staged_record"
    by (simp add: demo_authority_def mem_load_def)
  then show ?thesis
    using continuation_same_operation [OF demo_continued request_modes(1)] by (auto simp: staged_request_def)
qed

end
