(* ===== verification/Spec2Isabelle.thy ===== *)
theory Spec2Isabelle
  imports ReleaseProperties PolicyProperties DeploymentProperties CircuitProperties LogBudgetProperties
    DatabaseProperties McpProperties OrchestratorProperties ExecutorProperties AuthorizationProperties
begin

text \<open>
  Verification of the control plane of the engineering platform API: the durable services under
  \<open>src/src/eng_platform_api/services\<close>.  Each of them keeps documents in Firestore, is called by any number of
  replicas at once, and promises properties of what is stored: identities that do not change, claims that have one
  winner, budgets that are not exceeded, results that are published under live authority only.

  \<^bold>\<open>Foundations.\<close>  \<open>Prelude\<close> has the exceptions, results as sums and dictionaries as association
  lists; \<open>PyValue\<close> the untyped values of stored documents with Python's operations on them; \<open>Codec\<close> the JSON
  text and the SHA-256 digests that identities are made of; \<open>DocStore\<close> the two branches of every store, the
  process-local dictionary and the Firestore transaction, as a \<open>backend\<close> with the laws of the locale
  \<open>document_backend\<close>, and the contracts of exclusive claims (\<open>single_winner\<close>, \<open>one_shot\<close>); \<open>Effects\<close> the
  sequencing of operations that may raise, and \<open>Runs\<close> a calculus for handlers that are sequences of steps of a relation.

  \<^bold>\<open>Release executions\<close> (\<open>release_executions.py\<close>): \<open>ReleaseChecks\<close> has the decision layer (status machine, identity
  checks, fingerprint), \<open>ReleaseStore\<close>, \<open>ReleaseClaims\<close> and \<open>ReleaseRecovery\<close> one definition per function,
  under its name.  \<open>ReleaseHistory\<close> defines histories, any interleaving of the operations; \<open>ReleaseStatus\<close>,
  \<open>ReleaseIdentity\<close>, \<open>ReleaseLocks\<close>, \<open>ReleaseExclusive\<close> and \<open>ReleaseInvariants\<close> prove what histories keep, and
  \<open>ReleaseProperties\<close> states it.

  \<^bold>\<open>Policies\<close> (\<open>cloud_build_policy.py\<close>, \<open>provider_selection.py\<close>, \<open>repository_identity.py\<close>, \<open>quality_profiles.py\<close>):
  \<open>Policies\<close> and \<open>PolicyProperties\<close>.  \<^bold>\<open>Deployments\<close> (\<open>deployment_executions.py\<close>): \<open>Deployments\<close> and
  \<open>DeploymentProperties\<close>.  \<^bold>\<open>Circuits\<close> (\<open>executor_circuits.py\<close>): \<open>Circuits\<close> and \<open>CircuitProperties\<close>.

  \<^bold>\<open>Log budget\<close> (\<open>log_budget.py\<close>): \<open>LogBudget\<close> has the record, its validation, the decisions and the compare-and-swap
  loop; \<open>LogBudgetRecords\<close> shows that whatever is written validates again, \<open>LogBudgetHistory\<close> follows permits
  and waiters through every history of commits, \<open>LogBudgetProperties\<close> states the properties.

  \<^bold>\<open>Database jobs\<close> (\<open>database_jobs.py\<close> with \<open>database_sessions.py\<close>, \<open>mcp_grants.py\<close>, \<open>database_tasks.py\<close>,
  \<open>database_job_store.py\<close> and the reader check of \<open>security.py\<close>): \<open>DatabaseControl\<close> has the configuration, the
  documents, the operations' monad and the policy; \<open>DatabaseSessions\<close> who may act; \<open>DatabaseJobs\<close> the budget,
  claims and the finishing transaction; \<open>DatabaseWorkers\<close> the handlers, workers, cleanup and the sweep.
  \<open>DatabaseSteps\<close> is the abstract protocol, one rule per transaction with arbitrary arguments, and the proof that
  every handler is a sequence of its steps; so what the steps keep holds under every interleaving at the
  granularity of transactions.  \<open>DatabaseInvariants\<close> (storage and permits, through the interface \<open>kept\<close>),
  \<open>DatabaseLifecycle\<close> (a job only moves on), \<open>DatabaseAuthority\<close> (revoked sessions, claims, what workers leave
  behind) and \<open>DatabaseRequests\<close> (repeated requests) carry \<open>DatabaseProperties\<close>.

  \<^bold>\<open>MCP OAuth\<close> (\<open>mcp_auth.py\<close>, \<open>mcp_store.py\<close>, \<open>_principal\<close> of \<open>mcp_server.py\<close>): \<open>McpAuth\<close> has the private store, one
  definition per handler of the provider and the principal of a request.  Its grants are the sessions of the
  database control store, which it contains and whose transactions it takes.  \<open>McpHistory\<close> defines the atomic accesses
  (\<open>mcp_step\<close>) and follows grants and credentials through every interleaving of them; \<open>McpProperties\<close> states that
  rotation, redemption and revocation are final and that an authorization leads to exactly what was authorized.

  \<^bold>\<open>Release builds\<close> (\<open>release_cloud_build.py\<close>, with \<open>quality_profiles.py\<close> and \<open>resource_access.py\<close>):
  \<open>BuildProfiles\<close> has the managed services, profiles and pinned images, \<open>BuildRequests\<close> the build documents and the
  substitutions by which a build is recognised, \<open>ReleaseBuilds\<close> submission, binding, and cancellation over the release
  store, \<open>BootstrapBuilds\<close> the one-time bootstrap build and all recovery.  \<open>BuildHistory\<close> splits \<open>submit\<close> into its five
  accesses of the world, shows that a worker that runs undisturbed does what \<open>submit\<close> does (\<open>submit_is_worker_run\<close>), and
  interleaves any number of workers with the operations of the store; \<open>BuildProperties\<close> states that one request is posted,
  that what was posted is found again and nothing else is, and that the recovery ends.

  \<^bold>\<open>The release plane\<close> (\<open>release_orchestrator.py\<close>, \<open>release_reconciler.py\<close>, lookups of \<open>catalog.py\<close>): \<open>ReleasePlane\<close> has
  the world of the handlers -- the store and builds of the transport, the circuits, and the calls made to GitHub -- and
  what all of them share: the released services of a repository, reservation and check runs.  \<open>ReleaseOrchestrator\<close> has the
  webhooks, releases started, cancelled, approved and superseded, and the health probe; \<open>ReleaseReconciler\<close> every branch of
  \<open>reconcile\<close>.  They call the definitions of the release store, the transport and the circuits as the code does.  What
  GitHub and Cloud Build answer, the reports of the quality store, and the float arithmetic of build times are given by the
  \<open>site\<close>.  \<open>OrchestratorProperties\<close> states one provider per start, evidence before quality, verified builds only, that a
  reconciliation ends, and where the handlers do not fit together.

  \<^bold>\<open>Release profiles\<close> (\<open>release_profiles.py\<close>, \<open>PROFILE_SPECS\<close> of the executor): \<open>ReleaseProfiles\<close> has both tables and
  both fingerprints.  \<^bold>\<open>The release executor\<close> (\<open>docker/release-executor/release_executor.py\<close>), the program that a release
  build runs: \<open>JsonReader\<close> is the reader of the JSON it receives; \<open>ExecutorEngine\<close> its environment, event sequence and
  local flags, commands, events and production traffic; \<open>ExecutorToken\<close> the exchange that mints identity tokens;
  \<open>ExecutorRuntime\<close> profile, source, quality evidence, image and hooks; \<open>ExecutorCandidate\<close> the candidate, smoke checks
  and runtime grants; \<open>ExecutorReleases\<close> and \<open>ExecutorJobs\<close> releases and rollbacks of services, runtimes and jobs;
  \<open>ExecutorPhases\<close> staged candidates, and \<open>ExecutorMain\<close> their promotion, the gates and \<open>main\<close>.  Files, commands,
  HTTP and the YAML reader are the record \<open>outside\<close>.  \<open>ExecutorLaws\<close> says what is documented of them (\<open>traffic_laws\<close>:
  only updates of the traffic move it, a description that succeeds reports it, an update to one revision that succeeds
  gives it everything; an update that fails may have done anything) and shows which steps leave production alone,
  \<open>ExecutorOutcomes\<close> follows the traffic through whole releases by Hoare triples, and \<open>ExecutorProperties\<close> states where
  it is at the end, what must hold before it moves, whom the credentials reach, and that both tables of profiles agree.

  \<^bold>\<open>Release authorizations\<close> (\<open>release_authorization.py\<close>, \<open>release_authorization_store.py\<close>, \<open>workflow_identity.py\<close>,
  \<open>release_workflow_identity.py\<close>, \<open>routers/release_authorizations.py\<close>): \<open>Base64\<close> and \<open>JsonRoundTrip\<close> show that segments and
  JSON text lose nothing; \<open>WorkflowIdentity\<close> has the checks of a GitHub workflow, \<open>Authorizations\<close> issuing, verification, the
  store of tickets and the endpoint; \<open>AuthorizationTokens\<close> that the signed text determines the claims.
  \<open>AuthorizationProperties\<close> states that what is issued verifies, that only what was issued is accepted, if signatures cannot
  be forged (\<open>unforgeable\<close>), and that a ticket is consumed once and continued only by the run that consumed it.

  \<^bold>\<open>How the state corresponds.\<close>  Release, deployment and circuit documents are dictionaries of untyped values, as the
  code treats them; log budget records are validated dictionaries and database documents are records, whose fields
  are the ones the code writes.  A transaction is one function on the store: it reads, decides and writes, or raises
  and writes nothing.  Clock readings, random tokens and identities are arguments.  Database and log times are whole
  microseconds, and one clock reading serves one operation of the database jobs.  Strings are 8-bit.

  \<^bold>\<open>Recursion.\<close>  Every definition terminates but one: the search of the bootstrap recovery follows the page tokens
  it is given, so \<open>collect_matches\<close> is a partial function, where \<open>None\<close> is running for ever, and
  \<open>reconcile_terminates\<close> proves of the
  whole reconciliation that it does not if there are finitely many tokens.  The compare-and-swap loop of the log budget runs over a list of at most
  three attempts, as \<open>MAX_CAS_ATTEMPTS\<close> has it, and the claiming transaction of the database jobs over at most three,
  as \<open>max_attempts\<close> has it; the list holds what other replicas committed between the attempts.  The JSON reader has twice the
  length of the text as fuel, and every step takes a character; the executor's waits count down as many attempts as the
  code makes.

  \<^bold>\<open>What is assumed.\<close>  The laws of \<open>document_backend\<close> for Firestore; and, per theorem, what is written there: that a
  store is one the operations can reach, that fresh identities are unused, that the identity of a deleted document
  is not issued again, and that the report of a query is within the bytes its writer may store.  The work of a
  query or an export is an argument, as is the registry that was loaded, the login that GitHub reports, the
  answers of Cloud Build, and whether the task queue and the bucket accept calls.  That a posted build reports the
  source, account and substitutions it was posted with is a hypothesis of the recovery theorems (\<open>reports\<close>).

  \<^bold>\<open>What is not modelled.\<close>  The sorted views of database results and the streams that page and download them, the SQL and
  workbook drivers, and the cleanup deadlines of \<open>database_jobs.py\<close>; the propagation lease of the circuits and the
  monthly minutes of the deployments, which are floating point; the tools of the MCP server, its consent page and the
  PKCE check, which the library makes; and the other routers, cloud clients,
  deployment dispatch, the quality executor and scripts around these services, which keep no state of their own beside them.  Of
  the orchestration: the \<open>workflow_run\<close> webhook, the recovery from a verified GitHub run and the probe callback.
\<close>

end
